(* ===== verification/Prelude.thy ===== *)
theory Prelude
  imports Complex_Main
begin

text \<open>
  The vocabulary every component shares: the result type of a service function, Python's
  truthiness and string helpers, decimals with their banker's rounding, UTC timestamps and
  calendar years, and tables of rows with the interface (a locale) the components use them by.
\<close>

section \<open>Collections of facts\<close>

named_theorems res_simps \<open>inversion of successful results\<close>
named_theorems frame_simps \<open>tables an operation leaves alone\<close>
named_theorems op_defs \<open>definitions of the services, for unfolding on concrete data\<close>

section \<open>Results\<close>

text \<open>
  \<open>ApiError code status\<close> is \<^verbatim>\<open>app.core.errors.ApiError\<close> (its message and details are
  left out); \<open>PyError name\<close> is any other Python exception, which leaves the handler as a
  server error. A service function is a function of the database that returns an error, in which
  case the transaction is rolled back, or a value with the new database.
\<close>

datatype err = ApiError (err_code: string) (err_status: nat) | PyError string

fun is_api_error :: "err \<Rightarrow> bool" where
  "is_api_error (ApiError _ _) = True"
| "is_api_error (PyError _) = False"

type_synonym 'a res = "err + 'a"

definition rbind :: "'e + 'a \<Rightarrow> ('a \<Rightarrow> 'e + 'b) \<Rightarrow> 'e + 'b" where
  "rbind m f = (case m of Inl e \<Rightarrow> Inl e | Inr x \<Rightarrow> f x)"

definition of_opt :: "'e \<Rightarrow> 'a option \<Rightarrow> 'e + 'a" where
  "of_opt e m = (case m of None \<Rightarrow> Inl e | Some x \<Rightarrow> Inr x)"

fun rfold :: "('a \<Rightarrow> 's \<Rightarrow> 'e + 's) \<Rightarrow> 'a list \<Rightarrow> 's \<Rightarrow> 'e + 's" where
  "rfold f [] s = Inr s"
| "rfold f (x # xs) s = rbind (f x s) (rfold f xs)"

lemma rbind_simps [simp]:
  "rbind (Inl e) f = Inl e"
  "rbind (Inr x) f = f x"
  by (simp_all add: rbind_def)

lemma of_opt_simps [simp]:
  "of_opt e None = Inl e"
  "of_opt e (Some x) = Inr x"
  by (simp_all add: of_opt_def)

lemma rbind_Inr [res_simps]: "rbind m f = Inr y \<longleftrightarrow> (\<exists>x. m = Inr x \<and> f x = Inr y)"
  by (cases m) simp_all

lemma of_opt_Inr [res_simps]: "of_opt e m = Inr x \<longleftrightarrow> m = Some x"
  by (cases m) simp_all

lemma if_Inl_Inr [res_simps]:
  "(if c then Inl e else k) = Inr y \<longleftrightarrow> \<not> c \<and> k = Inr y"
  "(if c then k else Inl e) = Inr y \<longleftrightarrow> c \<and> k = Inr y"
  by auto

lemma let_Inr [res_simps]: "(let x = a in f x) = Inr y \<longleftrightarrow> f a = Inr y"
  by (simp add: Let_def)

lemma rfold_invariant:
  assumes "rfold f xs s = Inr s'" and "I s"
    and "\<And>x s s'. x \<in> set xs \<Longrightarrow> I s \<Longrightarrow> f x s = Inr s' \<Longrightarrow> I s'"
  shows "I s'"
  using assms
proof (induction xs arbitrary: s)
  case Nil
  then show ?case by simp
next
  case (Cons x xs)
  from Cons.prems(1) obtain s1 where s1: "f x s = Inr s1" "rfold f xs s1 = Inr s'"
    by (auto simp: rbind_Inr)
  from Cons.prems(3) [OF _ Cons.prems(2) s1(1)] have "I s1" by simp
  with s1(2) Cons.IH Cons.prems(3) show ?case by (meson list.set_intros(2))
qed

lemma rfold_append:
  "rfold f (xs @ ys) s = rbind (rfold f xs s) (rfold f ys)"
  by (induction xs arbitrary: s) (auto simp: rbind_def split: sum.splits)

text \<open>A sum of groups is the sum of the rows, when every row is in one group.\<close>

lemma sum_list_zero:
  fixes h :: "'k \<Rightarrow> 'v::comm_monoid_add"
  shows "(\<And>x. x \<in> set ks \<Longrightarrow> h x = 0) \<Longrightarrow> (\<Sum>x\<leftarrow>ks. h x) = 0"
  by (induction ks) auto

lemma sum_list_pick:
  fixes v :: "'v::comm_monoid_add"
  assumes "distinct ks" and "k \<in> set ks"
  shows "(\<Sum>x\<leftarrow>ks. if k = x then v else 0) = v"
  using assms
proof (induction ks)
  case (Cons y ks)
  then have "k = y \<Longrightarrow> (\<Sum>x\<leftarrow>ks. if k = x then v else 0) = 0"
    by (intro sum_list_zero) auto
  with Cons show ?case by (cases "k = y") auto
qed simp

lemma sum_list_by_key:
  fixes g :: "'r \<Rightarrow> 'v::comm_monoid_add"
  assumes "distinct ks" and "\<And>x. x \<in> set xs \<Longrightarrow> f x \<in> set ks"
  shows "(\<Sum>k\<leftarrow>ks. \<Sum>x\<leftarrow>filter (\<lambda>x. f x = k) xs. g x) = (\<Sum>x\<leftarrow>xs. g x)"
  using assms(2)
proof (induction xs)
  case Nil
  then show ?case by (simp add: sum_list_zero)
next
  case (Cons x xs)
  have "(\<Sum>k\<leftarrow>ks. \<Sum>y\<leftarrow>filter (\<lambda>y. f y = k) (x # xs). g y)
      = (\<Sum>k\<leftarrow>ks. (if f x = k then g x else 0) + (\<Sum>y\<leftarrow>filter (\<lambda>y. f y = k) xs. g y))"
    by (intro arg_cong [where f = sum_list] map_cong) auto
  also have "\<dots> = (\<Sum>k\<leftarrow>ks. if f x = k then g x else 0) + (\<Sum>k\<leftarrow>ks. \<Sum>y\<leftarrow>filter (\<lambda>y. f y = k) xs. g y)"
    by (rule sum_list_addf)
  also have "\<dots> = g x + (\<Sum>y\<leftarrow>xs. g y)"
    using Cons sum_list_pick [OF assms(1), of "f x" "g x"] by simp
  finally show ?case by simp
qed

section \<open>Python values\<close>

text \<open>\<^verbatim>\<open>not x\<close> for an optional string: absent or empty.\<close>

definition truthy :: "string option \<Rightarrow> bool" where
  "truthy s = (case s of None \<Rightarrow> False | Some t \<Rightarrow> t \<noteq> [])"

definition or_else :: "'a option \<Rightarrow> 'a \<Rightarrow> 'a" where
  "or_else m d = (case m of None \<Rightarrow> d | Some x \<Rightarrow> x)"

definition or_str :: "string option \<Rightarrow> string option \<Rightarrow> string option" where
  "or_str a b = (if truthy a then a else b)"

lemma truthy_simps [simp]:
  "truthy None = False"
  "truthy (Some t) = (t \<noteq> [])"
  by (simp_all add: truthy_def)

lemma or_else_simps [simp]:
  "or_else None d = d"
  "or_else (Some x) d = x"
  by (simp_all add: or_else_def)

definition is_space :: "char \<Rightarrow> bool" where
  "is_space c = (c \<in> set [CHR '' '', CHR 0x09, CHR 0x0A, CHR 0x0B, CHR 0x0C, CHR 0x0D,
     CHR 0x1C, CHR 0x1D, CHR 0x1E, CHR 0x1F])"

definition strip :: "string \<Rightarrow> string" where
  "strip s = rev (dropWhile is_space (rev (dropWhile is_space s)))"

definition lower_char :: "char \<Rightarrow> char" where
  "lower_char c = (let n = of_char c :: nat in if 65 \<le> n \<and> n \<le> 90 then char_of (n + 32) else c)"

text \<open>\<^verbatim>\<open>str.lower\<close> and \<^verbatim>\<open>str.casefold\<close> agree on ASCII, the alphabet of the model.\<close>

definition casefold :: "string \<Rightarrow> string" where
  "casefold s = map lower_char s"

fun show_nat :: "nat \<Rightarrow> string" where
  "show_nat n = (if n < 10 then [char_of (48 + n)] else show_nat (n div 10) @ [char_of (48 + n mod 10)])"

declare show_nat.simps [simp del]

definition zfill :: "nat \<Rightarrow> string \<Rightarrow> string" where
  "zfill w s = replicate (w - length s) (CHR ''0'') @ s"

fun join :: "string \<Rightarrow> string list \<Rightarrow> string" where
  "join sep [] = []"
| "join sep [x] = x"
| "join sep (x # xs) = x @ sep @ join sep xs"

text \<open>Reading a decimal numeral back, for the injectivity of printed numbers.\<close>

definition read_nat :: "string \<Rightarrow> nat" where
  "read_nat s = foldl (\<lambda>n c. 10 * n + (of_char c - 48)) 0 s"

lemma read_nat_snoc: "read_nat (s @ [c]) = 10 * read_nat s + (of_char c - 48)"
  by (simp add: read_nat_def)

lemma of_char_digit: "n < 10 \<Longrightarrow> of_char (char_of (48 + n :: nat) :: char) = 48 + n"
  by simp

lemma read_show_nat: "read_nat (show_nat n) = n"
proof (induction n rule: show_nat.induct)
  case (1 n)
  show ?case
  proof (cases "n < 10")
    case True
    then show ?thesis by (subst show_nat.simps) (simp add: read_nat_def)
  next
    case False
    with 1 have "read_nat (show_nat (n div 10)) = n div 10" by simp
    with False show ?thesis
      by (subst show_nat.simps) (simp add: read_nat_snoc)
  qed
qed

lemma read_zfill: "read_nat (zfill w s) = read_nat s"
proof -
  have "foldl (\<lambda>n c. 10 * n + (of_char c - 48 :: nat)) 0 (replicate k (CHR ''0'')) = 0" for k
    by (induction k) simp_all
  then show ?thesis by (simp add: zfill_def read_nat_def)
qed

lemma zfill_show_inj: "zfill w (show_nat m) = zfill w (show_nat n) \<longleftrightarrow> m = n"
  by (metis read_zfill read_show_nat)

lemma length_zfill: "length (zfill w s) = max w (length s)"
  by (simp add: zfill_def)

section \<open>Decimals\<close>

text \<open>
  A Python \<open>Decimal\<close> is a rational number here. A float argument stands for the decimal its
  \<open>str\<close> prints, since the code converts with \<open>Decimal(str(x))\<close>.
  \<open>quantize n\<close> is \<open>Decimal.quantize\<close> with n fractional digits under the default context:
  to nearest, ties to even.
\<close>

type_synonym dec = rat

definition round_half_even :: "dec \<Rightarrow> int" where
  "round_half_even x =
     (let f = \<lfloor>x\<rfloor>; d = x - of_int f
      in if d < 1/2 then f else if d > 1/2 then f + 1 else if even f then f else f + 1)"

definition quantize :: "nat \<Rightarrow> dec \<Rightarrow> dec" where
  "quantize n x = of_int (round_half_even (x * 10 ^ n)) / 10 ^ n"

abbreviation "q2 \<equiv> quantize 2"
abbreviation "q3 \<equiv> quantize 3"

text \<open>\<open>has_digits n x\<close>: x is a multiple of \<open>10 ^ -n\<close>, the values a \<open>Numeric(_, n)\<close> column holds.\<close>

definition has_digits :: "nat \<Rightarrow> dec \<Rightarrow> bool" where
  "has_digits n x = (of_int \<lfloor>x * 10 ^ n\<rfloor> = x * 10 ^ n)"

abbreviation "cents \<equiv> has_digits 2"

lemma round_half_even_of_int [simp]: "round_half_even (of_int k) = k"
  by (simp add: round_half_even_def)

lemma round_half_even_bounds:
  "x - 1/2 \<le> of_int (round_half_even x)" "of_int (round_half_even x) \<le> x + 1/2"
proof -
  define f where "f = \<lfloor>x\<rfloor>"
  define d where "d = x - of_int f"
  have d: "0 \<le> d" "d < 1" "x = of_int f + d"
    unfolding d_def f_def by linarith+
  have "round_half_even x = f \<and> d \<le> 1/2 \<or> round_half_even x = f + 1 \<and> 1/2 \<le> d"
    unfolding round_half_even_def Let_def f_def [symmetric] d_def [symmetric] by auto
  with d show "x - 1/2 \<le> of_int (round_half_even x)" "of_int (round_half_even x) \<le> x + 1/2"
    by auto
qed

lemma round_half_even_mono:
  assumes "x \<le> y"
  shows "round_half_even x \<le> round_half_even y"
proof (rule ccontr)
  assume "\<not> round_half_even x \<le> round_half_even y"
  then have gt: "of_int (round_half_even y) + 1 \<le> (of_int (round_half_even x) :: dec)"
    by linarith
  with round_half_even_bounds(2) [of x] round_half_even_bounds(1) [of y] assms have "x = y"
    by linarith
  with gt show False by simp
qed

lemma quantize_error: "\<bar>quantize n x - x\<bar> \<le> 1 / (2 * 10 ^ n)"
proof -
  have p: "(0::dec) < 10 ^ n" by simp
  have "\<bar>of_int (round_half_even (x * 10 ^ n)) - x * 10 ^ n\<bar> \<le> (1/2 :: dec)"
    using round_half_even_bounds [of "x * 10 ^ n"] by linarith
  moreover have "quantize n x - x = (of_int (round_half_even (x * 10 ^ n)) - x * 10 ^ n) / 10 ^ n"
    by (simp add: quantize_def field_simps)
  ultimately have "\<bar>quantize n x - x\<bar> \<le> (1/2) / 10 ^ n"
    using p by (simp only: abs_divide divide_right_mono power_abs abs_numeral)
  then show ?thesis by simp
qed

lemma quantize_mono: "x \<le> y \<Longrightarrow> quantize n x \<le> quantize n y"
  by (simp add: quantize_def divide_right_mono round_half_even_mono mult_right_mono)

lemma quantize_digits [simp]: "has_digits n (quantize n x)"
  by (simp add: has_digits_def quantize_def)

lemma has_digits_iff: "has_digits n x \<longleftrightarrow> (\<exists>k::int. x = of_int k / 10 ^ n)"
proof
  assume "has_digits n x"
  then have "x = of_int \<lfloor>x * 10 ^ n\<rfloor> / 10 ^ n"
    by (simp only: has_digits_def) simp
  then show "\<exists>k::int. x = of_int k / 10 ^ n" by blast
next
  assume "\<exists>k::int. x = of_int k / 10 ^ n"
  then show "has_digits n x" by (auto simp: has_digits_def)
qed

lemma quantize_id [simp]: "has_digits n x \<Longrightarrow> quantize n x = x"
  by (auto simp: has_digits_iff quantize_def)

lemma quantize_idem [simp]: "quantize n (quantize n x) = quantize n x"
  by simp

lemma has_digits_0 [simp]: "has_digits n 0"
  by (simp add: has_digits_def)

lemma has_digits_of_int [simp]: "has_digits n (of_int k)"
  unfolding has_digits_iff by (rule exI [of _ "k * 10 ^ n"]) simp

lemma has_digits_numeral [simp]: "has_digits n (numeral k)"
  by (metis has_digits_of_int of_int_numeral)

lemma has_digits_1 [simp]: "has_digits n 1"
  by (metis has_digits_of_int of_int_1)

lemma quantize_0 [simp]: "quantize n 0 = 0"
  by simp

lemma has_digits_add [intro]: "has_digits n x \<Longrightarrow> has_digits n y \<Longrightarrow> has_digits n (x + y)"
  unfolding has_digits_iff by (metis add_divide_distrib of_int_add)

lemma has_digits_diff [intro]: "has_digits n x \<Longrightarrow> has_digits n y \<Longrightarrow> has_digits n (x - y)"
  unfolding has_digits_iff by (metis diff_divide_distrib of_int_diff)

lemma has_digits_uminus [intro]: "has_digits n x \<Longrightarrow> has_digits n (- x)"
  using has_digits_diff [of n 0 x] by simp

lemma has_digits_abs [intro]: "has_digits n x \<Longrightarrow> has_digits n \<bar>x\<bar>"
  by (auto simp: abs_if)

lemma has_digits_sum_list [intro]: "(\<And>x. x \<in> set xs \<Longrightarrow> has_digits n x) \<Longrightarrow> has_digits n (sum_list xs)"
  by (induction xs) auto

lemma quantize_nonneg: "0 \<le> x \<Longrightarrow> 0 \<le> quantize n x"
  using quantize_mono [of 0 x n] by simp

text \<open>
  A \<open>Numeric(_, n)\<close> column rounds what is stored in it; PostgreSQL documents ties away from zero.
\<close>

definition round_half_away :: "dec \<Rightarrow> int" where
  "round_half_away x = (if 0 \<le> x then \<lfloor>x + 1/2\<rfloor> else - \<lfloor>1/2 - x\<rfloor>)"

definition column :: "nat \<Rightarrow> dec \<Rightarrow> dec" where
  "column n x = of_int (round_half_away (x * 10 ^ n)) / 10 ^ n"

lemma round_half_away_of_int [simp]: "round_half_away (of_int k) = k"
  by (simp add: round_half_away_def) linarith

lemma column_id [simp]: "has_digits n x \<Longrightarrow> column n x = x"
  by (auto simp: has_digits_iff column_def)

lemma column_digits [simp]: "has_digits n (column n x)"
  by (auto simp: has_digits_iff column_def)

lemma column_nonneg: "0 \<le> x \<Longrightarrow> 0 \<le> column n x"
  by (simp add: column_def round_half_away_def)

section \<open>Time\<close>

text \<open>
  A timestamp is a count of microseconds since 1970-01-01 UTC (every datetime of the code is
  timezone aware or is read as UTC); a date is a count of days since that day.
\<close>

type_synonym timestamp = int
type_synonym day = int

definition day_us :: int where
  "day_us = 86400000000"

definition date_of :: "timestamp \<Rightarrow> day" where
  "date_of t = t div day_us"

definition midnight :: "day \<Rightarrow> timestamp" where
  "midnight d = d * day_us"

definition add_days :: "timestamp \<Rightarrow> int \<Rightarrow> timestamp" where
  "add_days t n = t + n * day_us"

text \<open>Monday is 0, as \<^verbatim>\<open>date.weekday\<close>; 1970-01-01 was a Thursday.\<close>

definition weekday :: "day \<Rightarrow> int" where
  "weekday d = (d + 3) mod 7"

lemma day_us_pos [simp]: "0 < day_us"
  by (simp add: day_us_def)

lemma date_of_midnight [simp]: "date_of (midnight d) = d"
  by (simp add: date_of_def midnight_def day_us_def)

lemma date_of_mono: "s \<le> t \<Longrightarrow> date_of s \<le> date_of t"
  by (simp add: date_of_def zdiv_mono1)

lemma date_of_bounds: "midnight (date_of t) \<le> t \<and> t < midnight (date_of t + 1)"
  unfolding date_of_def midnight_def day_us_def by simp presburger

lemma weekday_range: "0 \<le> weekday d" "weekday d < 7"
  by (simp_all add: weekday_def)

text \<open>Days from 1970-01-01 to January 1st of a year of the proleptic Gregorian calendar.\<close>

definition leap_count :: "int \<Rightarrow> int" where
  "leap_count y = (y - 1) div 4 - (y - 1) div 100 + (y - 1) div 400"

definition year_start :: "int \<Rightarrow> day" where
  "year_start y = 365 * (y - 1970) + (leap_count y - leap_count 1970)"

lemma div_pred: "0 < c \<Longrightarrow> y div c = (y - 1) div c + (if c dvd y then 1 else 0)" for y c :: int
proof -
  assume c: "0 < c"
  define q r where "q = y div c" and "r = y mod c"
  then have y: "y = c * q + r" and r: "0 \<le> r" "r < c" using c by simp_all
  show ?thesis
  proof (cases "r = 0")
    case True
    then have "y - 1 = c * (q - 1) + (c - 1)" using y by (simp add: algebra_simps)
    then have "(y - 1) div c = q - 1" using c by (intro int_div_pos_eq [where r = "c - 1"]) auto
    with True show ?thesis by (simp add: q_def r_def dvd_eq_mod_eq_0)
  next
    case False
    then have "(y - 1) div c = q" using y r by (intro int_div_pos_eq [where r = "r - 1"]) auto
    with False show ?thesis by (simp add: q_def r_def dvd_eq_mod_eq_0)
  qed
qed

lemma leap_count_next: "leap_count (y + 1) = leap_count y + (if 4 dvd y then 1 else 0)
    - (if 100 dvd y then 1 else 0) + (if 400 dvd y then 1 else 0)"
proof -
  have "a + p - (b + q) + (c + r) = a - b + c + p - q + r" for a b c p q r :: int by simp
  then show ?thesis
    using div_pred [of 4 y] div_pred [of 100 y] div_pred [of 400 y]
    by (simp only: leap_count_def add_diff_cancel_right' zero_less_numeral simp_thms True_implies_equals)
qed

lemma leap_count_step: "leap_count y \<le> leap_count (y + 1)" "leap_count (y + 1) \<le> leap_count y + 1"
proof -
  have "(400::int) dvd y \<Longrightarrow> 100 dvd y" by (rule dvd_trans [of _ 400]) simp_all
  moreover have "(100::int) dvd y \<Longrightarrow> 4 dvd y" by (rule dvd_trans [of _ 100]) simp_all
  ultimately show "leap_count y \<le> leap_count (y + 1)" "leap_count (y + 1) \<le> leap_count y + 1"
    unfolding leap_count_next by (simp_all split: if_splits)
qed

lemma year_start_step: "year_start y + 365 \<le> year_start (y + 1)" "year_start (y + 1) \<le> year_start y + 366"
  using leap_count_step [of y] by (simp_all add: year_start_def)

function year_up :: "int \<Rightarrow> day \<Rightarrow> int" where
  "year_up y d = (if year_start (y + 1) \<le> d then year_up (y + 1) d else y)"
  by pat_completeness auto
termination
proof (relation "measure (\<lambda>(y, d). nat (d - year_start y))")
  fix y d :: int
  assume "year_start (y + 1) \<le> d"
  then show "((y + 1, d), (y, d)) \<in> measure (\<lambda>(y, d). nat (d - year_start y))"
    using year_start_step(1) [of y] by simp
qed simp

declare year_up.simps [simp del]

text \<open>The search starts below the year, at 366 days a year, and walks up to it.\<close>

definition year_of_day :: "day \<Rightarrow> int" where
  "year_of_day d = (if 0 \<le> d then year_up (1970 + d div 366) d else year_up (1969 + d div 365) d)"

definition year_of :: "timestamp \<Rightarrow> int" where
  "year_of t = year_of_day (date_of t)"

lemma year_up_spec: "year_start y \<le> d \<Longrightarrow> year_start (year_up y d) \<le> d \<and> d < year_start (year_up y d + 1)"
proof (induction y d rule: year_up.induct)
  case (1 y d)
  then show ?case by (cases "year_start (y + 1) \<le> d") (simp_all add: year_up.simps [of y d])
qed

lemma year_start_nat_le: "year_start (1970 + int n) \<le> 366 * int n"
proof (induction n)
  case 0
  then show ?case by (simp add: year_start_def)
next
  case (Suc n)
  then show ?case using year_start_step(2) [of "1970 + int n"] by (simp add: algebra_simps)
qed

lemma year_start_neg_le: "year_start (1970 - int n) \<le> - (365 * int n)"
proof (induction n)
  case 0
  then show ?case by (simp add: year_start_def)
next
  case (Suc n)
  then show ?case using year_start_step(1) [of "1970 - int (Suc n)"] by (simp add: algebra_simps)
qed

lemma year_of_day_spec: "year_start (year_of_day d) \<le> d \<and> d < year_start (year_of_day d + 1)"
proof (cases "0 \<le> d")
  case True
  have "year_start (1970 + d div 366) \<le> 366 * (d div 366)"
    using year_start_nat_le [of "nat (d div 366)"] True by (simp add: pos_imp_zdiv_nonneg_iff)
  also have "\<dots> \<le> d" by simp
  finally show ?thesis using True year_up_spec by (simp add: year_of_day_def)
next
  case False
  then have "0 \<le> 1 - d div 365" by (simp add: div_neg_pos_less0 order_less_imp_le)
  then have "year_start (1969 + d div 365) \<le> - (365 * (1 - d div 365))"
    using year_start_neg_le [of "nat (1 - d div 365)"] by (simp add: algebra_simps)
  also have "\<dots> \<le> d" by (simp add: algebra_simps)
  finally show ?thesis using False year_up_spec by (simp add: year_of_day_def)
qed

end
