(* ===== verification/Tables.thy ===== *)
theory Tables
  imports Prelude
begin

text \<open>
  Database tables. A table is the list of its rows in insertion order; \<open>key\<close> selects the
  primary key. The SQLAlchemy calls the services make are \<open>tget\<close> (\<^verbatim>\<open>db.get\<close>), \<open>tadd\<close>
  (\<^verbatim>\<open>db.add\<close> of a new row), \<open>tput\<close> (writing the attributes of a loaded row) and the list
  functions \<open>filter\<close> and \<open>List.find\<close> for \<^verbatim>\<open>select ... where\<close>. The locale \<open>store\<close> is the
  interface through which the components reason about them.
\<close>

definition tget :: "('r \<Rightarrow> nat) \<Rightarrow> nat \<Rightarrow> 'r list \<Rightarrow> 'r option" where
  "tget key i t = List.find (\<lambda>r. key r = i) t"

definition tput :: "('r \<Rightarrow> nat) \<Rightarrow> 'r \<Rightarrow> 'r list \<Rightarrow> 'r list" where
  "tput key r t = map (\<lambda>x. if key x = key r then r else x) t"

definition tadd :: "'r \<Rightarrow> 'r list \<Rightarrow> 'r list" where
  "tadd r t = t @ [r]"

definition keys_unique :: "('r \<Rightarrow> nat) \<Rightarrow> 'r list \<Rightarrow> bool" where
  "keys_unique key t = distinct (map key t)"

lemma find_map_same:
  assumes "\<And>x. P (f x) = P x"
  shows "List.find P (map f t) = map_option f (List.find P t)"
  using assms by (induction t) simp_all

lemma find_Some: "List.find P t = Some r \<Longrightarrow> r \<in> set t \<and> P r"
  by (induction t) (auto split: if_splits)

lemma find_rev_Some: "List.find P (rev t) = Some r \<Longrightarrow> r \<in> set t \<and> P r"
  by (drule find_Some) simp

lemma find_app: "List.find P (xs @ ys) =
    (case List.find P xs of None \<Rightarrow> List.find P ys | Some x \<Rightarrow> Some x)"
  by (induction xs) auto

lemma tget_Nil [simp]: "tget key i [] = None"
  by (simp add: tget_def)

lemma tget_Cons [simp]: "tget key i (r # t) = (if key r = i then Some r else tget key i t)"
  by (simp add: tget_def)

lemma tget_key: "tget key i t = Some r \<Longrightarrow> key r = i"
  by (auto simp: tget_def find_Some_iff)

lemma tget_mem: "tget key i t = Some r \<Longrightarrow> r \<in> set t"
  by (auto simp: tget_def find_Some_iff)

lemma tget_None: "tget key i t = None \<longleftrightarrow> i \<notin> key ` set t"
  by (auto simp: tget_def find_None_iff)

lemma tput_Nil [simp]: "tput key r [] = []"
  by (simp add: tput_def)

lemma tput_Cons [simp]:
  "tput key r (x # t) = (if key x = key r then r else x) # tput key r t"
  by (simp add: tput_def)

lemma tget_tput:
  "tget key i (tput key r t) = (if i = key r then map_option (\<lambda>_. r) (tget key i t) else tget key i t)"
  by (induction t) auto

lemma tget_tadd:
  "tget key i (tadd r t) = (case tget key i t of Some x \<Rightarrow> Some x | None \<Rightarrow> if key r = i then Some r else None)"
  by (induction t) (auto simp: tadd_def)

lemma map_key_tput [simp]: "map key (tput key r t) = map key t"
  by (simp add: tput_def)

lemma length_tput [simp]: "length (tput key r t) = length t"
  by (simp add: tput_def)

lemma keys_unique_tput [simp]: "keys_unique key (tput key r t) = keys_unique key t"
  by (simp add: keys_unique_def)

lemma keys_unique_tadd: "keys_unique key (tadd r t) \<longleftrightarrow> keys_unique key t \<and> key r \<notin> key ` set t"
  by (auto simp: keys_unique_def tadd_def)

lemma keys_unique_get: "keys_unique key t \<Longrightarrow> r \<in> set t \<Longrightarrow> tget key (key r) t = Some r"
  by (induction t) (auto simp: keys_unique_def)

lemma set_tadd [simp]: "set (tadd r t) = insert r (set t)"
  by (auto simp: tadd_def)

lemma filter_tadd [simp]: "filter P (tadd r t) = filter P t @ (if P r then [r] else [])"
  by (simp add: tadd_def)

lemma set_tput_sub: "set (tput key r t) \<subseteq> insert r (set t)"
  by (auto simp: tput_def)

lemma set_tput:
  "set (tput key r t) = {x \<in> set t. key x \<noteq> key r} \<union> (if key r \<in> key ` set t then {r} else {})"
  by (induction t) auto

lemma tput_absent: "key r \<notin> key ` set t \<Longrightarrow> tput key r t = t"
  by (induction t) auto

lemma tput_self: "keys_unique key t \<Longrightarrow> r \<in> set t \<Longrightarrow> tput key r t = t"
  by (induction t) (auto simp: keys_unique_def tput_absent)

text \<open>The rows that do not satisfy P, before or after, are out of the result of a query.\<close>

lemma filter_tput_out:
  assumes "\<not> P r" and "\<And>x. x \<in> set t \<Longrightarrow> key x = key r \<Longrightarrow> \<not> P x"
  shows "filter P (tput key r t) = filter P t"
  using assms(2) by (induction t) (use assms(1) in auto)

lemma filter_map_tput_same:
  assumes "\<And>x. x \<in> set t \<Longrightarrow> key x = key r \<Longrightarrow> f x = f r \<and> P x = P r"
  shows "map f (filter P (tput key r t)) = map f (filter P t)"
  using assms by (induction t) auto

lemma set_filter_tput_out: "\<not> P r \<Longrightarrow> set (filter P (tput key r t)) \<subseteq> set (filter P t)"
  by (auto simp: tput_def split: if_splits)

lemma distinct_filter_tput_out:
  assumes "\<not> P r" and "distinct (map f (filter P t))"
  shows "distinct (map f (filter P (tput key r t)))"
  using assms(2)
proof (induction t)
  case (Cons x t)
  then show ?case using assms(1) set_filter_tput_out [of P r key t] by (auto split: if_splits)
qed simp

lemma keys_unique_row:
  "keys_unique key t \<Longrightarrow> x \<in> set t \<Longrightarrow> y \<in> set t \<Longrightarrow> key x = key y \<Longrightarrow> x = y"
  by (metis keys_unique_get option.inject)

text \<open>
  A uniqueness constraint on the rows that satisfy P survives the write of a row that no other
  such row agrees with.
\<close>

lemma distinct_filter_tput_in:
  assumes "keys_unique key t" and "distinct (map f (filter P t))"
    and "\<And>x. x \<in> set t \<Longrightarrow> P x \<Longrightarrow> f x = f r \<Longrightarrow> P r \<Longrightarrow> key x = key r"
  shows "distinct (map f (filter P (tput key r t)))"
  using assms
proof (induction t)
  case (Cons x t)
  from Cons.prems(1) have u: "keys_unique key t" "key x \<notin> key ` set t"
    by (simp_all add: keys_unique_def)
  show ?case
  proof (cases "key x = key r")
    case True
    with u(2) have same: "tput key r t = t" by (simp add: tput_absent)
    have "P r \<Longrightarrow> f r \<notin> f ` set (filter P t)"
    proof
      assume "P r" "f r \<in> f ` set (filter P t)"
      then obtain y where "y \<in> set t" "P y" "f y = f r" by auto
      with \<open>P r\<close> Cons.prems(3) [of y] True u(2) show False by (metis image_eqI list.set_intros(2))
    qed
    with Cons.prems(2) True same show ?thesis by (auto split: if_splits)
  next
    case False
    have "P x \<Longrightarrow> f x \<notin> f ` set (filter P (tput key r t))"
    proof
      assume px: "P x" "f x \<in> f ` set (filter P (tput key r t))"
      then obtain y where "y \<in> set (tput key r t)" "P y" "f y = f x" by auto
      then have "y \<in> set t \<and> P y \<or> y = r \<and> P r" using set_tput_sub [of key r t] by auto
      then show False
      proof
        assume "y \<in> set t \<and> P y"
        then have "f y \<in> f ` set (filter P t)" by simp
        then have "f x \<in> f ` set (filter P t)" by (simp only: \<open>f y = f x\<close>)
        with px(1) Cons.prems(2) show False by simp
      next
        assume "y = r \<and> P r"
        with px(1) \<open>f y = f x\<close> Cons.prems(3) [of x] False show False by simp
      qed
    qed
    moreover have "distinct (map f (filter P (tput key r t)))"
      using Cons.IH u(1) Cons.prems(2,3) by (auto split: if_splits)
    ultimately show ?thesis using False by auto
  qed
qed simp

lemma map_filter_tput_same:
  assumes "\<And>x. x \<in> set t \<Longrightarrow> key x = key r \<Longrightarrow> f x = f r"
  shows "List.map_filter f (tput key r t) = List.map_filter f t"
  using assms by (induction t) (auto simp: List.map_filter_simps split: option.splits)

lemma list_all_tput: "list_all P t \<Longrightarrow> P r \<Longrightarrow> list_all P (tput key r t)"
  by (auto simp: list_all_iff tput_def)

lemma sum_list_tput:
  fixes f :: "'r \<Rightarrow> 'v::comm_monoid_add"
  assumes "\<And>x. x \<in> set t \<Longrightarrow> key x = key r \<Longrightarrow> f x = f r"
  shows "sum_list (map f (tput key r t)) = sum_list (map f t)"
  using assms by (induction t) auto

section \<open>The interface\<close>

locale store =
  fixes key :: "'r \<Rightarrow> nat"
    and lookup :: "nat \<Rightarrow> 't \<Rightarrow> 'r option"
    and upd :: "'r \<Rightarrow> 't \<Rightarrow> 't"
    and ins :: "'r \<Rightarrow> 't \<Rightarrow> 't"
    and rows :: "'t \<Rightarrow> 'r set"
  assumes lookup_key: "lookup i t = Some r \<Longrightarrow> key r = i"
    and lookup_rows: "lookup i t = Some r \<Longrightarrow> r \<in> rows t"
    and lookup_write: "lookup i (upd r t) =
          (if i = key r then map_option (\<lambda>_. r) (lookup i t) else lookup i t)"
    and lookup_append: "lookup (key r) t = None \<Longrightarrow>
          lookup i (ins r t) = (if i = key r then Some r else lookup i t)"
    and rows_write: "rows (upd r t) \<subseteq> insert r (rows t)"
    and rows_append: "rows (ins r t) = insert r (rows t)"
begin

lemma read_your_write: "lookup (key r) t \<noteq> None \<Longrightarrow> lookup (key r) (upd r t) = Some r"
  by (auto simp: lookup_write)

lemma write_frame: "i \<noteq> key r \<Longrightarrow> lookup i (upd r t) = lookup i t"
  by (simp add: lookup_write)

lemma write_keeps_domain: "lookup i (upd r t) = None \<longleftrightarrow> lookup i t = None"
  by (simp add: lookup_write)

lemma append_keeps:
  assumes "lookup (key r) t = None" and "lookup i t = Some x"
  shows "lookup i (ins r t) = Some x"
  using assms by (auto simp: lookup_append)

lemma write_write: "lookup i (upd r (upd r' t)) =
    (if i = key r then map_option (\<lambda>_. r) (lookup i t)
     else if i = key r' then map_option (\<lambda>_. r') (lookup i t) else lookup i t)"
  by (auto simp: lookup_write option.map_comp comp_def)

text \<open>A property of every row survives a write or an insert of a row that has it.\<close>

lemma rows_write_all: "\<forall>x\<in>rows t. P x \<Longrightarrow> P r \<Longrightarrow> \<forall>x\<in>rows (upd r t). P x"
  using rows_write by blast

lemma rows_append_all: "\<forall>x\<in>rows t. P x \<Longrightarrow> P r \<Longrightarrow> \<forall>x\<in>rows (ins r t). P x"
  by (simp add: rows_append)

lemma lookup_all: "\<forall>x\<in>rows t. P x \<Longrightarrow> lookup i t = Some r \<Longrightarrow> P r"
  using lookup_rows by blast

end

text \<open>Lists of rows provide the interface, whatever the row type.\<close>

lemma list_store: "store key (tget key) (tput key) tadd set"
proof
  show "tget key i t = Some r \<Longrightarrow> key r = i" for i t r by (rule tget_key)
  show "tget key i t = Some r \<Longrightarrow> r \<in> set t" for i t r by (rule tget_mem)
  show "tget key i (tput key r t) =
      (if i = key r then map_option (\<lambda>_. r) (tget key i t) else tget key i t)" for i r t
    by (rule tget_tput)
  show "tget key i (tadd r t) = (if i = key r then Some r else tget key i t)"
    if "tget key (key r) t = None" for r t i
    using that by (auto simp: tget_tadd split: option.splits)
  show "set (tput key r t) \<subseteq> insert r (set t)" for r t by (rule set_tput_sub)
  show "set (tadd r t) = insert r (set t)" for r t by simp
qed

section \<open>Transition tables\<close>

text \<open>
  The contract of the guarded state machines (\<^verbatim>\<open>_BILLING_VALID_TRANSITIONS\<close> and its kin):
  a table of allowed next statuses. \<open>path\<close> is the statuses a row can reach in guarded steps.
\<close>

inductive path :: "('s \<Rightarrow> 's list) \<Rightarrow> 's \<Rightarrow> 's \<Rightarrow> bool" for table where
  path_refl: "path table s s"
| path_step: "path table s t \<Longrightarrow> u \<in> set (table t) \<Longrightarrow> path table s u"

inductive_cases path_toE: "path table s t"

locale transition_table =
  fixes table :: "'s \<Rightarrow> 's list"
    and initial :: 's
    and terminal :: "'s \<Rightarrow> bool"
  assumes terminal_stuck: "terminal s \<Longrightarrow> table s = []"
    and initial_unreached: "initial \<notin> set (table s)"
begin

lemma terminal_path: "path table s t \<Longrightarrow> terminal s \<Longrightarrow> t = s"
  by (induction rule: path.induct) (simp_all add: terminal_stuck)

lemma never_back: "path table s t \<Longrightarrow> t = initial \<Longrightarrow> s = initial"
  by (erule path_toE) (simp_all add: initial_unreached)

lemma path_trans: "path table t u \<Longrightarrow> path table s t \<Longrightarrow> path table s u"
  by (induction rule: path.induct) (auto intro: path.intros)

end

end
