(* ===== verification/Rows.thy ===== *)
theory Rows
  imports Tables
begin

text \<open>
  The rows of the tables the modelled services read and write (\<^verbatim>\<open>models.py\<close> of each module) and
  the database that holds them. A row has the mapped columns of its class; the server-side
  bookkeeping columns \<^verbatim>\<open>created_at\<close> and \<^verbatim>\<open>updated_at\<close> are left out (queries ordered by
  creation use the order of the list), and so are columns no modelled operation reads or writes,
  where a comment says so. A status column whose values the code fixes is a datatype with one
  constructor per string, e.g. \<open>T_in_progress\<close> for \<^verbatim>\<open>'in_progress'\<close>.
  Primary keys come from one counter, \<open>db_next\<close>: \<^verbatim>\<open>uuid4\<close> never repeats a value.
\<close>

type_synonym id = nat

datatype json = JNull | JBool bool | JInt int | JFloat rat | JStr string | JList "json list"
  | JObj "(string \<times> json) list"

section \<open>Trips\<close>

datatype trip_status = T_draft | T_planned | T_dispatch_pending | T_dispatched | T_in_progress
  | T_delayed | T_incident | T_arrived | T_delivered | T_closed | T_completed

datatype billing_status = B_not_billable | B_pending_delivery_proof | B_pending_delivery_validation
  | B_uncontracted | B_billable | B_delivery_disputed | B_billing_draft | B_billed

record trip =
  trip_id :: id
  trip_tenant :: id
  trip_order :: "id option"
  trip_contract :: "id option"
  trip_vehicle :: id
  trip_driver :: id
  trip_origin :: string
  trip_destination :: string
  trip_cargo_type :: "string option"
  trip_cargo_class :: "string option"
  trip_cargo_weight :: "dec option"
  trip_cargo_volume :: "dec option"
  trip_cargo_volumes :: "int option"
  trip_override_reason :: "string option"
  trip_is_hazmat :: bool
  trip_is_international :: bool
  trip_hazmat_class :: "string option"
  trip_un_number :: "string option"
  trip_hazmat_label :: "string option"
  trip_load_state :: "string option"
  trip_requires_load_permit :: bool
  trip_requires_cargo_manifest :: bool
  trip_km_start :: "int option"
  trip_km_start_file :: "id option"
  trip_km_end :: "int option"
  trip_km_end_file :: "id option"
  trip_status :: trip_status
  trip_planned_departure :: "timestamp option"
  trip_actual_departure :: "timestamp option"
  trip_planned_arrival :: "timestamp option"
  trip_actual_arrival :: "timestamp option"
  trip_recipient :: "string option"
  trip_delivery_file :: "id option"
  trip_cargo_status :: "string option"
  trip_fuel_cost :: dec
  trip_expense_cost :: dec
  trip_transport_cost :: dec
  trip_revenue :: dec
  trip_margin :: dec
  trip_reconciled_at :: "timestamp option"
  trip_contract_ref :: "string option"
  trip_billing :: billing_status
  trip_billable_at :: "timestamp option"
  trip_billed_at :: "timestamp option"
  trip_document :: "id option"
  trip_closed_at :: "timestamp option"
  trip_closed_by :: "id option"
  trip_close_notes :: "string option"

text \<open>The column defaults of a new trip; the service overrides what it is given.\<close>

definition new_trip :: "id \<Rightarrow> id \<Rightarrow> id \<Rightarrow> id \<Rightarrow> trip" where
  "new_trip i tenant vehicle driver =
     \<lparr>trip_id = i, trip_tenant = tenant, trip_order = None, trip_contract = None,
      trip_vehicle = vehicle, trip_driver = driver, trip_origin = [], trip_destination = [],
      trip_cargo_type = None, trip_cargo_class = None, trip_cargo_weight = None,
      trip_cargo_volume = None, trip_cargo_volumes = None, trip_override_reason = None, trip_is_hazmat = False,
      trip_is_international = False, trip_hazmat_class = None, trip_un_number = None,
      trip_hazmat_label = None, trip_load_state = None, trip_requires_load_permit = False,
      trip_requires_cargo_manifest = False, trip_km_start = None, trip_km_start_file = None,
      trip_km_end = None, trip_km_end_file = None, trip_status = T_planned,
      trip_planned_departure = None, trip_actual_departure = None, trip_planned_arrival = None,
      trip_actual_arrival = None, trip_recipient = None, trip_delivery_file = None,
      trip_cargo_status = None, trip_fuel_cost = 0, trip_expense_cost = 0,
      trip_transport_cost = 0, trip_revenue = 0, trip_margin = 0, trip_reconciled_at = None,
      trip_contract_ref = None, trip_billing = B_not_billable, trip_billable_at = None,
      trip_billed_at = None, trip_document = None, trip_closed_at = None, trip_closed_by = None,
      trip_close_notes = None\<rparr>"

record stop =
  stop_id :: id
  stop_tenant :: id
  stop_trip :: id
  stop_type :: string
  stop_location :: "json option"
  stop_address :: "string option"
  stop_notes :: "string option"
  stop_photo_file :: "id option"
  stop_cost :: "dec option"
  stop_expense_category :: "string option"
  stop_stopped_at :: timestamp
  stop_resumed_at :: "timestamp option"

record trip_cost =
  cost_id :: id
  cost_tenant :: id
  cost_trip :: id
  cost_type :: string
  cost_description :: "string option"
  cost_amount :: dec
  cost_currency :: string
  cost_paid_by :: string
  cost_payment_method :: "string option"
  cost_receipt_file :: "id option"
  cost_reference :: string
  cost_source_type :: string
  cost_source :: "id option"
  cost_created_by :: "id option"
  cost_incurred_at :: timestamp

datatype clearance_status = C_pending | C_approved | C_blocked

record clearance =
  clr_id :: id
  clr_tenant :: id
  clr_order :: "id option"
  clr_trip :: id
  clr_vehicle_checked :: bool
  clr_driver_checked :: bool
  clr_documents_checked :: bool
  clr_load_permit_checked :: bool
  clr_cargo_checked :: bool
  clr_fuel_advance_checked :: bool
  clr_route_risk_checked :: bool
  clr_status :: clearance_status
  clr_blocked_reason :: "string option"
  clr_approved_by :: "id option"
  clr_approved_at :: "timestamp option"

record exec_event =
  ev_id :: id
  ev_tenant :: id
  ev_trip :: id
  ev_type :: string
  ev_time :: timestamp
  ev_location :: "json option"
  ev_odometer :: "dec option"
  ev_fuel_level :: "dec option"
  ev_notes :: "string option"
  ev_reported_by :: "id option"
  ev_source :: string

datatype incident_status = I_open | I_investigating | I_resolved | I_closed

record incident =
  inc_id :: id
  inc_tenant :: id
  inc_trip :: id
  inc_vehicle :: "id option"
  inc_driver :: "id option"
  inc_type :: string
  inc_severity :: string
  inc_status :: incident_status
  inc_occurred_at :: timestamp
  inc_location :: "json option"
  inc_description :: string
  inc_immediate_action :: "string option"
  inc_resolution_notes :: "string option"
  inc_impact :: "dec option"
  inc_delay_minutes :: "int option"
  inc_reported_by :: "id option"
  inc_resolved_by :: "id option"
  inc_resolved_at :: "timestamp option"

record known_route =
  route_id :: id
  route_tenant :: id
  route_origin :: string
  route_destination :: string
  route_distance :: dec

datatype order_status = O_draft | O_confirmed | O_planning | O_assigned | O_dispatch_pending
  | O_dispatched | O_in_execution | O_delivered | O_closed | O_cancelled | O_rejected

text \<open>The columns of a trip order that its services, the trips and the costs use.\<close>

record trip_order =
  ord_id :: id
  ord_tenant :: id
  ord_contract :: "id option"
  ord_origin :: string
  ord_destination :: string
  ord_cargo_type :: "string option"
  ord_weight :: "dec option"
  ord_volume :: "dec option"
  ord_risk_level :: string
  ord_pickup_deadline :: "timestamp option"
  ord_delivery_deadline :: "timestamp option"
  ord_vehicle :: "id option"
  ord_driver :: "id option"
  ord_assigned_at :: "timestamp option"
  ord_assigned_by :: "id option"
  ord_status :: order_status
  ord_rejection_reason :: "string option"
  ord_rejected_at :: "timestamp option"
  ord_rejected_by :: "id option"
  ord_priority :: string
  ord_distance :: "dec option"
  ord_source :: string
  ord_requires_load_permit :: bool

section \<open>Master data\<close>

record tenant =
  ten_id :: id
  ten_name :: string
  ten_active :: bool
  ten_policy :: "(string \<times> json) list option"
  ten_nuit :: "string option"
  ten_max_vehicles :: "int option"
  ten_max_drivers :: "int option"
  ten_max_users :: "int option"

record doc_profile =
  prof_tenant :: id
  prof_legal_name :: "string option"
  prof_address1 :: "string option"
  prof_address2 :: "string option"
  prof_city :: "string option"
  prof_country :: string
  prof_phone :: "string option"
  prof_email :: "string option"
  prof_bank_name :: "string option"
  prof_bank_account :: "string option"
  prof_bank_nib :: "string option"
  prof_prefix :: string
  prof_padding :: nat
  prof_per_type :: bool
  prof_payment_conditions :: string
  prof_show_bank :: bool

record vehicle =
  veh_id :: id
  veh_tenant :: id
  veh_plate :: string
  veh_status :: string
  veh_km :: int
  veh_documents :: "(string \<times> json) list option"
  veh_max_payload :: "dec option"
  veh_ownership :: string
  veh_customer :: "id option"
  veh_chassis :: "string option"
  veh_brand :: "string option"
  veh_model :: "string option"
  veh_year :: "int option"
  veh_color :: "string option"
  veh_category :: string
  veh_fuel_type :: string
  veh_qr :: "string option"
  veh_target :: "dec option"
  veh_fuel_limit :: "dec option"

record driver =
  drv_id :: id
  drv_tenant :: id
  drv_status :: string
  drv_license_until :: "day option"
  drv_passport_until :: "day option"
  drv_bi_until :: "day option"
  drv_name :: string
  drv_phone :: "string option"
  drv_email :: "string option"
  drv_emergency_name :: "string option"
  drv_emergency_phone :: "string option"
  drv_license :: "string option"
  drv_license_category :: "string option"
  drv_passport :: "string option"
  drv_bi :: "string option"
  drv_inss :: "string option"
  drv_employment :: "string option"
  drv_documents :: "(string \<times> json) list option"
  drv_score :: int
  drv_pairing_hash :: "string option"
  drv_pairing_expires :: "timestamp option"

record client =
  cli_id :: id
  cli_tenant :: id
  cli_trading_name :: string
  cli_nuit :: string
  cli_legal_name :: "string option"
  cli_address :: "string option"
  cli_city :: "string option"
  cli_phone :: "string option"
  cli_email :: "string option"
  cli_terms_days :: int
  cli_credit_limit :: "dec option"
  cli_active :: bool
  cli_third_party :: "id option"
  cli_type :: string

record contract =
  con_id :: id
  con_tenant :: id
  con_client_name :: string
  con_reference :: string
  con_status :: string
  con_billing_basis :: string
  con_unit_price :: "dec option"
  con_ends_at :: "timestamp option"
  con_paused_at :: "timestamp option"
  con_terminated_at :: "timestamp option"
  con_termination_reason :: "string option"
  con_renewed_at :: "timestamp option"
  con_terms_days :: int

record tariff =
  tar_id :: id
  tar_tenant :: id
  tar_contract :: id
  tar_route :: id
  tar_basis :: string
  tar_unit_price :: dec

record work_order =
  wo_id :: id
  wo_tenant :: id
  wo_vehicle :: "id option"
  wo_status :: string
  wo_number :: string
  wo_request :: "id option"
  wo_plan :: "id option"
  wo_estimated :: "dec option"
  wo_actual :: "dec option"
  wo_labor :: dec
  wo_approved_by :: "id option"
  wo_approved_at :: "timestamp option"
  wo_closed_by :: "id option"
  wo_closed_at :: "timestamp option"
  wo_close_notes :: "string option"
  wo_reception :: "id option"
  wo_origin :: string
  wo_created :: timestamp

record maint_request =
  mr_id :: id
  mr_tenant :: id
  mr_vehicle :: id
  mr_trip :: "id option"
  mr_incident :: "id option"
  mr_type :: string
  mr_priority :: string
  mr_description :: string
  mr_status :: string
  mr_requested_by :: "id option"

end
