(* ===== verification/Documents.thy ===== *)
theory Documents
  imports Rows
begin

text \<open>
  The rows of the oversight modules (audit, waivers, operational exceptions, alerts), of the
  cargo documents and of billing, accounting and fuel, with the conventions of \<open>Rows\<close>.
\<close>

section \<open>Oversight\<close>

text \<open>
  An audit row keeps who did what to which entity; its snapshots of old and new values, the
  client address and the correlation id are left out.
\<close>

record audit =
  aud_tenant :: id
  aud_user :: "id option"
  aud_action :: string
  aud_entity_type :: string
  aud_entity :: "id option"

datatype exception_status = X_open | X_acknowledged | X_resolved

record op_exception =
  exc_id :: id
  exc_tenant :: id
  exc_entity_type :: string
  exc_entity :: id
  exc_type :: string
  exc_severity :: string
  exc_status :: exception_status
  exc_source_type :: "string option"
  exc_source :: "id option"
  exc_ack_by :: "id option"
  exc_ack_at :: "timestamp option"
  exc_resolved_by :: "id option"
  exc_resolved_at :: "timestamp option"
  exc_notes :: "string option"

datatype alert_status = L_pending | L_sent | L_read | L_dismissed

text \<open>
  The request references the code gives its alerts: \<^verbatim>\<open>exception:<id>\<close> and
  \<^verbatim>\<open>hazmat_active_<trip>\<close>. Titles and messages are left out.
\<close>

datatype alert_ref = Ref_exception id | Ref_hazmat id

record alert =
  alert_id :: id
  alert_tenant :: id
  alert_reference :: alert_ref
  alert_type :: string
  alert_priority :: string
  alert_entity_type :: string
  alert_entity :: id
  alert_status :: alert_status
  alert_sent_at :: "timestamp option"
  alert_read_at :: "timestamp option"
  alert_dismissed_at :: "timestamp option"

record waiver =
  wai_id :: id
  wai_tenant :: id
  wai_entity_type :: string
  wai_entity :: id
  wai_type :: string
  wai_reason :: string
  wai_risk :: string
  wai_approved_by :: "id option"
  wai_approved_at :: timestamp
  wai_expires_at :: "timestamp option"
  wai_status :: string

section \<open>Cargo documents\<close>

record load_permit =
  per_id :: id
  per_tenant :: id
  per_contract :: "id option"
  per_trip :: id
  per_number :: "string option"
  per_issuer_type :: string
  per_district :: "string option"
  per_leg_type :: string
  per_load_state :: string
  per_valid_until :: "timestamp option"
  per_file :: "id option"
  per_status :: string

record manifest =
  man_id :: id
  man_tenant :: id
  man_contract :: "id option"
  man_trip :: id
  man_number :: "string option"
  man_description :: "string option"
  man_cargo_class :: "string option"
  man_gross_weight :: "dec option"
  man_file :: "id option"
  man_status :: string

record transport_doc =
  tdoc_id :: id
  tdoc_tenant :: id
  tdoc_contract :: "id option"
  tdoc_trip :: id
  tdoc_type :: string
  tdoc_number :: "string option"
  tdoc_district :: "string option"
  tdoc_extra :: "(string \<times> json) list option"
  tdoc_file :: "id option"
  tdoc_status :: string

datatype proof_status = P_pending | P_accepted | P_rejected | P_disputed | P_resolved
  | P_validated | P_verified

record delivery_proof =
  prf_id :: id
  prf_tenant :: id
  prf_contract :: "id option"
  prf_trip :: id
  prf_permit :: "id option"
  prf_document_number :: "string option"
  prf_receiver_name :: "string option"
  prf_receiver_contact :: "string option"
  prf_delivered_at :: timestamp
  prf_cargo_condition :: string
  prf_quantity :: "dec option"
  prf_validation_method :: "string option"
  prf_notes :: "string option"
  prf_file :: "id option"
  prf_verified_by :: "id option"
  prf_verified_at :: "timestamp option"
  prf_status :: proof_status
  prf_accepted_at :: "timestamp option"
  prf_accepted_by :: "id option"
  prf_rejected_at :: "timestamp option"
  prf_rejected_by :: "id option"
  prf_rejection_reason :: "string option"

section \<open>Billing\<close>

datatype bill_status = D_draft | D_issued | D_paid | D_overdue | D_cancelled

record billing_doc =
  bill_id :: id
  bill_tenant :: id
  bill_contract :: "id option"
  bill_client :: "id option"
  bill_client_name :: string
  bill_contract_reference :: "string option"
  bill_period_start :: timestamp
  bill_period_end :: timestamp
  bill_currency :: string
  bill_subtotal :: dec
  bill_tax :: dec
  bill_total :: dec
  bill_status :: bill_status
  bill_issued_at :: "timestamp option"
  bill_paid_at :: "timestamp option"
  bill_due :: "timestamp option"
  bill_overdue_since :: "timestamp option"
  bill_cancellation :: "string option"
  bill_number :: "string option"
  bill_iva_rate :: "dec option"
  bill_iva_basis :: "string option"
  bill_type :: string
  bill_parent :: "id option"
  bill_client_nuit :: "string option"
  bill_issuer_name :: "string option"
  bill_issuer_nuit :: "string option"
  bill_parent_number :: "string option"
  bill_issuer_address :: "string option"
  bill_issuer_phone :: "string option"
  bill_issuer_email :: "string option"
  bill_issuer_city :: "string option"
  bill_issuer_bank :: "string option"
  bill_payment_conditions :: "string option"
  bill_source :: string
  bill_reception :: "id option"
  bill_quote :: "id option"

record billing_item =
  item_id :: id
  item_tenant :: id
  item_contract :: "id option"
  item_doc :: id
  item_trip :: "id option"
  item_permit :: "id option"
  item_manifest :: "id option"
  item_transport :: "id option"
  item_proof :: "id option"
  item_origin :: "string option"
  item_destination :: "string option"
  item_delivered_at :: timestamp
  item_quantity :: "dec option"
  item_unit_price :: "dec option"
  item_amount :: dec
  item_status :: string
  item_iva_rate :: "dec option"
  item_iva_basis :: "string option"
  item_iva_amount :: "dec option"
  item_work_order :: "id option"
  item_source :: string

datatype payment_status = K_confirmed | K_voided

record payment =
  pay_id :: id
  pay_tenant :: id
  pay_client :: id
  pay_doc :: "id option"
  pay_amount :: dec
  pay_currency :: string
  pay_value_date :: timestamp
  pay_method :: string
  pay_reference :: "string option"
  pay_notes :: "string option"
  pay_status :: payment_status
  pay_voided_at :: "timestamp option"
  pay_voided_by :: "id option"
  pay_void_reason :: "string option"
  pay_created_by :: "id option"

record allocation =
  alloc_id :: id
  alloc_tenant :: id
  alloc_payment :: id
  alloc_doc :: id
  alloc_amount :: dec

record fiscal_counter =
  ctr_tenant :: id
  ctr_year :: int
  ctr_type :: string
  ctr_last :: nat

section \<open>Accounting\<close>

record account =
  acc_id :: id
  acc_tenant :: id
  acc_code :: string
  acc_name :: string
  acc_type :: string

record journal_entry =
  je_id :: id
  je_tenant :: id
  je_type :: string
  je_date :: timestamp
  je_reference :: "string option"
  je_source_type :: "string option"
  je_source :: "id option"
  je_status :: string

record journal_item =
  ji_id :: id
  ji_tenant :: id
  ji_entry :: id
  ji_account :: id
  ji_debit :: dec
  ji_credit :: dec
  ji_third_party :: "id option"
  ji_vehicle :: "id option"
  ji_trip :: "id option"
  ji_work_order :: "id option"

record supplier_invoice =
  sinv_id :: id
  sinv_tenant :: id
  sinv_third_party :: id
  sinv_vehicle :: "id option"
  sinv_trip :: "id option"
  sinv_number :: "string option"
  sinv_amount :: dec
  sinv_issued_at :: timestamp
  sinv_status :: string

section \<open>Fuel\<close>

record fuel_tank =
  tank_id :: id
  tank_tenant :: id
  tank_code :: string
  tank_fuel_type :: string
  tank_capacity :: dec
  tank_minimum :: dec
  tank_stock :: dec
  tank_average :: dec
  tank_status :: string

datatype purchase_status = U_pending | U_approved | U_received

record fuel_purchase =
  pur_id :: id
  pur_tenant :: id
  pur_reference :: string
  pur_fuel_type :: string
  pur_ordered :: dec
  pur_unit_price :: dec
  pur_total :: dec
  pur_status :: purchase_status
  pur_approved_by :: "id option"
  pur_approved_at :: "timestamp option"

record fuel_receipt =
  rec_id :: id
  rec_tenant :: id
  rec_purchase :: id
  rec_tank :: id
  rec_liters :: dec
  rec_at :: timestamp
  rec_note_number :: "string option"
  rec_status :: string
  rec_verified_by :: "id option"
  rec_movement :: "id option"

record fuel_movement =
  mov_id :: id
  mov_tenant :: id
  mov_tank :: id
  mov_type :: string
  mov_in :: bool
  mov_liters :: dec
  mov_balance :: dec
  mov_unit_cost :: "dec option"
  mov_total :: "dec option"
  mov_source_type :: string
  mov_source :: id
  mov_at :: timestamp
  mov_by :: "id option"

record refuel =
  ref_id :: id
  ref_tenant :: id
  ref_tank :: id
  ref_vehicle :: id
  ref_driver :: id
  ref_trip :: "id option"
  ref_liters :: dec
  ref_odometer :: int
  ref_at :: timestamp
  ref_unit_cost :: "dec option"
  ref_total :: "dec option"
  ref_movement :: "id option"

datatype adjustment_status = J_not_required | J_pending | J_approved

record stock_count =
  cnt_id :: id
  cnt_tenant :: id
  cnt_tank :: id
  cnt_theoretical :: dec
  cnt_measured :: dec
  cnt_variance :: dec
  cnt_at :: timestamp
  cnt_by :: "id option"
  cnt_adjustment :: adjustment_status
  cnt_movement :: "id option"
  cnt_approved_by :: "id option"
  cnt_approved_at :: "timestamp option"

end
