(* ===== verification/Database.thy ===== *)
theory Database
  imports Documents
begin

text \<open>
  The database of the services: one list of rows per table, the counter new primary keys come
  from and the events handed to the governance engine. Every service of the model is a function
  of it.
\<close>

record db =
  db_next :: nat
  trips :: "trip list"
  stops :: "stop list"
  costs :: "trip_cost list"
  clearances :: "clearance list"
  events :: "exec_event list"
  incidents :: "incident list"
  routes :: "known_route list"
  orders :: "trip_order list"
  tenants :: "tenant list"
  profiles :: "doc_profile list"
  vehicles :: "vehicle list"
  drivers :: "driver list"
  clients :: "client list"
  contracts :: "contract list"
  tariffs :: "tariff list"
  work_orders :: "work_order list"
  maint_requests :: "maint_request list"
  audits :: "audit list"
  exceptions :: "op_exception list"
  alerts :: "alert list"
  waivers :: "waiver list"
  permits :: "load_permit list"
  manifests :: "manifest list"
  transport_docs :: "transport_doc list"
  proofs :: "delivery_proof list"
  bills :: "billing_doc list"
  items :: "billing_item list"
  payments :: "payment list"
  allocations :: "allocation list"
  counters :: "fiscal_counter list"
  accounts :: "account list"
  journals :: "journal_entry list"
  journal_items :: "journal_item list"
  supplier_invoices :: "supplier_invoice list"
  tanks :: "fuel_tank list"
  purchases :: "fuel_purchase list"
  receipts :: "fuel_receipt list"
  movements :: "fuel_movement list"
  refuels :: "refuel list"
  counts :: "stock_count list"
  governance :: "op_exception list"

definition empty_db :: db where
  "empty_db = \<lparr>db_next = 0, trips = [], stops = [], costs = [], clearances = [], events = [],
     incidents = [], routes = [], orders = [], tenants = [], profiles = [], vehicles = [],
     drivers = [], clients = [], contracts = [], tariffs = [], work_orders = [],
     maint_requests = [], audits = [], exceptions = [], alerts = [], waivers = [], permits = [],
     manifests = [], transport_docs = [], proofs = [], bills = [], items = [], payments = [],
     allocations = [], counters = [], accounts = [], journals = [], journal_items = [],
     supplier_invoices = [], tanks = [], purchases = [], receipts = [], movements = [], refuels = [], counts = [],
     governance = []\<rparr>"

text \<open>A new primary key: the counter's value, which no row has yet.\<close>

definition fresh_id :: "db \<Rightarrow> id \<times> db" where
  "fresh_id d = (db_next d, d\<lparr>db_next := Suc (db_next d)\<rparr>)"

text \<open>\<^verbatim>\<open>db.get(Model, id)\<close> followed by the tenant check every \<^verbatim>\<open>_require_*\<close> helper makes.\<close>

definition owned :: "('r \<Rightarrow> nat) \<Rightarrow> ('r \<Rightarrow> id) \<Rightarrow> id \<Rightarrow> id \<Rightarrow> 'r list \<Rightarrow> 'r option" where
  "owned key ten tenant i t =
     (case tget key i t of Some r \<Rightarrow> if ten r = tenant then Some r else None | None \<Rightarrow> None)"

lemma owned_Some: "owned key ten tenant i t = Some r \<longleftrightarrow> tget key i t = Some r \<and> ten r = tenant"
  by (auto simp: owned_def split: option.splits)

lemma owned_key: "owned key ten tenant i t = Some r \<Longrightarrow> key r = i"
  by (auto simp: owned_Some tget_key)

lemma owned_mem: "owned key ten tenant i t = Some r \<Longrightarrow> r \<in> set t"
  by (auto simp: owned_Some tget_mem)

text \<open>No row of a table has a key the counter has not given out.\<close>

definition below :: "('r \<Rightarrow> nat) \<Rightarrow> nat \<Rightarrow> 'r list \<Rightarrow> bool" where
  "below key n t = list_all (\<lambda>r. key r < n) t"

lemma below_fresh: "below key n t \<Longrightarrow> n \<notin> key ` set t"
  by (auto simp: below_def list_all_iff)

lemma below_mono: "below key m t \<Longrightarrow> m \<le> n \<Longrightarrow> below key n t"
  by (auto simp: below_def list_all_iff)

lemma below_tadd [simp]: "below key n (tadd r t) \<longleftrightarrow> below key n t \<and> key r < n"
  by (auto simp: below_def tadd_def)

lemma below_tput: "below key n t \<Longrightarrow> below key n (tput key r t)"
  by (auto simp: below_def list_all_iff tput_def split: if_splits)

lemma keys_unique_insert: "keys_unique key t \<Longrightarrow> below key n t \<Longrightarrow> key r = n \<Longrightarrow> keys_unique key (tadd r t)"
  by (auto simp: keys_unique_tadd dest: below_fresh)

section \<open>The tables as stores\<close>

text \<open>
  Each table the components write is a \<open>store\<close>; the interpretations give the components
  their read-your-write and frame facts under one qualifier per table.
\<close>

interpretation trip_store: store trip_id "tget trip_id" "tput trip_id" tadd set
  by (rule list_store)

interpretation exception_store: store exc_id "tget exc_id" "tput exc_id" tadd set
  by (rule list_store)

interpretation bill_store: store bill_id "tget bill_id" "tput bill_id" tadd set
  by (rule list_store)

interpretation payment_store: store pay_id "tget pay_id" "tput pay_id" tadd set
  by (rule list_store)

interpretation tank_store: store tank_id "tget tank_id" "tput tank_id" tadd set
  by (rule list_store)

interpretation proof_store: store prf_id "tget prf_id" "tput prf_id" tadd set
  by (rule list_store)

end
