(* ===== verification/Oversight.thy ===== *)
theory Oversight
  imports Database
begin

text \<open>
  The oversight services every other component calls: the audit log (\<^verbatim>\<open>audit/service.py\<close>), the
  operational exceptions with their alerts (\<^verbatim>\<open>operational_exceptions/service.py\<close>) and the
  operational waivers (\<^verbatim>\<open>operations/service.py\<close>).
\<close>

section \<open>The audit log\<close>

definition record_audit_log :: "id \<Rightarrow> id option \<Rightarrow> string \<Rightarrow> string \<Rightarrow> id option \<Rightarrow> db \<Rightarrow> db" where
  "record_audit_log tenant user action etype entity d =
     d\<lparr>audits := audits d @ [\<lparr>aud_tenant = tenant, aud_user = user, aud_action = action,
        aud_entity_type = etype, aud_entity = entity\<rparr>]\<rparr>"

text \<open>
  The filters of the listing; the date filters and the correlation id, whose columns the rows
  do not carry, are left out. Newest first, then the page.
\<close>

definition list_audit_logs ::
  "id \<Rightarrow> string option \<Rightarrow> id option \<Rightarrow> string option \<Rightarrow> nat \<Rightarrow> nat \<Rightarrow> db \<Rightarrow> audit list" where
  "list_audit_logs tenant etype entity action limit offset d =
     take limit (drop offset (rev (filter (\<lambda>a. aud_tenant a = tenant
       \<and> (truthy etype \<longrightarrow> Some (aud_entity_type a) = etype)
       \<and> (entity \<noteq> None \<longrightarrow> aud_entity a = entity)
       \<and> (truthy action \<longrightarrow> Some (aud_action a) = action)) (audits d))))"

lemma record_audit_log_frame [simp]:
  "db_next (record_audit_log t u a e i d) = db_next d"
  "trips (record_audit_log t u a e i d) = trips d"
  "stops (record_audit_log t u a e i d) = stops d"
  "costs (record_audit_log t u a e i d) = costs d"
  "clearances (record_audit_log t u a e i d) = clearances d"
  "events (record_audit_log t u a e i d) = events d"
  "incidents (record_audit_log t u a e i d) = incidents d"
  "routes (record_audit_log t u a e i d) = routes d"
  "orders (record_audit_log t u a e i d) = orders d"
  "tenants (record_audit_log t u a e i d) = tenants d"
  "profiles (record_audit_log t u a e i d) = profiles d"
  "vehicles (record_audit_log t u a e i d) = vehicles d"
  "drivers (record_audit_log t u a e i d) = drivers d"
  "clients (record_audit_log t u a e i d) = clients d"
  "contracts (record_audit_log t u a e i d) = contracts d"
  "tariffs (record_audit_log t u a e i d) = tariffs d"
  "work_orders (record_audit_log t u a e i d) = work_orders d"
  "maint_requests (record_audit_log t u a e i d) = maint_requests d"
  "exceptions (record_audit_log t u a e i d) = exceptions d"
  "alerts (record_audit_log t u a e i d) = alerts d"
  "waivers (record_audit_log t u a e i d) = waivers d"
  "permits (record_audit_log t u a e i d) = permits d"
  "manifests (record_audit_log t u a e i d) = manifests d"
  "transport_docs (record_audit_log t u a e i d) = transport_docs d"
  "proofs (record_audit_log t u a e i d) = proofs d"
  "bills (record_audit_log t u a e i d) = bills d"
  "items (record_audit_log t u a e i d) = items d"
  "payments (record_audit_log t u a e i d) = payments d"
  "allocations (record_audit_log t u a e i d) = allocations d"
  "counters (record_audit_log t u a e i d) = counters d"
  "accounts (record_audit_log t u a e i d) = accounts d"
  "journals (record_audit_log t u a e i d) = journals d"
  "journal_items (record_audit_log t u a e i d) = journal_items d"
  "supplier_invoices (record_audit_log t u a e i d) = supplier_invoices d"
  "tanks (record_audit_log t u a e i d) = tanks d"
  "purchases (record_audit_log t u a e i d) = purchases d"
  "receipts (record_audit_log t u a e i d) = receipts d"
  "movements (record_audit_log t u a e i d) = movements d"
  "refuels (record_audit_log t u a e i d) = refuels d"
  "counts (record_audit_log t u a e i d) = counts d"
  "governance (record_audit_log t u a e i d) = governance d"
  by (simp_all add: record_audit_log_def)

lemma audits_record [simp]:
  "audits (record_audit_log t u a e i d) = audits d @ [\<lparr>aud_tenant = t, aud_user = u,
     aud_action = a, aud_entity_type = e, aud_entity = i\<rparr>]"
  by (simp add: record_audit_log_def)

section \<open>Operational exceptions\<close>

definition exc_active :: "op_exception \<Rightarrow> bool" where
  "exc_active x \<longleftrightarrow> exc_status x \<in> {X_open, X_acknowledged}"

definition severities :: "string list" where
  "severities = [''low'', ''medium'', ''high'', ''critical'']"

text \<open>The query of \<^verbatim>\<open>ensure_exception\<close>; the source filters apply when a source is given.\<close>

definition exc_matches ::
  "id \<Rightarrow> string \<Rightarrow> id \<Rightarrow> string \<Rightarrow> string option \<Rightarrow> id option \<Rightarrow> op_exception \<Rightarrow> bool" where
  "exc_matches tenant etype entity xtype stype source x \<longleftrightarrow>
     exc_tenant x = tenant \<and> exc_entity_type x = etype \<and> exc_entity x = entity
     \<and> exc_type x = xtype \<and> exc_active x
     \<and> (truthy stype \<longrightarrow> exc_source_type x = stype)
     \<and> (source \<noteq> None \<longrightarrow> exc_source x = source)"

text \<open>The newest match, as \<^verbatim>\<open>order_by(created_at.desc()).limit(1)\<close>.\<close>

definition ensure_exception :: "id \<Rightarrow> string \<Rightarrow> id \<Rightarrow> string \<Rightarrow> string \<Rightarrow> id option
    \<Rightarrow> string option \<Rightarrow> id option \<Rightarrow> db \<Rightarrow> (op_exception \<times> db) res" where
  "ensure_exception tenant etype entity xtype severity actor stype source d =
     (if severity \<notin> set severities then Inl (ApiError ''invalid_exception_severity'' 422)
      else case List.find (exc_matches tenant etype entity xtype stype source) (rev (exceptions d)) of
        Some x \<Rightarrow> Inr (x, d)
      | None \<Rightarrow>
          (let (i, d1) = fresh_id d;
               item = \<lparr>exc_id = i, exc_tenant = tenant, exc_entity_type = etype,
                 exc_entity = entity, exc_type = xtype, exc_severity = severity,
                 exc_status = X_open, exc_source_type = stype, exc_source = source,
                 exc_ack_by = None, exc_ack_at = None, exc_resolved_by = None,
                 exc_resolved_at = None, exc_notes = None\<rparr>;
               d2 = record_audit_log tenant actor ''operational_exception.created'' etype
                      (Some entity) (d1\<lparr>exceptions := tadd item (exceptions d1)\<rparr>);
               (j, d3) = fresh_id d2;
               al = \<lparr>alert_id = j, alert_tenant = tenant, alert_reference = Ref_exception i,
                 alert_type = xtype, alert_priority = severity, alert_entity_type = etype,
                 alert_entity = entity, alert_status = L_pending, alert_sent_at = None,
                 alert_read_at = None, alert_dismissed_at = None\<rparr>;
               d4 = record_audit_log tenant actor ''alert.created_from_exception'' ''alert''
                      (Some j) (d3\<lparr>alerts := tadd al (alerts d3)\<rparr>);
               d5 = (if severity \<in> {''high'', ''critical''}
                     then d4\<lparr>governance := governance d4 @ [item]\<rparr> else d4)
           in Inr (item, d5)))"

definition list_exceptions ::
  "id \<Rightarrow> exception_status option \<Rightarrow> string option \<Rightarrow> nat \<Rightarrow> db \<Rightarrow> op_exception list" where
  "list_exceptions tenant st xtype limit d =
     take limit (rev (filter (\<lambda>x. exc_tenant x = tenant
       \<and> (st \<noteq> None \<longrightarrow> Some (exc_status x) = st)
       \<and> (truthy xtype \<longrightarrow> Some (exc_type x) = xtype)) (exceptions d)))"

definition require_exception :: "id \<Rightarrow> id \<Rightarrow> db \<Rightarrow> op_exception res" where
  "require_exception tenant i d =
     of_opt (ApiError ''operational_exception_not_found'' 404)
       (owned exc_id exc_tenant tenant i (exceptions d))"

definition acknowledge_exception ::
  "id \<Rightarrow> id \<Rightarrow> id option \<Rightarrow> timestamp \<Rightarrow> db \<Rightarrow> (op_exception \<times> db) res" where
  "acknowledge_exception tenant i actor now d =
     rbind (require_exception tenant i d) (\<lambda>x.
       if exc_status x = X_resolved then Inl (ApiError ''exception_already_resolved'' 409)
       else if exc_status x = X_acknowledged then Inr (x, d)
       else
         (let x' = x\<lparr>exc_status := X_acknowledged, exc_ack_by := actor, exc_ack_at := Some now\<rparr>
          in Inr (x', record_audit_log tenant actor ''operational_exception.acknowledged''
                        (exc_entity_type x) (Some (exc_entity x))
                        (d\<lparr>exceptions := tput exc_id x' (exceptions d)\<rparr>))))"

text \<open>The body both resolving services share: close the exception and dismiss its alert.\<close>

definition close_exception ::
  "id \<Rightarrow> string \<Rightarrow> id option \<Rightarrow> timestamp \<Rightarrow> op_exception \<Rightarrow> db \<Rightarrow> op_exception \<times> db" where
  "close_exception tenant notes actor now x d =
     (let x' = x\<lparr>exc_status := X_resolved, exc_resolved_by := actor,
                 exc_resolved_at := Some now, exc_notes := Some notes\<rparr>;
          d1 = d\<lparr>exceptions := tput exc_id x' (exceptions d)\<rparr>;
          d2 = (case List.find (\<lambda>a. alert_tenant a = tenant \<and> alert_reference a = Ref_exception (exc_id x))
                       (alerts d1) of
                  None \<Rightarrow> d1
                | Some a \<Rightarrow>
                    if alert_status a = L_dismissed then d1
                    else record_audit_log tenant actor ''alert.dismissed_from_exception'' ''alert''
                           (Some (alert_id a))
                           (d1\<lparr>alerts := tput alert_id
                              (a\<lparr>alert_status := L_dismissed, alert_dismissed_at := Some now\<rparr>)
                              (alerts d1)\<rparr>))
      in (x', record_audit_log tenant actor ''operational_exception.resolved''
                (exc_entity_type x) (Some (exc_entity x)) d2))"

definition resolve_exception ::
  "id \<Rightarrow> id \<Rightarrow> string \<Rightarrow> id option \<Rightarrow> timestamp \<Rightarrow> db \<Rightarrow> (op_exception \<times> db) res" where
  "resolve_exception tenant i notes actor now d =
     rbind (require_exception tenant i d) (\<lambda>x.
       if exc_status x = X_resolved then Inr (x, d)
       else Inr (close_exception tenant notes actor now x d))"

text \<open>Every active match is closed, in the order of the query; the clock is read once here.\<close>

definition resolve_active_exceptions ::
  "id \<Rightarrow> string \<Rightarrow> id \<Rightarrow> string \<Rightarrow> string \<Rightarrow> id option \<Rightarrow> timestamp \<Rightarrow> db \<Rightarrow> db" where
  "resolve_active_exceptions tenant etype entity xtype notes actor now d =
     foldl (\<lambda>d x. snd (close_exception tenant notes actor now x d)) d
       (filter (exc_matches tenant etype entity xtype None None) (exceptions d))"

section \<open>Alerts\<close>

text \<open>
  The alert \<^verbatim>\<open>start_trip\<close> asks \<^verbatim>\<open>create_alert\<close> for. A reference that is taken leaves the table
  as it is: the call returns the alert, or raises, and the caller ignores both.
\<close>

definition hazmat_alert :: "id \<Rightarrow> id \<Rightarrow> id option \<Rightarrow> db \<Rightarrow> db" where
  "hazmat_alert tenant trip actor d =
     (if list_ex (\<lambda>a. alert_tenant a = tenant \<and> alert_reference a = Ref_hazmat trip) (alerts d) then d
      else
        (let (i, d1) = fresh_id d;
             al = \<lparr>alert_id = i, alert_tenant = tenant, alert_reference = Ref_hazmat trip,
               alert_type = ''hazmat_active'', alert_priority = ''high'',
               alert_entity_type = ''trip'', alert_entity = trip, alert_status = L_pending,
               alert_sent_at = None, alert_read_at = None, alert_dismissed_at = None\<rparr>
         in record_audit_log tenant actor ''alert.created'' ''alert'' (Some i)
              (d1\<lparr>alerts := tadd al (alerts d1)\<rparr>)))"

text \<open>The first time an alert takes a status is kept.\<close>

definition stamp :: "timestamp option \<Rightarrow> timestamp \<Rightarrow> timestamp option" where
  "stamp old now = (case old of None \<Rightarrow> Some now | Some t \<Rightarrow> Some t)"

definition patch_alert_status ::
  "id \<Rightarrow> id \<Rightarrow> alert_status \<Rightarrow> id option \<Rightarrow> timestamp \<Rightarrow> db \<Rightarrow> (alert \<times> db) res" where
  "patch_alert_status tenant i st actor now d =
     (case owned alert_id alert_tenant tenant i (alerts d) of
        None \<Rightarrow> Inl (ApiError ''alert_not_found'' 404)
      | Some a \<Rightarrow>
          if alert_status a = st then Inr (a, d)
          else
            (let a1 = a\<lparr>alert_status := st\<rparr>;
                 a2 = (case st of
                     L_sent \<Rightarrow> a1\<lparr>alert_sent_at := stamp (alert_sent_at a) now\<rparr>
                   | L_read \<Rightarrow> a1\<lparr>alert_read_at := stamp (alert_read_at a) now\<rparr>
                   | L_dismissed \<Rightarrow> a1\<lparr>alert_dismissed_at := stamp (alert_dismissed_at a) now\<rparr>
                   | L_pending \<Rightarrow> a1)
             in Inr (a2, record_audit_log tenant actor ''alert.status_updated'' ''alert'' (Some i)
                           (d\<lparr>alerts := tput alert_id a2 (alerts d)\<rparr>))))"

section \<open>What the oversight services leave alone\<close>

definition only_oversight :: "db \<Rightarrow> db \<Rightarrow> bool" where
  "only_oversight d d' \<longleftrightarrow> d' = d\<lparr>db_next := db_next d', audits := audits d',
     exceptions := exceptions d', alerts := alerts d', governance := governance d'\<rparr>"

lemma only_oversight_frame:
  assumes "only_oversight d d'"
  shows
    "trips d' = trips d"
    "stops d' = stops d"
    "costs d' = costs d"
    "clearances d' = clearances d"
    "events d' = events d"
    "incidents d' = incidents d"
    "routes d' = routes d"
    "orders d' = orders d"
    "tenants d' = tenants d"
    "profiles d' = profiles d"
    "vehicles d' = vehicles d"
    "drivers d' = drivers d"
    "clients d' = clients d"
    "contracts d' = contracts d"
    "tariffs d' = tariffs d"
    "work_orders d' = work_orders d"
    "maint_requests d' = maint_requests d"
    "waivers d' = waivers d"
    "permits d' = permits d"
    "manifests d' = manifests d"
    "transport_docs d' = transport_docs d"
    "proofs d' = proofs d"
    "bills d' = bills d"
    "items d' = items d"
    "payments d' = payments d"
    "allocations d' = allocations d"
    "counters d' = counters d"
    "accounts d' = accounts d"
    "journals d' = journals d"
    "journal_items d' = journal_items d"
    "supplier_invoices d' = supplier_invoices d"
    "tanks d' = tanks d"
    "purchases d' = purchases d"
    "receipts d' = receipts d"
    "movements d' = movements d"
    "refuels d' = refuels d"
    "counts d' = counts d"
  using assms unfolding only_oversight_def by (cases d; cases d'; simp)+

lemma only_oversight_refl [simp]: "only_oversight d d"
  by (simp add: only_oversight_def)

lemma only_oversight_trans: "only_oversight d e \<Longrightarrow> only_oversight e f \<Longrightarrow> only_oversight d f"
  by (cases d; cases e; cases f; simp add: only_oversight_def)

lemma only_oversight_audit [simp]: "only_oversight d (record_audit_log t u a e i d)"
  by (simp add: only_oversight_def record_audit_log_def)

lemma ensure_exception_only:
  "ensure_exception t e i x s a st so d = Inr (r, d') \<Longrightarrow> only_oversight d d'"
  by (auto simp: ensure_exception_def only_oversight_def record_audit_log_def fresh_id_def Let_def
      split: if_splits option.splits)

lemma close_exception_only: "only_oversight d (snd (close_exception t n a now x d))"
  by (auto simp: close_exception_def only_oversight_def record_audit_log_def Let_def
      split: option.splits)

lemma resolve_active_only: "only_oversight d (resolve_active_exceptions t e i x n a now d)"
proof -
  have "only_oversight d (foldl (\<lambda>d x. snd (close_exception t n a now x d)) d xs)" for xs
    by (induction xs arbitrary: d) (auto intro: only_oversight_trans close_exception_only)
  then show ?thesis by (simp add: resolve_active_exceptions_def)
qed

lemma hazmat_alert_only: "only_oversight d (hazmat_alert t i a d)"
  by (auto simp: hazmat_alert_def only_oversight_def record_audit_log_def fresh_id_def Let_def)

section \<open>One active exception per key\<close>

definition exc_key :: "op_exception \<Rightarrow> id \<times> string \<times> id \<times> string \<times> string option \<times> id option" where
  "exc_key x = (exc_tenant x, exc_entity_type x, exc_entity x, exc_type x,
                exc_source_type x, exc_source x)"

text \<open>
  The invariant of the table: ids are unique and were given out, and no two active exceptions
  have the same tenant, entity, type and source.
\<close>

definition exceptions_ok :: "db \<Rightarrow> bool" where
  "exceptions_ok d \<longleftrightarrow> keys_unique exc_id (exceptions d) \<and> below exc_id (db_next d) (exceptions d)
     \<and> distinct (map exc_key (filter exc_active (exceptions d)))"

lemma ensure_exception_cases:
  assumes "ensure_exception t e i x s a st so d = Inr (r, d')"
  obtains (found) "d' = d" "r \<in> set (exceptions d)" "exc_matches t e i x st so r"
    "List.find (exc_matches t e i x st so) (rev (exceptions d)) = Some r"
  | (created) "exceptions d' = exceptions d @ [r]" "exc_id r = db_next d"
    "db_next d' = Suc (Suc (db_next d))"
    "exc_key r = (t, e, i, x, st, so)" "exc_active r" "exc_severity r = s"
    "\<forall>y\<in>set (exceptions d). \<not> exc_matches t e i x st so y"
proof (cases "List.find (exc_matches t e i x st so) (rev (exceptions d))")
  case None
  then have "\<forall>y\<in>set (exceptions d). \<not> exc_matches t e i x st so y"
    by (simp add: find_None_iff)
  with None assms show ?thesis
    by (intro created) (auto simp: ensure_exception_def fresh_id_def Let_def tadd_def exc_key_def
        exc_active_def split: if_splits)
next
  case (Some y)
  with assms have "r = y" "d' = d" by (auto simp: ensure_exception_def split: if_splits)
  with Some show ?thesis by (intro found) (auto dest: find_rev_Some)
qed

lemma exceptions_ok_audit [simp]:
  "exceptions_ok (record_audit_log t u a e i d) = exceptions_ok d"
  by (simp add: exceptions_ok_def)

lemma ensure_exception_ok:
  assumes "ensure_exception t e i x s a st so d = Inr (r, d')" and "exceptions_ok d"
  shows "exceptions_ok d'"
  using assms(1)
proof (cases rule: ensure_exception_cases)
  case found
  with assms(2) show ?thesis by simp
next
  case created
  have "exc_key r \<notin> exc_key ` {y \<in> set (exceptions d). exc_active y}"
    using created(4,7) by (auto simp: exc_matches_def exc_key_def)
  moreover have "keys_unique exc_id (exceptions d @ [r])"
    using assms(2) keys_unique_insert [of exc_id "exceptions d" "db_next d" r] created(2)
    by (simp add: exceptions_ok_def tadd_def)
  moreover have "below exc_id (db_next d') (exceptions d @ [r])"
    using assms(2) created(2,3) by (auto simp: exceptions_ok_def below_def list_all_iff less_Suc_eq)
  ultimately show ?thesis
    using assms(2) created(1,5) by (simp add: exceptions_ok_def)
qed

text \<open>Closing writes one resolved row; the row it closes is one of the table.\<close>

lemma close_exception_rows:
  "exceptions (snd (close_exception t n a now x d)) =
     tput exc_id (fst (close_exception t n a now x d)) (exceptions d)"
  "fst (close_exception t n a now x d) = x\<lparr>exc_status := X_resolved, exc_resolved_by := a,
     exc_resolved_at := Some now, exc_notes := Some n\<rparr>"
  "db_next (snd (close_exception t n a now x d)) = db_next d"
  by (auto simp: close_exception_def Let_def split: option.splits)

lemma close_exception_ok:
  assumes "exceptions_ok d"
  shows "exceptions_ok (snd (close_exception t n a now x d))"
  using assms unfolding exceptions_ok_def close_exception_rows
  by (auto intro!: below_tput distinct_filter_tput_out simp: exc_active_def)

lemma foldl_close_ok:
  "exceptions_ok d \<Longrightarrow> exceptions_ok (foldl (\<lambda>d x. snd (close_exception t n a now x d)) d xs)"
  by (induction xs arbitrary: d) (simp_all add: close_exception_ok)

lemma resolve_active_ok: "exceptions_ok d \<Longrightarrow> exceptions_ok (resolve_active_exceptions t e i x n a now d)"
  unfolding resolve_active_exceptions_def by (rule foldl_close_ok)

lemma acknowledge_exception_ok:
  assumes "acknowledge_exception t i a now d = Inr (r, d')" and "exceptions_ok d"
  shows "exceptions_ok d'"
proof -
  from assms(1) obtain x where req: "require_exception t i d = Inr x"
    by (auto simp: acknowledge_exception_def rbind_Inr)
  then have x: "x \<in> set (exceptions d)" "exc_id x = i"
    by (auto simp: require_exception_def of_opt_Inr dest: owned_mem owned_key)
  have d': "d' = d \<or> (exc_status x = X_open \<and> exceptions d' = tput exc_id r (exceptions d)
       \<and> db_next d' = db_next d
       \<and> r = x\<lparr>exc_status := X_acknowledged, exc_ack_by := a, exc_ack_at := Some now\<rparr>)"
    using assms(1) req by (cases "exc_status x") (auto simp: acknowledge_exception_def Let_def)
  from d' show ?thesis
  proof
    assume "d' = d"
    with assms(2) show ?thesis by simp
  next
    assume r: "exc_status x = X_open \<and> exceptions d' = tput exc_id r (exceptions d)
       \<and> db_next d' = db_next d
       \<and> r = x\<lparr>exc_status := X_acknowledged, exc_ack_by := a, exc_ack_at := Some now\<rparr>"
    have "y = x" if "y \<in> set (exceptions d)" "exc_id y = exc_id r" for y
      using that x(1) r assms(2) keys_unique_row [of exc_id "exceptions d" y x]
      by (simp add: exceptions_ok_def)
    then have "map exc_key (filter exc_active (tput exc_id r (exceptions d))) =
        map exc_key (filter exc_active (exceptions d))"
      using r by (intro filter_map_tput_same) (auto simp: exc_key_def exc_active_def)
    with assms(2) r show ?thesis by (simp add: exceptions_ok_def below_tput)
  qed
qed

text \<open>After the fold none of the rows it was given is active, whatever order they come in.\<close>

lemma foldl_close_rows:
  assumes "keys_unique exc_id (exceptions d)" and "set xs \<subseteq> set (exceptions d)"
    and "distinct (map exc_id xs)"
  shows "\<forall>y\<in>set (exceptions (foldl (\<lambda>d x. snd (close_exception t n a now x d)) d xs)).
           (y \<in> set (exceptions d) \<and> exc_id y \<notin> exc_id ` set xs) \<or> exc_status y = X_resolved"
  using assms
proof (induction xs arbitrary: d)
  case (Cons x xs)
  define d1 where "d1 = snd (close_exception t n a now x d)"
  have rows: "exceptions d1 = tput exc_id (fst (close_exception t n a now x d)) (exceptions d)"
    by (simp add: d1_def close_exception_rows)
  have sub: "set xs \<subseteq> set (exceptions d1)"
    using Cons.prems(2,3) unfolding rows set_tput
    by (auto simp: close_exception_rows) (metis image_eqI)
  have old: "y \<in> set (exceptions d1) \<Longrightarrow> y \<in> set (exceptions d) \<and> exc_id y \<noteq> exc_id x
      \<or> exc_status y = X_resolved" for y
    unfolding rows set_tput by (auto simp: close_exception_rows split: if_splits)
  from Cons.IH [OF _ sub] Cons.prems(1,3) have "\<forall>y\<in>set (exceptions
      (foldl (\<lambda>d x. snd (close_exception t n a now x d)) d1 xs)).
      (y \<in> set (exceptions d1) \<and> exc_id y \<notin> exc_id ` set xs) \<or> exc_status y = X_resolved"
    by (simp add: rows)
  with old show ?case unfolding d1_def by auto
qed simp

lemma resolve_active_clears:
  assumes "exceptions_ok d"
    and "y \<in> set (exceptions (resolve_active_exceptions t e i x n a now d))"
  shows "\<not> exc_matches t e i x None None y"
proof -
  let ?xs = "filter (exc_matches t e i x None None) (exceptions d)"
  from assms(1) have u: "keys_unique exc_id (exceptions d)" by (simp add: exceptions_ok_def)
  then have "distinct (map exc_id ?xs)" by (simp add: keys_unique_def distinct_map_filter)
  from foldl_close_rows [OF u _ this] assms(2)
  have "(y \<in> set (exceptions d) \<and> exc_id y \<notin> exc_id ` set ?xs) \<or> exc_status y = X_resolved"
    unfolding resolve_active_exceptions_def by fastforce
  then show ?thesis by (auto simp: exc_matches_def exc_active_def)
qed

text \<open>
  C15: Asking for an exception keeps at most one active exception per key: the call returns an
  active exception that matches the request, preserves the invariant of the table, and asking
  again, with whatever severity and actor, returns the same exception and changes nothing.
\<close>

theorem ensure_exception_once:
  assumes "exceptions_ok d" and "ensure_exception t e i x s a st so d = Inr (r, d')"
    and "s' \<in> set severities"
  shows "exceptions_ok d' \<and> r \<in> set (exceptions d') \<and> exc_matches t e i x st so r
    \<and> ensure_exception t e i x s' a' st so d' = Inr (r, d')"
  using assms(2)
proof (cases rule: ensure_exception_cases)
  case found
  then show ?thesis using assms by (simp add: ensure_exception_def)
next
  case created
  then have "exc_matches t e i x st so r" by (auto simp: exc_matches_def exc_key_def)
  then show ?thesis
    using created(1) assms ensure_exception_ok [OF assms(2,1)] by (simp add: ensure_exception_def)
qed

definition sample_exceptions :: db where
  "sample_exceptions = (case ensure_exception 1 ''trip'' 5 ''sla_delay'' ''high'' None None None
     (empty_db\<lparr>db_next := 6\<rparr>) of Inr (_, d) \<Rightarrow> d | Inl _ \<Rightarrow> empty_db)"

lemma ensure_exception_once_witness:
  "\<exists>r. ensure_exception 1 ''trip'' 5 ''sla_delay'' ''low'' (Some 2) None None sample_exceptions
     = Inr (r, sample_exceptions)"
proof -
  have "exceptions_ok (empty_db\<lparr>db_next := 6\<rparr>)"
    by (simp add: exceptions_ok_def empty_db_def keys_unique_def below_def)
  moreover have "ensure_exception 1 ''trip'' 5 ''sla_delay'' ''high'' None None None
      (empty_db\<lparr>db_next := 6\<rparr>) = Inr (hd (exceptions sample_exceptions), sample_exceptions)"
    by (simp add: sample_exceptions_def ensure_exception_def severities_def empty_db_def
        fresh_id_def tadd_def record_audit_log_def Let_def)
  moreover have "''low'' \<in> set severities" by (simp add: severities_def)
  ultimately show ?thesis using ensure_exception_once by blast
qed

text \<open>
  Resolving by key leaves no active exception of that tenant, entity and type, keeps the
  invariant of the table and touches nothing but exceptions, alerts and the audit log.
\<close>

theorem resolve_active_exceptions_clears:
  assumes "exceptions_ok d"
  shows "exceptions_ok (resolve_active_exceptions t e i x n a now d)
    \<and> (\<forall>y\<in>set (exceptions (resolve_active_exceptions t e i x n a now d)).
          \<not> exc_matches t e i x None None y)
    \<and> only_oversight d (resolve_active_exceptions t e i x n a now d)"
  using assms by (simp add: resolve_active_ok resolve_active_clears resolve_active_only)

lemma resolve_active_exceptions_clears_witness:
  "filter (exc_matches 1 ''trip'' 5 ''sla_delay'' None None) (exceptions
     (resolve_active_exceptions 1 ''trip'' 5 ''sla_delay'' ''done'' None 9 sample_exceptions)) = []"
proof -
  have "exceptions_ok sample_exceptions"
    by (simp add: sample_exceptions_def ensure_exception_def severities_def empty_db_def
        fresh_id_def tadd_def record_audit_log_def Let_def exceptions_ok_def keys_unique_def
        below_def exc_active_def)
  then show ?thesis using resolve_active_exceptions_clears by (simp add: filter_empty_conv)
qed

section \<open>Operational waivers\<close>

definition waiver_types :: "string list" where
  "waiver_types = [''overweight_assignment'', ''missing_document'', ''expired_warning'',
     ''no_pod'', ''cost_overrun'', ''manual_dispatch'', ''negative_margin_approved'']"

definition create_waiver :: "id \<Rightarrow> string \<Rightarrow> id \<Rightarrow> string \<Rightarrow> string \<Rightarrow> string \<Rightarrow> timestamp option
    \<Rightarrow> id option \<Rightarrow> timestamp \<Rightarrow> db \<Rightarrow> (waiver \<times> db) res" where
  "create_waiver tenant etype entity wtype reason risk expires actor now d =
     (if wtype \<notin> set waiver_types then Inl (ApiError ''invalid_waiver_type'' 422)
      else if risk \<notin> set severities then Inl (ApiError ''invalid_risk_level'' 422)
      else
        (let (i, d1) = fresh_id d;
             w = \<lparr>wai_id = i, wai_tenant = tenant, wai_entity_type = etype, wai_entity = entity,
                  wai_type = wtype, wai_reason = reason, wai_risk = risk,
                  wai_approved_by = actor, wai_approved_at = now, wai_expires_at = expires,
                  wai_status = ''active''\<rparr>
         in Inr (w, record_audit_log tenant actor ''operational_waiver.created'' etype
                      (Some entity) (d1\<lparr>waivers := tadd w (waivers d1)\<rparr>))))"

definition list_waivers ::
  "id \<Rightarrow> string option \<Rightarrow> id option \<Rightarrow> string option \<Rightarrow> string option \<Rightarrow> db \<Rightarrow> waiver list" where
  "list_waivers tenant etype entity st wtype d =
     rev (filter (\<lambda>w. wai_tenant w = tenant
       \<and> (truthy etype \<longrightarrow> Some (wai_entity_type w) = etype)
       \<and> (entity \<noteq> None \<longrightarrow> Some (wai_entity w) = entity)
       \<and> (truthy st \<longrightarrow> Some (wai_status w) = st)
       \<and> (truthy wtype \<longrightarrow> Some (wai_type w) = wtype)) (waivers d))"

definition revoke_waiver :: "id \<Rightarrow> id \<Rightarrow> id option \<Rightarrow> db \<Rightarrow> (waiver \<times> db) res" where
  "revoke_waiver tenant i actor d =
     (case owned wai_id wai_tenant tenant i (waivers d) of
        None \<Rightarrow> Inl (ApiError ''waiver_not_found'' 404)
      | Some w \<Rightarrow>
          if wai_status w = ''revoked'' then Inr (w, d)
          else
            (let w' = w\<lparr>wai_status := ''revoked''\<rparr>
             in Inr (w', record_audit_log tenant actor ''operational_waiver.revoked''
                           (wai_entity_type w) (Some (wai_entity w))
                           (d\<lparr>waivers := tput wai_id w' (waivers d)\<rparr>))))"

definition has_active_waiver :: "id \<Rightarrow> string \<Rightarrow> id \<Rightarrow> string \<Rightarrow> timestamp \<Rightarrow> db \<Rightarrow> bool" where
  "has_active_waiver tenant etype entity wtype now d =
     list_ex (\<lambda>w. wai_tenant w = tenant \<and> wai_entity_type w = etype \<and> wai_entity w = entity
       \<and> wai_type w = wtype \<and> wai_status w = ''active''
       \<and> (case wai_expires_at w of None \<Rightarrow> True | Some t \<Rightarrow> now < t)) (waivers d)"

text \<open>
  The life of a waiver: a created waiver is in force until it expires (for ever when it has
  no expiry), and once it is revoked it is not: in a table whose other waivers do not cover the
  same entity, the check fails at every later time.
\<close>

theorem waiver_lifecycle:
  assumes "below wai_id (db_next d) (waivers d)"
    and "create_waiver t e i wt reason risk ex a now d = Inr (w, d')"
    and "\<forall>n. \<not> has_active_waiver t e i wt n d"
    and "revoke_waiver t (wai_id w) a' d' = Inr (w', d'')"
  shows "has_active_waiver t e i wt n d' = (case ex of None \<Rightarrow> True | Some u \<Rightarrow> n < u)
    \<and> \<not> has_active_waiver t e i wt n d''"
proof
  from assms(2) have w: "waivers d' = tadd w (waivers d)" "wai_id w = db_next d"
      "wai_tenant w = t" "wai_entity_type w = e" "wai_entity w = i" "wai_type w = wt"
      "wai_status w = ''active''" "wai_expires_at w = ex"
    by (auto simp: create_waiver_def fresh_id_def Let_def split: if_splits)
  then show "has_active_waiver t e i wt n d' = (case ex of None \<Rightarrow> True | Some u \<Rightarrow> n < u)"
    using assms(3) by (auto simp: has_active_waiver_def tadd_def)
  have new: "db_next d \<notin> wai_id ` set (waivers d)" using below_fresh assms(1) by blast
  then have "tget wai_id (wai_id w) (tadd w (waivers d)) = Some w"
    by (simp add: tget_tadd w(2) tget_None [THEN iffD2])
  with assms(4) w have "waivers d'' = tput wai_id (w\<lparr>wai_status := ''revoked''\<rparr>) (tadd w (waivers d))"
    by (auto simp: revoke_waiver_def owned_def Let_def)
  also have "\<dots> = waivers d @ [w\<lparr>wai_status := ''revoked''\<rparr>]"
    using new w(2) tput_absent [of wai_id "w\<lparr>wai_status := ''revoked''\<rparr>" "waivers d"]
    by (simp add: tadd_def tput_def)
  finally show "\<not> has_active_waiver t e i wt n d''"
    using assms(3) by (simp add: has_active_waiver_def)
qed

lemma waiver_lifecycle_witness:
  "\<exists>w w' d1 d2. create_waiver 1 ''trip'' 5 ''no_pod'' ''client confirmed'' ''low'' (Some 100) None 7
       (empty_db\<lparr>db_next := 6\<rparr>) = Inr (w, d1)
     \<and> revoke_waiver 1 (wai_id w) (Some 3) d1 = Inr (w', d2)
     \<and> has_active_waiver 1 ''trip'' 5 ''no_pod'' 99 d1
     \<and> \<not> has_active_waiver 1 ''trip'' 5 ''no_pod'' 99 d2"
proof -
  let ?d = "empty_db\<lparr>db_next := 6\<rparr>"
  obtain w d1 where c: "create_waiver 1 ''trip'' 5 ''no_pod'' ''client confirmed'' ''low''
      (Some 100) None 7 ?d = Inr (w, d1)"
    by (simp add: create_waiver_def waiver_types_def severities_def fresh_id_def Let_def)
  then obtain w' d2 where r: "revoke_waiver 1 (wai_id w) (Some 3) d1 = Inr (w', d2)"
    by (auto simp: create_waiver_def waiver_types_def severities_def fresh_id_def Let_def
        revoke_waiver_def owned_def tadd_def empty_db_def)
  from waiver_lifecycle [OF _ c _ r, of 99] c r show ?thesis
    by (auto simp: below_def empty_db_def has_active_waiver_def)
qed

lemma ensure_exception_next:
  "ensure_exception t e i x s a st so d = Inr (r, d') \<Longrightarrow> db_next d \<le> db_next d'"
  by (erule ensure_exception_cases) auto

end
