(* ===== verification/Policies.thy ===== *)
theory Policies
  imports Oversight
begin

text \<open>
  The tenant's compliance policy, a JSON object: how the services read it
  (\<^verbatim>\<open>availability/service.py\<close>), how dates inside it are parsed, and the validation that guards its
  writes (\<^verbatim>\<open>tenants/service.py\<close>).
\<close>

section \<open>Reading JSON\<close>

fun jtruthy :: "json \<Rightarrow> bool" where
  "jtruthy JNull = False"
| "jtruthy (JBool b) = b"
| "jtruthy (JInt i) = (i \<noteq> 0)"
| "jtruthy (JFloat r) = (r \<noteq> 0)"
| "jtruthy (JStr s) = (s \<noteq> [])"
| "jtruthy (JList xs) = (xs \<noteq> [])"
| "jtruthy (JObj kvs) = (kvs \<noteq> [])"

definition jget :: "string \<Rightarrow> (string \<times> json) list \<Rightarrow> json" where
  "jget k obj = (case map_of obj k of Some v \<Rightarrow> v | None \<Rightarrow> JNull)"

definition jor :: "json \<Rightarrow> json \<Rightarrow> json" where
  "jor a b = (if jtruthy a then a else b)"

definition show_int :: "int \<Rightarrow> string" where
  "show_int i = (if i < 0 then ''-'' @ show_nat (nat (- i)) else show_nat (nat i))"

text \<open>
  Python's \<^verbatim>\<open>str\<close> of a list entry. Entries are strings wherever the policy was validated (see
  \<open>validate_compliance_policy\<close>); floats, lists and objects have no rendering here and are
  skipped.
\<close>

fun jstr :: "json \<Rightarrow> string option" where
  "jstr (JStr s) = Some s"
| "jstr (JBool b) = Some (if b then ''True'' else ''False'')"
| "jstr (JInt i) = Some (show_int i)"
| "jstr _ = None"

definition truthy_strings :: "json list \<Rightarrow> string list" where
  "truthy_strings vs = List.map_filter jstr (filter jtruthy vs)"

definition required_documents :: "(string \<times> json) list \<Rightarrow> string \<Rightarrow> string list" where
  "required_documents policy key =
     (case jget key policy of JList vs \<Rightarrow> truthy_strings vs | _ \<Rightarrow> [])"

text \<open>\<^verbatim>\<open>isinstance(value, int)\<close> holds for booleans too.\<close>

definition warning_days :: "(string \<times> json) list \<Rightarrow> int" where
  "warning_days policy =
     (case map_of policy ''document_expiry_warning_days'' of
        Some (JInt n) \<Rightarrow> if n < 0 then 30 else n
      | Some (JBool b) \<Rightarrow> of_bool b
      | _ \<Rightarrow> 30)"

definition tenant_policy :: "id \<Rightarrow> db \<Rightarrow> (string \<times> json) list" where
  "tenant_policy tenant d =
     (case tget ten_id tenant (tenants d) of
        Some t \<Rightarrow> or_else (ten_policy t) []
      | None \<Rightarrow> [])"

text \<open>\<^verbatim>\<open>dict.fromkeys\<close>: the first occurrences, in order.\<close>

definition dedup :: "'a list \<Rightarrow> 'a list" where
  "dedup xs = rev (remdups (rev xs))"

lemma map_filter_mem: "y \<in> set (List.map_filter f xs) \<longleftrightarrow> (\<exists>x\<in>set xs. f x = Some y)"
  by (induction xs) (auto simp: List.map_filter_simps split: option.splits)

lemma set_dedup [simp]: "set (dedup xs) = set xs"
  by (simp add: dedup_def)

lemma distinct_dedup [simp]: "distinct (dedup xs)"
  by (simp add: dedup_def)

section \<open>ISO dates\<close>

text \<open>
  \<^verbatim>\<open>datetime.fromisoformat(...).date()\<close> on the forms \<open>isoformat\<close> and JavaScript write: a
  date as YYYY-MM-DD or YYYYMMDD, alone or followed by one separator and a clock time with an
  optional fraction and offset. The time is checked and dropped. ISO week dates and clock times
  without colons are not modelled and read as no date.
\<close>

definition digits :: "string \<Rightarrow> bool" where
  "digits s \<longleftrightarrow> s \<noteq> [] \<and> list_all (\<lambda>c. 48 \<le> (of_char c :: nat) \<and> (of_char c :: nat) \<le> 57) s"

definition is_leap :: "int \<Rightarrow> bool" where
  "is_leap y \<longleftrightarrow> 4 dvd y \<and> (\<not> 100 dvd y \<or> 400 dvd y)"

definition month_lengths :: "int \<Rightarrow> int list" where
  "month_lengths y = [31, if is_leap y then 29 else 28, 31, 30, 31, 30, 31, 31, 30, 31, 30, 31]"

definition make_date :: "nat \<Rightarrow> nat \<Rightarrow> nat \<Rightarrow> day option" where
  "make_date y m d =
     (if 1 \<le> y \<and> 1 \<le> m \<and> m \<le> 12 \<and> 1 \<le> d \<and> int d \<le> month_lengths (int y) ! (m - 1)
      then Some (year_start (int y) + sum_list (take (m - 1) (month_lengths (int y))) + int d - 1)
      else None)"

definition two_digits :: "nat \<Rightarrow> string \<Rightarrow> bool" where
  "two_digits limit s \<longleftrightarrow> length s = 2 \<and> digits s \<and> read_nat s \<le> limit"

definition clock_ok :: "string \<Rightarrow> bool" where
  "clock_ok s \<longleftrightarrow> two_digits 23 (take 2 s)
     \<and> (length s = 2 \<or> take 1 (drop 2 s) = '':'' \<and> two_digits 59 (take 2 (drop 3 s))
        \<and> (length s = 5 \<or> take 1 (drop 5 s) = '':'' \<and> two_digits 59 (take 2 (drop 6 s))
           \<and> (length s = 8 \<or> take 1 (drop 8 s) \<in> {''.'', '',''} \<and> digits (drop 9 s))))"

definition offset_ok :: "string \<Rightarrow> bool" where
  "offset_ok s \<longleftrightarrow> s = [] \<or> length s = 6 \<and> two_digits 23 (take 2 (drop 1 s))
     \<and> take 1 (drop 3 s) = '':'' \<and> two_digits 59 (drop 4 s)"

definition zone_start :: "char \<Rightarrow> bool" where
  "zone_start c \<longleftrightarrow> c = CHR ''+'' \<or> c = CHR ''-''"

definition rest_ok :: "string \<Rightarrow> bool" where
  "rest_ok s \<longleftrightarrow> s = [] \<or> clock_ok (takeWhile (\<lambda>c. \<not> zone_start c) (tl s))
     \<and> offset_ok (dropWhile (\<lambda>c. \<not> zone_start c) (tl s))"

definition iso_date :: "string \<Rightarrow> day option" where
  "iso_date s =
     (if take 1 (drop 4 s) = ''-''
      then if digits (take 4 s) \<and> length (take 2 (drop 5 s)) = 2 \<and> digits (take 2 (drop 5 s))
              \<and> take 1 (drop 7 s) = ''-'' \<and> length (take 2 (drop 8 s)) = 2
              \<and> digits (take 2 (drop 8 s)) \<and> rest_ok (drop 10 s)
           then make_date (read_nat (take 4 s)) (read_nat (take 2 (drop 5 s)))
                  (read_nat (take 2 (drop 8 s)))
           else None
      else if length (take 8 s) = 8 \<and> digits (take 8 s) \<and> rest_ok (drop 8 s)
           then make_date (read_nat (take 4 s)) (read_nat (take 2 (drop 4 s)))
                  (read_nat (take 2 (drop 6 s)))
           else None)"

fun replace_z :: "string \<Rightarrow> string" where
  "replace_z [] = []"
| "replace_z (c # s) = (if c = CHR ''Z'' then ''+00:00'' else [c]) @ replace_z s"

text \<open>\<^verbatim>\<open>_parse_date\<close> of a JSON value: only strings can be dates.\<close>

fun parse_date :: "json \<Rightarrow> day option" where
  "parse_date (JStr s) = iso_date (replace_z s)"
| "parse_date _ = None"

definition document_valid_until :: "(string \<times> json) list \<Rightarrow> string \<Rightarrow> day option" where
  "document_valid_until docs ty =
     (let nested = (case jget ty docs of
            JObj o' \<Rightarrow> parse_date (jor (jget ''valid_until'' o') (jget ''expires_at'' o'))
          | _ \<Rightarrow> None)
      in case nested of
           Some day \<Rightarrow> Some day
         | None \<Rightarrow> parse_date (jor (jget (ty @ ''_valid_until'') docs)
                     (jor (jget (ty @ ''_expires_at'') docs) (jget (ty @ ''_expiry'') docs))))"

definition is_expiring_soon :: "day \<Rightarrow> (string \<times> json) list \<Rightarrow> day \<Rightarrow> bool" where
  "is_expiring_soon until policy today \<longleftrightarrow> today \<le> until \<and> until \<le> today + warning_days policy"

lemma warning_days_nonneg: "0 \<le> warning_days policy"
  by (auto simp: warning_days_def split: option.splits json.splits)

section \<open>Validation of the policy\<close>

definition policy_list_keys :: "string list" where
  "policy_list_keys = [''vehicle_required_documents'', ''driver_required_documents'',
     ''cargo_required_documents'', ''trip_required_stops'']"

definition policy_map_keys :: "string list" where
  "policy_map_keys = [''cargo_required_documents_by_type'', ''trip_required_stops_by_cargo_type'']"

definition allowance_key :: string where
  "allowance_key = ''driver_travel_allowance_policy''"

fun is_jstr :: "json \<Rightarrow> bool" where
  "is_jstr (JStr _) = True"
| "is_jstr _ = False"

fun jnum :: "json \<Rightarrow> dec option" where
  "jnum (JInt i) = Some (of_int i)"
| "jnum (JFloat r) = Some r"
| "jnum _ = None"

definition string_list :: "json \<Rightarrow> bool" where
  "string_list v = (case v of JList vs \<Rightarrow> list_all is_jstr vs | _ \<Rightarrow> False)"

text \<open>An entry of \<^verbatim>\<open>tiers\<close>: numeric bounds and amount, none negative, the range not empty.\<close>

definition tier_ok :: "json \<Rightarrow> bool" where
  "tier_ok v = (case v of
     JObj item \<Rightarrow>
       (case (jnum (jget ''min_km'' item), jnum (jget ''amount'' item)) of
          (Some lo, Some amount) \<Rightarrow> 0 \<le> lo \<and> 0 \<le> amount
            \<and> (case map_of item ''max_km'' of
                 None \<Rightarrow> True
               | Some hi \<Rightarrow> (case jnum hi of Some h \<Rightarrow> lo < h | None \<Rightarrow> False))
        | _ \<Rightarrow> False)
   | _ \<Rightarrow> False)"

definition allowance_ok :: "json \<Rightarrow> bool" where
  "allowance_ok v = (case v of
     JNull \<Rightarrow> True
   | JObj p \<Rightarrow>
       (case jget ''enabled'' p of JNull \<Rightarrow> True | JBool _ \<Rightarrow> True | _ \<Rightarrow> False)
       \<and> (case jget ''currency'' p of JNull \<Rightarrow> True | JStr c \<Rightarrow> length (strip c) = 3 | _ \<Rightarrow> False)
       \<and> (case jget ''min_long_course_km'' p of JNull \<Rightarrow> True
            | n \<Rightarrow> (case jnum n of Some r \<Rightarrow> 0 \<le> r | None \<Rightarrow> False))
       \<and> (case jget ''tiers'' p of JNull \<Rightarrow> True | JList ts \<Rightarrow> list_all tier_ok ts | _ \<Rightarrow> False)
   | _ \<Rightarrow> False)"

definition compliance_policy_ok :: "(string \<times> json) list \<Rightarrow> bool" where
  "compliance_policy_ok policy \<longleftrightarrow>
     list_all (\<lambda>k. jget k policy = JNull \<or> string_list (jget k policy)) policy_list_keys
     \<and> list_all (\<lambda>k. case jget k policy of JNull \<Rightarrow> True
          | JObj m \<Rightarrow> list_all (\<lambda>(_, v). string_list v) m | _ \<Rightarrow> False) policy_map_keys
     \<and> allowance_ok (jget allowance_key policy)"

text \<open>Every failed check raises the same error.\<close>

definition validate_compliance_policy :: "(string \<times> json) list \<Rightarrow> unit res" where
  "validate_compliance_policy policy =
     (if compliance_policy_ok policy then Inr ()
      else Inl (ApiError ''invalid_compliance_policy'' 422))"

definition require_active_tenant :: "id \<Rightarrow> db \<Rightarrow> tenant res" where
  "require_active_tenant tenant d =
     (case tget ten_id tenant (tenants d) of
        Some t \<Rightarrow> if ten_active t then Inr t else Inl (ApiError ''tenant_not_found'' 404)
      | None \<Rightarrow> Inl (ApiError ''tenant_not_found'' 404))"

definition upper_char :: "char \<Rightarrow> char" where
  "upper_char c = (let n = of_char c :: nat in if 97 \<le> n \<and> n \<le> 122 then char_of (n - 32) else c)"

definition jset :: "string \<Rightarrow> json \<Rightarrow> (string \<times> json) list \<Rightarrow> (string \<times> json) list" where
  "jset k v obj = (if k \<in> fst ` set obj then map (\<lambda>(k', v'). if k' = k then (k, v) else (k', v')) obj
                   else obj @ [(k, v)])"

text \<open>\<open>table\<close> is the dumped payload without its absent fields, the currency apart.\<close>

definition put_driver_despacho_table ::
  "id \<Rightarrow> (string \<times> json) list \<Rightarrow> string \<Rightarrow> id option \<Rightarrow> db \<Rightarrow> (json \<times> db) res" where
  "put_driver_despacho_table tenant table currency actor d =
     rbind (require_active_tenant tenant d) (\<lambda>t.
       let table' = jset ''entry_mode'' (JStr ''manual'')
                      (jset ''currency'' (JStr (map upper_char currency)) table);
           policy = jset allowance_key (JObj table') (or_else (ten_policy t) [])
       in rbind (validate_compliance_policy policy) (\<lambda>_.
            Inr (JObj table', record_audit_log tenant actor ''tenant.driver_despacho_table.updated''
                   ''tenant'' (Some tenant)
                   (d\<lparr>tenants := tput ten_id (t\<lparr>ten_policy := Some policy\<rparr>) (tenants d)\<rparr>))))"

lemma map_of_jset: "map_of (jset k' v obj) k = (if k = k' then Some v else map_of obj k)"
proof -
  let ?upd = "map (\<lambda>(a, b). if a = k' then (k', v) else (a, b)) obj"
  have other: "k \<noteq> k' \<Longrightarrow> map_of ?upd k = map_of obj k" by (induction obj) auto
  have here: "k' \<in> fst ` set obj \<Longrightarrow> map_of ?upd k' = Some v" by (induction obj) force+
  have "k' \<notin> fst ` set obj \<Longrightarrow> map_of obj k' = None"
    by (simp add: map_of_eq_None_iff)
  with other here show ?thesis
    by (cases "k = k'") (simp_all add: jset_def map_add_def split: option.splits)
qed

lemma jget_jset: "jget k (jset k' v obj) = (if k = k' then v else jget k obj)"
  by (simp add: jget_def map_of_jset)

text \<open>In a validated list every entry is rendered: none is lost.\<close>

lemma truthy_strings_of_strings:
  "list_all is_jstr vs \<Longrightarrow> truthy_strings vs = filter (\<lambda>s. s \<noteq> []) (map (the \<circ> jstr) vs)"
proof (induction vs)
  case (Cons v vs)
  then show ?case
    by (cases v) (auto simp: truthy_strings_def List.map_filter_simps)
qed (simp add: truthy_strings_def List.map_filter_simps)

section \<open>The despacho table as it is sent\<close>

text \<open>\<^verbatim>\<open>DriverDespachoTableUpdate\<close> and its dump without the fields that are absent.\<close>

record despacho_tier =
  dtr_min :: dec
  dtr_max :: "dec option"
  dtr_amount :: dec
  dtr_label :: "string option"
  dtr_code :: "string option"

record despacho_table =
  dtb_enabled :: bool
  dtb_name :: string
  dtb_reference :: "string option"
  dtb_currency :: string
  dtb_effective :: "string option"
  dtb_min_km :: dec
  dtb_tiers :: "despacho_tier list"

definition dump_opt :: "string \<Rightarrow> ('a \<Rightarrow> json) \<Rightarrow> 'a option \<Rightarrow> (string \<times> json) list" where
  "dump_opt k f v = (case v of None \<Rightarrow> [] | Some x \<Rightarrow> [(k, f x)])"

definition dump_tier :: "despacho_tier \<Rightarrow> json" where
  "dump_tier x = JObj ([(''min_km'', JFloat (dtr_min x))] @ dump_opt ''max_km'' JFloat (dtr_max x)
     @ [(''amount'', JFloat (dtr_amount x))] @ dump_opt ''label'' JStr (dtr_label x) @ dump_opt ''code'' JStr (dtr_code x))"

definition dump_table :: "despacho_table \<Rightarrow> (string \<times> json) list" where
  "dump_table b = [(''enabled'', JBool (dtb_enabled b)), (''table_name'', JStr (dtb_name b))]
     @ dump_opt ''table_reference'' JStr (dtb_reference b) @ [(''currency'', JStr (dtb_currency b))]
     @ dump_opt ''effective_from'' JStr (dtb_effective b)
     @ [(''min_long_course_km'', JFloat (dtb_min_km b)), (''tiers'', JList (map dump_tier (dtb_tiers b)))]"

lemma map_of_dump_opt [simp]: "map_of (dump_opt k f v) k' = (if k' = k then map_option f v else None)"
  by (simp add: dump_opt_def split: option.split)

text \<open>What the payload must say to be accepted.\<close>

definition tier_sound :: "despacho_tier \<Rightarrow> bool" where
  "tier_sound x \<longleftrightarrow> 0 \<le> dtr_min x \<and> 0 \<le> dtr_amount x \<and> (case dtr_max x of None \<Rightarrow> True | Some h \<Rightarrow> dtr_min x < h)"

definition table_sound :: "despacho_table \<Rightarrow> bool" where
  "table_sound b \<longleftrightarrow> length (strip (map upper_char (dtb_currency b))) = 3 \<and> 0 \<le> dtb_min_km b
     \<and> list_all tier_sound (dtb_tiers b)"

lemma tier_ok_dump: "tier_ok (dump_tier x) \<longleftrightarrow> tier_sound x"
  by (cases "dtr_max x") (simp_all add: tier_ok_def dump_tier_def tier_sound_def jget_def map_add_def)

lemma jget_dump_table:
  "jget ''enabled'' (dump_table b) = JBool (dtb_enabled b)"
  "jget ''min_long_course_km'' (dump_table b) = JFloat (dtb_min_km b)"
  "jget ''tiers'' (dump_table b) = JList (map dump_tier (dtb_tiers b))"
  by (simp_all add: jget_def dump_table_def map_add_def)

lemma allowance_ok_dump:
  "allowance_ok (JObj (jset ''entry_mode'' (JStr ''manual'') (jset ''currency'' (JStr (map upper_char cur)) (dump_table b))))
     \<longleftrightarrow> table_sound (b\<lparr>dtb_currency := cur\<rparr>)"
  proof -
  have "list_all tier_ok (map dump_tier xs) = list_all tier_sound xs" for xs
    by (simp add: list.pred_map comp_def tier_ok_dump)
  then show ?thesis
    by (simp add: allowance_ok_def jget_jset jget_dump_table table_sound_def)
qed

text \<open>The outcome: an unsound table is refused, a sound one replaces the one there and touches no other key.\<close>

lemma put_despacho_outcome:
  assumes "tget ten_id t (tenants d) = Some r" and "ten_active r" and "compliance_policy_ok (tenant_policy t d)"
  shows "put_driver_despacho_table t (dump_table b) (dtb_currency b) actor d =
    (if table_sound b
     then (let v = JObj (jset ''entry_mode'' (JStr ''manual'')
                     (jset ''currency'' (JStr (map upper_char (dtb_currency b))) (dump_table b)))
           in Inr (v, record_audit_log t actor ''tenant.driver_despacho_table.updated'' ''tenant'' (Some t)
                (d\<lparr>tenants := tput ten_id (r\<lparr>ten_policy := Some (jset allowance_key v (tenant_policy t d))\<rparr>) (tenants d)\<rparr>)))
     else Inl (ApiError ''invalid_compliance_policy'' 422))"
proof -
  have keys: "allowance_key \<notin> set policy_list_keys" "allowance_key \<notin> set policy_map_keys"
    by (simp_all add: allowance_key_def policy_list_keys_def policy_map_keys_def)
  have pol: "tenant_policy t d = or_else (ten_policy r) []" using assms(1) by (simp add: tenant_policy_def)
  have "compliance_policy_ok (jset allowance_key (JObj (jset ''entry_mode'' (JStr ''manual'')
      (jset ''currency'' (JStr (map upper_char (dtb_currency b))) (dump_table b)))) (or_else (ten_policy r) []))
    \<longleftrightarrow> table_sound b"
    using assms(3) keys allowance_ok_dump [of "dtb_currency b" b]
    unfolding pol compliance_policy_ok_def by (auto simp: jget_jset list_all_iff)
  with assms show ?thesis
    by (simp add: put_driver_despacho_table_def require_active_tenant_def validate_compliance_policy_def Let_def pol)
qed

definition sample_tenant :: tenant where
  "sample_tenant = \<lparr>ten_id = 1, ten_name = ''Rotas'', ten_active = True,
     ten_policy = Some [(''driver_required_documents'', JList [JStr ''bi''])], ten_nuit = Some ''400123456'',
     ten_max_vehicles = Some 5, ten_max_drivers = Some 5, ten_max_users = Some 3\<rparr>"

definition sample_table :: despacho_table where
  "sample_table = \<lparr>dtb_enabled = True, dtb_name = ''Tabela'', dtb_reference = None, dtb_currency = ''mzn'',
     dtb_effective = None, dtb_min_km = 100,
     dtb_tiers = [\<lparr>dtr_min = 100, dtr_max = Some 250, dtr_amount = 500, dtr_label = None, dtr_code = None\<rparr>]\<rparr>"

end
