(* ===== verification/Availability.thy ===== *)
theory Availability
  imports Policies
begin

text \<open>
  Whether a vehicle and a driver may take a trip (\<^verbatim>\<open>availability/service.py\<close>) and the driving
  hours of a driver (\<^verbatim>\<open>drivers/hos_service.py\<close>). The clock is an argument, \<open>now\<close>; today is its
  UTC date.
\<close>

section \<open>Hours of service\<close>

datatype hos_status = H_ok | H_warning | H_violation

datatype hos_reason = Daily_limit | Weekly_limit

record hos =
  hos_today :: dec
  hos_week :: dec
  hos_status :: hos_status
  hos_reason :: "hos_reason option"

definition driving_statuses :: "trip_status list" where
  "driving_statuses = [T_in_progress, T_completed]"

definition week_start :: "day \<Rightarrow> timestamp" where
  "week_start target = midnight (target - weekday target)"

text \<open>Hours are exact here; Python sums the same quotients in floating point.\<close>

definition duration_hours :: "timestamp \<Rightarrow> timestamp \<Rightarrow> dec" where
  "duration_hours from until = max 0 (of_int (until - from) / 3600000000)"

definition week_trips :: "id \<Rightarrow> id \<Rightarrow> day \<Rightarrow> db \<Rightarrow> trip list" where
  "week_trips driver tenant target d =
     filter (\<lambda>t. trip_driver t = driver \<and> trip_tenant t = tenant
       \<and> trip_status t \<in> set driving_statuses
       \<and> (case trip_actual_departure t of None \<Rightarrow> False | Some s \<Rightarrow> week_start target \<le> s)) (trips d)"

definition trip_hours :: "timestamp \<Rightarrow> trip \<Rightarrow> dec" where
  "trip_hours now t = (case trip_actual_departure t of
     None \<Rightarrow> 0 | Some s \<Rightarrow> duration_hours s (or_else (trip_actual_arrival t) now))"

definition departed_on :: "day \<Rightarrow> trip \<Rightarrow> bool" where
  "departed_on target t = (case trip_actual_departure t of None \<Rightarrow> False | Some s \<Rightarrow> date_of s = target)"

definition hos_classify :: "dec \<Rightarrow> dec \<Rightarrow> hos_status \<times> hos_reason option" where
  "hos_classify today week =
     (if 48 \<le> week then (H_violation, Some Weekly_limit)
      else if 9 \<le> today then (H_violation, Some Daily_limit)
      else if 8 \<le> today then (H_warning, None)
      else (H_ok, None))"

definition week_hours :: "id \<Rightarrow> id \<Rightarrow> day \<Rightarrow> timestamp \<Rightarrow> db \<Rightarrow> dec" where
  "week_hours driver tenant today now d =
     sum_list (map (trip_hours now) (week_trips driver tenant today d))"

definition day_hours :: "id \<Rightarrow> id \<Rightarrow> day \<Rightarrow> timestamp \<Rightarrow> db \<Rightarrow> dec" where
  "day_hours driver tenant today now d =
     sum_list (map (trip_hours now) (filter (departed_on today) (week_trips driver tenant today d)))"

definition calculate_driving_hours :: "id \<Rightarrow> id \<Rightarrow> day option \<Rightarrow> timestamp \<Rightarrow> db \<Rightarrow> hos" where
  "calculate_driving_hours driver tenant target now d =
     (let today = or_else target (date_of now);
          hours_week = week_hours driver tenant today now d;
          hours_today = day_hours driver tenant today now d;
          (st, reason) = hos_classify hours_today hours_week
      in \<lparr>hos_today = q2 hours_today, hos_week = q2 hours_week, hos_status = st,
          hos_reason = reason\<rparr>)"

section \<open>Compliance of documents\<close>

datatype violation = Missing string | Expired string day

datatype compliance_warning = Expiring string day int

definition default_vehicle_documents :: "string list" where
  "default_vehicle_documents = [''insurance'', ''inspection'', ''iav'', ''sign_tax'',
     ''cargo_book'', ''international_license'']"

text \<open>The documents a vehicle must have: the policy's, its own, or the default six.\<close>

definition vehicle_required :: "vehicle \<Rightarrow> (string \<times> json) list \<Rightarrow> string list" where
  "vehicle_required v policy =
     (let docs = or_else (veh_documents v) [];
          own = (case jget ''required_documents'' docs of JList vs \<Rightarrow> truthy_strings vs | _ \<Rightarrow> []);
          req = required_documents policy ''vehicle_required_documents'' @ own
      in dedup (if req = [] \<and> jtruthy (jget ''compliance_required'' docs)
                then default_vehicle_documents else req))"

definition vehicle_compliance_violations ::
  "vehicle \<Rightarrow> (string \<times> json) list \<Rightarrow> day \<Rightarrow> violation list" where
  "vehicle_compliance_violations v policy today =
     List.map_filter (\<lambda>ty. case document_valid_until (or_else (veh_documents v) []) ty of
         None \<Rightarrow> Some (Missing ty)
       | Some until \<Rightarrow> if until < today then Some (Expired ty until) else None)
       (vehicle_required v policy)"

definition vehicle_compliance_warnings ::
  "vehicle \<Rightarrow> (string \<times> json) list \<Rightarrow> day \<Rightarrow> compliance_warning list" where
  "vehicle_compliance_warnings v policy today =
     List.map_filter (\<lambda>ty. case document_valid_until (or_else (veh_documents v) []) ty of
         None \<Rightarrow> None
       | Some until \<Rightarrow> if is_expiring_soon until policy today
                      then Some (Expiring ty until (until - today)) else None)
       (vehicle_required v policy)"

definition driver_documents :: "driver \<Rightarrow> (string \<times> day option) list" where
  "driver_documents r = [(''driving_license'', drv_license_until r),
     (''passport'', drv_passport_until r), (''bi'', drv_bi_until r)]"

definition driver_compliance_violations ::
  "driver \<Rightarrow> (string \<times> json) list \<Rightarrow> day \<Rightarrow> violation list" where
  "driver_compliance_violations r policy today =
     List.map_filter (\<lambda>(ty, until). case until of
         None \<Rightarrow> if ty \<in> set (required_documents policy ''driver_required_documents'')
                 then Some (Missing ty) else None
       | Some u \<Rightarrow> if u < today then Some (Expired ty u) else None)
       (driver_documents r)"

definition driver_compliance_warnings ::
  "driver \<Rightarrow> (string \<times> json) list \<Rightarrow> day \<Rightarrow> compliance_warning list" where
  "driver_compliance_warnings r policy today =
     (let req = required_documents policy ''driver_required_documents'';
          req' = (if req = [] then map fst (driver_documents r) else req)
      in List.map_filter (\<lambda>(ty, until). case until of
             None \<Rightarrow> None
           | Some u \<Rightarrow> if ty \<in> set req' \<and> is_expiring_soon u policy today
                      then Some (Expiring ty u (u - today)) else None)
           (driver_documents r))"

fun violation_waiver :: "violation \<Rightarrow> string" where
  "violation_waiver (Missing _) = ''missing_document''"
| "violation_waiver (Expired _ _) = ''expired_warning''"

definition has_waivers_for_violations ::
  "id \<Rightarrow> string \<Rightarrow> id \<Rightarrow> violation list \<Rightarrow> timestamp \<Rightarrow> db \<Rightarrow> bool" where
  "has_waivers_for_violations tenant etype entity vs now d =
     list_all (\<lambda>v. has_active_waiver tenant etype entity (violation_waiver v) now d) vs"

definition active_waiver_summaries :: "id \<Rightarrow> string \<Rightarrow> id \<Rightarrow> db \<Rightarrow> waiver list" where
  "active_waiver_summaries tenant etype entity d =
     filter (\<lambda>w. wai_tenant w = tenant \<and> wai_entity_type w = etype \<and> wai_entity w = entity
       \<and> wai_status w = ''active'') (waivers d)"

section \<open>Availability\<close>

definition active_trip_statuses :: "trip_status list" where
  "active_trip_statuses = [T_planned, T_dispatch_pending, T_dispatched, T_in_progress, T_delayed, T_incident]"

definition active_work_order_statuses :: "string list" where
  "active_work_order_statuses = [''approved'', ''in_progress'', ''quality_check'']"

definition trip_active :: "trip \<Rightarrow> bool" where
  "trip_active t \<longleftrightarrow> trip_status t \<in> set active_trip_statuses"

definition active_work_order :: "id \<Rightarrow> id \<Rightarrow> db \<Rightarrow> id option" where
  "active_work_order tenant v d = map_option wo_id (List.find (\<lambda>w. wo_tenant w = tenant
     \<and> wo_vehicle w = Some v \<and> wo_status w \<in> set active_work_order_statuses) (work_orders d))"

definition vehicle_conflict :: "id \<Rightarrow> id \<Rightarrow> id option \<Rightarrow> db \<Rightarrow> id option" where
  "vehicle_conflict tenant v exclude d = map_option trip_id (List.find (\<lambda>t. trip_tenant t = tenant
     \<and> trip_vehicle t = v \<and> trip_active t \<and> Some (trip_id t) \<noteq> exclude) (trips d))"

definition driver_conflict :: "id \<Rightarrow> id \<Rightarrow> id option \<Rightarrow> db \<Rightarrow> id option" where
  "driver_conflict tenant r exclude d = map_option trip_id (List.find (\<lambda>t. trip_tenant t = tenant
     \<and> trip_driver t = r \<and> trip_active t \<and> Some (trip_id t) \<noteq> exclude) (trips d))"

definition vehicle_compliance_blocked :: "id \<Rightarrow> vehicle \<Rightarrow> timestamp \<Rightarrow> db \<Rightarrow> bool" where
  "vehicle_compliance_blocked tenant v now d =
     (let vs = vehicle_compliance_violations v (tenant_policy tenant d) (date_of now)
      in vs \<noteq> [] \<and> \<not> has_waivers_for_violations tenant ''vehicle'' (veh_id v) vs now d)"

definition driver_compliance_blocked :: "id \<Rightarrow> driver \<Rightarrow> timestamp \<Rightarrow> db \<Rightarrow> bool" where
  "driver_compliance_blocked tenant r now d =
     (let vs = driver_compliance_violations r (tenant_policy tenant d) (date_of now)
      in vs \<noteq> [] \<and> \<not> has_waivers_for_violations tenant ''driver'' (drv_id r) vs now d)"

text \<open>The blockers of a summary, with the code each carries in the response.\<close>

datatype blocker = Unavailable string | Compliance_blocked "violation list"
  | Workshop_blocked id | Assignment_conflict id | Hos_violation hos

fun blocker_code :: "string \<Rightarrow> blocker \<Rightarrow> string" where
  "blocker_code entity (Unavailable _) = entity @ ''_unavailable''"
| "blocker_code entity (Compliance_blocked _) = entity @ ''_compliance_blocked''"
| "blocker_code entity (Workshop_blocked _) = entity @ ''_workshop_blocked''"
| "blocker_code entity (Assignment_conflict _) = entity @ ''_assignment_conflict''"
| "blocker_code entity (Hos_violation _) = entity @ ''_hos_violation''"

record availability =
  avl_entity :: id
  avl_status :: string
  avl_available :: bool
  avl_blockers :: "blocker list"
  avl_warnings :: "compliance_warning list"
  avl_violations :: "violation list"
  avl_waivers :: "waiver list"
  avl_trip :: "id option"
  avl_work_order :: "id option"
  avl_hos :: "hos option"

definition vehicle_availability_summary ::
  "id \<Rightarrow> id \<Rightarrow> id option \<Rightarrow> timestamp \<Rightarrow> db \<Rightarrow> availability res" where
  "vehicle_availability_summary tenant vid exclude now d =
     (case owned veh_id veh_tenant tenant vid (vehicles d) of
        None \<Rightarrow> Inl (ApiError ''vehicle_not_found'' 404)
      | Some v \<Rightarrow>
          (let policy = tenant_policy tenant d;
               vs = vehicle_compliance_violations v policy (date_of now);
               wo = active_work_order tenant vid d;
               tr = vehicle_conflict tenant vid exclude d;
               bs = (if veh_status v \<noteq> ''active'' then [Unavailable (veh_status v)] else [])
                  @ (if vehicle_compliance_blocked tenant v now d then [Compliance_blocked vs] else [])
                  @ (case wo of Some i \<Rightarrow> [Workshop_blocked i] | None \<Rightarrow> [])
                  @ (case tr of Some i \<Rightarrow> [Assignment_conflict i] | None \<Rightarrow> [])
           in Inr \<lparr>avl_entity = vid, avl_status = veh_status v, avl_available = (bs = []),
                avl_blockers = bs,
                avl_warnings = vehicle_compliance_warnings v policy (date_of now),
                avl_violations = vs,
                avl_waivers = active_waiver_summaries tenant ''vehicle'' vid d,
                avl_trip = tr, avl_work_order = wo, avl_hos = None\<rparr>))"

definition driver_availability_summary ::
  "id \<Rightarrow> id \<Rightarrow> id option \<Rightarrow> timestamp \<Rightarrow> db \<Rightarrow> availability res" where
  "driver_availability_summary tenant rid exclude now d =
     (case owned drv_id drv_tenant tenant rid (drivers d) of
        None \<Rightarrow> Inl (ApiError ''driver_not_found'' 404)
      | Some r \<Rightarrow>
          (let policy = tenant_policy tenant d;
               vs = driver_compliance_violations r policy (date_of now);
               tr = driver_conflict tenant rid exclude d;
               h = calculate_driving_hours rid tenant None now d;
               bs = (if drv_status r \<noteq> ''active'' then [Unavailable (drv_status r)] else [])
                  @ (if driver_compliance_blocked tenant r now d then [Compliance_blocked vs] else [])
                  @ (case tr of Some i \<Rightarrow> [Assignment_conflict i] | None \<Rightarrow> [])
                  @ (if hos_status h = H_violation then [Hos_violation h] else [])
           in Inr \<lparr>avl_entity = rid, avl_status = drv_status r, avl_available = (bs = []),
                avl_blockers = bs,
                avl_warnings = driver_compliance_warnings r policy (date_of now),
                avl_violations = vs,
                avl_waivers = active_waiver_summaries tenant ''driver'' rid d,
                avl_trip = tr, avl_work_order = None, avl_hos = Some h\<rparr>))"

text \<open>
  The checks before an assignment; the row locks they take have no counterpart in a model that
  runs one service at a time.
\<close>

definition require_vehicle_available ::
  "id \<Rightarrow> id \<Rightarrow> id option \<Rightarrow> timestamp \<Rightarrow> db \<Rightarrow> vehicle res" where
  "require_vehicle_available tenant vid exclude now d =
     (case owned veh_id veh_tenant tenant vid (vehicles d) of
        None \<Rightarrow> Inl (ApiError ''vehicle_not_found'' 404)
      | Some v \<Rightarrow>
          if veh_ownership v \<noteq> ''fleet'' then Inl (ApiError ''invalid_vehicle_ownership'' 409)
          else if veh_status v \<noteq> ''active'' then Inl (ApiError ''vehicle_unavailable'' 409)
          else if vehicle_compliance_blocked tenant v now d
          then Inl (ApiError ''vehicle_compliance_blocked'' 409)
          else if active_work_order tenant vid d \<noteq> None
          then Inl (ApiError ''vehicle_workshop_blocked'' 409)
          else if vehicle_conflict tenant vid exclude d \<noteq> None
          then Inl (ApiError ''vehicle_assignment_conflict'' 409)
          else Inr v)"

definition require_driver_available ::
  "id \<Rightarrow> id \<Rightarrow> id option \<Rightarrow> timestamp \<Rightarrow> db \<Rightarrow> driver res" where
  "require_driver_available tenant rid exclude now d =
     (case owned drv_id drv_tenant tenant rid (drivers d) of
        None \<Rightarrow> Inl (ApiError ''driver_not_found'' 404)
      | Some r \<Rightarrow>
          if drv_status r \<noteq> ''active'' then Inl (ApiError ''driver_unavailable'' 409)
          else if driver_compliance_blocked tenant r now d
          then Inl (ApiError ''driver_compliance_blocked'' 409)
          else if driver_conflict tenant rid exclude d \<noteq> None
          then Inl (ApiError ''driver_assignment_conflict'' 409)
          else Inr r)"

definition require_vehicle_and_driver_available ::
  "id \<Rightarrow> id \<Rightarrow> id \<Rightarrow> id option \<Rightarrow> timestamp \<Rightarrow> db \<Rightarrow> (vehicle \<times> driver) res" where
  "require_vehicle_and_driver_available tenant vid rid exclude now d =
     rbind (require_vehicle_available tenant vid exclude now d) (\<lambda>v.
       rbind (require_driver_available tenant rid exclude now d) (\<lambda>r. Inr (v, r)))"

section \<open>Inversion\<close>

lemma require_vehicle_Inr:
  "require_vehicle_available t v x now d = Inr r \<longleftrightarrow>
     owned veh_id veh_tenant t v (vehicles d) = Some r \<and> veh_ownership r = ''fleet''
     \<and> veh_status r = ''active'' \<and> \<not> vehicle_compliance_blocked t r now d
     \<and> active_work_order t v d = None \<and> vehicle_conflict t v x d = None"
  by (auto simp: require_vehicle_available_def split: option.splits)

lemma require_driver_Inr:
  "require_driver_available t i x now d = Inr r \<longleftrightarrow>
     owned drv_id drv_tenant t i (drivers d) = Some r \<and> drv_status r = ''active''
     \<and> \<not> driver_compliance_blocked t r now d \<and> driver_conflict t i x d = None"
  by (auto simp: require_driver_available_def split: option.splits)

lemma vehicle_conflict_None:
  "vehicle_conflict t v x d = None \<longleftrightarrow>
     (\<forall>r\<in>set (trips d). trip_tenant r = t \<longrightarrow> trip_vehicle r = v \<longrightarrow> trip_active r \<longrightarrow> Some (trip_id r) = x)"
  by (auto simp: vehicle_conflict_def find_None_iff)

lemma driver_conflict_None:
  "driver_conflict t v x d = None \<longleftrightarrow>
     (\<forall>r\<in>set (trips d). trip_tenant r = t \<longrightarrow> trip_driver r = v \<longrightarrow> trip_active r \<longrightarrow> Some (trip_id r) = x)"
  by (auto simp: driver_conflict_def find_None_iff)

lemma require_both_Inr:
  "require_vehicle_and_driver_available t v r x now d = Inr (a, b) \<longleftrightarrow>
     require_vehicle_available t v x now d = Inr a \<and> require_driver_available t r x now d = Inr b"
  by (auto simp: require_vehicle_and_driver_available_def rbind_Inr)

section \<open>Properties\<close>

text \<open>What a check answers when a summary shows these blockers.\<close>

fun decided :: "string \<Rightarrow> 'a \<Rightarrow> blocker list \<Rightarrow> 'a res" where
  "decided entity r [] = Inr r"
| "decided entity r (b # bs) = Inl (ApiError (blocker_code entity b) 409)"

text \<open>
  C14: The summary and the check of an assignment agree. Both refuse a vehicle or driver the tenant does not
  have; the summary calls a row available exactly when it lists no blocker. A fleet vehicle passes the check when
  the summary lists no blocker, and is otherwise refused with the code of the first one listed; a driver likewise,
  except that the check passes over a violation of the hours of service. A vehicle that is not of the fleet is always
  refused, whatever its summary says, which does not look at the ownership.
\<close>

theorem availability_views_agree:
  "(case vehicle_availability_summary t v x now d of
      Inl e \<Rightarrow> require_vehicle_available t v x now d = Inl e
    | Inr s \<Rightarrow> avl_available s = (avl_blockers s = [])
        \<and> (\<exists>r. owned veh_id veh_tenant t v (vehicles d) = Some r
            \<and> require_vehicle_available t v x now d =
                (if veh_ownership r = ''fleet'' then decided ''vehicle'' r (avl_blockers s)
                 else Inl (ApiError ''invalid_vehicle_ownership'' 409))))
   \<and> (case driver_availability_summary t i x now d of
      Inl e \<Rightarrow> require_driver_available t i x now d = Inl e
    | Inr s \<Rightarrow> avl_available s = (avl_blockers s = [])
        \<and> (\<exists>r. owned drv_id drv_tenant t i (drivers d) = Some r
            \<and> require_driver_available t i x now d =
                decided ''driver'' r (filter (\<lambda>b. b \<notin> range Hos_violation) (avl_blockers s))))"
proof (rule conjI, goal_cases)
  case 1
  show ?case
    by (cases "owned veh_id veh_tenant t v (vehicles d)")
      (simp_all add: vehicle_availability_summary_def require_vehicle_available_def Let_def split: option.splits)
next
  case 2
  show ?case
    by (cases "owned drv_id drv_tenant t i (drivers d)")
      (auto simp: driver_availability_summary_def require_driver_available_def Let_def split: option.splits)
qed

text \<open>Durations are never negative, so the hours of a day are at most those of its week.\<close>

lemma trip_hours_nonneg: "0 \<le> trip_hours now t"
  by (simp add: trip_hours_def duration_hours_def split: option.splits)

lemma sum_filter_le:
  fixes f :: "'a \<Rightarrow> dec"
  assumes "\<And>x. 0 \<le> f x"
  shows "0 \<le> sum_list (map f (filter P xs)) \<and> sum_list (map f (filter P xs)) \<le> sum_list (map f xs)"
  using assms by (induction xs) (auto intro: add_mono add_increasing)

text \<open>
  Hours of service: the hours of the day are non-negative and at most those of the week; the
  driver is in violation exactly when the week reaches 48 hours or the day 9, the weekly limit
  being reported first; and only trips in progress or completed count, so adding trips of any
  other status changes nothing.
\<close>

theorem driving_hours_classified:
  "0 \<le> hos_today (calculate_driving_hours r t (Some day) now d)
    \<and> hos_today (calculate_driving_hours r t (Some day) now d)
        \<le> hos_week (calculate_driving_hours r t (Some day) now d)
    \<and> (hos_status (calculate_driving_hours r t (Some day) now d) = H_violation
        \<longleftrightarrow> 48 \<le> week_hours r t day now d \<or> 9 \<le> day_hours r t day now d)
    \<and> (hos_status (calculate_driving_hours r t (Some day) now d) = H_warning
        \<longleftrightarrow> week_hours r t day now d < 48 \<and> 8 \<le> day_hours r t day now d \<and> day_hours r t day now d < 9)
    \<and> (hos_reason (calculate_driving_hours r t (Some day) now d) = Some Weekly_limit
        \<longleftrightarrow> 48 \<le> week_hours r t day now d)
    \<and> calculate_driving_hours r t (Some day) now
         (d\<lparr>trips := trips d @ filter (\<lambda>x. trip_status x \<notin> set driving_statuses) xs\<rparr>)
       = calculate_driving_hours r t (Some day) now d"
proof -
  let ?h = "calculate_driving_hours r t (Some day) now d"
  have nn: "0 \<le> day_hours r t day now d \<and> day_hours r t day now d \<le> week_hours r t day now d"
    unfolding day_hours_def week_hours_def by (rule sum_filter_le) (rule trip_hours_nonneg)
  have h: "hos_today ?h = q2 (day_hours r t day now d)" "hos_week ?h = q2 (week_hours r t day now d)"
    "(hos_status ?h, hos_reason ?h) = hos_classify (day_hours r t day now d) (week_hours r t day now d)"
    by (simp_all add: calculate_driving_hours_def Let_def split: prod.split)
  have "week_trips r t day (d\<lparr>trips := trips d @ filter
      (\<lambda>x. trip_status x \<notin> set driving_statuses) xs\<rparr>) = week_trips r t day d"
    by (auto simp: week_trips_def filter_empty_conv)
  then have "calculate_driving_hours r t (Some day) now
         (d\<lparr>trips := trips d @ filter (\<lambda>x. trip_status x \<notin> set driving_statuses) xs\<rparr>) = ?h"
    by (simp add: calculate_driving_hours_def week_hours_def day_hours_def)
  with nn h show ?thesis
    by (auto simp: hos_classify_def quantize_nonneg quantize_mono split: if_splits)
qed

lemma vehicle_violation_iff:
  "x \<in> set (vehicle_compliance_violations v p today) \<longleftrightarrow>
     (\<exists>ty\<in>set (vehicle_required v p).
        case document_valid_until (or_else (veh_documents v) []) ty of
          None \<Rightarrow> x = Missing ty | Some until \<Rightarrow> until < today \<and> x = Expired ty until)"
  unfolding vehicle_compliance_violations_def map_filter_mem
  by (intro bex_cong refl) (auto split: option.split)

lemma vehicle_warning_iff:
  "x \<in> set (vehicle_compliance_warnings v p today) \<longleftrightarrow>
     (\<exists>ty\<in>set (vehicle_required v p).
        case document_valid_until (or_else (veh_documents v) []) ty of
          None \<Rightarrow> False
        | Some until \<Rightarrow> is_expiring_soon until p today \<and> x = Expiring ty until (until - today))"
  unfolding vehicle_compliance_warnings_def map_filter_mem
  by (intro bex_cong refl) (auto split: option.split)

lemma driver_violation_iff:
  "x \<in> set (driver_compliance_violations r p today) \<longleftrightarrow>
     (\<exists>(ty, until)\<in>set (driver_documents r). case until of
          None \<Rightarrow> ty \<in> set (required_documents p ''driver_required_documents'') \<and> x = Missing ty
        | Some u \<Rightarrow> u < today \<and> x = Expired ty u)"
  unfolding driver_compliance_violations_def map_filter_mem
  by (intro bex_cong refl) (auto split: option.split if_splits)

text \<open>
  Compliance is judged document by document: a required vehicle document is reported missing
  exactly when it has no date, expired exactly when its date is past, about to expire exactly when
  its date lies within the policy's warning window, and never as both; a driver's document that is
  past is a violation whatever the policy says.
\<close>

theorem compliance_per_document:
  "(Missing ty \<in> set (vehicle_compliance_violations v p today) \<longleftrightarrow>
            ty \<in> set (vehicle_required v p) \<and> document_valid_until (or_else (veh_documents v) []) ty = None)
    \<and> (Expired ty u \<in> set (vehicle_compliance_violations v p today) \<longleftrightarrow>
            ty \<in> set (vehicle_required v p) \<and> document_valid_until (or_else (veh_documents v) []) ty = Some u \<and> u < today)
    \<and> (Expiring ty u k \<in> set (vehicle_compliance_warnings v p today) \<longleftrightarrow>
            ty \<in> set (vehicle_required v p) \<and> document_valid_until (or_else (veh_documents v) []) ty = Some u \<and> k = u - today
            \<and> 0 \<le> k \<and> k \<le> warning_days p)
    \<and> (Expired ty u \<in> set (driver_compliance_violations r p today) \<longleftrightarrow>
            (ty, Some u) \<in> set (driver_documents r) \<and> u < today)"
proof (intro conjI)
  let ?until = "document_valid_until (or_else (veh_documents v) []) ty"
  show "Missing ty \<in> set (vehicle_compliance_violations v p today) \<longleftrightarrow>
      ty \<in> set (vehicle_required v p) \<and> ?until = None"
    unfolding vehicle_violation_iff by (cases ?until) (auto split: option.splits)
  show "Expired ty u \<in> set (vehicle_compliance_violations v p today) \<longleftrightarrow>
      ty \<in> set (vehicle_required v p) \<and> ?until = Some u \<and> u < today"
    unfolding vehicle_violation_iff by (cases ?until) (auto split: option.splits)
  show "Expiring ty u k \<in> set (vehicle_compliance_warnings v p today) \<longleftrightarrow>
      ty \<in> set (vehicle_required v p) \<and> ?until = Some u \<and> k = u - today
      \<and> 0 \<le> k \<and> k \<le> warning_days p"
    unfolding vehicle_warning_iff by (cases ?until) (auto simp: is_expiring_soon_def split: option.splits)
  show "Expired ty u \<in> set (driver_compliance_violations r p today) \<longleftrightarrow>
      (ty, Some u) \<in> set (driver_documents r) \<and> u < today"
    unfolding driver_violation_iff by (force split: option.splits)
qed

end
