(* ===== verification/Trip_Costs.thy ===== *)
theory Trip_Costs
  imports Availability
begin

text \<open>
  The money of a trip: its automatic revenue (\<^verbatim>\<open>trips/revenue.py\<close>), its costs and their
  reconciliation (\<^verbatim>\<open>trips/costs.py\<close>) and the driver's travel allowance
  (\<^verbatim>\<open>trips/service.py\<close>).
\<close>

section \<open>The constraints of the trips table\<close>

text \<open>
  What the database checks when a trip is written (\<^verbatim>\<open>Trip.__table_args__\<close>): the row checks, the
  uniqueness of a trip order and of an active trip per vehicle and per driver.
\<close>

definition trip_checks :: "trip \<Rightarrow> bool" where
  "trip_checks t \<longleftrightarrow>
     (case trip_km_start t of None \<Rightarrow> True | Some a \<Rightarrow> 0 \<le> a)
     \<and> (case trip_km_end t of None \<Rightarrow> True | Some b \<Rightarrow> 0 \<le> b)
     \<and> (case (trip_km_start t, trip_km_end t) of (Some a, Some b) \<Rightarrow> a \<le> b | _ \<Rightarrow> True)
     \<and> (case trip_cargo_weight t of None \<Rightarrow> True | Some w \<Rightarrow> 0 \<le> w)
     \<and> (case trip_cargo_volume t of None \<Rightarrow> True | Some w \<Rightarrow> 0 \<le> w)
     \<and> (case trip_cargo_volumes t of None \<Rightarrow> True | Some w \<Rightarrow> 0 \<le> w)
     \<and> 0 \<le> trip_fuel_cost t \<and> 0 \<le> trip_expense_cost t \<and> 0 \<le> trip_transport_cost t
     \<and> 0 \<le> trip_revenue t"

text \<open>The statuses the two partial indexes name; the guards of \<open>Availability\<close> have a list of their own.\<close>

definition vehicle_index_statuses :: "trip_status list" where
  "vehicle_index_statuses = [T_planned, T_dispatch_pending, T_dispatched, T_in_progress, T_delayed, T_incident]"

definition driver_index_statuses :: "trip_status list" where
  "driver_index_statuses = [T_planned, T_dispatch_pending, T_dispatched, T_in_progress, T_delayed, T_incident]"

definition active_vehicles :: "trip list \<Rightarrow> (id \<times> id) list" where
  "active_vehicles ts = map (\<lambda>t. (trip_tenant t, trip_vehicle t))
     (filter (\<lambda>t. trip_status t \<in> set vehicle_index_statuses) ts)"

definition active_drivers :: "trip list \<Rightarrow> (id \<times> id) list" where
  "active_drivers ts = map (\<lambda>t. (trip_tenant t, trip_driver t))
     (filter (\<lambda>t. trip_status t \<in> set driver_index_statuses) ts)"

definition trips_constraints :: "trip list \<Rightarrow> bool" where
  "trips_constraints ts \<longleftrightarrow> list_all trip_checks ts
     \<and> distinct (List.map_filter trip_order ts)
     \<and> distinct (active_vehicles ts) \<and> distinct (active_drivers ts)"

text \<open>The indexes cover the trips the guards look for, and no others.\<close>

lemma indexed_vehicles: "active_vehicles ts = map (\<lambda>t. (trip_tenant t, trip_vehicle t)) (filter trip_active ts)"
proof -
  have "trip_status t \<in> set vehicle_index_statuses \<longleftrightarrow> trip_active t" for t
    by (cases "trip_status t") (simp_all add: trip_active_def active_trip_statuses_def vehicle_index_statuses_def)
  then show ?thesis by (simp add: active_vehicles_def)
qed

lemma indexed_drivers: "active_drivers ts = map (\<lambda>t. (trip_tenant t, trip_driver t)) (filter trip_active ts)"
proof -
  have "trip_status t \<in> set driver_index_statuses \<longleftrightarrow> trip_active t" for t
    by (cases "trip_status t") (simp_all add: trip_active_def active_trip_statuses_def driver_index_statuses_def)
  then show ?thesis by (simp add: active_drivers_def)
qed

text \<open>A flush that breaks a constraint raises \<^verbatim>\<open>IntegrityError\<close>.\<close>

definition flush_trips :: "db \<Rightarrow> db res" where
  "flush_trips d = (if trips_constraints (trips d) then Inr d else Inl (PyError ''IntegrityError''))"

lemma flush_trips_Inr [res_simps]: "flush_trips d = Inr d' \<longleftrightarrow> d' = d \<and> trips_constraints (trips d)"
  by (auto simp: flush_trips_def)

section \<open>Revenue\<close>

text \<open>\<^verbatim>\<open>_decimal(value or 0)\<close>\<close>

definition money :: "dec option \<Rightarrow> dec" where
  "money x = q2 (or_else x 0)"

definition trim_spaces :: "string \<Rightarrow> string" where
  "trim_spaces s = rev (dropWhile (\<lambda>c. c = CHR '' '') (rev (dropWhile (\<lambda>c. c = CHR '' '') s)))"

definition same_place :: "string \<Rightarrow> string \<Rightarrow> bool" where
  "same_place a b \<longleftrightarrow> casefold (trim_spaces a) = casefold (trim_spaces b)"

definition find_route :: "id \<Rightarrow> trip \<Rightarrow> db \<Rightarrow> known_route option" where
  "find_route tenant t d =
     (if trip_origin t = [] \<or> trip_destination t = [] then None
      else List.find (\<lambda>r. route_tenant r = tenant \<and> same_place (route_origin r) (trip_origin t)
             \<and> same_place (route_destination r) (trip_destination t)) (routes d))"

definition find_tariff :: "id \<Rightarrow> id \<Rightarrow> id \<Rightarrow> db \<Rightarrow> tariff option" where
  "find_tariff tenant contract route d =
     List.find (\<lambda>x. tar_tenant x = tenant \<and> tar_contract x = contract \<and> tar_route x = route)
       (tariffs d)"

text \<open>
  The rate card both branches apply: per trip, ton, volume or kilometre; any other basis is
  charged per trip. Kilometres are those driven when the readings give a positive distance,
  otherwise the fallback distance (the route's, or none for the contract's own card).
\<close>

definition km_driven :: "trip \<Rightarrow> int" where
  "km_driven t = (case (trip_km_start t, trip_km_end t) of (Some a, Some b) \<Rightarrow> b - a | _ \<Rightarrow> 0)"

definition rate_amount :: "string \<Rightarrow> dec \<Rightarrow> dec \<Rightarrow> trip \<Rightarrow> dec" where
  "rate_amount basis price fallback t =
     (let b = casefold (if basis = [] then ''trip'' else basis)
      in if b = ''trip'' then price
         else if b = ''ton'' then q2 (price * money (trip_cargo_weight t))
         else if b = ''volume'' then q2 (price * money (trip_cargo_volume t))
         else if b = ''km'' then
           q2 (price * (if 0 < km_driven t then of_int (km_driven t) else fallback))
         else price)"

definition auto_calculate_revenue :: "id \<Rightarrow> trip \<Rightarrow> db \<Rightarrow> dec" where
  "auto_calculate_revenue tenant t d =
     (case trip_contract t of
        None \<Rightarrow> 0
      | Some c \<Rightarrow>
          (case owned con_id con_tenant tenant c (contracts d) of
             None \<Rightarrow> 0
           | Some con \<Rightarrow>
               (case find_route tenant t d of
                  Some r \<Rightarrow>
                    (case find_tariff tenant c (route_id r) d of
                       Some x \<Rightarrow> rate_amount (tar_basis x) (q2 (tar_unit_price x))
                                   (q2 (route_distance r)) t
                     | None \<Rightarrow> rate_amount (con_billing_basis con) (money (con_unit_price con)) 0 t)
                | None \<Rightarrow> rate_amount (con_billing_basis con) (money (con_unit_price con)) 0 t)))"

section \<open>Costs\<close>

definition trip_cost_sum :: "id \<Rightarrow> id \<Rightarrow> db \<Rightarrow> dec" where
  "trip_cost_sum tenant t d =
     sum_list (map cost_amount (filter (\<lambda>c. cost_tenant c = tenant \<and> cost_trip c = t) (costs d)))"

definition reconcile_trip_costs :: "id \<Rightarrow> trip \<Rightarrow> timestamp \<Rightarrow> db \<Rightarrow> trip" where
  "reconcile_trip_costs tenant t now d =
     (let expense = q2 (trip_cost_sum tenant (trip_id t) d);
          revenue = auto_calculate_revenue tenant t d;
          fuel = q2 (trip_fuel_cost t)
      in t\<lparr>trip_expense_cost := expense, trip_transport_cost := fuel + expense,
           trip_revenue := revenue, trip_margin := revenue - q2 (fuel + expense),
           trip_reconciled_at := Some now\<rparr>)"

text \<open>The arguments of \<^verbatim>\<open>record_trip_cost\<close>.\<close>

record cost_input =
  ci_trip :: id
  ci_type :: string
  ci_amount :: dec
  ci_reference :: string
  ci_incurred_at :: timestamp
  ci_description :: "string option"
  ci_currency :: string
  ci_paid_by :: string
  ci_payment_method :: "string option"
  ci_receipt_file :: "id option"
  ci_source_type :: string
  ci_source :: "id option"

definition find_cost :: "id \<Rightarrow> string \<Rightarrow> db \<Rightarrow> trip_cost option" where
  "find_cost tenant reference d =
     List.find (\<lambda>c. cost_tenant c = tenant \<and> cost_reference c = reference) (costs d)"

abbreviation record_trip_audit :: "id \<Rightarrow> cost_input \<Rightarrow> id option \<Rightarrow> db \<Rightarrow> db" where
  "record_trip_audit tenant p actor d \<equiv>
     record_audit_log tenant actor ''trip_cost.recorded'' ''trip'' (Some (ci_trip p)) d"

definition record_trip_cost ::
  "id \<Rightarrow> cost_input \<Rightarrow> id option \<Rightarrow> timestamp \<Rightarrow> db \<Rightarrow> (trip_cost \<times> db) res" where
  "record_trip_cost tenant p actor now d =
     (let v = q2 (ci_amount p) in
      if v < 0 then Inl (ApiError ''invalid_trip_cost'' 422)
      else case owned trip_id trip_tenant tenant (ci_trip p) (trips d) of
        None \<Rightarrow> Inl (ApiError ''trip_not_found'' 404)
      | Some t \<Rightarrow>
          (case find_cost tenant (ci_reference p) d of
             Some e \<Rightarrow>
               if cost_trip e \<noteq> ci_trip p \<or> cost_type e \<noteq> ci_type p \<or> q2 (cost_amount e) \<noteq> v
                  \<or> cost_source_type e \<noteq> ci_source_type p \<or> cost_source e \<noteq> ci_source p
               then Inl (ApiError ''trip_cost_request_reference_reused'' 409)
               else Inr (e, d)
           | None \<Rightarrow>
               (let (i, d1) = fresh_id d;
                    c = \<lparr>cost_id = i, cost_tenant = tenant, cost_trip = ci_trip p,
                      cost_type = ci_type p, cost_description = ci_description p,
                      cost_amount = v, cost_currency = ci_currency p,
                      cost_paid_by = ci_paid_by p, cost_payment_method = ci_payment_method p,
                      cost_receipt_file = ci_receipt_file p, cost_reference = ci_reference p,
                      cost_source_type = ci_source_type p, cost_source = ci_source p,
                      cost_created_by = actor, cost_incurred_at = ci_incurred_at p\<rparr>;
                    d2 = record_trip_audit tenant p actor (d1\<lparr>costs := tadd c (costs d1)\<rparr>);
                    t' = reconcile_trip_costs tenant t now d2
                in rbind (flush_trips (d2\<lparr>trips := tput trip_id t' (trips d2)\<rparr>))
                     (\<lambda>d3. Inr (c, d3)))))"

definition create_cost ::
  "id \<Rightarrow> cost_input \<Rightarrow> id option \<Rightarrow> timestamp \<Rightarrow> db \<Rightarrow> (trip_cost \<times> db) res" where
  "create_cost tenant p actor now d =
     record_trip_cost tenant (p\<lparr>ci_source_type := ''manual'', ci_source := None\<rparr>) actor now d"

definition list_costs :: "id \<Rightarrow> id \<Rightarrow> db \<Rightarrow> (trip_cost list) res" where
  "list_costs tenant t d =
     (case owned trip_id trip_tenant tenant t (trips d) of
        None \<Rightarrow> Inl (ApiError ''trip_not_found'' 404)
      | Some _ \<Rightarrow> Inr (filter (\<lambda>c. cost_tenant c = tenant \<and> cost_trip c = t) (costs d)))"

section \<open>Facts about revenue and costs\<close>

lemma money_digits [simp]: "cents (money x)"
  by (simp add: money_def)

lemma rate_amount_digits: "cents price \<Longrightarrow> cents (rate_amount b price f t)"
  by (simp add: rate_amount_def Let_def)

lemma revenue_digits: "cents (auto_calculate_revenue tenant t d)"
  by (auto simp: auto_calculate_revenue_def rate_amount_digits split: option.split)

text \<open>The table of costs: unique ids and, per tenant, unique references; amounts are cents.\<close>

definition costs_ok :: "db \<Rightarrow> bool" where
  "costs_ok d \<longleftrightarrow> keys_unique cost_id (costs d) \<and> below cost_id (db_next d) (costs d)
     \<and> distinct (map (\<lambda>c. (cost_tenant c, cost_reference c)) (costs d))
     \<and> list_all (\<lambda>c. 0 \<le> cost_amount c \<and> cents (cost_amount c)) (costs d)"

lemma find_cost_None:
  "find_cost t ref d = None \<longleftrightarrow> (t, ref) \<notin> (\<lambda>c. (cost_tenant c, cost_reference c)) ` set (costs d)"
  by (auto simp: find_cost_def find_None_iff)

lemma trip_cost_sum_digits: "costs_ok d \<Longrightarrow> cents (trip_cost_sum t i d)"
  unfolding trip_cost_sum_def by (rule has_digits_sum_list) (auto simp: costs_ok_def list_all_iff)

text \<open>The two ways a recording succeeds: the reference is known, or a cost is added.\<close>

lemma record_trip_cost_cases:
  assumes "record_trip_cost t p a now d = Inr (c, d')"
  obtains (replay) "d' = d" "find_cost t (ci_reference p) d = Some c"
    "\<exists>r. owned trip_id trip_tenant t (ci_trip p) (trips d) = Some r"
    "cost_trip c = ci_trip p" "cost_type c = ci_type p" "q2 (cost_amount c) = q2 (ci_amount p)"
    "cost_source_type c = ci_source_type p" "cost_source c = ci_source p" "0 \<le> q2 (ci_amount p)"
  | (new) r d2 where "owned trip_id trip_tenant t (ci_trip p) (trips d) = Some r"
    "find_cost t (ci_reference p) d = None" "costs d' = costs d @ [c]" "0 \<le> q2 (ci_amount p)"
    "cost_id c = db_next d" "cost_tenant c = t" "cost_trip c = ci_trip p"
    "cost_type c = ci_type p" "cost_amount c = q2 (ci_amount p)"
    "cost_reference c = ci_reference p" "cost_source_type c = ci_source_type p"
    "cost_source c = ci_source p" "db_next d' = Suc (db_next d)"
    "costs d2 = costs d'" "contracts d2 = contracts d'" "routes d2 = routes d'"
    "tariffs d2 = tariffs d'"
    "trips d' = tput trip_id (reconcile_trip_costs t r now d2) (trips d)"
    "trips_constraints (trips d')"
proof -
  from assms obtain r where r: "owned trip_id trip_tenant t (ci_trip p) (trips d) = Some r"
    and nn: "0 \<le> q2 (ci_amount p)"
    by (auto simp: record_trip_cost_def Let_def split: if_splits option.splits)
  show ?thesis
  proof (cases "find_cost t (ci_reference p) d")
    case None
    from assms r nn None
    have c: "costs d' = costs d @ [c]" "cost_id c = db_next d" "cost_tenant c = t"
      "cost_trip c = ci_trip p" "cost_type c = ci_type p" "cost_amount c = q2 (ci_amount p)"
      "cost_reference c = ci_reference p" "cost_source_type c = ci_source_type p"
      "cost_source c = ci_source p" "db_next d' = Suc (db_next d)"
      by (auto simp: record_trip_cost_def Let_def fresh_id_def rbind_Inr flush_trips_Inr tadd_def)
    let ?d2 = "record_trip_audit t p a (d\<lparr>db_next := Suc (db_next d), costs := costs d @ [c]\<rparr>)"
    from assms r nn None
    have "trips d' = tput trip_id (reconcile_trip_costs t r now ?d2) (trips d)"
      "trips_constraints (trips d')"
      "contracts d' = contracts d" "routes d' = routes d" "tariffs d' = tariffs d"
      by (auto simp: record_trip_cost_def Let_def fresh_id_def rbind_Inr
          flush_trips_Inr tadd_def)
    with c r nn None show ?thesis
      by (intro new [of r ?d2]) simp_all
  next
    case (Some e)
    with assms r nn show ?thesis
      by (intro replay) (auto simp: record_trip_cost_def Let_def split: if_splits)
  qed
qed

lemma record_trip_cost_ok:
  assumes "record_trip_cost t p a now d = Inr (c, d')" and "costs_ok d"
  shows "costs_ok d'"
  using assms(1)
proof (cases rule: record_trip_cost_cases)
  case replay
  with assms(2) show ?thesis by simp
next
  case (new r d2)
  then have "(t, ci_reference p) \<notin> (\<lambda>c. (cost_tenant c, cost_reference c)) ` set (costs d)"
    by (simp add: find_cost_None)
  moreover have "keys_unique cost_id (costs d @ [c])"
    using assms(2) new(5) keys_unique_insert [of cost_id "costs d" "db_next d" c]
    by (simp add: costs_ok_def tadd_def)
  ultimately show ?thesis
    using assms(2) new by (auto simp: costs_ok_def below_def list_all_iff less_Suc_eq)
qed

text \<open>
  Recording a cost is idempotent: after it succeeded, the same request (whoever sends it,
  whenever) returns the same cost and changes nothing, and a request that reuses the reference
  for another trip, type or amount is refused.
\<close>

theorem record_trip_cost_idempotent:
  assumes "record_trip_cost t p a now d = Inr (c, d')"
    and "ci_reference q = ci_reference p"
    and "q2 (ci_amount q) \<ge> 0" and "owned trip_id trip_tenant t (ci_trip q) (trips d') \<noteq> None"
  shows "record_trip_cost t q a' now' d' =
     (if ci_trip q = ci_trip p \<and> ci_type q = ci_type p \<and> q2 (ci_amount q) = q2 (ci_amount p)
         \<and> ci_source_type q = ci_source_type p \<and> ci_source q = ci_source p
      then Inr (c, d') else Inl (ApiError ''trip_cost_request_reference_reused'' 409))"
proof -
  have "find_cost t (ci_reference p) d' = Some c \<and> cost_trip c = ci_trip p
      \<and> cost_type c = ci_type p \<and> q2 (cost_amount c) = q2 (ci_amount p)
      \<and> cost_source_type c = ci_source_type p \<and> cost_source c = ci_source p"
    using assms(1)
  proof (cases rule: record_trip_cost_cases)
    case replay
    then show ?thesis by simp
  next
    case (new r d2)
    then show ?thesis by (auto simp: find_cost_def find_app)
  qed
  with assms(2-4) show ?thesis
    by (auto simp: record_trip_cost_def Let_def split: option.splits)
qed

text \<open>
  A recorded cost reaches the trip: the trip's expenses become the sum of all its costs, which
  grew by the rounded amount; its transport cost is fuel plus expenses and its margin is revenue
  minus transport cost, all in whole cents.
\<close>

theorem record_trip_cost_reconciles:
  assumes "costs_ok d" and "record_trip_cost t p a now d = Inr (c, d')"
    and "find_cost t (ci_reference p) d = None"
  shows "costs_ok d' \<and> trip_cost_sum t (ci_trip p) d' = trip_cost_sum t (ci_trip p) d + q2 (ci_amount p)
    \<and> (\<exists>r. tget trip_id (ci_trip p) (trips d') = Some r
        \<and> trip_expense_cost r = trip_cost_sum t (ci_trip p) d'
        \<and> trip_transport_cost r = q2 (trip_fuel_cost r) + trip_expense_cost r
        \<and> trip_margin r = trip_revenue r - trip_transport_cost r
        \<and> cents (trip_margin r) \<and> trip_reconciled_at r = Some now)"
  using assms(2)
proof (cases rule: record_trip_cost_cases)
  case replay
  with assms(3) show ?thesis by simp
next
  case (new r d2)
  have ok: "costs_ok d'" using assms(1,2) record_trip_cost_ok by blast
  have r: "trip_id r = ci_trip p" "tget trip_id (ci_trip p) (trips d) = Some r"
    using new(1) by (auto simp: owned_Some tget_key)
  let ?r = "reconcile_trip_costs t r now d2"
  have sums: "trip_cost_sum t (ci_trip p) d2 = trip_cost_sum t (ci_trip p) d'"
    using new(14) by (simp add: trip_cost_sum_def)
  have digits: "cents (trip_cost_sum t (ci_trip p) d')" using ok by (rule trip_cost_sum_digits)
  have "tget trip_id (ci_trip p) (trips d') = Some ?r"
    using new(18) r by (simp add: tget_tput reconcile_trip_costs_def Let_def)
  moreover have "trip_cost_sum t (ci_trip p) d' = trip_cost_sum t (ci_trip p) d + q2 (ci_amount p)"
    using new(3,6,7,9) by (simp add: trip_cost_sum_def)
  moreover have "trip_expense_cost ?r = trip_cost_sum t (ci_trip p) d'
      \<and> trip_transport_cost ?r = q2 (trip_fuel_cost ?r) + trip_expense_cost ?r
      \<and> trip_margin ?r = trip_revenue ?r - trip_transport_cost ?r
      \<and> cents (trip_margin ?r) \<and> trip_reconciled_at ?r = Some now"
    using digits sums r(1)
    by (simp add: reconcile_trip_costs_def Let_def has_digits_add has_digits_diff revenue_digits)
  ultimately show ?thesis using ok by blast
qed

definition sample_cost :: cost_input where
  "sample_cost = \<lparr>ci_trip = 5, ci_type = ''toll'', ci_amount = 250, ci_reference = ''toll-1'',
     ci_incurred_at = 10, ci_description = None, ci_currency = ''MZN'', ci_paid_by = ''company'',
     ci_payment_method = None, ci_receipt_file = None, ci_source_type = ''manual'', ci_source = None\<rparr>"

definition sample_trip_db :: db where
  "sample_trip_db = empty_db\<lparr>db_next := 9, trips := [(new_trip 5 1 2 3)\<lparr>trip_fuel_cost := 100\<rparr>]\<rparr>"

lemma sample_cost_recorded:
  "\<exists>c d'. record_trip_cost 1 sample_cost None 20 sample_trip_db = Inr (c, d')
     \<and> owned trip_id trip_tenant 1 5 (trips d') \<noteq> None \<and> find_cost 1 ''toll-1'' sample_trip_db = None"
proof -
  have "find_cost 1 ''toll-1'' sample_trip_db = None"
    by (simp add: find_cost_def sample_trip_db_def empty_db_def)
  moreover have "\<exists>c d'. record_trip_cost 1 sample_cost None 20 sample_trip_db = Inr (c, d')
     \<and> owned trip_id trip_tenant 1 5 (trips d') \<noteq> None"
    by (simp add: record_trip_cost_def sample_cost_def sample_trip_db_def empty_db_def Let_def
        fresh_id_def tadd_def owned_def find_cost_def new_trip_def flush_trips_def
        trips_constraints_def trip_checks_def indexed_vehicles indexed_drivers
        List.map_filter_simps reconcile_trip_costs_def trip_cost_sum_def
        auto_calculate_revenue_def)
  ultimately show ?thesis by blast
qed

lemma record_trip_cost_idempotent_witness:
  "\<exists>c d'. record_trip_cost 1 sample_cost None 20 sample_trip_db = Inr (c, d')
     \<and> record_trip_cost 1 sample_cost (Some 4) 30 d' = Inr (c, d')
     \<and> record_trip_cost 1 (sample_cost\<lparr>ci_amount := 99\<rparr>) None 30 d'
        = Inl (ApiError ''trip_cost_request_reference_reused'' 409)"
proof -
  obtain c d' where r: "record_trip_cost 1 sample_cost None 20 sample_trip_db = Inr (c, d')"
      "owned trip_id trip_tenant 1 5 (trips d') \<noteq> None"
    using sample_cost_recorded by blast
  from record_trip_cost_idempotent [OF r(1), of sample_cost "Some 4" 30]
    record_trip_cost_idempotent [OF r(1), of "sample_cost\<lparr>ci_amount := 99\<rparr>" None 30] r
  show ?thesis by (auto simp: sample_cost_def)
qed

lemma record_trip_cost_reconciles_witness:
  "\<exists>c d'. record_trip_cost 1 sample_cost None 20 sample_trip_db = Inr (c, d') \<and> costs_ok d'
     \<and> (\<exists>r. tget trip_id 5 (trips d') = Some r \<and> trip_expense_cost r = trip_cost_sum 1 5 d')"
proof -
  obtain c d' where r: "record_trip_cost 1 sample_cost None 20 sample_trip_db = Inr (c, d')"
      "find_cost 1 ''toll-1'' sample_trip_db = None"
    using sample_cost_recorded by blast
  have "costs_ok sample_trip_db"
    by (simp add: costs_ok_def sample_trip_db_def empty_db_def keys_unique_def below_def)
  from record_trip_cost_reconciles [OF this r(1)] r show ?thesis by (auto simp: sample_cost_def)
qed

section \<open>The driver's travel allowance\<close>

definition default_tiers :: "json list" where
  "default_tiers = [JObj [(''min_km'', JInt 100), (''max_km'', JInt 250), (''amount'', JInt 500),
       (''label'', JStr ''100-249 km'')],
     JObj [(''min_km'', JInt 250), (''max_km'', JInt 500), (''amount'', JInt 1000),
       (''label'', JStr ''250-499 km'')],
     JObj [(''min_km'', JInt 500), (''amount'', JInt 1500), (''label'', JStr ''500+ km'')]]"

record allowance_policy =
  alw_enabled :: json
  alw_currency :: json
  alw_min_km :: json
  alw_tiers :: json
  alw_default :: bool

text \<open>\<^verbatim>\<open>dict.get\<close> with a default: a key that is present with null stays null.\<close>

definition jget_or :: "string \<Rightarrow> json \<Rightarrow> (string \<times> json) list \<Rightarrow> json" where
  "jget_or k dflt obj = (case map_of obj k of Some v \<Rightarrow> v | None \<Rightarrow> dflt)"

fun json_upper :: "json \<Rightarrow> json" where
  "json_upper (JStr s) = JStr (map upper_char s)"
| "json_upper v = v"

definition driver_allowance_policy :: "(string \<times> json) list \<Rightarrow> allowance_policy" where
  "driver_allowance_policy policy =
     (case jget allowance_key policy of
        JObj v \<Rightarrow> \<lparr>alw_enabled = jget_or ''enabled'' (JBool True) v,
           alw_currency = json_upper (jor (jget ''currency'' v) (JStr ''MZN'')),
           alw_min_km = jget_or ''min_long_course_km'' (JInt 100) v,
           alw_tiers = jget_or ''tiers'' (JList default_tiers) v, alw_default = False\<rparr>
      | _ \<Rightarrow> \<lparr>alw_enabled = JBool True, alw_currency = JStr ''MZN'', alw_min_km = JInt 100,
           alw_tiers = JList default_tiers, alw_default = True\<rparr>)"

text \<open>
  \<^verbatim>\<open>float(value)\<close>: what is not a number raises (Python would read a numeral out of a string,
  which a validated policy never holds).
\<close>

fun json_float :: "json \<Rightarrow> dec res" where
  "json_float (JBool b) = Inr (of_bool b)"
| "json_float (JInt i) = Inr (of_int i)"
| "json_float (JFloat r) = Inr r"
| "json_float (JStr s) = Inl (PyError ''ValueError'')"
| "json_float _ = Inl (PyError ''TypeError'')"

definition float_or_0 :: "json \<Rightarrow> dec res" where
  "float_or_0 v = json_float (jor v (JInt 0))"

record allowance_tier =
  tier_min :: dec
  tier_max :: "dec option"
  tier_amount :: dec

datatype allowance_reason = Disabled | Below_minimum | Matched | No_tier

fun match_tier :: "dec \<Rightarrow> json list \<Rightarrow> allowance_tier option res" where
  "match_tier km [] = Inr None"
| "match_tier km (v # vs) =
     (case v of
        JObj item \<Rightarrow>
          rbind (float_or_0 (jget ''min_km'' item)) (\<lambda>lo.
            if km < lo then match_tier km vs
            else rbind (case jget ''max_km'' item of JNull \<Rightarrow> Inr None
                        | h \<Rightarrow> rbind (json_float h) (\<lambda>x. Inr (Some x))) (\<lambda>hi.
              if (case hi of Some h \<Rightarrow> h \<le> km | None \<Rightarrow> False) then match_tier km vs
              else rbind (float_or_0 (jget ''amount'' item)) (\<lambda>a.
                Inr (Some \<lparr>tier_min = lo, tier_max = hi, tier_amount = a\<rparr>))))
      | _ \<Rightarrow> match_tier km vs)"

definition driver_allowance_match ::
  "(string \<times> json) list \<Rightarrow> dec \<Rightarrow> (dec \<times> allowance_reason \<times> allowance_tier option) res" where
  "driver_allowance_match policy km =
     (let p = driver_allowance_policy policy in
      if alw_enabled p = JBool False then Inr (0, Disabled, None)
      else rbind (float_or_0 (alw_min_km p)) (\<lambda>lo.
        if km < lo then Inr (0, Below_minimum, None)
        else rbind (match_tier km (case alw_tiers p of JList ts \<Rightarrow> ts | _ \<Rightarrow> default_tiers)) (\<lambda>m.
          case m of None \<Rightarrow> Inr (0, No_tier, None)
          | Some t \<Rightarrow> Inr (tier_amount t, Matched, Some t))))"

definition trip_allowance_distance :: "id \<Rightarrow> trip \<Rightarrow> dec option \<Rightarrow> db \<Rightarrow> dec res" where
  "trip_allowance_distance tenant t override d =
     (case override of
        Some km \<Rightarrow> if km < 0 then Inl (ApiError ''invalid_trip_distance'' 422) else Inr km
      | None \<Rightarrow>
          (case Option.bind (trip_order t) (\<lambda>o'. Option.bind
                  (owned ord_id ord_tenant tenant o' (orders d)) ord_distance) of
             Some km \<Rightarrow> Inr km
           | None \<Rightarrow>
               (case (trip_km_start t, trip_km_end t) of
                  (Some a, Some b) \<Rightarrow>
                    if a \<le> b then Inr (of_int (b - a)) else Inl (ApiError ''trip_distance_required'' 422)
                | _ \<Rightarrow> Inl (ApiError ''trip_distance_required'' 422))))"

text \<open>\<^verbatim>\<open>round(distance, 2)\<close> as a float prints it: at least one fractional digit, no trailing zero.\<close>

definition show_float2 :: "dec \<Rightarrow> string" where
  "show_float2 x =
     (let n = nat (round_half_even (x * 100)); c = n mod 100
      in show_nat (n div 100) @ ''.'' @ (if c mod 10 = 0 then show_nat (c div 10)
                                        else zfill 2 (show_nat c)))"

definition allowance_reference :: "id \<Rightarrow> dec \<Rightarrow> string" where
  "allowance_reference t km = ''driver-despacho:'' @ show_nat t @ '':'' @ show_float2 km"

text \<open>
  The recorded cost and the allowance; \<open>text\<close> is the description the handler composes, the
  response's copy of the policy and tier is left out.
\<close>

definition record_driver_travel_allowance :: "id \<Rightarrow> id \<Rightarrow> dec option \<Rightarrow> timestamp option
    \<Rightarrow> string option \<Rightarrow> string option \<Rightarrow> string \<Rightarrow> id option \<Rightarrow> timestamp \<Rightarrow> db
    \<Rightarrow> (trip_cost \<times> dec \<times> db) res" where
  "record_driver_travel_allowance tenant tid override incurred reference notes text actor now d =
     (case owned trip_id trip_tenant tenant tid (trips d) of
        None \<Rightarrow> Inl (ApiError ''trip_not_found'' 404)
      | Some t \<Rightarrow>
          rbind (trip_allowance_distance tenant t override d) (\<lambda>km.
          rbind (driver_allowance_match (tenant_policy tenant d) km) (\<lambda>(amount, _, _).
            if amount \<le> 0 then Inl (ApiError ''driver_allowance_not_applicable'' 409)
            else rbind (record_trip_cost tenant
                \<lparr>ci_trip = tid, ci_type = ''driver_despacho'', ci_amount = amount,
                  ci_reference = the (or_str reference (Some (allowance_reference tid km))),
                  ci_incurred_at = or_else incurred now,
                  ci_description = or_str notes (Some text),
                  ci_currency = (case alw_currency (driver_allowance_policy (tenant_policy tenant d)) of
                    JStr c \<Rightarrow> c | _ \<Rightarrow> ''MZN''),
                  ci_paid_by = ''company'', ci_payment_method = Some ''driver_allowance'',
                  ci_receipt_file = None, ci_source_type = ''driver_despacho'',
                  ci_source = Some tid\<rparr> actor now d)
              (\<lambda>(c, d'). Inr (c, km, d')))))"

lemma float_or_0_num: "jnum v = Some r \<Longrightarrow> float_or_0 v = Inr r"
  by (cases v) (auto simp: float_or_0_def jor_def)

lemma float_or_0_null [simp]: "float_or_0 JNull = Inr 0"
  by (simp add: float_or_0_def jor_def)

lemma json_float_num: "jnum v = Some r \<Longrightarrow> json_float v = Inr r"
  by (cases v) auto

lemma tier_okE:
  assumes "tier_ok v"
  obtains item lo a where "v = JObj item" "jnum (jget ''min_km'' item) = Some lo"
    "jnum (jget ''amount'' item) = Some a" "0 \<le> lo" "0 \<le> a"
    "jget ''max_km'' item = JNull \<or> (\<exists>h. jnum (jget ''max_km'' item) = Some h \<and> lo < h)"
proof -
  from assms obtain item where v: "v = JObj item" by (auto simp: tier_ok_def split: json.splits)
  with assms obtain lo a where "jnum (jget ''min_km'' item) = Some lo"
    "jnum (jget ''amount'' item) = Some a"
    by (auto simp: tier_ok_def split: option.splits)
  with assms v show ?thesis
    by (intro that [of item lo a]) (auto simp: tier_ok_def jget_def [of "''max_km''"] split: option.splits)
qed

text \<open>On valid tiers the search succeeds, and what it finds covers the distance.\<close>

lemma match_tier_ok:
  "list_all tier_ok ts \<Longrightarrow> \<exists>m. match_tier km ts = Inr m \<and>
     (\<forall>t. m = Some t \<longrightarrow> 0 \<le> tier_amount t \<and> tier_min t \<le> km
        \<and> (case tier_max t of None \<Rightarrow> True | Some h \<Rightarrow> km < h))"
proof (induction ts)
  case (Cons v ts)
  then obtain m where m: "match_tier km ts = Inr m" "\<forall>t. m = Some t \<longrightarrow> 0 \<le> tier_amount t
      \<and> tier_min t \<le> km \<and> (case tier_max t of None \<Rightarrow> True | Some h \<Rightarrow> km < h)" by auto
  from Cons.prems have "tier_ok v" by simp
  then obtain item lo a where v: "v = JObj item" "jnum (jget ''min_km'' item) = Some lo"
    "jnum (jget ''amount'' item) = Some a" "0 \<le> a"
    "jget ''max_km'' item = JNull \<or> (\<exists>h. jnum (jget ''max_km'' item) = Some h \<and> lo < h)"
    by (rule tier_okE)
  note fl = float_or_0_num [OF v(2)] float_or_0_num [OF v(3)]
  show ?case
  proof (cases "jget ''max_km'' item = JNull")
    case True
    with v(1,4) m fl show ?thesis by auto
  next
    case False
    with v(5) obtain h where h: "jnum (jget ''max_km'' item) = Some h" by blast
    then have "(case jget ''max_km'' item of JNull \<Rightarrow> Inr None
                | w \<Rightarrow> rbind (json_float w) (\<lambda>x. Inr (Some x))) = (Inr (Some h) :: dec option res)"
      by (cases "jget ''max_km'' item") auto
    with v(1,4) m fl show ?thesis by auto
  qed
qed simp

lemma default_tiers_ok: "list_all tier_ok default_tiers"
  by (simp add: default_tiers_def tier_ok_def jget_def)

text \<open>
  With a validated policy the allowance never fails and is never negative: a match's tier
  covers the distance and gives its amount, and without a match nothing is due.
\<close>

theorem allowance_of_valid_policy:
  assumes "compliance_policy_ok policy"
  shows "\<exists>amount reason tier. driver_allowance_match policy km = Inr (amount, reason, tier)
    \<and> 0 \<le> amount
    \<and> (case tier of
         None \<Rightarrow> amount = 0 \<and> reason \<noteq> Matched
       | Some t \<Rightarrow> amount = tier_amount t \<and> reason = Matched \<and> tier_min t \<le> km
           \<and> (case tier_max t of None \<Rightarrow> True | Some h \<Rightarrow> km < h))"
proof -
  let ?p = "driver_allowance_policy policy"
  let ?ts = "case alw_tiers ?p of JList ts \<Rightarrow> ts | _ \<Rightarrow> default_tiers"
  have ok: "allowance_ok (jget allowance_key policy)"
    using assms by (simp add: compliance_policy_ok_def)
  have min: "\<exists>lo. float_or_0 (alw_min_km ?p) = Inr lo"
  proof (cases "jget allowance_key policy")
    case (JObj v)
    with ok have "case jget ''min_long_course_km'' v of JNull \<Rightarrow> True
        | n \<Rightarrow> (case jnum n of Some r \<Rightarrow> 0 \<le> r | None \<Rightarrow> False)"
      by (simp add: allowance_ok_def)
    then have "jget ''min_long_course_km'' v = JNull \<or> (\<exists>r. jnum (jget ''min_long_course_km'' v) = Some r)"
      by (auto split: json.splits option.splits)
    with JObj show ?thesis
      by (auto simp: driver_allowance_policy_def jget_or_def jget_def [of "''min_long_course_km''"]
          json_float_num float_or_0_def jor_def split: option.splits)
  qed (auto simp: driver_allowance_policy_def float_or_0_def jor_def)
  have "list_all tier_ok ?ts"
  proof (cases "jget allowance_key policy")
    case (JObj v)
    with ok have "case jget ''tiers'' v of JNull \<Rightarrow> True | JList ts \<Rightarrow> list_all tier_ok ts | _ \<Rightarrow> False"
      by (simp add: allowance_ok_def)
    with JObj default_tiers_ok show ?thesis
      by (auto simp: driver_allowance_policy_def jget_or_def jget_def [of "''tiers''"]
          split: option.splits json.splits)
  qed (auto simp: driver_allowance_policy_def default_tiers_ok)
  from match_tier_ok [OF this, of km] obtain m where m: "match_tier km ?ts = Inr m"
    "\<forall>t. m = Some t \<longrightarrow> 0 \<le> tier_amount t \<and> tier_min t \<le> km
        \<and> (case tier_max t of None \<Rightarrow> True | Some h \<Rightarrow> km < h)" by blast
  from min obtain lo where "float_or_0 (alw_min_km ?p) = Inr lo" by blast
  with m show ?thesis
    by (cases m) (auto simp: driver_allowance_match_def Let_def)
qed

lemma allowance_of_valid_policy_witness:
  "compliance_policy_ok [] \<and> (\<exists>a r t. driver_allowance_match [] 300 = Inr (a, r, t) \<and> 0 \<le> a)"
proof -
  have ok: "compliance_policy_ok []"
    by (simp add: compliance_policy_ok_def policy_list_keys_def policy_map_keys_def jget_def allowance_ok_def)
  with allowance_of_valid_policy [OF ok, of 300] show ?thesis by blast
qed

text \<open>What a table says for a distance: the amount of the first tier that covers it.\<close>

definition covers :: "dec \<Rightarrow> despacho_tier \<Rightarrow> bool" where
  "covers km x \<longleftrightarrow> dtr_min x \<le> km \<and> (case dtr_max x of None \<Rightarrow> True | Some h \<Rightarrow> km < h)"

definition table_amount :: "despacho_table \<Rightarrow> dec \<Rightarrow> dec" where
  "table_amount b km =
     (if \<not> dtb_enabled b \<or> km < dtb_min_km b then 0
      else case List.find (covers km) (dtb_tiers b) of None \<Rightarrow> 0 | Some x \<Rightarrow> dtr_amount x)"

lemma match_dumped_tiers:
  "match_tier km (map dump_tier xs) = Inr (map_option
     (\<lambda>x. \<lparr>tier_min = dtr_min x, tier_max = dtr_max x, tier_amount = dtr_amount x\<rparr>) (List.find (covers km) xs))"
proof (induction xs)
  case (Cons x xs)
  have f: "float_or_0 (JFloat r) = Inr r" for r by (simp add: float_or_0_num)
  have "jget ''min_km'' (case dump_tier x of JObj m \<Rightarrow> m | _ \<Rightarrow> []) = JFloat (dtr_min x)"
    "jget ''amount'' (case dump_tier x of JObj m \<Rightarrow> m | _ \<Rightarrow> []) = JFloat (dtr_amount x)"
    "jget ''max_km'' (case dump_tier x of JObj m \<Rightarrow> m | _ \<Rightarrow> []) = (case dtr_max x of None \<Rightarrow> JNull | Some h \<Rightarrow> JFloat h)"
    by (simp_all add: dump_tier_def jget_def map_add_def split: option.split)
  with Cons f show ?case by (cases "dtr_max x") (auto simp: dump_tier_def covers_def)
qed simp

lemma stored_policy:
  "driver_allowance_policy (jset allowance_key
     (JObj (jset ''entry_mode'' (JStr ''manual'') (jset ''currency'' c (dump_table b)))) policy)
   = \<lparr>alw_enabled = JBool (dtb_enabled b), alw_currency = json_upper (jor c (JStr ''MZN'')),
      alw_min_km = JFloat (dtb_min_km b), alw_tiers = JList (map dump_tier (dtb_tiers b)), alw_default = False\<rparr>"
proof -
  have other: "k \<noteq> k' \<Longrightarrow> jget_or k z (jset k' v obj) = jget_or k z obj" for k k' z v and obj :: "(string \<times> json) list"
    by (simp add: jget_or_def map_of_jset)
  have "jget_or ''enabled'' z (dump_table b) = JBool (dtb_enabled b)"
    "jget_or ''min_long_course_km'' z (dump_table b) = JFloat (dtb_min_km b)"
    "jget_or ''tiers'' z (dump_table b) = JList (map dump_tier (dtb_tiers b))" for z
    by (simp_all add: jget_or_def dump_table_def map_add_def)
  then show ?thesis by (simp add: driver_allowance_policy_def jget_jset other)
qed

text \<open>
  C17: A despacho table sent for an active tenant with a valid policy is refused unless its currency has three letters, its
  minimum distance is not negative, and every tier has a distance and an amount that are not negative and ends
  above its start. Otherwise it is stored, every other key of the policy stays as it was, and from then on the
  allowance of any distance is what the table says: nothing when it is switched off or below its minimum, otherwise the amount
  of the first tier that covers the distance.
\<close>

theorem despacho_table_pays:
  assumes "tget ten_id t (tenants d) = Some r" and "ten_active r" and "compliance_policy_ok (tenant_policy t d)"
  shows "if table_sound b
    then \<exists>v d'. put_driver_despacho_table t (dump_table b) (dtb_currency b) a d = Inr (v, d')
      \<and> (\<forall>k. k = allowance_key \<or> jget k (tenant_policy t d') = jget k (tenant_policy t d))
      \<and> (\<forall>km. \<exists>why tier. driver_allowance_match (tenant_policy t d') km = Inr (table_amount b km, why, tier))
    else put_driver_despacho_table t (dump_table b) (dtb_currency b) a d = Inl (ApiError ''invalid_compliance_policy'' 422)"
proof (cases "table_sound b")
  case True
  let ?v = "JObj (jset ''entry_mode'' (JStr ''manual'') (jset ''currency'' (JStr (map upper_char (dtb_currency b))) (dump_table b)))"
  obtain d' where r: "put_driver_despacho_table t (dump_table b) (dtb_currency b) a d = Inr (?v, d')"
    "tenants d' = tput ten_id (r\<lparr>ten_policy := Some (jset allowance_key ?v (tenant_policy t d))\<rparr>) (tenants d)"
    using put_despacho_outcome [OF assms, of b a] True by (simp add: Let_def)
  then have p: "tenant_policy t d' = jset allowance_key ?v (tenant_policy t d)"
    using assms(1) tget_key [OF assms(1)] by (simp add: tenant_policy_def tget_tput)
  have "\<exists>why tier. driver_allowance_match (tenant_policy t d') km = Inr (table_amount b km, why, tier)" for km
    by (cases "dtb_enabled b"; cases "km < dtb_min_km b"; cases "List.find (covers km) (dtb_tiers b)")
      (simp_all add: p driver_allowance_match_def stored_policy table_amount_def match_dumped_tiers float_or_0_num Let_def)
  with True r p show ?thesis by (auto simp: jget_jset)
next
  case False
  with put_despacho_outcome [OF assms, of b a] show ?thesis by simp
qed

lemma despacho_table_pays_witness:
  "\<exists>v d'. put_driver_despacho_table 1 (dump_table sample_table) ''mzn'' None (empty_db\<lparr>tenants := [sample_tenant]\<rparr>) = Inr (v, d')
     \<and> (\<exists>why tier. driver_allowance_match (tenant_policy 1 d') 120 = Inr (500, why, tier))"
proof -
  let ?d = "empty_db\<lparr>tenants := [sample_tenant]\<rparr>"
  have pre: "tget ten_id 1 (tenants ?d) = Some sample_tenant" "ten_active sample_tenant"
    by (simp_all add: sample_tenant_def)
  have pol: "compliance_policy_ok (tenant_policy 1 ?d)" by code_simp
  have sound: "table_sound sample_table" by code_simp
  have says: "table_amount sample_table 120 = 500" "dtb_currency sample_table = ''mzn''"
    by (simp_all add: table_amount_def covers_def sample_table_def)
  show ?thesis
    using despacho_table_pays [OF pre pol, of sample_table None] sound says by (simp; metis)
qed

text \<open>
  A tenant without a despacho table uses the system's: nothing below 100 km, then 500, 1000 and
  1500 from 100, 250 and 500 km.
\<close>

theorem default_allowance_table:
  "map_option fst (case driver_allowance_match [] km of Inr r \<Rightarrow> Some r | Inl _ \<Rightarrow> None)
     = Some (if km < 100 then 0 else if km < 250 then 500 else if km < 500 then 1000 else 1500)"
  by (auto simp: driver_allowance_match_def driver_allowance_policy_def jget_def default_tiers_def
      float_or_0_def jor_def)

end
