(* ===== verification/Trip_Dispatch.thy ===== *)
theory Trip_Dispatch
  imports Trip_Costs "HOL-Library.Char_ord" "HOL-Library.List_Lexorder"
begin

text \<open>
  The life of a trip up to its departure (\<^verbatim>\<open>trips/service.py\<close>): creation, the clearance with its
  document checks, dispatch and start.
\<close>

section \<open>Shared steps\<close>

definition put_trip :: "trip \<Rightarrow> db \<Rightarrow> db" where
  "put_trip t d = d\<lparr>trips := tput trip_id t (trips d)\<rparr>"

definition require_trip :: "id \<Rightarrow> id \<Rightarrow> db \<Rightarrow> trip res" where
  "require_trip tenant i d =
     of_opt (ApiError ''trip_not_found'' 404) (owned trip_id trip_tenant tenant i (trips d))"

text \<open>The order a trip came from follows it, when there is one and it is the tenant's.\<close>

definition set_order_status :: "id \<Rightarrow> id option \<Rightarrow> order_status \<Rightarrow> db \<Rightarrow> db" where
  "set_order_status tenant oid st d =
     (case Option.bind oid (\<lambda>i. owned ord_id ord_tenant tenant i (orders d)) of
        None \<Rightarrow> d
      | Some o' \<Rightarrow> d\<lparr>orders := tput ord_id (o'\<lparr>ord_status := st\<rparr>) (orders d)\<rparr>)"

definition add_event :: "id \<Rightarrow> id \<Rightarrow> string \<Rightarrow> timestamp \<Rightarrow> json option \<Rightarrow> dec option \<Rightarrow> dec option
    \<Rightarrow> string option \<Rightarrow> id option \<Rightarrow> string \<Rightarrow> db \<Rightarrow> exec_event \<times> db" where
  "add_event tenant trip ty time loc odo fuel notes actor source d =
     (let (i, d1) = fresh_id d;
          e = \<lparr>ev_id = i, ev_tenant = tenant, ev_trip = trip, ev_type = ty, ev_time = time,
            ev_location = loc, ev_odometer = map_option (column 2) odo,
            ev_fuel_level = map_option (column 2) fuel, ev_notes = notes,
            ev_reported_by = actor, ev_source = source\<rparr>
      in (e, d1\<lparr>events := tadd e (events d1)\<rparr>))"

text \<open>The weight guard of creation, start and patch.\<close>

definition overweight :: "dec option \<Rightarrow> string option \<Rightarrow> vehicle option \<Rightarrow> bool" where
  "overweight weight reason v =
     (case (weight, Option.bind v veh_max_payload) of
        (Some w, Some m) \<Rightarrow> m < w \<and> \<not> truthy reason
      | _ \<Rightarrow> False)"

section \<open>Creation\<close>

record trip_create =
  tc_contract :: "id option"
  tc_vehicle :: id
  tc_driver :: id
  tc_origin :: string
  tc_destination :: string
  tc_cargo_type :: "string option"
  tc_cargo_class :: "string option"
  tc_cargo_weight :: "dec option"
  tc_load_state :: "string option"
  tc_requires_load_permit :: bool
  tc_requires_cargo_manifest :: bool
  tc_planned_departure :: "timestamp option"
  tc_planned_arrival :: "timestamp option"
  tc_contract_ref :: "string option"
  tc_override_reason :: "string option"
  tc_is_hazmat :: bool
  tc_is_international :: bool
  tc_hazmat_class :: "string option"
  tc_un_number :: "string option"
  tc_hazmat_label :: "string option"
  tc_hos_override :: "string option"

definition build_trip :: "id \<Rightarrow> id \<Rightarrow> string option \<Rightarrow> trip_create \<Rightarrow> trip" where
  "build_trip i tenant reference p =
     (new_trip i tenant (tc_vehicle p) (tc_driver p))
       \<lparr>trip_contract := tc_contract p, trip_origin := tc_origin p,
        trip_destination := tc_destination p, trip_cargo_type := tc_cargo_type p,
        trip_cargo_class := tc_cargo_class p,
        trip_cargo_weight := map_option (column 2) (tc_cargo_weight p),
        trip_load_state := tc_load_state p, trip_requires_load_permit := tc_requires_load_permit p,
        trip_requires_cargo_manifest := tc_requires_cargo_manifest p,
        trip_planned_departure := tc_planned_departure p,
        trip_planned_arrival := tc_planned_arrival p, trip_contract_ref := reference,
        trip_override_reason := tc_override_reason p, trip_is_hazmat := tc_is_hazmat p,
        trip_is_international := tc_is_international p, trip_hazmat_class := tc_hazmat_class p,
        trip_un_number := tc_un_number p, trip_hazmat_label := tc_hazmat_label p,
        trip_status := T_draft, trip_billing := B_pending_delivery_proof\<rparr>"

definition create_trip :: "id \<Rightarrow> trip_create \<Rightarrow> id option \<Rightarrow> timestamp \<Rightarrow> db \<Rightarrow> (trip \<times> db) res" where
  "create_trip tenant p actor now d =
     rbind (require_vehicle_and_driver_available tenant (tc_vehicle p) (tc_driver p) None now d) (\<lambda>_.
     if \<not> truthy (tc_hos_override p)
        \<and> hos_status (calculate_driving_hours (tc_driver p) tenant None now d) = H_violation
     then Inl (ApiError ''hos_violation_active'' 409)
     else rbind (case tc_contract p of
            None \<Rightarrow> Inr (tc_contract_ref p)
          | Some c \<Rightarrow> rbind (of_opt (ApiError ''contract_not_found'' 404)
                              (owned con_id con_tenant tenant c (contracts d)))
                       (\<lambda>con. Inr (Some (con_reference con)))) (\<lambda>reference.
       let v = tget veh_id (tc_vehicle p) (vehicles d) in
       if (case v of Some r \<Rightarrow> veh_ownership r \<noteq> ''fleet'' | None \<Rightarrow> False)
       then Inl (ApiError ''invalid_vehicle_ownership'' 409)
       else if overweight (tc_cargo_weight p) (tc_override_reason p) v
       then Inl (ApiError ''payload_exceeded'' 409)
       else
         (let (i, d1) = fresh_id d;
              t = build_trip i tenant reference p;
              d2 = d1\<lparr>trips := tadd t (trips d1)\<rparr>
          in case flush_trips d2 of
               Inl _ \<Rightarrow> Inl (ApiError ''assignment_conflict'' 409)
             | Inr d3 \<Rightarrow> Inr (t, record_audit_log tenant actor ''trip.created'' ''trip''
                                 (Some i) d3))))"

section \<open>Start\<close>

definition start_trip :: "id \<Rightarrow> id \<Rightarrow> int \<Rightarrow> id option \<Rightarrow> timestamp option \<Rightarrow> id option \<Rightarrow> timestamp
    \<Rightarrow> db \<Rightarrow> (trip \<times> db) res" where
  "start_trip tenant tid km file departure actor now d =
     rbind (require_trip tenant tid d) (\<lambda>t.
       if trip_status t \<notin> {T_draft, T_planned, T_dispatched}
       then Inl (ApiError ''invalid_trip_status'' 409)
       else if overweight (trip_cargo_weight t) (trip_override_reason t)
                 (tget veh_id (trip_vehicle t) (vehicles d))
       then Inl (ApiError ''payload_exceeded'' 409)
       else
         (let t' = t\<lparr>trip_km_start := Some km, trip_km_start_file := file,
                     trip_actual_departure := Some (or_else departure now),
                     trip_status := T_in_progress\<rparr>
          in rbind (flush_trips (record_audit_log tenant actor ''trip.started'' ''trip'' (Some tid)
                      (put_trip t' d))) (\<lambda>d1.
               Inr (t', if trip_is_hazmat t' then hazmat_alert tenant tid actor d1 else d1))))"

section \<open>Clearance\<close>

definition request_dispatch_clearance :: "id \<Rightarrow> id \<Rightarrow> id option \<Rightarrow> db \<Rightarrow> (clearance \<times> db) res" where
  "request_dispatch_clearance tenant tid actor d =
     rbind (require_trip tenant tid d) (\<lambda>t.
       if trip_status t \<notin> {T_draft, T_planned} then Inl (ApiError ''invalid_trip_status'' 409)
       else case List.find (\<lambda>c. clr_tenant c = tenant \<and> clr_trip c = tid) (clearances d) of
         Some c \<Rightarrow> Inr (c, d)
       | None \<Rightarrow>
           (let (i, d1) = fresh_id d;
                c = \<lparr>clr_id = i, clr_tenant = tenant, clr_order = trip_order t, clr_trip = tid,
                  clr_vehicle_checked = False, clr_driver_checked = False,
                  clr_documents_checked = False, clr_load_permit_checked = False,
                  clr_cargo_checked = False, clr_fuel_advance_checked = False,
                  clr_route_risk_checked = False, clr_status = C_pending,
                  clr_blocked_reason = None, clr_approved_by = None, clr_approved_at = None\<rparr>;
                d2 = put_trip (t\<lparr>trip_status := T_dispatch_pending\<rparr>)
                       (d1\<lparr>clearances := tadd c (clearances d1)\<rparr>);
                d3 = set_order_status tenant (trip_order t) O_dispatch_pending d2
            in rbind (flush_trips (record_audit_log tenant actor ''dispatch.clearance_requested''
                         ''trip'' (Some tid) d3)) (\<lambda>d4. Inr (c, d4))))"

text \<open>
  The statuses of a clearance are the three of the query, so its filter on them never excludes
  a row.
\<close>

definition normalize :: "string \<Rightarrow> string" where
  "normalize s = casefold (strip s)"

definition policy_aliases :: "string list" where
  "policy_aliases = [''*'', ''default'', ''__default__'']"

text \<open>Iterating over a policy value: a list, the characters of a string or the keys of an object.\<close>

definition policy_items :: "string \<Rightarrow> (string \<times> json) list \<Rightarrow> string list res" where
  "policy_items key policy =
     (case map_of policy key of
        None \<Rightarrow> Inr []
      | Some (JList vs) \<Rightarrow> Inr (map (\<lambda>v. the (jstr v)) (filter is_jstr vs))
      | Some (JStr s) \<Rightarrow> Inr (map (\<lambda>c. [c]) s)
      | Some (JObj o') \<Rightarrow> Inr (map fst o')
      | Some _ \<Rightarrow> Inl (PyError ''TypeError''))"

definition normalized_items :: "string list \<Rightarrow> string list" where
  "normalized_items xs = map normalize (filter (\<lambda>s. strip s \<noteq> []) xs)"

text \<open>
  The names a policy requires of a trip: the default list and those of the entries for its cargo
  type or an alias. Shared by \<^verbatim>\<open>_required_cargo_documents_for_trip\<close> and
  \<^verbatim>\<open>_required_trip_stops_for_trip\<close>, whose bodies differ in the two keys only.
\<close>

definition required_names :: "string \<Rightarrow> string \<Rightarrow> (string \<times> json) list \<Rightarrow> trip \<Rightarrow> string list res" where
  "required_names dkey tkey policy t =
     rbind (policy_items dkey policy) (\<lambda>base.
       Inr (normalized_items base @
         (case jget tkey policy of
            JObj by_type \<Rightarrow>
              concat (map (\<lambda>(k, v). case v of
                  JList vs \<Rightarrow>
                    if normalize k = normalize (or_else (trip_cargo_type t) [])
                       \<or> normalize k \<in> set policy_aliases
                    then normalized_items (map (\<lambda>v. the (jstr v)) (filter is_jstr vs)) else []
                | _ \<Rightarrow> []) by_type)
          | _ \<Rightarrow> [])))"

definition required_cargo_documents :: "(string \<times> json) list \<Rightarrow> trip \<Rightarrow> string list res" where
  "required_cargo_documents =
     required_names ''cargo_required_documents'' ''cargo_required_documents_by_type''"

definition required_trip_stops :: "(string \<times> json) list \<Rightarrow> trip \<Rightarrow> string list res" where
  "required_trip_stops = required_names ''trip_required_stops'' ''trip_required_stops_by_cargo_type''"

definition has_transport_document :: "id \<Rightarrow> id \<Rightarrow> string option \<Rightarrow> db \<Rightarrow> bool" where
  "has_transport_document tenant tid ty d =
     list_ex (\<lambda>x. tdoc_tenant x = tenant \<and> tdoc_trip x = tid \<and> tdoc_status x \<noteq> ''cancelled''
       \<and> (case ty of None \<Rightarrow> True | Some y \<Rightarrow> casefold (tdoc_type x) = casefold y)) (transport_docs d)"

definition transport_prefix :: string where
  "transport_prefix = ''transport_document:''"

definition document_present :: "id \<Rightarrow> id \<Rightarrow> string \<Rightarrow> db \<Rightarrow> bool" where
  "document_present tenant tid name d =
     (if name = ''load_permit'' then
        list_ex (\<lambda>x. per_tenant x = tenant \<and> per_trip x = tid \<and> per_status x \<noteq> ''cancelled'') (permits d)
      else if name = ''cargo_manifest'' then
        list_ex (\<lambda>x. man_tenant x = tenant \<and> man_trip x = tid \<and> man_status x \<noteq> ''cancelled'') (manifests d)
      else if name = ''transport_document'' then has_transport_document tenant tid None d
      else if take (length transport_prefix) name = transport_prefix then
        (let ty = strip (drop (length transport_prefix) name)
         in ty \<noteq> [] \<and> has_transport_document tenant tid (Some ty) d)
      else False)"

definition missing_required_cargo_documents :: "id \<Rightarrow> trip \<Rightarrow> db \<Rightarrow> string list res" where
  "missing_required_cargo_documents tenant t d =
     rbind (required_cargo_documents (tenant_policy tenant d) t) (\<lambda>req.
       let req' = req @ (if trip_requires_load_permit t then [''load_permit''] else [])
                    @ (if trip_requires_cargo_manifest t then [''cargo_manifest''] else [])
       in Inr (filter (\<lambda>x. \<not> document_present tenant (trip_id t) x d) (sort (remdups req'))))"

definition missing_required_trip_stops :: "id \<Rightarrow> trip \<Rightarrow> db \<Rightarrow> string list res" where
  "missing_required_trip_stops tenant t d =
     rbind (required_trip_stops (tenant_policy tenant d) t) (\<lambda>req.
       let have_stops = map (\<lambda>s. casefold (stop_type s))
             (filter (\<lambda>s. stop_tenant s = tenant \<and> stop_trip s = trip_id t) (stops d))
       in Inr (filter (\<lambda>x. x \<notin> set have_stops) (sort (remdups req))))"

record clearance_checks =
  ck_vehicle :: bool
  ck_driver :: bool
  ck_documents :: bool
  ck_load_permit :: bool
  ck_cargo :: bool
  ck_fuel_advance :: bool
  ck_route_risk :: bool
  ck_blocked_reason :: "string option"

text \<open>\<^verbatim>\<open>required_checks\<close>, in its order.\<close>

definition required_checks :: "clearance_checks \<Rightarrow> trip \<Rightarrow> string list \<Rightarrow> (string \<times> bool) list" where
  "required_checks p t docs =
     [(''vehicle_checked'', ck_vehicle p), (''driver_checked'', ck_driver p),
      (''documents_checked'', ck_documents p \<and> docs = []),
      (''load_permit_checked'', (ck_load_permit p \<or> \<not> trip_requires_load_permit t)
          \<and> ''load_permit'' \<notin> set docs),
      (''cargo_checked'', ck_cargo p \<and> docs = []),
      (''fuel_advance_checked'', ck_fuel_advance p), (''route_risk_checked'', ck_route_risk p)]"

definition missing_checks :: "clearance_checks \<Rightarrow> trip \<Rightarrow> string list \<Rightarrow> string list" where
  "missing_checks p t docs = map fst (filter (\<lambda>(_, ok). \<not> ok) (required_checks p t docs))
     @ map (\<lambda>x. ''missing_document:'' @ x) docs"

definition checked_clearance :: "clearance_checks \<Rightarrow> trip \<Rightarrow> string list \<Rightarrow> clearance \<Rightarrow> clearance" where
  "checked_clearance p t docs c =
     c\<lparr>clr_vehicle_checked := ck_vehicle p, clr_driver_checked := ck_driver p,
       clr_documents_checked := ck_documents p \<and> docs = [],
       clr_load_permit_checked := (ck_load_permit p \<or> \<not> trip_requires_load_permit t)
          \<and> ''load_permit'' \<notin> set docs,
       clr_cargo_checked := ck_cargo p \<and> docs = [],
       clr_fuel_advance_checked := ck_fuel_advance p, clr_route_risk_checked := ck_route_risk p\<rparr>"

definition approve_dispatch_clearance ::
  "id \<Rightarrow> id \<Rightarrow> clearance_checks \<Rightarrow> id option \<Rightarrow> timestamp \<Rightarrow> db \<Rightarrow> (clearance \<times> db) res" where
  "approve_dispatch_clearance tenant tid p actor now d =
     rbind (require_trip tenant tid d) (\<lambda>t.
       case List.find (\<lambda>c. clr_tenant c = tenant \<and> clr_trip c = tid) (clearances d) of
         None \<Rightarrow> Inl (ApiError ''dispatch_clearance_not_found'' 404)
       | Some c \<Rightarrow>
           if clr_status c = C_approved then Inr (c, d)
           else rbind (missing_required_cargo_documents tenant t d) (\<lambda>docs.
             let missing = missing_checks p t docs; c1 = checked_clearance p t docs c in
             if missing \<noteq> [] then
               (let c2 = c1\<lparr>clr_status := C_blocked, clr_blocked_reason := or_str (ck_blocked_reason p)
                           (Some (''Missing checks: '' @ join '', '' missing))\<rparr>
                in Inr (c2, record_audit_log tenant actor ''dispatch.blocked''
                      ''dispatch_clearance'' (Some (clr_id c))
                      (d\<lparr>clearances := tput clr_id c2 (clearances d)\<rparr>)))
             else rbind (require_vehicle_and_driver_available tenant (trip_vehicle t) (trip_driver t)
                           (Some tid) now d) (\<lambda>_.
               let c2 = c1\<lparr>clr_status := C_approved, clr_blocked_reason := None,
                           clr_approved_by := actor, clr_approved_at := Some now\<rparr>
               in Inr (c2, record_audit_log tenant actor ''dispatch.approved''
                     ''dispatch_clearance'' (Some (clr_id c))
                     (d\<lparr>clearances := tput clr_id c2 (clearances d)\<rparr>)))))"

section \<open>Dispatch\<close>

definition dispatch_trip :: "id \<Rightarrow> id \<Rightarrow> timestamp option \<Rightarrow> string option \<Rightarrow> id option \<Rightarrow> timestamp
    \<Rightarrow> db \<Rightarrow> (trip \<times> exec_event \<times> db) res" where
  "dispatch_trip tenant tid time notes actor now d =
     rbind (require_trip tenant tid d) (\<lambda>t.
       if \<not> list_ex (\<lambda>c. clr_tenant c = tenant \<and> clr_trip c = tid \<and> clr_status c = C_approved)
              (clearances d)
       then Inl (ApiError ''dispatch_clearance_required'' 409)
       else if trip_status t \<notin> {T_planned, T_dispatch_pending}
       then Inl (ApiError ''invalid_trip_status'' 409)
       else rbind (require_vehicle_and_driver_available tenant (trip_vehicle t) (trip_driver t)
                     (Some tid) now d) (\<lambda>_.
         let t' = t\<lparr>trip_status := T_dispatched, trip_actual_departure := Some (or_else time now)\<rparr>;
             d1 = set_order_status tenant (trip_order t) O_dispatched (put_trip t' d);
             (e, d2) = add_event tenant tid ''dispatched'' (or_else time now) None None None notes
                         actor ''system'' d1
         in rbind (flush_trips (record_audit_log tenant actor ''trip.dispatched'' ''trip''
                     (Some tid) d2)) (\<lambda>d3. Inr (t', e, d3))))"

section \<open>The invariant of the trips\<close>

definition trips_ok :: "db \<Rightarrow> bool" where
  "trips_ok d \<longleftrightarrow> keys_unique trip_id (trips d) \<and> below trip_id (db_next d) (trips d)
     \<and> trips_constraints (trips d)"

lemma require_trip_Inr: "require_trip t i d = Inr r \<longleftrightarrow> tget trip_id i (trips d) = Some r \<and> trip_tenant r = t"
  by (simp add: require_trip_def of_opt_Inr owned_Some)

lemma require_trip_row:
  assumes "require_trip tn i d = Inr t"
  shows "tget trip_id i (trips d) = Some t" "trip_tenant t = tn" "trip_id t = i"
  using assms tget_key [of trip_id i "trips d" t] by (simp_all add: require_trip_Inr)

lemma trips_put [simp]: "trips (put_trip t d) = tput trip_id t (trips d)"
  by (simp add: put_trip_def)

lemma put_trip_frame [simp]:
  "db_next (put_trip t d) = db_next d"
  "orders (put_trip t d) = orders d"
  "events (put_trip t d) = events d"
  "clearances (put_trip t d) = clearances d"
  "exceptions (put_trip t d) = exceptions d"
  "audits (put_trip t d) = audits d"
  "costs (put_trip t d) = costs d"
  "incidents (put_trip t d) = incidents d"
  by (simp_all add: put_trip_def)

lemma set_order_status_frame [simp]:
  "trips (set_order_status t o' st d) = trips d"
  "db_next (set_order_status t o' st d) = db_next d"
  "events (set_order_status t o' st d) = events d"
  "clearances (set_order_status t o' st d) = clearances d"
  "exceptions (set_order_status t o' st d) = exceptions d"
  by (simp_all add: set_order_status_def split: option.splits)

lemma add_event_frame [simp]:
  "trips (snd (add_event t i ty at' l od fu n a s d)) = trips d"
  "db_next (snd (add_event t i ty at' l od fu n a s d)) = Suc (db_next d)"
  "clearances (snd (add_event t i ty at' l od fu n a s d)) = clearances d"
  "exceptions (snd (add_event t i ty at' l od fu n a s d)) = exceptions d"
  "events (snd (add_event t i ty at' l od fu n a s d)) =
     events d @ [fst (add_event t i ty at' l od fu n a s d)]"
  by (simp_all add: add_event_def fresh_id_def Let_def tadd_def)

text \<open>Writing one trip keeps the invariant when the constraints were checked.\<close>

lemma trips_ok_put:
  assumes "trips_ok d" and "trips d' = tput trip_id t (trips d)" and "db_next d \<le> db_next d'"
    and "trips_constraints (trips d')"
  shows "trips_ok d'"
  using assms by (auto simp: trips_ok_def intro: below_tput below_mono)


text \<open>An active trip of the table is the only active one of its vehicle and of its driver.\<close>

lemma no_conflict_of_constraints:
  assumes "keys_unique trip_id ts" "distinct (map f (filter trip_active ts))"
    and "x \<in> set ts" "y \<in> set ts" "trip_active x" "trip_active y" "f x = f y"
  shows "x = y"
  using assms(2-) inj_on_eq_iff [of f "set (filter trip_active ts)" x y]
  by (auto simp: distinct_map)

lemma trips_ok_exclusive:
  assumes "trips_ok d" "x \<in> set (trips d)" "y \<in> set (trips d)" "trip_active x" "trip_active y"
    and "trip_tenant x = trip_tenant y" "trip_vehicle x = trip_vehicle y \<or> trip_driver x = trip_driver y"
  shows "x = y"
proof -
  from assms(1) have u: "keys_unique trip_id (trips d)"
    and v: "distinct (map (\<lambda>t. (trip_tenant t, trip_vehicle t)) (filter trip_active (trips d)))"
    and r: "distinct (map (\<lambda>t. (trip_tenant t, trip_driver t)) (filter trip_active (trips d)))"
    by (simp_all add: trips_ok_def trips_constraints_def indexed_vehicles indexed_drivers)
  from assms(7) show ?thesis
  proof
    assume "trip_vehicle x = trip_vehicle y"
    with assms(6) show ?thesis by (intro no_conflict_of_constraints [OF u v assms(2-5)]) simp
  next
    assume "trip_driver x = trip_driver y"
    with assms(6) show ?thesis by (intro no_conflict_of_constraints [OF u r assms(2-5)]) simp
  qed
qed

section \<open>Properties of dispatch\<close>




lemma trips_ok_checks: "trips_ok d \<Longrightarrow> t \<in> set (trips d) \<Longrightarrow> trip_checks t"
  by (auto simp: trips_ok_def trips_constraints_def list_all_iff)


text \<open>
  C1: A trip that is dispatched had an approved clearance, was planned or waiting for dispatch, and
  its vehicle and driver passed the availability check; it becomes dispatched with its departure
  time and an execution event, and no other active trip of the tenant uses its vehicle or driver.
\<close>

theorem dispatch_trip_safe:
  assumes "trips_ok d" and "dispatch_trip tn i time notes a now d = Inr (t', e, d')"
  shows "trips_ok d' \<and> tget trip_id i (trips d') = Some t' \<and> trip_status t' = T_dispatched
    \<and> trip_actual_departure t' = Some (or_else time now)
    \<and> (\<exists>c\<in>set (clearances d). clr_trip c = i \<and> clr_tenant c = tn \<and> clr_status c = C_approved)
    \<and> (\<exists>t. tget trip_id i (trips d) = Some t \<and> trip_status t \<in> {T_planned, T_dispatch_pending}
         \<and> (\<exists>v r. require_vehicle_available tn (trip_vehicle t) (Some i) now d = Inr v
                \<and> require_driver_available tn (trip_driver t) (Some i) now d = Inr r))
    \<and> (\<forall>x\<in>set (trips d'). trip_active x \<longrightarrow> trip_tenant x = tn
         \<longrightarrow> trip_vehicle x = trip_vehicle t' \<or> trip_driver x = trip_driver t' \<longrightarrow> x = t')
    \<and> events d' = events d @ [e] \<and> ev_trip e = i \<and> ev_type e = ''dispatched''"
proof -
  from assms(2) obtain t vr where t: "require_trip tn i d = Inr t"
    and cl: "\<exists>c\<in>set (clearances d). clr_trip c = i \<and> clr_tenant c = tn \<and> clr_status c = C_approved"
    and st: "trip_status t \<in> {T_planned, T_dispatch_pending}"
    and av: "require_vehicle_and_driver_available tn (trip_vehicle t) (trip_driver t) (Some i) now d = Inr vr"
    by (auto simp: dispatch_trip_def rbind_Inr list_ex_iff split: if_splits)
  from t have row: "tget trip_id i (trips d) = Some t" "trip_tenant t = tn" "trip_id t = i"
    using tget_key by (auto simp: require_trip_Inr)
  from assms(2) t cl st av
  have res: "t' = t\<lparr>trip_status := T_dispatched, trip_actual_departure := Some (or_else time now)\<rparr>"
    "trips d' = tput trip_id t' (trips d)" "db_next d' = Suc (db_next d)"
    "events d' = events d @ [e]" "ev_trip e = i" "ev_type e = ''dispatched''"
    "trips_constraints (trips d')"
    by (auto simp: dispatch_trip_def rbind_Inr list_ex_iff flush_trips_Inr Let_def split_beta
        add_event_def fresh_id_def tadd_def split: if_splits)
  have ok: "trips_ok d'" using trips_ok_put [OF assms(1) res(2)] res(3,7) by simp
  have get: "tget trip_id i (trips d') = Some t'"
    using row res(1) by (simp add: res(2) tget_tput)
  have "x = t'" if "x \<in> set (trips d')" "trip_active x" "trip_tenant x = tn"
      "trip_vehicle x = trip_vehicle t' \<or> trip_driver x = trip_driver t'" for x
  proof (rule trips_ok_exclusive [OF ok that(1) tget_mem [OF get] that(2)])
    show "trip_active t'" using res(1) by (simp add: trip_active_def active_trip_statuses_def)
    show "trip_tenant x = trip_tenant t'" using that(3) row(2) res(1) by simp
  qed (use that(4) in blast)
  moreover obtain v r where "vr = (v, r)" by (cases vr)
  ultimately show ?thesis
    using ok get res cl st row(1) av by (auto simp: require_both_Inr)
qed


definition sample_vehicle :: vehicle where
  "sample_vehicle = \<lparr>veh_id = 2, veh_tenant = 1, veh_plate = ''AAA-001-MP'', veh_status = ''active'',
     veh_km = 1000, veh_documents = None, veh_max_payload = Some 20000, veh_ownership = ''fleet'', veh_customer = None,
     veh_chassis = None, veh_brand = None, veh_model = None, veh_year = None, veh_color = None, veh_category = ''pesado'',
     veh_fuel_type = ''gasoleo'', veh_qr = None, veh_target = None, veh_fuel_limit = None\<rparr>"

definition sample_driver :: driver where
  "sample_driver = \<lparr>drv_id = 3, drv_tenant = 1, drv_status = ''active'', drv_license_until = None,
     drv_passport_until = None, drv_bi_until = None, drv_name = ''Joao'', drv_phone = None, drv_email = None,
     drv_emergency_name = None, drv_emergency_phone = None, drv_license = None, drv_license_category = None,
     drv_passport = None, drv_bi = None, drv_inss = None, drv_employment = None, drv_documents = None,
     drv_score = 100, drv_pairing_hash = None, drv_pairing_expires = None\<rparr>"

definition sample_clearance :: clearance where
  "sample_clearance = \<lparr>clr_id = 6, clr_tenant = 1, clr_order = None, clr_trip = 5,
     clr_vehicle_checked = True, clr_driver_checked = True, clr_documents_checked = True,
     clr_load_permit_checked = True, clr_cargo_checked = True, clr_fuel_advance_checked = True,
     clr_route_risk_checked = True, clr_status = C_approved, clr_blocked_reason = None,
     clr_approved_by = None, clr_approved_at = None\<rparr>"

definition sample_fleet :: db where
  "sample_fleet = empty_db\<lparr>db_next := 10, vehicles := [sample_vehicle], drivers := [sample_driver],
     trips := [new_trip 5 1 2 3], clearances := [sample_clearance]\<rparr>"

lemmas sample_fleet_defs = sample_fleet_def sample_vehicle_def sample_driver_def
  sample_clearance_def empty_db_def new_trip_def

lemmas constraint_defs = trips_ok_def trips_constraints_def trip_checks_def indexed_vehicles
  indexed_drivers keys_unique_def below_def List.map_filter_simps

lemmas availability_defs = require_vehicle_available_def require_driver_available_def
  require_vehicle_and_driver_available_def owned_def vehicle_compliance_blocked_def
  driver_compliance_blocked_def vehicle_compliance_violations_def
  driver_compliance_violations_def vehicle_required_def driver_documents_def
  required_documents_def truthy_strings_def tenant_policy_def jget_def dedup_def
  active_work_order_def vehicle_conflict_def driver_conflict_def

lemma sample_fleet_ok: "trips_ok sample_fleet"
  by (simp add: sample_fleet_defs constraint_defs)

lemma dispatch_trip_safe_witness:
  "\<exists>t e d'. dispatch_trip 1 5 None None (Some 9) 100 sample_fleet = Inr (t, e, d')
     \<and> trips_ok d' \<and> tget trip_id 5 (trips d') = Some t \<and> trip_status t = T_dispatched"
proof -
  have "\<exists>r. dispatch_trip 1 5 None None (Some 9) 100 sample_fleet = Inr r"
    by (simp add: dispatch_trip_def require_trip_def availability_defs Let_def split_beta
        sample_fleet_defs constraint_defs flush_trips_def put_trip_def
        set_order_status_def add_event_def fresh_id_def)
  then obtain t e d' where r: "dispatch_trip 1 5 None None (Some 9) 100 sample_fleet = Inr (t, e, d')"
    by (metis surj_pair)
  with dispatch_trip_safe [OF sample_fleet_ok r] show ?thesis by blast
qed


section \<open>Properties of the clearance\<close>

lemma missing_checks_empty:
  "missing_checks p t docs = [] \<longleftrightarrow> ck_vehicle p \<and> ck_driver p \<and> ck_documents p
     \<and> (ck_load_permit p \<or> \<not> trip_requires_load_permit t) \<and> ck_cargo p \<and> ck_fuel_advance p
     \<and> ck_route_risk p \<and> docs = []"
  by (auto simp: missing_checks_def required_checks_def)

text \<open>
  Approving a clearance that is not yet approved approves it exactly when every check was
  ticked (the load permit only where the trip needs one), no required cargo document is missing
  and, then, the vehicle and the driver are available; otherwise it is blocked with a reason, and
  either way no trip changes.
\<close>

theorem approve_clearance_decides:
  assumes "approve_dispatch_clearance tn i p a now d = Inr (c', d')"
    and "List.find (\<lambda>c. clr_tenant c = tn \<and> clr_trip c = i) (clearances d) = Some c"
    and "clr_status c \<noteq> C_approved"
  shows "\<exists>t docs. require_trip tn i d = Inr t \<and> missing_required_cargo_documents tn t d = Inr docs
    \<and> (clr_status c' = C_approved \<longleftrightarrow> docs = [] \<and> ck_vehicle p \<and> ck_driver p \<and> ck_documents p
         \<and> (ck_load_permit p \<or> \<not> trip_requires_load_permit t) \<and> ck_cargo p \<and> ck_fuel_advance p
         \<and> ck_route_risk p)
    \<and> (clr_status c' = C_approved \<longrightarrow> clr_approved_at c' = Some now \<and> clr_blocked_reason c' = None
         \<and> (\<exists>vr. require_vehicle_and_driver_available tn (trip_vehicle t) (trip_driver t) (Some i) now d = Inr vr))
    \<and> (clr_status c' \<noteq> C_approved \<longrightarrow> clr_status c' = C_blocked \<and> truthy (clr_blocked_reason c'))
    \<and> trips d' = trips d \<and> clearances d' = tput clr_id c' (clearances d)"
proof -
  from assms obtain t docs where t: "require_trip tn i d = Inr t"
    and docs: "missing_required_cargo_documents tn t d = Inr docs"
    by (auto simp: approve_dispatch_clearance_def rbind_Inr)
  show ?thesis
  proof (cases "missing_checks p t docs = []")
    case True
    with assms t docs show ?thesis
      unfolding missing_checks_empty
      by (intro exI [of _ t] exI [of _ docs])
        (auto simp: approve_dispatch_clearance_def rbind_Inr Let_def missing_checks_empty)
  next
    case False
    with assms t docs
    have c': "c' = (checked_clearance p t docs c)\<lparr>clr_status := C_blocked,
        clr_blocked_reason := or_str (ck_blocked_reason p)
          (Some (''Missing checks: '' @ join '', '' (missing_checks p t docs)))\<rparr>"
      "trips d' = trips d" "clearances d' = tput clr_id c' (clearances d)"
      by (auto simp: approve_dispatch_clearance_def rbind_Inr Let_def)
    have "truthy (or_str (ck_blocked_reason p) (Some (''Missing checks: '' @ join '', '' (missing_checks p t docs))))"
      by (simp add: or_str_def)
    with c' t docs False show ?thesis
      unfolding missing_checks_empty by (intro exI [of _ t] exI [of _ docs]) auto
  qed
qed

definition all_checks :: clearance_checks where
  "all_checks = \<lparr>ck_vehicle = True, ck_driver = True, ck_documents = True, ck_load_permit = False,
     ck_cargo = True, ck_fuel_advance = True, ck_route_risk = True, ck_blocked_reason = None\<rparr>"

definition pending_fleet :: db where
  "pending_fleet = sample_fleet\<lparr>clearances := [sample_clearance\<lparr>clr_status := C_pending\<rparr>]\<rparr>"

lemma approve_clearance_decides_witness:
  "\<exists>c' d'. approve_dispatch_clearance 1 5 all_checks None 100 pending_fleet = Inr (c', d')
     \<and> clr_status c' = C_approved \<and> trips d' = trips pending_fleet"
proof -
  have docs: "missing_required_cargo_documents 1 (new_trip 5 1 2 3) pending_fleet = Inr []"
    by (simp add: missing_required_cargo_documents_def required_cargo_documents_def required_names_def
        policy_items_def normalized_items_def tenant_policy_def jget_def pending_fleet_def
        sample_fleet_defs)
  have trip: "require_trip 1 5 pending_fleet = Inr (new_trip 5 1 2 3)"
    by (simp add: require_trip_def owned_def pending_fleet_def sample_fleet_def new_trip_def)
  have avail: "require_vehicle_and_driver_available 1 2 3 (Some 5) 100 pending_fleet
      = Inr (sample_vehicle, sample_driver)"
    by (simp add: pending_fleet_def sample_fleet_defs availability_defs List.map_filter_simps)
  have mc: "missing_checks all_checks (new_trip 5 1 2 3) [] = []"
    by (simp add: missing_checks_empty all_checks_def new_trip_def)
  have clr: "List.find (\<lambda>c. clr_tenant c = 1 \<and> clr_trip c = 5) (clearances pending_fleet)
      = Some (sample_clearance\<lparr>clr_status := C_pending\<rparr>)"
    by (simp add: pending_fleet_def sample_clearance_def)
  have vd: "trip_vehicle (new_trip 5 1 2 3) = 2" "trip_driver (new_trip 5 1 2 3) = 3"
    by (simp_all add: new_trip_def)
  obtain c' d' where r: "approve_dispatch_clearance 1 5 all_checks None 100 pending_fleet = Inr (c', d')"
    by (simp add: approve_dispatch_clearance_def trip docs mc avail clr vd Let_def del: One_nat_def)
  from approve_clearance_decides [OF r clr] trip docs show ?thesis
    using r mc by (auto simp: missing_checks_empty)
qed

section \<open>Properties of start and creation\<close>

lemma only_oversight_trips: "only_oversight d d' \<Longrightarrow> trips d' = trips d"
  by (rule only_oversight_frame)

lemma hazmat_alert_next: "db_next d \<le> db_next (hazmat_alert t i a d)"
  by (simp add: hazmat_alert_def fresh_id_def Let_def)

text \<open>
  A started trip was a draft, planned or dispatched; it is in progress from then on, with its
  departure time and a non-negative odometer reading not above its final one, its cargo is within
  the vehicle's payload unless overridden, and the table keeps its constraints: no other active
  trip shares its vehicle or driver.
\<close>

theorem start_trip_effect:
  assumes "trips_ok d" and "start_trip tn i km file dep a now d = Inr (t', d')"
  shows "trips_ok d' \<and> trips d' = tput trip_id t' (trips d) \<and> tget trip_id i (trips d') = Some t'
    \<and> trip_status t' = T_in_progress \<and> trip_actual_departure t' = Some (or_else dep now)
    \<and> trip_km_start t' = Some km \<and> 0 \<le> km
    \<and> (case trip_km_end t' of None \<Rightarrow> True | Some e \<Rightarrow> km \<le> e)
    \<and> \<not> overweight (trip_cargo_weight t') (trip_override_reason t') (tget veh_id (trip_vehicle t') (vehicles d))
    \<and> (\<exists>t. tget trip_id i (trips d) = Some t \<and> trip_status t \<in> {T_draft, T_planned, T_dispatched})
    \<and> (\<forall>x\<in>set (trips d'). trip_active x \<longrightarrow> trip_tenant x = tn
         \<longrightarrow> trip_vehicle x = trip_vehicle t' \<or> trip_driver x = trip_driver t' \<longrightarrow> x = t')"
proof -
  from assms(2) obtain t where "require_trip tn i d = Inr t"
    by (auto simp only: start_trip_def rbind_Inr)
  then have t: "tget trip_id i (trips d) = Some t" "trip_tenant t = tn"
    by (simp_all add: require_trip_Inr)
  note req = \<open>require_trip tn i d = Inr t\<close>
  have st: "trip_status t \<in> {T_draft, T_planned, T_dispatched}"
    by (rule ccontr) (use assms(2) req in \<open>simp add: start_trip_def\<close>)
  have w: "\<not> overweight (trip_cargo_weight t) (trip_override_reason t) (tget veh_id (trip_vehicle t) (vehicles d))"
  proof
    assume o: "overweight (trip_cargo_weight t) (trip_override_reason t) (tget veh_id (trip_vehicle t) (vehicles d))"
    from st have "(trip_status t \<notin> {T_draft, T_planned, T_dispatched}) = False" by simp
    with assms(2) req o show False by (simp only: start_trip_def rbind_simps if_False if_True) simp
  qed
  from tget_key [OF t(1)] have id: "trip_id t = i" .
  define u where "u = t\<lparr>trip_km_start := Some km, trip_km_start_file := file,
      trip_actual_departure := Some (or_else dep now), trip_status := T_in_progress\<rparr>"
  define e where "e = record_audit_log tn a ''trip.started'' ''trip'' (Some i) (put_trip u d)"
  have hz: "trip_is_hazmat u = trip_is_hazmat t" by (simp add: u_def)
  from st have "(trip_status t \<notin> {T_draft, T_planned, T_dispatched}) = False" by simp
  with assms(2) req w have "rbind (flush_trips e) (\<lambda>d1. Inr (u, if trip_is_hazmat u
      then hazmat_alert tn i a d1 else d1)) = Inr (t', d')"
    by (simp only: start_trip_def rbind_simps if_False Let_def u_def e_def)
  then have "t' = u" "trips_constraints (trips e)"
    and d': "d' = (if trip_is_hazmat t then hazmat_alert tn i a e else e)"
    unfolding hz by (auto simp: rbind_Inr flush_trips_Inr)
  moreover have "trips d' = trips e" "db_next e \<le> db_next d'"
    unfolding d' using only_oversight_trips [OF hazmat_alert_only] hazmat_alert_next by auto
  ultimately have res: "t' = t\<lparr>trip_km_start := Some km, trip_km_start_file := file,
        trip_actual_departure := Some (or_else dep now), trip_status := T_in_progress\<rparr>"
    "trips d' = tput trip_id t' (trips d)" "trips_constraints (tput trip_id t' (trips d))"
    "db_next d \<le> db_next d'"
    by (simp_all add: e_def u_def)
  have ok: "trips_ok d'" by (rule trips_ok_put [OF assms(1) res(2,4)]) (simp add: res(2,3))
  have get: "tget trip_id i (trips d') = Some t'" using t id res(1) by (simp add: res(2) tget_tput)
  have "trip_checks t'" using trips_ok_checks [OF ok tget_mem [OF get]] .
  moreover have "x = t'" if "x \<in> set (trips d')" "trip_active x" "trip_tenant x = tn"
      "trip_vehicle x = trip_vehicle t' \<or> trip_driver x = trip_driver t'" for x
  proof (rule trips_ok_exclusive [OF ok that(1) tget_mem [OF get] that(2)])
    show "trip_active t'" using res(1) by (simp add: trip_active_def active_trip_statuses_def)
    show "trip_tenant x = trip_tenant t'" using that(3) t(2) res(1) by simp
  qed (use that(4) in blast)
  ultimately show ?thesis
    using ok get res(1,2) st t(1) w by (auto simp: trip_checks_def split: option.splits)
qed

lemma start_trip_effect_witness:
  "\<exists>t' d'. start_trip 1 5 1200 None None None 100 sample_fleet = Inr (t', d')
     \<and> trip_status t' = T_in_progress \<and> trips_ok d'"
proof -
  obtain t' d' where r: "start_trip 1 5 1200 None None None 100 sample_fleet = Inr (t', d')"
    by (simp add: start_trip_def require_trip_def owned_def overweight_def flush_trips_def
        put_trip_def constraint_defs sample_fleet_defs Let_def)
  with start_trip_effect [OF sample_fleet_ok r] show ?thesis by blast
qed

text \<open>
  Starting does not check availability: on a table that satisfies its constraints, starting
  a draft whose vehicle is already on the road breaks the unique index, and the handler fails with
  the integrity error it does not catch.
\<close>

theorem start_trip_unchecked_conflict:
  "trips_ok (sample_fleet\<lparr>trips := [(new_trip 5 1 2 3)\<lparr>trip_status := T_in_progress\<rparr>,
       (new_trip 8 1 2 4)\<lparr>trip_status := T_draft\<rparr>]\<rparr>)
   \<and> start_trip 1 8 1200 None None None 100 (sample_fleet\<lparr>trips :=
       [(new_trip 5 1 2 3)\<lparr>trip_status := T_in_progress\<rparr>, (new_trip 8 1 2 4)\<lparr>trip_status := T_draft\<rparr>]\<rparr>)
     = Inl (PyError ''IntegrityError'')"
  by (simp add: sample_fleet_defs constraint_defs trip_active_def active_trip_statuses_def
      start_trip_def require_trip_def owned_def overweight_def flush_trips_def put_trip_def Let_def)

text \<open>
  A created trip is a draft that waits for its delivery proof, under a new id, with the
  reference of its contract, which is the tenant's; vehicle and driver were available, the cargo
  fits unless overridden, and the driver was within the hours of service unless overridden.
\<close>

theorem create_trip_guards:
  assumes "trips_ok d" and "create_trip tn p a now d = Inr (t, d')"
  shows "trips_ok d' \<and> trips d' = trips d @ [t] \<and> trip_id t = db_next d \<and> trip_tenant t = tn
    \<and> trip_status t = T_draft \<and> trip_billing t = B_pending_delivery_proof
    \<and> (\<exists>v r. require_vehicle_available tn (tc_vehicle p) None now d = Inr v
          \<and> require_driver_available tn (tc_driver p) None now d = Inr r
          \<and> \<not> overweight (tc_cargo_weight p) (tc_override_reason p) (Some v))
    \<and> (truthy (tc_hos_override p)
        \<or> hos_status (calculate_driving_hours (tc_driver p) tn None now d) \<noteq> H_violation)
    \<and> (case tc_contract p of None \<Rightarrow> trip_contract_ref t = tc_contract_ref p
       | Some c \<Rightarrow> \<exists>con. owned con_id con_tenant tn c (contracts d) = Some con
            \<and> trip_contract_ref t = Some (con_reference con))"
proof -
  from assms(2) obtain v r reference where av:
    "require_vehicle_available tn (tc_vehicle p) None now d = Inr v"
    "require_driver_available tn (tc_driver p) None now d = Inr r"
    and hos: "truthy (tc_hos_override p)
        \<or> hos_status (calculate_driving_hours (tc_driver p) tn None now d) \<noteq> H_violation"
    and ref: "case tc_contract p of None \<Rightarrow> reference = tc_contract_ref p
       | Some c \<Rightarrow> \<exists>con. owned con_id con_tenant tn c (contracts d) = Some con
            \<and> reference = Some (con_reference con)"
    and w: "\<not> overweight (tc_cargo_weight p) (tc_override_reason p) (tget veh_id (tc_vehicle p) (vehicles d))"
    and t: "t = build_trip (db_next d) tn reference p" "trips d' = trips d @ [t]"
      "trips_constraints (trips d @ [t])" "db_next d' = Suc (db_next d)"
    by (auto simp: create_trip_def rbind_Inr require_both_Inr of_opt_Inr fresh_id_def tadd_def
        flush_trips_def Let_def split: if_splits option.splits)
  from av(1) have "tget veh_id (tc_vehicle p) (vehicles d) = Some v"
    by (simp add: require_vehicle_Inr owned_Some)
  moreover have "trips_ok d'"
    using assms(1) t keys_unique_insert [of trip_id "trips d" "db_next d" t]
    by (auto simp: trips_ok_def tadd_def build_trip_def new_trip_def below_def list_all_iff less_Suc_eq)
  ultimately show ?thesis
    using av hos ref w t by (auto simp: build_trip_def new_trip_def split: option.splits)
qed

definition sample_create :: trip_create where
  "sample_create = \<lparr>tc_contract = None, tc_vehicle = 2, tc_driver = 3, tc_origin = ''Maputo'',
     tc_destination = ''Beira'', tc_cargo_type = None, tc_cargo_class = None,
     tc_cargo_weight = Some 15000, tc_load_state = None, tc_requires_load_permit = False,
     tc_requires_cargo_manifest = False, tc_planned_departure = None, tc_planned_arrival = None,
     tc_contract_ref = None, tc_override_reason = None, tc_is_hazmat = False,
     tc_is_international = False, tc_hazmat_class = None, tc_un_number = None,
     tc_hazmat_label = None, tc_hos_override = None\<rparr>"

lemma create_trip_guards_witness:
  "\<exists>t d'. create_trip 1 sample_create None 100 (sample_fleet\<lparr>trips := []\<rparr>) = Inr (t, d')
     \<and> trips_ok d' \<and> trip_status t = T_draft"
proof -
  have ok: "trips_ok (sample_fleet\<lparr>trips := []\<rparr>)" by (simp add: sample_fleet_defs constraint_defs)
  obtain t d' where r: "create_trip 1 sample_create None 100 (sample_fleet\<lparr>trips := []\<rparr>) = Inr (t, d')"
    by (simp add: create_trip_def sample_create_def availability_defs sample_fleet_defs overweight_def
        calculate_driving_hours_def week_hours_def day_hours_def week_trips_def hos_classify_def
        flush_trips_def constraint_defs fresh_id_def tadd_def build_trip_def trip_active_def
        active_trip_statuses_def Let_def)
  with create_trip_guards [OF ok r] show ?thesis by blast
qed

end
