(* ===== verification/Trip_Execution.thy ===== *)
theory Trip_Execution
  imports Trip_Dispatch
begin

text \<open>
  The life of a trip on the road and its closing (\<^verbatim>\<open>trips/service.py\<close>): execution events,
  incidents, the delivery deadline (SLA), stops, completion, operational closing and patches.
\<close>

section \<open>Events and incidents\<close>

definition trip_event_types :: "string list" where
  "trip_event_types = [''dispatched'', ''departed_origin'', ''arrived_loading_point'',
     ''loading_started'', ''loading_completed'', ''departed_loading_point'', ''arrived_checkpoint'',
     ''delayed'', ''incident_reported'', ''arrived_destination'', ''unloading_started'',
     ''unloading_completed'', ''proof_of_delivery_uploaded'', ''completed'']"

definition trip_event_sources :: "string list" where
  "trip_event_sources = [''manual'', ''driver_app'', ''gps'', ''integration'', ''system'']"

definition incident_types :: "string list" where
  "incident_types = [''accident'', ''breakdown'', ''police_stop'', ''border_delay'', ''client_delay'',
     ''loading_delay'', ''unloading_delay'', ''theft'', ''cargo_damage'', ''route_blocked'',
     ''fuel_issue'', ''document_issue'', ''other'']"

record event_input =
  ei_type :: string
  ei_time :: "timestamp option"
  ei_location :: "json option"
  ei_odometer :: "dec option"
  ei_fuel :: "dec option"
  ei_notes :: "string option"
  ei_source :: string

definition create_execution_event ::
  "id \<Rightarrow> id \<Rightarrow> event_input \<Rightarrow> id option \<Rightarrow> timestamp \<Rightarrow> db \<Rightarrow> (exec_event \<times> db) res" where
  "create_execution_event tenant tid p actor now d =
     rbind (require_trip tenant tid d) (\<lambda>_.
       if ei_type p \<notin> set trip_event_types then Inl (ApiError ''invalid_trip_event_type'' 422)
       else if ei_source p \<notin> set trip_event_sources then Inl (ApiError ''invalid_trip_event_source'' 422)
       else
         (let (e, d1) = add_event tenant tid (ei_type p) (or_else (ei_time p) now) (ei_location p)
                          (ei_odometer p) (ei_fuel p) (ei_notes p) actor (ei_source p) d
          in Inr (e, record_audit_log tenant actor (''trip.event.'' @ ei_type p) ''trip'' (Some tid) d1)))"

text \<open>\<^verbatim>\<open>create_breakdown_maintenance_request\<close> of \<^verbatim>\<open>workshop/service.py\<close>.\<close>

definition create_breakdown_maintenance_request ::
  "id \<Rightarrow> trip \<Rightarrow> incident \<Rightarrow> id option \<Rightarrow> db \<Rightarrow> maint_request \<times> db" where
  "create_breakdown_maintenance_request tenant t inc actor d =
     (case List.find (\<lambda>m. mr_tenant m = tenant \<and> mr_incident m = Some (inc_id inc)) (maint_requests d) of
        Some m \<Rightarrow> (m, d)
      | None \<Rightarrow>
          (let (i, d1) = fresh_id d;
               m = \<lparr>mr_id = i, mr_tenant = tenant, mr_vehicle = trip_vehicle t,
                 mr_trip = Some (trip_id t), mr_incident = Some (inc_id inc),
                 mr_type = ''breakdown'',
                 mr_priority = (if inc_severity inc = ''critical'' then ''urgent'' else ''high''),
                 mr_description = inc_description inc, mr_status = ''open'',
                 mr_requested_by = actor\<rparr>
           in (m, record_audit_log tenant actor ''maintenance_request.created_from_breakdown''
                    ''maintenance_request'' (Some i)
                    (d1\<lparr>maint_requests := tadd m (maint_requests d1)\<rparr>))))"

record incident_input =
  ii_type :: string
  ii_severity :: string
  ii_occurred_at :: "timestamp option"
  ii_location :: "json option"
  ii_description :: string
  ii_immediate_action :: "string option"
  ii_impact :: "dec option"
  ii_delay_minutes :: "int option"

text \<open>A serious incident of a trip on the road puts the trip into the incident state.\<close>

definition incident_status_of :: "string \<Rightarrow> trip_status \<Rightarrow> trip_status" where
  "incident_status_of severity st =
     (if severity \<in> {''high'', ''critical''} \<and> st \<in> {T_dispatched, T_in_progress, T_delayed}
      then T_incident else st)"

definition create_incident ::
  "id \<Rightarrow> id \<Rightarrow> incident_input \<Rightarrow> id option \<Rightarrow> timestamp \<Rightarrow> db \<Rightarrow> (incident \<times> db) res" where
  "create_incident tenant tid p actor now d =
     rbind (require_trip tenant tid d) (\<lambda>t.
       if ii_type p \<notin> set incident_types then Inl (ApiError ''invalid_incident_type'' 422)
       else if ii_severity p \<notin> set severities then Inl (ApiError ''invalid_incident_severity'' 422)
       else
         (let t' = t\<lparr>trip_status := incident_status_of (ii_severity p) (trip_status t)\<rparr>;
              (i, d1) = fresh_id (put_trip t' d);
              occurred = or_else (ii_occurred_at p) now;
              inc = \<lparr>inc_id = i, inc_tenant = tenant, inc_trip = tid,
                inc_vehicle = Some (trip_vehicle t), inc_driver = Some (trip_driver t),
                inc_type = ii_type p, inc_severity = ii_severity p, inc_status = I_open,
                inc_occurred_at = occurred, inc_location = ii_location p,
                inc_description = ii_description p, inc_immediate_action = ii_immediate_action p,
                inc_resolution_notes = None, inc_impact = map_option (column 2) (ii_impact p),
                inc_delay_minutes = ii_delay_minutes p, inc_reported_by = actor,
                inc_resolved_by = None, inc_resolved_at = None\<rparr>;
              (_, d2) = add_event tenant tid ''incident_reported'' occurred (ii_location p) None None
                          (Some (ii_description p)) actor ''manual''
                          (d1\<lparr>incidents := tadd inc (incidents d1)\<rparr>)
          in rbind (flush_trips d2) (\<lambda>d3.
               let d4 = (if ii_type p = ''breakdown''
                         then snd (create_breakdown_maintenance_request tenant t' inc actor d3) else d3)
               in Inr (inc, record_audit_log tenant actor ''trip.incident_reported'' ''trip_incident''
                              (Some i) d4))))"

definition resolve_incident :: "id \<Rightarrow> id \<Rightarrow> id \<Rightarrow> string \<Rightarrow> timestamp option \<Rightarrow> id option \<Rightarrow> timestamp
    \<Rightarrow> db \<Rightarrow> (incident \<times> db) res" where
  "resolve_incident tenant tid iid notes resolved actor now d =
     rbind (require_trip tenant tid d) (\<lambda>_.
       case owned inc_id inc_tenant tenant iid (incidents d) of
         None \<Rightarrow> Inl (ApiError ''incident_not_found'' 404)
       | Some x \<Rightarrow>
           if inc_trip x \<noteq> tid then Inl (ApiError ''incident_not_found'' 404)
           else if inc_status x \<in> {I_resolved, I_closed} then Inr (x, d)
           else
             (let x' = x\<lparr>inc_status := I_resolved, inc_resolution_notes := Some notes,
                         inc_resolved_by := actor, inc_resolved_at := Some (or_else resolved now)\<rparr>
              in Inr (x', record_audit_log tenant actor ''trip.incident_resolved'' ''trip_incident''
                            (Some iid) (d\<lparr>incidents := tput inc_id x' (incidents d)\<rparr>))))"

section \<open>The delivery deadline\<close>

definition sla_monitored :: "trip_status list" where
  "sla_monitored = [T_dispatched, T_in_progress, T_delayed]"

definition sla_overdue :: "id \<Rightarrow> timestamp \<Rightarrow> trip \<Rightarrow> bool" where
  "sla_overdue tenant now t \<longleftrightarrow> trip_tenant t = tenant \<and> trip_status t \<in> set sla_monitored
     \<and> trip_actual_arrival t = None
     \<and> (case trip_planned_arrival t of None \<Rightarrow> False | Some p \<Rightarrow> p < now)"

definition delay_minutes :: "timestamp \<Rightarrow> trip \<Rightarrow> int" where
  "delay_minutes now t = (now - or_else (trip_planned_arrival t) now) div 60000000"

text \<open>The loop body for one overdue trip.\<close>

definition sla_step :: "id \<Rightarrow> id option \<Rightarrow> timestamp \<Rightarrow> trip \<Rightarrow> db \<Rightarrow> db res" where
  "sla_step tenant actor now t d =
     (let d1 = (if trip_status t = T_delayed then d
                else record_audit_log tenant actor ''trip.sla_breached'' ''trip'' (Some (trip_id t))
                       (snd (add_event tenant (trip_id t) ''delayed'' now None None None
                          (Some ''Entrega ultrapassou o SLA planejado.'') actor ''system''
                          (put_trip (t\<lparr>trip_status := T_delayed\<rparr>) d))))
      in rbind (ensure_exception tenant ''trip'' (trip_id t) ''trip_delivery_sla_breached''
                  (if 240 \<le> delay_minutes now t then ''high'' else ''medium'') actor
                  (Some ''trip'') (Some (trip_id t)) d1) (\<lambda>(_, d2). Inr d2))"

definition evaluate_delivery_sla ::
  "id \<Rightarrow> id option \<Rightarrow> timestamp \<Rightarrow> db \<Rightarrow> (trip list \<times> db) res" where
  "evaluate_delivery_sla tenant actor now d =
     (let due = filter (sla_overdue tenant now) (trips d)
      in rbind (rfold (sla_step tenant actor now) due d) (\<lambda>d1.
           rbind (flush_trips d1) (\<lambda>d2.
             Inr (map (\<lambda>t. t\<lparr>trip_status := T_delayed\<rparr>) due, d2))))"

section \<open>Stops, contract, completion\<close>

definition associate_contract ::
  "id \<Rightarrow> id \<Rightarrow> id \<Rightarrow> id option \<Rightarrow> timestamp \<Rightarrow> db \<Rightarrow> (trip \<times> db) res" where
  "associate_contract tenant tid cid actor now d =
     rbind (require_trip tenant tid d) (\<lambda>t.
       case owned con_id con_tenant tenant cid (contracts d) of
         None \<Rightarrow> Inl (ApiError ''contract_not_found'' 404)
       | Some con \<Rightarrow>
           (let t1 = t\<lparr>trip_contract := Some cid, trip_contract_ref := Some (con_reference con)\<rparr>;
                t2 = (if trip_billing t = B_uncontracted
                      then t1\<lparr>trip_billing := B_billable, trip_billable_at := Some now\<rparr> else t1)
            in rbind (flush_trips (record_audit_log tenant actor ''trip.contract_associated'' ''trip''
                        (Some tid) (put_trip t2 d))) (\<lambda>d1. Inr (t2, d1))))"

definition create_stop :: "id \<Rightarrow> id \<Rightarrow> string \<Rightarrow> json option \<Rightarrow> string option \<Rightarrow> string option
    \<Rightarrow> id option \<Rightarrow> dec option \<Rightarrow> string option \<Rightarrow> timestamp option \<Rightarrow> id option \<Rightarrow> timestamp
    \<Rightarrow> db \<Rightarrow> (stop \<times> db) res" where
  "create_stop tenant tid ty loc address notes photo cost category stopped actor now d =
     rbind (require_trip tenant tid d) (\<lambda>_.
       let (i, d1) = fresh_id d;
           s = \<lparr>stop_id = i, stop_tenant = tenant, stop_trip = tid, stop_type = ty,
             stop_location = loc, stop_address = address, stop_notes = notes,
             stop_photo_file = photo, stop_cost = map_option (column 2) cost,
             stop_expense_category = category, stop_stopped_at = or_else stopped now,
             stop_resumed_at = None\<rparr>
       in Inr (s, record_audit_log tenant actor ''trip.stop_created'' ''trip_stop'' (Some i)
                    (d1\<lparr>stops := tadd s (stops d1)\<rparr>)))"

definition patch_stop :: "id \<Rightarrow> id \<Rightarrow> string option \<Rightarrow> json option \<Rightarrow> string option \<Rightarrow> db
    \<Rightarrow> (stop \<times> db) res" where
  "patch_stop tenant sid ty loc notes d =
     rbind (of_opt (ApiError ''trip_stop_not_found'' 404) (tget stop_id sid (stops d))) (\<lambda>s.
     rbind (require_trip tenant (stop_trip s) d) (\<lambda>_.
       let s' = s\<lparr>stop_type := or_else ty (stop_type s),
                  stop_location := (if loc = None then stop_location s else loc),
                  stop_notes := (if notes = None then stop_notes s else notes)\<rparr>
       in Inr (s', record_audit_log tenant None ''trip_stop.patched'' ''trip_stop'' (Some sid)
                     (d\<lparr>stops := tput stop_id s' (stops d)\<rparr>))))"

definition complete_trip :: "id \<Rightarrow> id \<Rightarrow> int \<Rightarrow> id option \<Rightarrow> timestamp option \<Rightarrow> string option
    \<Rightarrow> id option \<Rightarrow> timestamp \<Rightarrow> db \<Rightarrow> (trip \<times> db) res" where
  "complete_trip tenant tid km file arrival recipient actor now d =
     rbind (require_trip tenant tid d) (\<lambda>t.
       if trip_status t \<noteq> T_in_progress then Inl (ApiError ''invalid_trip_status'' 409)
       else
         (let t' = t\<lparr>trip_km_end := Some km, trip_km_end_file := file,
                     trip_actual_arrival := Some (or_else arrival now), trip_recipient := recipient,
                     trip_status := T_arrived\<rparr>
          in rbind (flush_trips (record_audit_log tenant actor ''trip.completed'' ''trip'' (Some tid)
                      (put_trip t' d))) (\<lambda>d1. Inr (t', d1))))"

section \<open>Operational closing\<close>

definition open_blocking_incident :: "id \<Rightarrow> id \<Rightarrow> db \<Rightarrow> bool" where
  "open_blocking_incident tenant tid d =
     list_ex (\<lambda>x. inc_tenant x = tenant \<and> inc_trip x = tid \<and> inc_status x \<in> {I_open, I_investigating}
       \<and> inc_severity x \<in> {''high'', ''critical''}) (incidents d)"

definition validated_proof :: "id \<Rightarrow> id \<Rightarrow> db \<Rightarrow> bool" where
  "validated_proof tenant tid d =
     list_ex (\<lambda>p. prf_tenant p = tenant \<and> prf_trip p = tid \<and> prf_status p = P_validated) (proofs d)"

definition operational_close_trip :: "id \<Rightarrow> id \<Rightarrow> timestamp option \<Rightarrow> string option \<Rightarrow> id option
    \<Rightarrow> timestamp \<Rightarrow> db \<Rightarrow> (trip \<times> db) res" where
  "operational_close_trip tenant tid closing notes actor now d =
     rbind (require_trip tenant tid d) (\<lambda>t.
       if trip_status t = T_closed then Inr (t, d)
       else if trip_status t \<notin> {T_arrived, T_delivered, T_incident}
       then Inl (ApiError ''invalid_trip_status'' 409)
       else if open_blocking_incident tenant tid d then Inl (ApiError ''open_blocking_incident'' 409)
       else if \<not> validated_proof tenant tid d \<and> \<not> has_active_waiver tenant ''trip'' tid ''no_pod'' now d
       then Inl (ApiError ''validated_pod_required'' 409)
       else rbind (missing_required_trip_stops tenant t d) (\<lambda>missing.
         if missing \<noteq> [] then Inl (ApiError ''required_trip_stops_missing'' 409)
         else
           (let t' = (reconcile_trip_costs tenant t now d)
                 \<lparr>trip_status := T_closed, trip_billing := B_billable,
                  trip_closed_at := Some (or_else closing now), trip_closed_by := actor,
                  trip_close_notes := notes\<rparr>;
                d1 = set_order_status tenant (trip_order t) O_closed (put_trip t' d);
                (_, d2) = add_event tenant tid ''completed'' (or_else closing now) None None None notes
                            actor ''system'' d1
            in rbind (flush_trips (record_audit_log tenant actor ''trip.closed'' ''trip'' (Some tid) d2))
                 (\<lambda>d3. Inr (t', d3)))))"

section \<open>Patches\<close>

record trip_patch =
  tp_cargo_type :: "string option"
  tp_load_state :: "string option"
  tp_origin :: "string option"
  tp_destination :: "string option"
  tp_cargo_weight :: "dec option"
  tp_override_reason :: "string option"

text \<open>Fields left null keep their value; \<^verbatim>\<open>notes\<close> has no column on a trip and is dropped.\<close>

definition patch_trip :: "id \<Rightarrow> id \<Rightarrow> trip_patch \<Rightarrow> db \<Rightarrow> (trip \<times> db) res" where
  "patch_trip tenant tid p d =
     rbind (require_trip tenant tid d) (\<lambda>t.
       if overweight (tp_cargo_weight p) (or_str (tp_override_reason p) (trip_override_reason t))
            (tget veh_id (trip_vehicle t) (vehicles d))
       then Inl (ApiError ''payload_exceeded'' 409)
       else
         (let keep = (\<lambda>new old. case new of None \<Rightarrow> old | Some x \<Rightarrow> Some x);
              t' = t\<lparr>trip_cargo_type := keep (tp_cargo_type p) (trip_cargo_type t),
                trip_load_state := keep (tp_load_state p) (trip_load_state t),
                trip_origin := or_else (tp_origin p) (trip_origin t),
                trip_destination := or_else (tp_destination p) (trip_destination t),
                trip_cargo_weight := (case tp_cargo_weight p of None \<Rightarrow> trip_cargo_weight t
                   | Some w \<Rightarrow> Some (column 2 w)),
                trip_override_reason := keep (tp_override_reason p) (trip_override_reason t)\<rparr>
          in rbind (flush_trips (record_audit_log tenant None ''trip.patched'' ''trip'' (Some tid)
                      (put_trip t' d))) (\<lambda>d1. Inr (t', d1))))"

section \<open>Properties of closing and completing\<close>

lemma get_put_trip:
  "tget trip_id i (trips d) = Some t \<Longrightarrow> trip_id t' = i \<Longrightarrow> tget trip_id i (tput trip_id t' (trips d)) = Some t'"
  by (simp add: tget_tput)

lemma reconcile_keeps [simp]:
  "trip_id (reconcile_trip_costs tn t now d) = trip_id t"
  "trip_tenant (reconcile_trip_costs tn t now d) = trip_tenant t"
  "trip_vehicle (reconcile_trip_costs tn t now d) = trip_vehicle t"
  "trip_driver (reconcile_trip_costs tn t now d) = trip_driver t"
  "trip_status (reconcile_trip_costs tn t now d) = trip_status t"
  "trip_order (reconcile_trip_costs tn t now d) = trip_order t"
  "trip_contract (reconcile_trip_costs tn t now d) = trip_contract t"
  "trip_document (reconcile_trip_costs tn t now d) = trip_document t"
  by (simp_all add: reconcile_trip_costs_def Let_def)

text \<open>
  C11: A trip that was not closed is closed only from arrived, delivered or incident, with no open
  high or critical incident, with a validated proof of delivery or a waiver for it in force, and
  with every required stop made; closing reconciles its costs (margin is revenue minus transport
  cost, transport cost is fuel plus expenses) and marks it billable.
\<close>

theorem operational_close_conditions:
  assumes "trips_ok d" and "operational_close_trip tn i cl notes a now d = Inr (t', d')"
    and "require_trip tn i d = Inr t" and "trip_status t \<noteq> T_closed"
  shows "trips_ok d' \<and> tget trip_id i (trips d') = Some t' \<and> trip_status t' = T_closed
    \<and> trip_billing t' = B_billable \<and> trip_closed_at t' = Some (or_else cl now) \<and> trip_closed_by t' = a
    \<and> trip_status t \<in> {T_arrived, T_delivered, T_incident}
    \<and> \<not> open_blocking_incident tn i d
    \<and> (validated_proof tn i d \<or> has_active_waiver tn ''trip'' i ''no_pod'' now d)
    \<and> missing_required_trip_stops tn t d = Inr []
    \<and> trip_transport_cost t' = q2 (trip_fuel_cost t) + q2 (trip_cost_sum tn i d)
    \<and> trip_margin t' = auto_calculate_revenue tn t d - trip_transport_cost t'"
proof -
  note row = require_trip_row [OF assms(3)]
  have st: "trip_status t \<in> {T_arrived, T_delivered, T_incident}"
    by (rule ccontr) (use assms(2-4) in \<open>simp add: operational_close_trip_def\<close>)
  then have nst: "(trip_status t \<notin> {T_arrived, T_delivered, T_incident}) = False" by simp
  define u where "u = (reconcile_trip_costs tn t now d)
      \<lparr>trip_status := T_closed, trip_billing := B_billable,
       trip_closed_at := Some (or_else cl now), trip_closed_by := a, trip_close_notes := notes\<rparr>"
  from assms(2-4) nst
  have g: "\<not> open_blocking_incident tn i d"
    "validated_proof tn i d \<or> has_active_waiver tn ''trip'' i ''no_pod'' now d"
    "missing_required_trip_stops tn t d = Inr []"
    and res: "t' = u" "trips d' = tput trip_id u (trips d)" "db_next d' = Suc (db_next d)"
      "trips_constraints (trips d')"
    by (auto simp: operational_close_trip_def rbind_Inr flush_trips_Inr Let_def split_beta u_def
        split: if_splits)
  have "trips_ok d'" using trips_ok_put [OF assms(1) res(2)] res(3,4) by simp
  moreover have "tget trip_id i (trips d') = Some t'"
    unfolding res(1,2) by (rule get_put_trip [OF row(1)]) (simp add: u_def row(3))
  ultimately show ?thesis
    using st g row unfolding res(1)
    by (simp add: u_def reconcile_trip_costs_def Let_def has_digits_add)
qed

text \<open>
  Completing records a consistent trip: only a trip in progress is completed, it becomes
  arrived with its arrival time, and its final odometer reading is not below the initial one
  (a lower reading is refused by the database).
\<close>

theorem complete_trip_effect:
  assumes "trips_ok d" and "complete_trip tn i km file arr rc a now d = Inr (t', d')"
  shows "trips_ok d' \<and> tget trip_id i (trips d') = Some t' \<and> trip_status t' = T_arrived
    \<and> trip_actual_arrival t' = Some (or_else arr now) \<and> trip_km_end t' = Some km \<and> 0 \<le> km
    \<and> (case trip_km_start t' of None \<Rightarrow> True | Some s \<Rightarrow> s \<le> km)
    \<and> (\<exists>t. tget trip_id i (trips d) = Some t \<and> trip_status t = T_in_progress)"
proof -
  from assms(2) obtain t where req: "require_trip tn i d = Inr t"
    by (auto simp only: complete_trip_def rbind_Inr)
  note row = require_trip_row [OF req]
  define u where "u = t\<lparr>trip_km_end := Some km, trip_km_end_file := file,
      trip_actual_arrival := Some (or_else arr now), trip_recipient := rc, trip_status := T_arrived\<rparr>"
  from assms(2) req have st: "trip_status t = T_in_progress"
    and res: "t' = u" "trips d' = tput trip_id u (trips d)" "db_next d' = db_next d"
      "trips_constraints (trips d')"
    by (auto simp: complete_trip_def rbind_Inr flush_trips_Inr Let_def u_def split: if_splits)
  have ok: "trips_ok d'" using trips_ok_put [OF assms(1) res(2)] res(3,4) by simp
  have get: "tget trip_id i (trips d') = Some t'"
    unfolding res(1,2) by (rule get_put_trip [OF row(1)]) (simp add: u_def row(3))
  have "trip_checks t'" by (rule trips_ok_checks [OF ok tget_mem [OF get]])
  with ok get st row(1) show ?thesis
    by (auto simp: res(1) u_def trip_checks_def split: option.splits)
qed

definition road_fleet :: db where
  "road_fleet = sample_fleet\<lparr>trips := [(new_trip 5 1 2 3)\<lparr>trip_status := T_in_progress,
     trip_km_start := Some 1000, trip_planned_arrival := Some 50\<rparr>],
     proofs := [\<lparr>prf_id = 7, prf_tenant = 1, prf_contract = None, prf_trip = 5, prf_permit = None,
       prf_document_number = None, prf_receiver_name = None, prf_receiver_contact = None,
       prf_delivered_at = 90, prf_cargo_condition = ''intact'', prf_quantity = None,
       prf_validation_method = None, prf_notes = None, prf_file = None, prf_verified_by = None,
       prf_verified_at = None, prf_status = P_validated, prf_accepted_at = None,
       prf_accepted_by = None, prf_rejected_at = None, prf_rejected_by = None,
       prf_rejection_reason = None\<rparr>]\<rparr>"

lemma road_fleet_ok: "trips_ok road_fleet"
  by (simp add: road_fleet_def sample_fleet_defs constraint_defs)

lemma complete_trip_effect_witness:
  "\<exists>t' d'. complete_trip 1 5 1600 None None None None 100 road_fleet = Inr (t', d')
     \<and> trip_status t' = T_arrived \<and> trips_ok d'"
proof -
  obtain t' d' where r: "complete_trip 1 5 1600 None None None None 100 road_fleet = Inr (t', d')"
    by (simp add: complete_trip_def require_trip_def owned_def flush_trips_def put_trip_def
        road_fleet_def sample_fleet_defs constraint_defs trip_active_def active_trip_statuses_def Let_def)
  with complete_trip_effect [OF road_fleet_ok r] show ?thesis by blast
qed

definition arrived_fleet :: db where
  "arrived_fleet = road_fleet\<lparr>trips := [(new_trip 5 1 2 3)\<lparr>trip_status := T_arrived\<rparr>]\<rparr>"

lemma operational_close_conditions_witness:
  "\<exists>t' d'. operational_close_trip 1 5 None None (Some 9) 100 arrived_fleet = Inr (t', d')
     \<and> trip_status t' = T_closed \<and> trip_billing t' = B_billable"
proof -
  have ok: "trips_ok arrived_fleet"
    by (simp add: arrived_fleet_def road_fleet_def sample_fleet_defs constraint_defs)
  have req: "require_trip 1 5 arrived_fleet = Inr ((new_trip 5 1 2 3)\<lparr>trip_status := T_arrived\<rparr>)"
    by (simp add: require_trip_def owned_def arrived_fleet_def new_trip_def)
  obtain t' d' where r: "operational_close_trip 1 5 None None (Some 9) 100 arrived_fleet = Inr (t', d')"
    by (simp add: operational_close_trip_def require_trip_def owned_def open_blocking_incident_def
        validated_proof_def missing_required_trip_stops_def required_trip_stops_def required_names_def
        policy_items_def normalized_items_def tenant_policy_def jget_def reconcile_trip_costs_def
        trip_cost_sum_def auto_calculate_revenue_def set_order_status_def add_event_def fresh_id_def
        flush_trips_def put_trip_def arrived_fleet_def road_fleet_def sample_fleet_defs
        constraint_defs trip_active_def active_trip_statuses_def Let_def split_beta)
  from operational_close_conditions [OF ok r req] r show ?thesis by (simp add: new_trip_def)
qed

section \<open>Properties of the delivery deadline\<close>

abbreviation delayed :: "trip \<Rightarrow> trip" where
  "delayed t \<equiv> t\<lparr>trip_status := T_delayed\<rparr>"

abbreviation sla_exception :: "id \<Rightarrow> trip \<Rightarrow> op_exception \<Rightarrow> bool" where
  "sla_exception tn t \<equiv> exc_matches tn ''trip'' (trip_id t) ''trip_delivery_sla_breached'' (Some ''trip'')
     (Some (trip_id t))"

lemma ensure_exception_total:
  assumes "s \<in> set severities"
  shows "\<exists>r d'. ensure_exception t e i x s a st so d = Inr (r, d') \<and> exc_matches t e i x st so r
     \<and> r \<in> set (exceptions d') \<and> set (exceptions d) \<subseteq> set (exceptions d')
     \<and> db_next d \<le> db_next d' \<and> trips d' = trips d
     \<and> ((\<exists>y\<in>set (exceptions d). exc_matches t e i x st so y) \<longrightarrow> d' = d)"
proof -
  obtain r d' where e: "ensure_exception t e i x s a st so d = Inr (r, d')"
    using assms
    by (cases "List.find (exc_matches t e i x st so) (rev (exceptions d))")
      (simp_all add: ensure_exception_def fresh_id_def Let_def)
  have "exc_matches t e i x st so r \<and> r \<in> set (exceptions d') \<and> set (exceptions d) \<subseteq> set (exceptions d')
     \<and> db_next d \<le> db_next d' \<and> ((\<exists>y\<in>set (exceptions d). exc_matches t e i x st so y) \<longrightarrow> d' = d)"
    using e by (cases rule: ensure_exception_cases) (auto simp: exc_matches_def exc_key_def)
  with e only_oversight_trips [OF ensure_exception_only [OF e]] show ?thesis by blast
qed

lemma sla_step_effect:
  assumes "keys_unique trip_id (trips d)" and "t \<in> set (trips d)"
  shows "\<exists>d'. sla_step tn a now t d = Inr d' \<and> trips d' = tput trip_id (delayed t) (trips d)
     \<and> set (exceptions d) \<subseteq> set (exceptions d') \<and> (\<exists>y\<in>set (exceptions d'). sla_exception tn t y)
     \<and> db_next d \<le> db_next d'
     \<and> (trip_status t = T_delayed \<and> (\<exists>y\<in>set (exceptions d). sla_exception tn t y) \<longrightarrow> d' = d)"
proof -
  define d1 where "d1 = (if trip_status t = T_delayed then d
      else record_audit_log tn a ''trip.sla_breached'' ''trip'' (Some (trip_id t))
             (snd (add_event tn (trip_id t) ''delayed'' now None None None
                (Some ''Entrega ultrapassou o SLA planejado.'') a ''system'' (put_trip (delayed t) d))))"
  have ts: "trips d1 = tput trip_id (delayed t) (trips d)"
  proof (cases "trip_status t = T_delayed")
    case True
    then have "delayed t = t" by simp
    show ?thesis by (simp only: d1_def True simp_thms if_True \<open>delayed t = t\<close> tput_self [OF assms])
  qed (simp add: d1_def)
  have d1: "exceptions d1 = exceptions d" "db_next d \<le> db_next d1" "trip_status t = T_delayed \<Longrightarrow> d1 = d"
    by (simp_all add: d1_def)
  have "(if 240 \<le> delay_minutes now t then ''high'' else ''medium'') \<in> set severities"
    by (simp add: severities_def)
  from ensure_exception_total [OF this, of tn "''trip''" "trip_id t" "''trip_delivery_sla_breached''"
      a "Some ''trip''" "Some (trip_id t)" d1]
  obtain r d' where e: "ensure_exception tn ''trip'' (trip_id t) ''trip_delivery_sla_breached''
      (if 240 \<le> delay_minutes now t then ''high'' else ''medium'') a (Some ''trip'') (Some (trip_id t)) d1
      = Inr (r, d')" "sla_exception tn t r" "r \<in> set (exceptions d')"
    "set (exceptions d1) \<subseteq> set (exceptions d')" "db_next d1 \<le> db_next d'" "trips d' = trips d1"
    "(\<exists>y\<in>set (exceptions d1). sla_exception tn t y) \<longrightarrow> d' = d1" by blast
  have "sla_step tn a now t d = Inr d'"
    by (simp only: sla_step_def Let_def d1_def [symmetric] e(1) rbind_simps prod.case)
  moreover have "trip_status t = T_delayed \<and> (\<exists>y\<in>set (exceptions d). sla_exception tn t y) \<longrightarrow> d' = d"
    using e(7) d1(1,3) by metis
  ultimately show ?thesis
    using ts d1(1,2) e(2-6) by (intro exI [of _ d']) force
qed

text \<open>The loop writes its trips one by one; the rows of the others stay.\<close>

lemma sla_loop:
  assumes "keys_unique trip_id (trips d)" and "set ts \<subseteq> set (trips d)" and "distinct (map trip_id ts)"
  shows "\<exists>d'. rfold (sla_step tn a now) ts d = Inr d'
     \<and> trips d' = map (\<lambda>x. if x \<in> set ts then delayed x else x) (trips d)
     \<and> set (exceptions d) \<subseteq> set (exceptions d')
     \<and> (\<forall>t\<in>set ts. \<exists>y\<in>set (exceptions d'). sla_exception tn t y) \<and> db_next d \<le> db_next d'"
  using assms
proof (induction ts arbitrary: d)
  case Nil
  then show ?case by simp
next
  case (Cons t ts)
  then have t: "t \<in> set (trips d)" by simp
  from sla_step_effect [OF Cons.prems(1) t] obtain d1 where
    step: "sla_step tn a now t d = Inr d1" "trips d1 = tput trip_id (delayed t) (trips d)"
      "set (exceptions d) \<subseteq> set (exceptions d1)" "\<exists>y\<in>set (exceptions d1). sla_exception tn t y"
      "db_next d \<le> db_next d1" by blast
  have row: "x = t" if "x \<in> set (trips d)" "trip_id x = trip_id t" for x
    using keys_unique_row [OF Cons.prems(1) that(1) t that(2)] .
  then have upd: "trips d1 = map (\<lambda>x. if x = t then delayed t else x) (trips d)"
    unfolding step(2) tput_def by (auto intro!: map_cong)
  have other: "trip_id x \<noteq> trip_id t" if "x \<in> set ts" for x
    using that Cons.prems(3) by (metis distinct.simps(2) image_eqI list.simps(9) set_map)
  have nd: "x \<noteq> delayed t" if "x \<in> set ts" for x
    using other [OF that] by auto
  have nt: "x \<noteq> t" if "x \<in> set ts" for x
    using other [OF that] by auto
  have sub: "set ts \<subseteq> set (trips d1)" using Cons.prems(2) nt unfolding upd by force
  from Cons.IH [OF _ sub] Cons.prems(1,3) obtain d' where
    rest: "rfold (sla_step tn a now) ts d1 = Inr d'"
      "trips d' = map (\<lambda>x. if x \<in> set ts then delayed x else x) (trips d1)"
      "set (exceptions d1) \<subseteq> set (exceptions d')"
      "\<forall>t\<in>set ts. \<exists>y\<in>set (exceptions d'). sla_exception tn t y" "db_next d1 \<le> db_next d'"
    by (auto simp: step(2))
  have "trips d' = map (\<lambda>x. if x \<in> set (t # ts) then delayed x else x) (trips d)"
    unfolding rest(2) upd map_map
  proof (intro map_cong refl)
    fix x
    show "((\<lambda>x. if x \<in> set ts then delayed x else x) \<circ> (\<lambda>x. if x = t then delayed t else x)) x =
        (if x \<in> set (t # ts) then delayed x else x)"
      using nd by auto
  qed
  with step rest show ?case by fastforce
qed

lemma delayed_constraints:
  assumes "trips_constraints ts" and "\<And>x. x \<in> set xs \<Longrightarrow> trip_active x"
  shows "trips_constraints (map (\<lambda>x. if x \<in> set xs then delayed x else x) ts)"
proof -
  let ?f = "\<lambda>x. if x \<in> set xs then delayed x else x"
  have act: "trip_active (?f x) = trip_active x" for x
    using assms(2) [of x] by (auto simp: trip_active_def active_trip_statuses_def)
  have fil: "filter trip_active (map ?f ts) = map ?f (filter trip_active ts)"
    by (induction ts) (simp_all add: act)
  have keys: "trip_tenant (?f x) = trip_tenant x" "trip_vehicle (?f x) = trip_vehicle x"
    "trip_driver (?f x) = trip_driver x" "trip_order (?f x) = trip_order x" "trip_checks (?f x) = trip_checks x" for x
    by (simp_all add: trip_checks_def split: option.split)
  have "List.map_filter trip_order (map ?f ts) = List.map_filter trip_order ts"
    by (induction ts) (simp_all add: List.map_filter_simps keys split: option.split)
  moreover have "active_vehicles (map ?f ts) = active_vehicles ts"
    "active_drivers (map ?f ts) = active_drivers ts"
    unfolding indexed_vehicles indexed_drivers fil by (simp_all only: map_map comp_def keys)
  moreover have "list_all trip_checks (map ?f ts) = list_all trip_checks ts"
    by (simp only: list_all_iff set_map ball_simps keys)
  ultimately show ?thesis using assms(1) by (simp only: trips_constraints_def)
qed

text \<open>A trip that was delayed for its deadline is monitored still, and nothing more is done about it.\<close>

lemma still_overdue:
  "filter (sla_overdue tn now) (map (\<lambda>x. if sla_overdue tn now x then delayed x else x) xs)
    = map delayed (filter (sla_overdue tn now) xs)"
proof -
  have still: "sla_overdue tn now (delayed x)" if "sla_overdue tn now x" for x
    using that by (simp add: sla_overdue_def sla_monitored_def)
  show ?thesis by (induction xs) (simp_all add: still)
qed

lemma sla_loop_quiet:
  assumes "keys_unique trip_id (trips d)" and "set ts \<subseteq> set (trips d)"
    and "\<And>x. x \<in> set ts \<Longrightarrow> trip_status x = T_delayed \<and> (\<exists>y\<in>set (exceptions d). sla_exception tn x y)"
  shows "rfold (sla_step tn a now) ts d = Inr d"
  using assms(2,3)
proof (induction ts)
  case (Cons x ts)
  then have "x \<in> set (trips d)" by simp
  from sla_step_effect [OF assms(1) this] Cons.prems(2) [of x]
  have "sla_step tn a now x d = Inr d" by fastforce
  with Cons show ?case by simp
qed simp

text \<open>
  C29: The deadline check always succeeds and is complete: every monitored trip of the tenant past
  its planned arrival is delayed afterwards and has an active breach exception, no other trip
  changes, and a second check at the same time finds nothing more to do.
\<close>

theorem evaluate_sla_complete:
  assumes "trips_ok d"
  shows "\<exists>ts d'. evaluate_delivery_sla tn a now d = Inr (ts, d') \<and> trips_ok d'
    \<and> trips d' = map (\<lambda>x. if sla_overdue tn now x then delayed x else x) (trips d)
    \<and> (\<forall>x\<in>set (trips d'). sla_overdue tn now x \<longrightarrow> trip_status x = T_delayed
         \<and> (\<exists>y\<in>set (exceptions d'). sla_exception tn x y))
    \<and> evaluate_delivery_sla tn a' now d' = Inr (ts, d')"
proof -
  let ?due = "filter (sla_overdue tn now) (trips d)"
  let ?f = "\<lambda>x. if sla_overdue tn now x then delayed x else x"
  from assms have u: "keys_unique trip_id (trips d)" by (simp add: trips_ok_def)
  then have "distinct (map trip_id ?due)" by (simp add: keys_unique_def distinct_map_filter)
  from sla_loop [OF u _ this] obtain d' where loop:
    "rfold (sla_step tn a now) ?due d = Inr d'"
    "trips d' = map (\<lambda>x. if x \<in> set ?due then delayed x else x) (trips d)"
    "\<forall>t\<in>set ?due. \<exists>y\<in>set (exceptions d'). sla_exception tn t y" "db_next d \<le> db_next d'"
    by fastforce
  have upd: "trips d' = map ?f (trips d)" unfolding loop(2) by (rule map_cong) auto
  have "trips_constraints (trips d')"
    unfolding loop(2)
    by (rule delayed_constraints) (use assms in \<open>auto simp: trips_ok_def sla_overdue_def
        sla_monitored_def trip_active_def active_trip_statuses_def\<close>)
  moreover have ids: "map trip_id (trips d') = map trip_id (trips d)" unfolding upd by simp
  moreover have "below trip_id (db_next d') (trips d')"
    using assms loop(4) by (auto simp: trips_ok_def below_def list_all_iff upd)
  ultimately have ok: "trips_ok d'" and con: "trips_constraints (trips d')"
    using assms by (simp_all only: trips_ok_def keys_unique_def) 
  let ?ts = "map delayed ?due"
  have run: "evaluate_delivery_sla tn a now d = Inr (?ts, d')"
    using loop(1) con by (simp add: evaluate_delivery_sla_def flush_trips_def)
  have again: "filter (sla_overdue tn now) (trips d') = ?ts" unfolding upd by (rule still_overdue)
  have exc: "trip_status x = T_delayed \<and> (\<exists>y\<in>set (exceptions d'). sla_exception tn x y)"
    if "x \<in> set ?ts" for x
    using that loop(3) by auto
  have sub: "set ?ts \<subseteq> set (trips d')" using again by (metis filter_is_subset)
  have "keys_unique trip_id (trips d')" using ok by (simp only: trips_ok_def)
  from sla_loop_quiet [OF this sub exc] have "rfold (sla_step tn a' now) ?ts d' = Inr d'" by simp
  with again con have "evaluate_delivery_sla tn a' now d' = Inr (map delayed ?ts, d')"
    by (simp add: evaluate_delivery_sla_def flush_trips_def)
  then have "evaluate_delivery_sla tn a' now d' = Inr (?ts, d')" by (simp add: comp_def)
  moreover have "\<forall>x\<in>set (trips d'). sla_overdue tn now x \<longrightarrow> trip_status x = T_delayed
      \<and> (\<exists>y\<in>set (exceptions d'). sla_exception tn x y)"
  proof (intro ballI impI)
    fix x
    assume "x \<in> set (trips d')" "sla_overdue tn now x"
    then have "x \<in> set (filter (sla_overdue tn now) (trips d'))" by simp
    then have "x \<in> set ?ts" by (simp only: again)
    then show "trip_status x = T_delayed \<and> (\<exists>y\<in>set (exceptions d'). sla_exception tn x y)" by (rule exc)
  qed
  ultimately show ?thesis using run ok upd by blast
qed

lemma evaluate_sla_complete_witness:
  "\<exists>ts d'. evaluate_delivery_sla 1 None 100 road_fleet = Inr (ts, d')
     \<and> map trip_status (trips d') = [T_delayed]"
proof -
  from evaluate_sla_complete [OF road_fleet_ok, of 1 None 100 None] obtain ts d' where
    "evaluate_delivery_sla 1 None 100 road_fleet = Inr (ts, d')"
    "trips d' = map (\<lambda>x. if sla_overdue 1 100 x then delayed x else x) (trips road_fleet)" by blast
  then show ?thesis by (simp add: road_fleet_def sla_overdue_def sla_monitored_def new_trip_def)
qed

end
