(* ===== verification/Trip_Orders.thy ===== *)
theory Trip_Orders
  imports Trip_Dispatch
begin

text \<open>
  Trip orders (\<^verbatim>\<open>trip_orders/service.py\<close>): creation, confirmation, assignment to a vehicle and a
  driver (which creates the trip), cancellation and rejection.
\<close>

section \<open>Operations\<close>

record order_create =
  oc_contract :: "id option"
  oc_origin :: string
  oc_destination :: string
  oc_cargo_type :: "string option"
  oc_weight :: "dec option"
  oc_volume :: "dec option"
  oc_risk_level :: string
  oc_pickup_deadline :: "timestamp option"
  oc_delivery_deadline :: "timestamp option"
  oc_priority :: string
  oc_distance :: "dec option"
  oc_source :: string
  oc_requires_load_permit :: bool

definition order_priorities :: "string list" where
  "order_priorities = [''low'', ''normal'', ''high'', ''urgent'']"

definition order_sources :: "string list" where
  "order_sources = [''manual'', ''contract_schedule'', ''client_request'']"

definition order_risks :: "string list" where
  "order_risks = [''low'', ''normal'', ''high'', ''critical'']"

definition require_order :: "id \<Rightarrow> id \<Rightarrow> db \<Rightarrow> trip_order res" where
  "require_order tenant i d =
     of_opt (ApiError ''trip_order_not_found'' 404) (owned ord_id ord_tenant tenant i (orders d))"

definition create_trip_order :: "id \<Rightarrow> order_create \<Rightarrow> id option \<Rightarrow> db \<Rightarrow> (trip_order \<times> db) res" where
  "create_trip_order tenant p actor d =
     (if oc_priority p \<notin> set order_priorities \<or> oc_source p \<notin> set order_sources
         \<or> oc_risk_level p \<notin> set order_risks
      then Inl (ApiError ''invalid_trip_order_value'' 422)
      else if (case oc_contract p of None \<Rightarrow> False
               | Some c \<Rightarrow> owned con_id con_tenant tenant c (contracts d) = None)
      then Inl (ApiError ''contract_not_found'' 404)
      else
        (let (i, d1) = fresh_id d;
             o' = \<lparr>ord_id = i, ord_tenant = tenant, ord_contract = oc_contract p,
               ord_origin = oc_origin p, ord_destination = oc_destination p,
               ord_cargo_type = oc_cargo_type p, ord_weight = map_option (column 2) (oc_weight p),
               ord_volume = map_option (column 2) (oc_volume p), ord_risk_level = oc_risk_level p,
               ord_pickup_deadline = oc_pickup_deadline p,
               ord_delivery_deadline = oc_delivery_deadline p, ord_vehicle = None,
               ord_driver = None, ord_assigned_at = None, ord_assigned_by = None,
               ord_status = O_draft, ord_rejection_reason = None, ord_rejected_at = None,
               ord_rejected_by = None, ord_priority = oc_priority p,
               ord_distance = map_option (column 2) (oc_distance p), ord_source = oc_source p,
               ord_requires_load_permit = oc_requires_load_permit p\<rparr>
         in Inr (o', record_audit_log tenant actor ''trip_order.created'' ''trip_order'' (Some i)
                       (d1\<lparr>orders := tadd o' (orders d1)\<rparr>))))"

definition confirm_trip_order :: "id \<Rightarrow> id \<Rightarrow> id option \<Rightarrow> db \<Rightarrow> (trip_order \<times> db) res" where
  "confirm_trip_order tenant i actor d =
     rbind (require_order tenant i d) (\<lambda>x.
       if ord_status x = O_confirmed then Inr (x, d)
       else if ord_status x \<noteq> O_draft then Inl (ApiError ''invalid_trip_order_status'' 409)
       else
         (let x' = x\<lparr>ord_status := O_confirmed\<rparr>
          in Inr (x', record_audit_log tenant actor ''trip_order.confirmed'' ''trip_order'' (Some i)
                        (d\<lparr>orders := tput ord_id x' (orders d)\<rparr>))))"

definition trip_of_order :: "id \<Rightarrow> id \<Rightarrow> id \<Rightarrow> id \<Rightarrow> string option \<Rightarrow> trip_order \<Rightarrow> db \<Rightarrow> trip" where
  "trip_of_order i tenant v r override x d =
     (new_trip i tenant v r)
       \<lparr>trip_order := Some (ord_id x), trip_contract := ord_contract x,
        trip_origin := ord_origin x, trip_destination := ord_destination x,
        trip_cargo_type := ord_cargo_type x, trip_cargo_weight := ord_weight x,
        trip_cargo_volume := ord_volume x,
        trip_requires_load_permit := ord_requires_load_permit x,
        trip_planned_departure := ord_pickup_deadline x,
        trip_planned_arrival := ord_delivery_deadline x, trip_status := T_planned,
        trip_billing := B_pending_delivery_proof, trip_override_reason := override,
        trip_contract_ref := map_option con_reference
          (Option.bind (ord_contract x) (\<lambda>c. tget con_id c (contracts d)))\<rparr>"

definition assign_trip_order :: "id \<Rightarrow> id \<Rightarrow> id \<Rightarrow> id \<Rightarrow> string option \<Rightarrow> id option \<Rightarrow> timestamp
    \<Rightarrow> db \<Rightarrow> (trip_order \<times> trip \<times> db) res" where
  "assign_trip_order tenant i v r override actor now d =
     rbind (require_order tenant i d) (\<lambda>x.
       if ord_status x \<notin> {O_confirmed, O_planning} then Inl (ApiError ''invalid_trip_order_status'' 409)
       else rbind (require_vehicle_and_driver_available tenant v r None now d) (\<lambda>_.
         if overweight (ord_weight x) override (tget veh_id v (vehicles d))
         then Inl (ApiError ''payload_exceeded'' 409)
         else
           (let x' = x\<lparr>ord_status := O_assigned, ord_vehicle := Some v, ord_driver := Some r,
                       ord_assigned_by := actor, ord_assigned_at := Some now\<rparr>;
                (j, d1) = fresh_id (d\<lparr>orders := tput ord_id x' (orders d)\<rparr>);
                t = trip_of_order j tenant v r override x d;
                d2 = d1\<lparr>trips := tadd t (trips d1)\<rparr>
            in case flush_trips d2 of
                 Inl _ \<Rightarrow> Inl (ApiError ''assignment_conflict'' 409)
               | Inr d3 \<Rightarrow>
                   Inr (x', t, record_audit_log tenant actor ''trip.created_from_order'' ''trip'' (Some j)
                     (record_audit_log tenant actor ''trip_order.assigned'' ''trip_order'' (Some i) d3)))))"

definition cancel_trip_order :: "id \<Rightarrow> id \<Rightarrow> id option \<Rightarrow> db \<Rightarrow> (trip_order \<times> db) res" where
  "cancel_trip_order tenant i actor d =
     rbind (require_order tenant i d) (\<lambda>x.
       if ord_status x = O_cancelled then Inr (x, d)
       else if ord_status x \<in> {O_assigned, O_dispatched, O_in_execution, O_delivered, O_closed}
       then Inl (ApiError ''invalid_trip_order_status'' 409)
       else
         (let x' = x\<lparr>ord_status := O_cancelled\<rparr>
          in Inr (x', record_audit_log tenant actor ''trip_order.cancelled'' ''trip_order'' (Some i)
                        (d\<lparr>orders := tput ord_id x' (orders d)\<rparr>))))"

text \<open>SM-04: no status is checked.\<close>

definition reject_dispatch_clearance ::
  "id \<Rightarrow> id \<Rightarrow> id \<Rightarrow> string \<Rightarrow> timestamp \<Rightarrow> db \<Rightarrow> (trip_order \<times> db) res" where
  "reject_dispatch_clearance tenant i user reason now d =
     rbind (require_order tenant i d) (\<lambda>x.
       let x' = x\<lparr>ord_status := O_rejected, ord_rejection_reason := Some reason,
                  ord_rejected_at := Some now, ord_rejected_by := Some user\<rparr>
       in Inr (x', record_audit_log tenant (Some user) ''trip_order.clearance_rejected'' ''trip_order''
                     (Some i) (d\<lparr>orders := tput ord_id x' (orders d)\<rparr>)))"

section \<open>Properties\<close>

lemma require_order_Inr:
  "require_order t i d = Inr x \<longleftrightarrow> tget ord_id i (orders d) = Some x \<and> ord_tenant x = t"
  by (simp add: require_order_def of_opt_Inr owned_Some)

lemma map_filter_snoc:
  "List.map_filter f (xs @ [x]) = List.map_filter f xs @ (case f x of None \<Rightarrow> [] | Some y \<Rightarrow> [y])"
  by (induction xs) (auto simp: List.map_filter_simps split: option.split)

lemma not_in_map_filter: "y \<notin> set (List.map_filter f xs) \<longleftrightarrow> (\<forall>x\<in>set xs. f x \<noteq> Some y)"
  by (auto simp: map_filter_mem)

text \<open>A new active trip of an available vehicle and driver fits the constraints of the table.\<close>

lemma trips_constraints_add:
  assumes "trips_constraints (trips d)" and "trip_checks t" and "trip_active t"
    and "vehicle_conflict (trip_tenant t) (trip_vehicle t) None d = None"
    and "driver_conflict (trip_tenant t) (trip_driver t) None d = None"
    and "case trip_order t of None \<Rightarrow> True | Some o' \<Rightarrow> \<forall>x\<in>set (trips d). trip_order x \<noteq> Some o'"
  shows "trips_constraints (trips d @ [t])"
proof -
  have "(trip_tenant t, trip_vehicle t) \<notin> set (active_vehicles (trips d))"
    using assms(4) by (auto simp: indexed_vehicles vehicle_conflict_None)
  moreover have "(trip_tenant t, trip_driver t) \<notin> set (active_drivers (trips d))"
    using assms(5) by (auto simp: indexed_drivers driver_conflict_None)
  moreover have "distinct (List.map_filter trip_order (trips d @ [t]))"
    using assms(1,6) not_in_map_filter [of _ trip_order "trips d"]
    by (auto simp: trips_constraints_def map_filter_snoc split: option.splits)
  ultimately show ?thesis
    using assms(1-3) by (simp add: trips_constraints_def indexed_vehicles indexed_drivers)
qed

text \<open>
  Assigning a confirmed order whose vehicle and driver are available and whose cargo fits
  always succeeds, as long as the order has no trip yet and its weights are not negative: the order
  becomes assigned and exactly one trip is added, planned, with the order's contract, places, cargo
  and deadlines.
\<close>

theorem assign_trip_order_succeeds:
  assumes "trips_ok d" and "require_order tn i d = Inr x" and "ord_status x \<in> {O_confirmed, O_planning}"
    and "require_vehicle_and_driver_available tn v r None now d = Inr (veh, drv)"
    and "\<not> overweight (ord_weight x) ov (Some veh)"
    and "\<forall>t\<in>set (trips d). trip_order t \<noteq> Some i"
    and "0 \<le> or_else (ord_weight x) 0" and "0 \<le> or_else (ord_volume x) 0"
  shows "\<exists>x' t d'. assign_trip_order tn i v r ov a now d = Inr (x', t, d') \<and> trips_ok d'
    \<and> ord_status x' = O_assigned \<and> tget ord_id i (orders d') = Some x'
    \<and> trips d' = trips d @ [t] \<and> trip_status t = T_planned \<and> trip_order t = Some i
    \<and> trip_contract t = ord_contract x \<and> trip_origin t = ord_origin x
    \<and> trip_destination t = ord_destination x \<and> trip_cargo_weight t = ord_weight x
    \<and> trip_planned_arrival t = ord_delivery_deadline x"
proof -
  have x: "tget ord_id i (orders d) = Some x" "ord_tenant x = tn"
    using assms(2) by (simp_all add: require_order_Inr)
  from tget_key [OF x(1)] have idx: "ord_id x = i" .
  have av: "require_vehicle_available tn v None now d = Inr veh"
    "require_driver_available tn r None now d = Inr drv"
    using assms(4) by (simp_all add: require_both_Inr)
  then have veh: "tget veh_id v (vehicles d) = Some veh"
    and conf: "vehicle_conflict tn v None d = None" "driver_conflict tn r None d = None"
    by (simp_all add: require_vehicle_Inr require_driver_Inr owned_Some)
  define t where "t = trip_of_order (db_next d) tn v r ov x d"
  have tf: "trip_tenant t = tn" "trip_vehicle t = v" "trip_driver t = r" "trip_order t = Some i"
    "trip_active t" "trip_id t = db_next d"
    by (simp_all add: t_def trip_of_order_def new_trip_def idx trip_active_def active_trip_statuses_def)
  have checks: "trip_checks t"
    using assms(7,8) by (cases "ord_weight x"; cases "ord_volume x")
      (simp_all add: t_def trip_of_order_def new_trip_def trip_checks_def)
  have con: "trips_constraints (trips d @ [t])"
    using assms(1,6) checks tf conf by (intro trips_constraints_add) (simp_all add: trips_ok_def)
  define x' where "x' = x\<lparr>ord_status := O_assigned, ord_vehicle := Some v, ord_driver := Some r,
      ord_assigned_by := a, ord_assigned_at := Some now\<rparr>"
  define d' where "d' = record_audit_log tn a ''trip.created_from_order'' ''trip'' (Some (db_next d))
      (record_audit_log tn a ''trip_order.assigned'' ''trip_order'' (Some i)
        (d\<lparr>orders := tput ord_id x' (orders d), db_next := Suc (db_next d), trips := trips d @ [t]\<rparr>))"
  have st: "(ord_status x \<notin> {O_confirmed, O_planning}) = False" using assms(3) by simp
  have "assign_trip_order tn i v r ov a now d = Inr (x', t, d')"
    using assms(2,4,5) veh con
    by (simp only: assign_trip_order_def rbind_simps st if_False Let_def fresh_id_def prod.case
        t_def [symmetric] x'_def [symmetric])
      (simp add: flush_trips_def tadd_def d'_def t_def [symmetric])
  moreover have "trips_ok d'"
    using assms(1) con tf(6) keys_unique_insert [of trip_id "trips d" "db_next d" t]
    by (auto simp: trips_ok_def d'_def tadd_def below_def list_all_iff less_Suc_eq)
  moreover have "tget ord_id i (orders d') = Some x'"
    using x(1) idx by (simp add: d'_def tget_tput x'_def)
  ultimately show ?thesis
    by (intro exI [of _ x'] exI [of _ t] exI [of _ d'])
      (simp add: x'_def d'_def t_def trip_of_order_def new_trip_def idx)
qed

definition sample_order :: trip_order where
  "sample_order = \<lparr>ord_id = 4, ord_tenant = 1, ord_contract = None, ord_origin = ''Maputo'',
     ord_destination = ''Tete'', ord_cargo_type = None, ord_weight = Some 18000, ord_volume = None,
     ord_risk_level = ''normal'', ord_pickup_deadline = None, ord_delivery_deadline = Some 500,
     ord_vehicle = None, ord_driver = None, ord_assigned_at = None, ord_assigned_by = None,
     ord_status = O_confirmed, ord_rejection_reason = None, ord_rejected_at = None,
     ord_rejected_by = None, ord_priority = ''normal'', ord_distance = None, ord_source = ''manual'',
     ord_requires_load_permit = False\<rparr>"

definition order_fleet :: db where
  "order_fleet = sample_fleet\<lparr>trips := [], orders := [sample_order]\<rparr>"

lemma assign_trip_order_succeeds_witness:
  "\<exists>x' t d'. assign_trip_order 1 4 2 3 None None 100 order_fleet = Inr (x', t, d')
     \<and> trips d' = [t] \<and> trip_status t = T_planned \<and> ord_status x' = O_assigned"
proof -
  have ok: "trips_ok order_fleet" by (simp add: order_fleet_def sample_fleet_defs constraint_defs)
  have ord: "require_order 1 4 order_fleet = Inr sample_order"
    by (simp add: require_order_def owned_def order_fleet_def sample_order_def)
  have av: "require_vehicle_and_driver_available 1 2 3 None 100 order_fleet
      = Inr (sample_vehicle, sample_driver)"
    by (simp add: order_fleet_def sample_fleet_defs availability_defs List.map_filter_simps)
  have w: "\<not> overweight (ord_weight sample_order) None (Some sample_vehicle)"
    by (simp add: overweight_def sample_order_def sample_vehicle_def)
  from assign_trip_order_succeeds [OF ok ord _ av w, of None] have
    "\<exists>x' t d'. assign_trip_order 1 4 2 3 None None 100 order_fleet = Inr (x', t, d')
      \<and> ord_status x' = O_assigned \<and> trips d' = trips order_fleet @ [t] \<and> trip_status t = T_planned"
    by (auto simp: sample_order_def order_fleet_def)
  then show ?thesis by (auto simp: order_fleet_def)
qed

text \<open>
  A pending dispatch does not protect its order: right after clearance was requested for a trip
  of an order, the order can still be cancelled, and the trip stays active, holding its vehicle and
  its driver.
\<close>

theorem cancel_order_of_pending_trip:
  assumes "require_trip tn i d = Inr t" and "trip_status t \<in> {T_draft, T_planned}"
    and "trip_order t = Some j" and "require_order tn j d = Inr x"
    and "\<forall>c\<in>set (clearances d). clr_trip c \<noteq> i"
    and "request_dispatch_clearance tn i a d = Inr (c, d1)"
  shows "\<exists>x' d2 t'. cancel_trip_order tn j a' d1 = Inr (x', d2) \<and> ord_status x' = O_cancelled
    \<and> tget trip_id i (trips d2) = Some t' \<and> trip_order t' = Some j \<and> trip_active t'"
proof -
  note row = require_trip_row [OF assms(1)]
  have x: "tget ord_id j (orders d) = Some x" "ord_tenant x = tn"
    using assms(4) by (simp_all add: require_order_Inr)
  from tget_key [OF x(1)] have idx: "ord_id x = j" .
  have none: "List.find (\<lambda>c. clr_tenant c = tn \<and> clr_trip c = i) (clearances d) = None"
    using assms(5) by (auto simp: find_None_iff)
  have st: "(trip_status t \<notin> {T_draft, T_planned}) = False" using assms(2) by simp
  from assms(6) have d1: "trips d1 = tput trip_id (t\<lparr>trip_status := T_dispatch_pending\<rparr>) (trips d)"
    "orders d1 = tput ord_id (x\<lparr>ord_status := O_dispatch_pending\<rparr>) (orders d)"
    unfolding request_dispatch_clearance_def assms(1) rbind_simps st if_False none option.case
    using x by (auto simp: assms(3) Let_def fresh_id_def rbind_Inr flush_trips_Inr
        set_order_status_def put_trip_def owned_def)
  have "require_order tn j d1 = Inr (x\<lparr>ord_status := O_dispatch_pending\<rparr>)"
    using x idx by (simp add: require_order_Inr d1(2) tget_tput)
  then have "cancel_trip_order tn j a' d1 = Inr (x\<lparr>ord_status := O_cancelled\<rparr>,
      record_audit_log tn a' ''trip_order.cancelled'' ''trip_order'' (Some j)
        (d1\<lparr>orders := tput ord_id (x\<lparr>ord_status := O_cancelled\<rparr>) (orders d1)\<rparr>))"
    by (simp add: cancel_trip_order_def Let_def)
  moreover have "tget trip_id i (trips d1) = Some (t\<lparr>trip_status := T_dispatch_pending\<rparr>)"
    using row by (simp add: d1(1) tget_tput)
  ultimately show ?thesis using assms(3) by (simp add: trip_active_def active_trip_statuses_def)
qed

lemma cancel_order_of_pending_trip_witness:
  "\<exists>c d1 x' d2. request_dispatch_clearance 1 5 None (order_fleet\<lparr>trips :=
       [(new_trip 5 1 2 3)\<lparr>trip_order := Some 4\<rparr>], clearances := []\<rparr>) = Inr (c, d1)
     \<and> cancel_trip_order 1 4 None d1 = Inr (x', d2) \<and> ord_status x' = O_cancelled"
proof -
  let ?d = "order_fleet\<lparr>trips := [(new_trip 5 1 2 3)\<lparr>trip_order := Some 4\<rparr>], clearances := []\<rparr>"
  have t: "require_trip 1 5 ?d = Inr ((new_trip 5 1 2 3)\<lparr>trip_order := Some 4\<rparr>)"
    by (simp add: require_trip_def owned_def new_trip_def)
  have x: "require_order 1 4 ?d = Inr sample_order"
    by (simp add: require_order_def owned_def order_fleet_def sample_order_def)
  obtain c d1 where r: "request_dispatch_clearance 1 5 None ?d = Inr (c, d1)"
    by (simp add: request_dispatch_clearance_def require_trip_def owned_def order_fleet_def
        sample_order_def sample_fleet_defs fresh_id_def put_trip_def set_order_status_def
        flush_trips_def constraint_defs Let_def)
  from cancel_order_of_pending_trip [OF t _ _ x _ r, of None] r show ?thesis
    by (auto simp: new_trip_def)
qed

end
