(* ===== verification/Cargo.thy ===== *)
theory Cargo
  imports Trip_Execution
begin

text \<open>
  Cargo documents and proofs of delivery (\<^verbatim>\<open>cargo/service.py\<close>): load permits, manifests,
  transport documents, the life of a delivery proof with its effect on the trip's billing status,
  and the document checklist of a trip.
\<close>

section \<open>Permits, manifests and transport documents\<close>

record permit_create =
  pc_contract :: "id option"
  pc_number :: "string option"
  pc_issuer_type :: string
  pc_district :: "string option"
  pc_leg_type :: string
  pc_load_state :: string
  pc_valid_until :: "timestamp option"
  pc_file :: "id option"

text \<open>A hazardous trip must declare its class first (LOAD-02).\<close>

definition create_load_permit :: "id \<Rightarrow> id \<Rightarrow> permit_create \<Rightarrow> id option \<Rightarrow> db \<Rightarrow> (load_permit \<times> db) res" where
  "create_load_permit tenant tid p actor d =
     rbind (require_trip tenant tid d) (\<lambda>t.
       if trip_is_hazmat t \<and> strip (or_else (trip_hazmat_class t) []) = []
       then Inl (ApiError ''hazmat_declaration_required'' 422)
       else
         (let (i, d1) = fresh_id d;
              x = \<lparr>per_id = i, per_tenant = tenant, per_contract = pc_contract p, per_trip = tid,
                per_number = pc_number p, per_issuer_type = pc_issuer_type p,
                per_district = pc_district p, per_leg_type = pc_leg_type p,
                per_load_state = pc_load_state p, per_valid_until = pc_valid_until p,
                per_file = pc_file p, per_status = ''pending''\<rparr>
          in Inr (x, record_audit_log tenant actor ''cargo.load_permit_created'' ''load_permit'' (Some i)
                       (d1\<lparr>permits := tadd x (permits d1)\<rparr>))))"

definition create_cargo_manifest :: "id \<Rightarrow> id \<Rightarrow> id option \<Rightarrow> string option \<Rightarrow> string option
    \<Rightarrow> string option \<Rightarrow> dec option \<Rightarrow> id option \<Rightarrow> id option \<Rightarrow> db \<Rightarrow> (manifest \<times> db) res" where
  "create_cargo_manifest tenant tid contract number desc cls weight file actor d =
     rbind (require_trip tenant tid d) (\<lambda>_.
       let (i, d1) = fresh_id d;
           x = \<lparr>man_id = i, man_tenant = tenant, man_contract = contract, man_trip = tid,
             man_number = number, man_description = desc, man_cargo_class = cls,
             man_gross_weight = map_option (column 2) weight, man_file = file,
             man_status = ''draft''\<rparr>
       in Inr (x, record_audit_log tenant actor ''cargo.manifest_created'' ''cargo_manifest'' (Some i)
                    (d1\<lparr>manifests := tadd x (manifests d1)\<rparr>)))"

definition add_transport_document :: "id \<Rightarrow> id \<Rightarrow> id option \<Rightarrow> string \<Rightarrow> string option \<Rightarrow> string option
    \<Rightarrow> (string \<times> json) list option \<Rightarrow> id option \<Rightarrow> string \<Rightarrow> id option \<Rightarrow> db \<Rightarrow> transport_doc \<times> db" where
  "add_transport_document tenant tid contract ty number district extra file st actor d =
     (let (i, d1) = fresh_id d;
          x = \<lparr>tdoc_id = i, tdoc_tenant = tenant, tdoc_contract = contract, tdoc_trip = tid,
            tdoc_type = ty, tdoc_number = number, tdoc_district = district, tdoc_extra = extra,
            tdoc_file = file, tdoc_status = st\<rparr>
      in (x, record_audit_log tenant actor ''cargo.transport_document_created'' ''transport_document''
               (Some i) (d1\<lparr>transport_docs := tadd x (transport_docs d1)\<rparr>)))"

definition create_transport_document :: "id \<Rightarrow> id \<Rightarrow> id option \<Rightarrow> string \<Rightarrow> string option
    \<Rightarrow> string option \<Rightarrow> id option \<Rightarrow> id option \<Rightarrow> db \<Rightarrow> (transport_doc \<times> db) res" where
  "create_transport_document tenant tid contract ty number district file actor d =
     rbind (require_trip tenant tid d) (\<lambda>_.
       Inr (add_transport_document tenant tid contract ty number district None file ''pending'' actor d))"

definition present :: "(string \<times> json option) list \<Rightarrow> (string \<times> json) list" where
  "present kvs = List.map_filter (\<lambda>(k, v). map_option (Pair k) v) kvs"

text \<open>
  The generated PDF is stored first; its row gives the file id, a fresh id here. A Guia de Remessa
  keeps an object of extra fields even when it is empty, a Carta de Porte drops it.
\<close>

definition create_guia_remessa :: "id \<Rightarrow> id \<Rightarrow> id option \<Rightarrow> string option \<Rightarrow> string option \<Rightarrow> int option
    \<Rightarrow> dec option \<Rightarrow> id option \<Rightarrow> db \<Rightarrow> (transport_doc \<times> db) res" where
  "create_guia_remessa tenant tid contract number desc packages weight actor d =
     rbind (require_trip tenant tid d) (\<lambda>_.
       let (f, d1) = fresh_id d
       in Inr (add_transport_document tenant tid contract ''guia_remessa'' number None
            (Some (present [(''cargo_description'', map_option JStr desc),
                (''package_count'', map_option JInt packages), (''gross_weight'', map_option JFloat weight)]))
            (Some f) ''issued'' actor d1))"

definition create_carta_porte :: "id \<Rightarrow> id \<Rightarrow> id option \<Rightarrow> string option \<Rightarrow> string option \<Rightarrow> string option
    \<Rightarrow> string option \<Rightarrow> id option \<Rightarrow> db \<Rightarrow> (transport_doc \<times> db) res" where
  "create_carta_porte tenant tid contract number sadc border country actor d =
     rbind (require_trip tenant tid d) (\<lambda>_.
       let (f, d1) = fresh_id d;
           extra = present [(''sadc_cpi_number'', map_option JStr sadc),
             (''border_post'', map_option JStr border), (''country_destination'', map_option JStr country)]
       in Inr (add_transport_document tenant tid contract ''carta_porte_internacional'' number None
            (if extra = [] then None else Some extra) (Some f) ''issued'' actor d1))"

definition create_dav :: "id \<Rightarrow> id \<Rightarrow> id option \<Rightarrow> string option \<Rightarrow> string \<Rightarrow> id option \<Rightarrow> db
    \<Rightarrow> (transport_doc \<times> db) res" where
  "create_dav tenant tid contract number code actor d =
     rbind (require_trip tenant tid d) (\<lambda>_.
       Inr (add_transport_document tenant tid contract ''dav'' number None
              (Some [(''authorization_code'', JStr code)]) None ''issued'' actor d))"

definition create_declaracao_carga_perigosa :: "id \<Rightarrow> id \<Rightarrow> id option \<Rightarrow> string option \<Rightarrow> string \<Rightarrow> string
    \<Rightarrow> string option \<Rightarrow> string option \<Rightarrow> id option \<Rightarrow> db \<Rightarrow> (transport_doc \<times> db) res" where
  "create_declaracao_carga_perigosa tenant tid contract number cls desc un code actor d =
     rbind (require_trip tenant tid d) (\<lambda>t.
       if \<not> trip_is_hazmat t then Inl (ApiError ''trip_not_hazmat'' 409)
       else Inr (add_transport_document tenant tid contract ''declaracao_carga_perigosa'' number None
              (Some ([(''hazmat_class'', JStr cls), (''hazmat_description'', JStr desc)]
                 @ (if truthy un then [(''un_number'', JStr (the un))] else [])
                 @ (if truthy code then [(''authorization_code'', JStr (the code))] else [])))
              None ''issued'' actor d))"

section \<open>Proofs of delivery\<close>

text \<open>\<^verbatim>\<open>_DELIVERY_PROOF_VALID_TRANSITIONS\<close>; a status outside the table allows nothing.\<close>

fun proof_transitions :: "proof_status \<Rightarrow> proof_status list" where
  "proof_transitions P_pending = [P_accepted, P_rejected]"
| "proof_transitions P_rejected = [P_disputed]"
| "proof_transitions P_disputed = [P_resolved]"
| "proof_transitions _ = []"

definition billable_proof_statuses :: "proof_status list" where
  "billable_proof_statuses = [P_validated, P_verified, P_accepted]"

definition put_proof :: "delivery_proof \<Rightarrow> db \<Rightarrow> db" where
  "put_proof p d = d\<lparr>proofs := tput prf_id p (proofs d)\<rparr>"

record proof_create =
  dc_contract :: "id option"
  dc_permit :: "id option"
  dc_document_number :: "string option"
  dc_receiver_name :: "string option"
  dc_receiver_contact :: "string option"
  dc_delivered_at :: timestamp
  dc_cargo_condition :: string
  dc_quantity :: "dec option"
  dc_validation_method :: "string option"
  dc_notes :: "string option"
  dc_file :: "id option"

definition create_delivery_proof ::
  "id \<Rightarrow> id \<Rightarrow> proof_create \<Rightarrow> id option \<Rightarrow> db \<Rightarrow> (delivery_proof \<times> trip \<times> db) res" where
  "create_delivery_proof tenant tid p actor d =
     rbind (require_trip tenant tid d) (\<lambda>t.
       let (i, d1) = fresh_id d;
           x = \<lparr>prf_id = i, prf_tenant = tenant, prf_contract = dc_contract p, prf_trip = tid,
             prf_permit = dc_permit p, prf_document_number = dc_document_number p,
             prf_receiver_name = dc_receiver_name p, prf_receiver_contact = dc_receiver_contact p,
             prf_delivered_at = dc_delivered_at p, prf_cargo_condition = dc_cargo_condition p,
             prf_quantity = map_option (column 2) (dc_quantity p),
             prf_validation_method = dc_validation_method p, prf_notes = dc_notes p,
             prf_file = dc_file p, prf_verified_by = None, prf_verified_at = None,
             prf_status = P_pending, prf_accepted_at = None, prf_accepted_by = None,
             prf_rejected_at = None, prf_rejected_by = None, prf_rejection_reason = None\<rparr>;
           t' = t\<lparr>trip_status := T_delivered, trip_actual_arrival := Some (dc_delivered_at p),
             trip_delivery_file := dc_file p, trip_cargo_status := Some (dc_cargo_condition p),
             trip_billing := B_pending_delivery_validation\<rparr>
       in rbind (flush_trips (put_trip t' (d1\<lparr>proofs := tadd x (proofs d1)\<rparr>))) (\<lambda>d2.
            Inr (x, t', record_audit_log tenant None ''trip.delivery_recorded'' ''trip'' (Some tid)
                  (record_audit_log tenant actor ''cargo.delivery_proof_created'' ''delivery_proof''
                     (Some i) d2))))"

text \<open>
  SM-03, with the commit of the router. The trip of the proof is written without a tenant check.
\<close>

definition accept_delivery_proof :: "id \<Rightarrow> id \<Rightarrow> id \<Rightarrow> timestamp \<Rightarrow> db \<Rightarrow> (delivery_proof \<times> db) res" where
  "accept_delivery_proof pid tenant user now d =
     (case owned prf_id prf_tenant tenant pid (proofs d) of
        None \<Rightarrow> Inl (ApiError ''not_found'' 404)
      | Some p \<Rightarrow>
          if P_accepted \<notin> set (proof_transitions (prf_status p))
          then Inl (ApiError ''invalid_state_transition'' 409)
          else
            (let p' = p\<lparr>prf_status := P_accepted, prf_accepted_at := Some now,
                        prf_accepted_by := Some user\<rparr>;
                 d1 = (case tget trip_id (prf_trip p) (trips d) of
                         None \<Rightarrow> d | Some t \<Rightarrow> put_trip (t\<lparr>trip_billing := B_billable\<rparr>) d)
             in Inr (p', record_audit_log tenant (Some user) ''delivery_proof.accepted''
                           ''delivery_proof'' (Some pid) (put_proof p' d1))))"

definition reject_delivery_proof ::
  "id \<Rightarrow> id \<Rightarrow> id \<Rightarrow> string \<Rightarrow> timestamp \<Rightarrow> db \<Rightarrow> (delivery_proof \<times> db) res" where
  "reject_delivery_proof pid tenant user reason now d =
     (case owned prf_id prf_tenant tenant pid (proofs d) of
        None \<Rightarrow> Inl (ApiError ''not_found'' 404)
      | Some p \<Rightarrow>
          if P_rejected \<notin> set (proof_transitions (prf_status p))
          then Inl (ApiError ''invalid_state_transition'' 409)
          else
            (let p' = p\<lparr>prf_status := P_rejected, prf_rejected_at := Some now,
                        prf_rejected_by := Some user, prf_rejection_reason := Some reason\<rparr>
             in rbind (ensure_exception tenant ''trip'' (prf_trip p) ''delivery_rejected'' ''high''
                         (Some user) None None (put_proof p' d)) (\<lambda>(_, d1).
                  Inr (p', record_audit_log tenant (Some user) ''delivery_proof.rejected''
                             ''delivery_proof'' (Some pid) d1))))"

definition require_trip_proof :: "id \<Rightarrow> id \<Rightarrow> id \<Rightarrow> db \<Rightarrow> delivery_proof res" where
  "require_trip_proof tenant tid pid d =
     (case owned prf_id prf_tenant tenant pid (proofs d) of
        None \<Rightarrow> Inl (ApiError ''delivery_proof_not_found'' 404)
      | Some p \<Rightarrow> if prf_trip p = tid then Inr p else Inl (ApiError ''delivery_proof_not_found'' 404))"

text \<open>What a validated proof makes of its trip: billable under a contract, else uncontracted.\<close>

definition billing_ready :: "timestamp \<Rightarrow> trip \<Rightarrow> trip" where
  "billing_ready now t =
     (if trip_contract t \<noteq> None
      then t\<lparr>trip_billing := B_billable, trip_billable_at := Some now\<rparr>
      else t\<lparr>trip_billing := B_uncontracted, trip_billable_at := None\<rparr>)"

definition validate_delivery_proof :: "id \<Rightarrow> id \<Rightarrow> id \<Rightarrow> id option \<Rightarrow> string \<Rightarrow> string option
    \<Rightarrow> timestamp \<Rightarrow> db \<Rightarrow> (delivery_proof \<times> trip \<times> db) res" where
  "validate_delivery_proof tenant tid pid user meth notes now d =
     rbind (require_trip tenant tid d) (\<lambda>t.
     rbind (require_trip_proof tenant tid pid d) (\<lambda>p.
       if prf_status p \<in> {P_validated, P_verified} then Inr (p, t, d)
       else if prf_status p = P_disputed then Inl (ApiError ''delivery_proof_disputed'' 409)
       else
         (let p' = p\<lparr>prf_status := P_validated, prf_verified_by := user,
                     prf_verified_at := Some now, prf_validation_method := Some meth,
                     prf_notes := or_str notes (prf_notes p)\<rparr>;
              t' = billing_ready now t
          in Inr (p', t', record_audit_log tenant user ''trip.billing_readiness_updated'' ''trip'' (Some tid)
               (record_audit_log tenant user ''cargo.delivery_proof_validated'' ''delivery_proof''
                  (Some pid) (put_trip t' (put_proof p' d)))))))"

definition dispute_delivery_proof :: "id \<Rightarrow> id \<Rightarrow> id \<Rightarrow> id option \<Rightarrow> string \<Rightarrow> string \<Rightarrow> string option
    \<Rightarrow> db \<Rightarrow> (delivery_proof \<times> trip \<times> db) res" where
  "dispute_delivery_proof tenant tid pid user reason kind notes d =
     rbind (require_trip tenant tid d) (\<lambda>t.
     rbind (require_trip_proof tenant tid pid d) (\<lambda>p.
       if trip_billing t \<in> {B_billing_draft, B_billed}
       then Inl (ApiError ''billing_already_started'' 409)
       else if prf_status p = P_disputed then Inr (p, t, d)
       else
         (let p' = p\<lparr>prf_status := P_disputed, prf_validation_method := Some kind,
                     prf_notes := or_str notes (Some reason)\<rparr>;
              t' = t\<lparr>trip_billing := B_delivery_disputed, trip_billable_at := None\<rparr>
          in rbind (ensure_exception tenant ''delivery_proof'' pid ''delivery_proof_disputed'' ''high''
                      user (Some ''delivery_proof'') (Some pid)
                      (record_audit_log tenant user ''trip.delivery_disputed'' ''trip'' (Some tid)
                        (record_audit_log tenant user ''cargo.delivery_proof_disputed''
                           ''delivery_proof'' (Some pid) (put_trip t' (put_proof p' d)))))
               (\<lambda>(_, d1). Inr (p', t', d1)))))"

definition resolve_delivery_proof_dispute :: "id \<Rightarrow> id \<Rightarrow> id \<Rightarrow> id option \<Rightarrow> string \<Rightarrow> string \<Rightarrow> string
    \<Rightarrow> timestamp \<Rightarrow> db \<Rightarrow> (delivery_proof \<times> trip \<times> db) res" where
  "resolve_delivery_proof_dispute tenant tid pid user outcome notes meth now d =
     (if outcome \<notin> {''validated'', ''rejected''} then Inl (ApiError ''invalid_dispute_outcome'' 422)
      else rbind (require_trip tenant tid d) (\<lambda>t.
      rbind (require_trip_proof tenant tid pid d) (\<lambda>p.
        if prf_status p \<noteq> P_disputed then Inl (ApiError ''delivery_proof_not_disputed'' 409)
        else
          (let ok = (outcome = ''validated'');
               p' = p\<lparr>prf_status := if ok then P_validated else P_rejected,
                      prf_validation_method := Some meth,
                      prf_verified_by := if ok then user else None,
                      prf_verified_at := if ok then Some now else None, prf_notes := Some notes\<rparr>;
               t' = (if ok then billing_ready now t
                     else t\<lparr>trip_billing := B_pending_delivery_proof, trip_billable_at := None\<rparr>);
               d1 = record_audit_log tenant user ''trip.delivery_dispute_resolved'' ''trip'' (Some tid)
                      (record_audit_log tenant user ''cargo.delivery_dispute_resolved''
                         ''delivery_proof'' (Some pid) (put_trip t' (put_proof p' d)))
           in Inr (p', t', resolve_active_exceptions tenant ''delivery_proof'' pid
                             ''delivery_proof_disputed'' notes user now d1)))))"

definition patch_delivery_proof :: "id \<Rightarrow> id \<Rightarrow> string option \<Rightarrow> string option \<Rightarrow> string option \<Rightarrow> db
    \<Rightarrow> (delivery_proof \<times> db) res" where
  "patch_delivery_proof tenant pid notes name contact d =
     rbind (of_opt (ApiError ''delivery_proof_not_found'' 404) (tget prf_id pid (proofs d))) (\<lambda>p.
     rbind (require_trip tenant (prf_trip p) d) (\<lambda>_.
       let keep = (\<lambda>new old. case new of None \<Rightarrow> old | Some x \<Rightarrow> Some x);
           p' = p\<lparr>prf_notes := keep notes (prf_notes p),
                  prf_receiver_name := keep name (prf_receiver_name p),
                  prf_receiver_contact := keep contact (prf_receiver_contact p)\<rparr>
       in Inr (p', record_audit_log tenant None ''delivery_proof.patched'' ''delivery_proof'' (Some pid)
                     (put_proof p' d))))"

section \<open>The document checklist\<close>

definition required_doc_types :: "trip \<Rightarrow> string list" where
  "required_doc_types t =
     [''guia_remessa'', ''load_permit'', ''cargo_manifest'', ''dav'']
     @ (if trip_is_international t then [''carta_porte_internacional''] else [])
     @ (if trip_is_hazmat t then [''declaracao_carga_perigosa''] else [])"

definition present_types :: "id \<Rightarrow> id \<Rightarrow> db \<Rightarrow> string list" where
  "present_types tenant tid d =
     map tdoc_type (filter (\<lambda>x. tdoc_tenant x = tenant \<and> tdoc_trip x = tid) (transport_docs d))
     @ (if list_ex (\<lambda>x. per_tenant x = tenant \<and> per_trip x = tid) (permits d) then [''load_permit''] else [])
     @ (if list_ex (\<lambda>x. man_tenant x = tenant \<and> man_trip x = tid) (manifests d) then [''cargo_manifest''] else [])"

record checklist =
  chk_complete :: bool
  chk_items :: "(string \<times> bool) list"

definition get_document_checklist :: "id \<Rightarrow> id \<Rightarrow> db \<Rightarrow> checklist res" where
  "get_document_checklist tenant tid d =
     rbind (require_trip tenant tid d) (\<lambda>t.
       let items = map (\<lambda>ty. (ty, ty \<in> set (present_types tenant tid d))) (sort (required_doc_types t))
       in Inr \<lparr>chk_complete = list_all snd items, chk_items = items\<rparr>)"

section \<open>The guarded life of a proof\<close>

interpretation proof_table: transition_table proof_transitions P_pending
    "\<lambda>s. s \<in> {P_accepted, P_resolved, P_validated, P_verified}"
proof
  show "proof_transitions s = []" if "s \<in> {P_accepted, P_resolved, P_validated, P_verified}" for s
    using that by auto
  show "P_pending \<notin> set (proof_transitions s)" for s by (cases s) auto
qed

lemma accepted_from: "P_accepted \<in> set (proof_transitions s) \<longleftrightarrow> s = P_pending"
  by (cases s) auto

lemma rejected_from: "P_rejected \<in> set (proof_transitions s) \<longleftrightarrow> s = P_pending"
  by (cases s) auto

lemma proofs_put_trip [simp]: "proofs (put_trip t d) = proofs d"
  by (simp add: put_trip_def)

lemma trips_put_proof [simp]: "trips (put_proof p d) = trips d"
  by (simp add: put_proof_def)

lemma proofs_put_proof [simp]: "proofs (put_proof p d) = tput prf_id p (proofs d)"
  by (simp add: put_proof_def)

lemma owned_put_proof:
  assumes "owned prf_id prf_tenant tn i (proofs d) = Some p" and "prf_id p' = i" and "prf_tenant p' = tn"
  shows "owned prf_id prf_tenant tn i (tput prf_id p' (proofs d)) = Some p'"
  using assms proof_store.read_your_write [of p' "proofs d"] by (auto simp: owned_Some)

definition make_billable :: "id \<Rightarrow> trip list \<Rightarrow> trip list" where
  "make_billable i ts = (case tget trip_id i ts of
     None \<Rightarrow> ts | Some t \<Rightarrow> tput trip_id (t\<lparr>trip_billing := B_billable\<rparr>) ts)"

lemma accept_Inr:
  assumes "accept_delivery_proof i tn u now d = Inr (p', d')"
  obtains p where "owned prf_id prf_tenant tn i (proofs d) = Some p" "prf_status p = P_pending"
    "p' = p\<lparr>prf_status := P_accepted, prf_accepted_at := Some now, prf_accepted_by := Some u\<rparr>"
    "proofs d' = tput prf_id p' (proofs d)" "trips d' = make_billable (prf_trip p) (trips d)"
proof -
  from assms obtain p where p: "owned prf_id prf_tenant tn i (proofs d) = Some p" "prf_status p = P_pending"
    by (auto simp: accept_delivery_proof_def Let_def accepted_from split: option.splits if_splits)
  with assms show thesis
    by (intro that [OF p])
      (auto simp: accept_delivery_proof_def Let_def make_billable_def split: option.splits)
qed

lemma reject_Inr:
  assumes "reject_delivery_proof i tn u reason now d = Inr (p', d')"
  obtains p where "owned prf_id prf_tenant tn i (proofs d) = Some p" "prf_status p = P_pending"
    "p' = p\<lparr>prf_status := P_rejected, prf_rejected_at := Some now, prf_rejected_by := Some u,
        prf_rejection_reason := Some reason\<rparr>"
    "proofs d' = tput prf_id p' (proofs d)" "trips d' = trips d"
proof -
  from assms obtain p x d1 where p: "owned prf_id prf_tenant tn i (proofs d) = Some p" "prf_status p = P_pending"
    "p' = p\<lparr>prf_status := P_rejected, prf_rejected_at := Some now, prf_rejected_by := Some u,
        prf_rejection_reason := Some reason\<rparr>"
    and x: "ensure_exception tn ''trip'' (prf_trip p) ''delivery_rejected'' ''high'' (Some u) None None
       (put_proof p' d) = Inr (x, d1)"
    and d': "d' = record_audit_log tn (Some u) ''delivery_proof.rejected'' ''delivery_proof'' (Some i) d1"
    by (auto simp: reject_delivery_proof_def Let_def rejected_from rbind_Inr
        split: option.splits if_splits)
  from only_oversight_frame [OF ensure_exception_only [OF x]] d'
  have "proofs d' = tput prf_id p' (proofs d)" "trips d' = trips d" by simp_all
  with p show thesis by (rule that)
qed

text \<open>
  The owner decides a pending proof once. Accepting stamps it, makes its trip billable and
  leaves every other trip alone; from then on neither accepting nor rejecting applies, and the
  table leads nowhere. Rejecting leaves the trips as they are, and a rejected proof can only be
  disputed and then resolved.
\<close>

theorem proof_decided_once:
  assumes "accept_delivery_proof i tn u now d = Inr (p', d')"
  shows "prf_status p' = P_accepted \<and> prf_accepted_by p' = Some u
    \<and> owned prf_id prf_tenant tn i (proofs d') = Some p'
    \<and> accept_delivery_proof i tn u2 now2 d' = Inl (ApiError ''invalid_state_transition'' 409)
    \<and> reject_delivery_proof i tn u2 reason now2 d' = Inl (ApiError ''invalid_state_transition'' 409)
    \<and> {s. path proof_transitions (prf_status p') s} = {P_accepted}
    \<and> map_option trip_billing (tget trip_id (prf_trip p') (trips d'))
        = map_option (\<lambda>_. B_billable) (tget trip_id (prf_trip p') (trips d))
    \<and> (\<forall>j. j \<noteq> prf_trip p' \<longrightarrow> tget trip_id j (trips d') = tget trip_id j (trips d))"
proof -
  from assms obtain p where p: "owned prf_id prf_tenant tn i (proofs d) = Some p" "prf_status p = P_pending"
    and p': "p' = p\<lparr>prf_status := P_accepted, prf_accepted_at := Some now, prf_accepted_by := Some u\<rparr>"
    and d': "proofs d' = tput prf_id p' (proofs d)" "trips d' = make_billable (prf_trip p) (trips d)"
    by (rule accept_Inr)
  have id: "prf_id p' = i" "prf_tenant p' = tn"
    using p(1) owned_key [OF p(1)] by (simp_all add: p' owned_Some)
  have own: "owned prf_id prf_tenant tn i (proofs d') = Some p'"
    unfolding d' by (rule owned_put_proof [OF p(1) id])
  have st: "prf_status p' = P_accepted" by (simp add: p')
  have "path proof_transitions P_accepted s \<longleftrightarrow> s = P_accepted" for s
    using proof_table.terminal_path [of P_accepted s] path_refl [of proof_transitions P_accepted] by auto
  moreover have "accept_delivery_proof i tn u2 now2 d' = Inl (ApiError ''invalid_state_transition'' 409)"
    "reject_delivery_proof i tn u2 reason now2 d' = Inl (ApiError ''invalid_state_transition'' 409)"
    using own st by (simp_all add: accept_delivery_proof_def reject_delivery_proof_def)
  moreover have "map_option trip_billing (tget trip_id (prf_trip p') (trips d'))
        = map_option (\<lambda>_. B_billable) (tget trip_id (prf_trip p') (trips d))"
    "j \<noteq> prf_trip p' \<Longrightarrow> tget trip_id j (trips d') = tget trip_id j (trips d)" for j
    unfolding d'(2) p' make_billable_def by (auto split: option.splits simp: tget_tput dest: tget_key)
  ultimately show ?thesis using own st by (auto simp: p')
qed

definition sample_proof :: delivery_proof where
  "sample_proof = \<lparr>prf_id = 30, prf_tenant = 2, prf_contract = None, prf_trip = 5, prf_permit = None,
     prf_document_number = None, prf_receiver_name = Some ''Ana'', prf_receiver_contact = None,
     prf_delivered_at = 50, prf_cargo_condition = ''good'', prf_quantity = None,
     prf_validation_method = None, prf_notes = None, prf_file = None, prf_verified_by = None,
     prf_verified_at = None, prf_status = P_pending, prf_accepted_at = None, prf_accepted_by = None,
     prf_rejected_at = None, prf_rejected_by = None, prf_rejection_reason = None\<rparr>"

definition delivered_trip :: trip where
  "delivered_trip = (new_trip 5 2 3 4)\<lparr>trip_status := T_delivered, trip_contract := Some 6,
     trip_billing := B_pending_delivery_validation\<rparr>"

definition cargo_db :: db where
  "cargo_db = empty_db\<lparr>db_next := 100, trips := [delivered_trip], proofs := [sample_proof]\<rparr>"

lemmas cargo_sample = cargo_db_def sample_proof_def delivered_trip_def new_trip_def empty_db_def

lemma proof_decided_once_witness:
  "\<exists>p d. accept_delivery_proof 30 2 9 60 cargo_db = Inr (p, d) \<and> prf_status p = P_accepted
     \<and> map_option trip_billing (tget trip_id 5 (trips d)) = Some B_billable"
proof -
  obtain p d where r: "accept_delivery_proof 30 2 9 60 cargo_db = Inr (p, d)"
    by (simp add: accept_delivery_proof_def owned_def cargo_sample Let_def)
  then have "prf_trip p = 5" by (rule accept_Inr) (auto simp: owned_def cargo_sample split: if_splits)
  with proof_decided_once [OF r] r show ?thesis by (simp add: cargo_sample)
qed

section \<open>Disputes\<close>

lemma billing_ready_simps [simp]:
  "trip_id (billing_ready now t) = trip_id t"
  "trip_tenant (billing_ready now t) = trip_tenant t"
  "trip_status (billing_ready now t) = trip_status t"
  "trip_contract (billing_ready now t) = trip_contract t"
  "trip_billing (billing_ready now t) = (if trip_contract t = None then B_uncontracted else B_billable)"
  by (simp_all add: billing_ready_def)

lemma require_trip_proof_Inr:
  "require_trip_proof tn tid i d = Inr p \<longleftrightarrow> owned prf_id prf_tenant tn i (proofs d) = Some p \<and> prf_trip p = tid"
  by (auto simp: require_trip_proof_def split: option.splits)

lemma rbind_pair: "rbind m (\<lambda>(_, d). Inr (p, t, d)) = Inr (p', t', d')
    \<longleftrightarrow> (\<exists>x. m = Inr (x, d')) \<and> p' = p \<and> t' = t"
  by (cases m) auto

lemma dispute_Inr:
  assumes "dispute_delivery_proof tn tid i u reason kind notes d = Inr (p', t', d')"
  obtains p t where "require_trip tn tid d = Inr t" "require_trip_proof tn tid i d = Inr p"
    "trip_billing t \<notin> {B_billing_draft, B_billed}"
    "prf_status p = P_disputed \<and> p' = p \<and> t' = t \<and> d' = d
     \<or> prf_status p \<noteq> P_disputed
       \<and> p' = p\<lparr>prf_status := P_disputed, prf_validation_method := Some kind,
                     prf_notes := or_str notes (Some reason)\<rparr>
       \<and> t' = t\<lparr>trip_billing := B_delivery_disputed, trip_billable_at := None\<rparr>
       \<and> proofs d' = tput prf_id p' (proofs d) \<and> trips d' = tput trip_id t' (trips d)
       \<and> (exceptions_ok d \<longrightarrow> exceptions_ok d')"
proof -
  from assms obtain t p where t: "require_trip tn tid d = Inr t"
    and p: "require_trip_proof tn tid i d = Inr p"
    by (auto simp only: dispute_delivery_proof_def rbind_Inr)
  with assms have b: "trip_billing t \<notin> {B_billing_draft, B_billed}"
    by (auto simp: dispute_delivery_proof_def)
  then have "(trip_billing t \<in> {B_billing_draft, B_billed}) = False" by simp
  note r = assms [unfolded dispute_delivery_proof_def t p rbind_simps this if_False]
  show thesis
  proof (cases "prf_status p = P_disputed")
    case True
    with r show thesis by (intro that [OF t p b]) simp
  next
    case False
    define e where "e = record_audit_log tn u ''trip.delivery_disputed'' ''trip'' (Some tid)
        (record_audit_log tn u ''cargo.delivery_proof_disputed'' ''delivery_proof'' (Some i)
          (put_trip (t\<lparr>trip_billing := B_delivery_disputed, trip_billable_at := None\<rparr>)
            (put_proof (p\<lparr>prf_status := P_disputed, prf_validation_method := Some kind,
                     prf_notes := or_str notes (Some reason)\<rparr>) d)))"
    from False have "(prf_status p = P_disputed) = False" by simp
    with r have "rbind (ensure_exception tn ''delivery_proof'' i ''delivery_proof_disputed''
          ''high'' u (Some ''delivery_proof'') (Some i) e) (\<lambda>(_, d1).
            Inr (p\<lparr>prf_status := P_disputed, prf_validation_method := Some kind,
                     prf_notes := or_str notes (Some reason)\<rparr>,
                 t\<lparr>trip_billing := B_delivery_disputed, trip_billable_at := None\<rparr>, d1))
        = Inr (p', t', d')"
      by (simp only: if_False Let_def e_def)
    then obtain x where x: "ensure_exception tn ''delivery_proof'' i ''delivery_proof_disputed''
        ''high'' u (Some ''delivery_proof'') (Some i) e = Inr (x, d')"
      and p': "p' = p\<lparr>prf_status := P_disputed, prf_validation_method := Some kind,
                     prf_notes := or_str notes (Some reason)\<rparr>"
        "t' = t\<lparr>trip_billing := B_delivery_disputed, trip_billable_at := None\<rparr>"
      unfolding rbind_pair by blast
    have "proofs e = tput prf_id p' (proofs d)" "trips e = tput trip_id t' (trips d)"
      by (simp_all add: e_def p' put_trip_def put_proof_def)
    moreover have "exceptions_ok e = exceptions_ok d"
      by (simp add: e_def exceptions_ok_def put_trip_def put_proof_def)
    moreover have "proofs d' = proofs e" "trips d' = trips e"
      by (simp_all only: only_oversight_frame [OF ensure_exception_only [OF x]])
    ultimately show thesis
      using False p' ensure_exception_ok [OF x] by (intro that [OF t p b]) (simp only: simp_thms, blast)
  qed
qed

lemma resolve_dispute_Inr:
  assumes "require_trip tn tid d = Inr t" and "require_trip_proof tn tid i d = Inr p"
    and "prf_status p = P_disputed"
  obtains p' d' where "resolve_delivery_proof_dispute tn tid i u ''validated'' why meth now d
      = Inr (p', billing_ready now t, d')" "prf_status p' = P_validated"
    "trips d' = tput trip_id (billing_ready now t) (trips d)" "proofs d' = tput prf_id p' (proofs d)"
    "exceptions_ok d \<longrightarrow> (\<forall>y\<in>set (exceptions d').
       \<not> exc_matches tn ''delivery_proof'' i ''delivery_proof_disputed'' None None y)"
proof -
  define p' where "p' = p\<lparr>prf_status := P_validated, prf_validation_method := Some meth,
      prf_verified_by := u, prf_verified_at := Some now, prf_notes := Some why\<rparr>"
  define e where "e = record_audit_log tn u ''trip.delivery_dispute_resolved'' ''trip'' (Some tid)
      (record_audit_log tn u ''cargo.delivery_dispute_resolved'' ''delivery_proof'' (Some i)
        (put_trip (billing_ready now t) (put_proof p' d)))"
  define d' where "d' = resolve_active_exceptions tn ''delivery_proof'' i ''delivery_proof_disputed''
      why u now e"
  have "exceptions_ok e = exceptions_ok d"
    by (simp add: e_def exceptions_ok_def put_trip_def put_proof_def)
  then have clr: "exceptions_ok d \<Longrightarrow> y \<in> set (exceptions d')
       \<Longrightarrow> \<not> exc_matches tn ''delivery_proof'' i ''delivery_proof_disputed'' None None y" for y
    using resolve_active_clears [of e] unfolding d'_def by simp
  have "only_oversight e d'" unfolding d'_def by (rule resolve_active_only)
  note f = only_oversight_frame [OF this]
  show thesis
  proof (rule that)
    show "exceptions_ok d \<longrightarrow> (\<forall>y\<in>set (exceptions d').
       \<not> exc_matches tn ''delivery_proof'' i ''delivery_proof_disputed'' None None y)"
      using clr by blast
    show "resolve_delivery_proof_dispute tn tid i u ''validated'' why meth now d
        = Inr (p', billing_ready now t, d')"
      using assms by (simp add: resolve_delivery_proof_dispute_def p'_def d'_def e_def Let_def)
    show "trips d' = tput trip_id (billing_ready now t) (trips d)" "proofs d' = tput prf_id p' (proofs d)"
      by (simp_all add: f e_def put_trip_def put_proof_def)
  qed (simp_all add: p'_def)
qed

text \<open>
  A dispute is possible until billing has started. While it lasts the trip is not billable
  and its proof cannot be validated; resolving it in favour of the carrier always succeeds,
  validates the proof, makes the trip billable exactly when it has a contract, and leaves no
  active dispute exception.
\<close>

theorem dispute_lifecycle:
  assumes "exceptions_ok d" and "dispute_delivery_proof tn tid i u reason kind notes d = Inr (p1, t1, d1)"
  shows "trip_billing t1 \<notin> {B_billing_draft, B_billed} \<and> prf_status p1 = P_disputed
    \<and> (d1 = d \<or> trip_billing t1 = B_delivery_disputed)
    \<and> validate_delivery_proof tn tid i u2 meth notes2 now d1 = Inl (ApiError ''delivery_proof_disputed'' 409)
    \<and> (\<exists>p2 t2 d2. resolve_delivery_proof_dispute tn tid i u2 ''validated'' why meth now d1 = Inr (p2, t2, d2)
         \<and> prf_status p2 = P_validated \<and> owned prf_id prf_tenant tn i (proofs d2) \<noteq> None
         \<and> tget trip_id tid (trips d2) = Some t2 \<and> trip_status t2 = trip_status t1
         \<and> (trip_billing t2 = B_billable \<longleftrightarrow> trip_contract t1 \<noteq> None)
         \<and> (\<forall>y\<in>set (exceptions d2).
               \<not> exc_matches tn ''delivery_proof'' i ''delivery_proof_disputed'' None None y))"
proof -
  from assms(2) obtain p t where t: "require_trip tn tid d = Inr t"
    and p: "require_trip_proof tn tid i d = Inr p" and b: "trip_billing t \<notin> {B_billing_draft, B_billed}"
    and step: "prf_status p = P_disputed \<and> p1 = p \<and> t1 = t \<and> d1 = d
     \<or> prf_status p \<noteq> P_disputed
       \<and> p1 = p\<lparr>prf_status := P_disputed, prf_validation_method := Some kind,
                     prf_notes := or_str notes (Some reason)\<rparr>
       \<and> t1 = t\<lparr>trip_billing := B_delivery_disputed, trip_billable_at := None\<rparr>
       \<and> proofs d1 = tput prf_id p1 (proofs d) \<and> trips d1 = tput trip_id t1 (trips d)
       \<and> (exceptions_ok d \<longrightarrow> exceptions_ok d1)"
    by (rule dispute_Inr)
  have own: "owned prf_id prf_tenant tn i (proofs d) = Some p" "prf_trip p = tid"
    using p by (simp_all add: require_trip_proof_Inr)
  have ids: "prf_id p = i" "prf_tenant p = tn" using owned_key [OF own(1)] own(1) by (simp_all add: owned_Some)
  have st: "prf_status p1 = P_disputed" and ok: "exceptions_ok d1" using step assms(1) by auto
  have t1: "require_trip tn tid d1 = Inr t1"
    using step t require_trip_row [OF t] by (auto simp: require_trip_Inr tget_tput)
  have p1: "require_trip_proof tn tid i d1 = Inr p1"
    using step p own ids owned_put_proof [OF own(1), of p1] by (auto simp: require_trip_proof_Inr)
  obtain p2 d2 where res: "resolve_delivery_proof_dispute tn tid i u2 ''validated'' why meth now d1
      = Inr (p2, billing_ready now t1, d2)" "prf_status p2 = P_validated"
    "trips d2 = tput trip_id (billing_ready now t1) (trips d1)" "proofs d2 = tput prf_id p2 (proofs d1)"
    and clr: "exceptions_ok d1 \<longrightarrow> (\<forall>y\<in>set (exceptions d2).
       \<not> exc_matches tn ''delivery_proof'' i ''delivery_proof_disputed'' None None y)"
    by (rule resolve_dispute_Inr [OF t1 p1 st, where u = u2 and why = why and meth = meth and now = now])
  have "validate_delivery_proof tn tid i u2 meth notes2 now d1 = Inl (ApiError ''delivery_proof_disputed'' 409)"
    using t1 p1 st by (simp add: validate_delivery_proof_def)
  moreover have "tget trip_id tid (trips d2) = Some (billing_ready now t1)"
    using t1 require_trip_row [OF t1] by (simp add: res(3) require_trip_Inr tget_tput)
  moreover have "p2 = p1\<lparr>prf_status := P_validated, prf_validation_method := Some meth,
      prf_verified_by := u2, prf_verified_at := Some now, prf_notes := Some why\<rparr>"
    using res(1) t1 p1 st by (simp add: resolve_delivery_proof_dispute_def Let_def)
  then have "owned prf_id prf_tenant tn i (proofs d2) = Some p2"
    using p1 owned_put_proof [of tn i d1 p1 p2] owned_key [of prf_id prf_tenant tn i "proofs d1" p1]
    by (simp add: res(4) require_trip_proof_Inr owned_Some)
  moreover have "trip_billing t1 \<notin> {B_billing_draft, B_billed}"
    "d1 = d \<or> trip_billing t1 = B_delivery_disputed" using step b by auto
  ultimately show ?thesis using st res(1,2) clr [THEN mp, OF ok]
    by (intro conjI exI [of _ p2] exI [of _ "billing_ready now t1"] exI [of _ d2]) simp_all
qed

lemma dispute_lifecycle_witness:
  "\<exists>p1 t1 d1. dispute_delivery_proof 2 5 30 None ''broken seal'' ''call'' None cargo_db = Inr (p1, t1, d1)
     \<and> prf_status p1 = P_disputed
     \<and> validate_delivery_proof 2 5 30 None ''otp'' None 70 d1 = Inl (ApiError ''delivery_proof_disputed'' 409)"
proof -
  have ok: "exceptions_ok cargo_db"
    by (simp add: exceptions_ok_def cargo_sample keys_unique_def below_def)
  obtain p1 t1 d1 where r: "dispute_delivery_proof 2 5 30 None ''broken seal'' ''call'' None cargo_db = Inr (p1, t1, d1)"
    by (simp add: dispute_delivery_proof_def require_trip_def require_trip_proof_def owned_def cargo_sample
        ensure_exception_def severities_def put_trip_def put_proof_def Let_def fresh_id_def)
  with dispute_lifecycle [OF ok r] show ?thesis by blast
qed

section \<open>The checklist and a repeated delivery\<close>

text \<open>
  The checklist of a trip lists its required types once each, in order, and each item tells
  whether a document of that type is on file; it is complete exactly when none is missing. An
  international trip needs a Carta de Porte, a hazardous one the declaration, in addition.
\<close>

theorem document_checklist_exact:
  assumes "get_document_checklist tn tid d = Inr c"
  shows "\<exists>t. require_trip tn tid d = Inr t \<and> sorted_wrt (<) (map fst (chk_items c))
    \<and> set (map fst (chk_items c)) = {''guia_remessa'', ''load_permit'', ''cargo_manifest'', ''dav''}
        \<union> {x. x = ''carta_porte_internacional'' \<and> trip_is_international t}
        \<union> {x. x = ''declaracao_carga_perigosa'' \<and> trip_is_hazmat t}
    \<and> (\<forall>(ty, ok)\<in>set (chk_items c). ok \<longleftrightarrow>
          (\<exists>x\<in>set (transport_docs d). tdoc_tenant x = tn \<and> tdoc_trip x = tid \<and> tdoc_type x = ty)
          \<or> ty = ''load_permit'' \<and> (\<exists>x\<in>set (permits d). per_tenant x = tn \<and> per_trip x = tid)
          \<or> ty = ''cargo_manifest'' \<and> (\<exists>x\<in>set (manifests d). man_tenant x = tn \<and> man_trip x = tid))
    \<and> (chk_complete c \<longleftrightarrow> (\<forall>(ty, ok)\<in>set (chk_items c). ok))"
proof -
  from assms obtain t where t: "require_trip tn tid d = Inr t"
    and c: "c = \<lparr>chk_complete = list_all snd (chk_items c), chk_items = chk_items c\<rparr>"
    "chk_items c = map (\<lambda>ty. (ty, ty \<in> set (present_types tn tid d))) (sort (required_doc_types t))"
    by (auto simp: get_document_checklist_def rbind_Inr Let_def)
  have f: "map fst (chk_items c) = sort (required_doc_types t)"
    by (simp add: c(2) comp_def)
  have "distinct (required_doc_types t)" by (simp add: required_doc_types_def)
  then have s: "sorted_wrt (<) (map fst (chk_items c))"
    unfolding f by (simp add: strict_sorted_iff)
  have "chk_complete c = list_all snd (chk_items c)" by (subst c(1)) simp
  then have "chk_complete c \<longleftrightarrow> (\<forall>(ty, ok)\<in>set (chk_items c). ok)"
    by (auto simp: list_all_iff)
  moreover have "set (map fst (chk_items c)) = {''guia_remessa'', ''load_permit'', ''cargo_manifest'', ''dav''}
        \<union> {x. x = ''carta_porte_internacional'' \<and> trip_is_international t}
        \<union> {x. x = ''declaracao_carga_perigosa'' \<and> trip_is_hazmat t}"
    unfolding f by (auto simp: required_doc_types_def)
  moreover have "\<forall>(ty, ok)\<in>set (chk_items c). ok \<longleftrightarrow> ty \<in> set (present_types tn tid d)"
    by (auto simp: c(2))
  then have "\<forall>(ty, ok)\<in>set (chk_items c). ok \<longleftrightarrow>
          (\<exists>x\<in>set (transport_docs d). tdoc_tenant x = tn \<and> tdoc_trip x = tid \<and> tdoc_type x = ty)
          \<or> ty = ''load_permit'' \<and> (\<exists>x\<in>set (permits d). per_tenant x = tn \<and> per_trip x = tid)
          \<or> ty = ''cargo_manifest'' \<and> (\<exists>x\<in>set (manifests d). man_tenant x = tn \<and> man_trip x = tid)"
    by (auto simp: present_types_def list_ex_iff)
  ultimately show ?thesis using t s by blast
qed

lemma document_checklist_exact_witness:
  "\<exists>c. get_document_checklist 2 5 cargo_db = Inr c \<and> sorted_wrt (<) (map fst (chk_items c))"
proof -
  obtain c where r: "get_document_checklist 2 5 cargo_db = Inr c"
    by (simp add: get_document_checklist_def require_trip_def owned_def cargo_sample Let_def)
  with document_checklist_exact [OF r] show ?thesis by blast
qed

text \<open>
  Recording a delivery has no status guard: a trip that was closed and billed is delivered
  again and waits for validation, its billing state lost.
\<close>

theorem delivery_reopens_billed_trip:
  "map_option (\<lambda>t. (trip_status t, trip_billing t)) (case create_delivery_proof 2 5
       \<lparr>dc_contract = None, dc_permit = None, dc_document_number = None, dc_receiver_name = None,
        dc_receiver_contact = None, dc_delivered_at = 90, dc_cargo_condition = ''good'',
        dc_quantity = None, dc_validation_method = None, dc_notes = None, dc_file = None\<rparr> None
       (cargo_db\<lparr>trips := [delivered_trip\<lparr>trip_status := T_closed, trip_billing := B_billed\<rparr>]\<rparr>) of
     Inr (_, _, d) \<Rightarrow> tget trip_id 5 (trips d) | Inl _ \<Rightarrow> None)
   = Some (T_delivered, B_pending_delivery_validation)"
  by (simp add: create_delivery_proof_def require_trip_def owned_def cargo_sample flush_trips_def
      constraint_defs put_trip_def fresh_id_def Let_def trip_active_def active_trip_statuses_def)

end
