(* ===== verification/Accounting.thy ===== *)
theory Accounting
  imports Policies "HOL-Library.Char_ord" "HOL-Library.List_Lexorder"
begin

text \<open>
  The general ledger (\<^verbatim>\<open>accounting/services.py\<close>, \<^verbatim>\<open>accounting/router.py\<close>): journal entries in
  double entry, the manual entry endpoint, the posting of a supplier invoice, the trial balance
  and the profit and loss statement. A \<^verbatim>\<open>HTTPException\<close> is \<open>ApiError ''http_exception''\<close>.
\<close>

section \<open>Journal entries\<close>

record journal_line =
  jl_account :: "id option"
  jl_code :: "string option"
  jl_debit :: dec
  jl_credit :: dec
  jl_third_party :: "id option"
  jl_vehicle :: "id option"
  jl_trip :: "id option"

text \<open>The schema of a line, \<^verbatim>\<open>validate_debit_credit\<close>, with its required account.\<close>

definition line_valid :: "journal_line \<Rightarrow> bool" where
  "line_valid l \<longleftrightarrow> jl_account l \<noteq> None \<and> \<not> (jl_debit l < 0 \<or> jl_credit l < 0)
     \<and> \<not> (jl_debit l = 0 \<and> jl_credit l = 0) \<and> \<not> (0 < jl_debit l \<and> 0 < jl_credit l)"

definition journal_payload :: "journal_line list \<Rightarrow> journal_line list res" where
  "journal_payload ls =
     (if list_all line_valid ls \<and> ls \<noteq> [] then Inr ls else Inl (PyError ''ValidationError''))"

text \<open>
  \<^verbatim>\<open>_resolve_account_uuid\<close>: a line without account id but with a code awaits nothing, and the
  result of \<^verbatim>\<open>session.execute\<close>, a coroutine, has no \<^verbatim>\<open>scalars\<close>.
\<close>

definition resolve_account :: "journal_line \<Rightarrow> id res" where
  "resolve_account l =
     (case jl_account l of
        Some a \<Rightarrow> Inr a
      | None \<Rightarrow> if truthy (jl_code l) then Inl (PyError ''AttributeError'') else Inl (PyError ''ValueError''))"

definition add_line :: "id \<Rightarrow> id \<Rightarrow> journal_line \<Rightarrow> db \<Rightarrow> db res" where
  "add_line tenant entry l d =
     rbind (resolve_account l) (\<lambda>a.
       let (j, d1) = fresh_id d;
           x = \<lparr>ji_id = j, ji_tenant = tenant, ji_entry = entry, ji_account = a,
             ji_debit = column 2 (jl_debit l), ji_credit = column 2 (jl_credit l),
             ji_third_party = jl_third_party l, ji_vehicle = jl_vehicle l, ji_trip = jl_trip l,
             ji_work_order = None\<rparr>
       in Inr (d1\<lparr>journal_items := tadd x (journal_items d1)\<rparr>))"

definition total_debit :: "journal_line list \<Rightarrow> dec" where
  "total_debit ls = (\<Sum>l\<leftarrow>ls. jl_debit l)"

definition total_credit :: "journal_line list \<Rightarrow> dec" where
  "total_credit ls = (\<Sum>l\<leftarrow>ls. jl_credit l)"

definition create_journal_entry :: "id \<Rightarrow> string \<Rightarrow> timestamp \<Rightarrow> string option \<Rightarrow> journal_line list
    \<Rightarrow> string option \<Rightarrow> id option \<Rightarrow> db \<Rightarrow> (journal_entry \<times> db) res" where
  "create_journal_entry tenant ty date reference ls stype source d =
     (if length ls < 2 then Inl (PyError ''ValueError'')
      else if total_debit ls \<noteq> total_credit ls then Inl (PyError ''ValueError'')
      else if total_debit ls \<le> 0 then Inl (PyError ''ValueError'')
      else
        (let (i, d1) = fresh_id d;
             e = \<lparr>je_id = i, je_tenant = tenant, je_type = ty, je_date = date,
               je_reference = reference, je_source_type = or_str stype (Some ''InternalHook''),
               je_source = source, je_status = ''posted''\<rparr>
         in rbind (rfold (add_line tenant i) ls (d1\<lparr>journals := tadd e (journals d1)\<rparr>)) (\<lambda>d2.
              Inr (e, d2))))"

text \<open>The check constraints of the table of items, at the flush of the commit.\<close>

definition item_checks :: "journal_item \<Rightarrow> bool" where
  "item_checks x \<longleftrightarrow> 0 \<le> ji_debit x \<and> 0 \<le> ji_credit x \<and> (ji_debit x = 0 \<or> ji_credit x = 0)
     \<and> (0 < ji_debit x \<or> 0 < ji_credit x)"

definition flush_journal :: "db \<Rightarrow> db res" where
  "flush_journal d =
     (if list_all item_checks (journal_items d) then Inr d else Inl (PyError ''IntegrityError''))"

text \<open>The endpoint for manual entries; the payload passed the schema.\<close>

definition create_manual_entry :: "id \<Rightarrow> string \<Rightarrow> timestamp \<Rightarrow> string option \<Rightarrow> journal_line list \<Rightarrow> db
    \<Rightarrow> (journal_entry \<times> db) res" where
  "create_manual_entry tenant ty date reference ls d =
     (if total_debit ls \<noteq> total_credit ls then Inl (ApiError ''http_exception'' 400)
      else if \<not> list_all (\<lambda>l. Option.bind (jl_account l)
                  (\<lambda>a. owned acc_id acc_tenant tenant a (accounts d)) \<noteq> None) ls
      then Inl (ApiError ''http_exception'' 400)
      else rbind (create_journal_entry tenant ty date reference ls (Some ''ManualEntry'') None d)
             (\<lambda>(e, d1). rbind (flush_journal d1) (\<lambda>d2. Inr (e, d2))))"

definition account_by_code :: "id \<Rightarrow> string \<Rightarrow> db \<Rightarrow> account option" where
  "account_by_code tenant code d =
     List.find (\<lambda>a. acc_tenant a = tenant \<and> acc_code a = code) (accounts d)"

definition post_supplier_invoice :: "id \<Rightarrow> db \<Rightarrow> (journal_entry \<times> db) res" where
  "post_supplier_invoice i d =
     (case tget sinv_id i (supplier_invoices d) of
        None \<Rightarrow> Inl (ApiError ''http_exception'' 404)
      | Some v \<Rightarrow>
          (case (account_by_code (sinv_tenant v) ''62'' d, account_by_code (sinv_tenant v) ''42'' d) of
             (Some ex, Some pay) \<Rightarrow>
               rbind (journal_payload
                 [\<lparr>jl_account = Some (acc_id ex), jl_code = None, jl_debit = sinv_amount v, jl_credit = 0,
                   jl_third_party = Some (sinv_third_party v), jl_vehicle = sinv_vehicle v,
                   jl_trip = sinv_trip v\<rparr>,
                  \<lparr>jl_account = Some (acc_id pay), jl_code = None, jl_debit = 0, jl_credit = sinv_amount v,
                   jl_third_party = Some (sinv_third_party v), jl_vehicle = None, jl_trip = None\<rparr>]) (\<lambda>ls.
               case create_journal_entry (sinv_tenant v) ''COM'' (sinv_issued_at v)
                      (or_str (sinv_number v) (Some (''Fatura de Fornecedor: '' @ show_nat i))) ls None None d of
                 Inl (PyError x) \<Rightarrow> if x = ''ValueError'' then Inl (ApiError ''http_exception'' 500)
                                    else Inl (PyError x)
               | Inl x \<Rightarrow> Inl x
               | Inr (e, d1) \<Rightarrow> rbind (flush_journal d1) (\<lambda>d2. Inr (e, d2)))
           | _ \<Rightarrow> Inl (ApiError ''http_exception'' 500)))"

section \<open>Reports\<close>

record balance_line =
  bl_account :: id
  bl_code :: string
  bl_debit :: dec
  bl_credit :: dec
  bl_balance :: dec

definition starts_in :: "char list \<Rightarrow> string \<Rightarrow> bool" where
  "starts_in cs code = (case code of [] \<Rightarrow> False | c # _ \<Rightarrow> c \<in> set cs)"

definition account_items :: "account \<Rightarrow> journal_item list \<Rightarrow> journal_item list" where
  "account_items a xs = filter (\<lambda>x. ji_account x = acc_id a) xs"

definition get_trial_balance :: "id \<Rightarrow> db \<Rightarrow> balance_line list" where
  "get_trial_balance tenant d =
     map (\<lambda>a. let xs = account_items a (journal_items d);
                  td = (\<Sum>x\<leftarrow>xs. ji_debit x); tc = (\<Sum>x\<leftarrow>xs. ji_credit x)
              in \<lparr>bl_account = acc_id a, bl_code = acc_code a, bl_debit = td, bl_credit = tc,
                  bl_balance = if starts_in ''1236'' (acc_code a) then td - tc else tc - td\<rparr>)
       (sort_key acc_code (filter (\<lambda>a. acc_tenant a = tenant) (accounts d)))"

fun month_at :: "int list \<Rightarrow> int \<Rightarrow> int" where
  "month_at [] _ = 0"
| "month_at (l # ls) n = (if n < l then 1 else 1 + month_at ls (n - l))"

definition month_of :: "timestamp \<Rightarrow> int" where
  "month_of t = month_at (month_lengths (year_of t)) (date_of t - year_start (year_of t))"

text \<open>The filters of the statement; a filter that is not given, or is 0, does not apply.\<close>

definition pl_item :: "int \<Rightarrow> int \<Rightarrow> id option \<Rightarrow> db \<Rightarrow> journal_item \<Rightarrow> bool" where
  "pl_item month year vehicle d x \<longleftrightarrow>
     (case tget je_id (ji_entry x) (journals d) of
        None \<Rightarrow> False
      | Some e \<Rightarrow> je_status e = ''posted'' \<and> (month = 0 \<or> month_of (je_date e) = month)
          \<and> (year = 0 \<or> year_of (je_date e) = year) \<and> (vehicle = None \<or> ji_vehicle x = vehicle))"

record profit_loss =
  pl_revenue :: dec
  pl_expense :: dec
  pl_ebitda :: dec
  pl_lines :: "balance_line list"

definition pl_line :: "account \<Rightarrow> journal_item list \<Rightarrow> balance_line" where
  "pl_line a xs =
     (let td = (\<Sum>x\<leftarrow>xs. ji_debit x); tc = (\<Sum>x\<leftarrow>xs. ji_credit x)
      in \<lparr>bl_account = acc_id a, bl_code = acc_code a, bl_debit = td, bl_credit = tc,
          bl_balance = if starts_in ''7'' (acc_code a) then tc - td else td - tc\<rparr>)"

definition get_profit_and_loss :: "id \<Rightarrow> int \<Rightarrow> int \<Rightarrow> id option \<Rightarrow> db \<Rightarrow> profit_loss" where
  "get_profit_and_loss tenant month year vehicle d =
     (let xs = filter (pl_item month year vehicle d) (journal_items d);
          rows = sort_key acc_code (filter (\<lambda>a. acc_tenant a = tenant
                   \<and> starts_in ''67'' (acc_code a) \<and> account_items a xs \<noteq> []) (accounts d));
          ls = map (\<lambda>a. pl_line a (account_items a xs)) rows;
          revenue = (\<Sum>l\<leftarrow>filter (\<lambda>l. starts_in ''7'' (bl_code l)) ls. bl_balance l);
          expense = (\<Sum>l\<leftarrow>filter (\<lambda>l. starts_in ''6'' (bl_code l)) ls. bl_balance l)
      in \<lparr>pl_revenue = revenue, pl_expense = expense, pl_ebitda = revenue - expense, pl_lines = ls\<rparr>)"

section \<open>What an entry adds to the ledger\<close>

lemma add_lines_rows:
  assumes "rfold (add_line tn i) ls d = Inr d'"
  shows "\<exists>xs. d' = d\<lparr>db_next := db_next d', journal_items := journal_items d @ xs\<rparr>
    \<and> db_next d \<le> db_next d'
    \<and> map ji_debit xs = map (\<lambda>l. column 2 (jl_debit l)) ls
    \<and> map ji_credit xs = map (\<lambda>l. column 2 (jl_credit l)) ls
    \<and> map (Some \<circ> ji_account) xs = map jl_account ls
    \<and> (\<forall>x\<in>set xs. ji_entry x = i \<and> ji_tenant x = tn)"
  using assms
proof (induction ls arbitrary: d)
  case Nil
  then show ?case by simp
next
  case (Cons l ls)
  from Cons.prems obtain d1 where d1: "add_line tn i l d = Inr d1" "rfold (add_line tn i) ls d1 = Inr d'"
    by (auto simp: rbind_Inr)
  from d1(1) obtain a where a: "jl_account l = Some a"
    by (auto simp: add_line_def rbind_Inr resolve_account_def split: option.splits if_splits)
  define x where "x = \<lparr>ji_id = db_next d, ji_tenant = tn, ji_entry = i, ji_account = a,
      ji_debit = column 2 (jl_debit l), ji_credit = column 2 (jl_credit l),
      ji_third_party = jl_third_party l, ji_vehicle = jl_vehicle l, ji_trip = jl_trip l,
      ji_work_order = None\<rparr>"
  have x: "d1 = d\<lparr>db_next := Suc (db_next d), journal_items := journal_items d @ [x]\<rparr>"
    "ji_debit x = column 2 (jl_debit l)" "ji_credit x = column 2 (jl_credit l)"
    "jl_account l = Some (ji_account x)" "ji_entry x = i" "ji_tenant x = tn"
    using d1(1) a by (auto simp: add_line_def resolve_account_def fresh_id_def tadd_def x_def)
  from Cons.IH [OF d1(2)] obtain xs where
    "d' = d1\<lparr>db_next := db_next d', journal_items := journal_items d1 @ xs\<rparr>" "db_next d1 \<le> db_next d'"
    "map ji_debit xs = map (\<lambda>l. column 2 (jl_debit l)) ls"
    "map ji_credit xs = map (\<lambda>l. column 2 (jl_credit l)) ls"
    "map (Some \<circ> ji_account) xs = map jl_account ls" "\<forall>x\<in>set xs. ji_entry x = i \<and> ji_tenant x = tn"
    by blast
  with x show ?case by (intro exI [of _ "x # xs"]) (auto simp: comp_def)
qed

text \<open>
  The ledger invariant: entries have unique ids, every item is of an entry and of an account of
  its own tenant, and every entry balances.
\<close>

definition entry_debit :: "id \<Rightarrow> journal_item list \<Rightarrow> dec" where
  "entry_debit i xs = (\<Sum>x\<leftarrow>filter (\<lambda>x. ji_entry x = i) xs. ji_debit x)"

definition entry_credit :: "id \<Rightarrow> journal_item list \<Rightarrow> dec" where
  "entry_credit i xs = (\<Sum>x\<leftarrow>filter (\<lambda>x. ji_entry x = i) xs. ji_credit x)"

definition ledger_ok :: "db \<Rightarrow> bool" where
  "ledger_ok d \<longleftrightarrow> keys_unique je_id (journals d) \<and> below je_id (db_next d) (journals d)
     \<and> keys_unique acc_id (accounts d)
     \<and> (\<forall>e\<in>set (journals d). entry_debit (je_id e) (journal_items d) = entry_credit (je_id e) (journal_items d))
     \<and> (\<forall>x\<in>set (journal_items d).
          (\<exists>e\<in>set (journals d). je_id e = ji_entry x \<and> je_tenant e = ji_tenant x)
          \<and> (\<exists>a\<in>set (accounts d). acc_id a = ji_account x \<and> acc_tenant a = ji_tenant x))"

definition line_cents :: "journal_line \<Rightarrow> bool" where
  "line_cents l \<longleftrightarrow> cents (jl_debit l) \<and> cents (jl_credit l)"

lemma entry_sums_append:
  "entry_debit i (xs @ ys) = entry_debit i xs + entry_debit i ys"
  "entry_credit i (xs @ ys) = entry_credit i xs + entry_credit i ys"
  by (simp_all add: entry_debit_def entry_credit_def)

lemma entry_sums_own:
  assumes "\<forall>x\<in>set xs. ji_entry x = i"
  shows "entry_debit j xs = (if j = i then sum_list (map ji_debit xs) else 0)"
    and "entry_credit j xs = (if j = i then sum_list (map ji_credit xs) else 0)"
proof -
  have "filter (\<lambda>x. ji_entry x = j) xs = (if j = i then xs else [])"
    using assms by (auto simp: filter_empty_conv intro: filter_True)
  then show "entry_debit j xs = (if j = i then sum_list (map ji_debit xs) else 0)"
    "entry_credit j xs = (if j = i then sum_list (map ji_credit xs) else 0)"
    by (simp_all add: entry_debit_def entry_credit_def)
qed

lemma zip3:
  assumes "map (Some \<circ> f) xs = map f' ys" and "map g xs = map g' ys" and "map h xs = map h' ys"
  shows "map (\<lambda>x. (Some (f x), g x, h x)) xs = map (\<lambda>y. (f' y, g' y, h' y)) ys"
  using assms by (auto simp: list_eq_iff_nth_eq)

lemma create_journal_entry_ok:
  assumes "ledger_ok d" and "create_journal_entry tn ty date rf ls st so d = Inr (e, d')"
    and "\<forall>l\<in>set ls. line_cents l"
    and "\<forall>l\<in>set ls. \<forall>a. jl_account l = Some a
           \<longrightarrow> (\<exists>y\<in>set (accounts d). acc_id y = a \<and> acc_tenant y = tn)"
  shows "ledger_ok d' \<and> e \<in> set (journals d') \<and> je_status e = ''posted'' \<and> je_tenant e = tn
    \<and> entry_debit (je_id e) (journal_items d') = total_debit ls \<and> 0 < total_debit ls
    \<and> entry_credit (je_id e) (journal_items d') = total_debit ls
    \<and> map (\<lambda>x. (Some (ji_account x), ji_debit x, ji_credit x))
          (filter (\<lambda>x. ji_entry x = je_id e) (journal_items d'))
        = map (\<lambda>l. (jl_account l, jl_debit l, jl_credit l)) ls
    \<and> trips d' = trips d \<and> bills d' = bills d"
proof -
  let ?i = "db_next d"
  from assms(2) have tot: "total_debit ls = total_credit ls" "0 < total_debit ls"
    by (auto simp: create_journal_entry_def split: if_splits)
  with assms(2) obtain d1 where d1: "rfold (add_line tn ?i) ls d1 = Inr d'" "je_id e = ?i" "je_tenant e = tn"
      "je_status e = ''posted''" "d1 = d\<lparr>db_next := Suc ?i, journals := journals d @ [e]\<rparr>"
    by (auto simp: create_journal_entry_def rbind_Inr fresh_id_def tadd_def Let_def split: if_splits)
  from add_lines_rows [OF d1(1)] obtain xs where
    d': "d' = d1\<lparr>db_next := db_next d', journal_items := journal_items d1 @ xs\<rparr>" "db_next d1 \<le> db_next d'"
    and db: "map ji_debit xs = map (\<lambda>l. column 2 (jl_debit l)) ls"
    and cr: "map ji_credit xs = map (\<lambda>l. column 2 (jl_credit l)) ls"
    and acc: "map (Some \<circ> ji_account) xs = map jl_account ls"
    and own: "\<forall>x\<in>set xs. ji_entry x = ?i \<and> ji_tenant x = tn" by blast
  have db: "map ji_debit xs = map jl_debit ls" and cr: "map ji_credit xs = map jl_credit ls"
    unfolding db cr using assms(3) by (auto simp: line_cents_def)
  from d' d1(5) have rows: "journal_items d' = journal_items d @ xs" "journals d' = journals d @ [e]"
    "accounts d' = accounts d" "Suc ?i \<le> db_next d'" "trips d' = trips d" "bills d' = bills d"
    by (cases d; cases d'; simp)+
  have old: "\<forall>x\<in>set (journal_items d). ji_entry x \<noteq> ?i"
  proof
    fix x
    assume "x \<in> set (journal_items d)"
    with assms(1) obtain y where "y \<in> set (journals d)" "je_id y = ji_entry x"
      unfolding ledger_ok_def by blast
    with assms(1) show "ji_entry x \<noteq> ?i" by (auto simp: ledger_ok_def below_def list_all_iff)
  qed
  then have none: "entry_debit ?i (journal_items d) = 0" "entry_credit ?i (journal_items d) = 0"
    "filter (\<lambda>x. ji_entry x = ?i) (journal_items d) = []"
    by (auto simp: entry_debit_def entry_credit_def filter_empty_conv intro!: sum_list_zero)
  have sums: "sum_list (map ji_debit xs) = total_debit ls" "sum_list (map ji_credit xs) = total_debit ls"
    unfolding db cr using tot by (simp_all add: total_debit_def total_credit_def)
  have own': "\<forall>x\<in>set xs. ji_entry x = ?i" using own by blast
  have e: "entry_debit (je_id e) (journal_items d') = total_debit ls"
      "entry_credit (je_id e) (journal_items d') = total_debit ls"
    by (simp_all add: rows d1(2) entry_sums_append none entry_sums_own [OF own'] sums)
  have others: "entry_debit (je_id y) (journal_items d') = entry_credit (je_id y) (journal_items d')"
    if "y \<in> set (journals d)" for y
  proof -
    have "je_id y \<noteq> ?i" using assms(1) that by (auto simp: ledger_ok_def below_def list_all_iff)
    then show ?thesis
      using assms(1) that by (simp add: rows entry_sums_append entry_sums_own [OF own'] ledger_ok_def)
  qed
  have accs: "\<exists>y\<in>set (accounts d). acc_id y = ji_account x \<and> acc_tenant y = ji_tenant x"
    if "x \<in> set xs" for x
  proof -
    have "Some (ji_account x) \<in> set (map jl_account ls)"
      using that by (simp add: acc [symmetric])
    then obtain l where "l \<in> set ls" "jl_account l = Some (ji_account x)" by auto
    then show ?thesis using assms(4) own that by simp
  qed
  have "ledger_ok d'"
    unfolding ledger_ok_def rows
  proof (intro conjI ballI)
    show "keys_unique je_id (journals d @ [e])"
      using assms(1) keys_unique_insert [of je_id "journals d" ?i e] d1(2)
      by (simp add: ledger_ok_def tadd_def)
    show "below je_id (db_next d') (journals d @ [e])"
      using assms(1) rows(4) d1(2) below_mono [of je_id ?i "journals d" "db_next d'"]
      by (auto simp: ledger_ok_def below_def)
    show "keys_unique acc_id (accounts d)" using assms(1) by (simp add: ledger_ok_def)
    show "entry_debit (je_id y) (journal_items d @ xs) = entry_credit (je_id y) (journal_items d @ xs)"
      if "y \<in> set (journals d @ [e])" for y
      using that others [of y] e by (auto simp: rows)
    show "\<exists>y\<in>set (journals d @ [e]). je_id y = ji_entry x \<and> je_tenant y = ji_tenant x"
      "\<exists>a\<in>set (accounts d). acc_id a = ji_account x \<and> acc_tenant a = ji_tenant x"
      if "x \<in> set (journal_items d @ xs)" for x
      using that assms(1) own accs [of x] d1(2,3) by (auto simp: ledger_ok_def)
  qed
  moreover have "map (\<lambda>x. (Some (ji_account x), ji_debit x, ji_credit x)) xs
      = map (\<lambda>l. (jl_account l, jl_debit l, jl_credit l)) ls"
    using zip3 [OF acc db cr] .
  then have "map (\<lambda>x. (Some (ji_account x), ji_debit x, ji_credit x))
          (filter (\<lambda>x. ji_entry x = je_id e) (journal_items d'))
        = map (\<lambda>l. (jl_account l, jl_debit l, jl_credit l)) ls"
    using own' none(3) by (simp add: rows d1(2))
  ultimately show ?thesis using e tot(2) d1(3,4) rows by simp
qed

section \<open>Properties\<close>

lemma owned_accounts:
  assumes "list_all (\<lambda>l. Option.bind (jl_account l) (\<lambda>a. owned acc_id acc_tenant tn a ac) \<noteq> None) ls"
  shows "\<forall>l\<in>set ls. \<forall>a. jl_account l = Some a \<longrightarrow> (\<exists>y\<in>set ac. acc_id y = a \<and> acc_tenant y = tn)"
proof (intro ballI allI impI)
  fix l a
  assume "l \<in> set ls" "jl_account l = Some a"
  with assms obtain y where "owned acc_id acc_tenant tn a ac = Some y"
    by (auto simp: list_all_iff)
  then show "\<exists>y\<in>set ac. acc_id y = a \<and> acc_tenant y = tn"
    by (auto simp: owned_Some dest: tget_mem tget_key)
qed

text \<open>
  A manual entry whose amounts are whole cents keeps the ledger: it posts exactly the lines it
  was given, at least two, in one new entry whose debits equal its credits and are positive, on
  accounts of its tenant.
\<close>

theorem manual_entry_balanced:
  assumes "ledger_ok d" and "create_manual_entry tn ty date rf ls d = Inr (e, d')"
    and "\<forall>l\<in>set ls. line_cents l"
  shows "ledger_ok d' \<and> e \<in> set (journals d') \<and> 2 \<le> length ls
    \<and> entry_debit (je_id e) (journal_items d') = entry_credit (je_id e) (journal_items d')
    \<and> 0 < entry_debit (je_id e) (journal_items d')
    \<and> map (\<lambda>x. (Some (ji_account x), ji_debit x, ji_credit x))
          (filter (\<lambda>x. ji_entry x = je_id e) (journal_items d'))
        = map (\<lambda>l. (jl_account l, jl_debit l, jl_credit l)) ls
    \<and> list_all item_checks (journal_items d')"
proof -
  from assms(2) have acc: "list_all (\<lambda>l. Option.bind (jl_account l)
      (\<lambda>a. owned acc_id acc_tenant tn a (accounts d)) \<noteq> None) ls"
    by (auto simp: create_manual_entry_def simp del: bind_eq_None_conv split: if_splits)
  with assms(2) have c: "create_journal_entry tn ty date rf ls (Some ''ManualEntry'') None d = Inr (e, d')"
    "list_all item_checks (journal_items d')"
    by (auto simp: create_manual_entry_def rbind_Inr flush_journal_def
        simp del: bind_eq_None_conv split: if_splits)
  then have "2 \<le> length ls" by (auto simp: create_journal_entry_def split: if_splits)
  with create_journal_entry_ok [OF assms(1) c(1) assms(3) owned_accounts [OF acc]] c(2)
  show ?thesis by simp
qed

definition ledger_db :: db where
  "ledger_db = empty_db\<lparr>db_next := 10, accounts :=
     [\<lparr>acc_id = 3, acc_tenant = 2, acc_code = ''62'', acc_name = ''Gastos'', acc_type = ''Expense''\<rparr>,
      \<lparr>acc_id = 4, acc_tenant = 2, acc_code = ''42'', acc_name = ''Fornecedores'', acc_type = ''Liability''\<rparr>]\<rparr>"

definition plain_line :: "id \<Rightarrow> dec \<Rightarrow> dec \<Rightarrow> journal_line" where
  "plain_line a db cr = \<lparr>jl_account = Some a, jl_code = None, jl_debit = db, jl_credit = cr,
     jl_third_party = None, jl_vehicle = None, jl_trip = None\<rparr>"

lemmas ledger_sample = ledger_db_def plain_line_def empty_db_def

lemma manual_entry_balanced_witness:
  "\<exists>e d. create_manual_entry 2 ''OD'' 50 None [plain_line 3 250 0, plain_line 4 0 250] ledger_db = Inr (e, d)
     \<and> ledger_ok d \<and> 0 < entry_debit (je_id e) (journal_items d)"
proof -
  have ok: "ledger_ok ledger_db"
    by (simp add: ledger_ok_def ledger_sample keys_unique_def below_def)
  have c: "\<forall>l\<in>set [plain_line 3 250 0, plain_line 4 0 250]. line_cents l"
    by (simp add: line_cents_def plain_line_def)
  obtain e d where r: "create_manual_entry 2 ''OD'' 50 None [plain_line 3 250 0, plain_line 4 0 250] ledger_db = Inr (e, d)"
    by (simp add: create_manual_entry_def create_journal_entry_def add_line_def resolve_account_def
        flush_journal_def item_checks_def total_debit_def total_credit_def owned_def ledger_sample
        fresh_id_def tadd_def Let_def)
  with manual_entry_balanced [OF ok r c] show ?thesis by blast
qed

text \<open>
  The balance is checked on the amounts before the columns round them: two debits of half a
  cent against a credit of one cent pass, and are posted as two cents against one.
\<close>

theorem rounding_unbalances_entry:
  "map_option (\<lambda>(e, d). (entry_debit (je_id e) (journal_items d), entry_credit (je_id e) (journal_items d)))
     (case create_manual_entry 2 ''OD'' 50 None
        [plain_line 3 (5/1000) 0, plain_line 3 (5/1000) 0, plain_line 4 0 (1/100)] ledger_db of
      Inr r \<Rightarrow> Some r | Inl _ \<Rightarrow> None)
   = Some (2/100, 1/100)"
proof -
  have c: "column 2 (1/200) = (1/100 :: dec)" "column 2 (1/100) = (1/100 :: dec)"
    by (simp_all add: column_def round_half_away_def floor_eq_iff)
  show ?thesis
    by (simp add: create_manual_entry_def create_journal_entry_def add_line_def resolve_account_def
        flush_journal_def item_checks_def total_debit_def total_credit_def owned_def ledger_sample
        fresh_id_def tadd_def Let_def c entry_debit_def entry_credit_def)
qed

lemma tenant_items_entries:
  assumes "ledger_ok d"
  shows "(\<Sum>x\<leftarrow>filter (\<lambda>x. ji_tenant x = tn) (journal_items d). ji_debit x)
       = (\<Sum>x\<leftarrow>filter (\<lambda>x. ji_tenant x = tn) (journal_items d). ji_credit x)"
proof -
  let ?es = "map je_id (filter (\<lambda>e. je_tenant e = tn) (journals d))"
  let ?xs = "filter (\<lambda>x. ji_tenant x = tn) (journal_items d)"
  have u: "distinct ?es" using assms by (simp add: ledger_ok_def keys_unique_def distinct_map_filter)
  have mem: "ji_entry x \<in> set ?es" if "x \<in> set ?xs" for x
    using that assms by (force simp: ledger_ok_def)
  have own: "filter (\<lambda>x. ji_entry x = i) ?xs = filter (\<lambda>x. ji_entry x = i) (journal_items d)"
    if "i \<in> set ?es" for i
  proof -
    from that obtain e where e: "e \<in> set (journals d)" "je_tenant e = tn" "je_id e = i" by auto
    have "ji_tenant x = tn" if "x \<in> set (journal_items d)" "ji_entry x = i" for x
    proof -
      from that(1) assms obtain y where "y \<in> set (journals d)" "je_id y = ji_entry x" "je_tenant y = ji_tenant x"
        unfolding ledger_ok_def by blast
      with e that(2) assms show ?thesis
        using keys_unique_row [of je_id "journals d" y e] by (simp add: ledger_ok_def)
    qed
    then show ?thesis by (auto intro!: filter_cong)
  qed
  have "(\<Sum>x\<leftarrow>?xs. ji_debit x) = (\<Sum>i\<leftarrow>?es. \<Sum>x\<leftarrow>filter (\<lambda>x. ji_entry x = i) ?xs. ji_debit x)"
    by (rule sum_list_by_key [symmetric, OF u mem])
  also have "\<dots> = (\<Sum>i\<leftarrow>?es. entry_debit i (journal_items d))"
    using own by (intro arg_cong [where f = sum_list] map_cong) (auto simp: entry_debit_def)
  also have "\<dots> = (\<Sum>i\<leftarrow>?es. entry_credit i (journal_items d))"
    using assms by (intro arg_cong [where f = sum_list] map_cong) (auto simp: ledger_ok_def)
  also have "\<dots> = (\<Sum>i\<leftarrow>?es. \<Sum>x\<leftarrow>filter (\<lambda>x. ji_entry x = i) ?xs. ji_credit x)"
    using own by (intro arg_cong [where f = sum_list] map_cong) (auto simp: entry_credit_def)
  also have "\<dots> = (\<Sum>x\<leftarrow>?xs. ji_credit x)"
    by (rule sum_list_by_key [OF u mem])
  finally show ?thesis .
qed

lemma tenant_account_sum:
  fixes g :: "journal_item \<Rightarrow> dec"
  assumes "ledger_ok d"
  shows "(\<Sum>a\<leftarrow>sort_key acc_code (filter (\<lambda>a. acc_tenant a = tn) (accounts d)).
            \<Sum>x\<leftarrow>account_items a (journal_items d). g x)
       = (\<Sum>x\<leftarrow>filter (\<lambda>x. ji_tenant x = tn) (journal_items d). g x)"
proof -
  let ?as = "sort_key acc_code (filter (\<lambda>a. acc_tenant a = tn) (accounts d))"
  let ?xs = "filter (\<lambda>x. ji_tenant x = tn) (journal_items d)"
  have ua: "keys_unique acc_id (accounts d)" using assms by (simp add: ledger_ok_def)
  then have "inj_on acc_id (set (accounts d))" "distinct (accounts d)"
    by (simp_all add: keys_unique_def distinct_map)
  then have u: "distinct (map acc_id ?as)"
    by (auto simp: distinct_map inj_on_def)
  have mem: "ji_account x \<in> set (map acc_id ?as)" if "x \<in> set ?xs" for x
    using that assms by (force simp: ledger_ok_def)
  have own: "account_items a (journal_items d) = filter (\<lambda>x. ji_account x = acc_id a) ?xs"
    if "a \<in> set ?as" for a
  proof -
    have a: "a \<in> set (accounts d)" "acc_tenant a = tn" using that by simp_all
    have "ji_tenant x = tn" if "x \<in> set (journal_items d)" "ji_account x = acc_id a" for x
    proof -
      from that(1) assms obtain y where "y \<in> set (accounts d)" "acc_id y = ji_account x" "acc_tenant y = ji_tenant x"
        unfolding ledger_ok_def by blast
      with a that(2) show ?thesis using keys_unique_row [OF ua, of y a] by simp
    qed
    then show ?thesis by (auto simp: account_items_def intro!: filter_cong)
  qed
  have "(\<Sum>a\<leftarrow>?as. \<Sum>x\<leftarrow>account_items a (journal_items d). g x)
      = (\<Sum>a\<leftarrow>?as. \<Sum>x\<leftarrow>filter (\<lambda>x. ji_account x = acc_id a) ?xs. g x)"
    using own by (intro arg_cong [where f = sum_list] map_cong) auto
  also have "\<dots> = (\<Sum>k\<leftarrow>map acc_id ?as. \<Sum>x\<leftarrow>filter (\<lambda>x. ji_account x = k) ?xs. g x)"
    by (simp add: comp_def)
  also have "\<dots> = (\<Sum>x\<leftarrow>?xs. g x)" by (rule sum_list_by_key [OF u mem])
  finally show ?thesis .
qed

text \<open>
  What posts to the ledger: the manual endpoint, and the hooks of the other services, which look their
  accounts up in the tenant's chart and go through the schema and \<open>create_journal_entry\<close>.
\<close>

datatype posting =
    By_hand id string timestamp "string option" "journal_line list"
  | By_hook id string timestamp "string option" "journal_line list" "string option" "id option"

fun posting_lines :: "posting \<Rightarrow> journal_line list" where
  "posting_lines (By_hand tn ty date rf ls) = ls"
| "posting_lines (By_hook tn ty date rf ls st so) = ls"

fun post_one :: "posting \<Rightarrow> db \<Rightarrow> (journal_entry \<times> db) res" where
  "post_one (By_hand tn ty date rf ls) d = create_manual_entry tn ty date rf ls d"
| "post_one (By_hook tn ty date rf ls st so) d =
     rbind (journal_payload ls) (\<lambda>ls'. create_journal_entry tn ty date rf ls' st so d)"

text \<open>The postings that were accepted, and the ledger after them; a refused one leaves it as it was.\<close>

fun post_all :: "posting list \<Rightarrow> db \<Rightarrow> posting list \<times> db" where
  "post_all [] d = ([], d)"
| "post_all (p # ps) d =
     (case post_one p d of
        Inl _ \<Rightarrow> post_all ps d
      | Inr (_, d1) \<Rightarrow> (let (qs, d2) = post_all ps d1 in (p # qs, d2)))"

fun chart_lines :: "account list \<Rightarrow> posting \<Rightarrow> bool" where
  "chart_lines as (By_hand tn ty date rf ls) = True"
| "chart_lines as (By_hook tn ty date rf ls st so) =
     list_all (\<lambda>l. list_ex (\<lambda>a. jl_account l = Some (acc_id a) \<and> acc_tenant a = tn) as) ls"

text \<open>What a list of lines debits and credits to an account.\<close>

definition debited :: "id \<Rightarrow> journal_line list \<Rightarrow> dec" where
  "debited a ls = (\<Sum>l\<leftarrow>filter (\<lambda>l. jl_account l = Some a) ls. jl_debit l)"

definition credited :: "id \<Rightarrow> journal_line list \<Rightarrow> dec" where
  "credited a ls = (\<Sum>l\<leftarrow>filter (\<lambda>l. jl_account l = Some a) ls. jl_credit l)"

lemma create_journal_entry_rows:
  assumes "create_journal_entry tn ty date rf ls st so d = Inr (e, d')" and "\<forall>l\<in>set ls. line_cents l"
  shows "\<exists>xs. journal_items d' = journal_items d @ xs \<and> accounts d' = accounts d
    \<and> map (\<lambda>x. (Some (ji_account x), ji_debit x, ji_credit x)) xs = map (\<lambda>l. (jl_account l, jl_debit l, jl_credit l)) ls"
proof -
  from assms(1) obtain d1 where d1: "rfold (add_line tn (db_next d)) ls d1 = Inr d'"
      "d1 = d\<lparr>db_next := Suc (db_next d), journals := journals d @ [e]\<rparr>"
    by (auto simp: create_journal_entry_def rbind_Inr fresh_id_def tadd_def Let_def split: if_splits)
  from add_lines_rows [OF d1(1)] obtain xs where
    d': "d' = d1\<lparr>db_next := db_next d', journal_items := journal_items d1 @ xs\<rparr>"
    and db: "map ji_debit xs = map (\<lambda>l. column 2 (jl_debit l)) ls"
    and cr: "map ji_credit xs = map (\<lambda>l. column 2 (jl_credit l)) ls"
    and acc: "map (Some \<circ> ji_account) xs = map jl_account ls" by blast
  have "map ji_debit xs = map jl_debit ls" "map ji_credit xs = map jl_credit ls"
    unfolding db cr using assms(2) by (auto simp: line_cents_def)
  from zip3 [OF acc this] d' d1(2) show ?thesis by (intro exI [of _ xs]) (cases d; cases d'; simp)
qed

lemma line_sums:
  assumes "map (\<lambda>x. (Some (ji_account x), ji_debit x, ji_credit x)) xs = map (\<lambda>l. (jl_account l, jl_debit l, jl_credit l)) ls"
  shows "(\<Sum>x\<leftarrow>filter (\<lambda>x. ji_account x = a) xs. ji_debit x) = debited a ls"
    and "(\<Sum>x\<leftarrow>filter (\<lambda>x. ji_account x = a) xs. ji_credit x) = credited a ls"
  using assms by (induction xs arbitrary: ls) (auto simp: debited_def credited_def)

lemma debited_append: "debited a (ls @ ms) = debited a ls + debited a ms" "credited a (ls @ ms) = credited a ls + credited a ms"
  by (simp_all add: debited_def credited_def)

lemma post_one_ok:
  assumes "ledger_ok d" and "post_one p d = Inr (e, d')" and "chart_lines (accounts d) p"
    and "\<forall>l\<in>set (posting_lines p). line_cents l"
  shows "ledger_ok d' \<and> accounts d' = accounts d
    \<and> (\<Sum>x\<leftarrow>filter (\<lambda>x. ji_account x = a) (journal_items d'). ji_debit x)
        = (\<Sum>x\<leftarrow>filter (\<lambda>x. ji_account x = a) (journal_items d). ji_debit x) + debited a (posting_lines p)
    \<and> (\<Sum>x\<leftarrow>filter (\<lambda>x. ji_account x = a) (journal_items d'). ji_credit x)
        = (\<Sum>x\<leftarrow>filter (\<lambda>x. ji_account x = a) (journal_items d). ji_credit x) + credited a (posting_lines p)"
proof -
  obtain tn ty date rf st so where c: "create_journal_entry tn ty date rf (posting_lines p) st so d = Inr (e, d')"
    and own: "\<forall>l\<in>set (posting_lines p). \<forall>a. jl_account l = Some a
      \<longrightarrow> (\<exists>y\<in>set (accounts d). acc_id y = a \<and> acc_tenant y = tn)"
  proof (cases p)
    case (By_hand tn ty date rf ls)
    with assms(2) have acc: "list_all (\<lambda>l. Option.bind (jl_account l)
        (\<lambda>a. owned acc_id acc_tenant tn a (accounts d)) \<noteq> None) ls"
      by (auto simp: create_manual_entry_def simp del: bind_eq_None_conv split: if_splits)
    with By_hand assms(2) have "create_journal_entry tn ty date rf ls (Some ''ManualEntry'') None d = Inr (e, d')"
      by (auto simp: create_manual_entry_def rbind_Inr flush_journal_def simp del: bind_eq_None_conv split: if_splits)
    with that By_hand owned_accounts [OF acc] show thesis by simp
  next
    case (By_hook tn ty date rf ls st so)
    with assms(2,3) that show thesis
      by (fastforce simp: rbind_Inr journal_payload_def list_all_iff list_ex_iff split: if_splits)
  qed
  from create_journal_entry_rows [OF c assms(4)] obtain xs where
    "journal_items d' = journal_items d @ xs" "accounts d' = accounts d"
    "map (\<lambda>x. (Some (ji_account x), ji_debit x, ji_credit x)) xs
      = map (\<lambda>l. (jl_account l, jl_debit l, jl_credit l)) (posting_lines p)" by blast
  with create_journal_entry_ok [OF assms(1) c assms(4) own] line_sums [of xs "posting_lines p" a]
  show ?thesis by simp
qed

lemma post_all_ok:
  assumes "ledger_ok d" and "post_all ps d = (qs, d')"
    and "\<forall>p\<in>set ps. chart_lines (accounts d) p \<and> (\<forall>l\<in>set (posting_lines p). line_cents l)"
  shows "ledger_ok d' \<and> accounts d' = accounts d
    \<and> (\<Sum>x\<leftarrow>filter (\<lambda>x. ji_account x = a) (journal_items d'). ji_debit x)
        = (\<Sum>x\<leftarrow>filter (\<lambda>x. ji_account x = a) (journal_items d). ji_debit x) + debited a (concat (map posting_lines qs))
    \<and> (\<Sum>x\<leftarrow>filter (\<lambda>x. ji_account x = a) (journal_items d'). ji_credit x)
        = (\<Sum>x\<leftarrow>filter (\<lambda>x. ji_account x = a) (journal_items d). ji_credit x) + credited a (concat (map posting_lines qs))"
  using assms
proof (induction ps arbitrary: d qs)
  case Nil
  then show ?case by (simp add: debited_def credited_def)
next
  case (Cons p ps)
  show ?case
  proof (cases "post_one p d")
    case (Inl e)
    with Cons show ?thesis by simp
  next
    case (Inr r)
    obtain e d1 where r: "r = (e, d1)" by fastforce
    obtain rs where rs: "post_all ps d1 = (rs, d')" "qs = p # rs"
      using Cons.prems(2) Inr r by (auto simp: Let_def split: prod.splits)
    have one: "ledger_ok d1 \<and> accounts d1 = accounts d
      \<and> (\<Sum>x\<leftarrow>filter (\<lambda>x. ji_account x = a) (journal_items d1). ji_debit x)
        = (\<Sum>x\<leftarrow>filter (\<lambda>x. ji_account x = a) (journal_items d). ji_debit x) + debited a (posting_lines p)
      \<and> (\<Sum>x\<leftarrow>filter (\<lambda>x. ji_account x = a) (journal_items d1). ji_credit x)
        = (\<Sum>x\<leftarrow>filter (\<lambda>x. ji_account x = a) (journal_items d). ji_credit x) + credited a (posting_lines p)"
      using Cons.prems(1,3) Inr r by (intro post_one_ok) auto
    with Cons.IH [of d1 rs] Cons.prems(3) rs show ?thesis by (simp add: debited_append)
  qed
qed

text \<open>
  C12: The trial balance shows what was posted: after any postings to an empty ledger, by hand or by the hooks,
  accepted or refused, it lists each account of the tenant once, in the order of the codes, with the debits and
  the credits of exactly the accepted lines on that account and their difference with the sign of the account's
  class; and over all accounts the debits add up to the credits. Amounts are whole cents.
\<close>

theorem trial_balance_shows_postings:
  assumes "post_all ps d = (qs, d')" and "journals d = []" and "journal_items d = []" and "keys_unique acc_id (accounts d)"
    and "\<forall>p\<in>set ps. chart_lines (accounts d) p \<and> (\<forall>l\<in>set (posting_lines p). line_cents l)"
  shows "map bl_account (get_trial_balance tn d') = map acc_id (sort_key acc_code (filter (\<lambda>a. acc_tenant a = tn) (accounts d)))
    \<and> (\<forall>l\<in>set (get_trial_balance tn d').
        bl_debit l = debited (bl_account l) (concat (map posting_lines qs))
        \<and> bl_credit l = credited (bl_account l) (concat (map posting_lines qs))
        \<and> bl_balance l = (if starts_in ''1236'' (bl_code l) then bl_debit l - bl_credit l else bl_credit l - bl_debit l))
    \<and> (\<Sum>l\<leftarrow>get_trial_balance tn d'. bl_debit l) = (\<Sum>l\<leftarrow>get_trial_balance tn d'. bl_credit l)"
proof -
  have "ledger_ok d" using assms(2-4) by (simp add: ledger_ok_def keys_unique_def below_def)
  note run = post_all_ok [OF this assms(1,5)]
  have ok: "ledger_ok d'" and same: "accounts d' = accounts d" using run by blast+
  have "(\<Sum>l\<leftarrow>get_trial_balance tn d'. bl_debit l) = (\<Sum>l\<leftarrow>get_trial_balance tn d'. bl_credit l)"
    using tenant_account_sum [OF ok, where tn = tn and g = ji_debit] tenant_account_sum [OF ok, where tn = tn and g = ji_credit]
      tenant_items_entries [OF ok, of tn]
    by (simp add: get_trial_balance_def comp_def Let_def)
  with run assms(3) same show ?thesis
    by (auto simp: get_trial_balance_def account_items_def Let_def comp_def)
qed

lemma trial_balance_shows_postings_witness:
  "\<exists>d. post_all [By_hand 2 ''OD'' 50 None [plain_line 3 250 0, plain_line 4 0 250],
        By_hand 2 ''OD'' 50 None [plain_line 3 1 0, plain_line 4 0 2]] ledger_db
      = ([By_hand 2 ''OD'' 50 None [plain_line 3 250 0, plain_line 4 0 250]], d)
    \<and> (\<forall>l\<in>set (get_trial_balance 2 d). bl_account l = 3 \<longrightarrow> bl_debit l = 250 \<and> bl_credit l = 0)
    \<and> (\<Sum>l\<leftarrow>get_trial_balance 2 d. bl_debit l) = (\<Sum>l\<leftarrow>get_trial_balance 2 d. bl_credit l)"
proof -
  let ?ok = "By_hand 2 ''OD'' 50 None [plain_line 3 250 0, plain_line 4 0 250]"
  let ?ps = "[?ok, By_hand 2 ''OD'' 50 None [plain_line 3 1 0, plain_line 4 0 2]]"
  obtain d where r: "post_all ?ps ledger_db = ([?ok], d)"
    by (simp add: create_manual_entry_def create_journal_entry_def add_line_def resolve_account_def
        flush_journal_def item_checks_def total_debit_def total_credit_def owned_def ledger_sample
        fresh_id_def tadd_def Let_def)
  have l: "\<forall>p\<in>set ?ps. chart_lines (accounts ledger_db) p \<and> (\<forall>l\<in>set (posting_lines p). line_cents l)"
    by (simp add: line_cents_def plain_line_def)
  have empty: "journals ledger_db = []" "journal_items ledger_db = []" "keys_unique acc_id (accounts ledger_db)"
    by (simp_all add: ledger_sample keys_unique_def)
  have sums: "debited 3 (concat (map posting_lines [?ok])) = 250" "credited 3 (concat (map posting_lines [?ok])) = 0"
    by (simp_all add: debited_def credited_def plain_line_def)
  note shown = trial_balance_shows_postings [OF r empty l, of 2]
  have "\<forall>l\<in>set (get_trial_balance 2 d). bl_account l = 3 \<longrightarrow> bl_debit l = 250 \<and> bl_credit l = 0"
    using shown sums by metis
  with r shown show ?thesis by blast
qed

end
