(* ===== verification/Billing_Docs.thy ===== *)
theory Billing_Docs
  imports Cargo Accounting
begin

text \<open>
  Billing documents (\<^verbatim>\<open>billing/domain.py\<close>, \<^verbatim>\<open>billing/service.py\<close>): when a trip can be billed,
  margin governance and its waivers, fiscal numbering, drafts, their issue with the accounting
  hook, notes and receipts.
\<close>

section \<open>When a trip can be billed\<close>

record candidate =
  cand_contract :: "id option"
  cand_delivered_at :: "timestamp option"
  cand_proof :: "id option"
  cand_proof_status :: "proof_status option"

text \<open>The outcomes the two classifications share; the strings of \<^verbatim>\<open>billing/domain.py\<close>.\<close>

datatype billable_state = V_pending_proof | V_pending_validation | V_uncontracted | V_billable
  | V_disputed | V_draft | V_billed

definition billing_status_for_candidate :: "candidate \<Rightarrow> billable_state" where
  "billing_status_for_candidate c =
     (if cand_delivered_at c = None \<or> cand_proof c = None then V_pending_proof
      else if cand_proof_status c \<notin> {Some P_validated, Some P_verified} then V_pending_validation
      else if cand_contract c = None then V_uncontracted
      else V_billable)"

definition can_create_billing_item :: "candidate \<Rightarrow> bool" where
  "can_create_billing_item c \<longleftrightarrow> billing_status_for_candidate c = V_billable"

definition normalize_period_bounds :: "timestamp \<Rightarrow> timestamp \<Rightarrow> (timestamp \<times> timestamp) res" where
  "normalize_period_bounds s e = (if e \<le> s then Inl (PyError ''ValueError'') else Inr (s, e))"

definition belongs_to_billing_period :: "candidate \<Rightarrow> timestamp \<Rightarrow> timestamp \<Rightarrow> bool res" where
  "belongs_to_billing_period c s e =
     (if \<not> can_create_billing_item c then Inr False
      else rbind (normalize_period_bounds s e) (\<lambda>(s, e).
             case cand_delivered_at c of
               None \<Rightarrow> Inl (PyError ''AttributeError'')
             | Some t \<Rightarrow> Inr (s \<le> t \<and> t < e)))"

text \<open>The candidate status of the listing of billable trips (\<^verbatim>\<open>serialize_billable_trip\<close>).\<close>

definition candidate_status :: "trip \<Rightarrow> delivery_proof option \<Rightarrow> contract option \<Rightarrow> billable_state" where
  "candidate_status t p c =
     (case p of
        None \<Rightarrow> V_pending_proof
      | Some p \<Rightarrow>
          if prf_status p = P_disputed \<or> trip_billing t = B_delivery_disputed then V_disputed
          else if prf_status p \<notin> {P_validated, P_verified} then V_pending_validation
          else if c = None then V_uncontracted
          else if trip_billing t = B_billing_draft then V_draft
          else if trip_billing t = B_billed then V_billed
          else V_billable)"

text \<open>
  \<^verbatim>\<open>getattr(contract, 'iva_rate', None)\<close>: the class \<^verbatim>\<open>Contract\<close> has no such column, so the
  override is never there.
\<close>

definition contract_iva :: "contract \<Rightarrow> dec option" where
  "contract_iva _ = None"

definition resolve_iva :: "trip option \<Rightarrow> contract option \<Rightarrow> (dec \<times> string) res" where
  "resolve_iva t c =
     (case Option.bind c contract_iva of
        Some r \<Rightarrow> Inr (r, ''contract_override'')
      | None \<Rightarrow>
          if (case t of None \<Rightarrow> False | Some x \<Rightarrow> trip_is_international x)
          then Inl (ApiError ''international_iva_rate_unconfirmed'' 422)
          else Inr (16/100, ''standard_16''))"

section \<open>Margin governance\<close>

definition margin_waiver :: string where
  "margin_waiver = ''negative_margin_approved''"

definition create_billing_waiver :: "id \<Rightarrow> id \<Rightarrow> string \<Rightarrow> timestamp \<Rightarrow> db \<Rightarrow> (waiver \<times> db) res" where
  "create_billing_waiver tenant tid reason now d =
     rbind (require_trip tenant tid d) (\<lambda>_.
       if list_ex (\<lambda>w. wai_tenant w = tenant \<and> wai_entity w = tid \<and> wai_type w = margin_waiver
            \<and> wai_status w = ''pending_approval'') (waivers d)
       then Inl (ApiError ''waiver_already_pending'' 409)
       else
         (let (i, d1) = fresh_id d;
              w = \<lparr>wai_id = i, wai_tenant = tenant, wai_entity_type = ''trip'', wai_entity = tid,
                wai_type = margin_waiver, wai_reason = reason, wai_risk = ''medium'',
                wai_approved_by = None, wai_approved_at = now, wai_expires_at = None,
                wai_status = ''pending_approval''\<rparr>
          in Inr (w, d1\<lparr>waivers := tadd w (waivers d1)\<rparr>)))"

text \<open>Approval and rejection of a pending waiver share their guards.\<close>

definition pending_waiver :: "id \<Rightarrow> id \<Rightarrow> db \<Rightarrow> waiver res" where
  "pending_waiver tenant i d =
     (case List.find (\<lambda>w. wai_id w = i \<and> wai_tenant w = tenant \<and> wai_type w = margin_waiver) (waivers d) of
        None \<Rightarrow> Inl (ApiError ''waiver_not_found'' 404)
      | Some w \<Rightarrow> if wai_status w \<noteq> ''pending_approval''
                  then Inl (ApiError ''waiver_not_pending'' 409) else Inr w)"

definition approve_billing_waiver :: "id \<Rightarrow> id \<Rightarrow> id \<Rightarrow> timestamp \<Rightarrow> db \<Rightarrow> (waiver \<times> db) res" where
  "approve_billing_waiver tenant i approver now d =
     rbind (pending_waiver tenant i d) (\<lambda>w.
       let w' = w\<lparr>wai_status := ''active'', wai_approved_by := Some approver, wai_approved_at := now\<rparr>
       in Inr (w', d\<lparr>waivers := tput wai_id w' (waivers d)\<rparr>))"

definition reject_billing_waiver :: "id \<Rightarrow> id \<Rightarrow> id \<Rightarrow> db \<Rightarrow> (waiver \<times> db) res" where
  "reject_billing_waiver tenant i rejector d =
     rbind (pending_waiver tenant i d) (\<lambda>w.
       let w' = w\<lparr>wai_status := ''rejected'', wai_approved_by := Some rejector\<rparr>
       in Inr (w', d\<lparr>waivers := tput wai_id w' (waivers d)\<rparr>))"

definition require_margin_governance :: "id \<Rightarrow> trip \<Rightarrow> timestamp \<Rightarrow> db \<Rightarrow> unit res" where
  "require_margin_governance tenant t now d =
     (if trip_reconciled_at t = None \<or> 0 \<le> trip_margin t then Inr ()
      else if has_active_waiver tenant ''trip'' (trip_id t) margin_waiver now d then Inr ()
      else Inl (ApiError ''negative_margin_requires_approval'' 409))"

section \<open>Fiscal numbers\<close>

definition profile_of :: "id \<Rightarrow> db \<Rightarrow> doc_profile option" where
  "profile_of tenant d = List.find (\<lambda>p. prof_tenant p = tenant) (profiles d)"

definition fiscal_year :: "billing_doc \<Rightarrow> int" where
  "fiscal_year b = year_of (bill_period_start b)"

definition series_type :: "doc_profile option \<Rightarrow> billing_doc \<Rightarrow> string" where
  "series_type p b = (case p of None \<Rightarrow> [] | Some p \<Rightarrow> if prof_per_type p then bill_type b else [])"

definition is_counter :: "id \<Rightarrow> int \<Rightarrow> string \<Rightarrow> fiscal_counter \<Rightarrow> bool" where
  "is_counter tenant y ty c \<longleftrightarrow> ctr_tenant c = tenant \<and> ctr_year c = y \<and> ctr_type c = ty"

text \<open>
  The row is inserted unless it is there, then locked and incremented. \<open>counter_value\<close> reads it.
\<close>

definition ensure_counter :: "id \<Rightarrow> int \<Rightarrow> string \<Rightarrow> fiscal_counter list \<Rightarrow> fiscal_counter list" where
  "ensure_counter tenant y ty cs =
     (if list_ex (is_counter tenant y ty) cs then cs
      else cs @ [\<lparr>ctr_tenant = tenant, ctr_year = y, ctr_type = ty, ctr_last = 0\<rparr>])"

definition counter_value :: "id \<Rightarrow> int \<Rightarrow> string \<Rightarrow> fiscal_counter list \<Rightarrow> nat" where
  "counter_value tenant y ty cs =
     (case List.find (is_counter tenant y ty) cs of None \<Rightarrow> 0 | Some c \<Rightarrow> ctr_last c)"

definition bump_counter :: "id \<Rightarrow> int \<Rightarrow> string \<Rightarrow> fiscal_counter list \<Rightarrow> fiscal_counter list" where
  "bump_counter tenant y ty cs =
     map (\<lambda>c. if is_counter tenant y ty c then c\<lparr>ctr_last := Suc (ctr_last c)\<rparr> else c)
       (ensure_counter tenant y ty cs)"

definition format_number :: "doc_profile option \<Rightarrow> int \<Rightarrow> nat \<Rightarrow> string" where
  "format_number p y n =
     (let prefix = (case p of None \<Rightarrow> [] | Some p \<Rightarrow> strip (prof_prefix p));
          padding = (case p of None \<Rightarrow> 4 | Some p \<Rightarrow> prof_padding p);
          seq = zfill padding (show_nat n)
      in if prefix \<noteq> [] then prefix @ '' '' @ show_int y @ ''/'' @ seq
         else show_int y @ ''/'' @ seq)"

definition put_bill :: "billing_doc \<Rightarrow> db \<Rightarrow> db" where
  "put_bill b d = d\<lparr>bills := tput bill_id b (bills d)\<rparr>"

definition assign_invoice_number :: "billing_doc \<Rightarrow> id \<Rightarrow> db \<Rightarrow> billing_doc \<times> db" where
  "assign_invoice_number b tenant d =
     (if truthy (bill_number b) then (b, d)
      else
        (let p = profile_of tenant d; y = fiscal_year b; ty = series_type p b;
             cs = bump_counter tenant y ty (counters d);
             b' = b\<lparr>bill_number := Some (format_number p y (counter_value tenant y ty cs))\<rparr>
         in (b', put_bill b' (d\<lparr>counters := cs\<rparr>))))"

section \<open>The issuer on the document\<close>

text \<open>An em dash, in UTF-8.\<close>

definition em_dash :: string where
  "em_dash = [CHR 0xE2, CHR 0x80, CHR 0x94]"

definition format_address :: "doc_profile \<Rightarrow> string" where
  "format_address p =
     join '', '' (List.map_filter (\<lambda>x. if truthy x then x else None) [prof_address1 p, prof_address2 p]
       @ (if truthy (prof_city p)
          then [the (prof_city p) @ (if prof_country p \<noteq> [] then '' '' @ em_dash @ '' '' @ prof_country p else [])]
          else []))"

definition bank_details :: "doc_profile \<Rightarrow> string option \<Rightarrow> string" where
  "bank_details p issuer =
     (let legal = the (or_str (prof_legal_name p) (or_str issuer (Some em_dash)))
      in ''Banco '' @ or_else (prof_bank_name p) [] @ '' | Titular: '' @ legal
         @ '' | Conta: '' @ the (or_str (prof_bank_account p) (Some em_dash))
         @ '' | NIB: '' @ the (or_str (prof_bank_nib p) (Some em_dash)))"

definition snapshot_profile :: "billing_doc \<Rightarrow> id \<Rightarrow> db \<Rightarrow> billing_doc" where
  "snapshot_profile b tenant d =
     (case profile_of tenant d of
        None \<Rightarrow> b
      | Some p \<Rightarrow>
          (let a = format_address p;
               b1 = b\<lparr>bill_issuer_address := (if a \<noteq> [] then Some a else None),
                 bill_issuer_phone := prof_phone p, bill_issuer_email := prof_email p,
                 bill_issuer_city := prof_city p,
                 bill_payment_conditions := Some (prof_payment_conditions p)\<rparr>
           in if prof_show_bank p \<and> truthy (prof_bank_name p)
              then b1\<lparr>bill_issuer_bank := Some (bank_details p (bill_issuer_name b))\<rparr> else b1))"

text \<open>The check constraints of documents and items.\<close>

definition bill_checks :: "billing_doc \<Rightarrow> bool" where
  "bill_checks b \<longleftrightarrow> 0 \<le> bill_subtotal b \<and> 0 \<le> bill_tax b \<and> 0 \<le> bill_total b
     \<and> (case bill_iva_rate b of None \<Rightarrow> True | Some r \<Rightarrow> 0 \<le> r \<and> r \<le> 1)"

definition bill_item_checks :: "billing_item \<Rightarrow> bool" where
  "bill_item_checks x \<longleftrightarrow> (case item_quantity x of None \<Rightarrow> True | Some q \<Rightarrow> 0 \<le> q)
     \<and> (case item_unit_price x of None \<Rightarrow> True | Some q \<Rightarrow> 0 \<le> q) \<and> 0 \<le> item_amount x
     \<and> (case item_iva_rate x of None \<Rightarrow> True | Some r \<Rightarrow> 0 \<le> r \<and> r \<le> 1)
     \<and> (case item_iva_amount x of None \<Rightarrow> True | Some q \<Rightarrow> 0 \<le> q)"

definition flush_bills :: "db \<Rightarrow> db res" where
  "flush_bills d = (if list_all bill_checks (bills d) \<and> list_all bill_item_checks (items d)
     then Inr d else Inl (PyError ''IntegrityError''))"

section \<open>Drafts\<close>

text \<open>A new document with the defaults of its columns.\<close>

definition new_bill :: "id \<Rightarrow> id \<Rightarrow> string \<Rightarrow> timestamp \<Rightarrow> timestamp \<Rightarrow> billing_doc" where
  "new_bill i tenant client s e =
     \<lparr>bill_id = i, bill_tenant = tenant, bill_contract = None, bill_client = None,
      bill_client_name = client, bill_contract_reference = None, bill_period_start = s,
      bill_period_end = e, bill_currency = ''MZN'', bill_subtotal = 0, bill_tax = 0, bill_total = 0,
      bill_status = D_draft, bill_issued_at = None, bill_paid_at = None, bill_due = None,
      bill_overdue_since = None, bill_cancellation = None, bill_number = None, bill_iva_rate = None,
      bill_iva_basis = None, bill_type = ''invoice'', bill_parent = None, bill_client_nuit = None,
      bill_issuer_name = None, bill_issuer_nuit = None, bill_parent_number = None,
      bill_issuer_address = None, bill_issuer_phone = None, bill_issuer_email = None,
      bill_issuer_city = None, bill_issuer_bank = None, bill_payment_conditions = None, bill_source = ''transport'',
      bill_reception = None, bill_quote = None\<rparr>"

record bill_create =
  bc_contract :: "id option"
  bc_start :: timestamp
  bc_end :: timestamp
  bc_currency :: string
  bc_trips :: "id list"
  bc_nuit :: "string option"

text \<open>The newest of the rows of a query, by a date, the first one on ties.\<close>

fun newest :: "('r \<Rightarrow> int) \<Rightarrow> 'r list \<Rightarrow> 'r option" where
  "newest f [] = None"
| "newest f (x # xs) = (case newest f xs of None \<Rightarrow> Some x | Some y \<Rightarrow> if f x < f y then Some y else Some x)"

definition billable_proof :: "id \<Rightarrow> id \<Rightarrow> db \<Rightarrow> delivery_proof option" where
  "billable_proof tenant tid d =
     newest prf_delivered_at (filter (\<lambda>p. prf_tenant p = tenant \<and> prf_trip p = tid
       \<and> prf_status p \<in> set billable_proof_statuses) (proofs d))"

text \<open>The last row added, as \<^verbatim>\<open>order_by(created_at.desc())\<close>.\<close>

definition last_id :: "('r \<Rightarrow> id) \<Rightarrow> ('r \<Rightarrow> bool) \<Rightarrow> 'r list \<Rightarrow> id option" where
  "last_id key P t = map_option key (List.find P (rev t))"

definition draft_item :: "id \<Rightarrow> contract \<Rightarrow> billing_doc \<Rightarrow> trip \<Rightarrow> delivery_proof \<Rightarrow> dec \<Rightarrow> string \<Rightarrow> id
    \<Rightarrow> db \<Rightarrow> billing_item" where
  "draft_item tenant con b t p rate basis i d =
     (let amount = or_else (con_unit_price con) 0;
          tid = trip_id t
      in \<lparr>item_id = i, item_tenant = tenant, item_contract = Some (con_id con), item_doc = bill_id b,
          item_trip = Some tid,
          item_permit = last_id per_id (\<lambda>x. per_tenant x = tenant \<and> per_trip x = tid) (permits d),
          item_manifest = last_id man_id (\<lambda>x. man_tenant x = tenant \<and> man_trip x = tid) (manifests d),
          item_transport = last_id tdoc_id (\<lambda>x. tdoc_tenant x = tenant \<and> tdoc_trip x = tid) (transport_docs d),
          item_proof = Some (prf_id p), item_origin = Some (trip_origin t),
          item_destination = Some (trip_destination t), item_delivered_at = prf_delivered_at p,
          item_quantity = prf_quantity p, item_unit_price = con_unit_price con, item_amount = amount,
          item_status = ''draft'', item_iva_rate = Some rate, item_iva_basis = Some basis,
          item_iva_amount = Some (q2 (amount * rate)), item_work_order = None, item_source = ''transport''\<rparr>)"

text \<open>The body of the loop over the trips of the request.\<close>

definition add_trip_item :: "id \<Rightarrow> contract \<Rightarrow> billing_doc \<Rightarrow> timestamp \<Rightarrow> id \<Rightarrow> billing_item list \<times> db
    \<Rightarrow> (billing_item list \<times> db) res" where
  "add_trip_item tenant con b now tid = (\<lambda>(xs, d).
     rbind (require_trip tenant tid d) (\<lambda>t.
     if trip_contract t \<noteq> Some (con_id con) then Inl (ApiError ''trip_contract_mismatch'' 409)
     else if trip_billing t \<noteq> B_billable then Inl (ApiError ''trip_not_billable'' 409)
     else rbind (require_margin_governance tenant t now d) (\<lambda>_.
     case billable_proof tenant tid d of
       None \<Rightarrow> Inl (ApiError ''delivery_proof_required'' 409)
     | Some p \<Rightarrow>
         if \<not> (bill_period_start b \<le> prf_delivered_at p \<and> prf_delivered_at p < bill_period_end b)
         then Inl (ApiError ''trip_outside_billing_period'' 409)
         else rbind (resolve_iva (Some t) (Some con)) (\<lambda>(rate, basis).
           let (i, d1) = fresh_id d;
               x = draft_item tenant con b t p rate basis i d;
               t' = t\<lparr>trip_billing := B_billing_draft, trip_document := Some (bill_id b)\<rparr>
           in Inr (xs @ [x], put_trip t' (d1\<lparr>items := tadd x (items d1)\<rparr>))))))"

definition audit_items :: "id \<Rightarrow> string \<Rightarrow> billing_item list \<Rightarrow> db \<Rightarrow> db" where
  "audit_items tenant action xs d =
     foldl (\<lambda>d x. record_audit_log tenant None action ''billing_item'' (Some (item_id x)) d) d xs"

definition draft_bill :: "id \<Rightarrow> id \<Rightarrow> contract \<Rightarrow> bill_create \<Rightarrow> db \<Rightarrow> billing_doc" where
  "draft_bill tenant i con p d =
     (let ten = tget ten_id tenant (tenants d)
      in snapshot_profile
           ((new_bill i tenant (con_client_name con) (bc_start p) (bc_end p))
              \<lparr>bill_contract := Some (con_id con),
               bill_contract_reference := Some (con_reference con),
               bill_currency := bc_currency p, bill_client_nuit := bc_nuit p,
               bill_issuer_name := Some (case ten of None \<Rightarrow> ''ROTAS'' | Some x \<Rightarrow> ten_name x),
               bill_issuer_nuit := Option.bind ten ten_nuit\<rparr>) tenant d)"

definition create_document :: "id \<Rightarrow> bill_create \<Rightarrow> timestamp \<Rightarrow> db \<Rightarrow> (billing_doc \<times> billing_item list \<times> db) res" where
  "create_document tenant p now d =
     (case bc_contract p of
        None \<Rightarrow> Inl (ApiError ''contract_required'' 422)
      | Some c \<Rightarrow>
          rbind (of_opt (ApiError ''contract_not_found'' 404)
                   (owned con_id con_tenant tenant c (contracts d))) (\<lambda>con.
          let (i, d1) = fresh_id d;
              b0 = draft_bill tenant i con p d
          in rbind (rfold (add_trip_item tenant con b0 now) (bc_trips p)
                      ([], d1\<lparr>bills := tadd b0 (bills d1)\<rparr>)) (\<lambda>(xs, d2).
             let total = (\<Sum>x\<leftarrow>xs. item_amount x);
                 b = b0\<lparr>bill_subtotal := total, bill_total := total\<rparr>
             in rbind (flush_bills (put_bill b d2)) (\<lambda>d3.
                rbind (flush_trips d3) (\<lambda>d4.
                Inr (b, xs, audit_items tenant ''billing.item_created'' xs
                       (record_audit_log tenant None ''billing.document_created'' ''billing_document''
                          (Some i) d4)))))))"

definition doc_items :: "id \<Rightarrow> id \<Rightarrow> db \<Rightarrow> billing_item list" where
  "doc_items tenant i d = filter (\<lambda>x. item_tenant x = tenant \<and> item_doc x = i) (items d)"

definition get_document :: "id \<Rightarrow> id \<Rightarrow> db \<Rightarrow> (billing_doc \<times> billing_item list) res" where
  "get_document tenant i d =
     (case owned bill_id bill_tenant tenant i (bills d) of
        None \<Rightarrow> Inl (ApiError ''billing_document_not_found'' 404)
      | Some b \<Rightarrow> Inr (b, sort_key item_delivered_at (doc_items tenant i d)))"

section \<open>Issuing\<close>

definition rate_of_items :: "billing_item list \<Rightarrow> dec option" where
  "rate_of_items xs =
     (case remdups (List.map_filter item_iva_rate xs) of [r] \<Rightarrow> Some r | _ \<Rightarrow> None)"

definition payment_terms :: "id option \<Rightarrow> db \<Rightarrow> int" where
  "payment_terms c d =
     (case Option.bind c (\<lambda>i. tget con_id i (contracts d)) of
        None \<Rightarrow> 30 | Some con \<Rightarrow> if con_terms_days con = 0 then 30 else con_terms_days con)"

text \<open>FISC-02: the totals of the document from its items.\<close>

definition recompute_totals :: "billing_item list \<Rightarrow> billing_doc \<Rightarrow> billing_doc" where
  "recompute_totals xs b =
     (let sub = q2 (\<Sum>x\<leftarrow>xs. item_amount x);
          tax = q2 (\<Sum>x\<leftarrow>xs. or_else (item_iva_amount x) 0)
      in b\<lparr>bill_subtotal := sub, bill_tax := tax, bill_total := q2 (sub + tax),
           bill_iva_rate := rate_of_items xs\<rparr>)"

text \<open>An item and its trip become billed; a trip of another tenant is left alone.\<close>

definition bill_item :: "id \<Rightarrow> id \<Rightarrow> timestamp \<Rightarrow> billing_item \<Rightarrow> db \<Rightarrow> db" where
  "bill_item tenant i at_time x d =
     (let d1 = d\<lparr>items := tput item_id (x\<lparr>item_status := ''billed''\<rparr>) (items d)\<rparr>
      in case Option.bind (item_trip x) (\<lambda>t. owned trip_id trip_tenant tenant t (trips d1)) of
           None \<Rightarrow> d1
         | Some t \<Rightarrow> put_trip (t\<lparr>trip_billing := B_billed, trip_billed_at := Some at_time,
                                 trip_document := Some i\<rparr>) d1)"

definition account_like :: "id \<Rightarrow> string \<Rightarrow> db \<Rightarrow> account option" where
  "account_like tenant prefix d =
     List.find (\<lambda>a. acc_tenant a = tenant \<and> take (length prefix) (acc_code a) = prefix) (accounts d)"

text \<open>The hook that posts the sale, when the chart has the two accounts.\<close>

definition post_sale :: "id \<Rightarrow> billing_doc \<Rightarrow> timestamp \<Rightarrow> db \<Rightarrow> db res" where
  "post_sale tenant b now d =
     (if bill_total b \<le> 0 then Inr d
      else case (account_like tenant ''411'' d, account_like tenant ''711'' d) of
        (Some ac, Some asl) \<Rightarrow>
          rbind (journal_payload
            [\<lparr>jl_account = Some (acc_id ac), jl_code = None, jl_debit = bill_total b, jl_credit = 0,
              jl_third_party = None, jl_vehicle = None, jl_trip = None\<rparr>,
             \<lparr>jl_account = Some (acc_id asl), jl_code = None, jl_debit = 0, jl_credit = bill_total b,
              jl_third_party = None, jl_vehicle = None, jl_trip = None\<rparr>]) (\<lambda>ls.
          rbind (create_journal_entry tenant ''VEN'' now None ls None None d) (\<lambda>(_, d1). Inr d1))
      | _ \<Rightarrow> Inr d)"

definition audit_billed :: "id \<Rightarrow> billing_item list \<Rightarrow> db \<Rightarrow> db" where
  "audit_billed tenant xs d =
     foldl (\<lambda>d x. let d1 = record_audit_log tenant None ''billing.item_billed'' ''billing_item''
                            (Some (item_id x)) d
                  in if Option.bind (item_trip x) (\<lambda>t. owned trip_id trip_tenant tenant t (trips d1)) \<noteq> None
                     then record_audit_log tenant None ''trip.billing_finalized'' ''trip'' (item_trip x) d1
                     else d1) d xs"

text \<open>
  The body of \<^verbatim>\<open>issue_document\<close> from the query of the items on, as its statements are written,
  with the names \<^verbatim>\<open>select\<close> and \<^verbatim>\<open>datetime\<close> taken for the imports of the module.
\<close>

definition issue_draft :: "id \<Rightarrow> billing_doc \<Rightarrow> timestamp option \<Rightarrow> timestamp \<Rightarrow> db
    \<Rightarrow> (billing_doc \<times> billing_item list \<times> db) res" where
  "issue_draft tenant b0 issued now d =
     (let xs = doc_items tenant (bill_id b0) d
      in if xs = [] then Inl (ApiError ''empty_billing_document'' 409)
         else if \<not> truthy (bill_client_nuit b0) \<or> strip (or_else (bill_client_nuit b0) []) = []
         then Inl (ApiError ''client_nuit_required'' 422)
         else
           (let t = or_else issued now;
                (b1, d1) = assign_invoice_number
                   (b0\<lparr>bill_due := Some (add_days t (payment_terms (bill_contract b0) d))\<rparr>) tenant d;
                b = (recompute_totals xs b1)\<lparr>bill_status := D_issued, bill_issued_at := Some t\<rparr>;
                d2 = foldl (\<lambda>d x. bill_item tenant (bill_id b) t x d) (put_bill b d1) xs
            in rbind (flush_bills d2) (\<lambda>d3.
               rbind (post_sale tenant b now d3) (\<lambda>d4.
               rbind (flush_journal d4) (\<lambda>d5.
               Inr (b, sort_key item_delivered_at (doc_items tenant (bill_id b) d5),
                    audit_billed tenant xs (record_audit_log tenant None ''billing.document_issued''
                       ''billing_document'' (Some (bill_id b)) d5)))))))"

text \<open>
  \<^verbatim>\<open>issue_document\<close> imports \<^verbatim>\<open>select\<close> and \<^verbatim>\<open>datetime\<close> inside its own body, further down, which makes
  both names local to the whole function: the query of the items, the first statement a draft
  reaches after the guards, reads \<^verbatim>\<open>select\<close> before it is assigned. \<open>issue_draft\<close> is what comes
  after it, and is never reached.
\<close>

definition issue_document :: "id \<Rightarrow> id \<Rightarrow> timestamp option \<Rightarrow> timestamp \<Rightarrow> db
    \<Rightarrow> (billing_doc \<times> billing_item list \<times> db) res" where
  "issue_document tenant i issued now d =
     (case owned bill_id bill_tenant tenant i (bills d) of
        None \<Rightarrow> Inl (ApiError ''billing_document_not_found'' 404)
      | Some b \<Rightarrow>
          if bill_status b = D_issued
          then rbind (get_document tenant i d) (\<lambda>(b, xs). Inr (b, xs, d))
          else if bill_status b \<noteq> D_draft
          then Inl (ApiError ''invalid_billing_document_status'' 409)
          else Inl (PyError ''UnboundLocalError''))"

section \<open>SM-01\<close>

fun bill_transitions :: "bill_status \<Rightarrow> bill_status list" where
  "bill_transitions D_draft = [D_issued, D_cancelled]"
| "bill_transitions D_issued = [D_paid, D_overdue]"
| "bill_transitions D_overdue = [D_paid, D_cancelled]"
| "bill_transitions D_paid = []"
| "bill_transitions D_cancelled = []"

fun show_status :: "bill_status \<Rightarrow> string" where
  "show_status D_draft = ''draft''"
| "show_status D_issued = ''issued''"
| "show_status D_paid = ''paid''"
| "show_status D_overdue = ''overdue''"
| "show_status D_cancelled = ''cancelled''"

definition transition_billing_document :: "billing_doc \<Rightarrow> bill_status \<Rightarrow> id \<Rightarrow> id \<Rightarrow> timestamp option
    \<Rightarrow> string option \<Rightarrow> timestamp \<Rightarrow> db \<Rightarrow> (billing_doc \<times> db) res" where
  "transition_billing_document b st user tenant paid reason now d =
     (if st \<notin> set (bill_transitions (bill_status b))
      then Inl (ApiError ''invalid_state_transition'' 409)
      else if st = D_cancelled \<and> \<not> truthy reason
      then Inl (ApiError ''cancellation_reason_required'' 422)
      else
        (let b1 = b\<lparr>bill_status := st\<rparr>;
             b2 = (case st of
                 D_paid \<Rightarrow> b1\<lparr>bill_paid_at := Some (or_else paid now)\<rparr>
               | D_overdue \<Rightarrow> b1\<lparr>bill_overdue_since := Some now\<rparr>
               | D_cancelled \<Rightarrow> b1\<lparr>bill_cancellation := reason\<rparr>
               | _ \<Rightarrow> b1)
         in Inr (b2, record_audit_log tenant (Some user) (''billing.document.'' @ show_status st)
                       ''billing_document'' (Some (bill_id b)) (put_bill b2 d))))"

definition mark_billing_document_paid :: "id \<Rightarrow> id \<Rightarrow> id \<Rightarrow> timestamp option \<Rightarrow> timestamp \<Rightarrow> db
    \<Rightarrow> (billing_doc \<times> db) res" where
  "mark_billing_document_paid i tenant user paid now d =
     rbind (of_opt (ApiError ''not_found'' 404) (owned bill_id bill_tenant tenant i (bills d))) (\<lambda>b.
       transition_billing_document b D_paid user tenant paid None now d)"

definition cancel_billing_document :: "id \<Rightarrow> id \<Rightarrow> id \<Rightarrow> string \<Rightarrow> timestamp \<Rightarrow> db \<Rightarrow> (billing_doc \<times> db) res" where
  "cancel_billing_document i tenant user reason now d =
     rbind (of_opt (ApiError ''not_found'' 404) (owned bill_id bill_tenant tenant i (bills d))) (\<lambda>b.
       transition_billing_document b D_cancelled user tenant None (Some reason) now d)"

text \<open>
  The daily job of the worker: every issued document of every tenant whose billing period is over
  becomes overdue, in one update.
\<close>

definition mark_overdue :: "timestamp \<Rightarrow> billing_doc \<Rightarrow> billing_doc" where
  "mark_overdue now b =
     (if bill_status b = D_issued \<and> bill_period_end b < now
      then b\<lparr>bill_status := D_overdue, bill_overdue_since := Some now\<rparr> else b)"

definition task_mark_overdue_billing_documents :: "timestamp \<Rightarrow> db \<Rightarrow> nat \<times> db" where
  "task_mark_overdue_billing_documents now d =
     (length (filter (\<lambda>b. bill_status b = D_issued \<and> bill_period_end b < now) (bills d)),
      d\<lparr>bills := map (mark_overdue now) (bills d)\<rparr>)"

section \<open>Notes and receipts\<close>

text \<open>The columns a child document copies from its parent.\<close>

definition child_bill :: "id \<Rightarrow> billing_doc \<Rightarrow> string \<Rightarrow> timestamp \<Rightarrow> billing_doc" where
  "child_bill i b ty now =
     (new_bill i (bill_tenant b) (bill_client_name b) (bill_period_start b) (bill_period_end b))
       \<lparr>bill_contract := bill_contract b, bill_client := bill_client b,
        bill_client_nuit := bill_client_nuit b, bill_contract_reference := bill_contract_reference b,
        bill_currency := bill_currency b, bill_type := ty, bill_parent := Some (bill_id b),
        bill_parent_number := bill_number b, bill_issuer_name := bill_issuer_name b,
        bill_issuer_nuit := bill_issuer_nuit b, bill_status := D_issued,
        bill_issued_at := Some now\<rparr>"

text \<open>Insert a child document, copy the profile and number it.\<close>

definition insert_child :: "id \<Rightarrow> billing_doc \<Rightarrow> db \<Rightarrow> (billing_doc \<times> db) res" where
  "insert_child tenant b d =
     rbind (flush_bills (d\<lparr>bills := tadd b (bills d)\<rparr>)) (\<lambda>d1.
       let b1 = snapshot_profile b tenant d1
       in Inr (assign_invoice_number b1 tenant (put_bill b1 d1)))"

text \<open>
  Debit and credit notes differ in their type only; their audit row is added after the commit and
  is lost with the session.
\<close>

definition create_note :: "string \<Rightarrow> id \<Rightarrow> id \<Rightarrow> dec \<Rightarrow> dec option \<Rightarrow> timestamp \<Rightarrow> db \<Rightarrow> (billing_doc \<times> db) res" where
  "create_note ty tenant parent amount rate now d =
     rbind (of_opt (ApiError ''parent_not_found'' 404) (owned bill_id bill_tenant tenant parent (bills d))) (\<lambda>b.
       if bill_status b \<notin> {D_issued, D_paid} then Inl (ApiError ''parent_not_issued'' 409)
       else rbind (resolve_iva None None) (\<lambda>(r0, basis0).
         let r = or_else rate r0; iva = q2 (amount * r); (i, d1) = fresh_id d
         in insert_child tenant ((child_bill i b ty now)
              \<lparr>bill_subtotal := column 2 amount, bill_tax := iva, bill_total := column 2 (amount + iva),
               bill_iva_rate := Some (column 4 r),
               bill_iva_basis := Some (if rate \<noteq> None then ''contract_override'' else basis0)\<rparr>) d1))"

definition create_debit_note :: "id \<Rightarrow> id \<Rightarrow> dec \<Rightarrow> dec option \<Rightarrow> timestamp \<Rightarrow> db \<Rightarrow> (billing_doc \<times> db) res" where
  "create_debit_note = create_note ''debit_note''"

definition create_credit_note :: "id \<Rightarrow> id \<Rightarrow> dec \<Rightarrow> dec option \<Rightarrow> timestamp \<Rightarrow> db \<Rightarrow> (billing_doc \<times> db) res" where
  "create_credit_note = create_note ''credit_note''"

definition create_invoice_receipt :: "id \<Rightarrow> id \<Rightarrow> timestamp \<Rightarrow> db \<Rightarrow> (billing_doc \<times> billing_doc \<times> db) res" where
  "create_invoice_receipt tenant parent now d =
     rbind (of_opt (ApiError ''parent_not_found'' 404) (owned bill_id bill_tenant tenant parent (bills d))) (\<lambda>b.
       if bill_status b \<notin> {D_issued, D_overdue} then Inl (ApiError ''parent_not_issued'' 409)
       else
         (let (i, d1) = fresh_id d
          in rbind (insert_child tenant ((child_bill i b ''invoice_receipt'' now)
               \<lparr>bill_subtotal := bill_subtotal b, bill_tax := bill_tax b, bill_total := bill_total b,
                bill_iva_rate := bill_iva_rate b\<rparr>) d1) (\<lambda>(n, d2).
             let b' = b\<lparr>bill_status := D_paid, bill_paid_at := Some now\<rparr>
             in Inr (n, b', record_audit_log tenant None ''billing.invoice_receipt_created''
                              ''billing_document'' (Some i) (put_bill b' d2)))))"

definition create_receipt :: "id \<Rightarrow> id \<Rightarrow> dec \<Rightarrow> timestamp \<Rightarrow> db \<Rightarrow> (billing_doc \<times> db) res" where
  "create_receipt tenant parent paid now d =
     rbind (of_opt (ApiError ''parent_not_found'' 404) (owned bill_id bill_tenant tenant parent (bills d))) (\<lambda>b.
       if bill_status b \<notin> {D_issued, D_overdue, D_paid} then Inl (ApiError ''parent_invalid_status'' 409)
       else
         (let (i, d1) = fresh_id d
          in rbind (insert_child tenant ((child_bill i b ''receipt'' now)
               \<lparr>bill_subtotal := column 2 paid, bill_total := column 2 paid\<rparr>) d1) (\<lambda>(n, d2).
             Inr (n, record_audit_log tenant None ''billing.receipt_created''
                       ''billing_document'' (Some i) d2))))"

section \<open>What a draft takes in\<close>

definition can_bill :: "id \<Rightarrow> contract \<Rightarrow> billing_doc \<Rightarrow> timestamp \<Rightarrow> db \<Rightarrow> trip \<Rightarrow> bool" where
  "can_bill tenant con b now d t \<longleftrightarrow>
     trip_tenant t = tenant \<and> trip_contract t = Some (con_id con) \<and> trip_billing t = B_billable
     \<and> \<not> trip_is_international t
     \<and> (trip_reconciled_at t = None \<or> 0 \<le> trip_margin t
        \<or> has_active_waiver tenant ''trip'' (trip_id t) margin_waiver now d)
     \<and> (\<exists>p\<in>set (proofs d). prf_tenant p = tenant \<and> prf_trip p = trip_id t
          \<and> prf_status p \<in> set billable_proof_statuses
          \<and> bill_period_start b \<le> prf_delivered_at p \<and> prf_delivered_at p < bill_period_end b)"

definition drafted :: "billing_doc \<Rightarrow> trip \<Rightarrow> trip" where
  "drafted b t = t\<lparr>trip_billing := B_billing_draft, trip_document := Some (bill_id b)\<rparr>"

definition item_of_trip :: "id \<Rightarrow> contract \<Rightarrow> billing_doc \<Rightarrow> billing_item \<Rightarrow> bool" where
  "item_of_trip tenant con b x \<longleftrightarrow> item_tenant x = tenant \<and> item_doc x = bill_id b
     \<and> item_amount x = or_else (con_unit_price con) 0
     \<and> item_iva_amount x = Some (q2 (item_amount x * (16/100))) \<and> item_status x = ''draft''"

lemma newest_mem: "newest f xs = Some x \<Longrightarrow> x \<in> set xs"
  by (induction xs arbitrary: x) (auto split: option.splits if_splits)

lemma resolve_iva_contract:
  "resolve_iva (Some t) (Some con) = (if trip_is_international t
     then Inl (ApiError ''international_iva_rate_unconfirmed'' 422) else Inr (16/100, ''standard_16''))"
  by (simp add: resolve_iva_def contract_iva_def)

lemma add_trip_item_Inr:
  assumes "add_trip_item tn con b now tid (xs, d) = Inr (xs', d')"
  obtains t y where "tget trip_id tid (trips d) = Some t" "can_bill tn con b now d t"
    "xs' = xs @ [y]" "item_trip y = Some tid" "item_of_trip tn con b y"
    "d' = d\<lparr>db_next := Suc (db_next d), items := items d @ [y], trips := tput trip_id (drafted b t) (trips d)\<rparr>"
proof -
  from assms obtain t where t: "require_trip tn tid d = Inr t"
    by (auto simp only: add_trip_item_def prod.case rbind_Inr)
  note r = assms [unfolded add_trip_item_def prod.case t rbind_simps]
  from r have g: "trip_contract t = Some (con_id con)" "trip_billing t = B_billable"
    "require_margin_governance tn t now d = Inr ()"
    by (auto simp: rbind_Inr split: if_splits)
  with r obtain p where p: "billable_proof tn tid d = Some p"
    "bill_period_start b \<le> prf_delivered_at p" "prf_delivered_at p < bill_period_end b"
    by (auto split: option.splits if_splits)
  with r g have int: "\<not> trip_is_international t"
    by (auto simp: resolve_iva_contract split: if_splits)
  from p(1) have pm: "p \<in> set (proofs d)" "prf_tenant p = tn" "prf_trip p = tid"
    "prf_status p \<in> set billable_proof_statuses"
    by (auto simp: billable_proof_def dest: newest_mem)
  have row: "tget trip_id tid (trips d) = Some t" "trip_tenant t = tn" "trip_id t = tid"
    using t require_trip_row [OF t] by (simp_all add: require_trip_Inr)
  define y where "y = draft_item tn con b t p (16/100) ''standard_16'' (db_next d) d"
  from r g p int have res: "xs' = xs @ [y]"
    "d' = d\<lparr>db_next := Suc (db_next d), items := items d @ [y], trips := tput trip_id (drafted b t) (trips d)\<rparr>"
    by (auto simp: resolve_iva_contract fresh_id_def tadd_def put_trip_def drafted_def y_def Let_def)
  have y: "item_trip y = Some tid" "item_of_trip tn con b y"
    using row(3) by (simp_all add: y_def draft_item_def item_of_trip_def Let_def)
  have "can_bill tn con b now d t"
    unfolding can_bill_def using row g int pm p(2,3)
    by (auto simp: require_margin_governance_def split: if_splits)
  from that [OF row(1) this res(1) y res(2)] show thesis .
qed

lemma add_trip_items_rows:
  assumes "rfold (add_trip_item tn con b now) ids (xs, d) = Inr (xs', d')"
  shows "\<exists>ys. xs' = xs @ ys \<and> items d' = items d @ ys \<and> map item_trip ys = map Some ids
    \<and> list_all (item_of_trip tn con b) ys \<and> distinct ids \<and> bills d' = bills d \<and> db_next d \<le> db_next d'
    \<and> proofs d' = proofs d \<and> waivers d' = waivers d
    \<and> (\<forall>i. i \<notin> set ids \<longrightarrow> tget trip_id i (trips d') = tget trip_id i (trips d))
    \<and> (\<forall>i\<in>set ids. \<exists>t. tget trip_id i (trips d) = Some t \<and> can_bill tn con b now d t
          \<and> tget trip_id i (trips d') = Some (drafted b t))"
  using assms
proof (induction ids arbitrary: xs d)
  case Nil
  then show ?case by simp
next
  case (Cons i ids)
  from Cons.prems obtain xs1 d1 where step: "add_trip_item tn con b now i (xs, d) = Inr (xs1, d1)"
    and rest: "rfold (add_trip_item tn con b now) ids (xs1, d1) = Inr (xs', d')"
    by (auto simp: rbind_Inr)
  from step obtain t y where t: "tget trip_id i (trips d) = Some t" "can_bill tn con b now d t"
    and y: "xs1 = xs @ [y]" "item_trip y = Some i" "item_of_trip tn con b y"
    and d1: "d1 = d\<lparr>db_next := Suc (db_next d), items := items d @ [y], trips := tput trip_id (drafted b t) (trips d)\<rparr>"
    by (rule add_trip_item_Inr)
  have tr: "tget trip_id j (trips d1) = (if j = i then Some (drafted b t) else tget trip_id j (trips d))" for j
    using t(1) tget_key [OF t(1)] by (simp add: d1 tget_tput drafted_def)
  have cb: "can_bill tn con b now d1 u = can_bill tn con b now d u" for u
    by (simp add: d1 can_bill_def has_active_waiver_def)
  from Cons.IH [OF rest] obtain ys where ys: "xs' = xs1 @ ys" "items d' = items d1 @ ys"
    "map item_trip ys = map Some ids" "list_all (item_of_trip tn con b) ys" "distinct ids"
    "bills d' = bills d1" "db_next d1 \<le> db_next d'" "proofs d' = proofs d1" "waivers d' = waivers d1"
    and out: "\<forall>j. j \<notin> set ids \<longrightarrow> tget trip_id j (trips d') = tget trip_id j (trips d1)"
    and ins: "\<forall>j\<in>set ids. \<exists>t. tget trip_id j (trips d1) = Some t \<and> can_bill tn con b now d1 t
          \<and> tget trip_id j (trips d') = Some (drafted b t)"
    by blast
  have new: "i \<notin> set ids"
  proof
    assume "i \<in> set ids"
    with ins tr have "can_bill tn con b now d1 (drafted b t)" by fastforce
    then show False by (simp add: can_bill_def drafted_def)
  qed
  show ?case
  proof (intro exI [of _ "y # ys"] conjI)
    show "\<forall>j. j \<notin> set (i # ids) \<longrightarrow> tget trip_id j (trips d') = tget trip_id j (trips d)"
      using out tr by simp
    show "\<forall>j\<in>set (i # ids). \<exists>t. tget trip_id j (trips d) = Some t \<and> can_bill tn con b now d t
          \<and> tget trip_id j (trips d') = Some (drafted b t)"
    proof
      fix j
      assume "j \<in> set (i # ids)"
      then show "\<exists>t. tget trip_id j (trips d) = Some t \<and> can_bill tn con b now d t
          \<and> tget trip_id j (trips d') = Some (drafted b t)"
        using ins tr t cb out new by (cases "j = i") auto
    qed
  qed (use ys y d1 new in auto)
qed

lemma audit_items_frame [simp]:
  "trips (audit_items tn a xs d) = trips d" "items (audit_items tn a xs d) = items d"
  "bills (audit_items tn a xs d) = bills d" "db_next (audit_items tn a xs d) = db_next d"
  unfolding audit_items_def by (induction xs arbitrary: d) simp_all

lemma snapshot_profile_simps [simp]:
  "bill_id (snapshot_profile b tn d) = bill_id b"
  "bill_tenant (snapshot_profile b tn d) = bill_tenant b"
  "bill_status (snapshot_profile b tn d) = bill_status b"
  "bill_number (snapshot_profile b tn d) = bill_number b"
  "bill_subtotal (snapshot_profile b tn d) = bill_subtotal b"
  "bill_tax (snapshot_profile b tn d) = bill_tax b"
  "bill_total (snapshot_profile b tn d) = bill_total b"
  "bill_period_start (snapshot_profile b tn d) = bill_period_start b"
  "bill_period_end (snapshot_profile b tn d) = bill_period_end b"
  "bill_type (snapshot_profile b tn d) = bill_type b"
  "bill_parent (snapshot_profile b tn d) = bill_parent b"
  "bill_contract (snapshot_profile b tn d) = bill_contract b"
  "bill_iva_rate (snapshot_profile b tn d) = bill_iva_rate b"
  by (simp_all add: snapshot_profile_def Let_def split: option.splits)

lemma items_total: "list_all (item_of_trip tn con b) ys
    \<Longrightarrow> (\<Sum>x\<leftarrow>ys. item_amount x) = of_nat (length ys) * or_else (con_unit_price con) 0"
  by (induction ys) (simp_all add: item_of_trip_def algebra_simps)

text \<open>
  C4: A draft takes in each trip of its request once, and only trips that can be billed: of the
  tenant and the contract, marked billable, domestic, with a margin that is not negative or was
  waived, and with a billable proof delivered within the period. Each becomes a billing draft of
  this document, no other trip changes, there is one item per trip at the contract's price, and
  the document totals its items.
\<close>

theorem create_document_bills_once:
  assumes "below bill_id (db_next d) (bills d)" and "create_document tn p now d = Inr (b, xs, d')"
  shows "\<exists>con. owned con_id con_tenant tn (the (bc_contract p)) (contracts d) = Some con
    \<and> bill_status b = D_draft \<and> bill_number b = None
    \<and> owned bill_id bill_tenant tn (bill_id b) (bills d') = Some b
    \<and> distinct (bc_trips p) \<and> map item_trip xs = map Some (bc_trips p) \<and> items d' = items d @ xs
    \<and> bill_total b = (\<Sum>x\<leftarrow>xs. item_amount x)
    \<and> bill_total b = of_nat (length (bc_trips p)) * or_else (con_unit_price con) 0
    \<and> (\<forall>i\<in>set (bc_trips p). \<exists>t. tget trip_id i (trips d) = Some t \<and> can_bill tn con b now d t
          \<and> tget trip_id i (trips d') = Some (drafted b t))
    \<and> (\<forall>i. i \<notin> set (bc_trips p) \<longrightarrow> tget trip_id i (trips d') = tget trip_id i (trips d))"
proof -
  from assms(2) obtain con where con: "owned con_id con_tenant tn (the (bc_contract p)) (contracts d) = Some con"
    by (auto simp: create_document_def rbind_Inr of_opt_Inr split: option.splits)
  define b0 where "b0 = draft_bill tn (db_next d) con p d"
  define e where "e = d\<lparr>db_next := Suc (db_next d), bills := bills d @ [b0]\<rparr>"
  have "\<exists>d2. rfold (add_trip_item tn con b0 now) (bc_trips p) ([], e) = Inr (xs, d2)
    \<and> b = b0\<lparr>bill_subtotal := (\<Sum>x\<leftarrow>xs. item_amount x), bill_total := (\<Sum>x\<leftarrow>xs. item_amount x)\<rparr>
    \<and> trips d' = trips d2 \<and> bills d' = tput bill_id b (bills d2) \<and> items d' = items d2"
    using assms(2) con
    by (auto simp: create_document_def rbind_Inr fresh_id_def tadd_def e_def b0_def Let_def
        flush_bills_def flush_trips_Inr of_opt_Inr put_bill_def split: option.splits if_splits)
  then obtain d2 where loop: "rfold (add_trip_item tn con b0 now) (bc_trips p) ([], e) = Inr (xs, d2)"
    and b: "b = b0\<lparr>bill_subtotal := (\<Sum>x\<leftarrow>xs. item_amount x), bill_total := (\<Sum>x\<leftarrow>xs. item_amount x)\<rparr>"
    and d': "trips d' = trips d2" "bills d' = tput bill_id b (bills d2)" "items d' = items d2"
    by blast
  from add_trip_items_rows [OF loop] obtain ys where ys: "xs = [] @ ys" "items d2 = items e @ ys"
    "map item_trip ys = map Some (bc_trips p)" "list_all (item_of_trip tn con b0) ys"
    "distinct (bc_trips p)" "bills d2 = bills e"
    and out: "\<forall>i. i \<notin> set (bc_trips p) \<longrightarrow> tget trip_id i (trips d2) = tget trip_id i (trips e)"
    and ins: "\<forall>i\<in>set (bc_trips p). \<exists>t. tget trip_id i (trips e) = Some t \<and> can_bill tn con b0 now e t
          \<and> tget trip_id i (trips d2) = Some (drafted b0 t)"
    by blast
  have cb: "can_bill tn con b0 now e t = can_bill tn con b now d t" "drafted b0 t = drafted b t" for t
    by (simp_all add: can_bill_def has_active_waiver_def drafted_def e_def b)
  have tot: "bill_total b = of_nat (length (bc_trips p)) * or_else (con_unit_price con) 0"
    using items_total [OF ys(4)] ys(1) arg_cong [OF ys(3), of length] by (simp add: b)
  have id: "bill_id b = db_next d" "bill_tenant b = tn" "bill_status b = D_draft" "bill_number b = None"
    by (simp_all add: b b0_def draft_bill_def new_bill_def Let_def)
  have "tget bill_id (db_next d) (bills d) = None"
    using below_fresh [OF assms(1)] by (simp add: tget_None)
  then have "tget bill_id (db_next d) (tput bill_id b (bills d @ [b0])) = Some b"
    using id(1) by (simp add: tget_tput tget_tadd [unfolded tadd_def] b split: option.splits)
  then have own: "owned bill_id bill_tenant tn (bill_id b) (bills d') = Some b"
    using id by (simp add: owned_Some d' ys(6) e_def)
  have tr: "trips d' = trips d2" "items d' = items d @ xs" "trips e = trips d"
    using ys(1,2) by (simp_all add: d' e_def)
  have tb: "bill_total b = (\<Sum>x\<leftarrow>xs. item_amount x)" by (simp add: b)
  show ?thesis
    using con id own ys(1,3,5) tr tot tb out ins
    by (intro exI [of _ con]) (simp add: cb)
qed

definition sample_contract :: contract where
  "sample_contract = \<lparr>con_id = 6, con_tenant = 2, con_client_name = ''Acme'', con_reference = ''C-6'',
     con_status = ''active'', con_billing_basis = ''per_trip'', con_unit_price = Some 1000,
     con_ends_at = None, con_paused_at = None, con_terminated_at = None, con_termination_reason = None,
     con_renewed_at = None, con_terms_days = 45\<rparr>"

definition billing_db :: db where
  "billing_db = cargo_db\<lparr>trips := [delivered_trip\<lparr>trip_billing := B_billable\<rparr>],
     proofs := [sample_proof\<lparr>prf_status := P_validated\<rparr>], contracts := [sample_contract]\<rparr>"

definition bill_request :: bill_create where
  "bill_request = \<lparr>bc_contract = Some 6, bc_start = 0, bc_end = 90, bc_currency = ''MZN'',
     bc_trips = [5], bc_nuit = Some ''123456789''\<rparr>"

lemmas billing_sample = billing_db_def bill_request_def sample_contract_def cargo_sample

lemmas create_document_defs = create_document_def draft_bill_def add_trip_item_def draft_item_def
  require_trip_def require_margin_governance_def billable_proof_def billable_proof_statuses_def
  resolve_iva_def contract_iva_def snapshot_profile_def profile_of_def put_bill_def put_trip_def
  flush_bills_def bill_checks_def bill_item_checks_def flush_trips_def last_id_def

lemma create_document_bills_once_witness:
  "\<exists>b xs d. create_document 2 bill_request 60 billing_db = Inr (b, xs, d)
     \<and> bill_total b = 1000 \<and> map item_trip xs = [Some 5]"
proof -
  have ok: "below bill_id (db_next billing_db) (bills billing_db)"
    by (simp add: below_def billing_sample)
  obtain b xs d where r: "create_document 2 bill_request 60 billing_db = Inr (b, xs, d)"
    by (simp add: create_document_defs owned_def constraint_defs trip_active_def
        active_trip_statuses_def new_bill_def fresh_id_def tadd_def billing_sample Let_def)
  have "owned con_id con_tenant 2 (the (bc_contract bill_request)) (contracts billing_db) = Some sample_contract"
    by (simp add: owned_def billing_sample)
  with create_document_bills_once [OF ok r] r show ?thesis
    by (auto simp: bill_request_def sample_contract_def)
qed

section \<open>Properties of the fiscal numbers\<close>

lemma counter_value_ensure: "counter_value tn y ty (ensure_counter tn y ty cs) = counter_value tn y ty cs"
proof (cases "list_ex (is_counter tn y ty) cs")
  case False
  then have "List.find (is_counter tn y ty) cs = None" by (simp add: find_None_iff list_ex_iff)
  with False show ?thesis
    by (simp add: ensure_counter_def counter_value_def find_app is_counter_def)
qed (simp add: ensure_counter_def)

lemma counter_value_ensure_other:
  "(tn, y, ty) \<noteq> (tn', y', ty') \<Longrightarrow>
     counter_value tn' y' ty' (ensure_counter tn y ty cs) = counter_value tn' y' ty' cs"
  by (auto simp: ensure_counter_def counter_value_def find_app is_counter_def split: option.splits)

lemma is_counter_last [simp]: "is_counter tn y ty (c\<lparr>ctr_last := n\<rparr>) = is_counter tn y ty c"
  by (simp add: is_counter_def)

lemma counter_value_bump:
  "counter_value tn y ty (bump_counter tn y ty cs) = Suc (counter_value tn y ty cs)"
proof -
  let ?cs = "ensure_counter tn y ty cs"
  have "List.find (is_counter tn y ty) ?cs \<noteq> None"
  proof -
    have "\<exists>c\<in>set ?cs. is_counter tn y ty c"
    proof (cases "list_ex (is_counter tn y ty) cs")
      case True
      then show ?thesis by (simp add: ensure_counter_def list_ex_iff)
    next
      case False
      then show ?thesis by (simp add: ensure_counter_def) (simp add: is_counter_def)
    qed
    then show ?thesis unfolding find_None_iff by blast
  qed
  then obtain c where c: "List.find (is_counter tn y ty) ?cs = Some c" by blast
  have "List.find (is_counter tn y ty) (bump_counter tn y ty cs) = Some (c\<lparr>ctr_last := Suc (ctr_last c)\<rparr>)"
    using c find_Some [OF c] unfolding bump_counter_def by (subst find_map_same) auto
  with c show ?thesis using counter_value_ensure [of tn y ty cs] by (simp add: counter_value_def)
qed

lemma counter_value_bump_other:
  assumes "(tn, y, ty) \<noteq> (tn', y', ty')"
  shows "counter_value tn' y' ty' (bump_counter tn y ty cs) = counter_value tn' y' ty' cs"
proof -
  let ?cs = "ensure_counter tn y ty cs"
  have "List.find (is_counter tn' y' ty') (bump_counter tn y ty cs) = List.find (is_counter tn' y' ty') ?cs"
  proof (cases "List.find (is_counter tn' y' ty') ?cs")
    case None
    then show ?thesis unfolding bump_counter_def by (subst find_map_same) auto
  next
    case (Some c)
    with assms find_Some [OF Some] have "\<not> is_counter tn y ty c" by (auto simp: is_counter_def)
    with Some show ?thesis unfolding bump_counter_def by (subst find_map_same) auto
  qed
  with counter_value_ensure_other [OF assms] show ?thesis by (simp add: counter_value_def)
qed

lemma format_number_inj: "format_number p y m = format_number p y n \<longleftrightarrow> m = n"
  by (simp add: format_number_def Let_def zfill_show_inj split: option.splits)

text \<open>Numbering one document after another, as a run of requests does.\<close>

fun assign_all :: "billing_doc list \<Rightarrow> id \<Rightarrow> db \<Rightarrow> billing_doc list \<times> db" where
  "assign_all [] tenant d = ([], d)"
| "assign_all (b # bs) tenant d =
     (let (b', d1) = assign_invoice_number b tenant d; (bs', d2) = assign_all bs tenant d1
      in (b' # bs', d2))"

lemma assign_fresh:
  assumes "\<not> truthy (bill_number b)" and "assign_invoice_number b tn d = (b', d')"
  shows "bill_number b' = Some (format_number (profile_of tn d) (fiscal_year b)
           (Suc (counter_value tn (fiscal_year b) (series_type (profile_of tn d) b) (counters d))))"
    and "counters d' = bump_counter tn (fiscal_year b) (series_type (profile_of tn d) b) (counters d)"
    and "profile_of tn d' = profile_of tn d"
    and "b' = b\<lparr>bill_number := bill_number b'\<rparr>"
    and "d' = d\<lparr>counters := counters d', bills := tput bill_id b' (bills d)\<rparr>"
  using assms by (auto simp: assign_invoice_number_def Let_def counter_value_bump put_bill_def profile_of_def)

text \<open>
  C13: Fiscal numbers are contiguous: a run of new documents of one series gets the next numbers of
  its counter, in order, without a gap and without a repetition, whatever prefix and padding the
  profile has; the counter ends at the last of them, the counters of the other series stay, and
  numbering a document again changes nothing.
\<close>

theorem fiscal_numbers_contiguous:
  assumes "\<forall>b\<in>set bs. \<not> truthy (bill_number b) \<and> fiscal_year b = y
      \<and> series_type (profile_of tn d) b = ty"
    and "assign_all bs tn d = (bs', d')"
  shows "map bill_number bs' = map (\<lambda>k. Some (format_number (profile_of tn d) y
           (counter_value tn y ty (counters d) + k))) [1..<length bs + 1]
    \<and> distinct (map bill_number bs')
    \<and> counter_value tn y ty (counters d') = counter_value tn y ty (counters d) + length bs
    \<and> (\<forall>tn' y' ty'. (tn, y, ty) \<noteq> (tn', y', ty')
         \<longrightarrow> counter_value tn' y' ty' (counters d') = counter_value tn' y' ty' (counters d))
    \<and> (\<forall>b\<in>set bs'. assign_invoice_number b tn d' = (b, d'))"
proof -
  have run: "map bill_number bs' = map (\<lambda>k. Some (format_number (profile_of tn d) y
           (counter_value tn y ty (counters d) + k))) [1..<length bs + 1]
    \<and> counter_value tn y ty (counters d') = counter_value tn y ty (counters d) + length bs
    \<and> (\<forall>tn' y' ty'. (tn, y, ty) \<noteq> (tn', y', ty')
         \<longrightarrow> counter_value tn' y' ty' (counters d') = counter_value tn' y' ty' (counters d))"
    using assms
  proof (induction bs arbitrary: bs' d)
    case Nil
    then show ?case by simp
  next
    case (Cons b bs)
    from Cons.prems(2) obtain b1 d1 bs1 where s: "assign_invoice_number b tn d = (b1, d1)"
        "assign_all bs tn d1 = (bs1, d')" "bs' = b1 # bs1"
      by (auto simp: Let_def split: prod.splits)
    from Cons.prems(1) have b: "\<not> truthy (bill_number b)" "fiscal_year b = y"
      "series_type (profile_of tn d) b = ty" by simp_all
    note a = assign_fresh [OF b(1) s(1), unfolded b(2,3)]
    have "map bill_number bs1 = map (\<lambda>k. Some (format_number (profile_of tn d) y
           (Suc (counter_value tn y ty (counters d)) + k))) [1..<length bs + 1]
      \<and> counter_value tn y ty (counters d') = Suc (counter_value tn y ty (counters d)) + length bs
      \<and> (\<forall>tn' y' ty'. (tn, y, ty) \<noteq> (tn', y', ty')
         \<longrightarrow> counter_value tn' y' ty' (counters d') = counter_value tn' y' ty' (counters d1))"
      using Cons.IH [OF _ s(2)] Cons.prems(1) by (simp add: a(2,3) counter_value_bump)
    moreover have "map (\<lambda>k. Some (format_number (profile_of tn d) y (Suc (counter_value tn y ty (counters d)) + k)))
        [1..<length bs + 1] = map (\<lambda>k. Some (format_number (profile_of tn d) y (counter_value tn y ty (counters d) + k)))
        [2..<length bs + 2]"
    proof -
      have "[2..<length bs + 2] = map Suc [1..<length bs + 1]"
        by (simp add: map_Suc_upt numeral_2_eq_2 [symmetric] del: upt_Suc)
      then show ?thesis by (simp add: comp_def del: upt_Suc)
    qed
    moreover have "[1..<length (b # bs) + 1] = 1 # [2..<length bs + 2]"
      by (simp add: upt_conv_Cons numeral_2_eq_2 [symmetric] del: upt_Suc)
    ultimately show ?case
      using a(1) s(3) counter_value_bump_other [of tn y ty _ _ _ "counters d"]
      by (simp add: a(2) del: upt_Suc)
  qed
  have "distinct (map bill_number bs')"
    unfolding conjunct1 [OF run] by (auto simp: distinct_map inj_on_def format_number_inj)
  moreover have "truthy (bill_number b)" if "b \<in> set bs'" for b
  proof -
    from that have "bill_number b \<in> set (map bill_number bs')" by simp
    then show ?thesis unfolding conjunct1 [OF run] by (auto simp: format_number_def Let_def)
  qed
  ultimately show ?thesis using run by (simp add: assign_invoice_number_def)
qed

lemma year_of_0: "year_of 0 = 1970"
  by (simp add: year_of_def date_of_def year_of_day_def, subst year_up.simps,
      simp add: year_start_def leap_count_def)

lemma fiscal_numbers_contiguous_witness:
  "\<exists>bs d. assign_all [new_bill 7 2 ''Acme'' 0 90, new_bill 8 2 ''Acme'' 0 90] 2 billing_db = (bs, d)
     \<and> map bill_number bs = [Some (format_number None 1970 1), Some (format_number None 1970 2)]"
proof -
  let ?bs = "[new_bill 7 2 ''Acme'' 0 90, new_bill 8 2 ''Acme'' 0 90]"
  have y: "fiscal_year b = 1970" if "b \<in> set ?bs" for b
    using that by (auto simp: fiscal_year_def new_bill_def year_of_0)
  have h: "\<forall>b\<in>set ?bs. \<not> truthy (bill_number b) \<and> fiscal_year b = 1970
      \<and> series_type (profile_of 2 billing_db) b = []"
    using y by (simp add: new_bill_def series_type_def profile_of_def billing_sample)
  obtain bs d where r: "assign_all ?bs 2 billing_db = (bs, d)" by fastforce
  have "[1..<length ?bs + 1] = [1, 2]" by (simp add: upt_rec)
  with fiscal_numbers_contiguous [OF h r] r show ?thesis
    by (simp add: profile_of_def counter_value_def billing_sample numeral_2_eq_2)
qed

section \<open>Properties of the issue\<close>

text \<open>
  No draft can be issued: asked to issue a draft of the tenant the service raises, and a
  successful call found the document issued already and changes nothing.
\<close>

theorem issue_document_never_issues:
  assumes "owned bill_id bill_tenant tn i (bills d) = Some b" and "bill_status b = D_draft"
  shows "issue_document tn i issued now d = Inl (PyError ''UnboundLocalError'')
    \<and> (\<forall>d1 r xs d2. issue_document tn i issued now d1 = Inr (r, xs, d2)
         \<longrightarrow> d2 = d1 \<and> bill_status r = D_issued)"
proof
  show "issue_document tn i issued now d = Inl (PyError ''UnboundLocalError'')"
    using assms by (simp add: issue_document_def)
  show "\<forall>d1 r xs d2. issue_document tn i issued now d1 = Inr (r, xs, d2)
         \<longrightarrow> d2 = d1 \<and> bill_status r = D_issued"
    by (auto simp: issue_document_def get_document_def rbind_Inr split: option.splits if_splits)
qed

lemma issue_document_never_issues_witness:
  "issue_document 2 7 None 60 (billing_db\<lparr>bills := [new_bill 7 2 ''Acme'' 0 90]\<rparr>)
     = Inl (PyError ''UnboundLocalError'')"
proof -
  have "owned bill_id bill_tenant 2 7 (bills (billing_db\<lparr>bills := [new_bill 7 2 ''Acme'' 0 90]\<rparr>))
      = Some (new_bill 7 2 ''Acme'' 0 90)"
    by (simp add: owned_def new_bill_def)
  then show ?thesis
    by (rule conjunct1 [OF issue_document_never_issues]) (simp add: new_bill_def)
qed

lemma bill_item_trips:
  "trips (bill_item tn i a x d) = (case Option.bind (item_trip x) (\<lambda>t. owned trip_id trip_tenant tn t (trips d)) of
     None \<Rightarrow> trips d
   | Some t \<Rightarrow> tput trip_id (t\<lparr>trip_billing := B_billed, trip_billed_at := Some a, trip_document := Some i\<rparr>) (trips d))"
  by (auto simp: bill_item_def Let_def put_trip_def split: option.splits)

lemma bill_item_frame [simp]:
  "journals (bill_item tn i a x d) = journals d" "journal_items (bill_item tn i a x d) = journal_items d"
  "accounts (bill_item tn i a x d) = accounts d" "db_next (bill_item tn i a x d) = db_next d"
  by (simp_all add: bill_item_def put_trip_def Let_def split: option.splits)

lemma bill_items_frame:
  "journals (foldl (\<lambda>d x. bill_item tn i a x d) d xs) = journals d"
  "journal_items (foldl (\<lambda>d x. bill_item tn i a x d) d xs) = journal_items d"
  "accounts (foldl (\<lambda>d x. bill_item tn i a x d) d xs) = accounts d"
  "db_next (foldl (\<lambda>d x. bill_item tn i a x d) d xs) = db_next d"
  by (induction xs arbitrary: d) simp_all

text \<open>A trip a document bills stays a trip of its tenant, and once billed it stays billed.\<close>

definition billed_by :: "id \<Rightarrow> id \<Rightarrow> id \<Rightarrow> db \<Rightarrow> bool" where
  "billed_by tn i j d \<longleftrightarrow> (\<exists>t. owned trip_id trip_tenant tn j (trips d) = Some t
     \<and> trip_billing t = B_billed \<and> trip_document t = Some i)"

lemma bill_item_owned:
  "owned trip_id trip_tenant tn j (trips (bill_item tn i a x d)) =
     (if item_trip x = Some j
      then map_option (\<lambda>t. t\<lparr>trip_billing := B_billed, trip_billed_at := Some a, trip_document := Some i\<rparr>)
             (owned trip_id trip_tenant tn j (trips d))
      else owned trip_id trip_tenant tn j (trips d))"
proof (cases "Option.bind (item_trip x) (\<lambda>t. owned trip_id trip_tenant tn t (trips d))")
  case None
  then show ?thesis by (cases "item_trip x") (auto simp: bill_item_trips)
next
  case (Some t)
  then obtain k where k: "item_trip x = Some k" "owned trip_id trip_tenant tn k (trips d) = Some t"
    by (cases "item_trip x") auto
  then have t: "tget trip_id k (trips d) = Some t" "trip_tenant t = tn" "trip_id t = k"
    using owned_key [OF k(2)] by (simp_all add: owned_Some)
  with k(1) Some show ?thesis by (auto simp: bill_item_trips owned_def tget_tput)
qed

lemma bill_item_billed: "billed_by tn i j d \<Longrightarrow> billed_by tn i j (bill_item tn i a x d)"
  by (auto simp: billed_by_def bill_item_owned)

lemma bill_item_bills:
  "item_trip x = Some j \<Longrightarrow> owned trip_id trip_tenant tn j (trips d) \<noteq> None
     \<Longrightarrow> billed_by tn i j (bill_item tn i a x d)"
  by (auto simp: billed_by_def bill_item_owned)

lemma bill_items_billed:
  "billed_by tn i j d \<Longrightarrow> billed_by tn i j (foldl (\<lambda>d x. bill_item tn i a x d) d xs)"
  by (induction xs arbitrary: d) (simp_all add: bill_item_billed)

lemma bill_items_bill:
  assumes "x \<in> set xs" and "item_trip x = Some j" and "owned trip_id trip_tenant tn j (trips d) \<noteq> None"
  shows "billed_by tn i j (foldl (\<lambda>d x. bill_item tn i a x d) d xs)"
  using assms
proof (induction xs arbitrary: d)
  case (Cons y ys)
  show ?case
  proof (cases "x = y")
    case True
    with Cons.prems bill_items_billed bill_item_bills show ?thesis by simp
  next
    case False
    with Cons.prems(1) have "x \<in> set ys" by simp
    from Cons.IH [OF this Cons.prems(2)] Cons.prems(3) bill_item_owned show ?thesis by simp
  qed
qed simp

lemma post_sale_ok:
  assumes "post_sale tn b now d = Inr d'" and "ledger_ok d" and "cents (bill_total b)"
  shows "ledger_ok d' \<and> trips d' = trips d \<and> bills d' = bills d"
proof -
  have acc: "a \<in> set (accounts d) \<and> acc_tenant a = tn" if "account_like tn c d = Some a" for a c
    using that by (auto simp: account_like_def dest: find_Some)
  have "d' = d \<or> (\<exists>ac asl e. account_like tn ''411'' d = Some ac \<and> account_like tn ''711'' d = Some asl
    \<and> create_journal_entry tn ''VEN'' now None
         [\<lparr>jl_account = Some (acc_id ac), jl_code = None, jl_debit = bill_total b, jl_credit = 0,
              jl_third_party = None, jl_vehicle = None, jl_trip = None\<rparr>,
          \<lparr>jl_account = Some (acc_id asl), jl_code = None, jl_debit = 0, jl_credit = bill_total b,
              jl_third_party = None, jl_vehicle = None, jl_trip = None\<rparr>] None None d = Inr (e, d'))"
    using assms(1)
    by (auto simp: post_sale_def journal_payload_def rbind_Inr split: option.splits if_splits)
  then show ?thesis
  proof (elim disjE exE conjE)
    fix ac asl e
    assume ac: "account_like tn ''411'' d = Some ac" "account_like tn ''711'' d = Some asl"
      and e: "create_journal_entry tn ''VEN'' now None
         [\<lparr>jl_account = Some (acc_id ac), jl_code = None, jl_debit = bill_total b, jl_credit = 0,
              jl_third_party = None, jl_vehicle = None, jl_trip = None\<rparr>,
          \<lparr>jl_account = Some (acc_id asl), jl_code = None, jl_debit = 0, jl_credit = bill_total b,
              jl_third_party = None, jl_vehicle = None, jl_trip = None\<rparr>] None None d = Inr (e, d')"
    show ?thesis
      using create_journal_entry_ok [OF assms(2) e] acc [OF ac(1)] acc [OF ac(2)] assms(3)
      by (auto simp: line_cents_def)
  qed (use assms(2) in simp)
qed

text \<open>
  What the body of the issue does once its names resolve: the document becomes issued with a
  number, a due date after the contract's terms and a client tax number, its total is the sum of
  subtotal and tax, both the sums over its items in cents, every trip of its items is billed by
  it, and the ledger stays balanced.
\<close>

theorem issue_draft_totals:
  assumes "ledger_ok d" and "issue_draft tn b0 issued now d = Inr (b, ys, d')"
  shows "bill_status b = D_issued \<and> truthy (bill_number b) \<and> truthy (bill_client_nuit b)
    \<and> bill_issued_at b = Some (or_else issued now)
    \<and> bill_due b = Some (add_days (or_else issued now) (payment_terms (bill_contract b0) d))
    \<and> bill_total b = bill_subtotal b + bill_tax b \<and> cents (bill_total b)
    \<and> bill_subtotal b = q2 (\<Sum>x\<leftarrow>doc_items tn (bill_id b0) d. item_amount x)
    \<and> bill_tax b = q2 (\<Sum>x\<leftarrow>doc_items tn (bill_id b0) d. or_else (item_iva_amount x) 0)
    \<and> (\<forall>x\<in>set (doc_items tn (bill_id b0) d). \<forall>j. item_trip x = Some j
         \<longrightarrow> owned trip_id trip_tenant tn j (trips d) \<noteq> None \<longrightarrow> billed_by tn (bill_id b0) j d')
    \<and> ledger_ok d'"
proof -
  let ?xs = "doc_items tn (bill_id b0) d"
  let ?t = "or_else issued now"
  let ?b = "b0\<lparr>bill_due := Some (add_days ?t (payment_terms (bill_contract b0) d))\<rparr>"
  obtain b1 d1 where num: "assign_invoice_number ?b tn d = (b1, d1)" by fastforce
  have b1: "b1 = ?b\<lparr>bill_number := bill_number b1\<rparr> \<and> truthy (bill_number b1)
      \<and> trips d1 = trips d \<and> ledger_ok d1 = ledger_ok d"
    using num by (auto simp: assign_invoice_number_def Let_def put_bill_def ledger_ok_def format_number_def
        split: if_splits)
  from assms(2) have nuit: "truthy (bill_client_nuit b0)"
    by - (rule ccontr, simp add: issue_draft_def Let_def split: if_splits)
  define b2 where "b2 = (recompute_totals ?xs b1)\<lparr>bill_status := D_issued, bill_issued_at := Some ?t\<rparr>"
  define d2 where "d2 = foldl (\<lambda>d x. bill_item tn (bill_id b2) ?t x d) (put_bill b2 d1) ?xs"
  have fr: "trips (audit_billed tn xs e) = trips e" "ledger_ok (audit_billed tn xs e) = ledger_ok e" for xs e
    unfolding audit_billed_def
    by (induction xs arbitrary: e) (simp_all add: Let_def ledger_ok_def)
  have bid: "bill_id (recompute_totals ?xs b1) = bill_id b2" by (simp add: b2_def)
  have "\<exists>d5. b = b2 \<and> post_sale tn b2 now d2 = Inr d5 \<and> trips d' = trips d5 \<and> ledger_ok d' = ledger_ok d5"
    using assms(2) num
    by (auto simp: issue_draft_def Let_def rbind_Inr flush_bills_def flush_journal_def b2_def [symmetric] bid
        d2_def [symmetric] fr split: if_splits) (auto simp: ledger_ok_def)
  then obtain d5 where b: "b = b2" and post: "post_sale tn b2 now d2 = Inr d5"
    and d': "trips d' = trips d5" "ledger_ok d' = ledger_ok d5" by blast
  have tot: "bill_total b = bill_subtotal b + bill_tax b" "cents (bill_total b)"
    by (auto simp: b b2_def recompute_totals_def Let_def has_digits_add)
  have cols: "bill_id b2 = bill_id b0" "bill_client_nuit b2 = bill_client_nuit b0"
    "bill_due b2 = bill_due ?b" "truthy (bill_number b2)"
  proof -
    obtain n where n: "b1 = ?b\<lparr>bill_number := n\<rparr>" using b1 by blast
    then show "bill_id b2 = bill_id b0" "bill_client_nuit b2 = bill_client_nuit b0"
      "bill_due b2 = bill_due ?b" by (simp_all add: b2_def recompute_totals_def Let_def)
    show "truthy (bill_number b2)" using b1 by (simp add: b2_def recompute_totals_def Let_def)
  qed
  have sums: "bill_subtotal b2 = q2 (\<Sum>x\<leftarrow>?xs. item_amount x)"
    "bill_tax b2 = q2 (\<Sum>x\<leftarrow>?xs. or_else (item_iva_amount x) 0)"
    "bill_status b2 = D_issued" "bill_issued_at b2 = Some ?t"
    by (simp_all add: b2_def recompute_totals_def Let_def)
  have "ledger_ok d2"
    using b1 assms(1) by (simp add: d2_def ledger_ok_def bill_items_frame put_bill_def)
  from post_sale_ok [OF post this] tot b have d5: "ledger_ok d5" "trips d5 = trips d2" by simp_all
  have "billed_by tn (bill_id b0) j d'"
    if "x \<in> set ?xs" "item_trip x = Some j" "owned trip_id trip_tenant tn j (trips d) \<noteq> None" for x j
  proof -
    have "owned trip_id trip_tenant tn j (trips (put_bill b2 d1)) \<noteq> None"
      using b1 that(3) by (simp add: put_bill_def)
    from bill_items_bill [OF that(1,2) this, of "bill_id b2" ?t] show ?thesis
      by (simp add: billed_by_def d'(1) d5(2) d2_def cols(1))
  qed
  then show ?thesis
    using sums cols nuit tot d5(1) d'(2) by (simp add: b)
qed

definition sample_item :: billing_item where
  "sample_item = \<lparr>item_id = 41, item_tenant = 2, item_contract = Some 6, item_doc = 40,
     item_trip = Some 5, item_permit = None, item_manifest = None, item_transport = None,
     item_proof = Some 30, item_origin = None, item_destination = None, item_delivered_at = 50,
     item_quantity = None, item_unit_price = Some 1000, item_amount = 1000, item_status = ''draft'',
     item_iva_rate = Some (16/100), item_iva_basis = Some ''standard_16'', item_iva_amount = Some 160,
     item_work_order = None, item_source = ''transport''\<rparr>"

definition sample_draft :: billing_doc where
  "sample_draft = (new_bill 40 2 ''Acme'' 0 90)\<lparr>bill_contract := Some 6, bill_subtotal := 1000,
     bill_total := 1000, bill_client_nuit := Some ''123456789''\<rparr>"

definition draft_db :: db where
  "draft_db = billing_db\<lparr>bills := [sample_draft], items := [sample_item]\<rparr>"

lemmas draft_sample = draft_db_def sample_draft_def sample_item_def new_bill_def billing_sample

lemmas issue_defs = issue_draft_def doc_items_def payment_terms_def recompute_totals_def
  rate_of_items_def post_sale_def account_like_def flush_bills_def bill_checks_def bill_item_checks_def
  flush_journal_def assign_invoice_number_def put_bill_def profile_of_def series_type_def

lemma issue_draft_totals_witness:
  "\<exists>b ys d. issue_draft 2 sample_draft None 100 draft_db = Inr (b, ys, d)
     \<and> bill_total b = 1160 \<and> billed_by 2 40 5 d"
proof -
  have ok: "ledger_ok draft_db"
    by (simp add: ledger_ok_def draft_sample keys_unique_def below_def)
  obtain b ys d where r: "issue_draft 2 sample_draft None 100 draft_db = Inr (b, ys, d)"
    by (simp add: issue_defs bill_item_def put_trip_def owned_def strip_def is_space_def draft_sample
        List.map_filter_simps Let_def)
  have xs: "doc_items 2 (bill_id sample_draft) draft_db = [sample_item]"
    by (simp add: doc_items_def draft_sample)
  have own: "owned trip_id trip_tenant 2 5 (trips draft_db) \<noteq> None"
    by (simp add: owned_def draft_sample)
  note p = issue_draft_totals [OF ok r, unfolded xs]
  have "bill_total b = 1160" using p by (simp add: sample_item_def)
  moreover have "billed_by 2 40 5 d" using p own by (simp add: sample_item_def sample_draft_def new_bill_def)
  ultimately show ?thesis using r by blast
qed

section \<open>The state machine of a document\<close>

interpretation bill_table: transition_table bill_transitions D_draft "\<lambda>s. s \<in> {D_paid, D_cancelled}"
proof
  show "bill_transitions s = []" if "s \<in> {D_paid, D_cancelled}" for s using that by auto
  show "D_draft \<notin> set (bill_transitions s)" for s by (cases s) auto
qed

lemma transition_Inr:
  "(\<exists>r. transition_billing_document b st u tn paid reason now d = Inr r)
     \<longleftrightarrow> st \<in> set (bill_transitions (bill_status b)) \<and> \<not> (st = D_cancelled \<and> \<not> truthy reason)"
  by (auto simp: transition_billing_document_def Let_def)

lemma transition_result:
  assumes "transition_billing_document b st u tn paid reason now d = Inr (b', d')"
  shows "bill_status b' = st" "bill_id b' = bill_id b" "bills d' = tput bill_id b' (bills d)"
    "bill_tenant b' = bill_tenant b" "bill_total b' = bill_total b" "bill_client b' = bill_client b"
    "allocations d' = allocations d" "payments d' = payments d"
    "st = D_paid \<Longrightarrow> bill_paid_at b' = Some (or_else paid now)"
  using assms by (auto simp: transition_billing_document_def Let_def put_bill_def
      split: if_splits bill_status.splits)

text \<open>
  A document moves only along the table: a transition succeeds exactly when the table allows
  it and a cancellation has a reason; marking paid takes an issued or overdue document of the
  tenant and stamps it, cancelling a draft or an overdue one. Paid and cancelled are final, no
  path leads back to draft, and the overdue job makes only allowed moves.
\<close>

theorem bill_lifecycle:
  "((\<exists>r. transition_billing_document b st u tn paid reason now d = Inr r)
       \<longleftrightarrow> st \<in> set (bill_transitions (bill_status b)) \<and> \<not> (st = D_cancelled \<and> \<not> truthy reason))
   \<and> ((\<exists>r. mark_billing_document_paid i tn u paid now d = Inr r)
       \<longleftrightarrow> (\<exists>x. owned bill_id bill_tenant tn i (bills d) = Some x \<and> bill_status x \<in> {D_issued, D_overdue}))
   \<and> ((\<exists>r. cancel_billing_document i tn u why now d = Inr r)
       \<longleftrightarrow> (\<exists>x. owned bill_id bill_tenant tn i (bills d) = Some x \<and> bill_status x \<in> {D_draft, D_overdue}
              \<and> why \<noteq> []))
   \<and> {s. path bill_transitions D_paid s} = {D_paid} \<and> {s. path bill_transitions D_cancelled s} = {D_cancelled}
   \<and> {s. path bill_transitions s D_draft} = {D_draft}
   \<and> bill_status (mark_overdue now b) \<in> set (bill_status b # bill_transitions (bill_status b))"
proof -
  have paid: "D_paid \<in> set (bill_transitions s) \<longleftrightarrow> s \<in> {D_issued, D_overdue}" for s by (cases s) auto
  have canc: "D_cancelled \<in> set (bill_transitions s) \<longleftrightarrow> s \<in> {D_draft, D_overdue}" for s by (cases s) auto
  have "{s. path bill_transitions t s} = {t}" if "t \<in> {D_paid, D_cancelled}" for t
    using that bill_table.terminal_path path_refl [of bill_transitions t] by blast
  moreover have "{s. path bill_transitions s D_draft} = {D_draft}"
    using bill_table.never_back path_refl [of bill_transitions D_draft] by blast
  moreover have "(\<exists>r. mark_billing_document_paid i tn u paid now d = Inr r)
      \<longleftrightarrow> (\<exists>x. owned bill_id bill_tenant tn i (bills d) = Some x \<and> bill_status x \<in> {D_issued, D_overdue})"
    using transition_Inr [of _ D_paid u tn paid None now d]
    by (auto simp: mark_billing_document_paid_def rbind_Inr of_opt_Inr paid)
  moreover have "(\<exists>r. cancel_billing_document i tn u why now d = Inr r)
      \<longleftrightarrow> (\<exists>x. owned bill_id bill_tenant tn i (bills d) = Some x \<and> bill_status x \<in> {D_draft, D_overdue}
              \<and> why \<noteq> [])"
    using transition_Inr [of _ D_cancelled u tn None "Some why" now d]
    by (auto simp: cancel_billing_document_def rbind_Inr of_opt_Inr canc)
  moreover have "bill_status (mark_overdue now b) \<in> set (bill_status b # bill_transitions (bill_status b))"
    by (simp add: mark_overdue_def)
  ultimately show ?thesis using transition_Inr by simp
qed

end
