(* ===== verification/Payments.thy ===== *)
theory Payments
  imports Billing_Docs
begin

text \<open>
  Client payments (\<^verbatim>\<open>billing/service.py\<close>): registration with or without an invoice, voiding with
  the reversal of settled documents, the application of advances and the listing.
\<close>

section \<open>What covers a document\<close>

text \<open>The join of allocations with their payments, as \<^verbatim>\<open>_sum_confirmed_allocations\<close> filters it.\<close>

definition counts_for :: "id \<Rightarrow> id \<Rightarrow> payment list \<Rightarrow> allocation \<Rightarrow> bool" where
  "counts_for tenant i ps a \<longleftrightarrow> alloc_doc a = i
     \<and> (case tget pay_id (alloc_payment a) ps of
          None \<Rightarrow> False | Some p \<Rightarrow> pay_tenant p = tenant \<and> pay_status p = K_confirmed)"

definition covered :: "id \<Rightarrow> id \<Rightarrow> payment list \<Rightarrow> allocation list \<Rightarrow> dec" where
  "covered tenant i ps as = (\<Sum>a\<leftarrow>filter (counts_for tenant i ps) as. alloc_amount a)"

definition sum_confirmed_allocations :: "id \<Rightarrow> id \<Rightarrow> db \<Rightarrow> dec" where
  "sum_confirmed_allocations tenant i d = q2 (covered tenant i (payments d) (allocations d))"

definition applied :: "id \<Rightarrow> allocation list \<Rightarrow> dec" where
  "applied p as = (\<Sum>a\<leftarrow>filter (\<lambda>a. alloc_payment a = p) as. alloc_amount a)"

section \<open>Registration\<close>

record payment_create =
  kc_client :: id
  kc_doc :: "id option"
  kc_amount :: dec
  kc_currency :: string
  kc_value_date :: timestamp
  kc_method :: string
  kc_reference :: "string option"
  kc_notes :: "string option"

definition payable_doc :: "id \<Rightarrow> id \<Rightarrow> id \<Rightarrow> db \<Rightarrow> billing_doc res" where
  "payable_doc tenant client i d =
     rbind (of_opt (ApiError ''billing_document_not_found'' 404)
              (owned bill_id bill_tenant tenant i (bills d))) (\<lambda>b.
       if bill_client b \<noteq> Some client then Inl (ApiError ''payment_client_mismatch'' 409)
       else if bill_status b \<notin> {D_issued, D_overdue} then Inl (ApiError ''invoice_not_payable'' 409)
       else Inr b)"

text \<open>The guards on the document of a registration: the document, and what was paid before.\<close>

definition payment_target :: "id \<Rightarrow> payment_create \<Rightarrow> db \<Rightarrow> (billing_doc \<times> dec) option res" where
  "payment_target tenant p d =
     (case kc_doc p of
        None \<Rightarrow> Inr None
      | Some i \<Rightarrow>
          rbind (payable_doc tenant (kc_client p) i d) (\<lambda>b.
            let paid = sum_confirmed_allocations tenant i d
            in if q2 (bill_total b - paid) < kc_amount p
               then Inl (ApiError ''payment_exceeds_invoice_balance'' 409) else Inr (Some (b, paid))))"

text \<open>Add an allocation and settle the document when it is covered.\<close>

definition allocate :: "id \<Rightarrow> id \<Rightarrow> payment \<Rightarrow> billing_doc \<Rightarrow> dec \<Rightarrow> dec \<Rightarrow> timestamp \<Rightarrow> db \<Rightarrow> db res" where
  "allocate tenant user pay b paid amount now d =
     (let (j, d1) = fresh_id d;
          a = \<lparr>alloc_id = j, alloc_tenant = tenant, alloc_payment = pay_id pay, alloc_doc = bill_id b,
            alloc_amount = column 2 amount\<rparr>;
          d2 = d1\<lparr>allocations := tadd a (allocations d1)\<rparr>
      in if bill_total b \<le> q2 (paid + amount)
         then rbind (transition_billing_document b D_paid user tenant (Some (pay_value_date pay)) None now d2)
                (\<lambda>(_, d3). Inr d3)
         else Inr d2)"

definition new_payment :: "id \<Rightarrow> id \<Rightarrow> id \<Rightarrow> payment_create \<Rightarrow> payment" where
  "new_payment i tenant user p =
     \<lparr>pay_id = i, pay_tenant = tenant, pay_client = kc_client p, pay_doc = kc_doc p,
      pay_amount = column 2 (kc_amount p),
      pay_currency = (if kc_currency p = [] then ''MZN'' else kc_currency p),
      pay_value_date = kc_value_date p, pay_method = kc_method p,
      pay_reference = kc_reference p, pay_notes = kc_notes p, pay_status = K_confirmed,
      pay_voided_at = None, pay_voided_by = None, pay_void_reason = None,
      pay_created_by = Some user\<rparr>"

definition register_payment :: "id \<Rightarrow> id \<Rightarrow> payment_create \<Rightarrow> timestamp \<Rightarrow> db \<Rightarrow> (payment \<times> db) res" where
  "register_payment tenant user p now d =
     rbind (of_opt (ApiError ''client_not_found'' 404)
              (owned cli_id cli_tenant tenant (kc_client p) (clients d))) (\<lambda>_.
     rbind (payment_target tenant p d) (\<lambda>target.
       let (i, d1) = fresh_id d;
           pay = new_payment i tenant user p;
           d2 = d1\<lparr>payments := tadd pay (payments d1)\<rparr>
       in rbind (case target of None \<Rightarrow> Inr d2
                 | Some (b, paid) \<Rightarrow> allocate tenant user pay b paid (kc_amount p) now d2) (\<lambda>d3.
            Inr (pay, record_audit_log tenant (Some user) ''payment.created'' ''client_payment''
                        (Some i) d3))))"

section \<open>Voiding\<close>

definition revert_status :: "billing_doc \<Rightarrow> timestamp \<Rightarrow> bill_status" where
  "revert_status b now = (case bill_due b of None \<Rightarrow> D_issued
     | Some t \<Rightarrow> if t < now then D_overdue else D_issued)"

text \<open>One document the voided payment was allocated to.\<close>

definition reopen_document :: "id \<Rightarrow> id \<Rightarrow> timestamp \<Rightarrow> id \<Rightarrow> db \<Rightarrow> db" where
  "reopen_document tenant user now i d =
     (case tget bill_id i (bills d) of
        None \<Rightarrow> d
      | Some b \<Rightarrow>
          if bill_status b \<noteq> D_paid then d
          else if sum_confirmed_allocations tenant i d < bill_total b
          then (let st = revert_status b now; b' = b\<lparr>bill_status := st, bill_paid_at := None\<rparr>
                in record_audit_log tenant (Some user) (''billing.document.'' @ show_status st)
                     ''billing_document'' (Some i) (put_bill b' d))
          else d)"

definition void_payment :: "id \<Rightarrow> id \<Rightarrow> id \<Rightarrow> string \<Rightarrow> timestamp \<Rightarrow> db \<Rightarrow> (payment \<times> db) res" where
  "void_payment i tenant user reason now d =
     (case owned pay_id pay_tenant tenant i (payments d) of
        None \<Rightarrow> Inl (ApiError ''payment_not_found'' 404)
      | Some p \<Rightarrow>
          if pay_status p \<noteq> K_confirmed then Inl (ApiError ''payment_already_voided'' 409)
          else
            (let docs = map alloc_doc (filter (\<lambda>a. alloc_payment a = i) (allocations d));
                 p' = p\<lparr>pay_status := K_voided, pay_voided_at := Some now, pay_voided_by := Some user,
                        pay_void_reason := Some reason\<rparr>;
                 d1 = d\<lparr>payments := tput pay_id p' (payments d)\<rparr>;
                 d2 = foldl (\<lambda>d i. reopen_document tenant user now i d) d1 docs
             in Inr (p', record_audit_log tenant (Some user) ''payment.voided'' ''client_payment''
                           (Some i) d2)))"

section \<open>Advances\<close>

definition apply_advance_to_invoice :: "id \<Rightarrow> id \<Rightarrow> id \<Rightarrow> id \<Rightarrow> dec \<Rightarrow> timestamp \<Rightarrow> db \<Rightarrow> (payment \<times> db) res" where
  "apply_advance_to_invoice i tenant user doc amount now d =
     rbind (of_opt (ApiError ''payment_not_found'' 404)
              (owned pay_id pay_tenant tenant i (payments d))) (\<lambda>p.
     if pay_status p \<noteq> K_confirmed then Inl (ApiError ''payment_not_confirmed'' 409)
     else if pay_doc p \<noteq> None then Inl (ApiError ''payment_not_an_advance'' 409)
     else rbind (payable_doc tenant (pay_client p) doc d) (\<lambda>b.
       if pay_amount p < q2 (applied i (allocations d)) + amount
       then Inl (ApiError ''advance_over_applied'' 409)
       else
         (let paid = sum_confirmed_allocations tenant doc d
          in if q2 (bill_total b - paid) < amount
             then Inl (ApiError ''payment_exceeds_invoice_balance'' 409)
             else rbind (allocate tenant user p b paid amount now d) (\<lambda>d1.
                    Inr (p, record_audit_log tenant (Some user) ''payment.advance_applied''
                              ''client_payment'' (Some i) d1)))))"

definition list_payments :: "id \<Rightarrow> id option \<Rightarrow> payment_status option \<Rightarrow> timestamp option
    \<Rightarrow> timestamp option \<Rightarrow> nat \<Rightarrow> nat \<Rightarrow> db \<Rightarrow> (payment \<times> allocation list) list \<times> nat" where
  "list_payments tenant client st from until limit offset d =
     (let ps = filter (\<lambda>p. pay_tenant p = tenant
            \<and> (client \<noteq> None \<longrightarrow> Some (pay_client p) = client)
            \<and> (st \<noteq> None \<longrightarrow> Some (pay_status p) = st)
            \<and> (case from of None \<Rightarrow> True | Some t \<Rightarrow> t \<le> pay_value_date p)
            \<and> (case until of None \<Rightarrow> True | Some t \<Rightarrow> pay_value_date p < t)) (payments d)
      in (map (\<lambda>p. (p, filter (\<lambda>a. alloc_payment a = pay_id p) (allocations d)))
            (take limit (drop offset (rev ps))), length ps))"

section \<open>Cover and its changes\<close>

lemma covered_simps [simp]:
  "covered tn i ps [] = 0"
  "covered tn i ps (as @ bs) = covered tn i ps as + covered tn i ps bs"
  "covered tn i ps [a] = (if counts_for tn i ps a then alloc_amount a else 0)"
  by (simp_all add: covered_def)

lemma applied_simps [simp]:
  "applied p [] = 0"
  "applied p (as @ bs) = applied p as + applied p bs"
  "applied p [a] = (if alloc_payment a = p then alloc_amount a else 0)"
  by (simp_all add: applied_def)

lemma covered_new_payment:
  assumes "\<forall>a\<in>set as. alloc_payment a \<in> pay_id ` set ps"
  shows "covered tn i (ps @ [p]) as = covered tn i ps as"
proof -
  have "counts_for tn i (ps @ [p]) a = counts_for tn i ps a" if "a \<in> set as" for a
  proof -
    from assms that obtain q where "tget pay_id (alloc_payment a) ps = Some q"
      using tget_None [of pay_id "alloc_payment a" ps] by (cases "tget pay_id (alloc_payment a) ps") auto
    then show ?thesis using tget_tadd [of pay_id "alloc_payment a" p ps] by (simp add: counts_for_def tadd_def)
  qed
  then show ?thesis unfolding covered_def by (metis (mono_tags, lifting) filter_cong)
qed

lemma counts_for_voided:
  assumes "pay_status p' = K_voided"
  shows "counts_for tn i (tput pay_id p' ps) a \<longleftrightarrow> counts_for tn i ps a \<and> alloc_payment a \<noteq> pay_id p'"
  using assms by (auto simp: counts_for_def tget_tput split: option.splits if_splits)

lemma covered_voided:
  assumes "pay_status p' = K_voided" and "\<forall>a\<in>set as. 0 \<le> alloc_amount a"
  shows "covered tn i (tput pay_id p' ps) as \<le> covered tn i ps as"
  using assms(2) unfolding covered_def counts_for_voided [OF assms(1)]
  by (induction as) auto

lemma covered_cents: "\<forall>a\<in>set as. cents (alloc_amount a) \<Longrightarrow> cents (covered tn i ps as)"
  unfolding covered_def by (intro has_digits_sum_list) auto

lemma applied_cents: "\<forall>a\<in>set as. cents (alloc_amount a) \<Longrightarrow> cents (applied p as)"
  unfolding applied_def by (intro has_digits_sum_list) auto

lemma covered_nonneg: "\<forall>a\<in>set as. 0 \<le> alloc_amount a \<Longrightarrow> 0 \<le> covered tn i ps as"
  unfolding covered_def by (rule sum_list_nonneg) auto

section \<open>The invariant of the payments\<close>

text \<open>
  No payment is allocated beyond its amount, no document is covered beyond its total, and a
  document that is fully covered does not wait for payment.
\<close>

definition bill_covered :: "payment list \<Rightarrow> allocation list \<Rightarrow> billing_doc \<Rightarrow> dec" where
  "bill_covered ps as b = covered (bill_tenant b) (bill_id b) ps as"

definition bill_paid_ok :: "payment list \<Rightarrow> allocation list \<Rightarrow> billing_doc \<Rightarrow> bool" where
  "bill_paid_ok ps as b \<longleftrightarrow> cents (bill_total b) \<and> bill_covered ps as b \<le> bill_total b
     \<and> \<not> (bill_status b \<in> {D_issued, D_overdue} \<and> 0 < bill_total b \<and> bill_total b \<le> bill_covered ps as b)"

definition payments_ok :: "db \<Rightarrow> bool" where
  "payments_ok d \<longleftrightarrow> keys_unique bill_id (bills d) \<and> keys_unique pay_id (payments d)
     \<and> below pay_id (db_next d) (payments d)
     \<and> (\<forall>a\<in>set (allocations d). cents (alloc_amount a) \<and> 0 \<le> alloc_amount a
          \<and> (\<exists>p\<in>set (payments d). pay_id p = alloc_payment a \<and> pay_tenant p = alloc_tenant a)
          \<and> (\<exists>b\<in>set (bills d). bill_id b = alloc_doc a \<and> bill_tenant b = alloc_tenant a))
     \<and> (\<forall>p\<in>set (payments d). applied (pay_id p) (allocations d) \<le> pay_amount p)
     \<and> (\<forall>b\<in>set (bills d). bill_paid_ok (payments d) (allocations d) b)"

lemma tput_same: "keys_unique key t \<Longrightarrow> r \<in> set t \<Longrightarrow> tput key r t = t"
  unfolding tput_def by (rule map_idI) (auto dest: keys_unique_row)

lemma sum_confirmed_eq:
  "payments_ok d \<Longrightarrow> sum_confirmed_allocations tn i d = covered tn i (payments d) (allocations d)"
  by (simp add: sum_confirmed_allocations_def payments_ok_def covered_cents)

lemma covered_new_allocation:
  assumes "tget pay_id (alloc_payment a) ps = Some p" and "pay_status p = K_confirmed"
  shows "covered tn i ps (as @ [a])
    = covered tn i ps as + (if alloc_doc a = i \<and> pay_tenant p = tn then alloc_amount a else 0)"
  using assms by (simp add: counts_for_def)

lemma allocate_Inr:
  assumes "allocate tn u pay b paid amount now d = Inr d'" and "b \<in> set (bills d)"
    and "keys_unique bill_id (bills d)"
  obtains a b' where "alloc_payment a = pay_id pay" "alloc_doc a = bill_id b" "alloc_amount a = column 2 amount"
    "alloc_tenant a = tn" "allocations d' = allocations d @ [a]" "payments d' = payments d" "db_next d' = Suc (db_next d)"
    "bills d' = tput bill_id b' (bills d)" "bill_id b' = bill_id b" "bill_total b' = bill_total b"
    "bill_tenant b' = bill_tenant b" "bill_client b' = bill_client b"
    "bill_status b' = (if bill_total b \<le> q2 (paid + amount) then D_paid else bill_status b)"
proof -
  define a where "a = \<lparr>alloc_id = db_next d, alloc_tenant = tn, alloc_payment = pay_id pay,
      alloc_doc = bill_id b, alloc_amount = column 2 amount\<rparr>"
  define e where "e = d\<lparr>db_next := Suc (db_next d), allocations := allocations d @ [a]\<rparr>"
  have frame: "db_next f = db_next g"
    if "transition_billing_document b D_paid u tn x y now g = Inr (z, f)" for x y z f g
    using that by (auto simp: transition_billing_document_def Let_def put_bill_def split: if_splits)
  show thesis
  proof (cases "bill_total b \<le> q2 (paid + amount)")
    case True
    with assms(1) obtain b' where t: "transition_billing_document b D_paid u tn (Some (pay_value_date pay)) None now e = Inr (b', d')"
      by (auto simp: allocate_def rbind_Inr fresh_id_def tadd_def e_def a_def)
    note r = transition_result [OF t] frame [OF t]
    show thesis
      by (rule that [of a b']) (use True r in \<open>simp_all add: a_def e_def\<close>)
  next
    case False
    with assms(1) have "d' = e"
      by (simp add: allocate_def fresh_id_def tadd_def e_def a_def)
    with False assms(2,3) show thesis
      by (intro that [of a b]) (simp_all add: a_def e_def tput_same)
  qed
qed

lemma allocate_ok:
  assumes "payments_ok d" and "allocate tn u pay b paid amount now d = Inr d'"
    and "tget pay_id (pay_id pay) (payments d) = Some pay" and "pay_status pay = K_confirmed"
    and "pay_tenant pay = tn" and "b \<in> set (bills d)" and "bill_tenant b = tn"
    and "paid = bill_covered (payments d) (allocations d) b"
    and "cents amount" and "0 < amount" and "amount \<le> bill_total b - paid"
    and "applied (pay_id pay) (allocations d) + amount \<le> pay_amount pay"
  obtains b' where "payments_ok d'" "payments d' = payments d"
    "bills d' = tput bill_id b' (bills d)" "bill_id b' = bill_id b" "bill_total b' = bill_total b"
    "bill_tenant b' = tn" "bill_client b' = bill_client b"
    "bill_status b' = (if paid + amount = bill_total b then D_paid else bill_status b)"
    "\<forall>t i. covered t i (payments d') (allocations d') = covered t i (payments d) (allocations d)
        + (if t = tn \<and> i = bill_id b then amount else 0)"
    "\<forall>p. applied p (allocations d') = applied p (allocations d) + (if p = pay_id pay then amount else 0)"
proof -
  have ub: "keys_unique bill_id (bills d)" using assms(1) by (simp add: payments_ok_def)
  obtain a b' where a: "alloc_payment a = pay_id pay" "alloc_doc a = bill_id b" "alloc_amount a = column 2 amount"
      "alloc_tenant a = tn"
    and d': "allocations d' = allocations d @ [a]" "payments d' = payments d" "db_next d' = Suc (db_next d)"
      "bills d' = tput bill_id b' (bills d)"
    and b': "bill_id b' = bill_id b" "bill_total b' = bill_total b" "bill_tenant b' = bill_tenant b"
      "bill_client b' = bill_client b"
      "bill_status b' = (if bill_total b \<le> q2 (paid + amount) then D_paid else bill_status b)"
    by (rule allocate_Inr [OF assms(2,6) ub])
  have amt: "alloc_amount a = amount" using a(3) assms(9) by simp
  have "cents paid" unfolding assms(8) bill_covered_def
    using assms(1) by (intro covered_cents) (simp add: payments_ok_def)
  then have q: "q2 (paid + amount) = paid + amount" using assms(9) by (simp add: has_digits_add)
  have st: "bill_status b' = (if paid + amount = bill_total b then D_paid else bill_status b)"
    using b'(5) q assms(11) by auto
  have cov: "covered t i (payments d') (allocations d') = covered t i (payments d) (allocations d)
        + (if t = tn \<and> i = bill_id b then amount else 0)" for t i
    using covered_new_allocation [of a "payments d" pay t i "allocations d"] assms(3,4,5) a amt d'(1,2) by auto
  have app: "applied p (allocations d') = applied p (allocations d) + (if p = pay_id pay then amount else 0)" for p
    using a(1) amt by (simp add: d'(1))
  have rest: "bill_paid_ok (payments d') (allocations d') x" if "x \<in> set (bills d')" for x
  proof (cases "x = b'")
    case True
    have cv: "bill_covered (payments d') (allocations d') b' = paid + amount"
      using b'(1,3) assms(7,8) cov by (simp add: bill_covered_def)
    have "cents (bill_total b)" using assms(1,6) by (simp add: payments_ok_def bill_paid_ok_def)
    with cv True show ?thesis using assms(11) b'(2) st by (auto simp: bill_paid_ok_def)
  next
    case False
    with that have x: "x \<in> set (bills d)" "bill_id x \<noteq> bill_id b"
      using d'(4) b'(1) by (auto simp: set_tput split: if_splits)
    then have "bill_covered (payments d') (allocations d') x = bill_covered (payments d) (allocations d) x"
      by (simp add: bill_covered_def cov)
    moreover have "bill_paid_ok (payments d) (allocations d) x" using x(1) assms(1) by (simp add: payments_ok_def)
    ultimately show ?thesis by (simp add: bill_paid_ok_def)
  qed
  have pm: "pay \<in> set (payments d)" using assms(3) by (rule tget_mem)
  have bm: "\<exists>x\<in>set (bills d'). bill_id x = i \<and> bill_tenant x = t"
    if "\<exists>x\<in>set (bills d). bill_id x = i \<and> bill_tenant x = t" for i t
  proof -
    from that obtain x where x: "x \<in> set (bills d)" "bill_id x = i" "bill_tenant x = t" by blast
    show ?thesis
    proof (cases "i = bill_id b")
      case True
      with x assms(6) ub have "x = b" by (auto dest: keys_unique_row)
      with True x b' assms(6) show ?thesis by (intro bexI [of _ b']) (auto simp: d'(4) set_tput)
    next
      case False
      with x b'(1) show ?thesis by (intro bexI [of _ x]) (auto simp: d'(4) set_tput)
    qed
  qed
  have refs: "cents (alloc_amount x) \<and> 0 \<le> alloc_amount x
      \<and> (\<exists>p\<in>set (payments d'). pay_id p = alloc_payment x \<and> pay_tenant p = alloc_tenant x)
      \<and> (\<exists>y\<in>set (bills d'). bill_id y = alloc_doc x \<and> bill_tenant y = alloc_tenant x)"
    if "x \<in> set (allocations d')" for x
  proof (cases "x = a")
    case True
    have "\<exists>p\<in>set (payments d'). pay_id p = alloc_payment a \<and> pay_tenant p = alloc_tenant a"
      using pm assms(5) a(1,4) d'(2) by auto
    moreover have "\<exists>y\<in>set (bills d'). bill_id y = alloc_doc a \<and> bill_tenant y = alloc_tenant a"
      using assms(6,7) a(2,4) by (intro bm) auto
    ultimately show ?thesis using True amt assms(9,10) by simp
  next
    case False
    with that have "x \<in> set (allocations d)" by (simp add: d'(1))
    with assms(1) bm show ?thesis by (simp add: payments_ok_def d'(2))
  qed
  have up: "keys_unique pay_id (payments d)" using assms(1) by (simp add: payments_ok_def)
  have appl: "applied (pay_id p) (allocations d') \<le> pay_amount p" if "p \<in> set (payments d)" for p
  proof (cases "pay_id p = pay_id pay")
    case True
    have "tget pay_id (pay_id pay) (payments d) = Some p"
      using keys_unique_get [OF up that] unfolding True .
    then have "p = pay" unfolding assms(3) by (rule sym [OF iffD1 [OF option.inject]])
    then show ?thesis using assms(12) by (simp only: app simp_thms if_True)
  next
    case False
    with that assms(1) show ?thesis by (simp add: app payments_ok_def)
  qed
  have "payments_ok d'"
    using assms(1) d'(2,3,4) refs rest appl below_mono [of pay_id "db_next d" "payments d" "Suc (db_next d)"]
    by (simp add: payments_ok_def)
  moreover have "bill_tenant b' = tn" using b'(3) assms(7) by simp
  ultimately show thesis
    by (rule that [OF _ d'(2,4) b'(1,2) _ b'(4) st]) (intro allI cov app)+
qed

section \<open>Properties\<close>

lemma payable_doc_Inr:
  "payable_doc tn c i d = Inr b \<longleftrightarrow> owned bill_id bill_tenant tn i (bills d) = Some b
     \<and> bill_client b = Some c \<and> bill_status b \<in> {D_issued, D_overdue}"
  by (auto simp: payable_doc_def rbind_Inr of_opt_Inr split: if_splits)

lemma payments_ok_audit [simp]: "payments_ok (record_audit_log t u a e i d) = payments_ok d"
  by (simp add: payments_ok_def)

lemma payments_ok_add:
  assumes "payments_ok d" and "pay_id p = db_next d" and "0 \<le> pay_amount p"
  shows "payments_ok (d\<lparr>db_next := Suc (db_next d), payments := payments d @ [p]\<rparr>)"
    and "covered t i (payments d @ [p]) (allocations d) = covered t i (payments d) (allocations d)"
    and "applied (pay_id p) (allocations d) = 0"
proof -
  have refs: "\<forall>a\<in>set (allocations d). alloc_payment a \<in> pay_id ` set (payments d)"
    using assms(1) by (force simp: payments_ok_def)
  then have cov: "covered t i (payments d @ [p]) (allocations d) = covered t i (payments d) (allocations d)" for t i
    by (rule covered_new_payment)
  have fresh: "pay_id p \<notin> pay_id ` set (payments d)"
    using assms(1,2) below_fresh [of pay_id "db_next d" "payments d"] by (simp add: payments_ok_def)
  with refs have "\<forall>a\<in>set (allocations d). alloc_payment a \<noteq> pay_id p" by metis
  then have "filter (\<lambda>a. alloc_payment a = pay_id p) (allocations d) = []"
    by (simp add: filter_empty_conv)
  then show app: "applied (pay_id p) (allocations d) = 0" by (simp add: applied_def)
  show "covered t i (payments d @ [p]) (allocations d) = covered t i (payments d) (allocations d)" by (rule cov)
  have "keys_unique pay_id (payments d @ [p])"
    using assms(1) fresh by (simp add: payments_ok_def keys_unique_def)
  moreover have "below pay_id (Suc (db_next d)) (payments d @ [p])"
    using assms(1,2) by (auto simp: payments_ok_def below_def list_all_iff less_Suc_eq)
  ultimately show "payments_ok (d\<lparr>db_next := Suc (db_next d), payments := payments d @ [p]\<rparr>)"
    using assms(1,3) app cov by (auto simp: payments_ok_def bill_paid_ok_def bill_covered_def)
qed

text \<open>
  C2: A registered payment of a positive amount in cents keeps the payments in order. An advance
  touches no document; otherwise the document is the tenant's and the client's, was waiting for
  payment, is covered by exactly the amount more and never beyond its total, and is paid from then
  on exactly when it is covered in full.
\<close>

theorem register_payment_sound:
  assumes "payments_ok d" and "register_payment tn u p now d = Inr (pay, d')"
    and "cents (kc_amount p)" and "0 < kc_amount p"
  shows "payments_ok d' \<and> pay_status pay = K_confirmed \<and> pay_amount pay = kc_amount p
    \<and> tget pay_id (pay_id pay) (payments d') = Some pay
    \<and> (case kc_doc p of
        None \<Rightarrow> bills d' = bills d \<and> allocations d' = allocations d
      | Some i \<Rightarrow> \<exists>b b'. owned bill_id bill_tenant tn i (bills d) = Some b
          \<and> bill_client b = Some (kc_client p) \<and> bill_status b \<in> {D_issued, D_overdue}
          \<and> covered tn i (payments d') (allocations d')
              = covered tn i (payments d) (allocations d) + kc_amount p
          \<and> covered tn i (payments d') (allocations d') \<le> bill_total b
          \<and> owned bill_id bill_tenant tn i (bills d') = Some b' \<and> bill_total b' = bill_total b
          \<and> (bill_status b' = D_paid
              \<longleftrightarrow> covered tn i (payments d') (allocations d') = bill_total b))"
proof -
  define pay0 where "pay0 = new_payment (db_next d) tn u p"
  define e where "e = d\<lparr>db_next := Suc (db_next d), payments := payments d @ [pay0]\<rparr>"
  have id: "pay_id pay0 = db_next d" "pay_status pay0 = K_confirmed" "pay_tenant pay0 = tn"
    "pay_amount pay0 = kc_amount p" using assms(3) by (simp_all add: pay0_def new_payment_def)
  have e: "payments_ok e" "covered t i (payments e) (allocations e) = covered t i (payments d) (allocations d)"
    "applied (pay_id pay0) (allocations e) = 0" for t i
    using payments_ok_add [OF assms(1) id(1)] id(4) assms(4) by (simp_all add: e_def)
  have get: "tget pay_id (pay_id pay0) (payments e) = Some pay0"
  proof -
    have "tget pay_id (db_next d) (payments d) = None"
      using assms(1) below_fresh [of pay_id "db_next d" "payments d"] by (simp add: tget_None payments_ok_def)
    then show ?thesis using tget_tadd [of pay_id "db_next d" pay0 "payments d"] id(1)
      by (simp add: e_def tadd_def)
  qed
  have de: "(let (i, d1) = fresh_id d; pay = new_payment i tn u p; d2 = d1\<lparr>payments := tadd pay (payments d1)\<rparr>
      in F i pay d2) = F (db_next d) pay0 e" for F :: "id \<Rightarrow> payment \<Rightarrow> db \<Rightarrow> (payment \<times> db) res"
    by (simp add: fresh_id_def tadd_def pay0_def e_def Let_def)
  have "\<exists>target d3. payment_target tn p d = Inr target \<and> pay = pay0
    \<and> (case target of None \<Rightarrow> Inr e | Some (b, paid) \<Rightarrow> allocate tn u pay0 b paid (kc_amount p) now e) = Inr d3
    \<and> d' = record_audit_log tn (Some u) ''payment.created'' ''client_payment'' (Some (db_next d)) d3"
    using assms(2) by (auto simp only: register_payment_def rbind_Inr de Inr_inject prod.inject)
  then obtain target d3 where target: "payment_target tn p d = Inr target" and pay: "pay = pay0"
    and alloc: "(case target of None \<Rightarrow> Inr e
        | Some (b, paid) \<Rightarrow> allocate tn u pay0 b paid (kc_amount p) now e) = Inr d3"
    and d': "d' = record_audit_log tn (Some u) ''payment.created'' ''client_payment'' (Some (db_next d)) d3"
    by blast
  show ?thesis
  proof (cases "kc_doc p")
    case None
    with target alloc have "d3 = e" by (auto simp: payment_target_def)
    with None e id get pay d' show ?thesis by (simp add: e_def)
  next
    case (Some i)
    with target obtain b where b: "payable_doc tn (kc_client p) i d = Inr b"
      and t: "target = Some (b, sum_confirmed_allocations tn i d)"
      and le: "kc_amount p \<le> q2 (bill_total b - sum_confirmed_allocations tn i d)"
      by (auto simp: payment_target_def rbind_Inr Let_def split: if_splits)
    let ?c = "covered tn i (payments d) (allocations d)"
    have own: "owned bill_id bill_tenant tn i (bills d) = Some b" "bill_client b = Some (kc_client p)"
      "bill_status b \<in> {D_issued, D_overdue}" using b by (simp_all add: payable_doc_Inr)
    have bid: "bill_id b = i" "bill_tenant b = tn" "b \<in> set (bills d)"
      using own(1) owned_key [OF own(1)] owned_mem [OF own(1)] by (simp_all add: owned_Some)
    have c: "sum_confirmed_allocations tn i d = ?c" using assms(1) by (rule sum_confirmed_eq)
    have "cents (bill_total b)" "cents ?c"
      using assms(1) bid(3) by (auto simp: payments_ok_def bill_paid_ok_def intro!: covered_cents)
    with le have le: "kc_amount p \<le> bill_total b - ?c" by (simp add: c has_digits_diff)
    from alloc t c have al: "allocate tn u pay0 b ?c (kc_amount p) now e = Inr d3" by simp
    have be: "b \<in> set (bills e)" using bid(3) by (simp add: e_def)
    have paid: "?c = bill_covered (payments e) (allocations e) b" using bid e(2) by (simp add: bill_covered_def)
    have app: "applied (pay_id pay0) (allocations e) + kc_amount p \<le> pay_amount pay0" using e(3) id(4) by simp
    obtain b' where r: "payments_ok d3" "payments d3 = payments e"
      "bills d3 = tput bill_id b' (bills e)" "bill_id b' = bill_id b" "bill_total b' = bill_total b"
      "bill_tenant b' = tn"
      "bill_status b' = (if ?c + kc_amount p = bill_total b then D_paid else bill_status b)"
      and cov: "\<forall>t j. covered t j (payments d3) (allocations d3) = covered t j (payments e) (allocations e)
        + (if t = tn \<and> j = bill_id b then kc_amount p else 0)"
      by (rule allocate_ok [OF e(1) al get id(2,3) be bid(2) paid assms(3,4) le app])
    have "owned bill_id bill_tenant tn i (bills d') = Some b'"
      using own(1) bid r(3,4,6) by (simp add: owned_Some d' tget_tput e_def)
    moreover have cv: "covered tn i (payments d') (allocations d') = ?c + kc_amount p"
      using cov e(2) bid by (simp add: d')
    moreover have "bill_status b' = D_paid \<longleftrightarrow> ?c + kc_amount p = bill_total b"
      using r(7) own(3) by auto
    moreover have "covered tn i (payments d') (allocations d') \<le> bill_total b" using cv le by simp
    moreover have "payments_ok d'" "tget pay_id (pay_id pay) (payments d') = Some pay"
      using r(1,2) get by (simp_all add: pay d')
    ultimately show ?thesis
      unfolding Some option.case using own r(5) id pay cv
      by (intro conjI exI [of _ b] exI [of _ b']) simp_all
  qed
qed

definition issued_bill :: billing_doc where
  "issued_bill = (new_bill 40 2 ''Acme'' 0 90)\<lparr>bill_client := Some 20, bill_subtotal := 1000,
     bill_tax := 160, bill_total := 1160, bill_status := D_issued, bill_due := Some 50\<rparr>"

definition payments_db :: db where
  "payments_db = empty_db\<lparr>db_next := 100, bills := [issued_bill],
     clients := [\<lparr>cli_id = 20, cli_tenant = 2, cli_trading_name = ''Acme'', cli_nuit = ''400000001'', cli_legal_name = None, cli_address = None, cli_city = None, cli_phone = None, cli_email = None,
       cli_terms_days = 30, cli_credit_limit = None, cli_active = True, cli_third_party = None, cli_type = ''individual''\<rparr>]\<rparr>"

definition sample_payment :: "id option \<Rightarrow> dec \<Rightarrow> payment_create" where
  "sample_payment i x = \<lparr>kc_client = 20, kc_doc = i, kc_amount = x, kc_currency = ''MZN'',
     kc_value_date = 60, kc_method = ''cash'', kc_reference = None, kc_notes = None\<rparr>"

lemmas payments_sample = payments_db_def issued_bill_def sample_payment_def new_bill_def empty_db_def

lemmas register_defs = register_payment_def payment_target_def payable_doc_def allocate_def
  new_payment_def sum_confirmed_allocations_def covered_def counts_for_def
  transition_billing_document_def put_bill_def

lemma payments_db_ok: "payments_ok payments_db"
  by (simp add: payments_ok_def payments_sample keys_unique_def below_def bill_paid_ok_def bill_covered_def)

lemma register_payment_sound_witness:
  "\<exists>pay d. register_payment 2 9 (sample_payment (Some 40) 1160) 70 payments_db = Inr (pay, d)
     \<and> payments_ok d \<and> map_option bill_status (tget bill_id 40 (bills d)) = Some D_paid"
proof -
  obtain pay d where r: "register_payment 2 9 (sample_payment (Some 40) 1160) 70 payments_db = Inr (pay, d)"
    by (simp add: register_defs owned_def payments_sample fresh_id_def tadd_def Let_def)
  have c: "cents (kc_amount (sample_payment (Some 40) 1160))" "0 < kc_amount (sample_payment (Some 40) 1160)"
    by (simp_all add: sample_payment_def)
  have z: "covered 2 40 (payments payments_db) (allocations payments_db) = 0"
    by (simp add: payments_sample)
  have o: "owned bill_id bill_tenant 2 40 (bills payments_db) = Some issued_bill"
    by (simp add: owned_def payments_sample)
  from register_payment_sound [OF payments_db_ok r c] r z o show ?thesis
    by (auto simp: sample_payment_def owned_Some issued_bill_def)
qed

text \<open>Reopening one document changes at most its status, from paid to waiting.\<close>

lemma reopen_frame [simp]:
  "payments (reopen_document tn u now i d) = payments d"
  "allocations (reopen_document tn u now i d) = allocations d"
  "db_next (reopen_document tn u now i d) = db_next d"
  by (auto simp: reopen_document_def put_bill_def Let_def split: option.splits)

definition reopened :: "payment list \<Rightarrow> allocation list \<Rightarrow> timestamp \<Rightarrow> billing_doc \<Rightarrow> billing_doc" where
  "reopened ps as now b =
     (if bill_status b = D_paid \<and> bill_covered ps as b < bill_total b
      then b\<lparr>bill_status := revert_status b now, bill_paid_at := None\<rparr> else b)"

lemma reopened_simps [simp]:
  "bill_id (reopened ps as now b) = bill_id b" "bill_tenant (reopened ps as now b) = bill_tenant b"
  "bill_total (reopened ps as now b) = bill_total b"
  "bill_covered ps as (reopened ps as now b) = bill_covered ps as b"
  by (simp_all add: reopened_def bill_covered_def)

lemma reopened_ok: "bill_paid_ok ps as b \<Longrightarrow> bill_paid_ok ps as (reopened ps as now b)"
  unfolding bill_paid_ok_def reopened_simps by (auto simp: reopened_def split: if_splits)

lemma reopened_idem [simp]: "reopened ps as now (reopened ps as now b) = reopened ps as now b"
  by (simp add: reopened_def bill_covered_def revert_status_def split: option.splits)

lemma reopen_document_bills:
  assumes "payments_ok d" and "\<forall>b\<in>set (bills d). bill_id b = i \<longrightarrow> bill_tenant b = tn"
  shows "bills (reopen_document tn u now i d) =
    map (\<lambda>b. if bill_id b = i then reopened (payments d) (allocations d) now b else b) (bills d)"
proof (cases "tget bill_id i (bills d)")
  case None
  then have "\<forall>b\<in>set (bills d). bill_id b \<noteq> i" by (force simp: tget_None)
  with None show ?thesis by (simp add: reopen_document_def map_idI)
next
  case (Some b)
  have ub: "keys_unique bill_id (bills d)" using assms(1) by (simp add: payments_ok_def)
  have b: "b \<in> set (bills d)" "bill_id b = i" using Some by (auto dest: tget_mem tget_key)
  have one: "x = b" if "x \<in> set (bills d)" "bill_id x = i" for x
    using keys_unique_row [OF ub that(1) b(1)] that(2) b(2) by simp
  have "sum_confirmed_allocations tn i d = bill_covered (payments d) (allocations d) b"
    using assms b by (simp add: sum_confirmed_eq bill_covered_def)
  then have "bills (reopen_document tn u now i d) = tput bill_id (reopened (payments d) (allocations d) now b) (bills d)"
    using Some tput_same [OF ub b(1)]
    by (auto simp: reopen_document_def reopened_def put_bill_def Let_def)
  also have "\<dots> = map (\<lambda>x. if bill_id x = i then reopened (payments d) (allocations d) now x else x) (bills d)"
    using one b(2) by (auto simp: tput_def)
  finally show ?thesis .
qed

lemma map_bills_ok:
  assumes "payments_ok d" and "payments d' = payments d" and "allocations d' = allocations d"
    and "db_next d' = db_next d" and "bills d' = map f (bills d)"
    and "\<And>b. bill_id (f b) = bill_id b" and "\<And>b. bill_tenant (f b) = bill_tenant b"
    and "\<And>b. bill_paid_ok (payments d) (allocations d) b \<Longrightarrow> bill_paid_ok (payments d) (allocations d) (f b)"
  shows "payments_ok d'"
proof -
  have "map bill_id (bills d') = map bill_id (bills d)" by (simp add: assms(5,6))
  then have u: "keys_unique bill_id (bills d') = keys_unique bill_id (bills d)" by (simp add: keys_unique_def)
  have e: "(\<exists>b\<in>set (bills d'). bill_id b = i \<and> bill_tenant b = t)
      = (\<exists>b\<in>set (bills d). bill_id b = i \<and> bill_tenant b = t)" for i t
    by (simp add: assms(5,6,7))
  have p: "\<forall>b\<in>set (bills d'). bill_paid_ok (payments d) (allocations d) b"
    using assms(1,8) by (simp add: assms(5) payments_ok_def)
  show ?thesis using assms(1) p
    unfolding payments_ok_def assms(2,3,4) u e by (elim conjE, intro conjI)
qed

lemma reopen_fold:
  assumes "payments_ok d" and "\<forall>i\<in>set is. \<forall>b\<in>set (bills d). bill_id b = i \<longrightarrow> bill_tenant b = tn"
  shows "payments_ok (foldl (\<lambda>d i. reopen_document tn u now i d) d is)
    \<and> payments (foldl (\<lambda>d i. reopen_document tn u now i d) d is) = payments d
    \<and> allocations (foldl (\<lambda>d i. reopen_document tn u now i d) d is) = allocations d
    \<and> bills (foldl (\<lambda>d i. reopen_document tn u now i d) d is) =
        map (\<lambda>b. if bill_id b \<in> set is then reopened (payments d) (allocations d) now b else b) (bills d)"
  using assms
proof (induction "is" arbitrary: d)
  case Nil
  then show ?case by simp
next
  case (Cons i js)
  let ?d = "reopen_document tn u now i d"
  have bs: "bills ?d = map (\<lambda>b. if bill_id b = i then reopened (payments d) (allocations d) now b else b) (bills d)"
    using Cons.prems by (intro reopen_document_bills) auto
  have ok: "payments_ok ?d"
    by (rule map_bills_ok [OF Cons.prems(1) _ _ _ bs]) (simp_all add: reopened_ok)
  have own: "\<forall>j\<in>set js. \<forall>b\<in>set (bills ?d). bill_id b = j \<longrightarrow> bill_tenant b = tn"
  proof (intro ballI impI)
    fix j b
    assume j: "j \<in> set js" and b: "b \<in> set (bills ?d)" "bill_id b = j"
    from b(1) obtain c where c: "c \<in> set (bills d)"
      and "b = (if bill_id c = i then reopened (payments d) (allocations d) now c else c)"
      unfolding bs set_map by (elim imageE)
    then have "bill_id b = bill_id c" "bill_tenant b = bill_tenant c" by simp_all
    with Cons.prems(2) c j b(2) show "bill_tenant b = tn" by simp
  qed
  have m: "map (\<lambda>b. if bill_id b \<in> set js then reopened (payments d) (allocations d) now b else b) (bills ?d)
      = map (\<lambda>b. if bill_id b \<in> set (i # js) then reopened (payments d) (allocations d) now b else b) (bills d)"
    unfolding bs map_map by (rule map_cong [OF refl]) simp
  show ?case
    using Cons.IH [OF ok own] by (simp only: foldl.simps reopen_frame m simp_thms)
qed

text \<open>What one payment contributes to one document.\<close>

definition paid_to :: "id \<Rightarrow> id \<Rightarrow> allocation list \<Rightarrow> dec" where
  "paid_to p i as = (\<Sum>a\<leftarrow>filter (\<lambda>a. alloc_payment a = p \<and> alloc_doc a = i) as. alloc_amount a)"

lemma covered_void_exact:
  assumes "tget pay_id (pay_id p') ps = Some p" and "pay_tenant p = tn" and "pay_status p = K_confirmed"
    and "pay_status p' = K_voided"
  shows "covered t j (tput pay_id p' ps) as = covered t j ps as - (if t = tn then paid_to (pay_id p') j as else 0)"
proof (induction as)
  case Nil
  then show ?case by (simp add: paid_to_def)
next
  case (Cons a as)
  have "counts_for t j ps a \<longleftrightarrow> alloc_doc a = j \<and> tn = t" if "alloc_payment a = pay_id p'"
    using assms(1-3) that by (simp add: counts_for_def)
  then have "(if counts_for t j (tput pay_id p' ps) a then alloc_amount a else 0)
      = (if counts_for t j ps a then alloc_amount a else 0)
        - (if t = tn \<and> alloc_payment a = pay_id p' \<and> alloc_doc a = j then alloc_amount a else 0)"
    unfolding counts_for_voided [OF assms(4)] by auto
  note step = this
  have c: "covered t j qs (a # as) = (if counts_for t j qs a then alloc_amount a else 0) + covered t j qs as" for qs
    by (simp add: covered_def)
  have p: "paid_to (pay_id p') j (a # as)
      = (if alloc_payment a = pay_id p' \<and> alloc_doc a = j then alloc_amount a else 0) + paid_to (pay_id p') j as"
    by (simp add: paid_to_def)
  show ?case unfolding c p step Cons.IH by (cases "t = tn") simp_all
qed

lemma void_ok:
  assumes "payments_ok d" and "pay_status p' = K_voided" and "p \<in> set (payments d)"
    and "pay_id p' = pay_id p" and "pay_tenant p' = pay_tenant p" and "pay_amount p' = pay_amount p"
  shows "payments_ok (d\<lparr>payments := tput pay_id p' (payments d)\<rparr>)"
proof -
  have up: "keys_unique pay_id (payments d)" using assms(1) by (simp add: payments_ok_def)
  have row: "\<exists>q\<in>set (tput pay_id p' (payments d)). pay_id q = i \<and> pay_tenant q = t"
    if "\<exists>q\<in>set (payments d). pay_id q = i \<and> pay_tenant q = t" for i t
  proof -
    from that obtain q where q: "q \<in> set (payments d)" "pay_id q = i" "pay_tenant q = t" by blast
    show ?thesis
    proof (cases "i = pay_id p")
      case True
      with q have "q = p" using keys_unique_row [OF up q(1) assms(3)] by simp
      with q assms(3,4,5) show ?thesis by (intro bexI [of _ p']) (auto simp: set_tput)
    next
      case False
      with q assms(4) show ?thesis by (intro bexI [of _ q]) (auto simp: set_tput)
    qed
  qed
  have nn: "\<forall>a\<in>set (allocations d). 0 \<le> alloc_amount a" using assms(1) by (simp add: payments_ok_def)
  have le: "bill_covered (tput pay_id p' (payments d)) (allocations d) b
      \<le> bill_covered (payments d) (allocations d) b" for b
    unfolding bill_covered_def by (rule covered_voided [OF assms(2) nn])
  have bills: "bill_paid_ok (tput pay_id p' (payments d)) (allocations d) b"
    if "bill_paid_ok (payments d) (allocations d) b" for b
    using that le [of b] by (auto simp: bill_paid_ok_def)
  have app: "applied (pay_id q) (allocations d) \<le> pay_amount q" if "q \<in> set (tput pay_id p' (payments d))" for q
    using that assms(1,3,4,6) by (auto simp: set_tput payments_ok_def split: if_splits)
  show ?thesis
    using assms(1) row bills app by (simp add: payments_ok_def below_tput)
qed

text \<open>
  C3: Voiding takes back exactly what the payment gave each document and keeps the payments in
  order. A document it was allocated to that was paid and is no longer covered waits again, as
  overdue when its due date has passed and as issued otherwise; no other document changes, and a
  payment is voided once.
\<close>

theorem void_payment_reverses:
  assumes "payments_ok d" and "void_payment i tn u why now d = Inr (p', d')"
  shows "payments_ok d' \<and> pay_status p' = K_voided \<and> allocations d' = allocations d
    \<and> (\<forall>t j. covered t j (payments d') (allocations d')
          = covered t j (payments d) (allocations d) - (if t = tn then paid_to i j (allocations d) else 0))
    \<and> bills d' = map (\<lambda>b. if (\<exists>a\<in>set (allocations d). alloc_payment a = i \<and> alloc_doc a = bill_id b)
          then reopened (payments d') (allocations d') now b else b) (bills d)
    \<and> void_payment i tn u2 why2 now2 d' = Inl (ApiError ''payment_already_voided'' 409)"
proof -
  let ?is = "map alloc_doc (filter (\<lambda>a. alloc_payment a = i) (allocations d))"
  from assms(2) obtain p where own: "owned pay_id pay_tenant tn i (payments d) = Some p"
    and st: "pay_status p = K_confirmed"
    by (auto simp: void_payment_def split: option.splits if_splits)
  define v where "v = p\<lparr>pay_status := K_voided, pay_voided_at := Some now, pay_voided_by := Some u,
      pay_void_reason := Some why\<rparr>"
  define d1 where "d1 = d\<lparr>payments := tput pay_id v (payments d)\<rparr>"
  define d2 where "d2 = foldl (\<lambda>d i. reopen_document tn u now i d) d1 ?is"
  from assms(2) own st have res: "p' = v"
    "d' = record_audit_log tn (Some u) ''payment.voided'' ''client_payment'' (Some i) d2"
    by (auto simp: void_payment_def Let_def v_def d1_def d2_def)
  have p: "tget pay_id i (payments d) = Some p" "pay_tenant p = tn" "pay_id p = i" "p \<in> set (payments d)"
    using own owned_key [OF own] owned_mem [OF own] by (simp_all add: owned_Some)
  have v: "pay_id v = i" "pay_tenant v = tn" "pay_status v = K_voided" "pay_amount v = pay_amount p"
    using p by (simp_all add: v_def)
  have ok: "payments_ok d1"
    unfolding d1_def by (rule void_ok [OF assms(1) v(3) p(4)]) (simp_all add: v p)
  have docs: "\<forall>j\<in>set ?is. \<forall>b\<in>set (bills d1). bill_id b = j \<longrightarrow> bill_tenant b = tn"
  proof (intro ballI impI)
    fix j b
    assume "j \<in> set ?is" and b: "b \<in> set (bills d1)" "bill_id b = j"
    then obtain a where a: "a \<in> set (allocations d)" "alloc_payment a = i" "alloc_doc a = j" by auto
    from a(1) assms(1) obtain q c where q: "q \<in> set (payments d)" "pay_id q = alloc_payment a"
        "pay_tenant q = alloc_tenant a"
      and c: "c \<in> set (bills d)" "bill_id c = alloc_doc a" "bill_tenant c = alloc_tenant a"
      unfolding payments_ok_def by blast
    from assms(1) have up: "keys_unique pay_id (payments d)" and ub: "keys_unique bill_id (bills d)"
      by (simp_all add: payments_ok_def)
    have "q = p" using keys_unique_row [OF up q(1) p(4)] q(2) a(2) p(3) by simp
    moreover have "b \<in> set (bills d)" using b(1) by (simp add: d1_def)
    then have "b = c" using keys_unique_row [OF ub _ c(1)] b(2) c(2) a(3) by simp
    ultimately show "bill_tenant b = tn" using q(3) c(3) p(2) by simp
  qed
  note f = reopen_fold [OF ok docs, of u now, folded d2_def]
  have rows: "payments d' = tput pay_id v (payments d)" "allocations d' = allocations d" "payments_ok d'"
    using f by (simp_all add: res(2) d1_def)
  have "bills d' = map (\<lambda>b. if bill_id b \<in> set ?is
      then reopened (payments d') (allocations d') now b else b) (bills d)"
    using f by (simp add: res(2) d1_def)
  also have "(\<lambda>b. bill_id b \<in> set ?is)
      = (\<lambda>b. \<exists>a\<in>set (allocations d). alloc_payment a = i \<and> alloc_doc a = bill_id b)"
    by (rule ext) force
  finally have bs: "bills d' = map (\<lambda>b. if (\<exists>a\<in>set (allocations d). alloc_payment a = i \<and> alloc_doc a = bill_id b)
          then reopened (payments d') (allocations d') now b else b) (bills d)" .
  have cov: "covered t j (payments d') (allocations d')
      = covered t j (payments d) (allocations d) - (if t = tn then paid_to i j (allocations d) else 0)" for t j
    using covered_void_exact [of v "payments d" p tn t j "allocations d"] p v st by (simp add: rows)
  have "owned pay_id pay_tenant tn i (payments d') = Some v"
    using p v by (simp add: rows(1) owned_Some tget_tput)
  then have "void_payment i tn u2 why2 now2 d' = Inl (ApiError ''payment_already_voided'' 409)"
    by (simp add: void_payment_def v(3))
  with rows bs cov v(3) show ?thesis by (simp add: res(1))
qed

definition paid_db :: db where
  "paid_db = (case register_payment 2 9 (sample_payment (Some 40) 1160) 70 payments_db of
     Inr (_, d) \<Rightarrow> d | Inl _ \<Rightarrow> payments_db)"

lemmas paid_sample = paid_db_def register_defs payments_sample

lemma void_payment_reverses_witness:
  "\<exists>p d. void_payment 100 2 9 ''bounced'' 80 paid_db = Inr (p, d)
     \<and> covered 2 40 (payments paid_db) (allocations paid_db) = 1160
     \<and> covered 2 40 (payments d) (allocations d) = 0
     \<and> map bill_status (bills d) = [D_overdue]"
proof -
  have rows: "payments paid_db = [new_payment 100 2 9 (sample_payment (Some 40) 1160)]"
    "allocations paid_db = [\<lparr>alloc_id = 101, alloc_tenant = 2, alloc_payment = 100, alloc_doc = 40, alloc_amount = 1160\<rparr>]"
    "bills paid_db = [issued_bill\<lparr>bill_status := D_paid, bill_paid_at := Some 60\<rparr>]" "db_next paid_db = 102"
    by (simp_all add: paid_sample owned_def fresh_id_def tadd_def Let_def)
  have ok: "payments_ok paid_db"
    by (simp add: payments_ok_def rows keys_unique_def below_def bill_paid_ok_def bill_covered_def
        new_payment_def payments_sample covered_def counts_for_def)
  obtain p d where r: "void_payment 100 2 9 ''bounced'' 80 paid_db = Inr (p, d)"
    by (simp add: void_payment_def owned_def rows new_payment_def Let_def)
  have c: "covered 2 40 (payments paid_db) (allocations paid_db) = 1160"
    by (simp add: rows covered_def counts_for_def new_payment_def)
  from void_payment_reverses [OF ok r, of 9 "[]" 90]
  have v: "\<forall>t j. covered t j (payments d) (allocations d)
      = covered t j (payments paid_db) (allocations paid_db)
        - (if t = 2 then paid_to 100 j (allocations paid_db) else 0)"
    and w: "bills d = map (\<lambda>b. if (\<exists>a\<in>set (allocations paid_db). alloc_payment a = 100 \<and> alloc_doc a = bill_id b)
          then reopened (payments d) (allocations d) 80 b else b) (bills paid_db)"
    by blast+
  have "paid_to 100 40 (allocations paid_db) = 1160" by (simp add: paid_to_def rows)
  with v c have z: "covered 2 40 (payments d) (allocations d) = 0" by (simp del: covered_simps)
  moreover have "bills d = [reopened (payments d) (allocations d) 80
      (issued_bill\<lparr>bill_status := D_paid, bill_paid_at := Some 60\<rparr>)]"
    unfolding w by (simp add: rows payments_sample)
  then have "map bill_status (bills d) = [D_overdue]"
    using z by (simp add: reopened_def bill_covered_def revert_status_def payments_sample)
  ultimately show ?thesis using r c by (intro exI [of _ p] exI [of _ d]) (simp only: simp_thms)
qed

text \<open>
  An advance is applied to a waiting document of its client, never beyond what is left of the
  advance nor beyond what is left of the document; the payments stay in order, and the document is
  settled exactly when it is covered in full.
\<close>

theorem apply_advance_sound:
  assumes "payments_ok d" and "apply_advance_to_invoice i tn u doc amount now d = Inr (p, d')"
    and "cents amount" and "0 < amount"
  shows "payments_ok d' \<and> payments d' = payments d \<and> pay_doc p = None
    \<and> applied i (allocations d') = applied i (allocations d) + amount
    \<and> applied i (allocations d') \<le> pay_amount p
    \<and> covered tn doc (payments d') (allocations d') = covered tn doc (payments d) (allocations d) + amount
    \<and> (\<exists>b b'. owned bill_id bill_tenant tn doc (bills d) = Some b \<and> bill_client b = Some (pay_client p)
         \<and> bill_status b \<in> {D_issued, D_overdue}
         \<and> owned bill_id bill_tenant tn doc (bills d') = Some b'
         \<and> covered tn doc (payments d') (allocations d') \<le> bill_total b
         \<and> (bill_status b' = D_paid \<longleftrightarrow> covered tn doc (payments d') (allocations d') = bill_total b))"
proof -
  let ?c = "covered tn doc (payments d) (allocations d)"
  from assms(2) obtain b d3 where own: "owned pay_id pay_tenant tn i (payments d) = Some p"
    and st: "pay_status p = K_confirmed" "pay_doc p = None"
    and b: "payable_doc tn (pay_client p) doc d = Inr b"
    and adv: "q2 (applied i (allocations d)) + amount \<le> pay_amount p"
    and le: "amount \<le> q2 (bill_total b - sum_confirmed_allocations tn doc d)"
    and al: "allocate tn u p b (sum_confirmed_allocations tn doc d) amount now d = Inr d3"
    and d': "d' = record_audit_log tn (Some u) ''payment.advance_applied'' ''client_payment'' (Some i) d3"
    by (auto simp: apply_advance_to_invoice_def rbind_Inr of_opt_Inr Let_def split: if_splits)
  have p: "tget pay_id (pay_id p) (payments d) = Some p" "pay_tenant p = tn" "pay_id p = i"
    using own owned_key [OF own] by (auto simp: owned_Some)
  have bo: "owned bill_id bill_tenant tn doc (bills d) = Some b" "bill_client b = Some (pay_client p)"
    "bill_status b \<in> {D_issued, D_overdue}" using b by (simp_all add: payable_doc_Inr)
  have bid: "bill_id b = doc" "bill_tenant b = tn" "b \<in> set (bills d)"
    using bo(1) owned_key [OF bo(1)] owned_mem [OF bo(1)] by (simp_all add: owned_Some)
  have c: "sum_confirmed_allocations tn doc d = ?c" using assms(1) by (rule sum_confirmed_eq)
  have "cents (bill_total b)" "cents ?c" "cents (applied i (allocations d))"
    using assms(1) bid(3) by (auto simp: payments_ok_def bill_paid_ok_def intro!: covered_cents applied_cents)
  with le adv have le: "amount \<le> bill_total b - ?c"
    and adv: "applied (pay_id p) (allocations d) + amount \<le> pay_amount p"
    by (simp_all add: c p(3) has_digits_diff)
  have paid: "?c = bill_covered (payments d) (allocations d) b" using bid by (simp add: bill_covered_def)
  obtain b' where r: "payments_ok d3" "payments d3 = payments d"
    "bills d3 = tput bill_id b' (bills d)" "bill_id b' = bill_id b" "bill_tenant b' = tn"
    "bill_status b' = (if ?c + amount = bill_total b then D_paid else bill_status b)"
    and cov: "\<forall>t j. covered t j (payments d3) (allocations d3) = covered t j (payments d) (allocations d)
        + (if t = tn \<and> j = bill_id b then amount else 0)"
    and app: "\<forall>q. applied q (allocations d3) = applied q (allocations d) + (if q = pay_id p then amount else 0)"
    by (rule allocate_ok [OF assms(1) al [unfolded c] p(1) st(1) p(2) bid(3,2) paid assms(3,4) le adv])
  have "owned bill_id bill_tenant tn doc (bills d') = Some b'"
    using bo(1) bid r(3,4,5) by (simp add: owned_Some d' tget_tput)
  moreover have cv: "covered tn doc (payments d') (allocations d') = ?c + amount"
    using cov bid by (simp add: d')
  moreover have "bill_status b' = D_paid \<longleftrightarrow> ?c + amount = bill_total b"
    using r(6) bo(3) by auto
  moreover have "?c + amount \<le> bill_total b" using le by simp
  moreover have "applied i (allocations d') = applied i (allocations d) + amount"
    using app p(3) by (simp add: d')
  ultimately show ?thesis
    using r(1,2) st(2) adv p(3) bo
    by (intro conjI exI [of _ b] exI [of _ b']) (simp_all add: d')
qed

lemma apply_advance_sound_witness:
  "\<exists>p d. apply_advance_to_invoice 50 2 9 40 300 80 (payments_db\<lparr>payments :=
       [new_payment 50 2 9 (sample_payment None 500)]\<rparr>) = Inr (p, d)
     \<and> applied 50 (allocations d) = 300 \<and> map bill_status (bills d) = [D_issued]"
proof -
  let ?d = "payments_db\<lparr>payments := [new_payment 50 2 9 (sample_payment None 500)]\<rparr>"
  have ok: "payments_ok ?d"
    by (simp add: payments_ok_def payments_sample new_payment_def keys_unique_def below_def
        bill_paid_ok_def bill_covered_def)
  obtain p d where r: "apply_advance_to_invoice 50 2 9 40 300 80 ?d = Inr (p, d)"
    and b: "map bill_status (bills d) = [D_issued]"
    by (simp add: apply_advance_to_invoice_def applied_def register_defs owned_def payments_sample
        fresh_id_def tadd_def Let_def)
  have "applied 50 (allocations d) = 300"
    using apply_advance_sound [OF ok r] by (simp add: payments_sample)
  with r b show ?thesis by (intro exI [of _ p] exI [of _ d]) simp
qed

end
