(* ===== verification/Receivables.thy ===== *)
theory Receivables
  imports Payments
begin

text \<open>
  Accounts receivable (\<^verbatim>\<open>billing/service.py\<close>): the ageing of a document, the listing and the
  summary by bucket, the statement of a client and the ranking of debtors. They are queries: the
  theorems relate the totals they compute along different ways.
\<close>

section \<open>Ageing\<close>

datatype bucket = A_current | A_1_30 | A_31_60 | A_61_90 | A_over_90

definition bucket_of_days :: "int \<Rightarrow> bucket" where
  "bucket_of_days n =
     (if n = 0 then A_current else if n \<le> 30 then A_1_30 else if n \<le> 60 then A_31_60
      else if n \<le> 90 then A_61_90 else A_over_90)"

definition compute_aging :: "billing_doc \<Rightarrow> timestamp \<Rightarrow> int \<times> bucket" where
  "compute_aging b today =
     (case bill_due b of
        None \<Rightarrow> (0, A_current)
      | Some due \<Rightarrow>
          if bill_status b \<notin> {D_issued, D_overdue} then (0, A_current)
          else (let n = max 0 (date_of today - date_of due) in (n, bucket_of_days n)))"

definition ar_document :: "id \<Rightarrow> billing_doc \<Rightarrow> bool" where
  "ar_document tenant b \<longleftrightarrow> bill_tenant b = tenant \<and> bill_status b \<in> {D_issued, D_overdue}
     \<and> bill_due b \<noteq> None \<and> bill_type b = ''invoice''"

definition due_of :: "billing_doc \<Rightarrow> timestamp" where
  "due_of b = (case bill_due b of Some t \<Rightarrow> t | None \<Rightarrow> 0)"

text \<open>The bucket filter runs after the page was cut, as the code does.\<close>

definition list_ar_documents ::
  "id \<Rightarrow> bucket option \<Rightarrow> id option \<Rightarrow> nat \<Rightarrow> nat \<Rightarrow> timestamp \<Rightarrow> db \<Rightarrow> (billing_doc \<times> int \<times> bucket) list" where
  "list_ar_documents tenant bucket contract limit offset now d =
     (let bs = sort_key due_of (filter (\<lambda>b. ar_document tenant b
                 \<and> (contract \<noteq> None \<longrightarrow> bill_contract b = contract)) (bills d));
          rows = map (\<lambda>b. (b, compute_aging b now)) (take limit (drop offset bs))
      in filter (\<lambda>(b, n, k). case bucket of None \<Rightarrow> True | Some w \<Rightarrow> k = w) rows)"

section \<open>Summary\<close>

text \<open>One second before the end of the day, in UTC.\<close>

definition end_of_day :: "day \<Rightarrow> timestamp" where
  "end_of_day x = midnight x + 86399 * 1000000"

definition issued_by :: "timestamp \<Rightarrow> billing_doc \<Rightarrow> bool" where
  "issued_by t b = (case bill_issued_at b of None \<Rightarrow> False | Some i \<Rightarrow> i \<le> t)"

record ar_summary =
  ars_buckets :: "bucket \<Rightarrow> dec"
  ars_total :: dec
  ars_as_of :: day

definition add_to_bucket :: "timestamp \<Rightarrow> (bucket \<Rightarrow> dec) \<Rightarrow> billing_doc \<Rightarrow> bucket \<Rightarrow> dec" where
  "add_to_bucket today m b =
     (let k = snd (compute_aging b today) in m(k := q2 (m k + bill_total b)))"

definition get_ar_summary :: "id \<Rightarrow> day option \<Rightarrow> timestamp \<Rightarrow> db \<Rightarrow> ar_summary" where
  "get_ar_summary tenant as_of now d =
     (let day = or_else as_of (date_of now); today = end_of_day day;
          m = foldl (add_to_bucket today) (\<lambda>_. 0)
                (filter (\<lambda>b. ar_document tenant b \<and> issued_by today b) (bills d))
      in \<lparr>ars_buckets = m,
          ars_total = q2 (m A_current + m A_1_30 + m A_31_60 + m A_61_90 + m A_over_90),
          ars_as_of = day\<rparr>)"

section \<open>The statement of a client\<close>

text \<open>The payments of these queries are not filtered by tenant.\<close>

definition confirmed_row :: "payment list \<Rightarrow> allocation \<Rightarrow> bool" where
  "confirmed_row ps a =
     (case tget pay_id (alloc_payment a) ps of None \<Rightarrow> False | Some p \<Rightarrow> pay_status p = K_confirmed)"

definition paid_by_doc :: "payment list \<Rightarrow> allocation list \<Rightarrow> id \<Rightarrow> dec" where
  "paid_by_doc ps as i = (\<Sum>a\<leftarrow>filter (\<lambda>a. alloc_doc a = i \<and> confirmed_row ps a) as. alloc_amount a)"

definition client_document :: "id \<Rightarrow> id \<Rightarrow> timestamp \<Rightarrow> billing_doc \<Rightarrow> bool" where
  "client_document tenant client t b \<longleftrightarrow>
     bill_tenant b = tenant \<and> bill_client b = Some client \<and> issued_by t b"

record statement_row =
  str_bill :: billing_doc
  str_paid :: dec
  str_outstanding :: dec

record client_statement =
  cs_name :: string
  cs_invoiced :: dec
  cs_paid :: dec
  cs_balance :: dec
  cs_rows :: "statement_row list"

definition statement_invoiced :: "id \<Rightarrow> id \<Rightarrow> timestamp \<Rightarrow> db \<Rightarrow> dec" where
  "statement_invoiced tenant client t d =
     q2 (\<Sum>b\<leftarrow>filter (\<lambda>b. client_document tenant client t b \<and> bill_type b = ''invoice''
            \<and> bill_status b \<in> {D_issued, D_paid, D_overdue}) (bills d). bill_total b)"

definition statement_paid :: "id \<Rightarrow> id \<Rightarrow> timestamp \<Rightarrow> db \<Rightarrow> dec" where
  "statement_paid tenant client t d =
     q2 (\<Sum>a\<leftarrow>filter (\<lambda>a. confirmed_row (payments d) a
            \<and> (case tget bill_id (alloc_doc a) (bills d) of
                 None \<Rightarrow> False | Some b \<Rightarrow> client_document tenant client t b)) (allocations d).
          alloc_amount a)"

definition statement_row_of :: "db \<Rightarrow> billing_doc \<Rightarrow> statement_row" where
  "statement_row_of d b =
     (let paid = q2 (paid_by_doc (payments d) (allocations d) (bill_id b))
      in \<lparr>str_bill = b, str_paid = paid, str_outstanding = q2 (bill_total b - paid)\<rparr>)"

definition get_client_statement ::
  "id \<Rightarrow> id \<Rightarrow> day option \<Rightarrow> timestamp \<Rightarrow> db \<Rightarrow> client_statement res" where
  "get_client_statement tenant client as_of now d =
     (case owned cli_id cli_tenant tenant client (clients d) of
        None \<Rightarrow> Inl (ApiError ''client_not_found'' 404)
      | Some c \<Rightarrow>
          (let t = (case as_of of Some x \<Rightarrow> end_of_day x | None \<Rightarrow> now);
               invoiced = statement_invoiced tenant client t d;
               paid = statement_paid tenant client t d
           in Inr \<lparr>cs_name = cli_trading_name c, cs_invoiced = invoiced, cs_paid = paid,
                cs_balance = q2 (invoiced - paid),
                cs_rows = map (statement_row_of d)
                  (take 50 (rev (filter (client_document tenant client t) (bills d))))\<rparr>))"

section \<open>Debtors\<close>

text \<open>A Python dict of sums: keys in the order of their first insertion.\<close>

fun add_owed :: "id \<Rightarrow> dec \<Rightarrow> (id \<times> dec) list \<Rightarrow> (id \<times> dec) list" where
  "add_owed k v [] = [(k, v)]"
| "add_owed k v ((j, w) # xs) = (if j = k then (j, w + v) # xs else (j, w) # add_owed k v xs)"

fun severity :: "bucket \<Rightarrow> nat" where
  "severity A_current = 0"
| "severity A_1_30 = 1"
| "severity A_31_60 = 2"
| "severity A_61_90 = 3"
| "severity A_over_90 = 4"

definition open_amount :: "db \<Rightarrow> billing_doc \<Rightarrow> dec" where
  "open_amount d b = bill_total b - paid_by_doc (payments d) (allocations d) (bill_id b)"

definition debtor_documents :: "id \<Rightarrow> timestamp \<Rightarrow> db \<Rightarrow> (id \<times> billing_doc) list" where
  "debtor_documents tenant t d = List.map_filter (\<lambda>b.
     if ar_document tenant b \<and> issued_by t b then map_option (\<lambda>c. (c, b)) (bill_client b) else None)
     (bills d)"

definition add_debtor ::
  "db \<Rightarrow> timestamp \<Rightarrow> (id \<times> dec) list \<times> (id \<Rightarrow> bucket) \<Rightarrow> id \<times> billing_doc
    \<Rightarrow> (id \<times> dec) list \<times> (id \<Rightarrow> bucket)" where
  "add_debtor d t = (\<lambda>(owed, worst) (c, b).
     let x = open_amount d b in
     if x \<le> 0 then (owed, worst)
     else (let k = snd (compute_aging b t)
           in (add_owed c x owed,
               if severity (worst c) < severity k then worst(c := k) else worst)))"

record debtor =
  dbt_client :: id
  dbt_name :: string
  dbt_outstanding :: dec
  dbt_worst :: bucket

definition get_top_debtors :: "id \<Rightarrow> day option \<Rightarrow> nat \<Rightarrow> timestamp \<Rightarrow> db \<Rightarrow> debtor list" where
  "get_top_debtors tenant as_of limit now d =
     (let t = (case as_of of Some x \<Rightarrow> end_of_day x | None \<Rightarrow> now);
          (owed, worst) = foldl (add_debtor d t) ([], \<lambda>_. A_current) (debtor_documents tenant t d);
          ranked = take limit (sort_key (\<lambda>(_, x). - x) owed)
      in List.map_filter (\<lambda>(c, x). map_option (\<lambda>r. \<lparr>dbt_client = c,
             dbt_name = cli_trading_name r, dbt_outstanding = q2 x, dbt_worst = worst c\<rparr>)
           (owned cli_id cli_tenant tenant c (clients d))) ranked)"

section \<open>The summary partitions the open invoices\<close>

lemma add_to_bucket_fold:
  assumes "\<forall>b\<in>set bs. cents (bill_total b)" and "cents (m k)"
  shows "foldl (add_to_bucket t) m bs k
    = m k + (\<Sum>b\<leftarrow>filter (\<lambda>b. snd (compute_aging b t) = k) bs. bill_total b)"
  using assms
proof (induction bs arbitrary: m)
  case (Cons b bs)
  have "cents (add_to_bucket t m b k)" using Cons.prems by (simp add: add_to_bucket_def Let_def)
  with Cons show ?case by (auto simp: add_to_bucket_def Let_def has_digits_add)
qed simp

lemma bucket_ranges:
  assumes "compute_aging b t = (n, k)" and "ar_document tn b"
  shows "n = max 0 (date_of t - date_of (due_of b))"
    "k = A_current \<longleftrightarrow> n = 0" "k = A_1_30 \<longleftrightarrow> 0 < n \<and> n \<le> 30" "k = A_31_60 \<longleftrightarrow> 30 < n \<and> n \<le> 60"
    "k = A_61_90 \<longleftrightarrow> 60 < n \<and> n \<le> 90" "k = A_over_90 \<longleftrightarrow> 90 < n"
  using assms
  by (auto simp: compute_aging_def ar_document_def due_of_def bucket_of_days_def Let_def
      split: option.splits if_splits)

definition open_invoices :: "id \<Rightarrow> timestamp \<Rightarrow> db \<Rightarrow> billing_doc list" where
  "open_invoices tn t d = filter (\<lambda>b. ar_document tn b \<and> issued_by t b) (bills d)"

definition days_late :: "timestamp \<Rightarrow> billing_doc \<Rightarrow> int" where
  "days_late t b = max 0 (date_of t - date_of (due_of b))"

lemma bucket_by_days:
  assumes "ar_document tn b"
  shows "snd (compute_aging b t) = A_current \<longleftrightarrow> days_late t b = 0"
    "snd (compute_aging b t) = A_1_30 \<longleftrightarrow> 1 \<le> days_late t b \<and> days_late t b \<le> 30"
    "snd (compute_aging b t) = A_31_60 \<longleftrightarrow> 31 \<le> days_late t b \<and> days_late t b \<le> 60"
    "snd (compute_aging b t) = A_61_90 \<longleftrightarrow> 61 \<le> days_late t b \<and> days_late t b \<le> 90"
    "snd (compute_aging b t) = A_over_90 \<longleftrightarrow> 91 \<le> days_late t b"
proof -
  note r = bucket_ranges [OF surjective_pairing assms, of t]
  show "snd (compute_aging b t) = A_current \<longleftrightarrow> days_late t b = 0"
    "snd (compute_aging b t) = A_1_30 \<longleftrightarrow> 1 \<le> days_late t b \<and> days_late t b \<le> 30"
    "snd (compute_aging b t) = A_31_60 \<longleftrightarrow> 31 \<le> days_late t b \<and> days_late t b \<le> 60"
    "snd (compute_aging b t) = A_61_90 \<longleftrightarrow> 61 \<le> days_late t b \<and> days_late t b \<le> 90"
    "snd (compute_aging b t) = A_over_90 \<longleftrightarrow> 91 \<le> days_late t b"
    using r(2-6) unfolding r(1) days_late_def by linarith+
qed

lemma get_ar_summary_buckets:
  fixes x now
  assumes "\<forall>b\<in>set (bills d). cents (bill_total b)"
  defines "t \<equiv> end_of_day (or_else x (date_of now))"
  shows "ars_buckets (get_ar_summary tn x now d) k
      = (\<Sum>b\<leftarrow>filter (\<lambda>b. snd (compute_aging b t) = k) (open_invoices tn t d). bill_total b)"
    and "ars_total (get_ar_summary tn x now d) = (\<Sum>b\<leftarrow>open_invoices tn t d. bill_total b)"
proof -
  let ?k = "\<lambda>b. snd (compute_aging b t)"
  have c: "\<forall>b\<in>set (open_invoices tn t d). cents (bill_total b)" using assms(1) by (simp add: open_invoices_def)
  have bk: "foldl (add_to_bucket t) (\<lambda>_. 0) (open_invoices tn t d) k
      = (\<Sum>b\<leftarrow>filter (\<lambda>b. ?k b = k) (open_invoices tn t d). bill_total b)" for k
    using add_to_bucket_fold [OF c, of "\<lambda>_. 0" k t] by simp
  show "ars_buckets (get_ar_summary tn x now d) k
      = (\<Sum>b\<leftarrow>filter (\<lambda>b. ?k b = k) (open_invoices tn t d). bill_total b)"
    using bk by (simp add: get_ar_summary_def Let_def t_def open_invoices_def)
  have all: "(\<Sum>k\<leftarrow>[A_current, A_1_30, A_31_60, A_61_90, A_over_90].
      \<Sum>b\<leftarrow>filter (\<lambda>b. ?k b = k) (open_invoices tn t d). bill_total b) = (\<Sum>b\<leftarrow>open_invoices tn t d. bill_total b)"
  proof (rule sum_list_by_key)
    show "?k b \<in> set [A_current, A_1_30, A_31_60, A_61_90, A_over_90]" for b
      by (cases "?k b") auto
  qed simp
  have "cents (\<Sum>b\<leftarrow>open_invoices tn t d. bill_total b)" using c by (intro has_digits_sum_list) auto
  with all bk show "ars_total (get_ar_summary tn x now d) = (\<Sum>b\<leftarrow>open_invoices tn t d. bill_total b)"
    by (simp add: get_ar_summary_def Let_def t_def open_invoices_def add.assoc)
qed

text \<open>
  The summary of receivables partitions the open invoices: each bucket is the sum of the
  invoices whose days past due fall in its range, and the total is the sum of all of them.
\<close>

theorem ar_summary_partitions:
  assumes "\<forall>b\<in>set (bills d). cents (bill_total b)" and "t = end_of_day (or_else x (date_of now))"
    and "s = get_ar_summary tn x now d" and "bs = open_invoices tn t d"
  shows "ars_total s = (\<Sum>b\<leftarrow>bs. bill_total b)
    \<and> ars_buckets s A_current = (\<Sum>b\<leftarrow>filter (\<lambda>b. days_late t b = 0) bs. bill_total b)
    \<and> ars_buckets s A_1_30 = (\<Sum>b\<leftarrow>filter (\<lambda>b. 1 \<le> days_late t b \<and> days_late t b \<le> 30) bs. bill_total b)
    \<and> ars_buckets s A_31_60 = (\<Sum>b\<leftarrow>filter (\<lambda>b. 31 \<le> days_late t b \<and> days_late t b \<le> 60) bs. bill_total b)
    \<and> ars_buckets s A_61_90 = (\<Sum>b\<leftarrow>filter (\<lambda>b. 61 \<le> days_late t b \<and> days_late t b \<le> 90) bs. bill_total b)
    \<and> ars_buckets s A_over_90 = (\<Sum>b\<leftarrow>filter (\<lambda>b. 91 \<le> days_late t b) bs. bill_total b)"
proof -
  have rng: "filter (\<lambda>b. snd (compute_aging b t) = k) bs = filter P bs"
    if "\<And>b. ar_document tn b \<Longrightarrow> (snd (compute_aging b t) = k) = P b" for k P
    using that by (intro filter_cong) (auto simp: assms(4) open_invoices_def)
  note r = get_ar_summary_buckets [OF assms(1), of tn x now,
      folded assms(2), folded assms(3), folded assms(4)]
  show ?thesis
    using rng [OF bucket_by_days(1)] rng [OF bucket_by_days(2)] rng [OF bucket_by_days(3)]
      rng [OF bucket_by_days(4)] rng [OF bucket_by_days(5)] by (simp add: r)
qed

definition late_bill :: "id \<Rightarrow> int \<Rightarrow> dec \<Rightarrow> billing_doc" where
  "late_bill i n x = (new_bill i 2 ''Acme'' 0 90)\<lparr>bill_client := Some 20, bill_type := ''invoice'',
     bill_total := x, bill_status := D_issued, bill_issued_at := Some 0,
     bill_due := Some (midnight (100 - n))\<rparr>"

definition late_db :: db where
  "late_db = empty_db\<lparr>db_next := 100, bills := [late_bill 40 45 1160, late_bill 41 0 200, late_bill 42 45 40],
     clients := [\<lparr>cli_id = 20, cli_tenant = 2, cli_trading_name = ''Acme'', cli_nuit = ''400000001'', cli_legal_name = None, cli_address = None, cli_city = None, cli_phone = None, cli_email = None,
       cli_terms_days = 30, cli_credit_limit = None, cli_active = True, cli_third_party = None, cli_type = ''individual''\<rparr>]\<rparr>"

lemma ar_summary_partitions_witness:
  "ars_total (get_ar_summary 2 (Some 100) 0 late_db) = 1400
     \<and> ars_buckets (get_ar_summary 2 (Some 100) 0 late_db) A_31_60 = 1200"
proof -
  have c: "\<forall>b\<in>set (bills late_db). cents (bill_total b)"
    by (simp add: late_db_def late_bill_def empty_db_def)
  have t: "end_of_day 100 = end_of_day (or_else (Some 100) (date_of 0))" by simp
  have v: "(\<Sum>b\<leftarrow>open_invoices 2 (end_of_day 100) late_db. bill_total b) = 1400"
    "(\<Sum>b\<leftarrow>filter (\<lambda>b. 31 \<le> days_late (end_of_day 100) b \<and> days_late (end_of_day 100) b \<le> 60)
       (open_invoices 2 (end_of_day 100) late_db). bill_total b) = 1200" by code_simp+
  note r = ar_summary_partitions [OF c t refl refl, of 2]
  show ?thesis using r [THEN conjunct1] r [THEN conjunct2, THEN conjunct2, THEN conjunct2, THEN conjunct1]
    unfolding v by (rule conjI)
qed

section \<open>The statement adds up\<close>

lemma paid_by_doc_cents: "\<forall>a\<in>set as. cents (alloc_amount a) \<Longrightarrow> cents (paid_by_doc ps as i)"
  unfolding paid_by_doc_def by (intro has_digits_sum_list) auto

text \<open>Payments of documents, grouped by document.\<close>

lemma sum_paid_by_doc:
  assumes "distinct (map bill_id bs)"
  shows "(\<Sum>b\<leftarrow>bs. paid_by_doc ps as (bill_id b))
    = (\<Sum>a\<leftarrow>filter (\<lambda>a. confirmed_row ps a \<and> alloc_doc a \<in> bill_id ` set bs) as. alloc_amount a)"
proof -
  let ?as = "filter (\<lambda>a. confirmed_row ps a \<and> alloc_doc a \<in> bill_id ` set bs) as"
  have "paid_by_doc ps as (bill_id b) = (\<Sum>a\<leftarrow>filter (\<lambda>a. alloc_doc a = bill_id b) ?as. alloc_amount a)"
    if "b \<in> set bs" for b
    unfolding paid_by_doc_def filter_filter
    by (rule arg_cong [where f = "\<lambda>xs. sum_list (map alloc_amount xs)"], rule filter_cong)
      (use that in auto)
  then have "(\<Sum>b\<leftarrow>bs. paid_by_doc ps as (bill_id b))
      = (\<Sum>b\<leftarrow>bs. \<Sum>a\<leftarrow>filter (\<lambda>a. alloc_doc a = bill_id b) ?as. alloc_amount a)"
    by (intro arg_cong [where f = sum_list] map_cong) auto
  also have "\<dots> = (\<Sum>i\<leftarrow>map bill_id bs. \<Sum>a\<leftarrow>filter (\<lambda>a. alloc_doc a = i) ?as. alloc_amount a)"
    by (simp add: comp_def)
  also have "\<dots> = (\<Sum>a\<leftarrow>?as. alloc_amount a)"
    by (rule sum_list_by_key [OF assms]) auto
  finally show ?thesis .
qed

lemma sum_list_diff:
  fixes f :: "'r \<Rightarrow> dec"
  shows "(\<Sum>x\<leftarrow>xs. f x - g x) = (\<Sum>x\<leftarrow>xs. f x) - (\<Sum>x\<leftarrow>xs. g x)"
  by (induction xs) auto

text \<open>
  The balance of a client statement, computed from the sums of invoices and of payments, is
  the sum of the outstanding amounts of its rows, when the client's documents are at most fifty
  invoices that are issued, overdue or paid; no row is overpaid.
\<close>

theorem statement_balance_is_outstanding:
  assumes ok: "payments_ok d" and r: "get_client_statement tn cl x now d = Inr s"
    and docs: "docs = filter (client_document tn cl (case x of Some y \<Rightarrow> end_of_day y | None \<Rightarrow> now)) (bills d)"
    and inv: "\<forall>b\<in>set docs. bill_type b = ''invoice'' \<and> bill_status b \<in> {D_issued, D_paid, D_overdue}"
    and few: "length docs \<le> 50"
  shows "cs_balance s = (\<Sum>r\<leftarrow>cs_rows s. str_outstanding r) \<and> (\<forall>r\<in>set (cs_rows s). 0 \<le> str_outstanding r)"
proof -
  let ?t = "case x of Some y \<Rightarrow> end_of_day y | None \<Rightarrow> now"
  let ?paid = "paid_by_doc (payments d) (allocations d)"
  from r have s: "cs_balance s = q2 (statement_invoiced tn cl ?t d - statement_paid tn cl ?t d)"
      "cs_rows s = map (statement_row_of d) (rev docs)"
    using few by (auto simp: get_client_statement_def Let_def docs split: option.splits)
  from ok have u: "keys_unique bill_id (bills d)" and ac: "\<forall>a\<in>set (allocations d). cents (alloc_amount a)"
    and bc: "\<forall>b\<in>set (bills d). cents (bill_total b)"
    by (auto simp: payments_ok_def bill_paid_ok_def)
  have dd: "distinct (map bill_id docs)" using u by (simp add: docs keys_unique_def distinct_map_filter)
  have in_docs: "(case tget bill_id i (bills d) of None \<Rightarrow> False | Some b \<Rightarrow> client_document tn cl ?t b)
      \<longleftrightarrow> i \<in> bill_id ` set docs" for i
  proof (cases "tget bill_id i (bills d)")
    case None
    then have "i \<notin> bill_id ` set docs" by (auto simp: docs tget_None)
    with None show ?thesis by simp
  next
    case (Some b)
    have b: "b \<in> set (bills d)" "bill_id b = i" using Some by (simp_all add: tget_mem tget_key)
    have "y = b" if "y \<in> set docs" "bill_id y = i" for y
      using keys_unique_row [OF u _ b(1)] that b(2) by (simp add: docs)
    then have "i \<in> bill_id ` set docs \<longleftrightarrow> b \<in> set docs" using b(2) by blast
    with Some b(1) show ?thesis by (simp add: docs)
  qed
  have p: "statement_paid tn cl ?t d = (\<Sum>b\<leftarrow>docs. ?paid (bill_id b))"
    unfolding statement_paid_def in_docs sum_paid_by_doc [OF dd]
    by (rule quantize_id, rule has_digits_sum_list) (use ac in auto)
  have f: "filter (\<lambda>b. client_document tn cl ?t b \<and> bill_type b = ''invoice''
      \<and> bill_status b \<in> {D_issued, D_paid, D_overdue}) (bills d) = docs"
    unfolding docs using inv by (intro filter_cong) (auto simp: docs)
  have i: "statement_invoiced tn cl ?t d = (\<Sum>b\<leftarrow>docs. bill_total b)"
    unfolding statement_invoiced_def f
    by (rule quantize_id, rule has_digits_sum_list) (use bc docs in auto)
  have row: "str_outstanding (statement_row_of d b) = bill_total b - ?paid (bill_id b)" if "b \<in> set docs" for b
    using that bc docs paid_by_doc_cents [OF ac] by (simp add: statement_row_of_def Let_def has_digits_diff)
  have "(\<Sum>r\<leftarrow>cs_rows s. str_outstanding r) = (\<Sum>b\<leftarrow>rev docs. bill_total b - ?paid (bill_id b))"
    unfolding s(2) map_map by (intro arg_cong [where f = sum_list] map_cong) (use row in auto)
  also have "\<dots> = (\<Sum>b\<leftarrow>docs. bill_total b - ?paid (bill_id b))"
    by (simp only: rev_map [symmetric] sum_list_rev)
  finally have sum: "(\<Sum>r\<leftarrow>cs_rows s. str_outstanding r) = statement_invoiced tn cl ?t d - statement_paid tn cl ?t d"
    by (simp add: i p sum_list_diff)
  have "cents (statement_invoiced tn cl ?t d - statement_paid tn cl ?t d)"
    by (simp add: statement_invoiced_def statement_paid_def has_digits_diff)
  with sum have "cs_balance s = (\<Sum>r\<leftarrow>cs_rows s. str_outstanding r)" by (simp add: s(1))
  moreover have "0 \<le> str_outstanding r" if "r \<in> set (cs_rows s)" for r
  proof -
    from that obtain b where b: "b \<in> set docs" "r = statement_row_of d b" by (auto simp: s(2))
    have "?paid (bill_id b) = bill_covered (payments d) (allocations d) b"
      unfolding paid_by_doc_def bill_covered_def covered_def
    proof (rule arg_cong [where f = "\<lambda>xs. sum_list (map alloc_amount xs)"], rule filter_cong)
      fix a assume a: "a \<in> set (allocations d)"
      have b': "b \<in> set (bills d)" using b(1) docs by simp
      from ok a obtain q b2 where "q \<in> set (payments d)" "pay_id q = alloc_payment a"
          "pay_tenant q = alloc_tenant a" "b2 \<in> set (bills d)" "bill_id b2 = alloc_doc a"
          "bill_tenant b2 = alloc_tenant a"
        unfolding payments_ok_def by blast
      moreover from this have "tget pay_id (alloc_payment a) (payments d) = Some q"
        using ok keys_unique_get [of pay_id "payments d" q] by (simp add: payments_ok_def)
      moreover have "alloc_tenant a = bill_tenant b" if "alloc_doc a = bill_id b"
        using keys_unique_row [OF u _ b', of b2] calculation that by simp
      ultimately show "(alloc_doc a = bill_id b \<and> confirmed_row (payments d) a)
          = counts_for (bill_tenant b) (bill_id b) (payments d) a"
        by (auto simp: counts_for_def confirmed_row_def)
    qed simp
    then show ?thesis
      using ok b row docs by (auto simp: payments_ok_def bill_paid_ok_def)
  qed
  ultimately show ?thesis by blast
qed

lemma late_db_ok: "payments_ok late_db"
  by (simp add: payments_ok_def late_db_def late_bill_def new_bill_def empty_db_def keys_unique_def
      below_def bill_paid_ok_def bill_covered_def)

lemma statement_balance_is_outstanding_witness:
  "\<exists>s. get_client_statement 2 20 (Some 100) 0 late_db = Inr s
     \<and> cs_balance s = (\<Sum>r\<leftarrow>cs_rows s. str_outstanding r) \<and> length (cs_rows s) = 3"
proof -
  let ?docs = "filter (client_document 2 20 (case Some 100 of Some y \<Rightarrow> end_of_day y | None \<Rightarrow> 0)) (bills late_db)"
  have "\<not> isl (get_client_statement 2 20 (Some 100) 0 late_db)"
    "length (cs_rows (projr (get_client_statement 2 20 (Some 100) 0 late_db))) = 3" by code_simp+
  then obtain s where s: "get_client_statement 2 20 (Some 100) 0 late_db = Inr s" "length (cs_rows s) = 3"
    by (cases "get_client_statement 2 20 (Some 100) 0 late_db") auto
  have "list_all (\<lambda>b. bill_type b = ''invoice'' \<and> bill_status b \<in> {D_issued, D_paid, D_overdue}) ?docs"
    "length ?docs \<le> 50" by code_simp+
  with statement_balance_is_outstanding [OF late_db_ok s(1) refl] s show ?thesis
    by (auto simp: list_all_iff)
qed

section \<open>The ranking of debtors\<close>

definition owed_by :: "db \<Rightarrow> (id \<times> billing_doc) list \<Rightarrow> id \<Rightarrow> dec" where
  "owed_by d xs c = (\<Sum>(k, b)\<leftarrow>filter (\<lambda>(k, b). k = c \<and> 0 < open_amount d b) xs. open_amount d b)"

lemma add_owed_keys: "fst ` set (add_owed k v xs) = insert k (fst ` set xs)"
  by (induction k v xs rule: add_owed.induct) auto

lemma add_owed_distinct: "distinct (map fst xs) \<Longrightarrow> distinct (map fst (add_owed k v xs))"
proof (induction xs)
  case (Cons p xs)
  have "fst ` set (add_owed k v xs) = insert k (fst ` set xs)" by (rule add_owed_keys)
  with Cons show ?case by (cases p) auto
qed simp

lemma map_of_add_owed:
  "map_of (add_owed k v xs) = (map_of xs)(k \<mapsto> (case map_of xs k of None \<Rightarrow> v | Some w \<Rightarrow> w + v))"
  by (induction xs) auto

text \<open>The dict of sums after the loop.\<close>

lemma debtor_fold:
  assumes "distinct (map fst owed)" and "\<forall>p\<in>set owed. 0 < snd p"
    and "foldl (add_debtor d t) (owed, worst) xs = (owed', worst')"
  shows "distinct (map fst owed') \<and> (\<forall>p\<in>set owed'. 0 < snd p)
    \<and> (\<forall>c. (case map_of owed' c of None \<Rightarrow> 0 | Some w \<Rightarrow> w)
        = (case map_of owed c of None \<Rightarrow> 0 | Some w \<Rightarrow> w) + owed_by d xs c)"
  using assms
proof (induction xs arbitrary: owed worst)
  case Nil
  then show ?case by (simp add: owed_by_def)
next
  case (Cons p xs)
  obtain c b where p: "p = (c, b)" by (cases p)
  show ?case
  proof (cases "open_amount d b \<le> 0")
    case True
    with Cons.prems(3) have "foldl (add_debtor d t) (owed, worst) xs = (owed', worst')"
      by (simp add: p add_debtor_def)
    from Cons.IH [OF Cons.prems(1,2) this] True show ?thesis by (auto simp: p owed_by_def)
  next
    case False
    let ?o = "add_owed c (open_amount d b) owed"
    from False Cons.prems(3) obtain w where f: "foldl (add_debtor d t) (?o, w) xs = (owed', worst')"
      by (auto simp: p add_debtor_def Let_def)
    have pos: "\<forall>q\<in>set ?o. 0 < snd q"
    proof -
      have "\<forall>q\<in>set (add_owed k v ys). 0 < snd q" if "0 < v" "\<forall>q\<in>set ys. 0 < snd q" for k v and ys :: "(id \<times> dec) list"
        using that by (induction k v ys rule: add_owed.induct) auto
      from this [OF _ Cons.prems(2)] False show ?thesis by (simp add: not_le)
    qed
    from Cons.IH [OF add_owed_distinct [OF Cons.prems(1)] pos f] False show ?thesis
      by (auto simp: p owed_by_def map_of_add_owed split: option.splits)
  qed
qed

lemma take_drop_sorted:
  assumes "sorted_wrt P xs" and "x \<in> set (take n xs)" and "y \<in> set (drop n xs)"
  shows "P x y"
  using assms sorted_wrt_append [of P "take n xs" "drop n xs"] by simp

text \<open>
  The ranking of debtors lists clients with a positive debt by descending debt, each with
  the sum of the open parts of its invoices, and a client of the tenant left out never owes more
  than one listed.
\<close>

theorem top_debtors_ranked:
  assumes "rows = get_top_debtors tn x limit now d"
    and "xs = debtor_documents tn (case x of Some y \<Rightarrow> end_of_day y | None \<Rightarrow> now) d"
  shows "length rows \<le> limit
    \<and> sorted_wrt (\<lambda>r r'. owed_by d xs (dbt_client r') \<le> owed_by d xs (dbt_client r)) rows
    \<and> (\<forall>r\<in>set rows. 0 < owed_by d xs (dbt_client r)
         \<and> dbt_outstanding r = q2 (owed_by d xs (dbt_client r)))
    \<and> (\<forall>c r. owned cli_id cli_tenant tn c (clients d) \<noteq> None \<and> 0 < owed_by d xs c
         \<and> c \<notin> dbt_client ` set rows \<and> r \<in> set rows
         \<longrightarrow> owed_by d xs c \<le> owed_by d xs (dbt_client r))"
proof -
  let ?t = "case x of Some y \<Rightarrow> end_of_day y | None \<Rightarrow> now"
  obtain owed worst where f: "foldl (add_debtor d ?t) ([], \<lambda>_. A_current) xs = (owed, worst)"
    by fastforce
  let ?sorted = "sort_key (\<lambda>(_, x). - x) owed"
  let ?row = "\<lambda>(c, x). map_option (\<lambda>r. \<lparr>dbt_client = c, dbt_name = cli_trading_name r,
      dbt_outstanding = q2 x, dbt_worst = worst c\<rparr>) (owned cli_id cli_tenant tn c (clients d))"
  have rows: "rows = List.map_filter ?row (take limit ?sorted)"
    using f by (simp add: assms get_top_debtors_def Let_def)
  from debtor_fold [OF _ _ f] have dist: "distinct (map fst owed)" and pos: "\<forall>p\<in>set owed. 0 < snd p"
    and val: "(case map_of owed c of None \<Rightarrow> 0 | Some w \<Rightarrow> w) = owed_by d xs c" for c
    by simp_all
  have entry: "v = owed_by d xs c" if "(c, v) \<in> set owed" for c v
    using val [of c] map_of_is_SomeI [OF dist that] by simp
  have srt: "sorted_wrt (\<lambda>p q. snd q \<le> snd p) ?sorted"
    using sorted_sort_key [of "\<lambda>(_, x). - x" owed] unfolding sorted_map
    by (rule sorted_wrt_mono_rel [rotated]) (auto simp: case_prod_beta)
  have tk: "sorted_wrt (\<lambda>p q. snd q \<le> snd p) (take limit ?sorted)"
    using srt by (rule sorted_wrt_take)
  have in_take: "p \<in> set owed" if "p \<in> set (take limit ?sorted)" for p
    using that set_take_subset [of limit ?sorted] by auto
  have row_of: "\<exists>v. (dbt_client r, v) \<in> set (take limit ?sorted) \<and> dbt_outstanding r = q2 v" if "r \<in> set rows" for r
    using that by (fastforce simp: rows List.map_filter_def)
  have srt_rows: "sorted_wrt (\<lambda>r r'. owed_by d xs (dbt_client r') \<le> owed_by d xs (dbt_client r))
      (List.map_filter ?row ps)" if "sorted_wrt (\<lambda>p q. snd q \<le> snd p) ps" "set ps \<subseteq> set owed" for ps
    using that
  proof (induction ps)
    case (Cons p ps)
    obtain c v where p: "p = (c, v)" by (cases p)
    have "owed_by d xs (dbt_client r) \<le> v" if "r \<in> set (List.map_filter ?row ps)" for r
    proof -
      from that obtain w where "(dbt_client r, w) \<in> set ps"
        by (auto simp: List.map_filter_def split: prod.splits)
      moreover from this Cons.prems(2) have "w = owed_by d xs (dbt_client r)"
        by (intro entry) auto
      ultimately show ?thesis using Cons.prems(1) by (auto simp: p)
    qed
    moreover have "v = owed_by d xs c" using Cons.prems(2) entry [of c v] by (simp add: p)
    ultimately show ?case using Cons by (auto simp: p split: option.splits)
  qed simp
  have last: "owed_by d xs c \<le> owed_by d xs (dbt_client r)"
    if "owned cli_id cli_tenant tn c (clients d) \<noteq> None" "0 < owed_by d xs c"
      "c \<notin> dbt_client ` set rows" "r \<in> set rows" for c r
  proof -
    from val [of c] that(2) obtain w where w: "map_of owed c = Some w" "w = owed_by d xs c"
      by (cases "map_of owed c") auto
    have "(c, w) \<notin> set (take limit ?sorted)"
    proof
      assume "(c, w) \<in> set (take limit ?sorted)"
      with that(1) have "\<exists>r\<in>set rows. dbt_client r = c"
        by (force simp: rows List.map_filter_def)
      with that(3) show False by blast
    qed
    moreover have "(c, w) \<in> set ?sorted" using map_of_SomeD [OF w(1)] by simp
    ultimately have "(c, w) \<in> set (drop limit ?sorted)"
      by (metis append_take_drop_id UnE set_append)
    moreover from row_of [OF that(4)] obtain v where "(dbt_client r, v) \<in> set (take limit ?sorted)" by blast
    ultimately show ?thesis
      using take_drop_sorted [OF srt] w(2) entry [OF in_take] by fastforce
  qed
  have "length (List.map_filter ?row ps) \<le> length ps" for ps
    by (induction ps) (auto simp: split: option.splits prod.splits)
  then have "length rows \<le> limit" unfolding rows by (metis (no_types, lifting) length_take min.cobounded2 order.trans)
  moreover have "\<forall>r\<in>set rows. 0 < owed_by d xs (dbt_client r) \<and> dbt_outstanding r = q2 (owed_by d xs (dbt_client r))"
    using row_of in_take entry pos by fastforce
  moreover have "sorted_wrt (\<lambda>r r'. owed_by d xs (dbt_client r') \<le> owed_by d xs (dbt_client r)) rows"
    unfolding rows by (rule srt_rows [OF tk]) (use in_take in blast)
  ultimately show ?thesis using last by blast
qed

lemma top_debtors_ranked_witness:
  "map dbt_client (get_top_debtors 2 (Some 100) 5 0 late_db) = [20]
     \<and> dbt_outstanding (hd (get_top_debtors 2 (Some 100) 5 0 late_db)) = 1400"
proof -
  let ?rows = "get_top_debtors 2 (Some 100) 5 0 late_db"
  let ?xs = "debtor_documents 2 (end_of_day 100) late_db"
  have c: "map dbt_client ?rows = [20]" by code_simp
  then obtain r where r: "?rows = [r]" "dbt_client r = 20" by (cases ?rows) auto
  have "?xs = debtor_documents 2 (case Some 100 of Some y \<Rightarrow> end_of_day y | None \<Rightarrow> 0) late_db" by simp
  from top_debtors_ranked [OF refl this, of 5] r
  have "dbt_outstanding r = q2 (owed_by late_db ?xs 20)" by simp
  moreover have "q2 (owed_by late_db ?xs 20) = 1400" by code_simp
  ultimately show ?thesis using c r by simp
qed

end
