(* ===== verification/Fuel_Stock.thy ===== *)
theory Fuel_Stock
  imports Trip_Dispatch "HOL-Library.Char_ord" "HOL-Library.List_Lexorder"
begin

text \<open>
  Internal fuel (\<^verbatim>\<open>fuel/operations.py\<close>): tanks, purchases and their receipts, refuels of
  vehicles, physical counts and adjustments. \<^verbatim>\<open>FuelMovementService.record\<close> is the only writer
  of a tank's balance; the invariant says the balance is the running sum of the movements.
\<close>

section \<open>Tanks and movements\<close>

text \<open>
  \<^verbatim>\<open>FuelMovementService.record\<close>. Its callers pass ''in'' or ''out'' only, the Boolean here. The
  returned movement is the object in memory: its total is rounded by the column when it is stored.
\<close>

definition movement_cost :: "bool \<Rightarrow> dec \<Rightarrow> dec option \<Rightarrow> dec option" where
  "movement_cost inward average cost =
     (case cost of Some c \<Rightarrow> Some (q2 c) | None \<Rightarrow> if inward then None else Some average)"

definition new_average :: "bool \<Rightarrow> dec \<Rightarrow> dec \<Rightarrow> dec option \<Rightarrow> fuel_tank \<Rightarrow> dec" where
  "new_average inward q balance cost t =
     (case cost of
        Some c \<Rightarrow>
          if inward \<and> 0 < balance
          then column 2 ((q2 (tank_stock t) * q2 (tank_average t) + q * c) / balance)
          else tank_average t
      | None \<Rightarrow> tank_average t)"

definition put_tank :: "fuel_tank \<Rightarrow> db \<Rightarrow> db" where
  "put_tank t d = d\<lparr>tanks := tput tank_id t (tanks d)\<rparr>"

definition low_stock :: "id \<Rightarrow> fuel_tank \<Rightarrow> dec \<Rightarrow> id option \<Rightarrow> db \<Rightarrow> db res" where
  "low_stock tenant t balance actor d =
     (if balance \<le> q2 (tank_minimum t)
      then rbind (ensure_exception tenant ''fuel_tank'' (tank_id t) ''fuel_low_stock'' ''high''
                    actor (Some ''fuel_movement'') None d) (\<lambda>(_, d'). Inr d')
      else Inr d)"

definition post_movement ::
  "id \<Rightarrow> fuel_tank \<Rightarrow> string \<Rightarrow> bool \<Rightarrow> dec \<Rightarrow> dec \<Rightarrow> string \<Rightarrow> id \<Rightarrow> timestamp \<Rightarrow> id option
    \<Rightarrow> dec option \<Rightarrow> db \<Rightarrow> fuel_movement \<times> db" where
  "post_movement tenant t ty inward q balance stype source time actor cost d =
     (let uc = movement_cost inward (q2 (tank_average t)) cost;
          (i, d1) = fresh_id d;
          m = \<lparr>mov_id = i, mov_tenant = tenant, mov_tank = tank_id t, mov_type = ty,
            mov_in = inward, mov_liters = q, mov_balance = balance, mov_unit_cost = uc,
            mov_total = map_option (\<lambda>c. c * q) uc, mov_source_type = stype,
            mov_source = source, mov_at = time, mov_by = actor\<rparr>;
          t' = t\<lparr>tank_stock := balance, tank_average := new_average inward q balance uc t\<rparr>;
          d2 = put_tank t' (d1\<lparr>movements :=
                 tadd (m\<lparr>mov_total := map_option (column 2) (mov_total m)\<rparr>) (movements d1)\<rparr>)
      in (m, record_audit_log tenant actor ''fuel_movement.recorded'' ''fuel_tank''
               (Some (tank_id t)) d2))"

definition record_movement ::
  "id \<Rightarrow> id \<Rightarrow> string \<Rightarrow> bool \<Rightarrow> dec \<Rightarrow> string \<Rightarrow> id \<Rightarrow> timestamp \<Rightarrow> id option \<Rightarrow> dec option
    \<Rightarrow> db \<Rightarrow> (fuel_movement \<times> db) res" where
  "record_movement tenant tank ty inward liters stype source time actor cost d =
     (let q = q2 liters in
      if q \<le> 0 then Inl (ApiError ''invalid_fuel_quantity'' 422)
      else case owned tank_id tank_tenant tenant tank (tanks d) of
        None \<Rightarrow> Inl (ApiError ''fuel_tank_not_found'' 404)
      | Some t \<Rightarrow>
          if tank_status t \<noteq> ''active'' then Inl (ApiError ''fuel_tank_not_found'' 404)
          else
            (let previous = q2 (tank_stock t);
                 balance = (if inward then previous + q else previous - q)
             in if balance < 0 then Inl (ApiError ''insufficient_fuel_stock'' 409)
                else if q2 (tank_capacity t) < balance
                then Inl (ApiError ''fuel_tank_capacity_exceeded'' 409)
                else
                  (let (m, d1) = post_movement tenant t ty inward q balance stype source time
                                   actor cost d
                   in rbind (low_stock tenant t balance actor d1) (\<lambda>d2. Inr (m, d2)))))"

definition require_tank :: "id \<Rightarrow> id \<Rightarrow> db \<Rightarrow> fuel_tank res" where
  "require_tank tenant i d =
     (case owned tank_id tank_tenant tenant i (tanks d) of
        Some t \<Rightarrow> if tank_status t = ''active'' then Inr t
                  else Inl (ApiError ''fuel_tank_not_found'' 404)
      | None \<Rightarrow> Inl (ApiError ''fuel_tank_not_found'' 404))"

record tank_create =
  tc_code :: string
  tc_fuel_type :: string
  tc_capacity :: dec
  tc_minimum :: dec

definition create_tank :: "id \<Rightarrow> tank_create \<Rightarrow> id option \<Rightarrow> db \<Rightarrow> (fuel_tank \<times> db) res" where
  "create_tank tenant p actor d =
     (if q2 (tc_capacity p) \<le> 0 \<or> q2 (tc_minimum p) < 0 \<or> q2 (tc_capacity p) < q2 (tc_minimum p)
      then Inl (ApiError ''invalid_fuel_tank_capacity'' 422)
      else if list_ex (\<lambda>t. tank_tenant t = tenant \<and> tank_code t = tc_code p) (tanks d)
      then Inl (ApiError ''fuel_tank_code_exists'' 409)
      else
        (let (i, d1) = fresh_id d;
             t = \<lparr>tank_id = i, tank_tenant = tenant, tank_code = tc_code p,
               tank_fuel_type = tc_fuel_type p, tank_capacity = column 2 (tc_capacity p),
               tank_minimum = column 2 (tc_minimum p), tank_stock = 0, tank_average = 0,
               tank_status = ''active''\<rparr>
         in Inr (t, record_audit_log tenant actor ''fuel_tank.created'' ''fuel_tank'' (Some i)
                      (d1\<lparr>tanks := tadd t (tanks d1)\<rparr>))))"

section \<open>Purchases and receipts\<close>

record purchase_create =
  puc_reference :: string
  puc_fuel_type :: string
  puc_ordered :: dec
  puc_unit_price :: dec

definition create_purchase ::
  "id \<Rightarrow> purchase_create \<Rightarrow> id option \<Rightarrow> db \<Rightarrow> (fuel_purchase \<times> db) res" where
  "create_purchase tenant p actor d =
     (if q2 (puc_ordered p) \<le> 0 \<or> q2 (puc_unit_price p) < 0
      then Inl (ApiError ''invalid_fuel_purchase'' 422)
      else if list_ex (\<lambda>x. pur_tenant x = tenant \<and> pur_reference x = puc_reference p) (purchases d)
      then Inl (ApiError ''fuel_purchase_reference_exists'' 409)
      else
        (let (i, d1) = fresh_id d;
             x = \<lparr>pur_id = i, pur_tenant = tenant, pur_reference = puc_reference p,
               pur_fuel_type = puc_fuel_type p, pur_ordered = column 2 (puc_ordered p),
               pur_unit_price = column 2 (puc_unit_price p),
               pur_total = column 2 (q2 (puc_ordered p) * q2 (puc_unit_price p)),
               pur_status = U_pending, pur_approved_by = None, pur_approved_at = None\<rparr>
         in Inr (x, record_audit_log tenant actor ''fuel_purchase.created'' ''fuel_purchase''
                      (Some i) (d1\<lparr>purchases := tadd x (purchases d1)\<rparr>))))"

definition require_purchase :: "id \<Rightarrow> id \<Rightarrow> db \<Rightarrow> fuel_purchase res" where
  "require_purchase tenant i d =
     of_opt (ApiError ''fuel_purchase_not_found'' 404) (owned pur_id pur_tenant tenant i (purchases d))"

definition put_purchase :: "fuel_purchase \<Rightarrow> db \<Rightarrow> db" where
  "put_purchase x d = d\<lparr>purchases := tput pur_id x (purchases d)\<rparr>"

definition approve_purchase ::
  "id \<Rightarrow> id \<Rightarrow> id option \<Rightarrow> timestamp \<Rightarrow> db \<Rightarrow> (fuel_purchase \<times> db) res" where
  "approve_purchase tenant i actor now d =
     rbind (require_purchase tenant i d) (\<lambda>x.
       if pur_status x = U_approved then Inr (x, d)
       else if pur_status x \<noteq> U_pending then Inl (ApiError ''invalid_fuel_purchase_status'' 409)
       else
         (let x' = x\<lparr>pur_status := U_approved, pur_approved_by := actor, pur_approved_at := Some now\<rparr>
          in Inr (x', record_audit_log tenant actor ''fuel_purchase.approved'' ''fuel_purchase''
                        (Some i) (put_purchase x' d))))"

record receipt_create =
  rcc_purchase :: id
  rcc_tank :: id
  rcc_liters :: dec
  rcc_at :: timestamp
  rcc_note_number :: "string option"

text \<open>The delivery note of another receipt of the purchase.\<close>

definition same_note :: "id \<Rightarrow> receipt_create \<Rightarrow> db \<Rightarrow> bool" where
  "same_note tenant p d = list_ex (\<lambda>r. rec_tenant r = tenant \<and> rec_purchase r = rcc_purchase p
     \<and> rec_note_number r = rcc_note_number p) (receipts d)"

definition received_liters :: "id \<Rightarrow> id \<Rightarrow> fuel_receipt list \<Rightarrow> dec" where
  "received_liters tenant i rs = sum_list (map rec_liters (filter (\<lambda>r. rec_tenant r = tenant
     \<and> rec_purchase r = i \<and> rec_status r = ''verified'') rs))"

definition receipt_of :: "id \<Rightarrow> receipt_create \<Rightarrow> id option \<Rightarrow> id \<Rightarrow> fuel_receipt" where
  "receipt_of tenant p actor i = \<lparr>rec_id = i, rec_tenant = tenant, rec_purchase = rcc_purchase p,
     rec_tank = rcc_tank p, rec_liters = column 2 (rcc_liters p), rec_at = rcc_at p,
     rec_note_number = rcc_note_number p, rec_status = ''verified'', rec_verified_by = actor,
     rec_movement = None\<rparr>"

definition post_receipt ::
  "id \<Rightarrow> receipt_create \<Rightarrow> fuel_purchase \<Rightarrow> bool \<Rightarrow> id option \<Rightarrow> db \<Rightarrow> (fuel_receipt \<times> db) res" where
  "post_receipt tenant p x whole actor d =
     (let (i, d1) = fresh_id d; r = receipt_of tenant p actor i;
          d2 = d1\<lparr>receipts := tadd r (receipts d1)\<rparr>
      in rbind (record_movement tenant (rcc_tank p) ''purchase_receipt'' True (rcc_liters p)
                  ''fuel_receipt'' i (rcc_at p) actor (Some (pur_unit_price x)) d2) (\<lambda>(m, d3).
           let r' = r\<lparr>rec_movement := Some (mov_id m)\<rparr>;
               d4 = d3\<lparr>receipts := tput rec_id r' (receipts d3)\<rparr>;
               d5 = (if whole then put_purchase (x\<lparr>pur_status := U_received\<rparr>) d4 else d4)
           in Inr (r', record_audit_log tenant actor ''fuel_receipt.verified'' ''fuel_receipt''
                         (Some i) d5)))"

text \<open>
  An empty delivery note skips the duplicate check of the code and meets the unique index of the
  table at the flush.
\<close>

definition create_verified_receipt ::
  "id \<Rightarrow> receipt_create \<Rightarrow> id option \<Rightarrow> db \<Rightarrow> (fuel_receipt \<times> db) res" where
  "create_verified_receipt tenant p actor d =
     rbind (require_purchase tenant (rcc_purchase p) d) (\<lambda>x.
       if truthy (rcc_note_number p) \<and> same_note tenant p d
       then Inl (ApiError ''fuel_receipt_delivery_note_exists'' 409)
       else if pur_status x \<noteq> U_approved then Inl (ApiError ''fuel_purchase_not_approved'' 409)
       else rbind (require_tank tenant (rcc_tank p) d) (\<lambda>t.
         if tank_fuel_type t \<noteq> pur_fuel_type x then Inl (ApiError ''fuel_type_mismatch'' 409)
         else
           (let after = q2 (received_liters tenant (pur_id x) (receipts d)) + q2 (rcc_liters p) in
            if q2 (pur_ordered x) < after
            then Inl (ApiError ''fuel_receipt_exceeds_purchase'' 409)
            else if rcc_note_number p \<noteq> None \<and> same_note tenant p d
            then Inl (PyError ''IntegrityError'')
            else post_receipt tenant p x (after = q2 (pur_ordered x)) actor d)))"

section \<open>Refuels\<close>

record refuel_create =
  rfc_tank :: id
  rfc_vehicle :: id
  rfc_driver :: id
  rfc_trip :: "id option"
  rfc_liters :: dec
  rfc_odometer :: int
  rfc_at :: timestamp

definition refuel_vehicle :: "id \<Rightarrow> id \<Rightarrow> db \<Rightarrow> vehicle res" where
  "refuel_vehicle tenant i d =
     (case owned veh_id veh_tenant tenant i (vehicles d) of
        Some v \<Rightarrow> if veh_status v \<in> {''active'', ''maintenance''} then Inr v
                  else Inl (ApiError ''vehicle_not_found'' 404)
      | None \<Rightarrow> Inl (ApiError ''vehicle_not_found'' 404))"

definition refuel_driver :: "id \<Rightarrow> id \<Rightarrow> db \<Rightarrow> driver res" where
  "refuel_driver tenant i d =
     (case owned drv_id drv_tenant tenant i (drivers d) of
        Some v \<Rightarrow> if drv_status v = ''active'' then Inr v
                  else Inl (ApiError ''driver_not_found'' 404)
      | None \<Rightarrow> Inl (ApiError ''driver_not_found'' 404))"

definition refuel_trip :: "id \<Rightarrow> id option \<Rightarrow> db \<Rightarrow> trip option res" where
  "refuel_trip tenant i d =
     (case i of None \<Rightarrow> Inr None | Some k \<Rightarrow> rbind (require_trip tenant k d) (\<lambda>t. Inr (Some t)))"

definition refuel_of :: "id \<Rightarrow> refuel_create \<Rightarrow> id \<Rightarrow> refuel" where
  "refuel_of tenant p i = \<lparr>ref_id = i, ref_tenant = tenant, ref_tank = rfc_tank p,
     ref_vehicle = rfc_vehicle p, ref_driver = rfc_driver p, ref_trip = rfc_trip p,
     ref_liters = column 2 (rfc_liters p), ref_odometer = rfc_odometer p, ref_at = rfc_at p,
     ref_unit_cost = None, ref_total = None, ref_movement = None\<rparr>"

text \<open>The fuel cost of the trip grows by the rounded total of the movement.\<close>

definition charge_trip :: "trip option \<Rightarrow> dec option \<Rightarrow> db \<Rightarrow> db" where
  "charge_trip t cost d =
     (case (t, cost) of
        (Some t, Some c) \<Rightarrow> put_trip (t\<lparr>trip_fuel_cost := q2 (trip_fuel_cost t) + q2 c\<rparr>) d
      | _ \<Rightarrow> d)"

definition post_refuel ::
  "id \<Rightarrow> refuel_create \<Rightarrow> vehicle \<Rightarrow> trip option \<Rightarrow> refuel \<Rightarrow> fuel_movement \<Rightarrow> id option \<Rightarrow> db
    \<Rightarrow> (refuel \<times> db) res" where
  "post_refuel tenant p v t r m actor d =
     (let r' = r\<lparr>ref_movement := Some (mov_id m), ref_unit_cost := mov_unit_cost m,
                ref_total := map_option (column 2) (mov_total m)\<rparr>;
          d1 = charge_trip t (mov_total m) (d\<lparr>refuels := tput ref_id r' (refuels d)\<rparr>);
          d2 = d1\<lparr>vehicles := tput veh_id (v\<lparr>veh_km := max (veh_km v) (rfc_odometer p)\<rparr>) (vehicles d1)\<rparr>;
          d3 = record_audit_log tenant actor ''vehicle_refuel.created'' ''vehicle_refuel''
                 (Some (ref_id r)) d2
      in rbind (flush_trips d3) (\<lambda>d4.
           if t = None
           then rbind (ensure_exception tenant ''vehicle_refuel'' (ref_id r)
                         ''vehicle_refuel_without_trip'' ''medium'' actor
                         (Some ''vehicle_refuel'') (Some (ref_id r)) d4) (\<lambda>(_, d5). Inr (r', d5))
           else Inr (r', d4)))"

definition create_vehicle_refuel ::
  "id \<Rightarrow> refuel_create \<Rightarrow> id option \<Rightarrow> db \<Rightarrow> (refuel \<times> db) res" where
  "create_vehicle_refuel tenant p actor d =
     rbind (require_tank tenant (rfc_tank p) d) (\<lambda>_.
     rbind (refuel_vehicle tenant (rfc_vehicle p) d) (\<lambda>v.
     rbind (refuel_driver tenant (rfc_driver p) d) (\<lambda>_.
     rbind (refuel_trip tenant (rfc_trip p) d) (\<lambda>t.
       if rfc_odometer p < veh_km v then Inl (ApiError ''odometer_regression'' 409)
       else
         (let (i, d1) = fresh_id d; r = refuel_of tenant p i;
              d2 = d1\<lparr>refuels := tadd r (refuels d1)\<rparr>
          in rbind (record_movement tenant (rfc_tank p) ''vehicle_refuel'' False (rfc_liters p)
                      ''vehicle_refuel'' i (rfc_at p) actor None d2) (\<lambda>(m, d3).
               post_refuel tenant p v t r m actor d3))))))"

section \<open>Counts and adjustments\<close>

definition count_tolerance :: "dec \<Rightarrow> dec" where
  "count_tolerance theoretical = max 20 (theoretical * (1 / 100))"

definition create_stock_count ::
  "id \<Rightarrow> id \<Rightarrow> dec \<Rightarrow> timestamp \<Rightarrow> id option \<Rightarrow> db \<Rightarrow> (stock_count \<times> db) res" where
  "create_stock_count tenant tank liters time actor d =
     rbind (require_tank tenant tank d) (\<lambda>t.
       let measured = q2 liters; theoretical = q2 (tank_stock t) in
       if measured < 0 \<or> q2 (tank_capacity t) < measured
       then Inl (ApiError ''invalid_stock_count'' 422)
       else
         (let (i, d1) = fresh_id d;
              c = \<lparr>cnt_id = i, cnt_tenant = tenant, cnt_tank = tank,
                cnt_theoretical = theoretical, cnt_measured = column 2 liters,
                cnt_variance = measured - theoretical, cnt_at = time, cnt_by = actor,
                cnt_adjustment = (if measured = theoretical then J_not_required else J_pending),
                cnt_movement = None, cnt_approved_by = None, cnt_approved_at = None\<rparr>;
              d2 = record_audit_log tenant actor ''fuel_stock_count.created'' ''fuel_tank''
                     (Some tank) (d1\<lparr>counts := tadd c (counts d1)\<rparr>)
          in if count_tolerance theoretical < \<bar>q2 (cnt_variance c)\<bar>
             then rbind (ensure_exception tenant ''fuel_tank'' tank ''fuel_stock_variance'' ''high''
                           actor (Some ''fuel_stock_count'') (Some i) d2) (\<lambda>(_, d3). Inr (c, d3))
             else Inr (c, d2)))"

definition approve_stock_adjustment ::
  "id \<Rightarrow> id \<Rightarrow> id option \<Rightarrow> timestamp \<Rightarrow> db \<Rightarrow> (stock_count \<times> db) res" where
  "approve_stock_adjustment tenant i actor now d =
     (case owned cnt_id cnt_tenant tenant i (counts d) of
        None \<Rightarrow> Inl (ApiError ''fuel_stock_count_not_found'' 404)
      | Some c \<Rightarrow>
          if cnt_adjustment c = J_approved then Inr (c, d)
          else if cnt_adjustment c \<noteq> J_pending
          then Inl (ApiError ''fuel_stock_adjustment_not_required'' 409)
          else if actor \<noteq> None \<and> actor = cnt_by c
          then Inl (ApiError ''fuel_stock_adjustment_role_conflict'' 409)
          else
            (let variance = q2 (cnt_variance c) in
             rbind (record_movement tenant (cnt_tank c) ''stock_adjustment'' (0 < variance)
                      \<bar>variance\<bar> ''fuel_stock_count'' i now actor None d) (\<lambda>(m, d1).
               let c' = c\<lparr>cnt_adjustment := J_approved, cnt_movement := Some (mov_id m),
                         cnt_approved_by := actor, cnt_approved_at := Some now\<rparr>
               in Inr (c', record_audit_log tenant actor ''fuel_stock_adjustment.approved''
                             ''fuel_stock_count'' (Some i)
                             (d1\<lparr>counts := tput cnt_id c' (counts d1)\<rparr>)))))"

section \<open>The control board\<close>

record fuel_board =
  fb_tanks :: nat
  fb_purchases_pending :: nat
  fb_low_tanks :: "fuel_tank list"
  fb_adjustments_pending :: nat
  fb_total_stock :: dec

definition get_fuel_control_board :: "id \<Rightarrow> db \<Rightarrow> fuel_board" where
  "get_fuel_control_board tenant d =
     (let ts = sort_key tank_code (filter (\<lambda>t. tank_tenant t = tenant) (tanks d))
      in \<lparr>fb_tanks = length ts,
          fb_purchases_pending = length (filter (\<lambda>x. pur_tenant x = tenant
            \<and> pur_status x = U_pending) (purchases d)),
          fb_low_tanks = filter (\<lambda>t. q2 (tank_stock t) \<le> q2 (tank_minimum t)) ts,
          fb_adjustments_pending = length (filter (\<lambda>c. cnt_tenant c = tenant
            \<and> cnt_adjustment c = J_pending) (counts d)),
          fb_total_stock = sum_list (map (\<lambda>t. q2 (tank_stock t)) ts)\<rparr>)"

section \<open>The invariant\<close>

definition signed_liters :: "fuel_movement \<Rightarrow> dec" where
  "signed_liters m = (if mov_in m then mov_liters m else - mov_liters m)"

definition of_tank :: "id \<Rightarrow> fuel_movement list \<Rightarrow> fuel_movement list" where
  "of_tank i = filter (\<lambda>m. mov_tank m = i)"

text \<open>The balance column of each movement is the balance at that moment, never negative.\<close>

fun running :: "dec \<Rightarrow> fuel_movement list \<Rightarrow> bool" where
  "running b [] \<longleftrightarrow> True"
| "running b (m # ms) \<longleftrightarrow> mov_balance m = b + signed_liters m \<and> 0 \<le> mov_balance m
     \<and> running (mov_balance m) ms"

definition tank_ok :: "fuel_movement list \<Rightarrow> fuel_tank \<Rightarrow> bool" where
  "tank_ok ms t \<longleftrightarrow> running 0 (of_tank (tank_id t) ms)
     \<and> tank_stock t = sum_list (map signed_liters (of_tank (tank_id t) ms))
     \<and> 0 \<le> tank_stock t \<and> tank_stock t \<le> tank_capacity t
     \<and> cents (tank_stock t) \<and> cents (tank_capacity t)"

text \<open>
  The receipts of a purchase exceed its litres by less than the rounding of one receipt; before
  the approval there are none.
\<close>

definition purchase_ok :: "fuel_receipt list \<Rightarrow> fuel_purchase \<Rightarrow> bool" where
  "purchase_ok rs x \<longleftrightarrow> cents (pur_ordered x) \<and> 0 \<le> pur_ordered x
     \<and> cents (received_liters (pur_tenant x) (pur_id x) rs)
     \<and> received_liters (pur_tenant x) (pur_id x) rs \<le> pur_ordered x + 1 / 100
     \<and> (pur_status x = U_pending \<longrightarrow> received_liters (pur_tenant x) (pur_id x) rs = 0)"

definition fuel_ok :: "db \<Rightarrow> bool" where
  "fuel_ok d \<longleftrightarrow> keys_unique tank_id (tanks d) \<and> below tank_id (db_next d) (tanks d)
     \<and> keys_unique pur_id (purchases d) \<and> below pur_id (db_next d) (purchases d)
     \<and> keys_unique rec_id (receipts d) \<and> below rec_id (db_next d) (receipts d)
     \<and> below mov_tank (db_next d) (movements d) \<and> below rec_purchase (db_next d) (receipts d)
     \<and> (\<forall>t\<in>set (tanks d). tank_ok (movements d) t)
     \<and> (\<forall>x\<in>set (purchases d). purchase_ok (receipts d) x)"

text \<open>The tables the invariant reads.\<close>

definition same_fuel :: "db \<Rightarrow> db \<Rightarrow> bool" where
  "same_fuel d d' \<longleftrightarrow> tanks d' = tanks d \<and> movements d' = movements d
     \<and> purchases d' = purchases d \<and> receipts d' = receipts d \<and> db_next d \<le> db_next d'"

lemma fuel_okD:
  assumes "fuel_ok d"
  shows "keys_unique tank_id (tanks d)" "below tank_id (db_next d) (tanks d)"
    "keys_unique pur_id (purchases d)" "below pur_id (db_next d) (purchases d)"
    "keys_unique rec_id (receipts d)" "below rec_id (db_next d) (receipts d)"
    "below mov_tank (db_next d) (movements d)" "below rec_purchase (db_next d) (receipts d)"
    "\<forall>t\<in>set (tanks d). tank_ok (movements d) t" "\<forall>x\<in>set (purchases d). purchase_ok (receipts d) x"
  using assms by (simp_all add: fuel_ok_def)

lemma fuel_ok_same:
  assumes "fuel_ok d" and "same_fuel d d'"
  shows "fuel_ok d'"
proof -
  note okD = fuel_okD [OF assms(1)]
  from assms(2) have le: "db_next d \<le> db_next d'"
    and eq: "tanks d' = tanks d" "movements d' = movements d"
      "purchases d' = purchases d" "receipts d' = receipts d" by (simp_all add: same_fuel_def)
  show ?thesis
    unfolding fuel_ok_def eq
    by (intro conjI okD(1,3,5,9,10) below_mono [OF okD(2) le] below_mono [OF okD(4) le]
        below_mono [OF okD(6) le] below_mono [OF okD(7) le] below_mono [OF okD(8) le])
qed

lemma running_snoc:
  "running b (ms @ [m]) \<longleftrightarrow> running b ms
     \<and> mov_balance m = b + sum_list (map signed_liters ms) + signed_liters m \<and> 0 \<le> mov_balance m"
proof (induction ms arbitrary: b)
  case (Cons a ms)
  show ?case
  proof (cases "mov_balance a = b + signed_liters a")
    case True
    then have "mov_balance a + sum_list (map signed_liters ms) + signed_liters m
        = b + sum_list (map signed_liters (a # ms)) + signed_liters m" by simp
    with True show ?thesis using Cons.IH [of "mov_balance a"] by (simp only: append_Cons running.simps) blast
  qed simp
qed simp

lemma of_tank_snoc: "of_tank i (ms @ [m]) = of_tank i ms @ (if mov_tank m = i then [m] else [])"
  by (simp add: of_tank_def)

lemma signed_total [simp]: "signed_liters (m\<lparr>mov_total := c\<rparr>) = signed_liters m"
  by (simp add: signed_liters_def)

lemma low_stock_frame:
  assumes "low_stock tenant t b actor d = Inr d'"
  shows "only_oversight d d'" "db_next d \<le> db_next d'"
  using assms by (auto simp: low_stock_def rbind_Inr dest: ensure_exception_only
      ensure_exception_next split: if_splits)

lemma put_tank_frame [simp]:
  "tanks (put_tank t d) = tput tank_id t (tanks d)"
  "movements (put_tank t d) = movements d" "purchases (put_tank t d) = purchases d"
  "receipts (put_tank t d) = receipts d" "db_next (put_tank t d) = db_next d"
  by (simp_all add: put_tank_def)

definition moved :: "bool \<Rightarrow> dec \<Rightarrow> fuel_movement \<Rightarrow> fuel_tank \<Rightarrow> fuel_tank" where
  "moved inward q m t = t\<lparr>tank_stock := mov_balance m,
     tank_average := new_average inward q (mov_balance m) (mov_unit_cost m) t\<rparr>"

lemma moved_fields [simp]:
  "tank_id (moved w q m t) = tank_id t" "tank_stock (moved w q m t) = mov_balance m"
  "tank_capacity (moved w q m t) = tank_capacity t" "tank_tenant (moved w q m t) = tank_tenant t"
  "tank_status (moved w q m t) = tank_status t" "tank_minimum (moved w q m t) = tank_minimum t"
  by (simp_all add: moved_def)

text \<open>What a recorded movement does.\<close>

lemma record_movement_effect:
  assumes "record_movement tenant tank ty inward liters stype source time actor cost d = Inr (m, d')"
  shows "\<exists>t. tget tank_id tank (tanks d) = Some t \<and> tank_tenant t = tenant
    \<and> tank_status t = ''active'' \<and> 0 < q2 liters
    \<and> mov_tank m = tank \<and> mov_in m = inward \<and> mov_liters m = q2 liters
    \<and> mov_balance m = q2 (tank_stock t) + signed_liters m
    \<and> 0 \<le> mov_balance m \<and> mov_balance m \<le> q2 (tank_capacity t)
    \<and> tanks d' = tput tank_id (moved inward (q2 liters) m t) (tanks d)
    \<and> movements d' = movements d @ [m\<lparr>mov_total := map_option (column 2) (mov_total m)\<rparr>]"
    and "db_next d < db_next d'" "purchases d' = purchases d" "receipts d' = receipts d"
    "counts d' = counts d" "refuels d' = refuels d"
proof -
  from assms obtain t d1 where t: "tget tank_id tank (tanks d) = Some t" "tank_tenant t = tenant"
      "tank_status t = ''active''" "0 < q2 liters"
    and b: "0 \<le> (if inward then q2 (tank_stock t) + q2 liters else q2 (tank_stock t) - q2 liters)"
      "(if inward then q2 (tank_stock t) + q2 liters else q2 (tank_stock t) - q2 liters)
         \<le> q2 (tank_capacity t)"
    and p: "post_movement tenant t ty inward (q2 liters)
        (if inward then q2 (tank_stock t) + q2 liters else q2 (tank_stock t) - q2 liters)
        stype source time actor cost d = (m, d1)"
    and l: "low_stock tenant t
        (if inward then q2 (tank_stock t) + q2 liters else q2 (tank_stock t) - q2 liters) actor d1
        = Inr d'"
    unfolding record_movement_def Let_def
    by (auto simp: owned_Some rbind_Inr not_le not_less split: if_splits option.splits prod.splits)
  note f = only_oversight_frame [OF low_stock_frame(1) [OF l]]
  have i: "tank_id t = tank" using t(1) by (rule tget_key)
  show "\<exists>t. tget tank_id tank (tanks d) = Some t \<and> tank_tenant t = tenant
    \<and> tank_status t = ''active'' \<and> 0 < q2 liters
    \<and> mov_tank m = tank \<and> mov_in m = inward \<and> mov_liters m = q2 liters
    \<and> mov_balance m = q2 (tank_stock t) + signed_liters m
    \<and> 0 \<le> mov_balance m \<and> mov_balance m \<le> q2 (tank_capacity t)
    \<and> tanks d' = tput tank_id (moved inward (q2 liters) m t) (tanks d)
    \<and> movements d' = movements d @ [m\<lparr>mov_total := map_option (column 2) (mov_total m)\<rparr>]"
    using t b p i by (intro exI [of _ t])
      (auto simp: f post_movement_def fresh_id_def Let_def moved_def tadd_def signed_liters_def)
  from p have "db_next d < db_next d1" by (auto simp: post_movement_def fresh_id_def Let_def)
  with low_stock_frame(2) [OF l] show "db_next d < db_next d'" by simp
  show "purchases d' = purchases d" "receipts d' = receipts d"
    "counts d' = counts d" "refuels d' = refuels d"
    using p by (auto simp: f post_movement_def fresh_id_def Let_def put_tank_def)
qed

lemma record_movement_ok:
  assumes r: "record_movement tenant tank ty inward liters stype source time actor cost d = Inr (m, d')"
    and ok: "fuel_ok d"
  shows "fuel_ok d'"
proof -
  from record_movement_effect(1) [OF r] obtain t where t: "tget tank_id tank (tanks d) = Some t"
    and q: "0 < q2 liters" and m: "mov_tank m = tank" "mov_in m = inward" "mov_liters m = q2 liters"
      "mov_balance m = q2 (tank_stock t) + signed_liters m"
      "0 \<le> mov_balance m" "mov_balance m \<le> q2 (tank_capacity t)"
    and ts: "tanks d' = tput tank_id (moved inward (q2 liters) m t) (tanks d)"
    and ms: "movements d' = movements d @ [m\<lparr>mov_total := map_option (column 2) (mov_total m)\<rparr>]"
    by blast
  note frame = record_movement_effect(2-4) [OF r]
  have i: "tank_id t = tank" and mem: "t \<in> set (tanks d)" using t by (simp_all add: tget_key tget_mem)
  have tk: "tank_ok (movements d) t" using ok mem by (simp add: fuel_ok_def)
  then have cap: "cents (tank_stock t)" "cents (tank_capacity t)" unfolding tank_ok_def by blast+
  have "cents (signed_liters m)" using m(2,3) by (auto simp: signed_liters_def)
  with cap(1) have "cents (mov_balance m)" unfolding m(4) by (simp add: has_digits_add)
  then have new: "tank_ok (movements d') (moved inward (q2 liters) m t)"
    using tk m cap by (auto simp: tank_ok_def ms i of_tank_snoc running_snoc)
  have other: "tank_ok (movements d') x" if "x \<in> set (tanks d)" "tank_id x \<noteq> tank" for x
    using bspec [OF fuel_okD(9) [OF ok] that(1)] that(2) m(1) by (auto simp: tank_ok_def ms of_tank_snoc)
  note okD = fuel_okD [OF ok] and le = less_imp_le [OF frame(1)]
  have "tank < db_next d" using okD(2) mem i by (auto simp: below_def list_all_iff)
  then have "below mov_tank (db_next d') (movements d')"
    using m(1) frame(1) below_mono [OF okD(7) le] by (simp add: ms below_def)
  moreover have "\<forall>x\<in>set (tanks d'). tank_ok (movements d') x"
    using new other by (auto simp: ts set_tput i)
  ultimately show ?thesis
    unfolding fuel_ok_def frame(2,3) ts keys_unique_tput
    by (intro conjI okD(1,3,5,9,10) below_tput below_mono [OF okD(2) le] below_mono [OF okD(4) le]
        below_mono [OF okD(6) le] below_mono [OF okD(8) le])
qed

section \<open>Every operation keeps it\<close>

lemma same_fuel_oversight:
  "only_oversight d d' \<Longrightarrow> db_next d \<le> db_next d' \<Longrightarrow> same_fuel d d'"
  by (simp add: same_fuel_def only_oversight_frame)

lemma ensure_exception_same_fuel:
  "ensure_exception t e i x s a st so d = Inr (r, d') \<Longrightarrow> same_fuel d d'"
  by (blast intro: same_fuel_oversight ensure_exception_only ensure_exception_next)

lemma same_fuel_refl [simp]: "same_fuel d d"
  by (simp add: same_fuel_def)

lemma same_fuel_audit [simp]: "same_fuel d (record_audit_log t u a e i d') \<longleftrightarrow> same_fuel d d'"
  by (simp add: same_fuel_def)

lemma fuel_ok_audit [simp]: "fuel_ok (record_audit_log t u a e i d) \<longleftrightarrow> fuel_ok d"
  by (simp add: fuel_ok_def)

lemma same_fuel_trans: "same_fuel d e \<Longrightarrow> same_fuel e f \<Longrightarrow> same_fuel d f"
  by (auto simp: same_fuel_def)

lemma of_tank_fresh: "below mov_tank n ms \<Longrightarrow> of_tank n ms = []"
  by (auto simp: of_tank_def below_def list_all_iff filter_empty_conv)

lemma create_tank_ok:
  assumes "create_tank tenant p actor d = Inr (t, d')" and ok: "fuel_ok d"
  shows "fuel_ok d'"
proof -
  from assms(1) have q: "0 < q2 (tc_capacity p)" and t: "tank_id t = db_next d" "tank_stock t = 0"
      "tank_capacity t = column 2 (tc_capacity p)"
    and d': "tanks d' = tadd t (tanks d)" "db_next d' = Suc (db_next d)" "purchases d' = purchases d"
      "receipts d' = receipts d" "movements d' = movements d"
    by (auto simp: create_tank_def fresh_id_def Let_def split: if_splits)
  note okD = fuel_okD [OF ok]
  have "0 \<le> tc_capacity p"
  proof (rule ccontr)
    assume "\<not> 0 \<le> tc_capacity p"
    then have "q2 (tc_capacity p) \<le> q2 0" by (intro quantize_mono) simp
    with q show False by simp
  qed
  then have "tank_ok (movements d) t"
    by (simp add: tank_ok_def t of_tank_fresh [OF okD(7)] column_nonneg)
  then have "\<forall>x\<in>set (tanks d'). tank_ok (movements d') x" using okD(9) by (simp add: d')
  moreover have "keys_unique tank_id (tanks d')" unfolding d'(1)
    by (rule keys_unique_insert [OF okD(1,2) t(1)])
  ultimately show ?thesis
    unfolding fuel_ok_def d'(2-5) using okD(2) t(1)
    by (intro conjI okD(3,5,10) below_mono [OF okD(4)] below_mono [OF okD(6)]
        below_mono [OF okD(7)] below_mono [OF okD(8)]) (auto simp: d' intro: below_mono)
qed

lemma received_fresh: "below rec_purchase n rs \<Longrightarrow> received_liters tenant n rs = 0"
  by (auto simp: received_liters_def below_def list_all_iff intro!: sum_list_zero)

lemma create_purchase_ok:
  assumes "create_purchase tenant p actor d = Inr (x, d')" and ok: "fuel_ok d"
  shows "fuel_ok d'"
proof -
  from assms(1) have q: "0 < q2 (puc_ordered p)" and x: "pur_id x = db_next d"
      "pur_ordered x = column 2 (puc_ordered p)" "pur_status x = U_pending"
    and d': "purchases d' = tadd x (purchases d)" "db_next d' = Suc (db_next d)" "tanks d' = tanks d"
      "receipts d' = receipts d" "movements d' = movements d"
    by (auto simp: create_purchase_def fresh_id_def Let_def split: if_splits)
  note okD = fuel_okD [OF ok]
  have "0 \<le> puc_ordered p"
  proof (rule ccontr)
    assume "\<not> 0 \<le> puc_ordered p"
    then have "q2 (puc_ordered p) \<le> q2 0" by (intro quantize_mono) simp
    with q show False by simp
  qed
  then have "0 \<le> column 2 (puc_ordered p)" by (rule column_nonneg)
  then have "purchase_ok (receipts d) x"
    by (simp add: purchase_ok_def x received_fresh [OF okD(8)])
  then have "\<forall>y\<in>set (purchases d'). purchase_ok (receipts d') y" using okD(10) by (simp add: d')
  moreover have "keys_unique pur_id (purchases d')" unfolding d'(1)
    by (rule keys_unique_insert [OF okD(3,4) x(1)])
  ultimately show ?thesis
    unfolding fuel_ok_def d'(2-5) using okD(4) x(1)
    by (intro conjI okD(1,5,9) below_mono [OF okD(2)] below_mono [OF okD(6)]
        below_mono [OF okD(7)] below_mono [OF okD(8)]) (auto simp: d' intro: below_mono)
qed

lemma put_purchase_ok:
  assumes ok: "fuel_ok d" and "tget pur_id (pur_id x) (purchases d) = Some y"
    and "pur_tenant x = pur_tenant y" "pur_ordered x = pur_ordered y" "pur_status x \<noteq> U_pending"
  shows "fuel_ok (put_purchase x d)"
proof -
  note okD = fuel_okD [OF ok]
  have "y \<in> set (purchases d)" "pur_id y = pur_id x" using assms(2) by (simp_all add: tget_mem tget_key)
  with okD(10) assms(3-5) have "purchase_ok (receipts d) x" by (auto simp: purchase_ok_def)
  then have "\<forall>z\<in>set (purchases (put_purchase x d)). purchase_ok (receipts d) z"
    using okD(10) by (auto simp: put_purchase_def set_tput)
  then show ?thesis using okD by (simp add: fuel_ok_def put_purchase_def below_tput)
qed

lemma approve_purchase_ok:
  assumes "approve_purchase tenant i actor now d = Inr (x, d')" and ok: "fuel_ok d"
  shows "fuel_ok d'"
  using assms tget_key [of pur_id i "purchases d"]
  by (auto simp: approve_purchase_def require_purchase_def rbind_Inr of_opt_Inr owned_Some Let_def
      split: if_splits intro!: put_purchase_ok)

lemma column_le_quantize: "column n x \<le> quantize n x + 1 / 10 ^ n"
proof -
  have "column n x * 10 ^ n \<le> x * 10 ^ n + 1 / 2"
    by (simp add: column_def round_half_away_def) linarith
  moreover have "x * 10 ^ n - 1 / 2 \<le> quantize n x * 10 ^ n"
    using round_half_even_bounds(1) [of "x * 10 ^ n"] by (simp add: quantize_def)
  ultimately have "column n x * 10 ^ n \<le> (quantize n x + 1 / 10 ^ n) * 10 ^ n"
    by (simp add: algebra_simps)
  then show ?thesis by simp
qed

lemma sum_filter_tput_same:
  fixes f :: "'r \<Rightarrow> dec"
  assumes "\<And>x. x \<in> set t \<Longrightarrow> key x = key r \<Longrightarrow> P x = P r \<and> f x = f r"
  shows "sum_list (map f (filter P (tput key r t))) = sum_list (map f (filter P t))"
  using assms by (induction t) auto

lemma received_tadd:
  "received_liters tenant i (tadd r rs) = received_liters tenant i rs
     + (if rec_tenant r = tenant \<and> rec_purchase r = i \<and> rec_status r = ''verified''
        then rec_liters r else 0)"
  by (simp add: received_liters_def)

text \<open>A receipt within the purchase keeps the purchases consistent; its movement link changes nothing.\<close>

lemma add_receipt_ok:
  assumes ok: "fuel_ok d" and x: "x \<in> set (purchases d)" "pur_status x = U_approved"
    and r: "r = receipt_of (pur_tenant x) p actor (db_next d)" "rcc_purchase p = pur_id x"
    and le: "q2 (received_liters (pur_tenant x) (pur_id x) (receipts d)) + q2 (rcc_liters p)
      \<le> q2 (pur_ordered x)"
    and d': "receipts d' = tadd r (receipts d)" "db_next d' = Suc (db_next d)" "tanks d' = tanks d"
      "movements d' = movements d" "purchases d' = purchases d"
  shows "fuel_ok d'"
proof -
  note okD = fuel_okD [OF ok]
  have rf: "rec_id r = db_next d" "rec_purchase r = pur_id x" "rec_tenant r = pur_tenant x"
    "rec_liters r = column 2 (rcc_liters p)" "rec_status r = ''verified''"
    by (simp_all add: r receipt_of_def)
  have px: "purchase_ok (receipts d) x" using okD(10) x(1) by blast
  have "purchase_ok (receipts d') x"
    using px le column_le_quantize [of 2 "rcc_liters p"] x(2)
    by (auto simp: purchase_ok_def d' received_tadd rf has_digits_add)
  moreover have "purchase_ok (receipts d') y" if "y \<in> set (purchases d)" "y \<noteq> x" for y
  proof -
    have "pur_id y \<noteq> pur_id x" using keys_unique_row [OF okD(3) that(1) x(1)] that(2) by blast
    then show ?thesis
      using bspec [OF okD(10) that(1)] by (simp add: purchase_ok_def d' received_tadd rf)
  qed
  ultimately have "\<forall>y\<in>set (purchases d'). purchase_ok (receipts d') y" unfolding d'(5) by blast
  moreover have "keys_unique rec_id (receipts d')" unfolding d'(1)
    by (rule keys_unique_insert [OF okD(5,6) rf(1)])
  moreover have "pur_id x < db_next d" using okD(4) x(1) by (simp add: below_def list_all_iff)
  ultimately show ?thesis
    unfolding fuel_ok_def d'(2-5) using okD(6,8) rf(1,2)
    by (intro conjI okD(1,3,9) below_mono [OF okD(2)] below_mono [OF okD(4)]
        below_mono [OF okD(7)]) (auto simp: d' intro: below_mono)
qed

lemma link_receipt_ok:
  assumes ok: "fuel_ok d" and r: "tget rec_id (rec_id r) (receipts d) = Some r"
    and d': "receipts d' = tput rec_id (r\<lparr>rec_movement := m\<rparr>) (receipts d)" "db_next d' = db_next d"
      "tanks d' = tanks d" "movements d' = movements d" "purchases d' = purchases d"
  shows "fuel_ok d'"
proof -
  note okD = fuel_okD [OF ok]
  have mem: "r \<in> set (receipts d)" using r by (rule tget_mem)
  have same: "x = r" if "x \<in> set (receipts d)" "rec_id x = rec_id r" for x
    using keys_unique_row [OF okD(5) that(1) mem that(2)] .
  have "received_liters t i (receipts d') = received_liters t i (receipts d)" for t i
    unfolding received_liters_def d'(1) by (rule sum_filter_tput_same) (auto dest: same)
  then have "\<forall>y\<in>set (purchases d'). purchase_ok (receipts d') y"
    using okD(10) by (simp add: purchase_ok_def d'(5))
  moreover have "below rec_purchase (db_next d') (receipts d')"
    using okD(8) mem by (auto simp: below_def list_all_iff d' set_tput)
  ultimately show ?thesis
    unfolding fuel_ok_def using okD by (simp add: d' below_tput)
qed

lemma create_verified_receipt_ok:
  assumes "create_verified_receipt tenant p actor d = Inr (r, d')" and ok: "fuel_ok d"
  shows "fuel_ok d'"
proof -
  from assms(1) obtain x whole where x: "tget pur_id (rcc_purchase p) (purchases d) = Some x"
      "pur_tenant x = tenant" "pur_status x = U_approved"
    and le: "q2 (received_liters tenant (pur_id x) (receipts d)) + q2 (rcc_liters p) \<le> q2 (pur_ordered x)"
    and post: "post_receipt tenant p x whole actor d = Inr (r, d')"
    by (auto simp: create_verified_receipt_def require_purchase_def rbind_Inr of_opt_Inr owned_Some
        Let_def not_less split: if_splits)
  define r0 where "r0 = receipt_of tenant p actor (db_next d)"
  define d2 where "d2 = d\<lparr>db_next := Suc (db_next d), receipts := tadd r0 (receipts d)\<rparr>"
  from post obtain m d3 where m: "record_movement tenant (rcc_tank p) ''purchase_receipt'' True
        (rcc_liters p) ''fuel_receipt'' (db_next d) (rcc_at p) actor (Some (pur_unit_price x)) d2
        = Inr (m, d3)"
    and d': "d' = record_audit_log tenant actor ''fuel_receipt.verified'' ''fuel_receipt''
      (Some (db_next d)) (if whole then put_purchase (x\<lparr>pur_status := U_received\<rparr>)
          (d3\<lparr>receipts := tput rec_id (r0\<lparr>rec_movement := Some (mov_id m)\<rparr>) (receipts d3)\<rparr>)
        else d3\<lparr>receipts := tput rec_id (r0\<lparr>rec_movement := Some (mov_id m)\<rparr>) (receipts d3)\<rparr>)"
    by (auto simp: post_receipt_def fresh_id_def Let_def rbind_Inr r0_def d2_def)
  note okD = fuel_okD [OF ok]
  have k: "pur_id x = rcc_purchase p" "x \<in> set (purchases d)" using x(1) by (simp_all add: tget_key tget_mem)
  have "fuel_ok d2"
    by (rule add_receipt_ok [OF ok k(2) x(3) _ k(1) [symmetric]])
      (use x(2) le in \<open>simp_all add: r0_def d2_def\<close>)
  with m have ok3: "fuel_ok d3" by (rule record_movement_ok)
  note eff = record_movement_effect(2-4) [OF m]
  have r3: "tget rec_id (rec_id r0) (receipts d3) = Some r0"
    unfolding eff(3) using fuel_okD(5) [OF ok3]
    by (intro keys_unique_get) (simp_all add: eff(3) d2_def)
  define d4 where "d4 = d3\<lparr>receipts := tput rec_id (r0\<lparr>rec_movement := Some (mov_id m)\<rparr>) (receipts d3)\<rparr>"
  have ok4: "fuel_ok d4" by (rule link_receipt_ok [OF ok3 r3]) (simp_all add: d4_def)
  have "tget pur_id (pur_id x) (purchases d4) = Some x" using x(1) k(1) eff(2) by (simp add: d4_def d2_def)
  then have "fuel_ok (put_purchase (x\<lparr>pur_status := U_received\<rparr>) d4)"
    by (intro put_purchase_ok [OF ok4]) simp_all
  with ok4 show ?thesis unfolding d' d4_def [symmetric] by simp
qed

lemma charge_trip_same [simp]:
  "tanks (charge_trip t c d) = tanks d" "movements (charge_trip t c d) = movements d"
  "purchases (charge_trip t c d) = purchases d" "receipts (charge_trip t c d) = receipts d"
  "db_next (charge_trip t c d) = db_next d"
  by (simp_all add: charge_trip_def put_trip_def split: option.splits)

lemma post_refuel_same:
  assumes "post_refuel tenant p v t r m actor d = Inr (r', d')"
  shows "same_fuel d d'"
  using assms
  by (auto simp: post_refuel_def Let_def rbind_Inr flush_trips_Inr same_fuel_def
      dest!: ensure_exception_same_fuel split: if_splits)

lemma create_vehicle_refuel_ok:
  assumes "create_vehicle_refuel tenant p actor d = Inr (r, d')" and ok: "fuel_ok d"
  shows "fuel_ok d'"
proof -
  from assms(1) obtain v t r0 m d3 where
    m: "record_movement tenant (rfc_tank p) ''vehicle_refuel'' False (rfc_liters p) ''vehicle_refuel''
        (db_next d) (rfc_at p) actor None
        (d\<lparr>db_next := Suc (db_next d), refuels := tadd r0 (refuels d)\<rparr>) = Inr (m, d3)"
    and post: "post_refuel tenant p v t r0 m actor d3 = Inr (r, d')"
    by (auto simp: create_vehicle_refuel_def fresh_id_def Let_def rbind_Inr split: if_splits)
  have "fuel_ok (d\<lparr>db_next := Suc (db_next d), refuels := tadd r0 (refuels d)\<rparr>)"
    by (rule fuel_ok_same [OF ok]) (simp add: same_fuel_def)
  with m have "fuel_ok d3" by (rule record_movement_ok)
  then show ?thesis using post_refuel_same [OF post] by (rule fuel_ok_same)
qed

lemma create_stock_count_same:
  assumes "create_stock_count tenant tank liters time actor d = Inr (c, d')"
  shows "same_fuel d d'"
  using assms
  by (auto simp: create_stock_count_def Let_def rbind_Inr fresh_id_def same_fuel_def
      dest!: ensure_exception_same_fuel split: if_splits)

lemma approve_stock_adjustment_ok:
  assumes "approve_stock_adjustment tenant i actor now d = Inr (c, d')" and ok: "fuel_ok d"
  shows "fuel_ok d'"
proof -
  have "fuel_ok (d1\<lparr>counts := cs\<rparr>)" if "fuel_ok d1" for d1 cs
    using that by (simp add: fuel_ok_def)
  then show ?thesis
    using assms by (auto simp: approve_stock_adjustment_def owned_Some rbind_Inr Let_def
        dest: record_movement_ok [OF _ ok] split: option.splits if_splits)
qed

section \<open>Runs of the fuel services\<close>

text \<open>One call of a service that returns.\<close>

inductive fuel_step :: "db \<Rightarrow> db \<Rightarrow> bool" where
  step_tank: "create_tank tn p a d = Inr (t, d') \<Longrightarrow> fuel_step d d'"
| step_purchase: "create_purchase tn q a d = Inr (x, d') \<Longrightarrow> fuel_step d d'"
| step_approve: "approve_purchase tn i a now d = Inr (x, d') \<Longrightarrow> fuel_step d d'"
| step_receipt: "create_verified_receipt tn r a d = Inr (y, d') \<Longrightarrow> fuel_step d d'"
| step_refuel: "create_vehicle_refuel tn f a d = Inr (z, d') \<Longrightarrow> fuel_step d d'"
| step_count: "create_stock_count tn i l time a d = Inr (c, d') \<Longrightarrow> fuel_step d d'"
| step_adjust: "approve_stock_adjustment tn i a now d = Inr (c, d') \<Longrightarrow> fuel_step d d'"

lemma fuel_step_ok: "fuel_step d d' \<Longrightarrow> fuel_ok d \<Longrightarrow> fuel_ok d'"
  by (induction rule: fuel_step.induct)
    (fastforce intro: create_tank_ok create_purchase_ok approve_purchase_ok
      create_verified_receipt_ok create_vehicle_refuel_ok approve_stock_adjustment_ok
      fuel_ok_same create_stock_count_same)+

lemma fuel_steps_ok: "fuel_step\<^sup>*\<^sup>* d d' \<Longrightarrow> fuel_ok d \<Longrightarrow> fuel_ok d'"
  by (induction rule: rtranclp_induct) (auto intro: fuel_step_ok)

lemma fuel_ok_empty: "fuel_ok empty_db"
  by (simp add: fuel_ok_def empty_db_def keys_unique_def below_def)

text \<open>
  C18: Every run of the fuel services from an empty system refines the ledger of movements: the
  stock of a tank is the signed sum of its movements, each movement records the balance it left,
  no balance is ever negative or beyond the capacity, and the receipts of a purchase stay within
  the ordered litres up to the rounding of one receipt.
\<close>

theorem fuel_runs_refine_ledger:
  assumes "fuel_step\<^sup>*\<^sup>* empty_db d"
  shows "(\<forall>t\<in>set (tanks d). tank_stock t = sum_list (map signed_liters (of_tank (tank_id t) (movements d)))
      \<and> running 0 (of_tank (tank_id t) (movements d)) \<and> 0 \<le> tank_stock t \<and> tank_stock t \<le> tank_capacity t)
    \<and> (\<forall>x\<in>set (purchases d). received_liters (pur_tenant x) (pur_id x) (receipts d) \<le> pur_ordered x + 1 / 100
      \<and> \<not> (pur_status x = U_pending \<and> received_liters (pur_tenant x) (pur_id x) (receipts d) \<noteq> 0))"
proof -
  from fuel_steps_ok [OF assms fuel_ok_empty] have "fuel_ok d" .
  from fuel_okD(9,10) [OF this] show ?thesis unfolding tank_ok_def purchase_ok_def by blast
qed

definition sample_tank :: tank_create where
  "sample_tank = \<lparr>tc_code = ''T1'', tc_fuel_type = ''gasoleo'', tc_capacity = 1000, tc_minimum = 100\<rparr>"

definition sample_purchase :: purchase_create where
  "sample_purchase = \<lparr>puc_reference = ''P1'', puc_fuel_type = ''gasoleo'', puc_ordered = 500, puc_unit_price = 90\<rparr>"

definition sample_receipt :: receipt_create where
  "sample_receipt = \<lparr>rcc_purchase = 1, rcc_tank = 0, rcc_liters = 300, rcc_at = 0, rcc_note_number = Some ''G1''\<rparr>"

definition tank_run :: "(fuel_receipt \<times> db) res" where
  "tank_run = rbind (create_tank 1 sample_tank None empty_db) (\<lambda>(_, d1).
     rbind (create_purchase 1 sample_purchase None d1) (\<lambda>(_, d2).
     rbind (approve_purchase 1 1 None 0 d2) (\<lambda>(_, d3). create_verified_receipt 1 sample_receipt None d3)))"

lemma tank_run_steps:
  assumes "tank_run = Inr (r, d)"
  shows "fuel_step\<^sup>*\<^sup>* empty_db d"
proof -
  from assms obtain t d1 x d2 y d3 where "create_tank 1 sample_tank None empty_db = Inr (t, d1)"
      "create_purchase 1 sample_purchase None d1 = Inr (x, d2)"
      "approve_purchase 1 1 None 0 d2 = Inr (y, d3)"
      "create_verified_receipt 1 sample_receipt None d3 = Inr (r, d)"
    unfolding tank_run_def by (auto simp: rbind_Inr simp del: One_nat_def)
  then have "fuel_step empty_db d1" "fuel_step d1 d2" "fuel_step d2 d3" "fuel_step d3 d"
    by (blast intro: step_tank step_purchase step_approve step_receipt)+
  then show ?thesis by (blast intro: converse_rtranclp_into_rtranclp rtranclp.rtrancl_refl)
qed

definition stocked_db :: db where
  "stocked_db = (case tank_run of Inr (_, d) \<Rightarrow> d | Inl _ \<Rightarrow> empty_db)"

lemma stocked_db_tanks: "map tank_stock (tanks stocked_db) = [300]"
  by code_simp

lemma stocked_db_steps: "fuel_step\<^sup>*\<^sup>* empty_db stocked_db"
proof (cases tank_run)
  case (Inr p)
  then have "tank_run = Inr (fst p, snd p)" by simp
  from tank_run_steps [OF this] show ?thesis
    unfolding stocked_db_def Inr by (simp only: sum.case prod.case_eq_if)
next
  case (Inl e)
  show ?thesis unfolding stocked_db_def Inl by simp
qed

lemma fuel_runs_refine_ledger_witness:
  "\<exists>t. t \<in> set (tanks stocked_db) \<and> tank_stock t = 300
     \<and> sum_list (map signed_liters (of_tank (tank_id t) (movements stocked_db))) = 300"
proof -
  from stocked_db_tanks obtain t where "tanks stocked_db = [t]" "tank_stock t = 300"
    by (cases "tanks stocked_db") auto
  then show ?thesis using fuel_runs_refine_ledger [OF stocked_db_steps] by (intro exI [of _ t]) simp
qed

section \<open>Counting\<close>

lemma record_movement_returns:
  assumes "tget tank_id tank (tanks d) = Some t" "tank_tenant t = tenant" "tank_status t = ''active''"
    and "0 < q2 liters"
    and "0 \<le> (if inward then q2 (tank_stock t) + q2 liters else q2 (tank_stock t) - q2 liters)"
    and "(if inward then q2 (tank_stock t) + q2 liters else q2 (tank_stock t) - q2 liters)
      \<le> q2 (tank_capacity t)"
  shows "\<exists>m d'. record_movement tenant tank ty inward liters stype source time actor cost d = Inr (m, d')"
proof -
  have "\<exists>d''. low_stock tenant t b actor d' = Inr d''" for b d'
    by (auto simp: low_stock_def ensure_exception_def severities_def Let_def fresh_id_def
        split: option.splits)
  then show ?thesis
    using assms by (auto simp: record_movement_def owned_def Let_def rbind_Inr split: prod.splits)
qed

text \<open>
  C19: Physical count and adjustment: after a count that differs from the balance, any approver
  other than the counter posts the adjustment, and it leaves the tank at the counted litres.
\<close>

theorem adjustment_reaches_count:
  assumes ok: "fuel_ok d" and below: "below cnt_id (db_next d) (counts d)"
    and count: "create_stock_count tn tk l time a d = Inr (c, d1)" "cnt_adjustment c = J_pending"
    and by': "b = None \<or> b \<noteq> a"
  shows "\<exists>c' d2 t. approve_stock_adjustment tn (cnt_id c) b now d1 = Inr (c', d2)
    \<and> cnt_adjustment c' = J_approved \<and> tget tank_id tk (tanks d2) = Some t \<and> tank_stock t = q2 l"
proof -
  from count obtain t where t: "tget tank_id tk (tanks d) = Some t" "tank_tenant t = tn"
      "tank_status t = ''active''"
    and m: "0 \<le> q2 l" "q2 l \<le> q2 (tank_capacity t)" "q2 l \<noteq> q2 (tank_stock t)"
    and c: "cnt_id c = db_next d" "cnt_tank c = tk" "cnt_variance c = q2 l - q2 (tank_stock t)"
      "cnt_by c = a" "cnt_tenant c = tn"
    and d1: "counts d1 = tadd c (counts d)"
    by (auto simp: create_stock_count_def require_tank_def owned_Some rbind_Inr Let_def fresh_id_def
        dest!: ensure_exception_only only_oversight_frame split: option.splits if_splits)
  have ts: "tanks d1 = tanks d"
    using create_stock_count_same [OF count(1)] by (simp add: same_fuel_def)
  have "tget cnt_id (cnt_id c) (counts d) = None"
    using below_fresh [OF below] by (simp add: tget_None c(1))
  then have cm: "owned cnt_id cnt_tenant tn (cnt_id c) (counts d1) = Some c"
    by (simp add: owned_Some d1 tget_tadd c(5))
  let ?v = "q2 l - q2 (tank_stock t)"
  have qv: "q2 (cnt_variance c) = ?v" "q2 \<bar>?v\<bar> = \<bar>?v\<bar>"
    using has_digits_diff has_digits_abs by (simp_all add: c(3))
  have "(if 0 < ?v then q2 (tank_stock t) + q2 \<bar>?v\<bar> else q2 (tank_stock t) - q2 \<bar>?v\<bar>) = q2 l"
    unfolding qv(2) by auto
  moreover have "0 < q2 \<bar>?v\<bar>" unfolding qv(2) using m(3) by simp
  ultimately obtain mv d2 where r: "record_movement tn tk ''stock_adjustment'' (0 < ?v) \<bar>?v\<bar>
      ''fuel_stock_count'' (cnt_id c) now b None d1 = Inr (mv, d2)"
    using record_movement_returns [of tk d1 t tn "\<bar>?v\<bar>" "0 < ?v" "''stock_adjustment''"
        "''fuel_stock_count''" "cnt_id c" now b None] t m(1,2) unfolding ts by auto
  from record_movement_effect(1) [OF r] obtain t' where
    e: "tget tank_id tk (tanks d1) = Some t'" "mov_balance mv = q2 (tank_stock t') + signed_liters mv"
      "mov_liters mv = \<bar>?v\<bar>" "mov_in mv = (0 < ?v)"
      "tanks d2 = tput tank_id (moved (0 < ?v) (q2 \<bar>?v\<bar>) mv t') (tanks d1)"
    unfolding qv by blast
  have "t' = t" using e(1) t(1) ts by simp
  with e have bal: "mov_balance mv = q2 l" by (auto simp: signed_liters_def)
  have "tget tank_id tk (tanks d2) = Some (moved (0 < ?v) (q2 \<bar>?v\<bar>) mv t)"
    using e(1) tget_key [OF e(1)] \<open>t' = t\<close> by (simp add: e(5) tget_tput)
  with cm r by' show ?thesis
    by (auto simp: approve_stock_adjustment_def count(2) c(2,4) qv(1) bal Let_def)
qed

lemma adjustment_reaches_count_witness:
  "\<exists>c d1 c' d2 t. create_stock_count 1 0 (2508 / 10) 5 (Some 7) stocked_db = Inr (c, d1)
     \<and> approve_stock_adjustment 1 (cnt_id c) (Some 8) 6 d1 = Inr (c', d2)
     \<and> tget tank_id 0 (tanks d2) = Some t \<and> tank_stock t = 2508 / 10"
proof -
  let ?count = "create_stock_count 1 0 (2508 / 10) 5 (Some 7) stocked_db"
  have "\<not> isl ?count" "cnt_adjustment (fst (projr ?count)) = J_pending" by code_simp+
  then obtain c d1 where c: "?count = Inr (c, d1)" "cnt_adjustment c = J_pending"
    by (cases ?count) auto
  have ok: "fuel_ok stocked_db" using fuel_steps_ok [OF stocked_db_steps fuel_ok_empty] .
  have "below cnt_id (db_next stocked_db) (counts stocked_db)" by code_simp
  from adjustment_reaches_count [OF ok this c, of "Some 8" 6] have
    "\<exists>c' d2 t. approve_stock_adjustment 1 (cnt_id c) (Some 8) 6 d1 = Inr (c', d2)
      \<and> cnt_adjustment c' = J_approved \<and> tget tank_id 0 (tanks d2) = Some t
      \<and> tank_stock t = q2 (2508 / 10)" by simp
  moreover have "q2 (2508 / 10) = 2508 / 10" by code_simp
  ultimately show ?thesis using c(1) by metis
qed

end
