(* ===== verification/Contracts.thy ===== *)
theory Contracts
  imports Trip_Costs
begin

text \<open>
  Contracts (\<^verbatim>\<open>contracts/service.py\<close>): creation, patching, the state machine SM-02 with its
  nightly expiry job (\<^verbatim>\<open>worker.py\<close>), the tariffs of a contract by known route, and the known
  routes themselves (\<^verbatim>\<open>trips/known_routes_service.py\<close>).
\<close>

section \<open>Contracts\<close>

definition put_contract :: "contract \<Rightarrow> db \<Rightarrow> db" where
  "put_contract c d = d\<lparr>contracts := tput con_id c (contracts d)\<rparr>"

definition require_contract :: "id \<Rightarrow> id \<Rightarrow> db \<Rightarrow> contract res" where
  "require_contract tenant i d =
     of_opt (ApiError ''contract_not_found'' 404) (owned con_id con_tenant tenant i (contracts d))"

record contract_create =
  cc_client :: "id option"
  cc_client_name :: "string option"
  cc_reference :: string
  cc_billing_basis :: string
  cc_unit_price :: "dec option"
  cc_ends_at :: "timestamp option"

definition contract_client_name :: "id \<Rightarrow> contract_create \<Rightarrow> db \<Rightarrow> string res" where
  "contract_client_name tenant p d =
     (case cc_client p of
        Some i \<Rightarrow>
          (case owned cli_id cli_tenant tenant i (clients d) of
             None \<Rightarrow> Inl (ApiError ''client_not_found'' 404)
           | Some c \<Rightarrow> Inr (cli_trading_name c))
      | None \<Rightarrow> Inr (or_else (cc_client_name p) []))"

definition create_contract ::
  "id \<Rightarrow> contract_create \<Rightarrow> id option \<Rightarrow> db \<Rightarrow> (contract \<times> db) res" where
  "create_contract tenant p actor d =
     (if cc_client p = None \<and> \<not> truthy (cc_client_name p)
      then Inl (ApiError ''client_required'' 422)
      else if list_ex (\<lambda>c. con_tenant c = tenant \<and> con_reference c = cc_reference p) (contracts d)
      then Inl (ApiError ''contract_reference_exists'' 409)
      else rbind (contract_client_name tenant p d) (\<lambda>name.
        let (i, d1) = fresh_id d;
            c = \<lparr>con_id = i, con_tenant = tenant, con_client_name = name,
              con_reference = cc_reference p, con_status = ''active'',
              con_billing_basis = cc_billing_basis p,
              con_unit_price = map_option (column 2) (cc_unit_price p), con_ends_at = cc_ends_at p,
              con_paused_at = None, con_terminated_at = None, con_termination_reason = None,
              con_renewed_at = None, con_terms_days = 30\<rparr>
        in Inr (c, record_audit_log tenant actor ''contract.created'' ''contract'' (Some i)
                     (d1\<lparr>contracts := tadd c (contracts d1)\<rparr>))))"

text \<open>
  A patch sets the fields its payload names; a null in a column that is not nullable fails at the
  flush.
\<close>

datatype contract_change =
    Set_client_name "string option"
  | Set_status "string option"
  | Set_billing_basis "string option"
  | Set_unit_price "dec option"
  | Set_ends_at "timestamp option"

fun change_contract :: "contract_change \<Rightarrow> contract \<Rightarrow> contract res" where
  "change_contract (Set_client_name (Some x)) c = Inr (c\<lparr>con_client_name := x\<rparr>)"
| "change_contract (Set_status (Some x)) c = Inr (c\<lparr>con_status := x\<rparr>)"
| "change_contract (Set_billing_basis (Some x)) c = Inr (c\<lparr>con_billing_basis := x\<rparr>)"
| "change_contract (Set_unit_price x) c = Inr (c\<lparr>con_unit_price := map_option (column 2) x\<rparr>)"
| "change_contract (Set_ends_at x) c = Inr (c\<lparr>con_ends_at := x\<rparr>)"
| "change_contract _ c = Inl (PyError ''IntegrityError'')"

definition patch_contract ::
  "id \<Rightarrow> id \<Rightarrow> contract_change list \<Rightarrow> id option \<Rightarrow> db \<Rightarrow> (contract \<times> db) res" where
  "patch_contract tenant i changes actor d =
     rbind (require_contract tenant i d) (\<lambda>c.
     rbind (rfold change_contract changes c) (\<lambda>c'.
       Inr (c', record_audit_log tenant actor ''contract.updated'' ''contract'' (Some i)
                  (put_contract c' d))))"

section \<open>SM-02\<close>

definition contract_transitions :: "string \<Rightarrow> string list" where
  "contract_transitions s =
     (if s = ''draft'' then [''active'']
      else if s = ''active'' then [''paused'', ''expired'', ''terminated'']
      else if s = ''paused'' then [''active'', ''expired'', ''terminated'']
      else if s = ''expired'' then [''active'', ''terminated'']
      else [])"

definition transition_contract ::
  "contract \<Rightarrow> string \<Rightarrow> id \<Rightarrow> id \<Rightarrow> string option \<Rightarrow> timestamp option \<Rightarrow> timestamp \<Rightarrow> db
    \<Rightarrow> (contract \<times> db) res" where
  "transition_contract c st user tenant reason ends now d =
     (if st \<notin> set (contract_transitions (con_status c))
      then Inl (ApiError ''invalid_state_transition'' 409)
      else if st = ''terminated'' \<and> \<not> truthy reason
      then Inl (ApiError ''termination_reason_required'' 422)
      else
        (let c1 = c\<lparr>con_status := st\<rparr>;
             done = (\<lambda>c'. Inr (c', record_audit_log tenant (Some user) (''contract.'' @ st)
                                    ''contract'' (Some (con_id c)) (put_contract c' d)))
         in if st = ''paused'' then done (c1\<lparr>con_paused_at := Some now\<rparr>)
            else if st = ''active'' \<and> con_status c = ''paused'' then done (c1\<lparr>con_paused_at := None\<rparr>)
            else if st = ''active'' \<and> con_status c = ''expired''
            then (case ends of
                    None \<Rightarrow> Inl (ApiError ''ends_at_required'' 422)
                  | Some e \<Rightarrow> done (c1\<lparr>con_ends_at := Some e, con_renewed_at := Some now\<rparr>))
            else if st = ''terminated''
            then done (c1\<lparr>con_terminated_at := Some now, con_termination_reason := reason\<rparr>)
            else done c1))"

definition renew_contract ::
  "id \<Rightarrow> id \<Rightarrow> id \<Rightarrow> timestamp \<Rightarrow> timestamp \<Rightarrow> db \<Rightarrow> (contract \<times> db) res" where
  "renew_contract i tenant user ends now d =
     rbind (require_contract tenant i d) (\<lambda>c.
       transition_contract c ''active'' user tenant None (Some ends) now d)"

text \<open>The nightly job, over all tenants.\<close>

definition expire_contract :: "timestamp \<Rightarrow> contract \<Rightarrow> contract" where
  "expire_contract now c =
     (if con_status c \<in> {''active'', ''paused''}
         \<and> (case con_ends_at c of None \<Rightarrow> False | Some e \<Rightarrow> e < now)
      then c\<lparr>con_status := ''expired''\<rparr> else c)"

definition task_expire_contracts :: "timestamp \<Rightarrow> db \<Rightarrow> db" where
  "task_expire_contracts now d = d\<lparr>contracts := map (expire_contract now) (contracts d)\<rparr>"

section \<open>Tariffs\<close>

definition tariff_exists :: "id \<Rightarrow> id \<Rightarrow> id \<Rightarrow> db \<Rightarrow> bool" where
  "tariff_exists tenant contract route d = list_ex (\<lambda>x. tar_tenant x = tenant
     \<and> tar_contract x = contract \<and> tar_route x = route) (tariffs d)"

definition create_contract_tariff ::
  "id \<Rightarrow> id \<Rightarrow> id \<Rightarrow> string \<Rightarrow> dec \<Rightarrow> id option \<Rightarrow> db \<Rightarrow> (tariff \<times> db) res" where
  "create_contract_tariff tenant contract route basis price actor d =
     rbind (require_contract tenant contract d) (\<lambda>_.
       if owned route_id route_tenant tenant route (routes d) = None
       then Inl (ApiError ''known_route_not_found'' 404)
       else if tariff_exists tenant contract route d
       then Inl (ApiError ''contract_tariff_exists'' 409)
       else
         (let (i, d1) = fresh_id d;
              x = \<lparr>tar_id = i, tar_tenant = tenant, tar_contract = contract, tar_route = route,
                tar_basis = basis, tar_unit_price = column 2 price\<rparr>
          in Inr (x, record_audit_log tenant actor ''contract_tariff.created'' ''contract_tariff''
                       (Some i) (d1\<lparr>tariffs := tadd x (tariffs d1)\<rparr>))))"

definition require_tariff :: "id \<Rightarrow> id \<Rightarrow> id \<Rightarrow> db \<Rightarrow> tariff res" where
  "require_tariff tenant contract i d =
     (case owned tar_id tar_tenant tenant i (tariffs d) of
        Some x \<Rightarrow> if tar_contract x = contract then Inr x
                  else Inl (ApiError ''contract_tariff_not_found'' 404)
      | None \<Rightarrow> Inl (ApiError ''contract_tariff_not_found'' 404))"

definition update_contract_tariff ::
  "id \<Rightarrow> id \<Rightarrow> id \<Rightarrow> string option option \<Rightarrow> dec option option \<Rightarrow> id option \<Rightarrow> db
    \<Rightarrow> (tariff \<times> db) res" where
  "update_contract_tariff tenant contract i basis price actor d =
     rbind (require_tariff tenant contract i d) (\<lambda>x.
       if basis = Some None \<or> price = Some None then Inl (PyError ''IntegrityError'')
       else
         (let x1 = (case basis of Some (Some b) \<Rightarrow> x\<lparr>tar_basis := b\<rparr> | _ \<Rightarrow> x);
              x2 = (case price of Some (Some p) \<Rightarrow> x1\<lparr>tar_unit_price := column 2 p\<rparr> | _ \<Rightarrow> x1)
          in Inr (x2, record_audit_log tenant actor ''contract_tariff.updated'' ''contract_tariff''
                        (Some i) (d\<lparr>tariffs := tput tar_id x2 (tariffs d)\<rparr>))))"

definition delete_contract_tariff :: "id \<Rightarrow> id \<Rightarrow> id \<Rightarrow> id option \<Rightarrow> db \<Rightarrow> db res" where
  "delete_contract_tariff tenant contract i actor d =
     rbind (require_tariff tenant contract i d) (\<lambda>_.
       Inr (record_audit_log tenant actor ''contract_tariff.deleted'' ''contract_tariff'' (Some i)
              (d\<lparr>tariffs := filter (\<lambda>x. tar_id x \<noteq> i) (tariffs d)\<rparr>)))"

section \<open>Known routes\<close>

definition create_known_route :: "id \<Rightarrow> string \<Rightarrow> string \<Rightarrow> dec \<Rightarrow> db \<Rightarrow> (known_route \<times> db) res" where
  "create_known_route tenant origin destination distance d =
     (if list_ex (\<lambda>r. route_tenant r = tenant \<and> route_origin r = strip origin
           \<and> route_destination r = strip destination) (routes d)
      then Inl (ApiError ''route_already_exists'' 409)
      else
        (let (i, d1) = fresh_id d;
             r = \<lparr>route_id = i, route_tenant = tenant, route_origin = strip origin,
               route_destination = strip destination, route_distance = column 1 distance\<rparr>
         in Inr (r, d1\<lparr>routes := tadd r (routes d1)\<rparr>)))"

text \<open>An update may run into the uniqueness constraint of the table.\<close>

definition routes_unique :: "known_route list \<Rightarrow> bool" where
  "routes_unique rs = distinct (map (\<lambda>r. (route_tenant r, route_origin r, route_destination r)) rs)"

definition update_known_route ::
  "id \<Rightarrow> id \<Rightarrow> string option \<Rightarrow> string option \<Rightarrow> dec option \<Rightarrow> db \<Rightarrow> (known_route \<times> db) res" where
  "update_known_route tenant i origin destination distance d =
     rbind (of_opt (ApiError ''route_not_found'' 404) (owned route_id route_tenant tenant i (routes d)))
       (\<lambda>r. let r1 = (case origin of Some x \<Rightarrow> r\<lparr>route_origin := strip x\<rparr> | None \<Rightarrow> r);
                r2 = (case destination of Some x \<Rightarrow> r1\<lparr>route_destination := strip x\<rparr> | None \<Rightarrow> r1);
                r3 = (case distance of Some x \<Rightarrow> r2\<lparr>route_distance := column 1 x\<rparr> | None \<Rightarrow> r2);
                rs = tput route_id r3 (routes d)
            in if routes_unique rs then Inr (r3, d\<lparr>routes := rs\<rparr>)
               else Inl (PyError ''IntegrityError''))"

text \<open>A route a tariff refers to cannot be deleted (\<^verbatim>\<open>ondelete="RESTRICT"\<close>).\<close>

definition delete_known_route :: "id \<Rightarrow> id \<Rightarrow> db \<Rightarrow> db res" where
  "delete_known_route tenant i d =
     rbind (of_opt (ApiError ''route_not_found'' 404) (owned route_id route_tenant tenant i (routes d)))
       (\<lambda>_. if list_ex (\<lambda>x. tar_route x = i) (tariffs d) then Inl (PyError ''IntegrityError'')
            else Inr (d\<lparr>routes := filter (\<lambda>r. route_id r \<noteq> i) (routes d)\<rparr>))"

section \<open>The state machine\<close>

interpretation contract_table: transition_table contract_transitions "''draft''" "\<lambda>s. s = ''terminated''"
  by unfold_locales (auto simp: contract_transitions_def)

lemma transition_contract_Inr:
  "(\<exists>r. transition_contract c st u tn reason ends now d = Inr r)
     \<longleftrightarrow> st \<in> set (contract_transitions (con_status c)) \<and> \<not> (st = ''terminated'' \<and> \<not> truthy reason)
       \<and> \<not> (st = ''active'' \<and> con_status c = ''expired'' \<and> ends = None)"
  by (auto simp: transition_contract_def Let_def split: option.splits)

text \<open>
  A contract moves only along the table of SM-02: a transition succeeds exactly when the
  table allows it, a termination has a reason and a renewal a new end. Termination is final, no
  path leads back to draft, and the expiry job makes only allowed moves. The patch of a contract,
  in contrast, sets any status.
\<close>

theorem contract_lifecycle:
  "((\<exists>r. transition_contract c st u tn reason ends now d = Inr r)
      \<longleftrightarrow> st \<in> set (contract_transitions (con_status c)) \<and> \<not> (st = ''terminated'' \<and> \<not> truthy reason)
        \<and> \<not> (st = ''active'' \<and> con_status c = ''expired'' \<and> ends = None))
   \<and> ((\<exists>r. renew_contract i tn u e now d = Inr r)
      \<longleftrightarrow> (\<exists>x. owned con_id con_tenant tn i (contracts d) = Some x
            \<and> con_status x \<in> {''draft'', ''paused'', ''expired''}))
   \<and> {s. path contract_transitions ''terminated'' s} = {''terminated''}
   \<and> {s. path contract_transitions s ''draft''} = {''draft''}
   \<and> con_status (expire_contract now c) \<in> set (con_status c # contract_transitions (con_status c))
   \<and> ((\<exists>x d'. patch_contract tn i [Set_status (Some st)] a d = Inr (x, d') \<and> con_status x = st)
      \<longleftrightarrow> owned con_id con_tenant tn i (contracts d) \<noteq> None)"
proof (intro conjI)
  show "(\<exists>r. transition_contract c st u tn reason ends now d = Inr r)
      \<longleftrightarrow> st \<in> set (contract_transitions (con_status c)) \<and> \<not> (st = ''terminated'' \<and> \<not> truthy reason)
        \<and> \<not> (st = ''active'' \<and> con_status c = ''expired'' \<and> ends = None)"
    by (rule transition_contract_Inr)
  have active: "''active'' \<in> set (contract_transitions s) \<longleftrightarrow> s \<in> {''draft'', ''paused'', ''expired''}" for s
    by (simp add: contract_transitions_def)
  have "(\<exists>r. transition_contract x ''active'' u tn None (Some e) now d = Inr r)
      \<longleftrightarrow> con_status x \<in> {''draft'', ''paused'', ''expired''}" for x
    unfolding transition_contract_Inr active by simp
  then show "(\<exists>r. renew_contract i tn u e now d = Inr r)
      \<longleftrightarrow> (\<exists>x. owned con_id con_tenant tn i (contracts d) = Some x
            \<and> con_status x \<in> {''draft'', ''paused'', ''expired''})"
    by (simp add: renew_contract_def require_contract_def rbind_Inr of_opt_Inr) blast
  show "{s. path contract_transitions ''terminated'' s} = {''terminated''}"
    using contract_table.terminal_path path_refl [of contract_transitions "''terminated''"] by blast
  show "{s. path contract_transitions s ''draft''} = {''draft''}"
    using contract_table.never_back path_refl [of contract_transitions "''draft''"] by blast
  show "con_status (expire_contract now c) \<in> set (con_status c # contract_transitions (con_status c))"
    by (auto simp: expire_contract_def contract_transitions_def)
  show "(\<exists>x d'. patch_contract tn i [Set_status (Some st)] a d = Inr (x, d') \<and> con_status x = st)
      \<longleftrightarrow> owned con_id con_tenant tn i (contracts d) \<noteq> None"
    by (auto simp: patch_contract_def require_contract_def rbind_Inr of_opt_Inr)
qed

section \<open>Tariffs price trips\<close>

lemma find_tariff_None: "\<not> tariff_exists tn c r d \<Longrightarrow> find_tariff tn c r d = None"
  by (auto simp: tariff_exists_def find_tariff_def find_None_iff list_ex_iff)

lemma create_tariff_result:
  assumes "create_contract_tariff tn c r basis price a d = Inr (x, d1)"
  shows "tariffs d1 = tariffs d @ [x]" "tar_id x = db_next d" "tar_tenant x = tn" "tar_contract x = c"
    "tar_route x = r" "tar_basis x = basis" "tar_unit_price x = column 2 price"
    "contracts d1 = contracts d" "routes d1 = routes d" "\<not> tariff_exists tn c r d"
    "owned con_id con_tenant tn c (contracts d) \<noteq> None"
  using assms by (auto simp: create_contract_tariff_def require_contract_def rbind_Inr of_opt_Inr
      fresh_id_def Let_def tadd_def split: if_splits)

lemma revenue_cong:
  assumes "contracts d' = contracts d" "routes d' = routes d"
    and "\<And>r. trip_contract t \<noteq> None \<Longrightarrow> find_route tn t d = Some r
      \<Longrightarrow> find_tariff tn (the (trip_contract t)) (route_id r) d' = find_tariff tn (the (trip_contract t)) (route_id r) d"
  shows "auto_calculate_revenue tn t d' = auto_calculate_revenue tn t d"
proof -
  have "find_route tn t d' = find_route tn t d" using assms(2) by (simp add: find_route_def)
  then show ?thesis using assms(1,3) by (auto simp: auto_calculate_revenue_def split: option.splits)
qed

text \<open>
  A new tariff prices exactly the trips of its contract on its route: their revenue becomes
  the rate of the tariff, every other trip keeps its revenue, and deleting the tariff restores
  the revenue of all of them.
\<close>

theorem tariff_prices_route:
  assumes create: "create_contract_tariff tn c r basis price a d = Inr (x, d1)"
    and below: "below tar_id (db_next d) (tariffs d)"
    and delete: "delete_contract_tariff tn c (tar_id x) b d1 = Inr d2"
  shows "auto_calculate_revenue tn t d2 = auto_calculate_revenue tn t d
    \<and> auto_calculate_revenue tn t d1 =
        (case find_route tn t d of
           Some y \<Rightarrow> if trip_contract t = Some c \<and> route_id y = r
                      then rate_amount basis (column 2 price) (q2 (route_distance y)) t
                      else auto_calculate_revenue tn t d
         | None \<Rightarrow> auto_calculate_revenue tn t d)"
proof (intro conjI)
  note x = create_tariff_result [OF create]
  have ids: "tar_id y \<noteq> tar_id x" if "y \<in> set (tariffs d)" for y
    using below that by (auto simp: x(2) below_def list_all_iff)
  from delete have "tariffs d2 = tariffs d" "contracts d2 = contracts d1" "routes d2 = routes d1"
    using ids by (auto simp: delete_contract_tariff_def rbind_Inr x(1) filter_id_conv)
  then show "auto_calculate_revenue tn t d2 = auto_calculate_revenue tn t d"
    by (intro revenue_cong) (simp_all add: x find_tariff_def)
  have find: "find_tariff tn k z d1 = (if k = c \<and> z = r then Some x else find_tariff tn k z d)" for k z
    using find_tariff_None [OF x(10)] by (auto simp: find_tariff_def x find_app split: option.splits)
  show "auto_calculate_revenue tn t d1 =
        (case find_route tn t d of
           Some y \<Rightarrow> if trip_contract t = Some c \<and> route_id y = r
                      then rate_amount basis (column 2 price) (q2 (route_distance y)) t
                      else auto_calculate_revenue tn t d
         | None \<Rightarrow> auto_calculate_revenue tn t d)"
  proof (cases "find_route tn t d")
    case None
    then show ?thesis using revenue_cong [of d1 d t tn] x(8,9) by simp
  next
    case (Some y)
    have "find_route tn t d1 = Some y" using Some x(9) by (simp only: find_route_def)
    then have "auto_calculate_revenue tn t d1 = rate_amount basis (column 2 price) (q2 (route_distance y)) t"
      if "trip_contract t = Some c" "route_id y = r"
      using that x(11) by (auto simp: auto_calculate_revenue_def find x split: option.splits)
    moreover have "auto_calculate_revenue tn t d1 = auto_calculate_revenue tn t d"
      if "\<not> (trip_contract t = Some c \<and> route_id y = r)"
      using that Some by (intro revenue_cong [OF x(8,9)]) (auto simp: find)
    ultimately show ?thesis using Some by auto
  qed
qed

definition route_db :: db where
  "route_db = empty_db\<lparr>db_next := 100,
     contracts := [\<lparr>con_id = 30, con_tenant = 2, con_client_name = ''Acme'', con_reference = ''K1'',
       con_status = ''active'', con_billing_basis = ''trip'', con_unit_price = Some 1000,
       con_ends_at = None, con_paused_at = None, con_terminated_at = None,
       con_termination_reason = None, con_renewed_at = None, con_terms_days = 30\<rparr>],
     routes := [\<lparr>route_id = 50, route_tenant = 2, route_origin = ''Maputo'',
       route_destination = ''Beira'', route_distance = 1200\<rparr>]\<rparr>"

definition route_trip :: trip where
  "route_trip = (new_trip 5 2 7 8)\<lparr>trip_contract := Some 30, trip_origin := ''maputo '',
     trip_destination := ''BEIRA''\<rparr>"

lemma tariff_prices_route_witness:
  "\<exists>x d1. create_contract_tariff 2 30 50 ''km'' (25 / 10) None route_db = Inr (x, d1)
     \<and> auto_calculate_revenue 2 route_trip route_db = 1000
     \<and> auto_calculate_revenue 2 route_trip d1 = 3000"
proof -
  let ?c = "create_contract_tariff 2 30 50 ''km'' (25 / 10) None route_db"
  have c: "\<not> isl ?c" by code_simp
  have e: "\<not> isl (delete_contract_tariff 2 30 (tar_id (fst (projr ?c))) None (snd (projr ?c)))" by code_simp
  from c obtain x d1 where r: "?c = Inr (x, d1)" by (cases ?c) auto
  with e obtain d2 where q: "delete_contract_tariff 2 30 (tar_id x) None d1 = Inr d2"
    by (cases "delete_contract_tariff 2 30 (tar_id x) None d1") auto
  have b: "below tar_id (db_next route_db) (tariffs route_db)" by code_simp
  have v: "auto_calculate_revenue 2 route_trip route_db = 1000" by code_simp
  have w: "(case find_route 2 route_trip route_db of
        Some y \<Rightarrow> if trip_contract route_trip = Some 30 \<and> route_id y = 50
                   then rate_amount ''km'' (column 2 (25 / 10)) (q2 (route_distance y)) route_trip
                   else auto_calculate_revenue 2 route_trip route_db
      | None \<Rightarrow> auto_calculate_revenue 2 route_trip route_db) = 3000" by code_simp
  from tariff_prices_route [OF r b q, of route_trip] have "auto_calculate_revenue 2 route_trip d1 = 3000"
    unfolding w by (rule conjunct2)
  with r v show ?thesis by blast
qed

end
