(* ===== verification/Idempotency.thy ===== *)
theory Idempotency
  imports Billing_Docs
begin

text \<open>
  Idempotent requests (\<^verbatim>\<open>core/idempotency.py\<close>): a request carries a key; the first one reserves
  the key, runs its handler and stores the response, later ones are answered from the key. The
  handler, the state it works on and the request digest are parameters: the digest is SHA-256 of
  the canonical JSON, and only equal digests count as the same request. Requests that race are in \<open>Request_Races\<close>.
\<close>

section \<open>Sessions\<close>

text \<open>
  A handler returns with its changes committed, or raises with the changes it made so far still
  pending in the session: what becomes of them is the caller's decision.
\<close>

datatype ('r, 's) outcome = Returned 'r 's | Raised err 's

record 'r idem_key =
  idk_tenant :: id
  idk_key :: string
  idk_operation :: string
  idk_entity_type :: string
  idk_hash :: string
  idk_response :: "'r option"
  idk_status :: "nat option"
  idk_expires :: timestamp

record 'p request =
  rq_tenant :: id
  rq_key :: "string option"
  rq_operation :: string
  rq_entity_type :: string
  rq_payload :: 'p

definition ttl_for :: "string \<Rightarrow> int" where
  "ttl_for ty = (if ty \<in> {''billing_document'', ''billing_item''} then 90 else 30)"

definition find_key :: "id \<Rightarrow> string \<Rightarrow> 'r idem_key list \<Rightarrow> 'r idem_key option" where
  "find_key tenant k ks = List.find (\<lambda>x. idk_tenant x = tenant \<and> idk_key x = k) ks"

definition reserved_key :: "('p request \<Rightarrow> string) \<Rightarrow> 'p request \<Rightarrow> string \<Rightarrow> timestamp \<Rightarrow> 'r idem_key" where
  "reserved_key digest rq k now =
     \<lparr>idk_tenant = rq_tenant rq, idk_key = k, idk_operation = rq_operation rq,
      idk_entity_type = rq_entity_type rq, idk_hash = digest rq, idk_response = None,
      idk_status = None, idk_expires = add_days now (ttl_for (rq_entity_type rq))\<rparr>"

text \<open>
  The answer to a request whose key is taken, by the row that is found then: it may be gone again.
\<close>

definition replay :: "string \<Rightarrow> 'r idem_key option \<Rightarrow> 'r res" where
  "replay h found =
     (case found of
        None \<Rightarrow> Inl (ApiError ''idempotency_key_reused'' 409)
      | Some x \<Rightarrow>
          if idk_hash x \<noteq> h then Inl (ApiError ''idempotency_key_reused'' 409)
          else case idk_response x of
            None \<Rightarrow> Inl (ApiError ''idempotency_request_in_progress'' 423)
          | Some r \<Rightarrow> Inr r)"

definition drop_key :: "id \<Rightarrow> string \<Rightarrow> 'r idem_key list \<Rightarrow> 'r idem_key list" where
  "drop_key tenant k ks = filter (\<lambda>x. \<not> (idk_tenant x = tenant \<and> idk_key x = k)) ks"

definition store_response :: "id \<Rightarrow> string \<Rightarrow> 'r \<Rightarrow> 'r idem_key list \<Rightarrow> 'r idem_key list" where
  "store_response tenant k r ks = map (\<lambda>x. if idk_tenant x = tenant \<and> idk_key x = k
     then x\<lparr>idk_response := Some r, idk_status := Some 200\<rparr> else x) ks"

text \<open>
  The keys and the state after a call. An \<^verbatim>\<open>ApiError\<close> of the handler deletes the key and commits,
  and with it whatever the handler had pending; any other exception leaves the session to be
  rolled back, and the key, committed before the handler ran, stays.
\<close>

definition execute_http_idempotent ::
  "('p request \<Rightarrow> string) \<Rightarrow> timestamp \<Rightarrow> ('s \<Rightarrow> ('r, 's) outcome) \<Rightarrow> 'p request
    \<Rightarrow> 'r idem_key list \<Rightarrow> 's \<Rightarrow> 'r res \<times> 'r idem_key list \<times> 's" where
  "execute_http_idempotent digest now handler rq ks s =
     (if \<not> truthy (rq_key rq)
      then (case handler s of
              Returned r s' \<Rightarrow> (Inr r, ks, s')
            | Raised e s' \<Rightarrow> (Inl e, ks, s))
      else
        (let k = the (rq_key rq) in
         case find_key (rq_tenant rq) k ks of
           Some x \<Rightarrow> (replay (digest rq) (Some x), ks, s)
         | None \<Rightarrow>
             (let ks1 = tadd (reserved_key digest rq k now) ks in
              case handler s of
                Returned r s' \<Rightarrow> (Inr r, store_response (rq_tenant rq) k r ks1, s')
              | Raised e s' \<Rightarrow>
                  (if is_api_error e then (Inl e, drop_key (rq_tenant rq) k ks1, s')
                   else (Inl e, ks1, s)))))"

text \<open>The nightly removal of expired keys, oldest first and at most \<open>limit\<close> of them.\<close>

definition cleanup_expired_idempotency_keys ::
  "timestamp \<Rightarrow> nat \<Rightarrow> 'r idem_key list \<Rightarrow> 'r idem_key list" where
  "cleanup_expired_idempotency_keys now limit ks =
     (let gone = take limit (sort_key idk_expires (filter (\<lambda>x. idk_expires x < now) ks))
      in filter (\<lambda>x. \<not> list_ex (\<lambda>y. idk_tenant y = idk_tenant x \<and> idk_key y = idk_key x) gone) ks)"

lemma find_key_Some: "find_key t k ks = Some x \<Longrightarrow> x \<in> set ks \<and> idk_tenant x = t \<and> idk_key x = k"
  by (auto simp: find_key_def find_Some_iff)

lemma find_key_None: "find_key t k ks = None \<longleftrightarrow> (\<forall>x\<in>set ks. \<not> (idk_tenant x = t \<and> idk_key x = k))"
  by (auto simp: find_key_def find_None_iff)

lemma find_key_tadd:
  "find_key t k (tadd x ks) = (case find_key t k ks of Some y \<Rightarrow> Some y
     | None \<Rightarrow> if idk_tenant x = t \<and> idk_key x = k then Some x else None)"
  by (induction ks) (simp_all add: find_key_def tadd_def)

lemma find_key_drop: "find_key t k (drop_key t' k' ks) = (if t = t' \<and> k = k' then None else find_key t k ks)"
  by (induction ks) (auto simp: find_key_def drop_key_def)

lemma find_key_store:
  "find_key t k (store_response t' k' r ks) = (if t = t' \<and> k = k'
     then map_option (\<lambda>x. x\<lparr>idk_response := Some r, idk_status := Some 200\<rparr>) (find_key t k ks)
     else find_key t k ks)"
  by (induction ks) (auto simp: find_key_def store_response_def)

lemma reserved_key_fields [simp]:
  "idk_tenant (reserved_key digest rq k now) = rq_tenant rq" "idk_key (reserved_key digest rq k now) = k"
  "idk_hash (reserved_key digest rq k now) = digest rq" "idk_response (reserved_key digest rq k now) = None"
  by (simp_all add: reserved_key_def)

lemma drop_reserved: "find_key (rq_tenant rq) k ks = None
    \<Longrightarrow> drop_key (rq_tenant rq) k (tadd (reserved_key digest rq k now) ks) = ks"
  by (auto simp: find_key_None drop_key_def tadd_def filter_id_conv)

section \<open>Sequential behaviour\<close>

lemma replay_facts:
  assumes key: "rq_key rq = Some k" "k \<noteq> []" and fresh: "find_key (rq_tenant rq) k ks = None"
    and run: "execute_http_idempotent digest now handler rq ks s = (a, ks', s')"
    and kind: "\<nexists>c n. a = Inl (ApiError c n)"
    and again: "rq_tenant rq' = rq_tenant rq" "rq_key rq' = Some k"
  shows "execute_http_idempotent digest now' handler' rq' ks' s''
    = ((if digest rq' \<noteq> digest rq then Inl (ApiError ''idempotency_key_reused'' 409)
        else case a of Inl e \<Rightarrow> Inl (ApiError ''idempotency_request_in_progress'' 423) | Inr r \<Rightarrow> Inr r),
       ks', s'')"
    and "case a of Inl e \<Rightarrow> s' = s | Inr r \<Rightarrow> handler s = Returned r s'"
proof -
  have stored: "find_key (rq_tenant rq) k ks' = (case a of
      Inl e \<Rightarrow> Some (reserved_key digest rq k now)
    | Inr r \<Rightarrow> Some ((reserved_key digest rq k now)\<lparr>idk_response := Some r, idk_status := Some 200\<rparr>))
    \<and> (case a of Inl e \<Rightarrow> s' = s | Inr r \<Rightarrow> handler s = Returned r s')"
    using run key fresh kind
    by (auto simp: execute_http_idempotent_def Let_def find_key_tadd find_key_store
        split: outcome.splits if_splits elim!: is_api_error.elims)
  then show "case a of Inl e \<Rightarrow> s' = s | Inr r \<Rightarrow> handler s = Returned r s'" by simp
  from stored key again show "execute_http_idempotent digest now' handler' rq' ks' s''
    = ((if digest rq' \<noteq> digest rq then Inl (ApiError ''idempotency_key_reused'' 409)
        else case a of Inl e \<Rightarrow> Inl (ApiError ''idempotency_request_in_progress'' 423) | Inr r \<Rightarrow> Inr r),
       ks', s'')"
    by (cases a) (simp_all add: execute_http_idempotent_def Let_def replay_def)
qed

text \<open>
  A request with a fresh key that succeeds is recorded: the same request again is answered
  with the same response and changes nothing, and a different request under the key is refused. A
  request that dies of anything but an \<^verbatim>\<open>ApiError\<close> leaves its key reserved: the state is as
  before, and the same request is from then on refused as in progress.
\<close>

theorem idempotent_replay:
  assumes "rq_key rq = Some k" "k \<noteq> []" and "find_key (rq_tenant rq) k ks = None"
    and "execute_http_idempotent digest now handler rq ks s = (a, ks', s')"
    and "\<nexists>c n. a = Inl (ApiError c n)"
    and "rq_tenant rq' = rq_tenant rq" "rq_key rq' = Some k"
  shows "execute_http_idempotent digest now' handler' rq' ks' s''
    = ((if digest rq' \<noteq> digest rq then Inl (ApiError ''idempotency_key_reused'' 409)
        else case a of Inl e \<Rightarrow> Inl (ApiError ''idempotency_request_in_progress'' 423) | Inr r \<Rightarrow> Inr r),
       ks', s'')
    \<and> (case a of Inl e \<Rightarrow> s' = s | Inr r \<Rightarrow> handler s = Returned r s')"
  by (intro conjI replay_facts [OF assms])

section \<open>A handler with pending changes\<close>

text \<open>A loop that keeps the state it had reached when its body raised.\<close>

fun run_loop :: "('a \<Rightarrow> 's \<Rightarrow> 'e + 's) \<Rightarrow> 'a list \<Rightarrow> 's \<Rightarrow> ('e \<times> 's) + 's" where
  "run_loop f [] s = Inr s"
| "run_loop f (x # xs) s = (case f x s of Inl e \<Rightarrow> Inl (e, s) | Inr s' \<Rightarrow> run_loop f xs s')"

lemma run_loop_Inr: "run_loop f xs s = Inr s' \<longleftrightarrow> rfold f xs s = Inr s'"
  by (induction xs arbitrary: s) (auto split: sum.splits)

lemma run_loop_Inl:
  "run_loop f xs s = Inl (e, s') \<Longrightarrow>
     \<exists>ys x zs. xs = ys @ x # zs \<and> rfold f ys s = Inr s' \<and> f x s' = Inl e"
proof (induction xs arbitrary: s)
  case (Cons a xs)
  show ?case
  proof (cases "f a s")
    case (Inl e')
    with Cons.prems show ?thesis by (intro exI [of _ "[]"]) simp
  next
    case (Inr s1)
    with Cons obtain ys x zs where "xs = ys @ x # zs" "rfold f ys s1 = Inr s'" "f x s' = Inl e"
      by fastforce
    with Inr show ?thesis by (intro exI [of _ "a # ys"]) simp
  qed
qed simp

lemma run_loop_rfold: "rfold f xs s = (case run_loop f xs s of Inl (e, _) \<Rightarrow> Inl e | Inr s' \<Rightarrow> Inr s')"
  by (induction xs arbitrary: s) (auto simp: rbind_def split: sum.splits)

text \<open>
  \<open>create_document\<close> as the handler of \<^verbatim>\<open>POST /billing/documents\<close>: the document is flushed
  before the loop over the trips, and the loop changes trips and adds items as it goes.
\<close>

definition create_document_handler ::
  "id \<Rightarrow> bill_create \<Rightarrow> timestamp \<Rightarrow> db \<Rightarrow> (billing_doc \<times> billing_item list, db) outcome" where
  "create_document_handler tenant p now d =
     (case bc_contract p of
        None \<Rightarrow> Raised (ApiError ''contract_required'' 422) d
      | Some c \<Rightarrow>
          (case owned con_id con_tenant tenant c (contracts d) of
             None \<Rightarrow> Raised (ApiError ''contract_not_found'' 404) d
           | Some con \<Rightarrow>
               (let (i, d1) = fresh_id d; b0 = draft_bill tenant i con p d
                in case run_loop (add_trip_item tenant con b0 now) (bc_trips p)
                          ([], d1\<lparr>bills := tadd b0 (bills d1)\<rparr>) of
                     Inl (e, xs, d2) \<Rightarrow> Raised e d2
                   | Inr _ \<Rightarrow>
                       (case create_document tenant p now d of
                          Inl e \<Rightarrow> Raised e d
                        | Inr (b, xs, d') \<Rightarrow> Returned (b, xs) d'))))"

lemma create_document_handler_result:
  "create_document tenant p now d = (case create_document_handler tenant p now d of
     Returned (b, xs) d' \<Rightarrow> Inr (b, xs, d') | Raised e _ \<Rightarrow> Inl e)"
  by (auto simp: create_document_handler_def create_document_def Let_def run_loop_rfold fresh_id_def
      split: option.splits sum.splits prod.splits)

lemma refused_facts:
  assumes "rq_key rq = Some k" "k \<noteq> []" "find_key (rq_tenant rq) k ks = None"
    and con: "bc_contract p = Some c" "owned con_id con_tenant tenant c (contracts d) = Some con"
    and refused: "create_document tenant p now d = Inl (ApiError code n)"
    and run: "execute_http_idempotent digest now' (create_document_handler tenant p now) rq ks d = (a, ks', d')"
  shows "a = Inl (ApiError code n) \<and> ks' = ks
    \<and> bills d' = bills d @ [draft_bill tenant (db_next d) con p d]
    \<and> (\<exists>ys x zs. bc_trips p = ys @ x # zs \<and> length (items d') = length (items d) + length ys
         \<and> (\<forall>i\<in>set ys. \<exists>t. tget trip_id i (trips d) = Some t
              \<and> tget trip_id i (trips d') = Some (drafted (draft_bill tenant (db_next d) con p d) t)))"
    and "execute_http_idempotent digest now' (create_document_handler tenant p now) (rq\<lparr>rq_key := None\<rparr>) ks d
      = (Inl (ApiError code n), ks, d)"
proof -
  let ?b = "draft_bill tenant (db_next d) con p d"
  let ?e = "d\<lparr>db_next := Suc (db_next d), bills := bills d @ [?b]\<rparr>"
  have flush: "flush_trips d2 \<noteq> Inl (ApiError code n)" "flush_bills d2 \<noteq> Inl (ApiError code n)" for d2
    by (auto simp: flush_trips_def flush_bills_def split: option.splits if_splits)
  have "\<exists>xs d2. run_loop (add_trip_item tenant con ?b now) (bc_trips p) ([], ?e)
    = Inl (ApiError code n, xs, d2)"
    using refused con flush
    by (auto simp: create_document_def Let_def run_loop_rfold fresh_id_def tadd_def rbind_def
        split: sum.splits prod.splits)
  then obtain xs d2 where loop: "run_loop (add_trip_item tenant con ?b now) (bc_trips p) ([], ?e)
    = Inl (ApiError code n, xs, d2)" by blast
  then have h: "create_document_handler tenant p now d = Raised (ApiError code n) d2"
    using con by (simp add: create_document_handler_def fresh_id_def tadd_def)
  from run assms(1-3) have r: "a = Inl (ApiError code n)" "ks' = ks" "d' = d2"
    by (simp_all add: execute_http_idempotent_def h drop_reserved)
  from loop obtain ys x zs where ys: "bc_trips p = ys @ x # zs"
    "rfold (add_trip_item tenant con ?b now) ys ([], ?e) = Inr (xs, d2)"
    using run_loop_Inl by fastforce
  from add_trip_items_rows [OF ys(2)] obtain zs' where rows: "items d2 = items ?e @ zs'"
    "map item_trip zs' = map Some ys" "bills d2 = bills ?e"
    "\<forall>i\<in>set ys. \<exists>t. tget trip_id i (trips ?e) = Some t \<and> can_bill tenant con ?b now ?e t
          \<and> tget trip_id i (trips d2) = Some (drafted ?b t)" by blast
  have "length zs' = length ys" using arg_cong [OF rows(2), of length] by simp
  with rows r ys(1) show "a = Inl (ApiError code n) \<and> ks' = ks
    \<and> bills d' = bills d @ [?b]
    \<and> (\<exists>ys x zs. bc_trips p = ys @ x # zs \<and> length (items d') = length (items d) + length ys
         \<and> (\<forall>i\<in>set ys. \<exists>t. tget trip_id i (trips d) = Some t
              \<and> tget trip_id i (trips d') = Some (drafted ?b t)))"
    by (intro conjI exI [of _ ys] exI [of _ x] exI [of _ zs]) auto
  show "execute_http_idempotent digest now' (create_document_handler tenant p now) (rq\<lparr>rq_key := None\<rparr>) ks d
      = (Inl (ApiError code n), ks, d)"
    by (simp add: execute_http_idempotent_def h)
qed

text \<open>
  C21: A billing request with an idempotency key that is refused in the middle of its trips is not
  undone: the answer is the error and the key is free again, but the draft document stays in the
  database, and so do its items and the billing drafts of the trips before the refused one.
  Without a key the same refusal leaves no trace.
\<close>

theorem refused_document_stays:
  assumes "rq_key rq = Some k" "k \<noteq> []" "find_key (rq_tenant rq) k ks = None"
    and "bc_contract p = Some c" "owned con_id con_tenant tenant c (contracts d) = Some con"
    and "create_document tenant p now d = Inl (ApiError code n)"
    and "execute_http_idempotent digest now' (create_document_handler tenant p now) rq ks d = (a, ks', d')"
  shows "a = Inl (ApiError code n) \<and> ks' = ks
    \<and> bills d' = bills d @ [draft_bill tenant (db_next d) con p d]
    \<and> (\<exists>ys x zs. bc_trips p = ys @ x # zs \<and> length (items d') = length (items d) + length ys
         \<and> (\<forall>i\<in>set ys. \<exists>t. tget trip_id i (trips d) = Some t
              \<and> tget trip_id i (trips d') = Some (drafted (draft_bill tenant (db_next d) con p d) t)))
    \<and> execute_http_idempotent digest now' (create_document_handler tenant p now) (rq\<lparr>rq_key := None\<rparr>) ks d
      = (Inl (ApiError code n), ks, d)"
  using refused_facts [OF assms] by (simp only: simp_thms)

definition twice_request :: bill_create where
  "twice_request = bill_request\<lparr>bc_trips := [5, 5]\<rparr>"

definition post_twice :: "bill_create request" where
  "post_twice = \<lparr>rq_tenant = 2, rq_key = Some ''a'', rq_operation = ''billing.document.create'',
     rq_entity_type = ''billing_document'', rq_payload = twice_request\<rparr>"

lemma refused_document_stays_witness:
  "\<exists>ks d. execute_http_idempotent (\<lambda>_. ''h'') 60 (create_document_handler 2 twice_request 60)
       post_twice [] billing_db = (Inl (ApiError ''trip_not_billable'' 409), ks, d)
     \<and> length (bills d) = 1 \<and> length (items d) = 1
     \<and> map_option trip_billing (tget trip_id 5 (trips d)) = Some B_billing_draft"
proof -
  have key: "rq_key post_twice = Some ''a''" "''a'' \<noteq> []" "find_key (rq_tenant post_twice) ''a'' [] = None"
    by (simp_all add: post_twice_def find_key_def)
  have con: "bc_contract twice_request = Some 6"
    "owned con_id con_tenant 2 6 (contracts billing_db) = Some sample_contract"
    by (simp_all add: twice_request_def owned_def billing_sample)
  have no: "create_document 2 twice_request 60 billing_db = Inl (ApiError ''trip_not_billable'' 409)"
    by (simp add: create_document_defs owned_def constraint_defs trip_active_def twice_request_def
        active_trip_statuses_def new_bill_def fresh_id_def tadd_def billing_sample Let_def)
  obtain a ks d where run: "execute_http_idempotent (\<lambda>_. ''h'') 60
    (create_document_handler 2 twice_request 60) post_twice [] billing_db = (a, ks, d)"
    by (metis prod_cases3)
  have "length (items d) = 1 \<and> map_option trip_billing (tget trip_id 5 (trips d)) = Some B_billing_draft"
    using run
    by (simp add: execute_http_idempotent_def create_document_handler_def key create_document_defs owned_def
        twice_request_def new_bill_def fresh_id_def tadd_def billing_sample Let_def)
      (auto simp: tget_tput)
  moreover have "bills billing_db = []" by (simp add: billing_sample)
  ultimately show ?thesis
    using refused_document_stays [OF key con no run] run by simp
qed

definition ask :: "nat \<Rightarrow> nat request" where
  "ask n = \<lparr>rq_tenant = 1, rq_key = Some ''k'', rq_operation = ''add'', rq_entity_type = ''trip'',
     rq_payload = n\<rparr>"

definition add_handler :: "nat request \<Rightarrow> nat \<Rightarrow> (nat, nat) outcome" where
  "add_handler rq s = Returned (s + rq_payload rq) (s + rq_payload rq)"

definition pay_digest :: "nat request \<Rightarrow> string" where
  "pay_digest rq = show_nat (rq_payload rq)"

text \<open>A paid request asked again, and one whose handler died.\<close>

theorem idempotent_replay_witness:
  "let (a, ks, n) = execute_http_idempotent pay_digest 0 (add_handler (ask 7)) (ask 7) [] 0;
       (b, ks', n') = execute_http_idempotent pay_digest 5 (add_handler (ask 7)) (ask 7) ks n
   in n = 7 \<and> b = a \<and> ks' = ks \<and> n' = n"
proof -
  have run: "execute_http_idempotent pay_digest 0 (add_handler (ask 7)) (ask 7) [] 0
    = (Inr 7, store_response 1 ''k'' 7 (tadd (reserved_key pay_digest (ask 7) ''k'' 0) []), 7)"
    by (simp add: execute_http_idempotent_def ask_def add_handler_def find_key_def Let_def)
  have key: "rq_key (ask 7) = Some ''k''" "''k'' \<noteq> []" by (simp_all add: ask_def)
  have fresh: "find_key (rq_tenant (ask 7)) ''k'' [] = None" by (simp add: find_key_def)
  have kind: "\<nexists>c n. (Inr 7 :: nat res) = Inl (ApiError c n)" by simp
  from idempotent_replay [OF key fresh run kind refl key(1), where now' = 5 and handler' = "add_handler (ask 7)"
      and s'' = 7]
  have again: "execute_http_idempotent pay_digest 5 (add_handler (ask 7)) (ask 7)
      (store_response 1 ''k'' 7 (tadd (reserved_key pay_digest (ask 7) ''k'' 0) [])) 7
    = (Inr 7, store_response 1 ''k'' 7 (tadd (reserved_key pay_digest (ask 7) ''k'' 0) []), 7)"
    by simp
  show ?thesis by (simp only: run again Let_def split)
qed

end
