(* ===== verification/Request_Races.thy ===== *)
theory Request_Races
  imports Idempotency
begin

text \<open>
  Idempotent requests of several workers (\<^verbatim>\<open>core/idempotency.py\<close>) beside the nightly removal of expired keys
  (\<^verbatim>\<open>jobs/tasks/housekeeping.py\<close>), as steps from commit to commit. A key protects its request for as long as it lives.
\<close>

section \<open>Steps\<close>

text \<open>
  The unique index on tenant and key makes the reservation atomic, the handler commits once, and the
  response is stored by a third commit; a worker may die between any two of them. A request that finds its
  key taken reads the row in a transaction of its own. Rows have primary keys: the deletion after a refusal passes over
  a row that is gone, which the update after a success cannot. Other work may change the state at any time, but not the
  keys; the keys of the synchronisation, in the same table, are not modelled here. The clock is read once per
  reservation, at its commit. \<open>w_log\<close> records, for
  the statements below only, the reservations whose handler committed, with the response.
\<close>

record key_hold =
  rsv_id :: nat
  rsv_tenant :: id
  rsv_key :: string
  rsv_type :: string
  rsv_hash :: string
  rsv_at :: timestamp

datatype 'r phase = Waiting | Looking | Running key_hold | Storing key_hold 'r | Replied "'r res" | Crashed

record ('p, 'r, 's) world =
  w_now :: timestamp
  w_next :: nat
  w_keys :: "(nat \<times> 'r idem_key) list"
  w_state :: 's
  w_requests :: "('p request \<times> 'r phase) list"
  w_log :: "(key_hold \<times> 'r) list"

definition with_key :: "'p request \<Rightarrow> string \<Rightarrow> bool" where
  "with_key rq k \<longleftrightarrow> rq_key rq = Some k \<and> k \<noteq> []"

definition move_to :: "nat \<Rightarrow> 'r phase \<Rightarrow> ('p, 'r, 's) world \<Rightarrow> ('p, 'r, 's) world" where
  "move_to i ph w = w\<lparr>w_requests := (w_requests w)[i := (fst (w_requests w ! i), ph)]\<rparr>"

definition at_phase :: "('p, 'r, 's) world \<Rightarrow> nat \<Rightarrow> 'p request \<Rightarrow> 'r phase \<Rightarrow> bool" where
  "at_phase w i rq ph \<longleftrightarrow> i < length (w_requests w) \<and> w_requests w ! i = (rq, ph)"

definition key_row :: "id \<Rightarrow> string \<Rightarrow> ('p, 'r, 's) world \<Rightarrow> 'r idem_key option" where
  "key_row t k w = find_key t k (map snd (w_keys w))"

definition reserving :: "('p request \<Rightarrow> string) \<Rightarrow> 'p request \<Rightarrow> string \<Rightarrow> ('p, 'r, 's) world \<Rightarrow> key_hold" where
  "reserving digest rq k w = \<lparr>rsv_id = w_next w, rsv_tenant = rq_tenant rq, rsv_key = k, rsv_type = rq_entity_type rq,
     rsv_hash = digest rq, rsv_at = w_now w\<rparr>"

definition stored_at :: "nat \<Rightarrow> 'r \<Rightarrow> (nat \<times> 'r idem_key) list \<Rightarrow> (nat \<times> 'r idem_key) list" where
  "stored_at n r ks = map (\<lambda>(m, x). (m, if m = n then x\<lparr>idk_response := Some r, idk_status := Some 200\<rparr> else x)) ks"

definition cleaned :: "timestamp \<Rightarrow> nat \<Rightarrow> (nat \<times> 'r idem_key) list \<Rightarrow> (nat \<times> 'r idem_key) list" where
  "cleaned now limit ks =
     filter (\<lambda>(m, x). x \<in> set (cleanup_expired_idempotency_keys now limit (map snd ks))) ks"

inductive request_step ::
  "('p request \<Rightarrow> string) \<Rightarrow> ('p request \<Rightarrow> 's \<Rightarrow> ('r, 's) outcome)
    \<Rightarrow> ('p, 'r, 's) world \<Rightarrow> ('p, 'r, 's) world \<Rightarrow> bool"
  for digest handler where
  tick: "request_step digest handler w (w\<lparr>w_now := now\<rparr>)"
    if "w_now w \<le> now"
| other: "request_step digest handler w (w\<lparr>w_state := s\<rparr>)"
| clean: "request_step digest handler w (w\<lparr>w_keys := cleaned (w_now w) limit (w_keys w)\<rparr>)"
| arrive: "request_step digest handler w (w\<lparr>w_requests := w_requests w @ [(rq, Waiting)]\<rparr>)"
    if "with_key rq k"
| reserve: "request_step digest handler w (move_to i (Running (reserving digest rq k w))
      (w\<lparr>w_next := Suc (w_next w), w_keys := w_keys w @ [(w_next w, reserved_key digest rq k (w_now w))]\<rparr>))"
    if "at_phase w i rq Waiting" "with_key rq k" "key_row (rq_tenant rq) k w = None"
| taken: "request_step digest handler w (move_to i Looking w)"
    if "at_phase w i rq Waiting" "with_key rq k" "key_row (rq_tenant rq) k w \<noteq> None"
| look: "request_step digest handler w (move_to i (Replied (replay (digest rq) (key_row (rq_tenant rq) k w))) w)"
    if "at_phase w i rq Looking" "with_key rq k"
| run: "request_step digest handler w
      (move_to i (Storing v r) (w\<lparr>w_state := s, w_log := w_log w @ [(v, r)]\<rparr>))"
    if "at_phase w i rq (Running v)" "handler rq (w_state w) = Returned r s"
| refuse: "request_step digest handler w (move_to i (Replied (Inl e))
      (w\<lparr>w_keys := filter (\<lambda>(m, x). m \<noteq> rsv_id v) (w_keys w), w_state := s\<rparr>))"
    if "at_phase w i rq (Running v)" "handler rq (w_state w) = Raised e s" "is_api_error e"
| fail: "request_step digest handler w (move_to i (Replied (Inl e)) w)"
    if "at_phase w i rq (Running v)" "handler rq (w_state w) = Raised e s" "\<not> is_api_error e"
| store: "request_step digest handler w (move_to i (Replied (Inr r))
      (w\<lparr>w_keys := stored_at (rsv_id v) r (w_keys w)\<rparr>))"
    if "at_phase w i rq (Storing v r)" "rsv_id v \<in> fst ` set (w_keys w)"
| lost: "request_step digest handler w (move_to i (Replied (Inl (PyError ''StaleDataError''))) w)"
    if "at_phase w i rq (Storing v r)" "rsv_id v \<notin> fst ` set (w_keys w)"
| crash: "request_step digest handler w (move_to i Crashed w)"
    if "at_phase w i rq ph" "\<nexists>a. ph = Replied a"

inductive reachable_world ::
  "('p request \<Rightarrow> string) \<Rightarrow> ('p request \<Rightarrow> 's \<Rightarrow> ('r, 's) outcome) \<Rightarrow> 's \<Rightarrow> ('p, 'r, 's) world \<Rightarrow> bool"
  for digest handler s0 where
  start: "reachable_world digest handler s0
      \<lparr>w_now = t0, w_next = 0, w_keys = [], w_state = s0, w_requests = [], w_log = []\<rparr>"
| more: "reachable_world digest handler s0 w \<Longrightarrow> request_step digest handler w w'
    \<Longrightarrow> reachable_world digest handler s0 w'"

lemma at_phase_move:
  "at_phase (move_to i ph w) j rq ph' \<longleftrightarrow>
     (if j = i then i < length (w_requests w) \<and> rq = fst (w_requests w ! i) \<and> ph' = ph
      else at_phase w j rq ph')"
  by (auto simp: at_phase_def move_to_def nth_list_update)

lemma at_phase_unique: "at_phase w i rq ph \<Longrightarrow> at_phase w i r p \<longleftrightarrow> r = rq \<and> p = ph"
  by (auto simp: at_phase_def)

lemma at_phase_move_at:
  "at_phase w i rq ph0 \<Longrightarrow> at_phase (move_to i ph w) j r p \<longleftrightarrow> (if j = i then r = rq \<and> p = ph else at_phase w j r p)"
  unfolding at_phase_move by (auto simp: at_phase_def)

lemma at_phase_append:
  "at_phase (w\<lparr>w_requests := w_requests w @ [(rq0, ph0)]\<rparr>) j rq ph \<longleftrightarrow>
     (at_phase w j rq ph \<or> j = length (w_requests w) \<and> rq = rq0 \<and> ph = ph0)"
  by (auto simp: at_phase_def nth_append)

lemma at_phase_other [simp]:
  "at_phase (w\<lparr>w_keys := ks\<rparr>) = at_phase w" "at_phase (w\<lparr>w_state := s\<rparr>) = at_phase w"
  "at_phase (w\<lparr>w_log := l\<rparr>) = at_phase w" "at_phase (w\<lparr>w_now := t\<rparr>) = at_phase w"
  "at_phase (w\<lparr>w_next := n\<rparr>) = at_phase w"
  by (auto simp: at_phase_def fun_eq_iff)

lemma move_fields [simp]:
  "w_keys (move_to i ph w) = w_keys w" "w_state (move_to i ph w) = w_state w"
  "w_log (move_to i ph w) = w_log w" "w_now (move_to i ph w) = w_now w" "w_next (move_to i ph w) = w_next w"
  by (simp_all add: move_to_def)

section \<open>What every reachable world keeps\<close>

text \<open>A reservation holds its key while its handler may still commit, and when it has.\<close>

definition claims :: "('p, 'r, 's) world \<Rightarrow> key_hold \<Rightarrow> bool" where
  "claims w v \<longleftrightarrow> v \<in> fst ` set (w_log w) \<or> (\<exists>i rq. at_phase w i rq (Running v))"

definition lapses :: "key_hold \<Rightarrow> timestamp" where
  "lapses v = add_days (rsv_at v) (ttl_for (rsv_type v))"

definition row_of :: "key_hold \<Rightarrow> 'r idem_key \<Rightarrow> bool" where
  "row_of v x \<longleftrightarrow> idk_tenant x = rsv_tenant v \<and> idk_key x = rsv_key v \<and> idk_hash x = rsv_hash v \<and> idk_expires x = lapses v"

definition apart :: "key_hold \<Rightarrow> key_hold \<Rightarrow> bool" where
  "apart v u \<longleftrightarrow> lapses v < rsv_at u \<or> lapses u < rsv_at v"

definition same_key :: "key_hold \<Rightarrow> key_hold \<Rightarrow> bool" where
  "same_key v u \<longleftrightarrow> rsv_tenant v = rsv_tenant u \<and> rsv_key v = rsv_key u"

definition keys_ok :: "('p, 'r, 's) world \<Rightarrow> bool" where
  "keys_ok w \<longleftrightarrow> distinct (map fst (w_keys w)) \<and> (\<forall>(n, x)\<in>set (w_keys w). n < w_next w)
     \<and> distinct (map (\<lambda>(n, x). (idk_tenant x, idk_key x)) (w_keys w))"

definition claims_ok :: "('p, 'r, 's) world \<Rightarrow> bool" where
  "claims_ok w \<longleftrightarrow> distinct (map fst (w_log w))
     \<and> (\<forall>v. claims w v \<longrightarrow> rsv_id v < w_next w \<and> (\<forall>x. (rsv_id v, x) \<in> set (w_keys w) \<longrightarrow> row_of v x)
          \<and> (rsv_id v \<in> fst ` set (w_keys w) \<or> lapses v < w_now w))
     \<and> (\<forall>v u. claims w v \<longrightarrow> claims w u \<longrightarrow> v = u \<or> rsv_id v \<noteq> rsv_id u \<and> (same_key v u \<longrightarrow> apart v u))
     \<and> (\<forall>i rq v. at_phase w i rq (Running v) \<longrightarrow> v \<notin> fst ` set (w_log w))
     \<and> (\<forall>i j rq rq' v. at_phase w i rq (Running v) \<longrightarrow> at_phase w j rq' (Running v) \<longrightarrow> i = j)"

definition reserved_for :: "('p request \<Rightarrow> string) \<Rightarrow> 'p request \<Rightarrow> key_hold \<Rightarrow> bool" where
  "reserved_for digest rq v \<longleftrightarrow> rsv_tenant v = rq_tenant rq \<and> rq_key rq = Some (rsv_key v) \<and> rsv_hash v = digest rq"

fun phase_ok :: "('p request \<Rightarrow> string) \<Rightarrow> (key_hold \<times> 'r) set \<Rightarrow> 'p request \<Rightarrow> 'r phase \<Rightarrow> bool" where
  "phase_ok digest l rq (Running v) = reserved_for digest rq v"
| "phase_ok digest l rq (Storing v r) = ((v, r) \<in> l \<and> reserved_for digest rq v)"
| "phase_ok digest l rq (Replied (Inr r)) = (\<exists>v. (v, r) \<in> l \<and> reserved_for digest rq v)"
| "phase_ok digest l rq _ = True"

definition answers_ok :: "('p request \<Rightarrow> string) \<Rightarrow> ('p, 'r, 's) world \<Rightarrow> bool" where
  "answers_ok digest w \<longleftrightarrow>
     (\<forall>n x r. (n, x) \<in> set (w_keys w) \<longrightarrow> idk_response x = Some r
        \<longrightarrow> (\<exists>v. (v, r) \<in> set (w_log w) \<and> row_of v x))
     \<and> (\<forall>i rq ph. at_phase w i rq ph \<longrightarrow> phase_ok digest (set (w_log w)) rq ph)"

lemma reserving_fields [simp]:
  "rsv_id (reserving digest rq k w) = w_next w" "rsv_tenant (reserving digest rq k w) = rq_tenant rq"
  "rsv_key (reserving digest rq k w) = k" "rsv_type (reserving digest rq k w) = rq_entity_type rq"
  "rsv_hash (reserving digest rq k w) = digest rq" "rsv_at (reserving digest rq k w) = w_now w"
  by (simp_all add: reserving_def)

lemma key_row_None: "key_row t k w = None \<longleftrightarrow> (\<forall>(n, x)\<in>set (w_keys w). (idk_tenant x, idk_key x) \<noteq> (t, k))"
  by (auto simp: key_row_def find_key_None)

lemma key_row_Some: "key_row t k w = Some x \<Longrightarrow> \<exists>n. (n, x) \<in> set (w_keys w) \<and> idk_tenant x = t \<and> idk_key x = k"
  by (force simp: key_row_def dest: find_key_Some)

lemma stored_keys [simp]:
  "map fst (stored_at n r ks) = map fst ks"
  "map (\<lambda>(m, x). (idk_tenant x, idk_key x)) (stored_at n r ks) = map (\<lambda>(m, x). (idk_tenant x, idk_key x)) ks"
  by (auto simp: stored_at_def)

lemma set_stored: "(m, x) \<in> set (stored_at n r ks) \<longleftrightarrow>
    (\<exists>y. (m, y) \<in> set ks \<and> x = (if m = n then y\<lparr>idk_response := Some r, idk_status := Some 200\<rparr> else y))"
  unfolding stored_at_def by (auto intro!: image_eqI simp: image_iff split: prod.splits) 

lemma row_of_stored [simp]: "row_of v (x\<lparr>idk_response := r, idk_status := st\<rparr>) = row_of v x"
  by (simp add: row_of_def)

lemma fst_stored [simp]: "fst ` set (stored_at n r ks) = fst ` set ks"
  by (metis list.set_map stored_keys(1))

text \<open>The removal takes expired rows only.\<close>

lemma cleaned_rows:
  assumes "distinct (map (\<lambda>(n, x). (idk_tenant x, idk_key x)) ks)" and "(n, x) \<in> set ks"
  shows "(n, x) \<in> set (cleaned now limit ks) \<or> idk_expires x < now"
proof (cases "x \<in> set (cleanup_expired_idempotency_keys now limit (map snd ks))")
  case False
  have "x \<in> set (map snd ks)" using assms(2) by force
  with False obtain y where y: "y \<in> set (map snd ks)" "idk_expires y < now" "idk_tenant y = idk_tenant x" "idk_key y = idk_key x"
    by (fastforce simp: cleanup_expired_idempotency_keys_def Let_def list_ex_iff dest: in_set_takeD)
  have "inj_on (\<lambda>(n, x). (idk_tenant x, idk_key x)) (set ks)" using assms(1) by (simp add: distinct_map)
  moreover obtain m where "(m, y) \<in> set ks" using y(1) by auto
  ultimately have "(m, y) = (n, x)" using assms(2) y(3,4) by (intro inj_onD [of "\<lambda>(n, x). (idk_tenant x, idk_key x)"]) auto
  then have "y = x" by simp
  with y(2) show ?thesis by simp
qed (use assms(2) in \<open>auto simp: cleaned_def\<close>)

lemma cleaned_sub: "set (cleaned now limit ks) \<subseteq> set ks"
  by (auto simp: cleaned_def)

lemma keys_ok_sub:
  assumes "keys_ok w"
  shows "keys_ok (w\<lparr>w_keys := filter P (w_keys w)\<rparr>)"
  using assms by (auto simp: keys_ok_def distinct_map_filter)

lemma keys_ok_cong: "w_keys w' = w_keys w \<Longrightarrow> w_next w' = w_next w \<Longrightarrow> keys_ok w' = keys_ok w"
  by (simp add: keys_ok_def)

lemma step_keys:
  assumes "request_step digest handler w w'" and "keys_ok w"
  shows "keys_ok w'"
  using assms
proof (induction rule: request_step.induct)
  case (reserve w i rq k)
  then show ?case by (fastforce simp: keys_ok_def key_row_None less_Suc_eq)
next
  case (store w i rq v r)
  then show ?case by (auto simp: keys_ok_def set_stored)
qed (auto simp: keys_ok_def cleaned_def distinct_map_filter)

lemma claims_move:
  assumes "at_phase w i rq ph0"
  shows "claims (move_to i ph w) v \<longleftrightarrow> v \<in> fst ` set (w_log w) \<or> ph = Running v \<or> (\<exists>j r. j \<noteq> i \<and> at_phase w j r (Running v))"
  unfolding claims_def at_phase_move_at [OF assms] move_fields by metis

lemma claims_okD:
  assumes "claims_ok w"
  shows "distinct (map fst (w_log w))" and "claims w v \<Longrightarrow> rsv_id v < w_next w"
    and "claims w v \<Longrightarrow> (rsv_id v, x) \<in> set (w_keys w) \<Longrightarrow> row_of v x"
    and "claims w v \<Longrightarrow> rsv_id v \<in> fst ` set (w_keys w) \<or> lapses v < w_now w"
    and "claims w v \<Longrightarrow> claims w u \<Longrightarrow> v = u \<or> rsv_id v \<noteq> rsv_id u \<and> (same_key v u \<longrightarrow> apart v u)"
    and "at_phase w i rq (Running v) \<Longrightarrow> v \<notin> fst ` set (w_log w)"
    and "at_phase w i rq (Running v) \<Longrightarrow> at_phase w j rq' (Running v) \<Longrightarrow> i = j"
proof -
  note p = assms [unfolded claims_ok_def]
  note d = p [THEN conjunct1] and b = p [THEN conjunct2, THEN conjunct1]
    and u = p [THEN conjunct2, THEN conjunct2, THEN conjunct1]
    and n = p [THEN conjunct2, THEN conjunct2, THEN conjunct2, THEN conjunct1]
    and o = p [THEN conjunct2, THEN conjunct2, THEN conjunct2, THEN conjunct2]
  show "distinct (map fst (w_log w))" by (rule d)
  show "claims w v \<Longrightarrow> rsv_id v < w_next w"
    "claims w v \<Longrightarrow> (rsv_id v, x) \<in> set (w_keys w) \<Longrightarrow> row_of v x"
    "claims w v \<Longrightarrow> rsv_id v \<in> fst ` set (w_keys w) \<or> lapses v < w_now w"
    using b by simp_all
  show "claims w v \<Longrightarrow> claims w u \<Longrightarrow> v = u \<or> rsv_id v \<noteq> rsv_id u \<and> (same_key v u \<longrightarrow> apart v u)"
    using u by simp
  show "at_phase w i rq (Running v) \<Longrightarrow> v \<notin> fst ` set (w_log w)" using n by simp
  show "at_phase w i rq (Running v) \<Longrightarrow> at_phase w j rq' (Running v) \<Longrightarrow> i = j" using o by simp
qed

text \<open>A step that makes no new claim and takes rows of no claim that still holds.\<close>

lemma fewer_claims:
  assumes ok: "claims_ok w" and "w_next w' = w_next w" and "w_now w \<le> w_now w'" and "w_log w' = w_log w"
    and less: "\<And>i rq v. at_phase w' i rq (Running v) \<Longrightarrow> at_phase w i rq (Running v)"
    and kept: "\<And>v x. claims w' v \<Longrightarrow> (rsv_id v, x) \<in> set (w_keys w) \<Longrightarrow>
      rsv_id v \<in> fst ` set (w_keys w') \<or> lapses v < w_now w'"
    and rows: "\<And>v x. claims w' v \<Longrightarrow> (rsv_id v, x) \<in> set (w_keys w') \<Longrightarrow> row_of v x"
  shows "claims_ok w'"
proof -
  have c: "claims w v" if "claims w' v" for v using that less assms(4) unfolding claims_def by metis
  have "rsv_id v \<in> fst ` set (w_keys w') \<or> lapses v < w_now w'" if "claims w' v" for v
    using claims_okD(4) [OF ok c [OF that]] kept [OF that] assms(3) by fastforce
  with claims_okD(1,2,5) [OF ok] c rows have "distinct (map fst (w_log w'))"
    "\<forall>v. claims w' v \<longrightarrow> rsv_id v < w_next w' \<and> (\<forall>x. (rsv_id v, x) \<in> set (w_keys w') \<longrightarrow> row_of v x)
      \<and> (rsv_id v \<in> fst ` set (w_keys w') \<or> lapses v < w_now w')"
    "\<forall>v u. claims w' v \<longrightarrow> claims w' u \<longrightarrow> v = u \<or> rsv_id v \<noteq> rsv_id u \<and> (same_key v u \<longrightarrow> apart v u)"
    by (simp_all add: assms(2,4))
  moreover have "\<forall>i rq v. at_phase w' i rq (Running v) \<longrightarrow> v \<notin> fst ` set (w_log w')"
    using claims_okD(6) [OF ok less] assms(4) by simp
  moreover have "\<forall>i j rq rq' v. at_phase w' i rq (Running v) \<longrightarrow> at_phase w' j rq' (Running v) \<longrightarrow> i = j"
    using claims_okD(7) [OF ok less less] by simp
  ultimately show ?thesis unfolding claims_ok_def by blast
qed

lemma quiet_claims:
  assumes ok: "claims_ok w" and i: "at_phase w i rq ph0" and ph: "\<And>v. ph \<noteq> Running v"
  shows "claims_ok (move_to i ph w)"
proof (rule fewer_claims [OF ok])
  have c: "claims w v" if "claims (move_to i ph w) v" for v
    using that ph claims_move [OF i] unfolding claims_def by metis
  show "claims (move_to i ph w) v \<Longrightarrow> (rsv_id v, x) \<in> set (w_keys w) \<Longrightarrow>
      rsv_id v \<in> fst ` set (w_keys (move_to i ph w)) \<or> lapses v < w_now (move_to i ph w)" for v x
    by force
  show "claims (move_to i ph w) v \<Longrightarrow> (rsv_id v, x) \<in> set (w_keys (move_to i ph w)) \<Longrightarrow> row_of v x" for v x
    using claims_okD(3) [OF ok c] by simp
qed (use ph at_phase_move_at [OF i] in \<open>auto split: if_splits\<close>)

lemma claims_cong:
  assumes "claims_ok w" and "w_keys w' = w_keys w" "w_next w' = w_next w" "w_now w' = w_now w" "w_log w' = w_log w"
    and "\<And>i rq v. at_phase w' i rq (Running v) \<longleftrightarrow> at_phase w i rq (Running v)"
  shows "claims_ok w'"
proof -
  have "claims w' v = claims w v" for v using assms(5,6) by (simp add: claims_def)
  with assms show ?thesis by (simp add: claims_ok_def)
qed

lemma step_claims:
  assumes "request_step digest handler w w'" and "keys_ok w" and "claims_ok w"
  shows "claims_ok w'"
  using assms
proof (induction rule: request_step.induct)
  case (tick w now)
  note ok = claims_okD [OF tick.prems(2)]
  have c: "claims (w\<lparr>w_now := now\<rparr>) v = claims w v" for v by (simp add: claims_def)
  show ?case
  proof (rule fewer_claims [OF tick.prems(2)], goal_cases)
    case (5 v x)
    then show ?case by force
  qed (use tick.hyps ok(3) c in auto)
next
  case (other w s)
  then show ?case by (elim claims_cong) simp_all
next
  case (clean w limit)
  note ok = claims_okD [OF clean.prems(2)]
  have d: "distinct (map (\<lambda>(n, x). (idk_tenant x, idk_key x)) (w_keys w))" using clean.prems(1) by (simp add: keys_ok_def)
  have c: "claims (w\<lparr>w_keys := ks\<rparr>) v = claims w v" for ks v by (simp add: claims_def)
  show ?case
  proof (rule fewer_claims [OF clean.prems(2)], goal_cases)
    case (5 v x)
    with ok(3) [of v x] cleaned_rows [OF d, of "rsv_id v" x "w_now w" limit] show ?case
      by (force simp: row_of_def c)
  next
    case (6 v x)
    then show ?case using ok(3) [of v x] cleaned_sub [of "w_now w" limit "w_keys w"] by (auto simp: c)
  qed simp_all
next
  case (arrive rq k w)
  then show ?case by (elim claims_cong) (simp_all add: at_phase_append)
next
  case (reserve w i rq k)
  note ok = claims_okD [OF reserve.prems(2)]
  let ?v = "reserving digest rq k w"
  let ?ks = "w_keys w @ [(w_next w, reserved_key digest rq k (w_now w))]"
  let ?w = "move_to i (Running ?v) (w\<lparr>w_next := Suc (w_next w), w_keys := ?ks\<rparr>)"
  have i: "at_phase (w\<lparr>w_next := Suc (w_next w), w_keys := ?ks\<rparr>) i rq Waiting" using reserve.hyps(1) by simp
  have none: "\<not> at_phase w i r (Running u)" for r u using at_phase_unique [OF reserve.hyps(1)] by simp
  have c: "claims ?w v \<longleftrightarrow> v = ?v \<or> claims w v" for v
    using none claims_move [OF i] by (simp add: claims_def) metis
  have new: "row_of ?v (reserved_key digest rq k (w_now w))"
    by (simp add: row_of_def lapses_def reserved_key_def)
  have old: "apart v ?v" if "claims w v" "same_key v ?v" for v
  proof -
    have "rsv_id v \<notin> fst ` set (w_keys w)"
      using ok(3) [OF that(1)] that(2) reserve.hyps(3) by (fastforce simp: key_row_None row_of_def same_key_def)
    with ok(4) [OF that(1)] show ?thesis by (simp add: apart_def)
  qed
  have fresh: "(n, x) \<in> set (w_keys w) \<Longrightarrow> n < w_next w" for n x
    using reserve.prems(1) by (auto simp: keys_ok_def)
  have rows: "row_of v x" if "claims ?w v" "(rsv_id v, x) \<in> set ?ks" for v x
  proof (cases "v = ?v")
    case True
    with that(2) new fresh show ?thesis by auto
  next
    case False
    with that(1) c have v: "claims w v" by blast
    with that(2) ok(2) [OF v] ok(3) [OF v] show ?thesis by auto
  qed
  have "rsv_id v < w_next ?w" "rsv_id v \<in> fst ` set (w_keys ?w) \<or> lapses v < w_now ?w" if "claims ?w v" for v
    using that ok(2) [of v] ok(4) [of v] unfolding c by (auto simp: less_SucI)
  moreover have "v = u \<or> rsv_id v \<noteq> rsv_id u \<and> (same_key v u \<longrightarrow> apart v u)" if "claims ?w v" "claims ?w u" for v u
  proof (cases "v = ?v \<or> u = ?v")
    case False
    with that c ok(5) show ?thesis by blast
  next
    case True
    with that c ok(2) [of v] ok(2) [of u] old [of v] old [of u] show ?thesis
      by (auto simp: apart_def same_key_def)
  qed
  moreover have v: "\<not> claims w ?v" using ok(2) [of ?v] by auto
  then have "?v \<notin> fst ` set (w_log w)" "\<not> at_phase w j r (Running ?v)" for j r
    by (auto simp: claims_def)
  ultimately show ?case
    unfolding claims_ok_def using ok(1,6,7) rows by (auto simp: at_phase_move_at [OF i])
next
  case (taken w i rq k)
  then show ?case by (auto intro: quiet_claims)
next
  case (look w i rq k)
  then show ?case by (auto intro: quiet_claims)
next
  case (run w i rq v r s)
  note ok = claims_okD [OF run.prems(2)]
  let ?w = "move_to i (Storing v r) (w\<lparr>w_state := s, w_log := w_log w @ [(v, r)]\<rparr>)"
  have i: "at_phase (w\<lparr>w_state := s, w_log := w_log w @ [(v, r)]\<rparr>) i rq (Running v)" using run.hyps(1) by simp
  have here: "at_phase w i r' (Running u) \<Longrightarrow> u = v" for r' u using at_phase_unique [OF run.hyps(1)] by simp
  have c: "claims ?w u \<longleftrightarrow> claims w u" for u
  proof -
    have "claims ?w u \<longleftrightarrow> u \<in> fst ` set (w_log w) \<or> u = v \<or> (\<exists>j r. j \<noteq> i \<and> at_phase w j r (Running u))"
      using claims_move [OF i] by auto
    also have "\<dots> \<longleftrightarrow> claims w u" using here run.hyps(1) unfolding claims_def by metis
    finally show ?thesis .
  qed
  have "v \<notin> fst ` set (w_log w)" by (rule ok(6) [OF run.hyps(1)])
  moreover have "j = i" if "at_phase w j r' (Running v)" for j r' using ok(7) [OF that run.hyps(1)] .
  ultimately show ?case
    unfolding claims_ok_def c using ok by (auto simp: at_phase_move_at [OF i])
next
  case (refuse w i rq v e s)
  note ok = claims_okD [OF refuse.prems(2)]
  let ?u = "w\<lparr>w_keys := filter (\<lambda>(m, x). m \<noteq> rsv_id v) (w_keys w), w_state := s\<rparr>"
  have i: "at_phase ?u i rq (Running v)" using refuse.hyps(1) by simp
  have c: "claims w u \<and> u \<noteq> v" if "claims (move_to i (Replied (Inl e)) ?u) u" for u
    using that ok(6,7) [OF refuse.hyps(1)] claims_move [OF i] by (auto simp: claims_def)
  have v: "claims w v" using refuse.hyps(1) by (auto simp: claims_def)
  show ?case
  proof (rule fewer_claims [OF refuse.prems(2)], goal_cases)
    case (5 u x)
    with c [OF 5(1)] ok(5) [OF _ v] have "rsv_id u \<noteq> rsv_id v" by blast
    with 5(2) show ?case by force
  next
    case (6 u x)
    then show ?case using ok(3) c [OF 6(1)] by auto
  qed (auto simp: at_phase_move_at [OF i] split: if_splits)
next
  case (fail w i rq v e s)
  then show ?case by (auto intro: quiet_claims)
next
  case (store w i rq v r)
  note ok = claims_okD [OF store.prems(2)]
  let ?u = "w\<lparr>w_keys := stored_at (rsv_id v) r (w_keys w)\<rparr>"
  have i: "at_phase ?u i rq (Storing v r)" using store.hyps(1) by simp
  have c: "claims w u" if "claims (move_to i (Replied (Inr r)) ?u) u" for u
    using that claims_move [OF i] by (auto simp: claims_def)
  show ?case
  proof (rule fewer_claims [OF store.prems(2)], goal_cases)
    case (5 u x)
    then show ?case by force
  next
    case (6 u x)
    then show ?case using ok(3) [OF c [OF 6(1)]] by (auto simp: set_stored)
  qed (auto simp: at_phase_move_at [OF i] split: if_splits)
next
  case (lost w i rq v r)
  then show ?case by (auto intro: quiet_claims)
next
  case (crash w i rq ph)
  then show ?case by (auto intro: quiet_claims)
qed

lemma phase_ok_mono: "phase_ok digest l rq ph \<Longrightarrow> l \<subseteq> l' \<Longrightarrow> phase_ok digest l' rq ph"
  by (induction digest l rq ph rule: phase_ok.induct) auto

lemma answers_okD:
  assumes "answers_ok digest w"
  shows "(n, x) \<in> set (w_keys w) \<Longrightarrow> idk_response x = Some r \<Longrightarrow> \<exists>v. (v, r) \<in> set (w_log w) \<and> row_of v x"
    and "at_phase w i rq ph \<Longrightarrow> phase_ok digest (set (w_log w)) rq ph"
  using assms unfolding answers_ok_def by (blast, blast)

lemma move_answers:
  assumes ok: "answers_ok digest w" and i: "at_phase w i rq ph0" and same: "at_phase u = at_phase w"
    and log: "set (w_log w) \<subseteq> set (w_log u)" and ph: "phase_ok digest (set (w_log u)) rq ph"
    and rows: "\<And>n x r. (n, x) \<in> set (w_keys u) \<Longrightarrow> idk_response x = Some r \<Longrightarrow> (n, x) \<in> set (w_keys w)
      \<or> (\<exists>v. (v, r) \<in> set (w_log u) \<and> row_of v x)"
  shows "answers_ok digest (move_to i ph u)"
proof -
  have i': "at_phase u i rq ph0" using i same by simp
  have "phase_ok digest (set (w_log u)) r p" if "at_phase w j r p" for j r p
    using phase_ok_mono [OF answers_okD(2) [OF ok that] log] .
  with ph have "\<forall>j r p. at_phase (move_to i ph u) j r p \<longrightarrow> phase_ok digest (set (w_log u)) r p"
    by (simp add: at_phase_move_at [OF i'] same)
  moreover have "\<exists>v. (v, r) \<in> set (w_log u) \<and> row_of v x"
    if "(n, x) \<in> set (w_keys u)" "idk_response x = Some r" for n x r
    using rows [OF that] answers_okD(1) [OF ok _ that(2)] log by blast
  ultimately show ?thesis unfolding answers_ok_def move_fields by blast
qed

lemma step_answers:
  assumes "request_step digest handler w w'" and "claims_ok w" and "answers_ok digest w"
  shows "answers_ok digest w'"
  using assms
proof (induction rule: request_step.induct)
  case (tick w now)
  then show ?case by (simp add: answers_ok_def)
next
  case (other w s)
  then show ?case by (simp add: answers_ok_def)
next
  case (clean w limit)
  then show ?case using cleaned_sub [of "w_now w" limit "w_keys w"] unfolding answers_ok_def by fastforce
next
  case (arrive rq k w)
  then show ?case unfolding answers_ok_def by (auto simp: at_phase_append)
next
  case (reserve w i rq k)
  then show ?case by (auto intro!: move_answers simp: reserved_for_def with_key_def)
next
  case (taken w i rq k)
  then show ?case by (auto intro!: move_answers)
next
  case (look w i rq k)
  have "phase_ok digest (set (w_log w)) rq (Replied (replay (digest rq) (key_row (rq_tenant rq) k w)))"
  proof (cases "replay (digest rq) (key_row (rq_tenant rq) k w)")
    case (Inr r)
    then obtain x where x: "key_row (rq_tenant rq) k w = Some x" "idk_hash x = digest rq" "idk_response x = Some r"
      by (auto simp: replay_def split: option.splits if_splits)
    then obtain n where n: "(n, x) \<in> set (w_keys w)" "idk_tenant x = rq_tenant rq" "idk_key x = k"
      using key_row_Some by blast
    from answers_okD(1) [OF look.prems(2) n(1) x(3)] x(2) n(2,3) look.hyps(2) show ?thesis
      by (auto simp: Inr row_of_def reserved_for_def with_key_def)
  qed simp
  with look show ?case by (auto intro!: move_answers)
next
  case (run w i rq v r s)
  have "reserved_for digest rq v" using answers_okD(2) [OF run.prems(2) run.hyps(1)] by simp
  with run show ?case by (auto intro!: move_answers)
next
  case (refuse w i rq v e s)
  then show ?case by (auto intro!: move_answers)
next
  case (fail w i rq v e s)
  then show ?case by (auto intro!: move_answers)
next
  case (store w i rq v r)
  have v: "(v, r) \<in> set (w_log w)" "reserved_for digest rq v"
    using answers_okD(2) [OF store.prems(2) store.hyps(1)] by simp_all
  then have "claims w v" by (force simp: claims_def)
  note row = claims_okD(3) [OF store.prems(1) this]
  show ?case
  proof (rule move_answers [OF store.prems(2) store.hyps(1)], goal_cases)
    case (4 n x q)
    with v(1) row show ?case by (auto simp: set_stored split: if_splits)
  qed (use v in auto)
next
  case (lost w i rq v r)
  then show ?case by (auto intro!: move_answers)
next
  case (crash w i rq ph)
  then show ?case by (auto intro!: move_answers)
qed

lemma reachable_ok:
  "reachable_world digest handler s0 w \<Longrightarrow> keys_ok w \<and> claims_ok w \<and> answers_ok digest w"
proof (induction rule: reachable_world.induct)
  case (start t0)
  show ?case by (simp add: keys_ok_def claims_ok_def answers_ok_def claims_def at_phase_def)
next
  case (more w w')
  then show ?case using step_keys step_claims step_answers by blast
qed

section \<open>A request that is not disturbed\<close>

text \<open>Taken alone, the steps of one request come to what \<open>execute_http_idempotent\<close> computes.\<close>

lemma stored_last:
  assumes "\<And>m x. (m, x) \<in> set ks \<Longrightarrow> m < n \<and> (idk_tenant x, idk_key x) \<noteq> (idk_tenant y, idk_key y)"
  shows "map snd (stored_at n r (ks @ [(n, y)])) = store_response (idk_tenant y) (idk_key y) r (map snd ks @ [y])"
  using assms by (fastforce simp: stored_at_def store_response_def)

lemma filter_last:
  assumes "\<And>m x. (m, x) \<in> set ks \<Longrightarrow> m < n"
  shows "filter (\<lambda>(m, x). m \<noteq> (n :: nat)) (ks @ [(n, y)]) = ks"
  using assms [of n] by (auto simp: filter_id_conv)

lemma undisturbed_request:
  assumes ok: "keys_ok w" and key: "with_key rq k"
    and run: "execute_http_idempotent digest (w_now w) (handler rq) rq (map snd (w_keys w)) (w_state w) = (a, ks, s)"
  shows "\<exists>w'. (request_step digest handler)\<^sup>*\<^sup>* w w' \<and> w_requests w' = w_requests w @ [(rq, Replied a)]
    \<and> map snd (w_keys w') = ks \<and> w_state w' = s"
proof -
  let ?i = "length (w_requests w)" and ?t = "rq_tenant rq" and ?y = "reserved_key digest rq k (w_now w)"
  let ?v = "reserving digest rq k w"
  let ?w1 = "w\<lparr>w_requests := w_requests w @ [(rq, Waiting)]\<rparr>"
  note more = rtranclp.rtrancl_into_rtrancl [of "request_step digest handler"]
  have s1: "(request_step digest handler)\<^sup>*\<^sup>* w ?w1" using request_step.arrive [OF key] by blast
  have p1: "at_phase ?w1 ?i rq Waiting" by (simp add: at_phase_def)
  have kr: "key_row ?t k ?w1 = find_key ?t k (map snd (w_keys w))" by (simp add: key_row_def)
  have rk: "rq_key rq = Some k" "k \<noteq> []" using key by (simp_all add: with_key_def)
  have last: "w_requests (move_to ?i ph u) = w_requests w @ [(rq, ph)]"
    if "w_requests u = w_requests w @ [(rq, p)]" for ph p u
    using that by (simp add: move_to_def)
  show ?thesis
  proof (cases "find_key ?t k (map snd (w_keys w))")
    case (Some x)
    let ?w2 = "move_to ?i Looking ?w1"
    have s2: "(request_step digest handler)\<^sup>*\<^sup>* w ?w2"
      by (rule more [OF s1 request_step.taken [OF p1 key]]) (simp add: kr Some)
    have "at_phase ?w2 ?i rq Looking" using at_phase_move_at [OF p1] by simp
    from more [OF s2 request_step.look [OF this key]]
    have "(request_step digest handler)\<^sup>*\<^sup>* w (move_to ?i (Replied (replay (digest rq) (Some x))) ?w2)"
      by (simp add: key_row_def Some)
    moreover from run rk Some have "a = replay (digest rq) (Some x) \<and> ks = map snd (w_keys w) \<and> s = w_state w"
      by (simp add: execute_http_idempotent_def)
    ultimately show ?thesis
      by (intro exI [of _ "move_to ?i (Replied (replay (digest rq) (Some x))) ?w2"] conjI) (simp_all add: move_to_def)
  next
    case None
    let ?w2 = "move_to ?i (Running ?v) (?w1\<lparr>w_next := Suc (w_next w), w_keys := w_keys w @ [(w_next w, ?y)]\<rparr>)"
    have same: "reserving digest rq k ?w1 = ?v" by (simp add: reserving_def)
    have "(request_step digest handler)\<^sup>*\<^sup>* w (move_to ?i (Running (reserving digest rq k ?w1))
      (?w1\<lparr>w_next := Suc (w_next ?w1), w_keys := w_keys ?w1 @ [(w_next ?w1, reserved_key digest rq k (w_now ?w1))]\<rparr>))"
      by (rule more [OF s1 request_step.reserve [OF p1 key]]) (simp add: kr None)
    then have s2: "(request_step digest handler)\<^sup>*\<^sup>* w ?w2" by (simp add: same)
    have p2: "at_phase ?w2 ?i rq (Running ?v)" using at_phase_move_at [OF p1] by (simp add: at_phase_def move_to_def)
    have fresh: "(m, x) \<in> set (w_keys w) \<Longrightarrow> m < w_next w" for m x using ok by (auto simp: keys_ok_def)
    have st2: "w_state ?w2 = w_state w" by simp
    have other: "(m, x) \<in> set (w_keys w) \<Longrightarrow> m < w_next w \<and> (idk_tenant x, idk_key x) \<noteq> (idk_tenant ?y, idk_key ?y)"
      for m x using fresh None by (auto simp: find_key_None)
    have stored: "map snd (stored_at (w_next w) r (w_keys w @ [(w_next w, ?y)]))
      = store_response ?t k r (map snd (w_keys w) @ [?y])" for r
      using stored_last [of "w_keys w" "w_next w" ?y, OF other] by simp
    show ?thesis
    proof (cases "handler rq (w_state w)")
      case (Returned r s')
      let ?w3 = "move_to ?i (Storing ?v r) (?w2\<lparr>w_state := s', w_log := w_log ?w2 @ [(?v, r)]\<rparr>)"
      let ?w4 = "move_to ?i (Replied (Inr r)) (?w3\<lparr>w_keys := stored_at (rsv_id ?v) r (w_keys ?w3)\<rparr>)"
      have "handler rq (w_state ?w2) = Returned r s'" using Returned by simp
      from more [OF s2 request_step.run [where handler = handler, OF p2 this]] have s3: "(request_step digest handler)\<^sup>*\<^sup>* w ?w3" .
      have p3: "at_phase ?w3 ?i rq (Storing ?v r)" by (simp add: at_phase_def move_to_def)
      have "rsv_id ?v \<in> fst ` set (w_keys ?w3)" by simp
      from more [OF s3 request_step.store [OF p3 this]]
      have "(request_step digest handler)\<^sup>*\<^sup>* w ?w4" .
      moreover have "w_requests ?w4 = w_requests w @ [(rq, Replied a)]" "map snd (w_keys ?w4) = ks" "w_state ?w4 = s"
        using run rk None Returned stored [of r] by (simp_all add: execute_http_idempotent_def Let_def tadd_def move_to_def)
      ultimately show ?thesis by blast
    next
      case (Raised e s')
      have h: "handler rq (w_state ?w2) = Raised e s'" using Raised by simp
      show ?thesis
      proof (cases "is_api_error e")
        case True
        let ?w3 = "move_to ?i (Replied (Inl e)) (?w2\<lparr>w_keys := filter (\<lambda>(m, x). m \<noteq> rsv_id ?v) (w_keys ?w2), w_state := s'\<rparr>)"
        from more [OF s2 request_step.refuse [where handler = handler, OF p2 h True]]
        have "(request_step digest handler)\<^sup>*\<^sup>* w ?w3" .
        moreover have "w_requests ?w3 = w_requests w @ [(rq, Replied a)]" "map snd (w_keys ?w3) = ks" "w_state ?w3 = s"
          using run rk None Raised True filter_last [of "w_keys w" "w_next w" ?y, OF fresh] drop_reserved [OF None]
          by (simp_all add: execute_http_idempotent_def Let_def move_to_def)
        ultimately show ?thesis by blast
      next
        case False
        from more [OF s2 request_step.fail [where handler = handler, OF p2 h False]]
        have "(request_step digest handler)\<^sup>*\<^sup>* w (move_to ?i (Replied (Inl e)) ?w2)" .
        moreover have "w_requests (move_to ?i (Replied (Inl e)) ?w2) = w_requests w @ [(rq, Replied a)]"
          "map snd (w_keys (move_to ?i (Replied (Inl e)) ?w2)) = ks" "w_state (move_to ?i (Replied (Inl e)) ?w2) = s"
          using run rk None Raised False
          by (simp_all add: execute_http_idempotent_def Let_def tadd_def move_to_def)
        ultimately show ?thesis by blast
      qed
    qed
  qed
qed

section \<open>What a key promises\<close>

text \<open>
  C20: However requests interleave with each other, with other work and with the nightly removal of expired
  keys, and wherever a worker dies: a reservation's handler commits at most once; two reservations of one key
  whose handlers both committed are more than the lifetime of the earlier key apart (30 days, 90 for
  billing), so within it the key runs at most once; and a request is only ever answered with the response of
  such a run, of a request with its own tenant, key and digest.
\<close>

theorem idempotent_within_lifetime:
  assumes "reachable_world digest handler s0 w"
  shows "distinct (map fst (w_log w))
    \<and> (\<forall>v r u r'. (v, r) \<in> set (w_log w) \<longrightarrow> (u, r') \<in> set (w_log w) \<longrightarrow> same_key v u
         \<longrightarrow> v = u \<and> r = r' \<or> lapses v < rsv_at u \<or> lapses u < rsv_at v)
    \<and> (\<forall>i rq r. at_phase w i rq (Replied (Inr r))
         \<longrightarrow> (\<exists>v. (v, r) \<in> set (w_log w) \<and> rsv_tenant v = rq_tenant rq \<and> rq_key rq = Some (rsv_key v) \<and> rsv_hash v = digest rq))"
proof (intro conjI allI impI)
  note ok = reachable_ok [OF assms, THEN conjunct2]
  note cl = claims_okD [OF ok [THEN conjunct1]]
  show d: "distinct (map fst (w_log w))" by (rule cl(1))
  show "v = u \<and> r = r' \<or> lapses v < rsv_at u \<or> lapses u < rsv_at v"
    if "(v, r) \<in> set (w_log w)" "(u, r') \<in> set (w_log w)" "same_key v u" for v r u r'
  proof (cases "v = u")
    case True
    with that d show ?thesis by (meson eq_key_imp_eq_value)
  next
    case False
    have "claims w v" "claims w u" using that by (force simp: claims_def)+
    with cl(5) that(3) False show ?thesis unfolding apart_def by blast
  qed
  show "\<exists>v. (v, r) \<in> set (w_log w) \<and> rsv_tenant v = rq_tenant rq \<and> rq_key rq = Some (rsv_key v) \<and> rsv_hash v = digest rq"
    if "at_phase w i rq (Replied (Inr r))" for i rq r
    using answers_okD(2) [OF ok [THEN conjunct2] that] by (auto simp: reserved_for_def)
qed

text \<open>Two requests race and are both answered 7; a third, when the key is gone after 31 days, runs the handler again.\<close>

definition race :: "nat phase \<Rightarrow> nat phase \<Rightarrow> (nat \<times> nat idem_key) list \<Rightarrow> nat \<Rightarrow> (key_hold \<times> nat) list
    \<Rightarrow> (nat, nat, nat) world" where
  "race p q ks n l = \<lparr>w_now = 0, w_next = 1, w_keys = ks, w_state = n, w_requests = [(ask 7, p), (ask 7, q)], w_log = l\<rparr>"

definition racing :: key_hold where
  "racing = \<lparr>rsv_id = 0, rsv_tenant = 1, rsv_key = ''k'', rsv_type = ''trip'', rsv_hash = pay_digest (ask 7), rsv_at = 0\<rparr>"

definition raced :: "(nat, nat, nat) world" where
  "raced = race (Replied (Inr 7)) (Replied (Inr 7))
     [(0, (reserved_key pay_digest (ask 7) ''k'' 0)\<lparr>idk_response := Some 7, idk_status := Some 200\<rparr>)] 7 [(racing, 7)]"

lemma raced_reachable: "reachable_world pay_digest add_handler 0 raced"
proof -
  let ?R = "reachable_world pay_digest add_handler 0"
  let ?y = "(0, reserved_key pay_digest (ask 7) ''k'' 0)"
  let ?x = "(0, (reserved_key pay_digest (ask 7) ''k'' 0)\<lparr>idk_response := Some 7, idk_status := Some 200\<rparr>)"
  have k: "with_key (ask 7) ''k''" by (simp add: with_key_def ask_def)
  have a: "rq_tenant (ask 7) = 1" "rq_entity_type (ask 7) = ''trip''" "add_handler (ask 7) 0 = Returned 7 7"
    by (simp_all add: ask_def add_handler_def)
  note step = reachable_world.more [where digest = pay_digest and handler = add_handler and ?s0.0 = 0]
  note simps = race_def racing_def reserving_def move_to_def at_phase_def key_row_def find_key_def a stored_at_def replay_def
  have "?R \<lparr>w_now = 0, w_next = 0, w_keys = [], w_state = 0, w_requests = [(ask 7, Waiting)], w_log = []\<rparr>"
    using step [OF reachable_world.start [where ?t0.0 = 0] request_step.arrive [OF k]] by simp
  from step [OF this request_step.arrive [OF k]]
  have r0: "?R ((race Waiting Waiting [] 0 [])\<lparr>w_next := 0\<rparr>)" by (simp add: race_def)
  have r1: "?R (race (Running racing) Waiting [?y] 0 [])"
    using step [OF r0 request_step.reserve [where i = 0, OF _ k]] by (simp add: simps)
  have r2: "?R (race (Running racing) Looking [?y] 0 [])"
    using step [OF r1 request_step.taken [where i = 1, OF _ k]] by (simp add: simps)
  have r3: "?R (race (Storing racing 7) Looking [?y] 7 [(racing, 7)])"
    using step [OF r2 request_step.run [where i = 0 and rq = "ask 7" and v = racing and r = 7 and s = 7]] by (simp add: simps)
  have r4: "?R (race (Replied (Inr 7)) Looking [?x] 7 [(racing, 7)])"
    using step [OF r3 request_step.store [where i = 0 and rq = "ask 7" and v = racing and r = 7]] by (simp add: simps)
  show ?thesis
    using step [OF r4 request_step.look [where i = 1, OF _ k]] by (simp add: simps raced_def)
qed

lemma reachable_steps:
  "(request_step digest handler)\<^sup>*\<^sup>* w w' \<Longrightarrow> reachable_world digest handler s0 w \<Longrightarrow> reachable_world digest handler s0 w'"
  by (induction rule: rtranclp_induct) (auto intro: reachable_world.more)

lemma idempotent_within_lifetime_witness:
  "\<exists>w :: (nat, nat, nat) world. reachable_world pay_digest add_handler 0 w \<and> w_state w = 14
     \<and> w_requests w = [(ask 7, Replied (Inr 7)), (ask 7, Replied (Inr 7)), (ask 7, Replied (Inr 14))]
     \<and> (\<exists>u. (u, 14) \<in> set (w_log w) \<and> rsv_tenant u = 1 \<and> rsv_key u = ''k'')"
proof -
  let ?w = "raced\<lparr>w_now := add_days 0 31, w_keys := []\<rparr>"
  note step = reachable_world.more [where digest = pay_digest and handler = add_handler and ?s0.0 = 0]
  have "w_now raced \<le> add_days 0 31" by (simp add: raced_def race_def add_days_def day_us_def)
  from step [OF step [OF raced_reachable request_step.tick [OF this]] request_step.clean [where limit = 1]]
  have r: "reachable_world pay_digest add_handler 0 ?w"
    by (simp add: raced_def race_def cleaned_def cleanup_expired_idempotency_keys_def reserved_key_def
        add_days_def day_us_def ttl_for_def ask_def Let_def)
  have ok: "keys_ok ?w" and k: "with_key (ask 7) ''k''" by (simp_all add: keys_ok_def with_key_def ask_def)
  obtain ks where run: "execute_http_idempotent pay_digest (w_now ?w) (add_handler (ask 7)) (ask 7) (map snd (w_keys ?w)) (w_state ?w)
    = (Inr 14, ks, 14)"
    by (simp add: execute_http_idempotent_def ask_def add_handler_def find_key_def Let_def raced_def race_def)
  from undisturbed_request [where handler = add_handler, OF ok k run] obtain w' where
    s: "(request_step pay_digest add_handler)\<^sup>*\<^sup>* ?w w'" "w_state w' = 14"
    and q: "w_requests w' = [(ask 7, Replied (Inr 7)), (ask 7, Replied (Inr 7)), (ask 7, Replied (Inr 14))]"
    by (auto simp: raced_def race_def)
  have w: "reachable_world pay_digest add_handler 0 w'" by (rule reachable_steps [OF s(1) r])
  have "at_phase w' 2 (ask 7) (Replied (Inr 14))" by (simp add: at_phase_def q)
  with idempotent_within_lifetime [OF w]
  have "\<exists>u. (u, 14) \<in> set (w_log w') \<and> rsv_tenant u = rq_tenant (ask 7) \<and> rq_key (ask 7) = Some (rsv_key u)" by blast
  then have "\<exists>u. (u, 14) \<in> set (w_log w') \<and> rsv_tenant u = 1 \<and> rsv_key u = ''k''" by (simp add: ask_def eq_commute)
  with w s(2) q show ?thesis by blast
qed

end
