(* ===== verification/Workshop_Rows.thy ===== *)
theory Workshop_Rows
  imports Payments
begin

text \<open>
  The workshop's tables (\<^verbatim>\<open>workshop/models.py\<close>, \<^verbatim>\<open>workshop/quote_models.py\<close>): spare parts and
  their movements, reservations, purchase orders, serial items, tasks, tools, quotes and preventive
  maintenance. The workshop's state is these tables beside the database of the other services,
  which keeps the work orders themselves.
\<close>

section \<open>Stock\<close>

record part =
  part_id :: id
  part_tenant :: id
  part_sku :: string
  part_name :: string
  part_quantity :: dec
  part_minimum :: dec
  part_average :: dec
  part_status :: string
  part_category :: "string option"
  part_reorder :: "nat option"

record part_move =
  pmv_id :: id
  pmv_tenant :: id
  pmv_part :: id
  pmv_type :: string
  pmv_in :: bool
  pmv_quantity :: dec
  pmv_balance :: dec
  pmv_unit_cost :: "dec option"
  pmv_total :: "dec option"
  pmv_reference :: string
  pmv_source_type :: string
  pmv_source :: "id option"
  pmv_at :: timestamp
  pmv_by :: "id option"

record part_used =
  pu_id :: id
  pu_tenant :: id
  pu_work_order :: id
  pu_part :: id
  pu_move :: "id option"
  pu_reference :: string
  pu_quantity :: dec
  pu_unit_cost :: "dec option"
  pu_total :: "dec option"
  pu_issued_by :: "id option"
  pu_issued_at :: timestamp

datatype reservation_status = V_active | V_consumed | V_released | V_backorder

record reservation =
  res_id :: id
  res_tenant :: id
  res_part :: id
  res_quote :: "id option"
  res_work_order :: "id option"
  res_quantity :: dec
  res_status :: reservation_status

record purchase_order =
  po_id :: id
  po_tenant :: id
  po_supplier :: id
  po_number :: string
  po_status :: string
  po_total :: dec
  po_invoice :: "string option"

record purchase_item =
  poi_id :: id
  poi_tenant :: id
  poi_order :: id
  poi_part :: id
  poi_ordered :: dec
  poi_received :: dec
  poi_price :: dec
  poi_total :: dec

record serial_item =
  ser_id :: id
  ser_tenant :: id
  ser_part :: id
  ser_number :: string
  ser_status :: string
  ser_vehicle :: "id option"
  ser_installed_at :: "timestamp option"

record core_return =
  cor_id :: id
  cor_tenant :: id
  cor_work_order :: id
  cor_part :: id
  cor_description :: string
  cor_status :: string
  cor_credit :: "dec option"

record third_party =
  tp_id :: id
  tp_tenant :: id
  tp_name :: string

section \<open>Work\<close>

record work_task =
  task_id :: id
  task_tenant :: id
  task_work_order :: id
  task_description :: string
  task_status :: string
  task_completed_by :: "id option"
  task_completed_at :: "timestamp option"
  task_assigned_to :: "id option"
  task_estimated :: "nat option"
  task_actual :: "nat option"

record staff_rate =
  rate_id :: id
  rate_tenant :: id
  rate_user :: id
  rate_hourly :: dec
  rate_from :: day

record labor_log =
  log_id :: id
  log_tenant :: id
  log_task :: id
  log_user :: id
  log_completed_at :: timestamp
  log_minutes :: nat
  log_rate :: dec
  log_cost :: dec
  log_voided_at :: "timestamp option"
  log_void_reason :: "string option"

record tool =
  tool_id :: id
  tool_tenant :: id
  tool_code :: string
  tool_critical :: bool
  tool_calibration_due :: "timestamp option"
  tool_interval :: "nat option"
  tool_status :: string

record checkout =
  chk_id :: id
  chk_tenant :: id
  chk_tool :: id
  chk_work_order :: id
  chk_reference :: string
  chk_by :: "id option"
  chk_at :: timestamp
  chk_due :: "timestamp option"
  chk_status :: string
  chk_return_reference :: "string option"
  chk_returned_by :: "id option"
  chk_returned_at :: "timestamp option"
  chk_condition :: "string option"

section \<open>Quotes and preventive maintenance\<close>

datatype quote_status = Q_sent | Q_rejected | Q_expired | Q_converted

record quote =
  quo_id :: id
  quo_tenant :: id
  quo_vehicle :: id
  quo_client :: "id option"
  quo_reception :: "id option"
  quo_number :: string
  quo_supplemental :: bool
  quo_work_order :: "id option"
  quo_status :: quote_status
  quo_valid_until :: "timestamp option"
  quo_labor :: dec
  quo_parts :: dec
  quo_tax :: dec
  quo_total :: dec
  quo_notes :: "string option"
  quo_channel :: "string option"
  quo_accepted_by :: "string option"

record quote_item =
  qit_id :: id
  qit_tenant :: id
  qit_quote :: id
  qit_type :: string
  qit_description :: string
  qit_part :: "id option"
  qit_quantity :: dec
  qit_price :: dec
  qit_total :: dec

record sequence =
  seq_tenant :: id
  seq_key :: string
  seq_value :: nat

record plan =
  plan_id :: id
  plan_tenant :: id
  plan_vehicle :: "id option"
  plan_catalog :: "id option"
  plan_name :: string
  plan_interval_km :: "nat option"
  plan_interval_days :: "nat option"
  plan_next_km :: "int option"
  plan_next_at :: "timestamp option"
  plan_scope :: string
  plan_status :: string

record schedule =
  sch_id :: id
  sch_tenant :: id
  sch_plan :: id
  sch_vehicle :: id
  sch_quote :: "id option"
  sch_work_order :: "id option"
  sch_due_km :: "int option"
  sch_due_at :: "timestamp option"
  sch_notified_due :: "timestamp option"
  sch_notified_overdue :: "timestamp option"
  sch_status :: string

section \<open>Reception, warranty, catalogue\<close>

record reception =
  rcp_id :: id
  rcp_tenant :: id
  rcp_vehicle :: id
  rcp_client :: "id option"
  rcp_number :: string
  rcp_received_by :: "id option"
  rcp_odometer :: int
  rcp_fuel_level :: string
  rcp_pickup_name :: "string option"
  rcp_status :: string

record release =
  rel_id :: id
  rel_tenant :: id
  rel_vehicle :: id
  rel_reception :: id
  rel_by :: "id option"
  rel_odometer :: int
  rel_picked_up_by :: "string option"
  rel_override :: bool
  rel_reason :: "string option"
  rel_type :: string

record warranty =
  war_id :: id
  war_tenant :: id
  war_work_order :: id
  war_vehicle :: id
  war_client :: "id option"
  war_type :: string
  war_months :: nat
  war_duration_km :: "int option"
  war_starts :: timestamp
  war_expires :: timestamp
  war_km :: int
  war_status :: string

record work_bay =
  bay_id :: id
  bay_tenant :: id
  bay_name :: string
  bay_category :: string
  bay_active :: bool

record catalog_item =
  cat_id :: id
  cat_tenant :: id
  cat_code :: string
  cat_name :: string
  cat_category :: string
  cat_minutes :: nat
  cat_price :: dec
  cat_includes_parts :: bool
  cat_active :: bool

record calibration =
  cal_id :: id
  cal_tenant :: id
  cal_tool :: id
  cal_by :: "id option"
  cal_at :: timestamp
  cal_next_due :: timestamp

section \<open>The state of the workshop\<close>

record workshop =
  core :: db
  parts :: "part list"
  part_moves :: "part_move list"
  parts_used :: "part_used list"
  reservations :: "reservation list"
  purchase_orders :: "purchase_order list"
  purchase_items :: "purchase_item list"
  serial_items :: "serial_item list"
  core_returns :: "core_return list"
  third_parties :: "third_party list"
  work_tasks :: "work_task list"
  staff_rates :: "staff_rate list"
  labor_logs :: "labor_log list"
  tools :: "tool list"
  checkouts :: "checkout list"
  quotes :: "quote list"
  quote_items :: "quote_item list"
  sequences :: "sequence list"
  plans :: "plan list"
  schedules :: "schedule list"
  receptions :: "reception list"
  releases :: "release list"
  warranties :: "warranty list"
  work_bays :: "work_bay list"
  catalog :: "catalog_item list"
  calibrations :: "calibration list"

definition empty_workshop :: workshop where
  "empty_workshop = \<lparr>core = empty_db, parts = [], part_moves = [], parts_used = [],
     reservations = [], purchase_orders = [], purchase_items = [], serial_items = [],
     core_returns = [], third_parties = [], work_tasks = [], staff_rates = [], labor_logs = [], tools = [],
     checkouts = [], quotes = [], quote_items = [], sequences = [], plans = [], schedules = [],
     receptions = [], releases = [], warranties = [], work_bays = [], catalog = [], calibrations = []\<rparr>"

definition wnext :: "workshop \<Rightarrow> id" where
  "wnext w = db_next (core w)"

definition wfresh :: "workshop \<Rightarrow> id \<times> workshop" where
  "wfresh w = (wnext w, w\<lparr>core := (core w)\<lparr>db_next := Suc (wnext w)\<rparr>\<rparr>)"

definition waudit :: "id \<Rightarrow> id option \<Rightarrow> string \<Rightarrow> string \<Rightarrow> id option \<Rightarrow> workshop \<Rightarrow> workshop" where
  "waudit tenant actor action etype entity w =
     w\<lparr>core := record_audit_log tenant actor action etype entity (core w)\<rparr>"

text \<open>A service of the database run inside the workshop.\<close>

definition on_core :: "(db \<Rightarrow> ('a \<times> db) res) \<Rightarrow> workshop \<Rightarrow> ('a \<times> workshop) res" where
  "on_core f w = rbind (f (core w)) (\<lambda>(x, d). Inr (x, w\<lparr>core := d\<rparr>))"

definition require_wo :: "id \<Rightarrow> id \<Rightarrow> workshop \<Rightarrow> work_order res" where
  "require_wo tenant i w =
     of_opt (ApiError ''work_order_not_found'' 404)
       (owned wo_id wo_tenant tenant i (work_orders (core w)))"

definition put_wo :: "work_order \<Rightarrow> workshop \<Rightarrow> workshop" where
  "put_wo x w = w\<lparr>core := (core w)\<lparr>work_orders := tput wo_id x (work_orders (core w))\<rparr>\<rparr>"

definition require_wvehicle :: "id \<Rightarrow> id \<Rightarrow> workshop \<Rightarrow> vehicle res" where
  "require_wvehicle tenant i w =
     of_opt (ApiError ''vehicle_not_found'' 404)
       (owned veh_id veh_tenant tenant i (vehicles (core w)))"

text \<open>
  A reference built from the first digits of an identifier and the time of day, as
  \<^verbatim>\<open>f"ISSUE-WO-{wo.id.hex[:8]}-{now.strftime('%H%M%S')}"\<close>. An identifier of the model is
  its own prefix.
\<close>

definition two_digits :: "int \<Rightarrow> string" where
  "two_digits n = zfill 2 (show_nat (nat n))"

definition hms :: "timestamp \<Rightarrow> string" where
  "hms t = (let s = (t div 1000000) mod 86400
            in two_digits (s div 3600) @ two_digits (s mod 3600 div 60) @ two_digits (s mod 60))"

definition timed_reference :: "string \<Rightarrow> id \<Rightarrow> timestamp \<Rightarrow> string" where
  "timed_reference prefix i t = prefix @ show_nat i @ ''-'' @ hms t"

text \<open>Month and day, \<^verbatim>\<open>strftime('%m%d')\<close>: the months of the year are walked from January.\<close>

fun walk_months :: "int list \<Rightarrow> int \<Rightarrow> int \<Rightarrow> int \<times> int" where
  "walk_months [] m d = (m, d)"
| "walk_months (n # ns) m d = (if d < n then (m, d) else walk_months ns (m + 1) (d - n))"

definition month_day :: "timestamp \<Rightarrow> string" where
  "month_day t =
     (let d = date_of t; y = year_of_day d;
          feb = (if year_start (y + 1) - year_start y = 366 then 29 else 28);
          (m, k) = walk_months [31, feb, 31, 30, 31, 30, 31, 31, 30, 31, 30, 31] 1 (d - year_start y)
      in two_digits m @ two_digits (k + 1))"

text \<open>
  Quotients and products in Python's decimal context: 28 significant digits, ties to even.
\<close>

definition pow10 :: "int \<Rightarrow> dec" where
  "pow10 e = (if 0 \<le> e then 10 ^ nat e else 1 / 10 ^ nat (- e))"

definition exponent10 :: "dec \<Rightarrow> int" where
  "exponent10 x =
     (let (p, q) = quotient_of \<bar>x\<bar>;
          e = int (length (show_nat (nat p))) - int (length (show_nat (nat q)))
      in if pow10 e \<le> \<bar>x\<bar> then e else e - 1)"

definition sig28 :: "dec \<Rightarrow> dec" where
  "sig28 x = (if x = 0 then 0
     else (let k = 27 - exponent10 x in of_int (round_half_even (x * pow10 k)) / pow10 k))"

definition dec_div :: "dec \<Rightarrow> dec \<Rightarrow> dec" where
  "dec_div x y = sig28 (x / y)"

definition dec_mul :: "dec \<Rightarrow> dec \<Rightarrow> dec" where
  "dec_mul x y = sig28 (x * y)"

lemma hms_daily: "hms (t + k * day_us) = hms t"
proof -
  have "(t + k * day_us) div 1000000 = t div 1000000 + k * 86400"
    by (simp add: day_us_def)
  then show ?thesis by (simp add: hms_def)
qed

lemma wfresh_fields [simp]:
  "fst (wfresh w) = wnext w" "snd (wfresh w) = w\<lparr>core := (core w)\<lparr>db_next := Suc (wnext w)\<rparr>\<rparr>"
  by (simp_all add: wfresh_def)

lemma waudit_fields [simp]:
  "parts (waudit t a x e i w) = parts w" "part_moves (waudit t a x e i w) = part_moves w"
  "parts_used (waudit t a x e i w) = parts_used w" "reservations (waudit t a x e i w) = reservations w"
  "purchase_orders (waudit t a x e i w) = purchase_orders w"
  "purchase_items (waudit t a x e i w) = purchase_items w"
  "serial_items (waudit t a x e i w) = serial_items w" "core_returns (waudit t a x e i w) = core_returns w"
  "third_parties (waudit t a x e i w) = third_parties w"
  "work_tasks (waudit t a x e i w) = work_tasks w" "staff_rates (waudit t a x e i w) = staff_rates w"
  "labor_logs (waudit t a x e i w) = labor_logs w" "tools (waudit t a x e i w) = tools w"
  "checkouts (waudit t a x e i w) = checkouts w" "quotes (waudit t a x e i w) = quotes w"
  "quote_items (waudit t a x e i w) = quote_items w" "sequences (waudit t a x e i w) = sequences w"
  "plans (waudit t a x e i w) = plans w" "schedules (waudit t a x e i w) = schedules w"
  "receptions (waudit t a x e i w) = receptions w" "releases (waudit t a x e i w) = releases w"
  "warranties (waudit t a x e i w) = warranties w" "work_bays (waudit t a x e i w) = work_bays w"
  "catalog (waudit t a x e i w) = catalog w" "calibrations (waudit t a x e i w) = calibrations w"
  "core (waudit t a x e i w) = record_audit_log t a x e i (core w)" "wnext (waudit t a x e i w) = wnext w"
  by (simp_all add: waudit_def wnext_def record_audit_log_def)

lemma on_core_Inr:
  "on_core f w = Inr (x, w') \<longleftrightarrow> (\<exists>d. f (core w) = Inr (x, d) \<and> w' = w\<lparr>core := d\<rparr>)"
  by (auto simp: on_core_def rbind_Inr)

end
