(* ===== verification/Spare_Parts.thy ===== *)
theory Spare_Parts
  imports Workshop_Rows
begin

text \<open>
  The workshop's stock (\<^verbatim>\<open>workshop/service.py\<close>, \<^verbatim>\<open>workshop/inventory_service.py\<close>): the single
  writer of spare-part movements and the services that write past it, reservations and their
  consumption, purchase orders, serial items. Quantities are columns of three digits, but the
  single writer computes in two: the theorems say what that costs.
\<close>

section \<open>The single writer\<close>

definition find_move :: "id \<Rightarrow> string \<Rightarrow> part_move list \<Rightarrow> part_move option" where
  "find_move tenant reference ms =
     List.find (\<lambda>m. pmv_tenant m = tenant \<and> pmv_reference m = reference) ms"

definition move_matches :: "part_move \<Rightarrow> id \<Rightarrow> string \<Rightarrow> bool \<Rightarrow> dec \<Rightarrow> dec option \<Rightarrow> bool" where
  "move_matches m part ty inward q cost \<longleftrightarrow>
     pmv_part m = part \<and> pmv_type m = ty \<and> pmv_in m = inward \<and> q2 (pmv_quantity m) = q
     \<and> (case cost of None \<Rightarrow> True | Some c \<Rightarrow> q2 (or_else (pmv_unit_cost m) 0) = q2 c)"

text \<open>\<^verbatim>\<open>UniqueConstraint("tenant_id", "request_reference")\<close>, checked at the flush.\<close>

definition moves_unique :: "part_move list \<Rightarrow> bool" where
  "moves_unique ms = distinct (map (\<lambda>m. (pmv_tenant m, pmv_reference m)) ms)"

definition flush_moves :: "workshop \<Rightarrow> workshop res" where
  "flush_moves w = (if moves_unique (part_moves w) then Inr w else Inl (PyError ''IntegrityError''))"

definition put_part :: "part \<Rightarrow> workshop \<Rightarrow> workshop" where
  "put_part p w = w\<lparr>parts := tput part_id p (parts w)\<rparr>"

definition add_move :: "part_move \<Rightarrow> workshop \<Rightarrow> workshop" where
  "add_move m w = w\<lparr>part_moves := tadd m (part_moves w)\<rparr>"

definition store_move :: "part_move \<Rightarrow> part_move" where
  "store_move m = m\<lparr>pmv_total := map_option (column 2) (pmv_total m)\<rparr>"

text \<open>The vehicle an outgoing movement is charged to in the ledger.\<close>

definition cost_vehicle :: "string \<Rightarrow> id option \<Rightarrow> workshop \<Rightarrow> id option" where
  "cost_vehicle stype source w =
     (if stype = ''vehicle'' then source
      else if stype = ''work_order''
      then Option.bind source (\<lambda>i. Option.bind (tget wo_id i (work_orders (core w))) wo_vehicle)
      else None)"

definition post_consumption ::
  "id \<Rightarrow> part_move \<Rightarrow> id option \<Rightarrow> workshop \<Rightarrow> workshop res" where
  "post_consumption tenant m vehicle w =
     (case (vehicle, account_like tenant ''32'' (core w), account_like tenant ''622'' (core w)) of
        (Some v, Some stock, Some cost) \<Rightarrow>
          (let total = or_else (pmv_total m) 0 in
           rbind (journal_payload
             [\<lparr>jl_account = Some (acc_id cost), jl_code = None, jl_debit = total, jl_credit = 0,
               jl_third_party = None, jl_vehicle = Some v, jl_trip = None\<rparr>,
              \<lparr>jl_account = Some (acc_id stock), jl_code = None, jl_debit = 0, jl_credit = total,
               jl_third_party = None, jl_vehicle = None, jl_trip = None\<rparr>]) (\<lambda>ls.
           rbind (on_core (create_journal_entry tenant ''OD'' (midnight (date_of (pmv_at m))) None ls
                             None None) w)
             (\<lambda>(_, w1). Inr w1)))
      | _ \<Rightarrow> Inr w)"

definition part_low_stock :: "id \<Rightarrow> part \<Rightarrow> dec \<Rightarrow> id option \<Rightarrow> workshop \<Rightarrow> workshop res" where
  "part_low_stock tenant p balance actor w =
     (if balance \<le> q2 (part_minimum p)
      then rbind (on_core (ensure_exception tenant ''spare_part_inventory'' (part_id p)
                     ''spare_part_low_stock'' ''high'' actor (Some ''spare_part_movement'') None) w)
             (\<lambda>(_, w1). Inr w1)
      else Inr w)"

definition part_average_after :: "bool \<Rightarrow> dec \<Rightarrow> dec \<Rightarrow> dec option \<Rightarrow> part \<Rightarrow> dec" where
  "part_average_after inward q balance cost p =
     (case cost of
        Some c \<Rightarrow>
          if inward \<and> 0 < balance
          then column 2 ((q2 (part_quantity p) * q2 (part_average p) + q * c) / balance)
          else part_average p
      | None \<Rightarrow> part_average p)"

text \<open>The movement in memory and the state with its row and the part's new balance.\<close>

definition move_part ::
  "id \<Rightarrow> part \<Rightarrow> string \<Rightarrow> bool \<Rightarrow> dec \<Rightarrow> dec \<Rightarrow> string \<Rightarrow> string \<Rightarrow> id option \<Rightarrow> timestamp
    \<Rightarrow> id option \<Rightarrow> dec option \<Rightarrow> workshop \<Rightarrow> part_move \<times> workshop" where
  "move_part tenant p ty inward q balance reference stype source time actor cost w =
     (let uc = (case cost of Some c \<Rightarrow> Some (q2 c)
                | None \<Rightarrow> if inward then None else Some (q2 (part_average p)));
          (i, w1) = wfresh w;
          m = \<lparr>pmv_id = i, pmv_tenant = tenant, pmv_part = part_id p, pmv_type = ty,
            pmv_in = inward, pmv_quantity = q, pmv_balance = balance, pmv_unit_cost = uc,
            pmv_total = map_option (\<lambda>c. c * q) uc, pmv_reference = reference,
            pmv_source_type = stype, pmv_source = source, pmv_at = time, pmv_by = actor\<rparr>
      in (m, put_part (p\<lparr>part_quantity := balance,
                         part_average := part_average_after inward q balance uc p\<rparr>)
               (add_move (store_move m) w1)))"

text \<open>\<^verbatim>\<open>SparePartMovementService.record\<close>; its callers pass ''in'' or ''out'' only.\<close>

definition record_part_movement ::
  "id \<Rightarrow> id \<Rightarrow> string \<Rightarrow> bool \<Rightarrow> dec \<Rightarrow> string \<Rightarrow> string \<Rightarrow> id option \<Rightarrow> timestamp \<Rightarrow> id option
    \<Rightarrow> dec option \<Rightarrow> workshop \<Rightarrow> (part_move \<times> workshop) res" where
  "record_part_movement tenant part ty inward quantity reference stype source time actor cost w =
     (let q = q2 quantity in
      if q \<le> 0 then Inl (ApiError ''invalid_spare_part_quantity'' 422)
      else case find_move tenant reference (part_moves w) of
        Some m \<Rightarrow>
          if move_matches m part ty inward q cost then Inr (m, w)
          else Inl (ApiError ''spare_part_request_reference_reused'' 409)
      | None \<Rightarrow>
          (case owned part_id part_tenant tenant part (parts w) of
             None \<Rightarrow> Inl (ApiError ''spare_part_not_found'' 404)
           | Some p \<Rightarrow>
               if part_status p \<noteq> ''active'' then Inl (ApiError ''spare_part_not_found'' 404)
               else
                 (let previous = q2 (part_quantity p);
                      balance = (if inward then previous + q else previous - q)
                  in if balance < 0 then Inl (ApiError ''insufficient_spare_part_stock'' 409)
                     else
                       (let (m, w1) = move_part tenant p ty inward q balance reference stype source
                                        time actor cost w
                        in rbind (if \<not> inward \<and> 0 < or_else (pmv_total m) 0
                                  then post_consumption tenant m (cost_vehicle stype source w1) w1
                                  else Inr w1) (\<lambda>w2.
                           rbind (part_low_stock tenant p balance actor
                                    (waudit tenant actor ''spare_part_movement.recorded''
                                       ''spare_part_inventory'' (Some part) w2)) (\<lambda>w3.
                           Inr (m, w3)))))))"

record part_create =
  ptc_sku :: string
  ptc_name :: string
  ptc_minimum :: dec

definition create_spare_part ::
  "id \<Rightarrow> part_create \<Rightarrow> id option \<Rightarrow> workshop \<Rightarrow> (part \<times> workshop) res" where
  "create_spare_part tenant c actor w =
     (if list_ex (\<lambda>p. part_tenant p = tenant \<and> part_sku p = ptc_sku c) (parts w)
      then Inl (ApiError ''spare_part_sku_exists'' 409)
      else
        (let (i, w1) = wfresh w;
             p = \<lparr>part_id = i, part_tenant = tenant, part_sku = ptc_sku c, part_name = ptc_name c,
               part_quantity = 0, part_minimum = column 3 (ptc_minimum c), part_average = 0,
               part_status = ''active'', part_category = None, part_reorder = None\<rparr>
         in Inr (p, waudit tenant actor ''spare_part_inventory.created'' ''spare_part_inventory''
                      (Some i) (w1\<lparr>parts := tadd p (parts w1)\<rparr>))))"

record receipt_request =
  rcq_part :: id
  rcq_reference :: string
  rcq_quantity :: dec
  rcq_cost :: dec
  rcq_at :: timestamp

definition receive_spare_part ::
  "id \<Rightarrow> receipt_request \<Rightarrow> id option \<Rightarrow> workshop \<Rightarrow> (part_move \<times> workshop) res" where
  "receive_spare_part tenant r actor w =
     record_part_movement tenant (rcq_part r) ''receipt'' True (rcq_quantity r) (rcq_reference r)
       ''spare_part_receipt'' None (rcq_at r) actor (Some (rcq_cost r)) w"

record issue_request =
  isq_part :: id
  isq_reference :: string
  isq_quantity :: dec
  isq_at :: timestamp

definition issue_matches :: "part_used \<Rightarrow> id \<Rightarrow> issue_request \<Rightarrow> bool" where
  "issue_matches u wo r \<longleftrightarrow> pu_work_order u = wo \<and> pu_part u = isq_part r
     \<and> q2 (pu_quantity u) = q2 (isq_quantity r)"

definition issue_spare_part_to_work_order ::
  "id \<Rightarrow> id \<Rightarrow> issue_request \<Rightarrow> id option \<Rightarrow> timestamp \<Rightarrow> workshop \<Rightarrow> (part_used \<times> workshop) res" where
  "issue_spare_part_to_work_order tenant wo r actor now w =
     (case List.find (\<lambda>u. pu_tenant u = tenant \<and> pu_reference u = isq_reference r) (parts_used w) of
        Some u \<Rightarrow>
          if issue_matches u wo r then Inr (u, w)
          else Inl (ApiError ''maintenance_part_request_reference_reused'' 409)
      | None \<Rightarrow>
          rbind (require_wo tenant wo w) (\<lambda>o'.
          if wo_status o' \<noteq> ''in_progress'' then Inl (ApiError ''invalid_work_order_status'' 409)
          else if tget part_id (isq_part r) (parts w) = None then Inl (PyError ''IntegrityError'')
          else
            (let (i, w1) = wfresh w;
                 u = \<lparr>pu_id = i, pu_tenant = tenant, pu_work_order = wo, pu_part = isq_part r,
                   pu_move = None, pu_reference = isq_reference r, pu_quantity = q2 (isq_quantity r),
                   pu_unit_cost = None, pu_total = None, pu_issued_by = actor, pu_issued_at = now\<rparr>
             in rbind (record_part_movement tenant (isq_part r) ''work_order_issue'' False
                         (isq_quantity r) (isq_reference r) ''maintenance_part_used'' (Some i)
                         (isq_at r) actor None (w1\<lparr>parts_used := tadd u (parts_used w1)\<rparr>)) (\<lambda>(m, w2).
                  let u' = u\<lparr>pu_move := Some (pmv_id m), pu_unit_cost := pmv_unit_cost m,
                            pu_total := map_option (column 2) (pmv_total m)\<rparr>
                  in Inr (u', waudit tenant actor ''maintenance_part.issued'' ''work_order'' (Some wo)
                                (w2\<lparr>parts_used := tput pu_id u' (parts_used w2)\<rparr>))))))"

text \<open>
  \<^verbatim>\<open>record_spare_part_receipt\<close>, the endpoint that does not use the single writer. Its error
  passes the status where the message belongs, which is a \<^verbatim>\<open>TypeError\<close>.
\<close>

definition record_spare_part_receipt ::
  "id \<Rightarrow> receipt_request \<Rightarrow> id \<Rightarrow> workshop \<Rightarrow> (part_move \<times> workshop) res" where
  "record_spare_part_receipt tenant r actor w =
     (case owned part_id part_tenant tenant (rcq_part r) (parts w) of
        None \<Rightarrow> Inl (PyError ''TypeError'')
      | Some p \<Rightarrow>
          (let q = q2 (rcq_quantity r); c = q2 (rcq_cost r);
               balance = part_quantity p + q;
               average = (if 0 < balance
                          then column 2 ((part_quantity p * part_average p + q * c) / balance)
                          else part_average p);
               (i, w1) = wfresh w;
               m = \<lparr>pmv_id = i, pmv_tenant = tenant, pmv_part = part_id p, pmv_type = ''receipt'',
                 pmv_in = True, pmv_quantity = q, pmv_balance = balance, pmv_unit_cost = Some c,
                 pmv_total = Some (column 2 (q * c)), pmv_reference = rcq_reference r,
                 pmv_source_type = ''manual_receipt'', pmv_source = None, pmv_at = rcq_at r,
                 pmv_by = Some actor\<rparr>
           in rbind (flush_moves (put_part (p\<lparr>part_quantity := balance, part_average := average\<rparr>)
                                    (add_move m w1))) (\<lambda>w2. Inr (m, w2))))"

section \<open>Reservations\<close>

definition reserved_active :: "id \<Rightarrow> id \<Rightarrow> workshop \<Rightarrow> dec" where
  "reserved_active tenant part w = (\<Sum>r\<leftarrow>filter (\<lambda>r. res_tenant r = tenant \<and> res_part r = part
     \<and> res_status r = V_active) (reservations w). res_quantity r)"

definition get_available_stock :: "id \<Rightarrow> id \<Rightarrow> workshop \<Rightarrow> dec res" where
  "get_available_stock tenant part w =
     rbind (of_opt (ApiError ''part_not_found'' 404) (owned part_id part_tenant tenant part (parts w)))
       (\<lambda>p. Inr (max (q3 (part_quantity p - reserved_active tenant part w)) 0))"

text \<open>One item of an accepted quote; an item without part, quantity or part row is passed over.\<close>

definition reserve_item :: "id \<Rightarrow> id \<Rightarrow> id option \<Rightarrow> quote_item \<Rightarrow> workshop \<Rightarrow> workshop" where
  "reserve_item tenant quote wo it w =
     (case Option.bind (qit_part it) (\<lambda>p. owned part_id part_tenant tenant p (parts w)) of
        None \<Rightarrow> w
      | Some p \<Rightarrow>
          if qit_quantity it \<le> 0 then w
          else
            (let available = part_quantity p - reserved_active tenant (part_id p) w;
                 (i, w1) = wfresh w;
                 r = \<lparr>res_id = i, res_tenant = tenant, res_part = part_id p, res_quote = Some quote,
                   res_work_order = wo, res_quantity = q3 (qit_quantity it),
                   res_status = (if qit_quantity it \<le> available then V_active else V_backorder)\<rparr>
             in w1\<lparr>reservations := tadd r (reservations w1)\<rparr>))"

definition create_part_reservations :: "id \<Rightarrow> id \<Rightarrow> id option \<Rightarrow> workshop \<Rightarrow> workshop" where
  "create_part_reservations tenant quote wo w =
     fold (reserve_item tenant quote wo)
       (filter (\<lambda>it. qit_quote it = quote \<and> qit_tenant it = tenant \<and> qit_type it = ''part''
          \<and> qit_part it \<noteq> None) (quote_items w)) w"

definition releasable :: "id \<Rightarrow> id option \<Rightarrow> id option \<Rightarrow> reservation \<Rightarrow> bool" where
  "releasable tenant quote wo r \<longleftrightarrow> res_tenant r = tenant \<and> res_status r \<in> {V_active, V_backorder}
     \<and> (quote = None \<or> res_quote r = quote) \<and> (wo = None \<or> res_work_order r = wo)"

definition release_reservations ::
  "id \<Rightarrow> id option \<Rightarrow> id option \<Rightarrow> workshop \<Rightarrow> nat \<times> workshop" where
  "release_reservations tenant quote wo w =
     (length (filter (releasable tenant quote wo) (reservations w)),
      w\<lparr>reservations := map (\<lambda>r. if releasable tenant quote wo r
          then r\<lparr>res_status := V_released\<rparr> else r) (reservations w)\<rparr>)"

section \<open>Issue, return, adjustment\<close>

definition open_reservations :: "id \<Rightarrow> id \<Rightarrow> id \<Rightarrow> workshop \<Rightarrow> reservation list" where
  "open_reservations tenant wo part w = filter (\<lambda>r. res_tenant r = tenant
     \<and> res_work_order r = Some wo \<and> res_part r = part \<and> res_status r \<in> {V_active, V_backorder})
     (reservations w)"

text \<open>One reservation of the loop: what is left to consume, and the state.\<close>

definition consume_step :: "reservation \<Rightarrow> dec \<times> workshop \<Rightarrow> dec \<times> workshop" where
  "consume_step r = (\<lambda>(left, w).
     let put = (\<lambda>x w. w\<lparr>reservations := tput res_id x (reservations w)\<rparr>) in
     if left \<le> 0 then (left, put (r\<lparr>res_status := V_released\<rparr>) w)
     else if res_quantity r \<le> left
     then (left - res_quantity r, put (r\<lparr>res_status := V_consumed\<rparr>) w)
     else
       (let w1 = put (r\<lparr>res_quantity := left, res_status := V_consumed\<rparr>) w;
            (i, w2) = wfresh w1;
            surplus = r\<lparr>res_id := i, res_quantity := res_quantity r - left, res_status := V_released\<rparr>
        in (0, w2\<lparr>reservations := tadd surplus (reservations w2)\<rparr>)))"

definition consume_reservations :: "dec \<Rightarrow> reservation list \<Rightarrow> workshop \<Rightarrow> workshop" where
  "consume_reservations q rs w = snd (fold consume_step rs (q, w))"

text \<open>A movement at the part's average cost, of an exact quantity.\<close>

definition stock_move ::
  "id \<Rightarrow> part \<Rightarrow> string \<Rightarrow> bool \<Rightarrow> dec \<Rightarrow> string \<Rightarrow> string \<Rightarrow> id option \<Rightarrow> timestamp \<Rightarrow> id option
    \<Rightarrow> workshop \<Rightarrow> part_move \<times> workshop" where
  "stock_move tenant p ty inward q reference stype source now actor w =
     (let balance = q3 (if inward then part_quantity p + q else part_quantity p - q);
          (i, w1) = wfresh w;
          m = \<lparr>pmv_id = i, pmv_tenant = tenant, pmv_part = part_id p, pmv_type = ty,
            pmv_in = inward, pmv_quantity = q, pmv_balance = balance,
            pmv_unit_cost = Some (part_average p), pmv_total = Some (q2 (q * part_average p)),
            pmv_reference = reference, pmv_source_type = stype, pmv_source = source, pmv_at = now,
            pmv_by = actor\<rparr>
      in (m, put_part (p\<lparr>part_quantity := balance\<rparr>) (add_move m w1)))"

definition used_unique :: "part_used list \<Rightarrow> bool" where
  "used_unique us = distinct (map (\<lambda>u. (pu_tenant u, pu_reference u)) us)"

definition issue_parts_for_work_order ::
  "id \<Rightarrow> id \<Rightarrow> id \<Rightarrow> dec \<Rightarrow> id option \<Rightarrow> timestamp \<Rightarrow> workshop \<Rightarrow> (part_move \<times> part_used \<times> workshop) res" where
  "issue_parts_for_work_order tenant wo part quantity actor now w =
     (let q = q3 quantity in
      if q \<le> 0 then Inl (ApiError ''invalid_quantity'' 400)
      else rbind (require_wo tenant wo w) (\<lambda>o'.
      if wo_status o' \<in> {''closed'', ''cancelled''} then Inl (ApiError ''work_order_not_active'' 409)
      else rbind (of_opt (ApiError ''part_not_found'' 404)
                    (owned part_id part_tenant tenant part (parts w))) (\<lambda>p.
      if part_quantity p < q then Inl (ApiError ''insufficient_stock'' 409)
      else
        (let rs = open_reservations tenant wo part w in
         if (\<Sum>r\<leftarrow>rs. res_quantity r) < q
         then Inl (ApiError ''quantity_exceeds_approved_reservation'' 409)
         else
           (let reference = timed_reference ''ISSUE-WO-'' wo now;
                (m, w1) = stock_move tenant p ''consumption'' False q reference ''work_order''
                            (Some wo) now actor (consume_reservations q rs w)
            in rbind (flush_moves w1) (\<lambda>w2.
               let (i, w3) = wfresh w2;
                   u = \<lparr>pu_id = i, pu_tenant = tenant, pu_work_order = wo, pu_part = part,
                     pu_move = Some (pmv_id m), pu_reference = reference, pu_quantity = q,
                     pu_unit_cost = pmv_unit_cost m, pu_total = pmv_total m, pu_issued_by = actor,
                     pu_issued_at = now\<rparr>;
                   w4 = w3\<lparr>parts_used := tadd u (parts_used w3)\<rparr>
               in if used_unique (parts_used w4)
                  then Inr (m, u, waudit tenant actor ''workshop_inventory.parts_issued''
                                    ''spare_part_movement'' (Some (pmv_id m)) w4)
                  else Inl (PyError ''IntegrityError'')))))))"

definition billed_work_order :: "id \<Rightarrow> work_order \<Rightarrow> workshop \<Rightarrow> bool" where
  "billed_work_order tenant o' w = list_ex (\<lambda>b. bill_tenant b = tenant \<and> bill_source b = ''workshop''
     \<and> bill_status b \<in> {D_issued, D_paid} \<and> bill_contract_reference b = Some (wo_number o'))
     (bills (core w))"

text \<open>The audit row is written before the movement has its identifier.\<close>

definition return_part_from_work_order ::
  "id \<Rightarrow> id \<Rightarrow> id \<Rightarrow> dec \<Rightarrow> id option \<Rightarrow> timestamp \<Rightarrow> workshop \<Rightarrow> (part_move \<times> workshop) res" where
  "return_part_from_work_order tenant wo part quantity actor now w =
     (let q = q3 quantity in
      if q \<le> 0 then Inl (ApiError ''invalid_quantity'' 400)
      else rbind (require_wo tenant wo w) (\<lambda>o'.
      if wo_status o' \<in> {''closed'', ''cancelled''} \<or> billed_work_order tenant o' w
      then Inl (ApiError ''work_order_already_billed'' 409)
      else rbind (of_opt (ApiError ''part_not_found'' 404)
                    (owned part_id part_tenant tenant part (parts w))) (\<lambda>p.
        let (m, w1) = stock_move tenant p ''return'' True q (timed_reference ''RETURN-WO-'' wo now)
                        ''work_order'' (Some wo) now actor w
        in rbind (flush_moves (waudit tenant actor ''workshop_inventory.part_returned''
                                 ''spare_part_movement'' None w1)) (\<lambda>w2. Inr (m, w2)))))"

definition record_inventory_adjustment ::
  "id \<Rightarrow> id \<Rightarrow> dec \<Rightarrow> bool \<Rightarrow> string \<Rightarrow> id option \<Rightarrow> timestamp \<Rightarrow> workshop \<Rightarrow> (part_move \<times> workshop) res" where
  "record_inventory_adjustment tenant part quantity inward reason actor now w =
     (if strip reason = [] then Inl (ApiError ''reason_required'' 422)
      else
        (let q = q3 quantity in
         if q \<le> 0 then Inl (ApiError ''invalid_quantity'' 400)
         else rbind (of_opt (ApiError ''part_not_found'' 404)
                       (owned part_id part_tenant tenant part (parts w))) (\<lambda>p.
           if \<not> inward \<and> part_quantity p < q then Inl (ApiError ''insufficient_stock'' 409)
           else
             (let (m, w1) = stock_move tenant p ''adjustment'' inward q (timed_reference ''ADJ-'' part now)
                              ''inventory_adjustment'' None now actor w
              in rbind (flush_moves (waudit tenant actor ''workshop_inventory.adjustment''
                                       ''spare_part_movement'' None w1)) (\<lambda>w2. Inr (m, w2))))))"

section \<open>Purchase orders and core returns\<close>

definition purchase_line :: "id \<Rightarrow> id \<Rightarrow> id \<times> dec \<times> dec \<Rightarrow> dec \<times> workshop \<Rightarrow> dec \<times> workshop" where
  "purchase_line tenant order = (\<lambda>(part, quantity, price) (total, w).
     (let q = q3 quantity; c = q2 price; line = q2 (q * c);
          (i, w1) = wfresh w;
          x = \<lparr>poi_id = i, poi_tenant = tenant, poi_order = order, poi_part = part,
            poi_ordered = q, poi_received = 0, poi_price = c, poi_total = line\<rparr>
      in (total + line, w1\<lparr>purchase_items := tadd x (purchase_items w1)\<rparr>)))"

definition create_purchase_order ::
  "id \<Rightarrow> id \<Rightarrow> (id \<times> dec \<times> dec) list \<Rightarrow> string option \<Rightarrow> timestamp \<Rightarrow> workshop
    \<Rightarrow> (purchase_order \<times> workshop) res" where
  "create_purchase_order tenant supplier lines invoice now w =
     (if owned tp_id tp_tenant tenant supplier (third_parties w) = None
      then Inl (ApiError ''supplier_not_found'' 404)
      else
        (let number = ''PO-2026-'' @ month_day now @ hms now;
             (i, w1) = wfresh w;
             po = \<lparr>po_id = i, po_tenant = tenant, po_supplier = supplier, po_number = number,
               po_status = ''ordered'', po_total = 0, po_invoice = invoice\<rparr>
         in if list_ex (\<lambda>x. po_tenant x = tenant \<and> po_number x = number) (purchase_orders w)
               \<or> list_ex (\<lambda>(p, _). tget part_id p (parts w) = None) lines
            then Inl (PyError ''IntegrityError'')
            else
              (let (total, w2) = fold (purchase_line tenant i) lines (0, w1);
                   po' = po\<lparr>po_total := total\<rparr>
               in Inr (po', w2\<lparr>purchase_orders := tadd po' (purchase_orders w2)\<rparr>))))"

text \<open>The receipt of one line, at the weighted average cost.\<close>

definition receipt_average :: "purchase_item \<Rightarrow> dec \<Rightarrow> part \<Rightarrow> dec" where
  "receipt_average x q p =
     (let stock = part_quantity p + q
      in if 0 < stock then q2 ((part_quantity p * part_average p + q * poi_price x) / stock)
         else part_average p)"

definition order_receipt ::
  "id \<Rightarrow> purchase_order \<Rightarrow> timestamp \<Rightarrow> id option \<Rightarrow> purchase_item \<Rightarrow> dec \<Rightarrow> part \<Rightarrow> id \<Rightarrow> part_move" where
  "order_receipt tenant po now actor x q p i =
     \<lparr>pmv_id = i, pmv_tenant = tenant, pmv_part = part_id p, pmv_type = ''receipt'',
       pmv_in = True, pmv_quantity = q, pmv_balance = q3 (part_quantity p + q),
       pmv_unit_cost = Some (poi_price x), pmv_total = Some (q2 (q * poi_price x)),
       pmv_reference = ''PO-REC-'' @ po_number po, pmv_source_type = ''purchase_order'',
       pmv_source = Some (po_id po), pmv_at = now, pmv_by = actor\<rparr>"

definition receive_line ::
  "id \<Rightarrow> purchase_order \<Rightarrow> timestamp \<Rightarrow> id option \<Rightarrow> purchase_item \<Rightarrow> workshop \<Rightarrow> workshop" where
  "receive_line tenant po now actor x w =
     (let q = poi_ordered x - poi_received x in
      if q \<le> 0 then w
      else case owned part_id part_tenant tenant (poi_part x) (parts w) of
        None \<Rightarrow> w
      | Some p \<Rightarrow>
          (let (i, w1) = wfresh w
           in put_part (p\<lparr>part_quantity := q3 (part_quantity p + q), part_average := receipt_average x q p\<rparr>)
                (add_move (order_receipt tenant po now actor x q p i) (w1\<lparr>purchase_items :=
                   tput poi_id (x\<lparr>poi_received := poi_ordered x\<rparr>) (purchase_items w1)\<rparr>))))"

definition order_lines :: "id \<Rightarrow> id \<Rightarrow> workshop \<Rightarrow> purchase_item list" where
  "order_lines tenant order w = filter (\<lambda>x. poi_order x = order \<and> poi_tenant x = tenant) (purchase_items w)"

definition receive_purchase_order ::
  "id \<Rightarrow> id \<Rightarrow> string option \<Rightarrow> id option \<Rightarrow> timestamp \<Rightarrow> workshop \<Rightarrow> (purchase_order \<times> workshop) res" where
  "receive_purchase_order tenant order invoice actor now w =
     rbind (of_opt (ApiError ''po_not_found'' 404)
              (owned po_id po_tenant tenant order (purchase_orders w))) (\<lambda>po.
     if po_status po \<in> {''received'', ''cancelled''} then Inl (ApiError ''invalid_po_status'' 409)
     else
       (let w1 = fold (receive_line tenant po now actor) (order_lines tenant order w) w;
            po' = po\<lparr>po_status := ''received'', po_invoice := or_str invoice (po_invoice po)\<rparr>
        in rbind (flush_moves (w1\<lparr>purchase_orders := tput po_id po' (purchase_orders w1)\<rparr>))
             (\<lambda>w2. Inr (po', w2))))"

definition register_core_return ::
  "id \<Rightarrow> id \<Rightarrow> id \<Rightarrow> string \<Rightarrow> workshop \<Rightarrow> (core_return \<times> workshop) res" where
  "register_core_return tenant wo part description w =
     rbind (require_wo tenant wo w) (\<lambda>_.
     if tget part_id part (parts w) = None then Inl (PyError ''IntegrityError'')
     else
       (let (i, w1) = wfresh w;
            x = \<lparr>cor_id = i, cor_tenant = tenant, cor_work_order = wo, cor_part = part,
              cor_description = description, cor_status = ''pending_return'', cor_credit = None\<rparr>
        in Inr (x, w1\<lparr>core_returns := tadd x (core_returns w1)\<rparr>)))"

definition credit_core_return :: "id \<Rightarrow> id \<Rightarrow> dec \<Rightarrow> workshop \<Rightarrow> (core_return \<times> workshop) res" where
  "credit_core_return tenant i amount w =
     rbind (of_opt (ApiError ''core_return_not_found'' 404)
              (owned cor_id cor_tenant tenant i (core_returns w))) (\<lambda>x.
       let x' = x\<lparr>cor_credit := Some (q2 amount), cor_status := ''credited''\<rparr>
       in Inr (x', w\<lparr>core_returns := tput cor_id x' (core_returns w)\<rparr>))"

section \<open>Serial items\<close>

text \<open>
  The errors of these services pass the status positionally, a \<^verbatim>\<open>TypeError\<close>; only the
  duplicate serial number is answered as intended.
\<close>

definition register_serial_item :: "id \<Rightarrow> id \<Rightarrow> string \<Rightarrow> workshop \<Rightarrow> (serial_item \<times> workshop) res" where
  "register_serial_item tenant part number w =
     (if owned part_id part_tenant tenant part (parts w) = None then Inl (PyError ''TypeError'')
      else if list_ex (\<lambda>s. ser_tenant s = tenant \<and> ser_number s = number) (serial_items w)
      then Inl (ApiError ''serial_number_exists'' 409)
      else
        (let (i, w1) = wfresh w;
             s = \<lparr>ser_id = i, ser_tenant = tenant, ser_part = part, ser_number = number,
               ser_status = ''in_stock'', ser_vehicle = None, ser_installed_at = None\<rparr>
         in Inr (s, w1\<lparr>serial_items := tadd s (serial_items w1)\<rparr>)))"

definition install_move :: "id \<Rightarrow> id \<Rightarrow> part \<Rightarrow> timestamp \<Rightarrow> id \<Rightarrow> part_move" where
  "install_move tenant serial p now i =
     \<lparr>pmv_id = i, pmv_tenant = tenant, pmv_part = part_id p,
       pmv_type = ''serial_install'', pmv_in = False, pmv_quantity = 1,
       pmv_balance = part_quantity p - 1, pmv_unit_cost = Some (part_average p),
       pmv_total = Some (part_average p),
       pmv_reference = ''serial-install-'' @ show_nat serial,
       pmv_source_type = ''spare_part_serial_item'', pmv_source = Some serial,
       pmv_at = now, pmv_by = None\<rparr>"

definition install_serial_item ::
  "id \<Rightarrow> id \<Rightarrow> id \<Rightarrow> timestamp \<Rightarrow> workshop \<Rightarrow> (serial_item \<times> workshop) res" where
  "install_serial_item tenant serial vehicle now w =
     (case owned ser_id ser_tenant tenant serial (serial_items w) of
        None \<Rightarrow> Inl (PyError ''TypeError'')
      | Some s \<Rightarrow>
          if ser_status s \<noteq> ''in_stock'' then Inl (PyError ''TypeError'')
          else case tget part_id (ser_part s) (parts w) of
            None \<Rightarrow> Inl (PyError ''NoResultFound'')
          | Some p \<Rightarrow>
              (let s' = s\<lparr>ser_status := ''installed'', ser_vehicle := Some vehicle,
                         ser_installed_at := Some now\<rparr>;
                   (i, w1) = wfresh w
               in if tget veh_id vehicle (vehicles (core w)) = None then Inl (PyError ''IntegrityError'')
                  else rbind (flush_moves (put_part (p\<lparr>part_quantity := part_quantity p - 1\<rparr>)
                         (add_move (install_move tenant serial p now i) (w1\<lparr>serial_items := tput ser_id s' (serial_items w1)\<rparr>))))
                       (\<lambda>w2. Inr (s', w2))))"

section \<open>Queries\<close>

definition list_low_stock_parts :: "id \<Rightarrow> workshop \<Rightarrow> part list" where
  "list_low_stock_parts tenant w = filter (\<lambda>p. part_tenant p = tenant \<and> part_status p = ''active''
     \<and> part_quantity p \<le> part_minimum p) (parts w)"

definition category_of :: "part \<Rightarrow> string" where
  "category_of p = (if truthy (part_category p) then the (part_category p) else ''Geral'')"

fun add_value :: "string \<Rightarrow> dec \<Rightarrow> (string \<times> nat \<times> dec) list \<Rightarrow> (string \<times> nat \<times> dec) list" where
  "add_value c v [] = [(c, 1, v)]"
| "add_value c v ((k, n, x) # cs) =
     (if k = c then (k, Suc n, x + v) # cs else (k, n, x) # add_value c v cs)"

definition part_value :: "part \<Rightarrow> dec" where
  "part_value p = q2 (part_quantity p * part_average p)"

text \<open>Parts counted, their value, and the same by category in the order first met.\<close>

definition get_inventory_valuation_summary ::
  "id \<Rightarrow> workshop \<Rightarrow> nat \<times> dec \<times> (string \<times> nat \<times> dec) list" where
  "get_inventory_valuation_summary tenant w =
     (let ps = filter (\<lambda>p. part_tenant p = tenant \<and> part_status p = ''active'') (parts w)
      in (length ps, (\<Sum>p\<leftarrow>ps. part_value p),
          foldl (\<lambda>cs p. add_value (category_of p) (part_value p) cs) [] ps))"

record reorder =
  ro_part :: id
  ro_available :: dec
  ro_quantity :: nat
  ro_backorders :: nat
  ro_blocked :: "id list"

definition reorder_of :: "id \<Rightarrow> part \<Rightarrow> workshop \<Rightarrow> reorder option" where
  "reorder_of tenant p w =
     (case get_available_stock tenant (part_id p) w of
        Inl e \<Rightarrow> None
      | Inr available \<Rightarrow>
          if part_minimum p < available then None
          else
            (let bs = filter (\<lambda>r. res_tenant r = tenant \<and> res_part r = part_id p
                        \<and> res_status r = V_backorder) (reservations w)
             in Some \<lparr>ro_part = part_id p, ro_available = available,
                  ro_quantity = (case part_reorder p of None \<Rightarrow> 10 | Some n \<Rightarrow> if n = 0 then 10 else n),
                  ro_backorders = length bs, ro_blocked = List.map_filter res_work_order bs\<rparr>))"

definition get_reorder_suggestions :: "id \<Rightarrow> workshop \<Rightarrow> reorder list" where
  "get_reorder_suggestions tenant w = List.map_filter (\<lambda>p. reorder_of tenant p w)
     (filter (\<lambda>p. part_tenant p = tenant \<and> part_status p = ''active'') (parts w))"

section \<open>The stock and its movements\<close>

definition signed_quantity :: "part_move \<Rightarrow> dec" where
  "signed_quantity m = (if pmv_in m then pmv_quantity m else - pmv_quantity m)"

definition moves_of :: "id \<Rightarrow> workshop \<Rightarrow> part_move list" where
  "moves_of i w = filter (\<lambda>m. pmv_part m = i) (part_moves w)"

definition drift :: "workshop \<Rightarrow> part \<Rightarrow> dec" where
  "drift w p = part_quantity p - (\<Sum>m\<leftarrow>moves_of (part_id p) w. signed_quantity m)"

definition hundredths :: "id \<Rightarrow> workshop \<Rightarrow> bool" where
  "hundredths i w \<longleftrightarrow> list_all (\<lambda>m. cents (pmv_quantity m)) (moves_of i w)"

text \<open>
  Each movement moves the balance away from the sum of the movements by at most half a
  hundredth, and not at all while every quantity is a whole number of hundredths.
\<close>

definition part_ok :: "workshop \<Rightarrow> part \<Rightarrow> bool" where
  "part_ok w p \<longleftrightarrow> has_digits 3 (part_quantity p)
     \<and> \<bar>drift w p\<bar> \<le> of_nat (length (moves_of (part_id p) w)) / 200
     \<and> (hundredths (part_id p) w \<longrightarrow> drift w p = 0)"

definition lines_ok :: "purchase_item list \<Rightarrow> bool" where
  "lines_ok xs \<longleftrightarrow> list_all (\<lambda>x. has_digits 3 (poi_ordered x) \<and> has_digits 3 (poi_received x)) xs"

definition stock_ok :: "workshop \<Rightarrow> bool" where
  "stock_ok w \<longleftrightarrow> keys_unique part_id (parts w) \<and> below part_id (wnext w) (parts w)
     \<and> below pmv_part (wnext w) (part_moves w) \<and> lines_ok (purchase_items w)
     \<and> (\<forall>p\<in>set (parts w). part_ok w p)"

lemma stock_okD:
  assumes "stock_ok w"
  shows "keys_unique part_id (parts w)" "below part_id (wnext w) (parts w)"
    "below pmv_part (wnext w) (part_moves w)" "lines_ok (purchase_items w)"
    "\<forall>p\<in>set (parts w). part_ok w p"
  using assms by (simp_all add: stock_ok_def)

lemma part_ok_cong:
  "part_moves w' = part_moves w \<Longrightarrow> part_ok w' p = part_ok w p"
  by (simp add: part_ok_def drift_def moves_of_def hundredths_def)

text \<open>Operations that leave the stock alone.\<close>

lemma stock_ok_same:
  assumes ok: "stock_ok w" and "parts w' = parts w" "part_moves w' = part_moves w" "lines_ok (purchase_items w')"
    and le: "wnext w \<le> wnext w'"
  shows "stock_ok w'"
  using stock_okD(1,5) [OF ok] below_mono [OF stock_okD(2) [OF ok] le] below_mono [OF stock_okD(3) [OF ok] le]
    part_ok_cong [OF assms(3)]
  by (simp add: stock_ok_def assms(2-4))

lemma has_digits_2_3: "cents x \<Longrightarrow> has_digits 3 x"
proof -
  assume "cents x"
  then obtain k :: int where "x = of_int k / 10 ^ 2" by (auto simp: has_digits_iff)
  then have "x = of_int (10 * k) / 10 ^ 3" by simp
  then show "has_digits 3 x" unfolding has_digits_iff by blast
qed

text \<open>
  A posting: one more movement of a part, whose balance changes by the movement's quantity up to
  a rounding of the old balance that is nil for hundredths.
\<close>

definition posted :: "workshop \<Rightarrow> part \<Rightarrow> part \<Rightarrow> part_move \<Rightarrow> workshop \<Rightarrow> bool" where
  "posted w p p' m w' \<longleftrightarrow> tget part_id (part_id p) (parts w) = Some p \<and> part_id p' = part_id p
     \<and> pmv_part m = part_id p \<and> parts w' = tput part_id p' (parts w)
     \<and> part_moves w' = part_moves w @ [m] \<and> has_digits 3 (part_quantity p')
     \<and> \<bar>part_quantity p' - (part_quantity p + signed_quantity m)\<bar> \<le> 1 / 200
     \<and> (cents (part_quantity p) \<longrightarrow> part_quantity p' = part_quantity p + signed_quantity m)"

lemma hundredths_cents:
  assumes "part_ok w p" and "hundredths (part_id p) w"
  shows "cents (part_quantity p)"
proof -
  from assms have "part_quantity p = (\<Sum>m\<leftarrow>moves_of (part_id p) w. signed_quantity m)"
    by (simp add: part_ok_def drift_def)
  moreover have "cents (\<Sum>m\<leftarrow>moves_of (part_id p) w. signed_quantity m)"
    using assms(2) by (intro has_digits_sum_list)
      (auto simp: hundredths_def list_all_iff signed_quantity_def)
  ultimately show ?thesis by simp
qed

lemma posted_ok:
  assumes ok: "stock_ok w" and post: "posted w p p' m w'" and "lines_ok (purchase_items w')"
    and le: "wnext w \<le> wnext w'"
  shows "stock_ok w'"
proof -
  note okD = stock_okD [OF ok]
  note po = post [unfolded posted_def]
  have p: "part_ok w p" using okD(5) po tget_mem by fast
  have mv: "moves_of i w' = moves_of i w @ (if i = part_id p then [m] else [])" for i
    using po by (auto simp: moves_of_def)
  have new: "part_ok w' p'"
  proof -
    define e where "e = part_quantity p' - (part_quantity p + signed_quantity m)"
    have d: "drift w' p' = drift w p + e"
      using po by (simp add: drift_def mv e_def)
    have n: "of_nat (length (moves_of (part_id p') w')) / (200 :: dec)
        = of_nat (length (moves_of (part_id p) w)) / 200 + 1 / 200"
      using po by (simp add: mv add_divide_distrib)
    have "\<bar>drift w' p'\<bar> \<le> of_nat (length (moves_of (part_id p') w')) / 200"
      using p po unfolding part_ok_def n d e_def [symmetric] by linarith
    moreover have "drift w' p' = 0" if h: "hundredths (part_id p') w'"
    proof -
      from h po have h': "hundredths (part_id p) w" by (simp add: hundredths_def mv)
      from hundredths_cents [OF p h'] po have "e = 0" by (simp add: e_def)
      with h' p d show ?thesis by (simp add: part_ok_def)
    qed
    ultimately show ?thesis using po by (simp add: part_ok_def)
  qed
  have old: "part_ok w' q" if "q \<in> set (parts w)" "part_id q \<noteq> part_id p" for q
    using that okD(5) by (auto simp: part_ok_def drift_def hundredths_def mv)
  have "\<forall>q\<in>set (parts w'). part_ok w' q"
  proof
    fix q
    assume "q \<in> set (parts w')"
    then show "part_ok w' q"
      using po new old set_tput [of part_id p' "parts w"] by (auto simp: tput_def)
  qed
  moreover have "part_id p < wnext w"
    using okD(2) po tget_mem by (fastforce simp: below_def list_all_iff)
  ultimately show ?thesis
    using okD(1) below_tput [OF below_mono [OF okD(2) le]] below_mono [OF okD(3) le] po le assms(3)
    by (simp add: stock_ok_def) (simp add: below_def)
qed

text \<open>The tables the stock invariant reads.\<close>

definition same_stock :: "workshop \<Rightarrow> workshop \<Rightarrow> bool" where
  "same_stock w w' \<longleftrightarrow> parts w' = parts w \<and> part_moves w' = part_moves w
     \<and> purchase_items w' = purchase_items w \<and> wnext w \<le> wnext w'"

lemma same_stock_refl [simp]: "same_stock w w"
  by (simp add: same_stock_def)

lemma same_stock_trans: "same_stock u v \<Longrightarrow> same_stock v w \<Longrightarrow> same_stock u w"
  by (simp add: same_stock_def)

lemma same_stock_ok: "same_stock w w' \<Longrightarrow> stock_ok w \<Longrightarrow> stock_ok w'"
  by (rule stock_ok_same) (auto simp: same_stock_def dest: stock_okD(4))

lemma posted_keeps:
  assumes "stock_ok w" and "posted w p p' m w1" and "purchase_items w1 = purchase_items w"
    and "wnext w \<le> wnext w1"
  shows "stock_ok w1"
  using posted_ok [OF assms(1,2) _ assms(4)] stock_okD(4) [OF assms(1)] assms(3) by simp

lemma same_stock_audit [simp]: "same_stock w (waudit t a x e i w)"
  by (simp add: same_stock_def)

lemma same_stock_core: "db_next (core w) \<le> db_next d \<Longrightarrow> same_stock w (w\<lparr>core := d\<rparr>)"
  by (simp add: same_stock_def wnext_def)

lemma add_line_next: "add_line tn e l d = Inr d' \<Longrightarrow> db_next d \<le> db_next d'"
  by (auto simp: add_line_def rbind_Inr fresh_id_def Let_def)

lemma create_journal_entry_next:
  assumes "create_journal_entry tn ty date rf ls st so d = Inr (e, d')"
  shows "db_next d \<le> db_next d'"
proof -
  from assms obtain i where loop: "rfold (add_line tn i) ls
      (d\<lparr>db_next := Suc (db_next d), journals := journals d @ [e]\<rparr>) = Inr d'"
    by (auto simp: create_journal_entry_def rbind_Inr fresh_id_def tadd_def Let_def split: if_splits)
  show ?thesis
    by (rule rfold_invariant [OF loop, where I = "\<lambda>x. db_next d \<le> db_next x"])
      (auto dest: add_line_next)
qed

lemma part_low_stock_same: "part_low_stock tn p b a w = Inr w' \<Longrightarrow> same_stock w w'"
  by (auto simp: part_low_stock_def rbind_Inr on_core_Inr same_stock_def wnext_def
      dest: ensure_exception_next split: if_splits)

lemma post_consumption_same: "post_consumption tn m v w = Inr w' \<Longrightarrow> same_stock w w'"
  by (auto simp: post_consumption_def rbind_Inr on_core_Inr same_stock_def wnext_def Let_def
      dest: create_journal_entry_next split: option.splits)

lemma flush_moves_Inr: "flush_moves w = Inr w' \<longleftrightarrow> moves_unique (part_moves w) \<and> w' = w"
  by (auto simp: flush_moves_def)

lemma q2_near: "\<bar>q2 x - x\<bar> \<le> 1 / 200"
  using quantize_error [of 2 x] by simp

lemma move_part_posted:
  assumes "move_part tn p ty inward q balance rf st so time actor cost w = (m, w1)"
    and "tget part_id (part_id p) (parts w) = Some p" and "cents q"
    and "balance = (if inward then q2 (part_quantity p) + q else q2 (part_quantity p) - q)"
  shows "\<exists>p'. posted w p p' (store_move m) w1 \<and> wnext w \<le> wnext w1 \<and> purchase_items w1 = purchase_items w"
proof -
  define uc where "uc = (case cost of Some c \<Rightarrow> Some (q2 c)
    | None \<Rightarrow> if inward then None else Some (q2 (part_average p)))"
  have w1: "m = \<lparr>pmv_id = wnext w, pmv_tenant = tn, pmv_part = part_id p, pmv_type = ty,
            pmv_in = inward, pmv_quantity = q, pmv_balance = balance, pmv_unit_cost = uc,
            pmv_total = map_option (\<lambda>c. c * q) uc, pmv_reference = rf,
            pmv_source_type = st, pmv_source = so, pmv_at = time, pmv_by = actor\<rparr>"
    "w1 = put_part (p\<lparr>part_quantity := balance, part_average := part_average_after inward q balance uc p\<rparr>)
      (add_move (store_move m) (w\<lparr>core := (core w)\<lparr>db_next := Suc (wnext w)\<rparr>\<rparr>))"
    using assms(1) by (auto simp: move_part_def Let_def wfresh_def uc_def)
  have "posted w p (p\<lparr>part_quantity := balance, part_average := part_average_after inward q balance uc p\<rparr>)
      (store_move m) w1"
    using assms(2-4) q2_near [of "part_quantity p"]
    by (auto simp: w1 posted_def put_part_def add_move_def store_move_def signed_quantity_def tadd_def
        intro!: has_digits_2_3)
  moreover have "wnext w \<le> wnext w1" "purchase_items w1 = purchase_items w"
    by (simp_all add: w1(2) put_part_def add_move_def wnext_def)
  ultimately show ?thesis by blast
qed

lemma record_part_movement_ok:
  assumes "record_part_movement tn part ty inward quantity rf st so time actor cost w = Inr (m, w')"
    and ok: "stock_ok w"
  shows "stock_ok w'"
proof (cases "find_move tn rf (part_moves w)")
  case (Some x)
  with assms show ?thesis by (auto simp: record_part_movement_def Let_def split: if_splits)
next
  case None
  with assms(1) obtain p w1 w2 where p: "owned part_id part_tenant tn part (parts w) = Some p"
    and mv: "move_part tn p ty inward (q2 quantity)
      (if inward then q2 (part_quantity p) + q2 quantity else q2 (part_quantity p) - q2 quantity)
      rf st so time actor cost w = (m, w1)"
    and w2: "(if \<not> inward \<and> 0 < or_else (pmv_total m) 0
      then post_consumption tn m (cost_vehicle st so w1) w1 else Inr w1) = Inr w2"
    and low: "part_low_stock tn p (if inward then q2 (part_quantity p) + q2 quantity
        else q2 (part_quantity p) - q2 quantity) actor
      (waudit tn actor ''spare_part_movement.recorded'' ''spare_part_inventory'' (Some part) w2) = Inr w'"
    by (auto simp: record_part_movement_def rbind_Inr Let_def split: option.splits if_splits prod.splits)
  from p have "tget part_id (part_id p) (parts w) = Some p" by (auto simp: owned_Some tget_key)
  from move_part_posted [OF mv this] obtain p' where p': "posted w p p' (store_move m) w1"
    "wnext w \<le> wnext w1" "purchase_items w1 = purchase_items w" by auto
  from w2 have "same_stock w1 w2" by (auto dest: post_consumption_same split: if_splits)
  with low have "same_stock w1 w'"
    by (meson part_low_stock_same same_stock_audit same_stock_trans)
  then show ?thesis
    using posted_keeps [OF ok p'(1,3,2)] by (rule same_stock_ok)
qed

lemma stock_move_posted:
  assumes "stock_move tn p ty inward q rf st so now actor w = (m, w1)"
    and "tget part_id (part_id p) (parts w) = Some p" and "has_digits 3 q" "has_digits 3 (part_quantity p)"
  shows "\<exists>p'. posted w p p' m w1 \<and> part_quantity p' = (if inward then part_quantity p + q else part_quantity p - q)"
    and "wnext w \<le> wnext w1" "purchase_items w1 = purchase_items w" "reservations w1 = reservations w"
    "parts_used w1 = parts_used w" "core w1 = (core w)\<lparr>db_next := Suc (wnext w)\<rparr>"
    "pmv_quantity m = q" "pmv_in m = inward" "pmv_part m = part_id p" "pmv_tenant m = tn" "pmv_reference m = rf"
proof -
  let ?p = "p\<lparr>part_quantity := q3 (if inward then part_quantity p + q else part_quantity p - q)\<rparr>"
  have d: "has_digits 3 (if inward then part_quantity p + q else part_quantity p - q)"
    using assms(3,4) by auto
  have w1: "w1 = put_part ?p (add_move m (w\<lparr>core := (core w)\<lparr>db_next := Suc (wnext w)\<rparr>\<rparr>))"
    and m: "pmv_quantity m = q" "pmv_in m = inward" "pmv_part m = part_id p" "pmv_tenant m = tn" "pmv_reference m = rf"
    using assms(1) by (auto simp: stock_move_def Let_def wfresh_def)
  have "posted w p ?p m w1"
    using assms(2) d m by (auto simp: posted_def w1 put_part_def add_move_def tadd_def signed_quantity_def)
  then show "\<exists>p'. posted w p p' m w1 \<and> part_quantity p' = (if inward then part_quantity p + q else part_quantity p - q)"
    using d by (intro exI [of _ ?p]) simp
  show "wnext w \<le> wnext w1" "purchase_items w1 = purchase_items w" "reservations w1 = reservations w"
    "parts_used w1 = parts_used w" "core w1 = (core w)\<lparr>db_next := Suc (wnext w)\<rparr>"
    by (simp_all add: w1 put_part_def add_move_def wnext_def)
qed (use assms(1) in \<open>auto simp: stock_move_def Let_def wfresh_def\<close>)

lemma consume_step_same: "same_stock w (snd (consume_step r (q, w)))"
  by (auto simp: consume_step_def Let_def wfresh_def same_stock_def wnext_def split: if_splits)

lemma consume_reservations_same: "same_stock w (consume_reservations q rs w)"
proof -
  have "same_stock w (snd (fold consume_step rs (q, w)))" for q w
  proof (induction rs arbitrary: q w)
    case (Cons r rs)
    from Cons.IH [of "snd (consume_step r (q, w))" "fst (consume_step r (q, w))"] show ?case
      using same_stock_trans [OF consume_step_same] by simp
  qed simp
  then show ?thesis by (simp add: consume_reservations_def)
qed

lemma owned_tget: "owned key ten tn i t = Some r \<Longrightarrow> tget key (key r) t = Some r"
  by (auto simp: owned_Some tget_key)

lemma part_digits: "stock_ok w \<Longrightarrow> owned part_id part_tenant tn i (parts w) = Some p \<Longrightarrow> has_digits 3 (part_quantity p)"
  by (auto dest!: stock_okD(5) owned_mem simp: part_ok_def)

text \<open>The movement of one of the services that compute in three digits.\<close>

lemma stock_move_ok:
  assumes mv: "stock_move tn p ty inward (q3 quantity) rf st so now actor w = (m, w1)"
    and p: "owned part_id part_tenant tn i (parts w) = Some p" and ok: "stock_ok w"
  shows "stock_ok w1"
proof -
  note mvp = stock_move_posted [OF mv owned_tget [OF p] quantize_digits part_digits [OF ok p]]
  from mvp(1) obtain p' where "posted w p p' m w1" by blast
  from posted_keeps [OF ok this mvp(3,2)] show ?thesis .
qed

lemma issue_parts_ok:
  assumes "issue_parts_for_work_order tn wo part quantity actor now w = Inr (m, u, w')" and ok: "stock_ok w"
  shows "stock_ok w'"
proof -
  from assms(1) obtain p w1 where p: "owned part_id part_tenant tn part (parts w) = Some p"
    and mv: "stock_move tn p ''consumption'' False (q3 quantity) (timed_reference ''ISSUE-WO-'' wo now)
       ''work_order'' (Some wo) now actor (consume_reservations (q3 quantity) (open_reservations tn wo part w) w) = (m, w1)"
    and w': "same_stock w1 w'"
    by (auto simp: issue_parts_for_work_order_def rbind_Inr of_opt_Inr flush_moves_Inr Let_def wfresh_def
        same_stock_def wnext_def split: if_splits prod.splits)
  let ?c = "consume_reservations (q3 quantity) (open_reservations tn wo part w) w"
  have c: "same_stock w ?c" by (rule consume_reservations_same)
  then have "owned part_id part_tenant tn part (parts ?c) = Some p" using p by (simp add: same_stock_def)
  from same_stock_ok [OF w' stock_move_ok [OF mv this same_stock_ok [OF c ok]]] show ?thesis .
qed

lemma return_part_ok:
  assumes "return_part_from_work_order tn wo part quantity actor now w = Inr (m, w')" and ok: "stock_ok w"
  shows "stock_ok w'"
proof -
  from assms(1) obtain p w1 where p: "owned part_id part_tenant tn part (parts w) = Some p"
    and mv: "stock_move tn p ''return'' True (q3 quantity) (timed_reference ''RETURN-WO-'' wo now)
       ''work_order'' (Some wo) now actor w = (m, w1)"
    and w': "same_stock w1 w'"
    by (auto simp: return_part_from_work_order_def rbind_Inr of_opt_Inr flush_moves_Inr Let_def case_prod_beta
        prod_eq_iff split: if_splits)
  from same_stock_ok [OF w' stock_move_ok [OF mv p ok]] show ?thesis .
qed

lemma adjustment_ok:
  assumes "record_inventory_adjustment tn part quantity inward reason actor now w = Inr (m, w')" and ok: "stock_ok w"
  shows "stock_ok w'"
proof -
  from assms(1) obtain p w1 where p: "owned part_id part_tenant tn part (parts w) = Some p"
    and mv: "stock_move tn p ''adjustment'' inward (q3 quantity) (timed_reference ''ADJ-'' part now)
       ''inventory_adjustment'' None now actor w = (m, w1)"
    and w': "same_stock w1 w'"
    by (auto simp: record_inventory_adjustment_def rbind_Inr of_opt_Inr flush_moves_Inr Let_def case_prod_beta
        prod_eq_iff split: if_splits)
  from same_stock_ok [OF w' stock_move_ok [OF mv p ok]] show ?thesis .
qed

lemma manual_receipt_ok:
  assumes "record_spare_part_receipt tn r actor w = Inr (m, w')" and ok: "stock_ok w"
  shows "stock_ok w'"
proof -
  define c where "c = q2 (rcq_cost r)"
  from assms(1) obtain p where p: "owned part_id part_tenant tn (rcq_part r) (parts w) = Some p"
    by (auto simp: record_spare_part_receipt_def split: option.splits)
  let ?q = "q2 (rcq_quantity r)"
  have d: "has_digits 3 (part_quantity p + ?q)"
    by (rule has_digits_add [OF part_digits [OF ok p] has_digits_2_3]) (rule quantize_digits)
  from assms(1) p obtain a where m: "pmv_part m = part_id p" "pmv_in m" "pmv_quantity m = ?q"
    and w': "w' = put_part (p\<lparr>part_quantity := part_quantity p + ?q, part_average := a\<rparr>)
      (add_move m (w\<lparr>core := (core w)\<lparr>db_next := Suc (wnext w)\<rparr>\<rparr>))"
    by (auto simp: record_spare_part_receipt_def Let_def wfresh_def rbind_Inr flush_moves_Inr)
  have "posted w p (p\<lparr>part_quantity := part_quantity p + ?q, part_average := a\<rparr>) m w'"
    using owned_tget [OF p] d m by (simp add: posted_def w' put_part_def add_move_def tadd_def signed_quantity_def)
  then show ?thesis
    by (rule posted_keeps [OF ok]) (simp_all add: w' put_part_def add_move_def wnext_def)
qed

lemma serial_install_ok:
  assumes "install_serial_item tn serial vehicle now w = Inr (s, w')" and ok: "stock_ok w"
  shows "stock_ok w'"
proof -
  let ?post = "\<lambda>p. put_part (p\<lparr>part_quantity := part_quantity p - 1\<rparr>)
      (add_move (install_move tn serial p now (wnext w)) (w\<lparr>core := (core w)\<lparr>db_next := Suc (wnext w)\<rparr>,
         serial_items := tput ser_id s (serial_items w)\<rparr>))"
  from assms(1) obtain s0 :: serial_item and p where p: "tget part_id (ser_part s0) (parts w) = Some p"
    and w': "w' = ?post p"
    by (auto simp: install_serial_item_def Let_def wfresh_def rbind_Inr flush_moves_Inr
        split: option.splits if_splits)
  let ?m = "install_move tn serial p now (wnext w)"
  have m: "pmv_part ?m = part_id p" "\<not> pmv_in ?m" "pmv_quantity ?m = 1"
    by (simp_all add: install_move_def)
  have t: "tget part_id (part_id p) (parts w) = Some p" using p tget_key by fastforce
  have d: "has_digits 3 (part_quantity p - 1)"
    using stock_okD(5) [OF ok] tget_mem [OF p] by (intro has_digits_diff) (auto simp: part_ok_def)
  have "posted w p (p\<lparr>part_quantity := part_quantity p - 1\<rparr>) ?m w'"
    using t d m by (simp add: w' posted_def put_part_def add_move_def tadd_def signed_quantity_def)
  then show ?thesis by (rule posted_keeps [OF ok]) (simp_all add: w' put_part_def add_move_def wnext_def)
qed

lemma lines_ok_tput: "lines_ok xs \<Longrightarrow> has_digits 3 (poi_ordered x) \<Longrightarrow> has_digits 3 (poi_received x)
    \<Longrightarrow> lines_ok (tput poi_id x xs)"
  by (simp add: lines_ok_def list_all_tput)

lemma receive_line_ok:
  assumes ok: "stock_ok w" and x: "has_digits 3 (poi_ordered x)" "has_digits 3 (poi_received x)"
  shows "stock_ok (receive_line tn po now actor x w)"
proof (cases "0 < poi_ordered x - poi_received x \<and> owned part_id part_tenant tn (poi_part x) (parts w) \<noteq> None")
  case True
  then obtain p where p: "owned part_id part_tenant tn (poi_part x) (parts w) = Some p" by blast
  let ?q = "poi_ordered x - poi_received x"
  have d: "has_digits 3 (part_quantity p + ?q)"
    using part_digits [OF ok p] x by blast
  define w' where "w' = receive_line tn po now actor x w"
  let ?m = "order_receipt tn po now actor x ?q p (wnext w)"
  let ?p = "p\<lparr>part_quantity := part_quantity p + ?q, part_average := receipt_average x ?q p\<rparr>"
  have w': "w' = put_part ?p (add_move ?m (w\<lparr>core := (core w)\<lparr>db_next := Suc (wnext w)\<rparr>,
         purchase_items := tput poi_id (x\<lparr>poi_received := poi_ordered x\<rparr>) (purchase_items w)\<rparr>))"
    using True p d by (simp add: w'_def receive_line_def Let_def wfresh_def)
  have m: "pmv_part ?m = part_id p" "pmv_in ?m" "pmv_quantity ?m = ?q"
    by (simp_all add: order_receipt_def)
  have "posted w p ?p ?m w'"
    using owned_tget [OF p] d m by (simp add: posted_def w' put_part_def add_move_def tadd_def signed_quantity_def)
  moreover have "lines_ok (purchase_items w')" "wnext w \<le> wnext w'"
    using stock_okD(4) [OF ok] x by (simp_all add: w' put_part_def add_move_def wnext_def lines_ok_tput)
  ultimately show ?thesis unfolding w'_def [symmetric] by (rule posted_ok [OF ok])
next
  case False
  then show ?thesis using ok by (auto simp: receive_line_def Let_def)
qed

lemma receive_order_ok:
  assumes "receive_purchase_order tn order invoice actor now w = Inr (po, w')" and ok: "stock_ok w"
  shows "stock_ok w'"
proof -
  have fold_ok: "stock_ok (fold (receive_line tn po0 now actor) xs w)"
    if "lines_ok xs" "stock_ok w" for xs po0 w
    using that by (induction xs arbitrary: w) (auto simp: lines_ok_def receive_line_ok)
  have lines: "lines_ok (order_lines tn order w)"
    using stock_okD(4) [OF ok] by (auto simp: lines_ok_def order_lines_def list_all_iff)
  from assms(1) obtain po0 where w': "w' = fold (receive_line tn po0 now actor) (order_lines tn order w) w
      \<lparr>purchase_orders := tput po_id po (purchase_orders (fold (receive_line tn po0 now actor) (order_lines tn order w) w))\<rparr>"
    by (auto simp: receive_purchase_order_def rbind_Inr flush_moves_Inr Let_def split: if_splits)
  have "same_stock (fold (receive_line tn po0 now actor) (order_lines tn order w) w) w'"
    by (simp add: w' same_stock_def wnext_def)
  then show ?thesis using fold_ok [OF lines ok] by (rule same_stock_ok)
qed

lemma create_order_ok:
  assumes "create_purchase_order tn supplier lines invoice now w = Inr (po, w')" and ok: "stock_ok w"
  shows "stock_ok w'"
proof -
  have line: "stock_ok (snd (purchase_line tn i l (s, w)))" if "stock_ok w" for i l s w
    by (rule stock_ok_same [OF that])
      (use stock_okD(4) [OF that] in \<open>auto simp: purchase_line_def Let_def wfresh_def lines_ok_def wnext_def
        tadd_def split: prod.splits\<close>)
  have loop: "stock_ok (snd (fold (purchase_line tn i) ls sw))" if "stock_ok (snd sw)" for i ls sw
    using that
  proof (induction ls arbitrary: sw)
    case (Cons l ls)
    then show ?case using line [of "snd sw" i l "fst sw"] by simp
  qed simp
  have "stock_ok (w\<lparr>core := (core w)\<lparr>db_next := Suc (wnext w)\<rparr>\<rparr>)"
    by (rule same_stock_ok [OF same_stock_core ok]) (simp add: wnext_def)
  from loop [of "(0, w\<lparr>core := (core w)\<lparr>db_next := Suc (wnext w)\<rparr>\<rparr>)" "wnext w" lines] this
  have "stock_ok (snd (fold (purchase_line tn (wnext w)) lines (0, w\<lparr>core := (core w)\<lparr>db_next := Suc (wnext w)\<rparr>\<rparr>)))"
    by simp
  with assms(1) show ?thesis
    by (auto simp: create_purchase_order_def wfresh_def Let_def same_stock_def wnext_def
        split: if_splits prod.splits intro: same_stock_ok [rotated])
qed

lemma create_part_ok:
  assumes "create_spare_part tn c actor w = Inr (p, w')" and ok: "stock_ok w"
  shows "stock_ok w'"
proof -
  note okD = stock_okD [OF ok]
  let ?d = "(core w)\<lparr>db_next := Suc (wnext w)\<rparr>"
  from assms(1) have p: "part_id p = wnext w" "part_quantity p = 0"
    and w': "w' = waudit tn actor ''spare_part_inventory.created'' ''spare_part_inventory''
                      (Some (wnext w)) (w\<lparr>core := ?d, parts := tadd p (parts w)\<rparr>)"
    by (auto simp: create_spare_part_def wfresh_def Let_def split: if_splits)
  have no: "moves_of (wnext w) w = []"
    using okD(3) by (auto simp: moves_of_def below_def list_all_iff filter_empty_conv)
  have mv: "moves_of i w' = moves_of i w" for i by (simp add: moves_of_def w')
  have "part_ok w' p" by (simp add: part_ok_def drift_def mv p no)
  moreover have "part_ok w' q = part_ok w q" for q by (rule part_ok_cong) (simp add: w')
  ultimately show ?thesis
    using okD p keys_unique_insert [OF okD(1,2) p(1)] below_mono [OF okD(2), of "Suc (wnext w)"]
      below_mono [OF okD(3), of "Suc (wnext w)"]
    by (simp add: stock_ok_def w' wnext_def)
qed

lemma issue_maintenance_ok:
  assumes "issue_spare_part_to_work_order tn wo r actor now w = Inr (u, w')" and ok: "stock_ok w"
  shows "stock_ok w'"
proof (cases "List.find (\<lambda>u. pu_tenant u = tn \<and> pu_reference u = isq_reference r) (parts_used w)")
  case (Some x)
  with assms show ?thesis by (auto simp: issue_spare_part_to_work_order_def split: if_splits)
next
  case None
  with assms(1) obtain m u0 w2 where
    rec: "record_part_movement tn (isq_part r) ''work_order_issue'' False (isq_quantity r) (isq_reference r)
       ''maintenance_part_used'' (Some (wnext w)) (isq_at r) actor None
       (w\<lparr>core := (core w)\<lparr>db_next := Suc (wnext w)\<rparr>, parts_used := tadd u0 (parts_used w)\<rparr>) = Inr (m, w2)"
    and w': "same_stock w2 w'"
    by (auto simp: issue_spare_part_to_work_order_def rbind_Inr Let_def wfresh_def same_stock_def wnext_def
        record_audit_log_def split: if_splits)
  let ?w = "w\<lparr>core := (core w)\<lparr>db_next := Suc (wnext w)\<rparr>, parts_used := tadd u0 (parts_used w)\<rparr>"
  have "same_stock w ?w" by (simp add: same_stock_def wnext_def)
  from same_stock_ok [OF w' record_part_movement_ok [OF rec same_stock_ok [OF this ok]]] show ?thesis .
qed

section \<open>Every history of the stock\<close>

text \<open>
  The writers of parts, movements and order lines, in any order; \<open>other\<close> stands for every
  operation that leaves those three tables alone.
\<close>

inductive stock_step :: "workshop \<Rightarrow> workshop \<Rightarrow> bool" where
  step_create: "create_spare_part tn c actor w = Inr (p, w') \<Longrightarrow> stock_step w w'"
| step_record: "record_part_movement tn part ty inward q rf st so time actor cost w = Inr (m, w')
    \<Longrightarrow> stock_step w w'"
| step_maintenance: "issue_spare_part_to_work_order tn wo r actor now w = Inr (u, w') \<Longrightarrow> stock_step w w'"
| step_manual: "record_spare_part_receipt tn rq user w = Inr (m, w') \<Longrightarrow> stock_step w w'"
| step_issue: "issue_parts_for_work_order tn wo part q actor now w = Inr (m, u, w') \<Longrightarrow> stock_step w w'"
| step_return: "return_part_from_work_order tn wo part q actor now w = Inr (m, w') \<Longrightarrow> stock_step w w'"
| step_adjust: "record_inventory_adjustment tn part q inward reason actor now w = Inr (m, w') \<Longrightarrow> stock_step w w'"
| step_order: "create_purchase_order tn supplier lines invoice now w = Inr (po, w') \<Longrightarrow> stock_step w w'"
| step_receive: "receive_purchase_order tn order invoice actor now w = Inr (po, w') \<Longrightarrow> stock_step w w'"
| step_install: "install_serial_item tn serial vehicle now w = Inr (s, w') \<Longrightarrow> stock_step w w'"
| step_other: "same_stock w w' \<Longrightarrow> stock_step w w'"

lemma stock_step_ok: "stock_step w w' \<Longrightarrow> stock_ok w \<Longrightarrow> stock_ok w'"
  by (induction rule: stock_step.induct)
    (blast intro: create_part_ok record_part_movement_ok issue_maintenance_ok manual_receipt_ok issue_parts_ok
      return_part_ok adjustment_ok create_order_ok receive_order_ok serial_install_ok same_stock_ok)+

definition no_stock :: "workshop \<Rightarrow> bool" where
  "no_stock w \<longleftrightarrow> parts w = [] \<and> part_moves w = [] \<and> purchase_items w = []"

lemma no_stock_ok: "no_stock w \<Longrightarrow> stock_ok w"
  by (simp add: no_stock_def stock_ok_def lines_ok_def below_def keys_unique_def)

lemma stock_run_ok: "stock_step\<^sup>*\<^sup>* w w' \<Longrightarrow> no_stock w \<Longrightarrow> stock_ok w'"
  by (induction rule: rtranclp_induct) (auto intro: no_stock_ok stock_step_ok)

text \<open>
  C22: Starting from an empty store-room, after any sequence of receipts, issues, returns, adjustments,
  purchase orders and serial installations the balance of a part differs from the sum of its
  movements by at most half a hundredth per movement, and is that sum when every movement is a
  whole number of hundredths.
\<close>

theorem stock_balance_drift:
  assumes "stock_step\<^sup>*\<^sup>* w w'" and "no_stock w" and "p \<in> set (parts w')"
  shows "\<bar>part_quantity p - (\<Sum>m\<leftarrow>moves_of (part_id p) w'. signed_quantity m)\<bar>
      \<le> of_nat (length (moves_of (part_id p) w')) / 200
    \<and> (hundredths (part_id p) w' \<longrightarrow>
        part_quantity p = (\<Sum>m\<leftarrow>moves_of (part_id p) w'. signed_quantity m))"
  using stock_okD(5) [OF stock_run_ok [OF assms(1,2)]] assms(3) by (auto simp: part_ok_def drift_def)

text \<open>
  Ten filters received, 0.495 of one written off, one more received by the single writer: the
  balance in two digits is off by 0.005.
\<close>

definition outcome_state :: "('a \<times> workshop) res \<Rightarrow> workshop" where
  "outcome_state r = (case r of Inr (_, w) \<Rightarrow> w | Inl _ \<Rightarrow> empty_workshop)"

definition filter_created :: workshop where
  "filter_created = outcome_state (create_spare_part 1
     \<lparr>ptc_sku = ''F1'', ptc_name = ''filter'', ptc_minimum = 0\<rparr> None empty_workshop)"

definition filter_received :: workshop where
  "filter_received = outcome_state (record_part_movement 1 (wnext empty_workshop) ''receipt'' True 10 ''R1''
     ''spare_part_receipt'' None 0 None (Some 3) filter_created)"

definition filter_adjusted :: workshop where
  "filter_adjusted = outcome_state (record_inventory_adjustment 1 (wnext empty_workshop) (495 / 1000) False
     ''broken'' None 0 filter_received)"

definition filter_drifted :: workshop where
  "filter_drifted = outcome_state (record_part_movement 1 (wnext empty_workshop) ''receipt'' True 1 ''R2''
     ''spare_part_receipt'' None 0 None (Some 3) filter_adjusted)"

lemma outcome_state_Inr: "\<not> isl r \<Longrightarrow> \<exists>x. r = Inr (x, outcome_state r)"
  by (cases r) (auto simp: outcome_state_def)

lemma filter_history: "stock_step\<^sup>*\<^sup>* empty_workshop filter_drifted"
proof -
  have "\<not> isl (create_spare_part 1 \<lparr>ptc_sku = ''F1'', ptc_name = ''filter'', ptc_minimum = 0\<rparr> None empty_workshop)"
    by code_simp
  from outcome_state_Inr [OF this] have 1: "stock_step empty_workshop filter_created"
    unfolding filter_created_def by (blast intro: step_create)
  have "\<not> isl (record_part_movement 1 (wnext empty_workshop) ''receipt'' True 10 ''R1''
     ''spare_part_receipt'' None 0 None (Some 3) filter_created)"
    by code_simp
  from outcome_state_Inr [OF this] have 2: "stock_step filter_created filter_received"
    unfolding filter_received_def by (blast intro: step_record)
  have "\<not> isl (record_inventory_adjustment 1 (wnext empty_workshop) (495 / 1000) False ''broken'' None 0
     filter_received)"
    by code_simp
  from outcome_state_Inr [OF this] have 3: "stock_step filter_received filter_adjusted"
    unfolding filter_adjusted_def by (blast intro: step_adjust)
  have "\<not> isl (record_part_movement 1 (wnext empty_workshop) ''receipt'' True 1 ''R2''
     ''spare_part_receipt'' None 0 None (Some 3) filter_adjusted)"
    by code_simp
  from outcome_state_Inr [OF this] have 4: "stock_step filter_adjusted filter_drifted"
    unfolding filter_drifted_def by (blast intro: step_record)
  from 1 2 3 4 show ?thesis by (meson converse_rtranclp_into_rtranclp rtranclp.rtrancl_refl)
qed

theorem stock_balance_drift_witness:
  "\<bar>part_quantity (hd (parts filter_drifted))
      - (\<Sum>m\<leftarrow>moves_of (part_id (hd (parts filter_drifted))) filter_drifted. signed_quantity m)\<bar> \<le> 3 / 200
   \<and> part_quantity (hd (parts filter_drifted)) = 21 / 2
   \<and> (\<Sum>m\<leftarrow>moves_of (part_id (hd (parts filter_drifted))) filter_drifted. signed_quantity m) = 2101 / 200"
proof -
  have h: "no_stock empty_workshop" "hd (parts filter_drifted) \<in> set (parts filter_drifted)"
    by (simp add: no_stock_def empty_workshop_def) code_simp
  have "length (moves_of (part_id (hd (parts filter_drifted))) filter_drifted) = 3" by code_simp
  then have 1: "\<bar>part_quantity (hd (parts filter_drifted))
      - (\<Sum>m\<leftarrow>moves_of (part_id (hd (parts filter_drifted))) filter_drifted. signed_quantity m)\<bar> \<le> 3 / 200"
    using stock_balance_drift [OF filter_history h] by simp
  have 2: "part_quantity (hd (parts filter_drifted)) = 21 / 2" by code_simp
  have 3: "(\<Sum>m\<leftarrow>moves_of (part_id (hd (parts filter_drifted))) filter_drifted. signed_quantity m) = 2101 / 200"
    by code_simp
  from 1 2 3 show ?thesis by blast
qed

section \<open>An issue and its reservations\<close>

definition for_issue :: "id \<Rightarrow> id \<Rightarrow> id \<Rightarrow> reservation \<Rightarrow> bool" where
  "for_issue tenant wo part r \<longleftrightarrow> res_tenant r = tenant \<and> res_work_order r = Some wo \<and> res_part r = part"

definition reserved_total :: "id \<Rightarrow> id \<Rightarrow> id \<Rightarrow> workshop \<Rightarrow> dec" where
  "reserved_total tenant wo part w =
     (\<Sum>r\<leftarrow>reservations w. if for_issue tenant wo part r then res_quantity r else 0)"

definition consumed_total :: "id \<Rightarrow> id \<Rightarrow> id \<Rightarrow> workshop \<Rightarrow> dec" where
  "consumed_total tenant wo part w =
     (\<Sum>r\<leftarrow>reservations w. if for_issue tenant wo part r \<and> res_status r = V_consumed
       then res_quantity r else 0)"

definition open_reservation :: "reservation \<Rightarrow> bool" where
  "open_reservation r \<longleftrightarrow> res_status r \<in> {V_active, V_backorder}"

lemma open_reservations_iff:
  "open_reservations tn wo part w = filter (\<lambda>r. for_issue tn wo part r \<and> open_reservation r) (reservations w)"
  by (simp add: open_reservations_def for_issue_def open_reservation_def)

lemma sum_list_update:
  fixes f :: "'r \<Rightarrow> dec"
  assumes "keys_unique key t" and "tget key (key r) t = Some x"
  shows "sum_list (map f (tput key r t)) = sum_list (map f t) - f x + f r"
  using assms
proof (induction t)
  case (Cons y t)
  show ?case
  proof (cases "key y = key r")
    case True
    have "tput key r t = t"
      using Cons.prems(1) True by (intro tput_absent) (auto simp: keys_unique_def)
    then show ?thesis using Cons.prems(2) True by (simp add: tget_def)
  next
    case False
    then show ?thesis using Cons by (simp add: keys_unique_def tget_def)
  qed
qed simp

text \<open>What one reservation of the loop does: the claims of the loop, and its invariant.\<close>

definition reservations_ok :: "workshop \<Rightarrow> bool" where
  "reservations_ok w \<longleftrightarrow> keys_unique res_id (reservations w) \<and> below res_id (wnext w) (reservations w)"

definition consumes :: "(reservation \<Rightarrow> bool) \<Rightarrow> dec \<Rightarrow> workshop \<Rightarrow> dec \<Rightarrow> workshop \<Rightarrow> bool" where
  "consumes P left w left' w' \<longleftrightarrow> reservations_ok w' \<and> 0 \<le> left' \<and> wnext w \<le> wnext w'
     \<and> (\<Sum>r\<leftarrow>reservations w'. if P r then res_quantity r else 0)
       = (\<Sum>r\<leftarrow>reservations w. if P r then res_quantity r else 0)
     \<and> (\<Sum>r\<leftarrow>reservations w'. if P r \<and> res_status r = V_consumed then res_quantity r else 0) + left'
       = (\<Sum>r\<leftarrow>reservations w. if P r \<and> res_status r = V_consumed then res_quantity r else 0) + left"

lemma reservations_ok_tput:
  "reservations_ok w \<Longrightarrow> reservations_ok (w\<lparr>reservations := tput res_id r (reservations w)\<rparr>)"
  by (simp add: reservations_ok_def below_tput wnext_def)

lemma reservations_ok_fresh:
  "reservations_ok w \<Longrightarrow> res_id r = wnext w \<Longrightarrow>
    reservations_ok (w\<lparr>core := (core w)\<lparr>db_next := Suc (wnext w)\<rparr>, reservations := tadd r (reservations w)\<rparr>)"
  using keys_unique_insert [of res_id "reservations w" "wnext w" r]
    below_mono [of res_id "wnext w" "reservations w" "Suc (wnext w)"]
  by (simp add: reservations_ok_def) (simp add: wnext_def)

lemma consume_step_consumes:
  assumes ok: "reservations_ok w" and r: "tget res_id (res_id r) (reservations w) = Some r" and "0 \<le> left"
    and st: "res_status r \<noteq> V_consumed" and P: "P r"
    and cong: "\<forall>x. res_tenant x = res_tenant r \<and> res_work_order x = res_work_order r \<and>
      res_part x = res_part r \<longrightarrow> P x"
    and step: "consume_step r (left, w) = (left', w')"
  shows "consumes P left w left' w'" "left' = 0 \<or> left' = left - res_quantity r"
    "\<And>x. x \<in> set (reservations w') \<Longrightarrow> open_reservation x \<Longrightarrow> x \<in> set (reservations w) \<and> res_id x \<noteq> res_id r"
    "\<And>i. i \<noteq> res_id r \<Longrightarrow> i < wnext w \<Longrightarrow> tget res_id i (reservations w') = tget res_id i (reservations w)"
proof -
  note u = ok [unfolded reservations_ok_def, THEN conjunct1]
  have sum: "(\<Sum>x\<leftarrow>tput res_id r' (reservations w). f x) = (\<Sum>x\<leftarrow>reservations w. f x) - f r + f r'"
    if "res_id r' = res_id r" for f :: "reservation \<Rightarrow> dec" and r'
    by (rule sum_list_update [OF u]) (simp add: that r)
  have P': "P (r\<lparr>res_quantity := a, res_status := b\<rparr>)" "P (r\<lparr>res_status := b\<rparr>)"
    "P (r\<lparr>res_id := i, res_quantity := a, res_status := b\<rparr>)" for a b i
    using cong by simp_all
  consider (zero) "left = 0" "left' = 0" "w' = w\<lparr>reservations := tput res_id (r\<lparr>res_status := V_released\<rparr>) (reservations w)\<rparr>"
    | (all) "res_quantity r \<le> left" "left' = left - res_quantity r"
        "w' = w\<lparr>reservations := tput res_id (r\<lparr>res_status := V_consumed\<rparr>) (reservations w)\<rparr>"
    | (some) "left < res_quantity r" "left' = 0"
        "w' = w\<lparr>core := (core w)\<lparr>db_next := Suc (wnext w)\<rparr>,
           reservations := tadd (r\<lparr>res_id := wnext w, res_quantity := res_quantity r - left, res_status := V_released\<rparr>)
             (tput res_id (r\<lparr>res_quantity := left, res_status := V_consumed\<rparr>) (reservations w))\<rparr>"
    using step \<open>0 \<le> left\<close> by (auto simp: consume_step_def Let_def wfresh_def wnext_def split: if_splits)
  note cases = this
  show "left' = 0 \<or> left' = left - res_quantity r" by (cases rule: cases) auto
  show "x \<in> set (reservations w) \<and> res_id x \<noteq> res_id r" if "x \<in> set (reservations w')" "open_reservation x" for x
    using that by (cases rule: cases) (auto simp: open_reservation_def set_tput split: if_splits)
  show "tget res_id i (reservations w') = tget res_id i (reservations w)" if "i \<noteq> res_id r" "i < wnext w" for i
    using that by (cases rule: cases) (auto simp: tget_tput tget_tadd split: option.splits)
  show "consumes P left w left' w'"
  proof (cases rule: cases)
    case zero
    then show ?thesis
      using reservations_ok_tput [OF ok] P P' st by (simp add: consumes_def sum wnext_def)
  next
    case all
    then show ?thesis
      using reservations_ok_tput [OF ok] P P' st by (simp add: consumes_def sum wnext_def)
  next
    case some
    let ?w = "w\<lparr>reservations := tput res_id (r\<lparr>res_quantity := left, res_status := V_consumed\<rparr>) (reservations w)\<rparr>"
    have "reservations_ok w'"
      using reservations_ok_fresh [OF reservations_ok_tput [OF ok],
          of "r\<lparr>res_id := wnext w, res_quantity := res_quantity r - left, res_status := V_released\<rparr>"
            "r\<lparr>res_quantity := left, res_status := V_consumed\<rparr>"]
      by (simp add: some wnext_def)
    with some show ?thesis
      using P P' st \<open>0 \<le> left\<close> by (simp add: consumes_def sum wnext_def tadd_def)
  qed
qed

lemma consumes_trans: "consumes P l u l1 v \<Longrightarrow> consumes P l1 v l2 w \<Longrightarrow> consumes P l u l2 w"
  by (simp add: consumes_def)

lemma consume_step_zero: "fst (consume_step r (0, w)) = 0"
  by (simp add: consume_step_def Let_def)

lemma consume_loop:
  assumes "reservations_ok w" and "distinct (map res_id rs)" and "0 \<le> left"
    and "\<And>r. r \<in> set rs \<Longrightarrow> r \<in> set (reservations w) \<and> for_issue tn wo part r \<and> open_reservation r"
    and "fold consume_step rs (left, w) = (left', w')"
  shows "consumes (for_issue tn wo part) left w left' w'"
    and "left' = 0 \<or> left' = left - (\<Sum>r\<leftarrow>rs. res_quantity r)"
    and "\<And>x. x \<in> set (reservations w') \<Longrightarrow> open_reservation x \<Longrightarrow>
      x \<in> set (reservations w) \<and> res_id x \<notin> res_id ` set rs"
proof -
  have "consumes (for_issue tn wo part) left w left' w'
    \<and> (left' = 0 \<or> left \<noteq> 0 \<and> left' = left - (\<Sum>r\<leftarrow>rs. res_quantity r))
    \<and> (\<forall>x\<in>set (reservations w'). open_reservation x \<longrightarrow> x \<in> set (reservations w) \<and> res_id x \<notin> res_id ` set rs)"
    using assms
  proof (induction rs arbitrary: left w)
    case Nil
    then show ?case by (auto simp: consumes_def)
  next
    case (Cons r rs)
    obtain l1 w1 where step: "consume_step r (left, w) = (l1, w1)" by fastforce
    have r: "r \<in> set (reservations w)" "for_issue tn wo part r" "open_reservation r"
      using Cons.prems(4) [of r] by simp_all
    have uniq: "keys_unique res_id (reservations w)" and bel: "below res_id (wnext w) (reservations w)"
      using Cons.prems(1) by (simp_all add: reservations_ok_def)
    have cong: "\<forall>x. res_tenant x = res_tenant r \<and> res_work_order x = res_work_order r \<and>
        res_part x = res_part r \<longrightarrow> for_issue tn wo part x"
      using r(2) by (simp add: for_issue_def)
    have st: "res_status r \<noteq> V_consumed" using r(3) by (auto simp: open_reservation_def)
    note one = consume_step_consumes [where P = "for_issue tn wo part", OF Cons.prems(1) keys_unique_get [OF uniq r(1)] Cons.prems(3) st r(2) cong step]
    have rest: "x \<in> set (reservations w1) \<and> for_issue tn wo part x \<and> open_reservation x" if "x \<in> set rs" for x
    proof -
      have x: "x \<in> set (reservations w)" "for_issue tn wo part x" "open_reservation x"
        using Cons.prems(4) [of x] that by simp_all
      have "res_id r \<notin> res_id ` set rs" using Cons.prems(2) by simp
      have ne: "res_id x \<noteq> res_id r"
      proof
        assume "res_id x = res_id r"
        with imageI [OF that, of res_id] \<open>res_id r \<notin> res_id ` set rs\<close> show False by simp
      qed
      have "res_id x < wnext w" using bel x(1) by (auto simp: below_def list_all_iff)
      from trans [OF one(4) [OF ne this] keys_unique_get [OF uniq x(1)]]
      have "tget res_id (res_id x) (reservations w1) = Some x" .
      then have "x \<in> set (reservations w1)" by (rule tget_mem)
      with x(2,3) show ?thesis by blast
    qed
    have l1: "0 \<le> l1" "reservations_ok w1" using one(1) by (simp_all add: consumes_def)
    have fold: "fold consume_step rs (l1, w1) = (left', w')" using Cons.prems(5) step by simp
    have d: "distinct (map res_id rs)" using Cons.prems(2) by simp
    note ih = Cons.IH [OF l1(2) d l1(1) rest fold]
    have "left' = 0 \<or> left \<noteq> 0 \<and> left' = left - (\<Sum>r\<leftarrow>r # rs. res_quantity r)"
      using ih one(2) consume_step_zero [of r w] step by auto
    moreover have "\<forall>x\<in>set (reservations w'). open_reservation x \<longrightarrow>
        x \<in> set (reservations w) \<and> res_id x \<notin> res_id ` set (r # rs)"
      using ih one(3) by auto
    ultimately show ?case using consumes_trans [OF one(1)] ih by blast
  qed
  then show "consumes (for_issue tn wo part) left w left' w'"
    "left' = 0 \<or> left' = left - (\<Sum>r\<leftarrow>rs. res_quantity r)"
    "\<And>x. x \<in> set (reservations w') \<Longrightarrow> open_reservation x \<Longrightarrow>
      x \<in> set (reservations w) \<and> res_id x \<notin> res_id ` set rs"
    by blast+
qed

text \<open>The loop over exactly the open reservations of an issue that they cover.\<close>

lemma consume_reservations_effect:
  assumes ok: "reservations_ok w" and q: "0 < q" "q \<le> (\<Sum>r\<leftarrow>open_reservations tn wo part w. res_quantity r)"
    and w': "w' = consume_reservations q (open_reservations tn wo part w) w"
  shows "reserved_total tn wo part w' = reserved_total tn wo part w"
    and "consumed_total tn wo part w' = consumed_total tn wo part w + q"
    and "open_reservations tn wo part w' = []"
    and "reservations_ok w'"
proof -
  let ?rs = "open_reservations tn wo part w"
  obtain l where loop: "fold consume_step ?rs (q, w) = (l, w')"
    using w' by (metis consume_reservations_def prod.collapse)
  have d: "distinct (map res_id ?rs)"
    using ok by (simp add: reservations_ok_def keys_unique_def open_reservations_def distinct_map_filter)
  have mem: "r \<in> set (reservations w) \<and> for_issue tn wo part r \<and> open_reservation r" if "r \<in> set ?rs" for r
    using that by (auto simp: open_reservations_iff)
  note lp = consume_loop [OF ok d less_imp_le [OF q(1)] mem loop]
  have "l = 0" using lp(1,2) q by (auto simp: consumes_def)
  then show "reserved_total tn wo part w' = reserved_total tn wo part w"
    "consumed_total tn wo part w' = consumed_total tn wo part w + q" "reservations_ok w'"
    using lp(1) by (simp_all add: consumes_def reserved_total_def consumed_total_def)
  show "open_reservations tn wo part w' = []"
    using lp(3) by (auto simp: open_reservations_iff filter_empty_conv)
qed

text \<open>
  C23: A successful issue takes exactly its quantity, rounded to three digits, out of the part's
  balance and out of the work order's reservations: what is reserved for the order in all its
  statuses is unchanged, what is consumed grows by the quantity, and no reservation of the order
  for this part stays open.
\<close>

theorem issue_consumes_reservations:
  assumes "issue_parts_for_work_order tn wo part quantity actor now w = Inr (m, u, w')"
    and "stock_ok w" and "reservations_ok w"
    and "owned part_id part_tenant tn part (parts w) = Some p"
  shows "map_option part_quantity (owned part_id part_tenant tn part (parts w')) = Some (part_quantity p - q3 quantity)
    \<and> 0 \<le> part_quantity p - q3 quantity
    \<and> reserved_total tn wo part w' = reserved_total tn wo part w
    \<and> consumed_total tn wo part w' = consumed_total tn wo part w + q3 quantity
    \<and> open_reservations tn wo part w' = []"
proof -
  let ?c = "consume_reservations (q3 quantity) (open_reservations tn wo part w) w"
  from assms(1,4) obtain w1 where q: "0 < q3 quantity" "q3 quantity \<le> part_quantity p"
      "q3 quantity \<le> (\<Sum>r\<leftarrow>open_reservations tn wo part w. res_quantity r)"
    and mv: "stock_move tn p ''consumption'' False (q3 quantity) (timed_reference ''ISSUE-WO-'' wo now)
       ''work_order'' (Some wo) now actor ?c = (m, w1)"
    and w': "parts w' = parts w1" "reservations w' = reservations w1"
    by (auto simp: issue_parts_for_work_order_def rbind_Inr of_opt_Inr flush_moves_Inr Let_def wfresh_def
        split: if_splits prod.splits)
  note eff = consume_reservations_effect [OF assms(3) q(1,3) refl]
  have c: "owned part_id part_tenant tn part (parts ?c) = Some p"
    using consume_reservations_same assms(4) by (simp add: same_stock_def)
  note mvp = stock_move_posted [OF mv owned_tget [OF c] quantize_digits part_digits [OF assms(2,4)]]
  have res: "reservations w' = reservations ?c" using mvp(4) w'(2) by simp
  from mv have "parts w1 = tput part_id (p\<lparr>part_quantity := q3 (part_quantity p - q3 quantity)\<rparr>) (parts ?c)"
    by (auto simp: stock_move_def Let_def wfresh_def put_part_def add_move_def)
  moreover have "q3 (part_quantity p - q3 quantity) = part_quantity p - q3 quantity"
    using has_digits_diff [OF part_digits [OF assms(2,4)] quantize_digits [of 3 quantity]] by simp
  ultimately have "map_option part_quantity (owned part_id part_tenant tn part (parts w'))
      = Some (part_quantity p - q3 quantity)"
    using c w'(1) by (auto simp: owned_def tget_tput dest: tget_key split: option.splits if_splits)
  with eff q(2) show ?thesis
    by (simp add: reserved_total_def consumed_total_def open_reservations_def res)
qed

text \<open>A work order with three filters reserved and two on back-order, of which four are issued.\<close>

definition open_order :: work_order where
  "open_order = \<lparr>wo_id = 3, wo_tenant = 1, wo_vehicle = None, wo_status = ''in_progress'',
     wo_number = ''WO-3'', wo_request = None, wo_plan = None, wo_estimated = None, wo_actual = None,
     wo_labor = 0, wo_approved_by = None, wo_approved_at = None, wo_closed_by = None,
     wo_closed_at = None, wo_close_notes = None, wo_reception = None, wo_origin = ''direct'', wo_created = 0\<rparr>"

definition ten_filters :: part where
  "ten_filters = \<lparr>part_id = 1, part_tenant = 1, part_sku = ''F1'', part_name = ''filter'',
     part_quantity = 10, part_minimum = 0, part_average = 3, part_status = ''active'',
     part_category = None, part_reorder = None\<rparr>"

definition reserved_workshop :: workshop where
  "reserved_workshop = empty_workshop\<lparr>core := empty_db\<lparr>db_next := 6, work_orders := [open_order]\<rparr>,
     parts := [ten_filters],
     part_moves := [\<lparr>pmv_id = 2, pmv_tenant = 1, pmv_part = 1, pmv_type = ''receipt'', pmv_in = True,
       pmv_quantity = 10, pmv_balance = 10, pmv_unit_cost = Some 3, pmv_total = Some 30,
       pmv_reference = ''R1'', pmv_source_type = ''spare_part_receipt'', pmv_source = None,
       pmv_at = 0, pmv_by = None\<rparr>],
     reservations :=
       [\<lparr>res_id = 4, res_tenant = 1, res_part = 1, res_quote = None, res_work_order = Some 3,
          res_quantity = 3, res_status = V_active\<rparr>,
        \<lparr>res_id = 5, res_tenant = 1, res_part = 1, res_quote = None, res_work_order = Some 3,
          res_quantity = 2, res_status = V_backorder\<rparr>]\<rparr>"

definition four_issued :: "(part_move \<times> part_used \<times> workshop) res" where
  "four_issued = issue_parts_for_work_order 1 3 1 4 None 0 reserved_workshop"

theorem issue_consumes_reservations_witness:
  "consumed_total 1 3 1 (snd (snd (projr four_issued))) = 4
   \<and> reserved_total 1 3 1 (snd (snd (projr four_issued))) = 5
   \<and> map_option part_quantity (owned part_id part_tenant 1 1 (parts (snd (snd (projr four_issued))))) = Some 6
   \<and> open_reservations 1 3 1 (snd (snd (projr four_issued))) = []"
proof -
  have "\<not> isl four_issued" by code_simp
  then have "four_issued = Inr (fst (projr four_issued), fst (snd (projr four_issued)), snd (snd (projr four_issued)))"
    by (simp add: sum.collapse)
  from trans [OF four_issued_def [symmetric] this]
  have "issue_parts_for_work_order 1 3 1 4 None 0 reserved_workshop
      = Inr (fst (projr four_issued), fst (snd (projr four_issued)), snd (snd (projr four_issued)))" .
  moreover have "stock_ok reserved_workshop" by code_simp
  moreover have "reservations_ok reserved_workshop" by code_simp
  moreover have "owned part_id part_tenant 1 1 (parts reserved_workshop) = Some ten_filters" by code_simp
  ultimately have "map_option part_quantity (owned part_id part_tenant 1 1 (parts (snd (snd (projr four_issued)))))
      = Some (part_quantity ten_filters - q3 4)
    \<and> 0 \<le> part_quantity ten_filters - q3 4
    \<and> reserved_total 1 3 1 (snd (snd (projr four_issued))) = reserved_total 1 3 1 reserved_workshop
    \<and> consumed_total 1 3 1 (snd (snd (projr four_issued))) = consumed_total 1 3 1 reserved_workshop + q3 4
    \<and> open_reservations 1 3 1 (snd (snd (projr four_issued))) = []"
    by (rule issue_consumes_reservations)
  moreover have "q3 4 = 4" "reserved_total 1 3 1 reserved_workshop = 5" "consumed_total 1 3 1 reserved_workshop = 0"
      "part_quantity ten_filters = 10"
    by code_simp+
  ultimately show ?thesis by simp
qed

section \<open>An order of two parts cannot be received\<close>

definition receivable :: "id \<Rightarrow> workshop \<Rightarrow> purchase_item \<Rightarrow> bool" where
  "receivable tenant w x \<longleftrightarrow> poi_received x < poi_ordered x
     \<and> owned part_id part_tenant tenant (poi_part x) (parts w) \<noteq> None"

lemma receive_line_owned:
  "owned part_id part_tenant tn i (parts (receive_line tn po now actor x w)) = None
    \<longleftrightarrow> owned part_id part_tenant tn i (parts w) = None"
proof (cases "0 < poi_ordered x - poi_received x \<and> owned part_id part_tenant tn (poi_part x) (parts w) \<noteq> None")
  case True
  then obtain p where p: "owned part_id part_tenant tn (poi_part x) (parts w) = Some p" by blast
  then have key: "part_id p = poi_part x" by (rule owned_key)
  show ?thesis
    using True p by (simp add: receive_line_def Let_def wfresh_def put_part_def add_move_def owned_def tget_tput key
        split: option.splits if_splits)
next
  case False
  then show ?thesis by (auto simp: receive_line_def Let_def)
qed

lemma receive_line_moves:
  assumes "moves_of_reference = (\<lambda>w. length (filter (\<lambda>m. pmv_tenant m = tn
      \<and> pmv_reference m = ''PO-REC-'' @ po_number po) (part_moves w)))"
  shows "moves_of_reference (receive_line tn po now actor x w)
    = moves_of_reference w + (if receivable tn w x then 1 else 0)"
  by (auto simp: assms receive_line_def receivable_def Let_def wfresh_def put_part_def add_move_def
      order_receipt_def not_less)

lemma receive_lines_moves:
  "length (filter (\<lambda>m. pmv_tenant m = tn \<and> pmv_reference m = ''PO-REC-'' @ po_number po)
      (part_moves (fold (receive_line tn po now actor) xs w)))
    = length (filter (\<lambda>m. pmv_tenant m = tn \<and> pmv_reference m = ''PO-REC-'' @ po_number po) (part_moves w))
      + length (filter (receivable tn w) xs)"
proof (induction xs arbitrary: w)
  case (Cons x xs)
  have "receivable tn (receive_line tn po now actor x w) = receivable tn w"
    by (auto simp: receivable_def receive_line_owned fun_eq_iff)
  then show ?case using Cons.IH [of "receive_line tn po now actor x w"] receive_line_moves [OF refl, of tn po now actor x w]
    by simp
qed simp

lemma distinct_constant: "distinct xs \<Longrightarrow> \<forall>x\<in>set xs. x = c \<Longrightarrow> length xs \<le> 1"
  by (cases xs; cases "tl xs") auto

text \<open>
  C24: Every line of a purchase order is received under the same movement reference, which a unique
  constraint allows once: an order with two lines still to receive can never be received, its
  request ends in the database's error.
\<close>

theorem two_line_order_never_received:
  assumes "owned po_id po_tenant tn order (purchase_orders w) = Some po"
    and "po_status po \<notin> {''received'', ''cancelled''}"
    and "2 \<le> length (filter (receivable tn w) (order_lines tn order w))"
  shows "receive_purchase_order tn order invoice actor now w = Inl (PyError ''IntegrityError'')"
proof -
  let ?f = "\<lambda>m. (pmv_tenant m, pmv_reference m)"
  let ?ms = "part_moves (fold (receive_line tn po now actor) (order_lines tn order w) w)"
  let ?ref = "(tn, ''PO-REC-'' @ po_number po)"
  have "2 \<le> length (filter (\<lambda>m. ?f m = ?ref) ?ms)"
    using assms(3) receive_lines_moves [of tn po now actor "order_lines tn order w" w] by simp
  moreover have "length (filter (\<lambda>m. ?f m = ?ref) ?ms) \<le> 1" if "distinct (map ?f ?ms)"
    using distinct_constant [OF distinct_map_filter [OF that], of "\<lambda>m. ?f m = ?ref" ?ref] by auto
  ultimately have "\<not> moves_unique ?ms" by (auto simp: moves_unique_def)
  then show ?thesis
    using assms(1,2) by (simp add: receive_purchase_order_def of_opt_def flush_moves_def Let_def)
qed

text \<open>An order of two filters at one price and two at another.\<close>

definition filter_line :: "id \<Rightarrow> dec \<Rightarrow> purchase_item" where
  "filter_line i price = \<lparr>poi_id = i, poi_tenant = 1, poi_order = 6, poi_part = 1, poi_ordered = 2,
     poi_received = 0, poi_price = price, poi_total = 2 * price\<rparr>"

definition ordered_workshop :: workshop where
  "ordered_workshop = reserved_workshop\<lparr>
     purchase_orders := [\<lparr>po_id = 6, po_tenant = 1, po_supplier = 9, po_number = ''PO-2026-0101000000'',
       po_status = ''ordered'', po_total = 14, po_invoice = None\<rparr>],
     purchase_items := [filter_line 7 3, filter_line 8 4]\<rparr>"

theorem two_line_order_never_received_witness:
  "receive_purchase_order 1 (po_id (hd (purchase_orders ordered_workshop))) None None 86400000000 ordered_workshop
    = Inl (PyError ''IntegrityError'')"
proof -
  have "owned po_id po_tenant 1 (po_id (hd (purchase_orders ordered_workshop))) (purchase_orders ordered_workshop)
      = Some (hd (purchase_orders ordered_workshop))"
    by code_simp
  moreover have "po_status (hd (purchase_orders ordered_workshop)) \<notin> {''received'', ''cancelled''}" by code_simp
  moreover have "2 \<le> length (filter (receivable 1 ordered_workshop)
      (order_lines 1 (po_id (hd (purchase_orders ordered_workshop))) ordered_workshop))"
    by code_simp
  ultimately show ?thesis by (rule two_line_order_never_received)
qed

end
