(* ===== verification/Workshop_Orders.thy ===== *)
theory Workshop_Orders
  imports Workshop_Rows
begin

text \<open>
  Maintenance requests, work orders up to the quality check, their tasks, the tools and the hours
  of the mechanics (\<^verbatim>\<open>workshop/service.py\<close>, \<^verbatim>\<open>workshop/labor_service.py\<close>). Closing and
  cancelling an order involve its invoice and its stock, and are in \<^verbatim>\<open>Workshop_Billing\<close>.
\<close>

section \<open>Maintenance requests\<close>

definition request_types :: "string list" where
  "request_types = [''corrective'', ''preventive'', ''inspection'', ''breakdown'']"

definition priorities :: "string list" where
  "priorities = [''low'', ''normal'', ''high'', ''urgent'']"

record request_create =
  rqc_vehicle :: id
  rqc_trip :: "id option"
  rqc_incident :: "id option"
  rqc_type :: string
  rqc_priority :: string
  rqc_description :: string

definition require_maintenance_request :: "id \<Rightarrow> id \<Rightarrow> workshop \<Rightarrow> maint_request res" where
  "require_maintenance_request tenant i w =
     of_opt (ApiError ''maintenance_request_not_found'' 404)
       (owned mr_id mr_tenant tenant i (maint_requests (core w)))"

definition trip_of_vehicle :: "id \<Rightarrow> request_create \<Rightarrow> db \<Rightarrow> bool" where
  "trip_of_vehicle tenant p d \<longleftrightarrow> (case rqc_trip p of
     None \<Rightarrow> True
   | Some t \<Rightarrow> (case owned trip_id trip_tenant tenant t (trips d) of
       None \<Rightarrow> False | Some x \<Rightarrow> trip_vehicle x = rqc_vehicle p))"

definition incident_of_vehicle :: "id \<Rightarrow> request_create \<Rightarrow> db \<Rightarrow> bool" where
  "incident_of_vehicle tenant p d \<longleftrightarrow> (case rqc_incident p of
     None \<Rightarrow> True
   | Some i \<Rightarrow> (case owned inc_id inc_tenant tenant i (incidents d) of
       None \<Rightarrow> False
     | Some x \<Rightarrow> inc_vehicle x = Some (rqc_vehicle p)
         \<and> (case rqc_trip p of None \<Rightarrow> True | Some t \<Rightarrow> inc_trip x = t)))"

definition validate_trip_and_incident :: "id \<Rightarrow> request_create \<Rightarrow> workshop \<Rightarrow> unit res" where
  "validate_trip_and_incident tenant p w =
     (if \<not> trip_of_vehicle tenant p (core w) then Inl (ApiError ''trip_not_found'' 404)
      else if \<not> incident_of_vehicle tenant p (core w) then Inl (ApiError ''trip_incident_not_found'' 404)
      else Inr ())"

definition create_maintenance_request ::
  "id \<Rightarrow> request_create \<Rightarrow> id option \<Rightarrow> workshop \<Rightarrow> (maint_request \<times> workshop) res" where
  "create_maintenance_request tenant p actor w =
     (if rqc_type p \<notin> set request_types then Inl (ApiError ''invalid_maintenance_request_type'' 422)
      else if rqc_priority p \<notin> set priorities then Inl (ApiError ''invalid_maintenance_priority'' 422)
      else rbind (require_wvehicle tenant (rqc_vehicle p) w) (\<lambda>_.
           rbind (validate_trip_and_incident tenant p w) (\<lambda>_.
             let (i, w1) = wfresh w;
                 m = \<lparr>mr_id = i, mr_tenant = tenant, mr_vehicle = rqc_vehicle p, mr_trip = rqc_trip p,
                   mr_incident = rqc_incident p, mr_type = rqc_type p, mr_priority = rqc_priority p,
                   mr_description = rqc_description p, mr_status = ''open'', mr_requested_by = actor\<rparr>
             in Inr (m, waudit tenant actor ''maintenance_request.created'' ''maintenance_request'' (Some i)
                  (w1\<lparr>core := (core w1)\<lparr>maint_requests := tadd m (maint_requests (core w1))\<rparr>\<rparr>)))))"

text \<open>
  The note and the status of a request are written after a call of the audit service with
  positional arguments, which its signature does not allow: neither is ever stored.
\<close>

definition add_maintenance_request_note :: "id \<Rightarrow> id \<Rightarrow> string \<Rightarrow> workshop \<Rightarrow> (maint_request \<times> workshop) res" where
  "add_maintenance_request_note tenant i body w =
     rbind (require_maintenance_request tenant i w) (\<lambda>_. Inl (PyError ''TypeError''))"

definition update_maintenance_request_status ::
  "id \<Rightarrow> id \<Rightarrow> string \<Rightarrow> workshop \<Rightarrow> (maint_request \<times> workshop) res" where
  "update_maintenance_request_status tenant i st w =
     rbind (require_maintenance_request tenant i w) (\<lambda>_. Inl (PyError ''TypeError''))"

definition list_maintenance_requests ::
  "id \<Rightarrow> string option \<Rightarrow> id option \<Rightarrow> nat \<Rightarrow> workshop \<Rightarrow> maint_request list" where
  "list_maintenance_requests tenant st vehicle limit w =
     take limit (rev (filter (\<lambda>m. mr_tenant m = tenant \<and> (\<not> truthy st \<or> Some (mr_status m) = st)
       \<and> (vehicle = None \<or> vehicle = Some (mr_vehicle m))) (maint_requests (core w))))"

section \<open>Work orders\<close>

record order_input =
  woc_request :: "id option"
  woc_vehicle :: "id option"
  woc_estimated :: "dec option"

text \<open>A new row with the defaults of its columns.\<close>

definition new_order :: "id \<Rightarrow> id \<Rightarrow> id option \<Rightarrow> string \<Rightarrow> timestamp \<Rightarrow> work_order" where
  "new_order i tenant vehicle number now =
     \<lparr>wo_id = i, wo_tenant = tenant, wo_vehicle = vehicle, wo_status = ''draft'', wo_number = number,
      wo_request = None, wo_plan = None, wo_estimated = None, wo_actual = None, wo_labor = 0,
      wo_approved_by = None, wo_approved_at = None, wo_closed_by = None, wo_closed_at = None,
      wo_close_notes = None, wo_reception = None, wo_origin = ''direct'', wo_created = now\<rparr>"

definition add_order :: "work_order \<Rightarrow> workshop \<Rightarrow> workshop" where
  "add_order x w = w\<lparr>core := (core w)\<lparr>work_orders := tadd x (work_orders (core w))\<rparr>\<rparr>"

text \<open>\<^verbatim>\<open>UniqueConstraint("tenant_id", "work_order_number")\<close>, checked at the flush.\<close>

definition flush_orders :: "workshop \<Rightarrow> workshop res" where
  "flush_orders w = (if distinct (map (\<lambda>x. (wo_tenant x, wo_number x)) (work_orders (core w)))
     then Inr w else Inl (PyError ''IntegrityError''))"

definition order_request :: "id \<Rightarrow> order_input \<Rightarrow> workshop \<Rightarrow> maint_request option res" where
  "order_request tenant p w =
     (case woc_request p of
        None \<Rightarrow> Inr None
      | Some i \<Rightarrow> rbind (require_maintenance_request tenant i w) (\<lambda>m.
          if Some (mr_vehicle m) \<noteq> woc_vehicle p
          then Inl (ApiError ''maintenance_request_vehicle_mismatch'' 409)
          else if mr_status m \<notin> {''open'', ''triaged''}
          then Inl (ApiError ''invalid_maintenance_request_status'' 409)
          else Inr (Some m)))"

definition convert_request :: "maint_request option \<Rightarrow> workshop \<Rightarrow> workshop" where
  "convert_request r w = (case r of
     None \<Rightarrow> w
   | Some m \<Rightarrow> w\<lparr>core := (core w)\<lparr>maint_requests :=
       tput mr_id (m\<lparr>mr_status := ''converted''\<rparr>) (maint_requests (core w))\<rparr>\<rparr>)"

text \<open>The number is twelve random hexadecimal digits, here the digits of the identifier.\<close>

definition create_work_order ::
  "id \<Rightarrow> order_input \<Rightarrow> id option \<Rightarrow> timestamp \<Rightarrow> workshop \<Rightarrow> (work_order \<times> workshop) res" where
  "create_work_order tenant p actor now w =
     (case woc_vehicle p of
        None \<Rightarrow> Inl (ApiError ''vehicle_not_found'' 404)
      | Some v \<Rightarrow>
          rbind (require_wvehicle tenant v w) (\<lambda>_.
          rbind (order_request tenant p w) (\<lambda>r.
            let (i, w1) = wfresh w;
                x = (new_order i tenant (Some v) (''WO-'' @ show_nat i) now)
                      \<lparr>wo_request := woc_request p, wo_estimated := map_option (column 2) (woc_estimated p)\<rparr>
            in Inr (x, waudit tenant actor ''work_order.created'' ''work_order'' (Some i)
                 (convert_request r (add_order x w1))))))"

definition approve_work_order ::
  "id \<Rightarrow> id \<Rightarrow> id option \<Rightarrow> timestamp \<Rightarrow> workshop \<Rightarrow> (work_order \<times> workshop) res" where
  "approve_work_order tenant i actor now w =
     rbind (require_wo tenant i w) (\<lambda>x.
     if wo_status x = ''approved'' then Inr (x, w)
     else if wo_status x \<noteq> ''draft'' then Inl (ApiError ''invalid_work_order_status'' 409)
     else
       (let x' = x\<lparr>wo_status := ''approved'', wo_approved_by := actor, wo_approved_at := Some now\<rparr>
        in Inr (x', waudit tenant actor ''work_order.approved'' ''work_order'' (Some i) (put_wo x' w))))"

definition transition_work_order ::
  "id \<Rightarrow> id \<Rightarrow> string \<Rightarrow> string \<Rightarrow> string \<Rightarrow> id option \<Rightarrow> workshop \<Rightarrow> (work_order \<times> workshop) res" where
  "transition_work_order tenant i expected next action actor w =
     rbind (require_wo tenant i w) (\<lambda>x.
     if wo_status x = next then Inr (x, w)
     else if wo_status x \<noteq> expected then Inl (ApiError ''invalid_work_order_status'' 409)
     else
       (let x' = x\<lparr>wo_status := next\<rparr>
        in Inr (x', waudit tenant actor action ''work_order'' (Some i) (put_wo x' w))))"

definition start_work_order :: "id \<Rightarrow> id \<Rightarrow> id option \<Rightarrow> workshop \<Rightarrow> (work_order \<times> workshop) res" where
  "start_work_order tenant i actor w =
     transition_work_order tenant i ''approved'' ''in_progress'' ''work_order.started'' actor w"

definition pending_task :: "id \<Rightarrow> id \<Rightarrow> workshop \<Rightarrow> bool" where
  "pending_task tenant i w \<longleftrightarrow> list_ex (\<lambda>t. task_tenant t = tenant \<and> task_work_order t = i
     \<and> task_status t = ''pending'') (work_tasks w)"

definition active_checkout :: "id \<Rightarrow> id \<Rightarrow> workshop \<Rightarrow> bool" where
  "active_checkout tenant i w \<longleftrightarrow> list_ex (\<lambda>c. chk_tenant c = tenant \<and> chk_work_order c = i
     \<and> chk_status c = ''checked_out'') (checkouts w)"

definition send_work_order_to_quality_check ::
  "id \<Rightarrow> id \<Rightarrow> id option \<Rightarrow> workshop \<Rightarrow> (work_order \<times> workshop) res" where
  "send_work_order_to_quality_check tenant i actor w =
     (if pending_task tenant i w then Inl (ApiError ''work_order_tasks_pending'' 409)
      else if active_checkout tenant i w then Inl (ApiError ''work_order_tools_checked_out'' 409)
      else transition_work_order tenant i ''in_progress'' ''quality_check''
             ''work_order.quality_check_requested'' actor w)"

definition list_work_orders ::
  "id \<Rightarrow> string option \<Rightarrow> id option \<Rightarrow> nat \<Rightarrow> workshop \<Rightarrow> work_order list" where
  "list_work_orders tenant st vehicle limit w =
     take limit (rev (filter (\<lambda>x. wo_tenant x = tenant \<and> (\<not> truthy st \<or> Some (wo_status x) = st)
       \<and> (vehicle = None \<or> vehicle = wo_vehicle x)) (work_orders (core w))))"

section \<open>Tasks\<close>

definition new_task :: "id \<Rightarrow> id \<Rightarrow> id \<Rightarrow> string \<Rightarrow> work_task" where
  "new_task i tenant wo description =
     \<lparr>task_id = i, task_tenant = tenant, task_work_order = wo, task_description = description,
      task_status = ''pending'', task_completed_by = None, task_completed_at = None,
      task_assigned_to = None, task_estimated = None, task_actual = None\<rparr>"

definition add_task :: "id \<Rightarrow> id \<Rightarrow> string \<Rightarrow> workshop \<Rightarrow> work_task \<times> workshop" where
  "add_task tenant wo description w =
     (let (i, w1) = wfresh w; t = new_task i tenant wo description
      in (t, w1\<lparr>work_tasks := tadd t (work_tasks w1)\<rparr>))"

definition put_task :: "work_task \<Rightarrow> workshop \<Rightarrow> workshop" where
  "put_task t w = w\<lparr>work_tasks := tput task_id t (work_tasks w)\<rparr>"

definition create_work_order_task ::
  "id \<Rightarrow> id \<Rightarrow> string \<Rightarrow> id option \<Rightarrow> workshop \<Rightarrow> (work_task \<times> workshop) res" where
  "create_work_order_task tenant wo description actor w =
     rbind (require_wo tenant wo w) (\<lambda>x.
     if wo_status x \<notin> {''draft'', ''approved'', ''in_progress''}
     then Inl (ApiError ''invalid_work_order_status'' 409)
     else
       (let (t, w1) = add_task tenant wo description w
        in Inr (t, waudit tenant actor ''work_order_task.created'' ''work_order_task'' (Some (task_id t)) w1)))"

text \<open>The rate of a mechanic in force on a day, the latest one that has begun.\<close>

definition active_rate :: "id \<Rightarrow> id \<Rightarrow> day \<Rightarrow> workshop \<Rightarrow> staff_rate option" where
  "active_rate tenant user d w = newest rate_from (filter (\<lambda>r. rate_tenant r = tenant \<and> rate_user r = user
     \<and> rate_from r \<le> d) (staff_rates w))"

definition labor_amount :: "nat \<Rightarrow> dec \<Rightarrow> dec" where
  "labor_amount minutes rate = q2 (dec_mul (dec_div (of_nat minutes) 60) rate)"

definition task_done :: "work_task \<Rightarrow> nat option \<Rightarrow> id option \<Rightarrow> timestamp \<Rightarrow> work_task" where
  "task_done t minutes actor now =
     t\<lparr>task_status := ''completed'', task_completed_by := actor, task_completed_at := Some now,
       task_actual := (if minutes \<noteq> None \<and> minutes \<noteq> Some 0 \<and> actor \<noteq> None then minutes
                       else task_actual t)\<rparr>"

definition task_labor :: "id \<Rightarrow> nat option \<Rightarrow> id option \<Rightarrow> timestamp \<Rightarrow> work_order \<Rightarrow> workshop \<Rightarrow> work_order" where
  "task_labor tenant minutes actor now x w =
     (case (minutes, actor) of
        (Some m, Some u) \<Rightarrow>
          if m = 0 then x
          else (case active_rate tenant u (date_of now) w of
            None \<Rightarrow> x
          | Some r \<Rightarrow> x\<lparr>wo_labor := wo_labor x + labor_amount m (rate_hourly r)\<rparr>)
      | _ \<Rightarrow> x)"

definition complete_work_order_task ::
  "id \<Rightarrow> id \<Rightarrow> id \<Rightarrow> nat option \<Rightarrow> id option \<Rightarrow> timestamp \<Rightarrow> workshop \<Rightarrow> (work_task \<times> workshop) res" where
  "complete_work_order_task tenant wo i minutes actor now w =
     rbind (require_wo tenant wo w) (\<lambda>x.
     if wo_status x \<noteq> ''in_progress'' then Inl (ApiError ''invalid_work_order_status'' 409)
     else case owned task_id task_tenant tenant i (work_tasks w) of
       None \<Rightarrow> Inl (ApiError ''work_order_task_not_found'' 404)
     | Some t \<Rightarrow>
         if task_work_order t \<noteq> wo then Inl (ApiError ''work_order_task_not_found'' 404)
         else if task_status t = ''completed'' then Inr (t, w)
         else
           (let t' = task_done t minutes actor now
            in Inr (t', waudit tenant actor ''work_order_task.completed'' ''work_order_task'' (Some i)
                 (put_wo (task_labor tenant minutes actor now x w) (put_task t' w)))))"

text \<open>The status of the missing task is passed positionally, a \<^verbatim>\<open>TypeError\<close>.\<close>

definition assign_task_to_mechanic ::
  "id \<Rightarrow> id \<Rightarrow> id option \<Rightarrow> nat option \<Rightarrow> workshop \<Rightarrow> (work_task \<times> workshop) res" where
  "assign_task_to_mechanic tenant i user minutes w =
     (case owned task_id task_tenant tenant i (work_tasks w) of
        None \<Rightarrow> Inl (PyError ''TypeError'')
      | Some t \<Rightarrow>
          (let t' = t\<lparr>task_assigned_to := user, task_estimated := minutes\<rparr>
           in Inr (t', put_task t' w)))"

definition list_work_order_tasks :: "id \<Rightarrow> id \<Rightarrow> workshop \<Rightarrow> work_task list res" where
  "list_work_order_tasks tenant wo w =
     rbind (require_wo tenant wo w) (\<lambda>_.
       Inr (filter (\<lambda>t. task_tenant t = tenant \<and> task_work_order t = wo) (work_tasks w)))"

section \<open>Tools\<close>

definition tool_return_conditions :: "string list" where
  "tool_return_conditions = [''available'', ''damaged'', ''lost'', ''retired'']"

definition put_tool :: "tool \<Rightarrow> workshop \<Rightarrow> workshop" where
  "put_tool x w = w\<lparr>tools := tput tool_id x (tools w)\<rparr>"

definition create_tool ::
  "id \<Rightarrow> string \<Rightarrow> bool \<Rightarrow> timestamp option \<Rightarrow> id option \<Rightarrow> workshop \<Rightarrow> (tool \<times> workshop) res" where
  "create_tool tenant code critical due actor w =
     (if list_ex (\<lambda>x. tool_tenant x = tenant \<and> tool_code x = code) (tools w)
      then Inl (ApiError ''workshop_tool_code_exists'' 409)
      else
        (let (i, w1) = wfresh w;
             x = \<lparr>tool_id = i, tool_tenant = tenant, tool_code = code, tool_critical = critical,
               tool_calibration_due = due, tool_interval = None, tool_status = ''available''\<rparr>
         in Inr (x, waudit tenant actor ''workshop_tool.created'' ''workshop_tool'' (Some i)
              (w1\<lparr>tools := tadd x (tools w1)\<rparr>))))"

record checkout_input =
  cki_tool :: id
  cki_reference :: string
  cki_at :: timestamp
  cki_due :: "timestamp option"

definition checkout_matches :: "checkout \<Rightarrow> id \<Rightarrow> checkout_input \<Rightarrow> bool" where
  "checkout_matches c wo p \<longleftrightarrow> chk_work_order c = wo \<and> chk_tool c = cki_tool p \<and> chk_at c = cki_at p
     \<and> chk_due c = cki_due p"

text \<open>The partial unique index: one checkout of a tool is out at a time.\<close>

definition checked_out :: "checkout list \<Rightarrow> checkout list" where
  "checked_out cs = filter (\<lambda>c. chk_status c = ''checked_out'') cs"

definition checkouts_unique :: "checkout list \<Rightarrow> bool" where
  "checkouts_unique cs \<longleftrightarrow> distinct (map (\<lambda>c. (chk_tenant c, chk_tool c)) (checked_out cs))"

definition flush_checkouts :: "workshop \<Rightarrow> workshop res" where
  "flush_checkouts w = (if checkouts_unique (checkouts w) then Inr w else Inl (PyError ''IntegrityError''))"

definition new_checkout :: "id \<Rightarrow> id \<Rightarrow> id \<Rightarrow> checkout_input \<Rightarrow> id option \<Rightarrow> checkout" where
  "new_checkout i tenant wo p actor =
     \<lparr>chk_id = i, chk_tenant = tenant, chk_tool = cki_tool p, chk_work_order = wo,
      chk_reference = cki_reference p, chk_by = actor, chk_at = cki_at p, chk_due = cki_due p,
      chk_status = ''checked_out'', chk_return_reference = None, chk_returned_by = None,
      chk_returned_at = None, chk_condition = None\<rparr>"

definition checkout_tool ::
  "id \<Rightarrow> id \<Rightarrow> checkout_input \<Rightarrow> id option \<Rightarrow> timestamp \<Rightarrow> workshop \<Rightarrow> (checkout \<times> workshop) res" where
  "checkout_tool tenant wo p actor now w =
     (case List.find (\<lambda>c. chk_tenant c = tenant \<and> chk_reference c = cki_reference p) (checkouts w) of
        Some c \<Rightarrow>
          if checkout_matches c wo p then Inr (c, w)
          else Inl (ApiError ''tool_checkout_reference_reused'' 409)
      | None \<Rightarrow>
          rbind (require_wo tenant wo w) (\<lambda>x.
          if wo_status x \<noteq> ''in_progress'' then Inl (ApiError ''invalid_work_order_status'' 409)
          else case owned tool_id tool_tenant tenant (cki_tool p) (tools w) of
            None \<Rightarrow> Inl (ApiError ''workshop_tool_not_found'' 404)
          | Some tk \<Rightarrow>
              if tool_status tk \<noteq> ''available'' then Inl (ApiError ''workshop_tool_unavailable'' 409)
              else if tool_critical tk \<and> (case tool_calibration_due tk of None \<Rightarrow> False | Some u \<Rightarrow> u \<le> now)
              then Inl (ApiError ''workshop_tool_calibration_expired'' 409)
              else
                (let (i, w1) = wfresh w; c = new_checkout i tenant wo p actor
                 in rbind (flush_checkouts (put_tool (tk\<lparr>tool_status := ''checked_out''\<rparr>)
                             (w1\<lparr>checkouts := tadd c (checkouts w1)\<rparr>))) (\<lambda>w2.
                    Inr (c, waudit tenant actor ''workshop_tool.checked_out'' ''workshop_tool''
                              (Some (tool_id tk)) w2)))))"

record return_input =
  rti_reference :: string
  rti_at :: timestamp
  rti_condition :: string

definition return_matches :: "checkout \<Rightarrow> return_input \<Rightarrow> bool" where
  "return_matches c p \<longleftrightarrow> chk_return_reference c = Some (rti_reference p)
     \<and> chk_returned_at c = Some (rti_at p) \<and> chk_condition c = Some (rti_condition p)"

definition returned_checkout :: "checkout \<Rightarrow> return_input \<Rightarrow> id option \<Rightarrow> checkout" where
  "returned_checkout c p actor =
     c\<lparr>chk_status := ''returned'', chk_return_reference := Some (rti_reference p),
       chk_returned_by := actor, chk_returned_at := Some (rti_at p), chk_condition := Some (rti_condition p)\<rparr>"

definition return_tool ::
  "id \<Rightarrow> id \<Rightarrow> return_input \<Rightarrow> id option \<Rightarrow> workshop \<Rightarrow> (checkout \<times> workshop) res" where
  "return_tool tenant i p actor w =
     (if rti_condition p \<notin> set tool_return_conditions
      then Inl (ApiError ''invalid_tool_return_condition'' 422)
      else case owned chk_id chk_tenant tenant i (checkouts w) of
        None \<Rightarrow> Inl (ApiError ''tool_checkout_not_found'' 404)
      | Some c \<Rightarrow>
          if chk_status c = ''returned''
          then (if return_matches c p then Inr (c, w)
                else Inl (ApiError ''tool_return_reference_reused'' 409))
          else case owned tool_id tool_tenant tenant (chk_tool c) (tools w) of
            None \<Rightarrow> Inl (ApiError ''workshop_tool_not_found'' 404)
          | Some tk \<Rightarrow>
              (let c' = returned_checkout c p actor
               in Inr (c', waudit tenant actor ''workshop_tool.returned'' ''workshop_tool'' (Some (tool_id tk))
                    (put_tool (tk\<lparr>tool_status := rti_condition p\<rparr>)
                       (w\<lparr>checkouts := tput chk_id c' (checkouts w)\<rparr>)))))"

definition list_tool_checkouts :: "id \<Rightarrow> string option \<Rightarrow> nat \<Rightarrow> workshop \<Rightarrow> checkout list" where
  "list_tool_checkouts tenant st limit w =
     take limit (rev (sort_key chk_at (filter (\<lambda>c. chk_tenant c = tenant
       \<and> (\<not> truthy st \<or> Some (chk_status c) = st)) (checkouts w))))"

definition calibration_soon :: "tool \<Rightarrow> timestamp \<Rightarrow> timestamp \<Rightarrow> bool" where
  "calibration_soon tk due now \<longleftrightarrow> tool_critical tk \<and> tool_interval tk \<noteq> None \<and> due \<le> add_days now 30"

definition record_tool_calibration ::
  "id \<Rightarrow> id \<Rightarrow> id option \<Rightarrow> timestamp \<Rightarrow> timestamp \<Rightarrow> timestamp \<Rightarrow> workshop \<Rightarrow> (calibration \<times> workshop) res" where
  "record_tool_calibration tenant i user time due now w =
     (case owned tool_id tool_tenant tenant i (tools w) of
        None \<Rightarrow> Inl (PyError ''TypeError'')
      | Some tk \<Rightarrow>
          (let (k, w1) = wfresh w;
               c = \<lparr>cal_id = k, cal_tenant = tenant, cal_tool = i, cal_by = user, cal_at = time,
                 cal_next_due = due\<rparr>;
               w2 = put_tool (tk\<lparr>tool_calibration_due := Some due\<rparr>)
                      (w1\<lparr>calibrations := tadd c (calibrations w1)\<rparr>)
           in if calibration_soon tk due now
              then rbind (on_core (ensure_exception tenant ''workshop_tool'' i ''tool_calibration_due''
                            ''high'' None (Some ''tool_calibration'') None) w2) (\<lambda>(_, w3). Inr (c, w3))
              else Inr (c, w2)))"

definition list_tool_calibration_history :: "id \<Rightarrow> id \<Rightarrow> workshop \<Rightarrow> calibration list" where
  "list_tool_calibration_history tenant i w =
     rev (sort_key cal_at (filter (\<lambda>c. cal_tool c = i \<and> cal_tenant c = tenant) (calibrations w)))"

text \<open>The endpoint writes whatever status it is given, also on a tool that is out.\<close>

definition update_tool ::
  "id \<Rightarrow> id \<Rightarrow> string option \<Rightarrow> nat option \<Rightarrow> workshop \<Rightarrow> (tool \<times> workshop) res" where
  "update_tool tenant i st interval w =
     (case owned tool_id tool_tenant tenant i (tools w) of
        None \<Rightarrow> Inl (PyError ''TypeError'')
      | Some tk \<Rightarrow>
          (let tk' = tk\<lparr>tool_interval := (if interval \<noteq> None then interval else tool_interval tk),
                        tool_status := or_else st (tool_status tk)\<rparr>
           in Inr (tk', put_tool tk' w)))"

section \<open>Hours of the mechanics\<close>

text \<open>Rates are rounded half away from zero, as a column is, and a new rate of a day replaces the old.\<close>

definition create_staff_rate :: "id \<Rightarrow> id \<Rightarrow> dec \<Rightarrow> day \<Rightarrow> workshop \<Rightarrow> staff_rate \<times> workshop" where
  "create_staff_rate tenant user hourly from_day w =
     (let (i, w1) = wfresh w;
          r = \<lparr>rate_id = i, rate_tenant = tenant, rate_user = user, rate_hourly = column 2 hourly,
            rate_from = from_day\<rparr>
      in (r, w1\<lparr>staff_rates := tadd r (staff_rates w1)\<rparr>))"

definition set_staff_hourly_rate ::
  "id \<Rightarrow> id \<Rightarrow> dec \<Rightarrow> day \<Rightarrow> workshop \<Rightarrow> (staff_rate \<times> workshop) res" where
  "set_staff_hourly_rate tenant user hourly from_day w =
     (if column 2 hourly \<le> 0 then Inl (ApiError ''invalid_hourly_rate'' 400)
      else case List.find (\<lambda>r. rate_tenant r = tenant \<and> rate_user r = user \<and> rate_from r = from_day)
                  (staff_rates w) of
        Some r \<Rightarrow>
          (let r' = r\<lparr>rate_hourly := column 2 hourly\<rparr>
           in Inr (r', w\<lparr>staff_rates := tput rate_id r' (staff_rates w)\<rparr>))
      | None \<Rightarrow> Inr (create_staff_rate tenant user hourly from_day w))"

definition get_staff_hourly_rate :: "id \<Rightarrow> id \<Rightarrow> day \<Rightarrow> workshop \<Rightarrow> dec" where
  "get_staff_hourly_rate tenant user d w =
     (case active_rate tenant user d w of None \<Rightarrow> 500 | Some r \<Rightarrow> rate_hourly r)"

definition order_billed :: "id \<Rightarrow> id \<Rightarrow> db \<Rightarrow> bool" where
  "order_billed tenant wo d \<longleftrightarrow> list_ex (\<lambda>x. item_tenant x = tenant \<and> item_work_order x = Some wo
     \<and> list_ex (\<lambda>b. bill_id b = item_doc x \<and> bill_status b \<in> {D_issued, D_paid}) (bills d)) (items d)"

definition assert_work_order_mutable :: "id \<Rightarrow> id \<Rightarrow> workshop \<Rightarrow> work_order res" where
  "assert_work_order_mutable tenant wo w =
     rbind (require_wo tenant wo w) (\<lambda>x.
     if wo_status x \<in> {''closed'', ''invoiced'', ''cancelled''} \<or> order_billed tenant wo (core w)
     then Inl (ApiError ''work_order_already_billed'' 409)
     else Inr x)"

definition session_cost :: "nat \<Rightarrow> dec \<Rightarrow> dec" where
  "session_cost minutes rate = column 2 (dec_mul (dec_div (of_nat minutes) 60) rate)"

definition add_task_labor_session ::
  "id \<Rightarrow> id \<Rightarrow> id \<Rightarrow> int \<Rightarrow> timestamp option \<Rightarrow> timestamp \<Rightarrow> workshop \<Rightarrow> (labor_log \<times> workshop) res" where
  "add_task_labor_session tenant task user minutes ended now w =
     (if minutes \<le> 0 then Inl (ApiError ''invalid_minutes'' 400)
      else rbind (of_opt (ApiError ''task_not_found'' 404) (owned task_id task_tenant tenant task (work_tasks w))) (\<lambda>t.
           rbind (assert_work_order_mutable tenant (task_work_order t) w) (\<lambda>_.
             let time = or_else ended now;
                 rate = get_staff_hourly_rate tenant user (date_of time) w;
                 (i, w1) = wfresh w;
                 x = \<lparr>log_id = i, log_tenant = tenant, log_task = task, log_user = user,
                   log_completed_at = time, log_minutes = nat minutes, log_rate = rate,
                   log_cost = session_cost (nat minutes) rate, log_voided_at = None, log_void_reason = None\<rparr>
             in Inr (x, w1\<lparr>labor_logs := tadd x (labor_logs w1)\<rparr>))))"

definition void_task_labor_session ::
  "id \<Rightarrow> id \<Rightarrow> string \<Rightarrow> timestamp \<Rightarrow> workshop \<Rightarrow> (labor_log \<times> workshop) res" where
  "void_task_labor_session tenant i reason now w =
     (if strip reason = [] then Inl (ApiError ''invalid_void_reason'' 400)
      else rbind (of_opt (ApiError ''labor_log_not_found'' 404)
                    (owned log_id log_tenant tenant i (labor_logs w))) (\<lambda>x.
      if log_voided_at x \<noteq> None then Inr (x, w)
      else rbind (of_opt (ApiError ''task_not_found'' 404) (tget task_id (log_task x) (work_tasks w))) (\<lambda>t.
           rbind (assert_work_order_mutable tenant (task_work_order t) w) (\<lambda>_.
             let x' = x\<lparr>log_voided_at := Some now, log_void_reason := Some (strip reason)\<rparr>
             in Inr (x', w\<lparr>labor_logs := tput log_id x' (labor_logs w)\<rparr>)))))"

text \<open>Revenue, cost and margin of an order.\<close>

definition order_revenue :: "id \<Rightarrow> work_order \<Rightarrow> db \<Rightarrow> dec" where
  "order_revenue tenant x d =
     (let billed = (\<Sum>i\<leftarrow>filter (\<lambda>i. item_tenant i = tenant \<and> item_work_order i = Some (wo_id x)
            \<and> list_ex (\<lambda>b. bill_id b = item_doc i \<and> bill_status b \<in> {D_issued, D_paid}) (bills d)) (items d).
            item_amount i)
      in if billed = 0 \<and> or_else (wo_estimated x) 0 \<noteq> 0 then or_else (wo_estimated x) 0 else billed)"

definition order_sessions :: "id \<Rightarrow> id \<Rightarrow> workshop \<Rightarrow> labor_log list" where
  "order_sessions tenant wo w = filter (\<lambda>l. log_voided_at l = None
     \<and> list_ex (\<lambda>t. task_id t = log_task l \<and> task_tenant t = tenant \<and> task_work_order t = wo) (work_tasks w))
     (labor_logs w)"

record profitability =
  prf_revenue :: dec
  prf_minutes :: nat
  prf_labor :: dec
  prf_parts :: dec
  prf_profit :: dec
  prf_margin :: dec

definition get_work_order_profitability :: "id \<Rightarrow> id \<Rightarrow> workshop \<Rightarrow> profitability res" where
  "get_work_order_profitability tenant wo w =
     rbind (require_wo tenant wo w) (\<lambda>x.
       let revenue = order_revenue tenant x (core w);
           labor = (\<Sum>l\<leftarrow>order_sessions tenant wo w. log_cost l);
           used = (\<Sum>u\<leftarrow>filter (\<lambda>u. pu_tenant u = tenant \<and> pu_work_order u = wo) (parts_used w).
             or_else (pu_total u) 0);
           profit = revenue - (labor + used)
       in Inr \<lparr>prf_revenue = revenue, prf_minutes = (\<Sum>l\<leftarrow>order_sessions tenant wo w. log_minutes l),
            prf_labor = labor, prf_parts = used, prf_profit = profit,
            prf_margin = (if 0 < revenue then column 2 (dec_mul (dec_div profit revenue) 100) else 0)\<rparr>)"

text \<open>The counters of the dashboard; hours per mechanic come from a query in SQL.\<close>

definition open_order_count :: "id \<Rightarrow> workshop \<Rightarrow> nat" where
  "open_order_count tenant w = length (filter (\<lambda>x. wo_tenant x = tenant
     \<and> wo_status x \<notin> {''closed'', ''cancelled''}) (work_orders (core w)))"

definition pending_task_count :: "id \<Rightarrow> workshop \<Rightarrow> nat" where
  "pending_task_count tenant w = length (filter (\<lambda>t. task_tenant t = tenant \<and> task_status t = ''pending'')
     (work_tasks w))"

definition total_labor_minutes :: "id \<Rightarrow> workshop \<Rightarrow> nat" where
  "total_labor_minutes tenant w = (\<Sum>t\<leftarrow>filter (\<lambda>t. task_tenant t = tenant) (work_tasks w). or_else (task_actual t) 0)"

definition total_labor_cost :: "id \<Rightarrow> workshop \<Rightarrow> dec" where
  "total_labor_cost tenant w = (\<Sum>x\<leftarrow>filter (\<lambda>x. wo_tenant x = tenant) (work_orders (core w)). wo_labor x)"

end
