(* ===== verification/Workshop_Quotes.thy ===== *)
theory Workshop_Quotes
  imports Spare_Parts Workshop_Orders
begin

text \<open>
  The front desk of the workshop: numbers per tenant and year, receptions and releases of vehicles
  (\<^verbatim>\<open>workshop/reception_service.py\<close>), quotes and their acceptance (\<^verbatim>\<open>workshop/quote_service.py\<close>),
  warranties, the service catalogue and the work bays.
\<close>

section \<open>Numbers\<close>

text \<open>
  \<^verbatim>\<open>get_next_tenant_sequence\<close>: the row of the kind and year is inserted unless it is there, then
  incremented and read.
\<close>

definition is_sequence :: "id \<Rightarrow> string \<Rightarrow> sequence \<Rightarrow> bool" where
  "is_sequence tenant k s \<longleftrightarrow> seq_tenant s = tenant \<and> seq_key s = k"

definition ensure_sequence :: "id \<Rightarrow> string \<Rightarrow> sequence list \<Rightarrow> sequence list" where
  "ensure_sequence tenant k ss =
     (if list_ex (is_sequence tenant k) ss then ss
      else ss @ [\<lparr>seq_tenant = tenant, seq_key = k, seq_value = 0\<rparr>])"

definition sequence_value :: "id \<Rightarrow> string \<Rightarrow> sequence list \<Rightarrow> nat" where
  "sequence_value tenant k ss =
     (case List.find (is_sequence tenant k) ss of None \<Rightarrow> 0 | Some s \<Rightarrow> seq_value s)"

definition bump_sequence :: "id \<Rightarrow> string \<Rightarrow> sequence list \<Rightarrow> sequence list" where
  "bump_sequence tenant k ss =
     map (\<lambda>s. if is_sequence tenant k s then s\<lparr>seq_value := Suc (seq_value s)\<rparr> else s)
       (ensure_sequence tenant k ss)"

definition sequence_key :: "string \<Rightarrow> timestamp \<Rightarrow> string" where
  "sequence_key kind now = kind @ ''_'' @ show_int (year_of now)"

definition get_next_tenant_sequence :: "id \<Rightarrow> string \<Rightarrow> timestamp \<Rightarrow> workshop \<Rightarrow> nat \<times> workshop" where
  "get_next_tenant_sequence tenant kind now w =
     (let k = sequence_key kind now; ss = bump_sequence tenant k (sequences w)
      in (sequence_value tenant k ss, w\<lparr>sequences := ss\<rparr>))"

definition numbered :: "string \<Rightarrow> timestamp \<Rightarrow> nat \<Rightarrow> string" where
  "numbered prefix now n = prefix @ show_int (year_of now) @ ''-'' @ zfill 4 (show_nat n)"

section \<open>Receptions\<close>

record reception_input =
  rci_vehicle :: id
  rci_client :: "id option"
  rci_odometer :: int
  rci_fuel_level :: string
  rci_pickup_name :: "string option"

definition create_reception ::
  "id \<Rightarrow> reception_input \<Rightarrow> id option \<Rightarrow> timestamp \<Rightarrow> workshop \<Rightarrow> (reception \<times> workshop) res" where
  "create_reception tenant p actor now w =
     rbind (require_wvehicle tenant (rci_vehicle p) w) (\<lambda>v.
       let (n, w1) = get_next_tenant_sequence tenant ''reception'' now w;
           (i, w2) = wfresh w1;
           r = \<lparr>rcp_id = i, rcp_tenant = tenant, rcp_vehicle = rci_vehicle p,
             rcp_client = (if rci_client p \<noteq> None then rci_client p else veh_customer v),
             rcp_number = numbered ''REC-'' now n, rcp_received_by = actor,
             rcp_odometer = (if rci_odometer p \<noteq> 0 then rci_odometer p else veh_km v),
             rcp_fuel_level = rci_fuel_level p, rcp_pickup_name = rci_pickup_name p,
             rcp_status = ''received''\<rparr>
       in Inr (r, waudit tenant actor ''vehicle_reception.created'' ''vehicle_reception'' (Some i)
            (w2\<lparr>receptions := tadd r (receptions w2)\<rparr>)))"

definition require_reception :: "id \<Rightarrow> id \<Rightarrow> workshop \<Rightarrow> reception res" where
  "require_reception tenant i w =
     of_opt (ApiError ''reception_not_found'' 404) (owned rcp_id rcp_tenant tenant i (receptions w))"

definition put_reception :: "reception \<Rightarrow> workshop \<Rightarrow> workshop" where
  "put_reception r w = w\<lparr>receptions := tput rcp_id r (receptions w)\<rparr>"

definition update_reception_status ::
  "id \<Rightarrow> id \<Rightarrow> string \<Rightarrow> id option \<Rightarrow> workshop \<Rightarrow> (reception \<times> workshop) res" where
  "update_reception_status tenant i st actor w =
     rbind (require_reception tenant i w) (\<lambda>r.
       let r' = r\<lparr>rcp_status := st\<rparr>
       in Inr (r', waudit tenant actor ''vehicle_reception.status_updated'' ''vehicle_reception'' (Some i)
            (put_reception r' w)))"

definition list_receptions ::
  "id \<Rightarrow> string option \<Rightarrow> id option \<Rightarrow> id option \<Rightarrow> nat \<Rightarrow> nat \<Rightarrow> workshop \<Rightarrow> reception list" where
  "list_receptions tenant st vehicle client limit offset w =
     take limit (drop offset (rev (filter (\<lambda>r. rcp_tenant r = tenant
       \<and> (\<not> truthy st \<or> Some (rcp_status r) = st) \<and> (vehicle = None \<or> vehicle = Some (rcp_vehicle r))
       \<and> (client = None \<or> client = rcp_client r)) (receptions w))))"

text \<open>
  The names of who may collect the vehicle and of who does are compared by their words. Names of
  the model are ASCII, for which the normal form is the lower case without punctuation.
\<close>

definition is_word_char :: "char \<Rightarrow> bool" where
  "is_word_char c \<longleftrightarrow> (c \<ge> CHR ''a'' \<and> c \<le> CHR ''z'') \<or> (c \<ge> CHR ''A'' \<and> c \<le> CHR ''Z'')
     \<or> (c \<ge> CHR ''0'' \<and> c \<le> CHR ''9'') \<or> c = CHR ''_''"

definition normalize_name :: "string option \<Rightarrow> string" where
  "normalize_name n = (case n of
     None \<Rightarrow> []
   | Some s \<Rightarrow> strip (filter (\<lambda>c. is_word_char c \<or> is_space c) (map lower_char s)))"

fun words_of :: "string \<Rightarrow> string \<Rightarrow> string list" where
  "words_of [] acc = (if acc = [] then [] else [acc])"
| "words_of (c # cs) acc =
     (if is_space c then (if acc = [] then words_of cs [] else acc # words_of cs [])
      else words_of cs (acc @ [c]))"

definition name_words :: "string \<Rightarrow> string list" where
  "name_words s = remdups (words_of s [])"

definition names_match :: "string option \<Rightarrow> string option \<Rightarrow> bool" where
  "names_match authorized presented =
     (let a = normalize_name authorized; p = normalize_name presented in
      if a = [] \<or> p = [] then True
      else if a = p then True
      else
        (let xs = name_words a; ys = name_words p;
             common = length (filter (\<lambda>x. x \<in> set ys) xs)
         in 2 \<le> common \<or> (common = 1 \<and> (length xs = 1 \<or> length ys = 1))))"

record release_input =
  rli_odometer :: int
  rli_picked_up_by :: "string option"
  rli_override :: bool
  rli_reason :: "string option"
  rli_type :: string

definition pickup_refused :: "reception \<Rightarrow> release_input \<Rightarrow> bool" where
  "pickup_refused r p \<longleftrightarrow> truthy (rcp_pickup_name r) \<and> truthy (rli_picked_up_by p)
     \<and> \<not> names_match (rcp_pickup_name r) (rli_picked_up_by p) \<and> \<not> rli_override p"

definition release_vehicle ::
  "id \<Rightarrow> id \<Rightarrow> release_input \<Rightarrow> id option \<Rightarrow> workshop \<Rightarrow> (release \<times> workshop) res" where
  "release_vehicle tenant i p actor w =
     rbind (require_reception tenant i w) (\<lambda>r.
     if rcp_status r \<in> {''delivered'', ''returned_no_service''}
     then Inl (ApiError ''reception_already_closed'' 409)
     else if pickup_refused r p then Inl (ApiError ''unauthorized_pickup_person'' 409)
     else
       (let (k, w1) = wfresh w;
            x = \<lparr>rel_id = k, rel_tenant = tenant, rel_vehicle = rcp_vehicle r, rel_reception = i,
              rel_by = actor, rel_odometer = rli_odometer p, rel_picked_up_by = rli_picked_up_by p,
              rel_override = rli_override p, rel_reason = rli_reason p, rel_type = rli_type p\<rparr>;
            r' = r\<lparr>rcp_status := (if rli_type p = ''after_service'' then ''delivered''
                                  else ''returned_no_service'')\<rparr>;
            w2 = put_reception r' (w1\<lparr>releases := tadd x (releases w1)\<rparr>);
            w3 = (if rli_override p
                  then waudit tenant actor ''vehicle_release.unauthorized_pickup_override'' ''vehicle_release''
                         (Some k) w2
                  else w2)
        in Inr (x, waudit tenant actor ''vehicle_release.created'' ''vehicle_release'' (Some k) w3)))"

section \<open>Quotes\<close>

record quote_item_input =
  qii_type :: string
  qii_description :: string
  qii_part :: "id option"
  qii_quantity :: dec
  qii_price :: dec

record quote_input =
  qci_vehicle :: id
  qci_client :: "id option"
  qci_reception :: "id option"
  qci_supplemental :: bool
  qci_work_order :: "id option"
  qci_valid_until :: "timestamp option"
  qci_tax :: dec
  qci_notes :: "string option"
  qci_items :: "quote_item_input list"

definition line_total :: "quote_item_input \<Rightarrow> dec" where
  "line_total p = qii_quantity p * qii_price p"

definition supplemental_target :: "id \<Rightarrow> quote_input \<Rightarrow> workshop \<Rightarrow> unit res" where
  "supplemental_target tenant p w =
     (if \<not> qci_supplemental p then Inr ()
      else case qci_work_order p of
        None \<Rightarrow> Inl (ApiError ''invalid_supplemental_quote'' 400)
      | Some o' \<Rightarrow> rbind (require_wo tenant o' w) (\<lambda>_. Inr ()))"

definition add_quote_item :: "id \<Rightarrow> id \<Rightarrow> quote_item_input \<Rightarrow> workshop \<Rightarrow> workshop" where
  "add_quote_item tenant q p w =
     (let (i, w1) = wfresh w;
          x = \<lparr>qit_id = i, qit_tenant = tenant, qit_quote = q, qit_type = qii_type p,
            qit_description = qii_description p, qit_part = qii_part p,
            qit_quantity = column 2 (qii_quantity p), qit_price = column 2 (qii_price p),
            qit_total = column 2 (line_total p)\<rparr>
      in w1\<lparr>quote_items := tadd x (quote_items w1)\<rparr>)"

definition new_quote :: "id \<Rightarrow> id \<Rightarrow> vehicle \<Rightarrow> string \<Rightarrow> quote_input \<Rightarrow> quote" where
  "new_quote i tenant v number p =
     (let labor = (\<Sum>x\<leftarrow>filter (\<lambda>x. qii_type x = ''labor'') (qci_items p). line_total x);
          used = (\<Sum>x\<leftarrow>filter (\<lambda>x. qii_type x \<noteq> ''labor'') (qci_items p). line_total x)
      in \<lparr>quo_id = i, quo_tenant = tenant, quo_vehicle = qci_vehicle p,
          quo_client = (if qci_client p \<noteq> None then qci_client p else veh_customer v),
          quo_reception = qci_reception p, quo_number = number, quo_supplemental = qci_supplemental p,
          quo_work_order = qci_work_order p, quo_status = Q_sent, quo_valid_until = qci_valid_until p,
          quo_labor = column 2 labor, quo_parts = column 2 used, quo_tax = column 2 (qci_tax p),
          quo_total = column 2 (labor + used + qci_tax p), quo_notes = qci_notes p,
          quo_channel = None, quo_accepted_by = None\<rparr>)"

definition create_quote ::
  "id \<Rightarrow> quote_input \<Rightarrow> id option \<Rightarrow> timestamp \<Rightarrow> workshop \<Rightarrow> (quote \<times> workshop) res" where
  "create_quote tenant p actor now w =
     rbind (require_wvehicle tenant (qci_vehicle p) w) (\<lambda>v.
     rbind (supplemental_target tenant p w) (\<lambda>_.
       let (n, w1) = get_next_tenant_sequence tenant ''quote'' now w;
           (i, w2) = wfresh w1;
           q = new_quote i tenant v (numbered ''ORC-'' now n) p;
           w3 = fold (add_quote_item tenant i) (qci_items p) (w2\<lparr>quotes := tadd q (quotes w2)\<rparr>)
       in if list_ex (\<lambda>x. \<exists>k\<in>set_option (qii_part x). tget part_id k (parts w) = None) (qci_items p)
          then Inl (PyError ''IntegrityError'')
          else Inr (q, waudit tenant actor ''workshop_quote.created'' ''workshop_quote'' (Some i) w3)))"

definition put_quote :: "quote \<Rightarrow> workshop \<Rightarrow> workshop" where
  "put_quote q w = w\<lparr>quotes := tput quo_id q (quotes w)\<rparr>"

definition items_of_quote :: "id \<Rightarrow> id \<Rightarrow> workshop \<Rightarrow> quote_item list" where
  "items_of_quote tenant q w = filter (\<lambda>x. qit_quote x = q \<and> qit_tenant x = tenant) (quote_items w)"

definition add_quote_tasks :: "id \<Rightarrow> id \<Rightarrow> string \<Rightarrow> quote_item list \<Rightarrow> workshop \<Rightarrow> workshop" where
  "add_quote_tasks tenant wo prefix xs w =
     fold (\<lambda>x w. snd (add_task tenant wo (prefix @ qit_description x) w)) xs w"

text \<open>The order an accepted quote works on: the one it supplements, or a new one.\<close>

definition quote_order :: "id \<Rightarrow> quote \<Rightarrow> timestamp \<Rightarrow> workshop \<Rightarrow> (id \<times> workshop) res" where
  "quote_order tenant q now w =
     (let xs = items_of_quote tenant (quo_id q) w in
      case (quo_supplemental q, quo_work_order q) of
        (True, Some o') \<Rightarrow>
          rbind (require_wo tenant o' w) (\<lambda>x.
            Inr (o', add_quote_tasks tenant o' (''[Suplementar '' @ quo_number q @ ''] '') xs w))
      | _ \<Rightarrow>
          (let (n, w1) = get_next_tenant_sequence tenant ''work_order'' now w;
               (i, w2) = wfresh w1;
               x = (new_order i tenant (Some (quo_vehicle q)) (numbered ''OS-'' now n) now)
                     \<lparr>wo_status := ''approved'', wo_estimated := Some (quo_total q), wo_labor := quo_labor q,
                      wo_reception := quo_reception q, wo_origin := ''quote''\<rparr>
           in rbind (flush_orders (add_order x w2)) (\<lambda>w3. Inr (i, add_quote_tasks tenant i [] xs w3))))"

definition accepted_quote :: "quote \<Rightarrow> id \<Rightarrow> string option \<Rightarrow> string option \<Rightarrow> quote" where
  "accepted_quote q wo channel person =
     q\<lparr>quo_work_order := Some wo, quo_status := Q_converted,
       quo_channel := or_str channel (quo_channel q), quo_accepted_by := or_str person (quo_accepted_by q)\<rparr>"

definition accept_quote ::
  "id \<Rightarrow> id \<Rightarrow> string option \<Rightarrow> string option \<Rightarrow> id option \<Rightarrow> timestamp \<Rightarrow> workshop
    \<Rightarrow> (quote \<times> id \<times> workshop) res" where
  "accept_quote tenant i channel person actor now w =
     rbind (of_opt (ApiError ''quote_not_found'' 404) (owned quo_id quo_tenant tenant i (quotes w))) (\<lambda>q.
     if quo_status q = Q_converted then Inl (ApiError ''quote_already_converted'' 409)
     else if quo_status q \<noteq> Q_sent then Inl (ApiError ''invalid_quote_status'' 400)
     else rbind (quote_order tenant q now w) (\<lambda>(wo, w1).
       let q' = accepted_quote q wo channel person;
           w2 = create_part_reservations tenant i (Some wo) (put_quote q' w1)
       in Inr (q', wo, waudit tenant actor ''workshop_quote.accepted'' ''workshop_quote'' (Some i) w2)))"

definition rejection_notes :: "string option \<Rightarrow> string option \<Rightarrow> string option" where
  "rejection_notes notes reason =
     (if truthy reason
      then Some (strip (or_else notes [] @ [CHR 10] @ ''Motivo rejei'' @ [CHR 0xC3, CHR 0xA7, CHR 0xC3, CHR 0xA3]
                        @ ''o: '' @ the reason))
      else notes)"

definition reject_quote ::
  "id \<Rightarrow> id \<Rightarrow> string option \<Rightarrow> id option \<Rightarrow> workshop \<Rightarrow> (quote \<times> workshop) res" where
  "reject_quote tenant i reason actor w =
     rbind (of_opt (ApiError ''quote_not_found'' 404) (owned quo_id quo_tenant tenant i (quotes w))) (\<lambda>q.
     if quo_status q \<noteq> Q_sent then Inl (ApiError ''invalid_quote_status'' 400)
     else
       (let q' = q\<lparr>quo_status := Q_rejected, quo_notes := rejection_notes (quo_notes q) reason\<rparr>
        in Inr (q', waudit tenant actor ''workshop_quote.rejected'' ''workshop_quote'' (Some i) (put_quote q' w))))"

definition outdated :: "timestamp \<Rightarrow> quote \<Rightarrow> bool" where
  "outdated now q \<longleftrightarrow> quo_status q = Q_sent
     \<and> (case quo_valid_until q of None \<Rightarrow> False | Some u \<Rightarrow> u < now)"

definition expire_outdated_quotes :: "timestamp \<Rightarrow> workshop \<Rightarrow> nat \<times> workshop" where
  "expire_outdated_quotes now w =
     (length (filter (outdated now) (quotes w)),
      w\<lparr>quotes := map (\<lambda>q. if outdated now q then q\<lparr>quo_status := Q_expired\<rparr> else q) (quotes w)\<rparr>)"

definition get_quote_detail :: "id \<Rightarrow> id \<Rightarrow> workshop \<Rightarrow> (quote \<times> quote_item list) res" where
  "get_quote_detail tenant i w =
     rbind (of_opt (ApiError ''quote_not_found'' 404) (owned quo_id quo_tenant tenant i (quotes w)))
       (\<lambda>q. Inr (q, items_of_quote tenant i w))"

definition list_quotes ::
  "id \<Rightarrow> string option \<Rightarrow> id option \<Rightarrow> nat \<Rightarrow> nat \<Rightarrow> workshop \<Rightarrow> quote list" where
  "list_quotes tenant st vehicle limit offset w =
     take limit (drop offset (rev (filter (\<lambda>q. quo_tenant q = tenant
       \<and> (\<not> truthy st \<or> Some (case quo_status q of Q_sent \<Rightarrow> ''sent'' | Q_rejected \<Rightarrow> ''rejected''
              | Q_expired \<Rightarrow> ''expired'' | Q_converted \<Rightarrow> ''converted'') = st)
       \<and> (vehicle = None \<or> vehicle = Some (quo_vehicle q))) (quotes w))))"

section \<open>Warranties\<close>

record warranty_input =
  wri_work_order :: id
  wri_vehicle :: id
  wri_client :: "id option"
  wri_type :: string
  wri_months :: nat
  wri_duration_km :: "int option"
  wri_km :: int

definition create_warranty ::
  "id \<Rightarrow> warranty_input \<Rightarrow> id option \<Rightarrow> timestamp \<Rightarrow> workshop \<Rightarrow> (warranty \<times> workshop) res" where
  "create_warranty tenant p actor now w =
     rbind (require_wo tenant (wri_work_order p) w) (\<lambda>_.
     rbind (require_wvehicle tenant (wri_vehicle p) w) (\<lambda>v.
       let (i, w1) = wfresh w;
           x = \<lparr>war_id = i, war_tenant = tenant, war_work_order = wri_work_order p,
             war_vehicle = wri_vehicle p,
             war_client = (if wri_client p \<noteq> None then wri_client p else veh_customer v),
             war_type = wri_type p, war_months = wri_months p, war_duration_km = wri_duration_km p,
             war_starts = now, war_expires = add_days now (int (wri_months p) * 30),
             war_km = (if wri_km p \<noteq> 0 then wri_km p else veh_km v), war_status = ''active''\<rparr>
       in Inr (x, waudit tenant actor ''service_warranty.created'' ''service_warranty'' (Some i)
            (w1\<lparr>warranties := tadd x (warranties w1)\<rparr>))))"

definition put_warranty :: "warranty \<Rightarrow> workshop \<Rightarrow> workshop" where
  "put_warranty x w = w\<lparr>warranties := tput war_id x (warranties w)\<rparr>"

definition km_exceeded :: "warranty \<Rightarrow> int \<Rightarrow> bool" where
  "km_exceeded x km \<longleftrightarrow> (case war_duration_km x of
     None \<Rightarrow> False | Some n \<Rightarrow> n \<noteq> 0 \<and> war_km x \<noteq> 0 \<and> n < km - war_km x)"

text \<open>A claim that comes too late is refused, and the warranty is written as expired all the same.\<close>

definition claim_warranty ::
  "id \<Rightarrow> id \<Rightarrow> int \<Rightarrow> id option \<Rightarrow> timestamp \<Rightarrow> workshop \<Rightarrow> warranty res \<times> workshop" where
  "claim_warranty tenant i km actor now w =
     (case owned war_id war_tenant tenant i (warranties w) of
        None \<Rightarrow> (Inl (ApiError ''warranty_not_found'' 404), w)
      | Some x \<Rightarrow>
          if war_status x \<noteq> ''active'' then (Inl (ApiError ''warranty_not_active'' 409), w)
          else if war_expires x < now
          then (Inl (ApiError ''warranty_expired'' 409), put_warranty (x\<lparr>war_status := ''expired''\<rparr>) w)
          else if km_exceeded x km
          then (Inl (ApiError ''warranty_km_exceeded'' 409), put_warranty (x\<lparr>war_status := ''expired''\<rparr>) w)
          else
            (let x' = x\<lparr>war_status := ''claimed''\<rparr>
             in (Inr x', waudit tenant actor ''service_warranty.claimed'' ''service_warranty'' (Some i)
                   (put_warranty x' w))))"

definition list_warranties ::
  "id \<Rightarrow> id option \<Rightarrow> string option \<Rightarrow> nat \<Rightarrow> nat \<Rightarrow> workshop \<Rightarrow> warranty list" where
  "list_warranties tenant vehicle st limit offset w =
     take limit (drop offset (rev (filter (\<lambda>x. war_tenant x = tenant
       \<and> (vehicle = None \<or> vehicle = Some (war_vehicle x)) \<and> (\<not> truthy st \<or> Some (war_status x) = st))
       (warranties w))))"

section \<open>Work bays and the service catalogue\<close>

text \<open>
  A patch names the columns to write: an absent one is \<open>None\<close>, an explicit null \<open>Some None\<close>, which
  a column that is not nullable refuses at the flush.
\<close>

fun patched :: "'a option option \<Rightarrow> 'a \<Rightarrow> 'a res" where
  "patched None x = Inr x"
| "patched (Some None) x = Inl (PyError ''IntegrityError'')"
| "patched (Some (Some y)) x = Inr y"

definition create_work_bay ::
  "id \<Rightarrow> string \<Rightarrow> string \<Rightarrow> bool \<Rightarrow> id option \<Rightarrow> workshop \<Rightarrow> work_bay \<times> workshop" where
  "create_work_bay tenant name category active actor w =
     (let (i, w1) = wfresh w;
          b = \<lparr>bay_id = i, bay_tenant = tenant, bay_name = strip name, bay_category = category,
            bay_active = active\<rparr>
      in (b, waudit tenant actor ''work_bay.created'' ''work_bay'' (Some i)
           (w1\<lparr>work_bays := tadd b (work_bays w1)\<rparr>)))"

definition update_work_bay ::
  "id \<Rightarrow> id \<Rightarrow> string option option \<Rightarrow> string option option \<Rightarrow> bool option option \<Rightarrow> id option \<Rightarrow> workshop
    \<Rightarrow> (work_bay \<times> workshop) res" where
  "update_work_bay tenant i name category active actor w =
     rbind (of_opt (ApiError ''bay_not_found'' 404) (owned bay_id bay_tenant tenant i (work_bays w))) (\<lambda>b.
     rbind (patched name (bay_name b)) (\<lambda>n.
     rbind (patched category (bay_category b)) (\<lambda>c.
     rbind (patched active (bay_active b)) (\<lambda>a.
       let b' = b\<lparr>bay_name := n, bay_category := c, bay_active := a\<rparr>
       in Inr (b', waudit tenant actor ''work_bay.updated'' ''work_bay'' (Some i)
            (w\<lparr>work_bays := tput bay_id b' (work_bays w)\<rparr>))))))"

record catalog_input =
  cti_code :: string
  cti_name :: string
  cti_category :: string
  cti_minutes :: nat
  cti_price :: dec
  cti_includes_parts :: bool
  cti_active :: bool

definition create_catalog_item ::
  "id \<Rightarrow> catalog_input \<Rightarrow> id option \<Rightarrow> workshop \<Rightarrow> (catalog_item \<times> workshop) res" where
  "create_catalog_item tenant p actor w =
     (if list_ex (\<lambda>x. cat_tenant x = tenant \<and> cat_code x = strip (cti_code p)) (catalog w)
      then Inl (ApiError ''code_already_exists'' 409)
      else
        (let (i, w1) = wfresh w;
             x = \<lparr>cat_id = i, cat_tenant = tenant, cat_code = strip (cti_code p), cat_name = strip (cti_name p),
               cat_category = cti_category p, cat_minutes = cti_minutes p, cat_price = column 2 (cti_price p),
               cat_includes_parts = cti_includes_parts p, cat_active = cti_active p\<rparr>
         in Inr (x, waudit tenant actor ''catalog_item.created'' ''service_catalog_item'' (Some i)
              (w1\<lparr>catalog := tadd x (catalog w1)\<rparr>))))"

record catalog_patch =
  ctp_name :: "string option option"
  ctp_category :: "string option option"
  ctp_minutes :: "nat option option"
  ctp_price :: "dec option option"
  ctp_includes_parts :: "bool option option"
  ctp_active :: "bool option option"

definition update_catalog_item ::
  "id \<Rightarrow> id \<Rightarrow> catalog_patch \<Rightarrow> id option \<Rightarrow> workshop \<Rightarrow> (catalog_item \<times> workshop) res" where
  "update_catalog_item tenant i p actor w =
     rbind (of_opt (ApiError ''item_not_found'' 404) (owned cat_id cat_tenant tenant i (catalog w))) (\<lambda>x.
     rbind (patched (ctp_name p) (cat_name x)) (\<lambda>n.
     rbind (patched (ctp_category p) (cat_category x)) (\<lambda>c.
     rbind (patched (ctp_minutes p) (cat_minutes x)) (\<lambda>m.
     rbind (patched (ctp_price p) (cat_price x)) (\<lambda>pr.
     rbind (patched (ctp_includes_parts p) (cat_includes_parts x)) (\<lambda>ip.
     rbind (patched (ctp_active p) (cat_active x)) (\<lambda>a.
       let x' = x\<lparr>cat_name := n, cat_category := c, cat_minutes := m, cat_price := column 2 pr,
                 cat_includes_parts := ip, cat_active := a\<rparr>
       in Inr (x', waudit tenant actor ''catalog_item.updated'' ''service_catalog_item'' (Some i)
            (w\<lparr>catalog := tput cat_id x' (catalog w)\<rparr>)))))))))"

definition list_catalog_items ::
  "id \<Rightarrow> string option \<Rightarrow> bool option \<Rightarrow> nat \<Rightarrow> nat \<Rightarrow> workshop \<Rightarrow> catalog_item list" where
  "list_catalog_items tenant category active limit offset w =
     take limit (drop offset (sort_key cat_code (filter (\<lambda>x. cat_tenant x = tenant
       \<and> (\<not> truthy category \<or> Some (cat_category x) = category)
       \<and> (active = None \<or> active = Some (cat_active x))) (catalog w))))"

definition list_work_bays :: "id \<Rightarrow> bool option \<Rightarrow> workshop \<Rightarrow> work_bay list" where
  "list_work_bays tenant active w =
     sort_key bay_name (filter (\<lambda>x. bay_tenant x = tenant \<and> (active = None \<or> active = Some (bay_active x)))
       (work_bays w))"

end
