(* ===== verification/Preventive.thy ===== *)
theory Preventive
  imports Workshop_Quotes
begin

text \<open>
  Preventive maintenance: plans, schedules, their periodic evaluation and conversion into work
  orders or quotes (\<^verbatim>\<open>workshop/preventive_service.py\<close>), and the older evaluation the daily job
  still runs (\<^verbatim>\<open>workshop/service.py\<close>). The tables are those of \<^verbatim>\<open>workshop/models.py\<close>, where a schedule has
  no constraint; the unique constraint and the check on its status that migrations keep are not modelled.
\<close>

section \<open>Plans and schedules\<close>

record plan_input =
  pli_name :: string
  pli_catalog :: "id option"
  pli_vehicle :: "id option"
  pli_interval_km :: "nat option"
  pli_interval_days :: "nat option"
  pli_scope :: string

definition create_maintenance_plan ::
  "id \<Rightarrow> plan_input \<Rightarrow> workshop \<Rightarrow> (plan \<times> workshop) res" where
  "create_maintenance_plan tenant p w =
     (if strip (pli_name p) = [] then Inl (ApiError ''invalid_name'' 400)
      else
        (let (i, w1) = wfresh w;
             x = \<lparr>plan_id = i, plan_tenant = tenant, plan_vehicle = pli_vehicle p,
               plan_catalog = pli_catalog p, plan_name = strip (pli_name p),
               plan_interval_km = pli_interval_km p, plan_interval_days = pli_interval_days p,
               plan_next_km = None, plan_next_at = None, plan_scope = pli_scope p,
               plan_status = ''active''\<rparr>
         in Inr (x, w1\<lparr>plans := tadd x (plans w1)\<rparr>)))"

text \<open>
  The operation of the same name in \<^verbatim>\<open>workshop/service.py\<close> reads attributes its payload does not
  have.
\<close>

definition service_create_maintenance_plan ::
  "id \<Rightarrow> plan_input \<Rightarrow> workshop \<Rightarrow> (plan \<times> workshop) res" where
  "service_create_maintenance_plan tenant p w =
     (if pli_interval_km p = None \<and> pli_interval_days p = None
      then Inl (ApiError ''maintenance_plan_interval_required'' 422)
      else case pli_vehicle p of
        None \<Rightarrow> Inl (ApiError ''vehicle_not_found'' 404)
      | Some v \<Rightarrow> rbind (require_wvehicle tenant v w) (\<lambda>_. Inl (PyError ''AttributeError'')))"

definition list_maintenance_plans :: "id \<Rightarrow> string option \<Rightarrow> workshop \<Rightarrow> plan list" where
  "list_maintenance_plans tenant scope w =
     sort_key plan_name (filter (\<lambda>p. plan_tenant p = tenant \<and> plan_status p = ''active''
       \<and> (\<not> truthy scope \<or> Some (plan_scope p) = scope \<or> plan_scope p = ''all'')) (plans w))"

definition open_statuses :: "string list" where
  "open_statuses = [''pending'', ''due'', ''overdue'']"

definition open_schedule :: "id \<Rightarrow> id \<Rightarrow> id \<Rightarrow> schedule \<Rightarrow> bool" where
  "open_schedule tenant vehicle plan s \<longleftrightarrow> sch_tenant s = tenant \<and> sch_vehicle s = vehicle
     \<and> sch_plan s = plan \<and> sch_status s \<in> set open_statuses"

definition new_schedule ::
  "id \<Rightarrow> id \<Rightarrow> id \<Rightarrow> id \<Rightarrow> int option \<Rightarrow> timestamp option \<Rightarrow> string \<Rightarrow> schedule" where
  "new_schedule i tenant plan vehicle km due st =
     \<lparr>sch_id = i, sch_tenant = tenant, sch_plan = plan, sch_vehicle = vehicle, sch_quote = None,
      sch_work_order = None, sch_due_km = km, sch_due_at = due, sch_notified_due = None,
      sch_notified_overdue = None, sch_status = st\<rparr>"

definition add_schedule :: "schedule \<Rightarrow> workshop \<Rightarrow> workshop" where
  "add_schedule s w = w\<lparr>schedules := tadd s (schedules w)\<rparr>"

definition put_schedule :: "schedule \<Rightarrow> workshop \<Rightarrow> workshop" where
  "put_schedule s w = w\<lparr>schedules := tput sch_id s (schedules w)\<rparr>"

text \<open>The next due kilometre and date of a plan, from a base; an interval of zero is none.\<close>

definition due_km :: "plan \<Rightarrow> int \<Rightarrow> int option" where
  "due_km p km = (case plan_interval_km p of None \<Rightarrow> None
     | Some n \<Rightarrow> if n = 0 then None else Some (km + int n))"

definition due_at :: "plan \<Rightarrow> timestamp \<Rightarrow> timestamp option" where
  "due_at p now = (case plan_interval_days p of None \<Rightarrow> None
     | Some n \<Rightarrow> if n = 0 then None else Some (add_days now (int n)))"

definition schedule_preventive_maintenance ::
  "id \<Rightarrow> id \<Rightarrow> id \<Rightarrow> int option \<Rightarrow> timestamp option \<Rightarrow> timestamp \<Rightarrow> workshop \<Rightarrow> (schedule \<times> workshop) res" where
  "schedule_preventive_maintenance tenant vehicle plan km base now w =
     (case owned plan_id plan_tenant tenant plan (plans w) of
        None \<Rightarrow> Inl (ApiError ''plan_not_found'' 404)
      | Some p \<Rightarrow>
          if plan_status p \<noteq> ''active'' then Inl (ApiError ''plan_not_found'' 404)
          else rbind (require_wvehicle tenant vehicle w) (\<lambda>v.
            case List.find (open_schedule tenant vehicle plan) (schedules w) of
              Some s \<Rightarrow> Inr (s, w)
            | None \<Rightarrow>
                (let (i, w1) = wfresh w;
                     s = new_schedule i tenant plan vehicle (due_km p (or_else km (veh_km v)))
                           (due_at p (or_else base now)) ''pending''
                 in Inr (s, add_schedule s w1))))"

section \<open>The periodic evaluation\<close>

definition km_due :: "plan \<Rightarrow> schedule \<Rightarrow> int \<Rightarrow> int \<Rightarrow> bool" where
  "km_due p s km margin \<longleftrightarrow> (case (sch_due_km s, plan_interval_km p) of
     (Some k, Some n) \<Rightarrow> n \<noteq> 0 \<and> k - margin \<le> km | _ \<Rightarrow> False)"

definition km_margin :: "plan \<Rightarrow> int" where
  "km_margin p = (case plan_interval_km p of None \<Rightarrow> 0 | Some n \<Rightarrow> int n div 10)"

definition date_due :: "schedule \<Rightarrow> timestamp \<Rightarrow> int \<Rightarrow> bool" where
  "date_due s now days \<longleftrightarrow> (case sch_due_at s of None \<Rightarrow> False | Some u \<Rightarrow> add_days u (- days) \<le> now)"

definition is_overdue :: "plan \<Rightarrow> vehicle \<Rightarrow> timestamp \<Rightarrow> schedule \<Rightarrow> bool" where
  "is_overdue p v now s \<longleftrightarrow> km_due p s (veh_km v) 0 \<or> date_due s now 0"

definition is_due :: "plan \<Rightarrow> vehicle \<Rightarrow> timestamp \<Rightarrow> schedule \<Rightarrow> bool" where
  "is_due p v now s \<longleftrightarrow> km_due p s (veh_km v) (km_margin p) \<or> date_due s now 14"

text \<open>One schedule: how many become due, overdue and notified, and the new row.\<close>

definition evaluate_schedule ::
  "plan \<Rightarrow> vehicle \<Rightarrow> timestamp \<Rightarrow> schedule \<Rightarrow> nat \<times> nat \<times> nat \<times> schedule" where
  "evaluate_schedule p v now s =
     (if is_overdue p v now s
      then (0, if sch_status s \<noteq> ''overdue'' then 1 else 0, if sch_notified_overdue s = None then 1 else 0,
            s\<lparr>sch_notified_overdue := (if sch_notified_overdue s = None then Some now else sch_notified_overdue s),
              sch_status := ''overdue''\<rparr>)
      else if is_due p v now s
      then (if sch_status s \<noteq> ''due'' then 1 else 0, 0, if sch_notified_due s = None then 1 else 0,
            s\<lparr>sch_notified_due := (if sch_notified_due s = None then Some now else sch_notified_due s),
              sch_status := ''due''\<rparr>)
      else (0, 0, 0, s))"

record evaluation =
  ev_evaluated :: nat
  ev_due :: nat
  ev_overdue :: nat
  ev_notified :: nat

definition evaluate_one ::
  "timestamp \<Rightarrow> schedule \<Rightarrow> evaluation \<times> workshop \<Rightarrow> evaluation \<times> workshop" where
  "evaluate_one now s = (\<lambda>(e, w).
     case (tget plan_id (sch_plan s) (plans w), tget veh_id (sch_vehicle s) (vehicles (core w))) of
       (Some p, Some v) \<Rightarrow>
         (let (a, b, c, s') = evaluate_schedule p v now s
          in (e\<lparr>ev_due := ev_due e + a, ev_overdue := ev_overdue e + b, ev_notified := ev_notified e + c\<rparr>,
              put_schedule s' w))
     | _ \<Rightarrow> (e, w))"

definition to_evaluate :: "id \<Rightarrow> workshop \<Rightarrow> schedule list" where
  "to_evaluate tenant w = filter (\<lambda>s. sch_tenant s = tenant \<and> sch_status s \<in> {''pending'', ''due''}) (schedules w)"

definition evaluate_preventive_schedules :: "id \<Rightarrow> timestamp \<Rightarrow> workshop \<Rightarrow> evaluation \<times> workshop" where
  "evaluate_preventive_schedules tenant now w =
     (let ss = to_evaluate tenant w
      in fold (evaluate_one now) ss
           (\<lparr>ev_evaluated = length ss, ev_due = 0, ev_overdue = 0, ev_notified = 0\<rparr>, w))"

section \<open>Conversion\<close>

datatype action_ref = To_order id | To_quote id

definition effective_scope :: "plan \<Rightarrow> vehicle \<Rightarrow> string" where
  "effective_scope p v =
     (if plan_scope p = ''all''
      then (if veh_customer v \<noteq> None \<or> veh_ownership v = ''customer'' then ''customer'' else ''fleet'')
      else plan_scope p)"

definition estimated_cost :: "plan \<Rightarrow> workshop \<Rightarrow> dec" where
  "estimated_cost p w =
     (case Option.bind (plan_catalog p) (\<lambda>c. tget cat_id c (catalog w)) of
        None \<Rightarrow> 0 | Some c \<Rightarrow> cat_price c)"

text \<open>\<^verbatim>\<open>strftime('%m%d%H%M%S')\<close> under the year the source writes out.\<close>

definition stamped_number :: "timestamp \<Rightarrow> string" where
  "stamped_number now = ''OS-2026-'' @ month_day now @ hms now"

definition convert_to_order ::
  "id \<Rightarrow> schedule \<Rightarrow> plan \<Rightarrow> vehicle \<Rightarrow> timestamp \<Rightarrow> workshop \<Rightarrow> (id \<times> workshop) res" where
  "convert_to_order tenant s p v now w =
     (let (i, w1) = wfresh w;
          x = (new_order i tenant (Some (veh_id v)) (stamped_number now) now)
                \<lparr>wo_status := ''approved'', wo_estimated := Some (estimated_cost p w)\<rparr>
      in rbind (flush_orders (add_order x w1)) (\<lambda>w2.
         let w3 = snd (add_task tenant i (''Revis'' @ [CHR 0xC3, CHR 0xA3] @ ''o Preventiva: '' @ plan_name p) w2)
         in Inr (i, put_schedule (s\<lparr>sch_work_order := Some i, sch_status := ''converted_to_wo''\<rparr>) w3)))"

definition convert_to_quote ::
  "id \<Rightarrow> schedule \<Rightarrow> plan \<Rightarrow> vehicle \<Rightarrow> id option \<Rightarrow> timestamp \<Rightarrow> workshop \<Rightarrow> (id \<times> workshop) res" where
  "convert_to_quote tenant s p v actor now w =
     (case veh_customer v of
        None \<Rightarrow> Inl (ApiError ''client_required'' 409)
      | Some c \<Rightarrow>
          (let est = estimated_cost p w;
               line = \<lparr>qii_type = ''labor'',
                 qii_description = ''Revis'' @ [CHR 0xC3, CHR 0xA3] @ ''o Preventiva Recomendada: '' @ plan_name p,
                 qii_part = None, qii_quantity = 1, qii_price = (if 0 < est then est else 1000)\<rparr>;
               q = \<lparr>qci_vehicle = veh_id v, qci_client = Some c, qci_reception = None,
                 qci_supplemental = False, qci_work_order = None, qci_valid_until = None, qci_tax = 0,
                 qci_notes = Some (''Or'' @ [CHR 0xC3, CHR 0xA7] @ ''amento rascunho de preventiva gerado automaticamente para o plano ''
                   @ plan_name p @ ''.''), qci_items = [line]\<rparr>
           in rbind (create_quote tenant q actor now w) (\<lambda>(x, w1).
                Inr (quo_id x, put_schedule (s\<lparr>sch_quote := Some (quo_id x), sch_status := ''converted_to_quote''\<rparr>) w1))))"

text \<open>The reference, whether it was there already, and the state.\<close>

definition convert_schedule_to_action ::
  "id \<Rightarrow> id \<Rightarrow> id option \<Rightarrow> timestamp \<Rightarrow> workshop \<Rightarrow> ((action_ref option \<times> bool) \<times> workshop) res" where
  "convert_schedule_to_action tenant i actor now w =
     rbind (of_opt (ApiError ''schedule_not_found'' 404) (owned sch_id sch_tenant tenant i (schedules w))) (\<lambda>s.
     if sch_status s = ''converted_to_wo'' then Inr ((map_option To_order (sch_work_order s), True), w)
     else if sch_status s = ''converted_to_quote'' then Inr ((map_option To_quote (sch_quote s), True), w)
     else case (tget plan_id (sch_plan s) (plans w), tget veh_id (sch_vehicle s) (vehicles (core w))) of
       (Some p, Some v) \<Rightarrow>
         if effective_scope p v = ''fleet''
         then rbind (convert_to_order tenant s p v now w) (\<lambda>(o', w1). Inr ((Some (To_order o'), False), w1))
         else rbind (convert_to_quote tenant s p v actor now w) (\<lambda>(q, w1). Inr ((Some (To_quote q), False), w1))
     | _ \<Rightarrow> Inl (ApiError ''invalid_schedule_references'' 422))"

section \<open>Completion\<close>

definition active_statuses :: "string list" where
  "active_statuses = [''pending'', ''due'', ''overdue'', ''converted_to_wo'', ''converted_to_quote'']"

definition complete_schedule ::
  "id \<Rightarrow> vehicle \<Rightarrow> timestamp \<Rightarrow> schedule \<Rightarrow> nat \<times> workshop \<Rightarrow> (err \<times> workshop) + (nat \<times> workshop)" where
  "complete_schedule tenant v now s = (\<lambda>(n, w).
     (let w1 = put_schedule (s\<lparr>sch_status := ''completed''\<rparr>) w in
      case schedule_preventive_maintenance tenant (veh_id v) (sch_plan s) (Some (veh_km v)) (Some now) now w1 of
        Inl e \<Rightarrow> Inl (e, w1)
      | Inr (_, w2) \<Rightarrow> Inr (Suc n, w2)))"

definition vehicle_schedules :: "id \<Rightarrow> id \<Rightarrow> workshop \<Rightarrow> schedule list" where
  "vehicle_schedules tenant v w = filter (\<lambda>s. sch_tenant s = tenant \<and> sch_vehicle s = v
     \<and> sch_status s \<in> set active_statuses) (schedules w)"

text \<open>
  Completed schedules and new ones, or the error and the state it leaves pending: the caller
  swallows the error and commits what is there.
\<close>

definition handle_work_order_completion ::
  "id \<Rightarrow> id \<Rightarrow> timestamp \<Rightarrow> workshop \<Rightarrow> (err \<times> workshop) + ((nat \<times> nat) \<times> workshop)" where
  "handle_work_order_completion tenant wo now w =
     (case Option.bind (owned wo_id wo_tenant tenant wo (work_orders (core w)))
             (\<lambda>x. Option.bind (wo_vehicle x) (\<lambda>v. tget veh_id v (vehicles (core w)))) of
        None \<Rightarrow> Inr ((0, 0), w)
      | Some v \<Rightarrow>
          (let ss = vehicle_schedules tenant (veh_id v) w in
           case rfold (complete_schedule tenant v now) ss (0, w) of
             Inl (e, w1) \<Rightarrow> Inl (e, w1)
           | Inr (n, w1) \<Rightarrow> Inr ((length ss, n), w1)))"

section \<open>The daily job\<close>

text \<open>
  \<^verbatim>\<open>evaluate_maintenance_schedule\<close> of \<^verbatim>\<open>workshop/service.py\<close>: it looks at the due columns of
  the plans themselves, with their own vehicle.
\<close>

definition plan_overdue :: "plan \<Rightarrow> vehicle \<Rightarrow> timestamp \<Rightarrow> bool" where
  "plan_overdue p v now \<longleftrightarrow> (case plan_next_km p of None \<Rightarrow> False | Some k \<Rightarrow> k \<le> veh_km v)
     \<or> (case plan_next_at p of None \<Rightarrow> False | Some u \<Rightarrow> u \<le> now)"

definition overdue_schedule :: "id \<Rightarrow> plan \<Rightarrow> id \<Rightarrow> workshop \<Rightarrow> (nat \<times> id) \<times> workshop" where
  "overdue_schedule tenant p v w =
     (case List.find (\<lambda>s. sch_tenant s = tenant \<and> sch_plan s = plan_id p \<and> sch_status s = ''overdue'')
             (schedules w) of
        Some s \<Rightarrow> ((0, sch_id s), w)
      | None \<Rightarrow>
          (let (i, w1) = wfresh w;
               s = new_schedule i tenant (plan_id p) v (plan_next_km p) (plan_next_at p) ''overdue''
           in ((1, i), add_schedule s w1)))"

text \<open>The seconds of the clock end the number, which is unique per tenant.\<close>

definition trigger_maintenance_work_order ::
  "id \<Rightarrow> plan \<Rightarrow> vehicle \<Rightarrow> id option \<Rightarrow> timestamp \<Rightarrow> workshop \<Rightarrow> workshop res" where
  "trigger_maintenance_work_order tenant p v actor now w =
     (if list_ex (\<lambda>x. wo_tenant x = tenant \<and> wo_vehicle x = plan_vehicle p \<and> wo_plan x = Some (plan_id p)
            \<and> wo_status x \<notin> {''closed'', ''cancelled''}) (work_orders (core w))
      then Inr w
      else
        (let (i, w1) = wfresh w;
             x = (new_order i tenant (plan_vehicle p)
                    (''MAINT-'' @ show_nat (plan_id p) @ ''-'' @ show_int (now div 1000000)) now)
                   \<lparr>wo_plan := Some (plan_id p)\<rparr>
         in rbind (flush_orders (add_order x w1)) (\<lambda>w2.
            Inr (waudit tenant actor ''work_order.created_from_maintenance_plan'' ''work_order'' (Some i) w2))))"

definition next_cycle :: "id \<Rightarrow> plan \<Rightarrow> vehicle \<Rightarrow> timestamp \<Rightarrow> workshop \<Rightarrow> workshop" where
  "next_cycle tenant p v now w =
     (if list_ex (\<lambda>s. sch_tenant s = tenant \<and> sch_plan s = plan_id p \<and> sch_status s = ''pending'') (schedules w)
      then w
      else
        (let (i, w1) = wfresh w
         in add_schedule (new_schedule i tenant (plan_id p) (veh_id v)
              (map_option (\<lambda>n. veh_km v + int n) (plan_interval_km p))
              (map_option (\<lambda>n. add_days now (int n)) (plan_interval_days p)) ''pending'') w1))"

definition evaluate_plan ::
  "id \<Rightarrow> id option \<Rightarrow> timestamp \<Rightarrow> plan \<times> vehicle \<Rightarrow> nat \<times> workshop \<Rightarrow> (nat \<times> workshop) res" where
  "evaluate_plan tenant actor now = (\<lambda>(p, v) (n, w).
     if \<not> plan_overdue p v now then Inr (n, w)
     else
       (let ((k, s), w1) = overdue_schedule tenant p (veh_id v) w;
            w2 = (if k = 0 then w1 else waudit tenant actor ''maintenance_schedule.overdue''
                    ''maintenance_plan'' (Some (plan_id p)) w1)
        in rbind (on_core (ensure_exception tenant ''maintenance_plan'' (plan_id p) ''maintenance_overdue''
                   ''high'' actor (Some ''maintenance_schedule'') (Some s)) w2) (\<lambda>(_, w3).
           rbind (trigger_maintenance_work_order tenant p v actor now w3) (\<lambda>w4.
           Inr (n + k, next_cycle tenant p v now w4)))))"

definition plans_with_vehicles :: "id \<Rightarrow> workshop \<Rightarrow> (plan \<times> vehicle) list" where
  "plans_with_vehicles tenant w = List.map_filter (\<lambda>p.
     map_option (Pair p) (Option.bind (plan_vehicle p) (\<lambda>v. tget veh_id v (vehicles (core w)))))
     (filter (\<lambda>p. plan_tenant p = tenant \<and> plan_status p = ''active'') (plans w))"

definition evaluate_maintenance_schedule ::
  "id \<Rightarrow> id option \<Rightarrow> timestamp \<Rightarrow> workshop \<Rightarrow> (nat \<times> workshop) res" where
  "evaluate_maintenance_schedule tenant actor now w =
     rfold (evaluate_plan tenant actor now) (plans_with_vehicles tenant w) (0, w)"

definition evaluate_all_tenants :: "timestamp \<Rightarrow> workshop \<Rightarrow> (nat \<times> workshop) res" where
  "evaluate_all_tenants now w =
     rfold (\<lambda>t (n, w). rbind (evaluate_maintenance_schedule (ten_id t) None now w) (\<lambda>(k, w'). Inr (n + k, w')))
       (filter ten_active (tenants (core w))) (0, w)"

datatype trigger = Overdue | Calendar | Odometer

text \<open>Plans due within some days or kilometres, and why.\<close>

definition imminent :: "plan \<Rightarrow> vehicle \<Rightarrow> timestamp \<Rightarrow> int \<Rightarrow> int \<Rightarrow> bool" where
  "imminent p v now days km \<longleftrightarrow>
     (case plan_next_at p of None \<Rightarrow> False | Some u \<Rightarrow> u \<le> add_days now days)
     \<or> (case plan_next_km p of None \<Rightarrow> False | Some k \<Rightarrow> k \<le> veh_km v + km)"

definition trigger_of :: "plan \<Rightarrow> vehicle \<Rightarrow> timestamp \<Rightarrow> int \<Rightarrow> trigger" where
  "trigger_of p v now days =
     (if (case plan_next_at p of None \<Rightarrow> False | Some u \<Rightarrow> u < now)
         \<or> (case plan_next_km p of None \<Rightarrow> False | Some k \<Rightarrow> k \<le> veh_km v) then Overdue
      else if (case plan_next_at p of None \<Rightarrow> False | Some u \<Rightarrow> u \<le> add_days now days) then Calendar
      else Odometer)"

definition get_imminent_maintenance_alerts ::
  "id \<Rightarrow> int \<Rightarrow> int \<Rightarrow> timestamp \<Rightarrow> workshop \<Rightarrow> (id \<times> id \<times> trigger) list" where
  "get_imminent_maintenance_alerts tenant days km now w =
     map (\<lambda>(p, v). (plan_id p, veh_id v, trigger_of p v now days))
       (filter (\<lambda>(p, v). imminent p v now days km) (plans_with_vehicles tenant w))"

end
