(* ===== verification/Workshop_Billing.thy ===== *)
theory Workshop_Billing
  imports Preventive
begin

text \<open>
  The invoice of a work order (\<^verbatim>\<open>workshop/workshop_billing_service.py\<close>), and the two ends of an
  order, which involve it: closing (\<^verbatim>\<open>workshop/service.py\<close>) and cancelling
  (\<^verbatim>\<open>workshop/inventory_service.py\<close>).
\<close>

section \<open>What an order is charged\<close>

definition billed_order :: "id \<Rightarrow> id \<Rightarrow> db \<Rightarrow> billing_doc option" where
  "billed_order tenant wo d =
     Option.bind (List.find (\<lambda>x. item_tenant x = tenant \<and> item_work_order x = Some wo) (items d))
       (\<lambda>x. tget bill_id (item_doc x) (bills d))"

definition converted_quotes :: "id \<Rightarrow> work_order \<Rightarrow> workshop \<Rightarrow> quote list" where
  "converted_quotes tenant x w = filter (\<lambda>q. quo_tenant q = tenant \<and> quo_status q = Q_converted
     \<and> (quo_work_order q = Some (wo_id x) \<or> (wo_reception x \<noteq> None \<and> quo_reception q = wo_reception x)))
     (quotes w)"

definition price_key :: "string \<Rightarrow> string" where
  "price_key s = casefold (strip s)"

text \<open>The approved prices by description; a later line of the same description wins.\<close>

definition approved_items :: "id \<Rightarrow> work_order \<Rightarrow> workshop \<Rightarrow> quote_item list" where
  "approved_items tenant x w = concat (map (\<lambda>q. filter (\<lambda>i. qit_quote i = quo_id q) (quote_items w))
     (converted_quotes tenant x w))"

definition approved_prices :: "id \<Rightarrow> work_order \<Rightarrow> workshop \<Rightarrow> string \<Rightarrow> dec option" where
  "approved_prices tenant x w =
     foldl (\<lambda>m i. m(price_key (qit_description i) \<mapsto> qit_price i)) Map.empty (approved_items tenant x w)"

definition quoted :: "(string \<Rightarrow> dec option) \<Rightarrow> string \<Rightarrow> dec option" where
  "quoted prices s = (case prices (price_key s) of None \<Rightarrow> None | Some p \<Rightarrow> if p = 0 then None else Some p)"

text \<open>The newest rate of the mechanic, whatever day it begins.\<close>

definition latest_rate :: "id \<Rightarrow> id option \<Rightarrow> workshop \<Rightarrow> dec" where
  "latest_rate tenant user w = (case user of
     None \<Rightarrow> 0
   | Some u \<Rightarrow> (case newest rate_from (filter (\<lambda>r. rate_tenant r = tenant \<and> rate_user r = u) (staff_rates w)) of
       None \<Rightarrow> 0 | Some r \<Rightarrow> rate_hourly r))"

definition truthy_nat :: "nat option \<Rightarrow> nat option \<Rightarrow> nat" where
  "truthy_nat a b = (case a of Some (Suc n) \<Rightarrow> Suc n | _ \<Rightarrow> or_else b 0)"

section \<open>The lines\<close>

text \<open>A line of the invoice before it has an identifier.\<close>

record wline =
  wl_at :: timestamp
  wl_quantity :: dec
  wl_price :: dec
  wl_amount :: dec
  wl_source :: string

definition labor_line ::
  "id \<Rightarrow> (string \<Rightarrow> dec option) \<Rightarrow> timestamp \<Rightarrow> workshop \<Rightarrow> work_task \<Rightarrow> wline option" where
  "labor_line tenant prices now w t =
     (let mins = truthy_nat (task_actual t) (task_estimated t);
          hours = dec_div (of_nat mins) 60;
          rate = latest_rate tenant (task_completed_by t) w;
          done_at = or_else (task_completed_at t) now
      in if mins = 0 then None
         else case quoted prices (task_description t) of
           Some p \<Rightarrow> Some \<lparr>wl_at = done_at, wl_quantity = hours, wl_price = p, wl_amount = p,
             wl_source = ''workshop_labor''\<rparr>
         | None \<Rightarrow>
             if 0 < rate
             then Some \<lparr>wl_at = done_at, wl_quantity = hours, wl_price = rate,
               wl_amount = q2 (dec_mul hours rate), wl_source = ''workshop_labor''\<rparr>
             else None)"

definition part_title :: "id \<Rightarrow> workshop \<Rightarrow> string" where
  "part_title i w = (case tget part_id i (parts w) of
     None \<Rightarrow> ''Pe'' @ [CHR 0xC3, CHR 0xA7] @ ''a'' | Some p \<Rightarrow> part_name p)"

definition used_cost :: "part_used \<Rightarrow> workshop \<Rightarrow> dec" where
  "used_cost u w = (if pu_unit_cost u \<noteq> None \<and> pu_unit_cost u \<noteq> Some 0 then the (pu_unit_cost u)
     else (case tget part_id (pu_part u) (parts w) of None \<Rightarrow> 0 | Some p \<Rightarrow> part_average p))"

definition part_line :: "(string \<Rightarrow> dec option) \<Rightarrow> workshop \<Rightarrow> part_used \<Rightarrow> wline" where
  "part_line prices w u =
     (let price = or_else (quoted prices (part_title (pu_part u) w)) (used_cost u w)
      in \<lparr>wl_at = pu_issued_at u, wl_quantity = pu_quantity u, wl_price = price,
          wl_amount = q2 (pu_quantity u * price), wl_source = ''workshop_part''\<rparr>)"

definition completed_tasks :: "id \<Rightarrow> id \<Rightarrow> workshop \<Rightarrow> work_task list" where
  "completed_tasks tenant wo w = filter (\<lambda>t. task_tenant t = tenant \<and> task_work_order t = wo
     \<and> task_status t = ''completed'') (work_tasks w)"

definition used_parts :: "id \<Rightarrow> id \<Rightarrow> workshop \<Rightarrow> part_used list" where
  "used_parts tenant wo w = filter (\<lambda>u. pu_tenant u = tenant \<and> pu_work_order u = wo) (parts_used w)"

definition invoice_lines :: "id \<Rightarrow> work_order \<Rightarrow> timestamp \<Rightarrow> workshop \<Rightarrow> wline list" where
  "invoice_lines tenant x now w =
     (let prices = approved_prices tenant x w
      in List.map_filter (labor_line tenant prices now w) (completed_tasks tenant (wo_id x) w)
         @ map (part_line prices w) (used_parts tenant (wo_id x) w))"

definition iva_standard :: dec where
  "iva_standard = 16 / 100"

definition order_item :: "id \<Rightarrow> id \<Rightarrow> id \<Rightarrow> id \<Rightarrow> wline \<Rightarrow> billing_item" where
  "order_item i tenant doc wo l =
     \<lparr>item_id = i, item_tenant = tenant, item_contract = None, item_doc = doc, item_trip = None,
      item_permit = None, item_manifest = None, item_transport = None, item_proof = None,
      item_origin = None, item_destination = None, item_delivered_at = wl_at l,
      item_quantity = Some (column 2 (wl_quantity l)), item_unit_price = Some (column 2 (wl_price l)),
      item_amount = column 2 (wl_amount l), item_status = ''draft'', item_iva_rate = Some iva_standard,
      item_iva_basis = Some ''standard_16'', item_iva_amount = Some (q2 (wl_amount l * iva_standard)),
      item_work_order = Some wo, item_source = wl_source l\<rparr>"

fun number_items :: "id \<Rightarrow> id \<Rightarrow> id \<Rightarrow> id \<Rightarrow> wline list \<Rightarrow> billing_item list" where
  "number_items i tenant doc wo [] = []"
| "number_items i tenant doc wo (l # ls) = order_item i tenant doc wo l # number_items (Suc i) tenant doc wo ls"

section \<open>The draft\<close>

definition order_client :: "id \<Rightarrow> work_order \<Rightarrow> workshop \<Rightarrow> id option" where
  "order_client tenant x w =
     (case Option.bind (Option.bind (wo_vehicle x) (\<lambda>v. tget veh_id v (vehicles (core w)))) veh_customer of
        Some c \<Rightarrow> Some c
      | None \<Rightarrow> (case converted_quotes tenant x w of [] \<Rightarrow> None | q # _ \<Rightarrow> quo_client q))"

definition first_quote :: "id \<Rightarrow> work_order \<Rightarrow> workshop \<Rightarrow> id option" where
  "first_quote tenant x w = (case converted_quotes tenant x w of [] \<Rightarrow> None | q # _ \<Rightarrow> Some (quo_id q))"

definition order_draft :: "id \<Rightarrow> id \<Rightarrow> work_order \<Rightarrow> timestamp \<Rightarrow> workshop \<Rightarrow> billing_doc" where
  "order_draft i tenant x now w =
     (let c = order_client tenant x w;
          cl = Option.bind c (\<lambda>k. tget cli_id k (clients (core w)));
          t = tget ten_id tenant (tenants (core w))
      in (new_bill i tenant (case cl of None \<Rightarrow> ''Cliente Particular'' | Some k \<Rightarrow> cli_trading_name k)
            (wo_created x) now)
           \<lparr>bill_client := c, bill_contract_reference := Some (wo_number x), bill_iva_rate := Some iva_standard,
            bill_iva_basis := Some ''standard_16'', bill_client_nuit := map_option cli_nuit cl,
            bill_issuer_name := map_option ten_name t, bill_issuer_nuit := Option.bind t ten_nuit,
            bill_source := ''workshop'', bill_reception := wo_reception x,
            bill_quote := first_quote tenant x w\<rparr>)"

definition order_totals :: "wline list \<Rightarrow> billing_doc \<Rightarrow> billing_doc" where
  "order_totals ls b =
     (let s = (\<Sum>l\<leftarrow>ls. wl_amount l); t = q2 (s * iva_standard)
      in b\<lparr>bill_subtotal := s, bill_tax := t, bill_total := s + t\<rparr>)"

definition insert_order_bill :: "billing_doc \<Rightarrow> billing_item list \<Rightarrow> workshop \<Rightarrow> workshop" where
  "insert_order_bill b is w =
     w\<lparr>core := (core w)\<lparr>bills := tadd b (bills (core w)), items := items (core w) @ is,
        db_next := Suc (bill_id b) + length is\<rparr>\<rparr>"

definition draft_order_invoice ::
  "id \<Rightarrow> work_order \<Rightarrow> id option \<Rightarrow> timestamp \<Rightarrow> workshop \<Rightarrow> (billing_doc \<times> workshop) res" where
  "draft_order_invoice tenant x actor now w =
     (let i = wnext w; ls = invoice_lines tenant x now w;
          b = snapshot_profile (order_totals ls (order_draft i tenant x now w)) tenant (core w);
          w1 = insert_order_bill b (number_items (Suc i) tenant i (wo_id x) ls) w
      in rbind (flush_bills (core w1)) (\<lambda>d.
         Inr (b, waudit tenant actor ''workshop_invoice.draft_created'' ''billing_document'' (Some i) (w1\<lparr>core := d\<rparr>))))"

definition create_workshop_invoice ::
  "id \<Rightarrow> id \<Rightarrow> id option \<Rightarrow> timestamp \<Rightarrow> workshop \<Rightarrow> (billing_doc \<times> workshop) res" where
  "create_workshop_invoice tenant wo actor now w =
     (case billed_order tenant wo (core w) of
        Some b \<Rightarrow> Inr (b, w)
      | None \<Rightarrow> rbind (require_wo tenant wo w) (\<lambda>x.
          if wo_status x \<notin> {''quality_check'', ''closed''}
          then Inl (ApiError ''work_order_not_closable'' 409)
          else draft_order_invoice tenant x actor now w))"

definition confirm_workshop_invoice ::
  "id \<Rightarrow> id \<Rightarrow> id option \<Rightarrow> timestamp \<Rightarrow> workshop \<Rightarrow> (billing_doc \<times> workshop) res" where
  "confirm_workshop_invoice tenant i actor now w =
     rbind (of_opt (ApiError ''document_not_found'' 404) (owned bill_id bill_tenant tenant i (bills (core w)))) (\<lambda>b.
     if bill_source b \<noteq> ''workshop'' then Inl (ApiError ''not_workshop_document'' 409)
     else if bill_status b = D_issued then Inr (b, w)
     else if bill_status b \<noteq> D_draft then Inl (ApiError ''invalid_document_status'' 409)
     else if bill_total b \<le> 0 then Inl (ApiError ''empty_invoice'' 422)
     else
       (let (b1, d) = assign_invoice_number b tenant (core w);
            b2 = b1\<lparr>bill_status := D_issued, bill_issued_at := Some now\<rparr>
        in Inr (b2, waudit tenant actor ''workshop_invoice.issued'' ''billing_document'' (Some i)
             (w\<lparr>core := put_bill b2 d\<rparr>))))"

section \<open>Closing and cancelling an order\<close>

definition order_cost :: "work_order \<Rightarrow> id \<Rightarrow> timestamp \<Rightarrow> dec \<Rightarrow> cost_input" where
  "order_cost x trip now amount =
     \<lparr>ci_trip = trip, ci_type = ''workshop_maintenance'', ci_amount = amount,
      ci_reference = ''work-order:'' @ show_nat (wo_id x), ci_incurred_at = now,
      ci_description = wo_close_notes x, ci_currency = ''MZN'', ci_paid_by = ''company'',
      ci_payment_method = None, ci_receipt_file = None, ci_source_type = ''work_order'',
      ci_source = Some (wo_id x)\<rparr>"

text \<open>The cost of an order goes to the trip of the request it came from.\<close>

definition charge_order_trip :: "id \<Rightarrow> work_order \<Rightarrow> dec option \<Rightarrow> id option \<Rightarrow> timestamp \<Rightarrow> workshop \<Rightarrow> workshop res" where
  "charge_order_trip tenant x cost actor now w =
     (case (wo_request x, cost) of
        (Some r, Some c) \<Rightarrow> rbind (require_maintenance_request tenant r w) (\<lambda>m.
          case mr_trip m of
            None \<Rightarrow> Inr w
          | Some t \<Rightarrow> rbind (on_core (record_trip_cost tenant (order_cost x t now c) actor now) w) (\<lambda>(_, w1). Inr w1))
      | _ \<Rightarrow> Inr w)"

text \<open>
  The draft of the invoice is tried and an \<^verbatim>\<open>ApiError\<close> of it swallowed; a failed flush leaves the
  session unusable, so the commit at the end fails.
\<close>

definition invoice_on_close :: "id \<Rightarrow> work_order \<Rightarrow> id option \<Rightarrow> timestamp \<Rightarrow> workshop \<Rightarrow> workshop res" where
  "invoice_on_close tenant x actor now w =
     (if wo_origin x \<notin> {''reception'', ''quote'', ''warranty''} then Inr w
      else case create_workshop_invoice tenant (wo_id x) actor now w of
        Inr (_, w1) \<Rightarrow> Inr w1
      | Inl (ApiError _ _) \<Rightarrow> Inr w
      | Inl (PyError _) \<Rightarrow> Inl (PyError ''PendingRollbackError''))"

definition restart_preventive :: "id \<Rightarrow> id \<Rightarrow> timestamp \<Rightarrow> workshop \<Rightarrow> workshop" where
  "restart_preventive tenant wo now w =
     (case handle_work_order_completion tenant wo now w of Inl (_, w1) \<Rightarrow> w1 | Inr (_, w1) \<Rightarrow> w1)"

definition close_work_order ::
  "id \<Rightarrow> id \<Rightarrow> dec option \<Rightarrow> string option \<Rightarrow> id option \<Rightarrow> timestamp \<Rightarrow> workshop
    \<Rightarrow> (work_order \<times> workshop) res" where
  "close_work_order tenant i cost remarks actor now w =
     rbind (require_wo tenant i w) (\<lambda>x.
     if wo_status x = ''closed'' then Inr (x, w)
     else if wo_status x \<noteq> ''quality_check'' then Inl (ApiError ''invalid_work_order_status'' 409)
     else
       (let x' = x\<lparr>wo_status := ''closed'', wo_actual := map_option (column 2) cost, wo_close_notes := remarks,
              wo_closed_by := actor, wo_closed_at := Some now\<rparr>
        in rbind (charge_order_trip tenant x' cost actor now (put_wo x' w)) (\<lambda>w1.
           rbind (invoice_on_close tenant x' actor now
                    (waudit tenant actor ''work_order.closed'' ''work_order'' (Some i) w1)) (\<lambda>w2.
           Inr (x', restart_preventive tenant i now w2)))))"

definition cancel_drafts :: "id \<Rightarrow> string \<Rightarrow> string \<Rightarrow> billing_doc \<Rightarrow> billing_doc" where
  "cancel_drafts tenant number reason b =
     (if bill_tenant b = tenant \<and> bill_source b = ''workshop'' \<and> bill_status b = D_draft
         \<and> bill_contract_reference b = Some number
      then b\<lparr>bill_status := D_cancelled,
             bill_cancellation := Some (''OS '' @ number @ '' cancelada: '' @ reason)\<rparr>
      else b)"

definition cancel_work_order ::
  "id \<Rightarrow> id \<Rightarrow> string \<Rightarrow> id option \<Rightarrow> workshop \<Rightarrow> (work_order \<times> workshop) res" where
  "cancel_work_order tenant i reason actor w =
     rbind (require_wo tenant i w) (\<lambda>x.
     if wo_status x \<in> {''closed'', ''cancelled''} then Inl (ApiError ''invalid_work_order_status'' 409)
     else
       (let x' = x\<lparr>wo_status := ''cancelled'', wo_close_notes := Some (''Cancelada: '' @ reason)\<rparr>;
            w1 = snd (release_reservations tenant None (Some i) (put_wo x' w))
        in Inr (x', waudit tenant actor ''work_order.cancelled'' ''work_order'' (Some i)
             (w1\<lparr>core := (core w1)\<lparr>bills := map (cancel_drafts tenant (wo_number x) reason) (bills (core w1))\<rparr>\<rparr>))))"

end
