(* ===== verification/Workshop_Life.thy ===== *)
theory Workshop_Life
  imports Workshop_Billing Trip_Dispatch
begin

text \<open>
  The life of a work order across every operation that writes one: its status follows one table,
  closed and cancelled are final, an order does not reach the quality check with a tool out, and a
  tool is out once at a time. Each operation is shown to be a sequence of elementary changes of the
  tables of orders and checkouts; the properties are proved of the changes.
\<close>

section \<open>The table of an order\<close>

definition order_moves :: "string \<Rightarrow> string list" where
  "order_moves s =
     (if s = ''draft'' then [''approved'', ''cancelled'']
      else if s = ''approved'' then [''in_progress'', ''cancelled'']
      else if s = ''in_progress'' then [''quality_check'', ''cancelled'']
      else if s = ''quality_check'' then [''closed'', ''cancelled'']
      else if s = ''closed'' \<or> s = ''cancelled'' then []
      else [''cancelled''])"

interpretation order_table: transition_table order_moves "''draft''" "\<lambda>s. s \<in> {''closed'', ''cancelled''}"
  by unfold_locales (auto simp: order_moves_def split: if_splits)

section \<open>Elementary changes\<close>

definition out :: "checkout \<Rightarrow> bool" where
  "out c \<longleftrightarrow> chk_status c = ''checked_out''"

text \<open>The operation leaves orders and checkouts alone.\<close>

definition same_orders :: "workshop \<Rightarrow> workshop \<Rightarrow> bool" where
  "same_orders w w' \<longleftrightarrow> work_orders (core w') = work_orders (core w) \<and> checkouts w' = checkouts w"

definition moved_row :: "work_order \<Rightarrow> workshop \<Rightarrow> bool" where
  "moved_row x w \<longleftrightarrow> (\<exists>x0. tget wo_id (wo_id x) (work_orders (core w)) = Some x0
     \<and> wo_tenant x = wo_tenant x0 \<and> wo_vehicle x = wo_vehicle x0 \<and> (wo_status x = wo_status x0 \<or> wo_status x \<in> set (order_moves (wo_status x0)))
     \<and> (wo_status x = ''quality_check'' \<longrightarrow> wo_status x0 = ''quality_check''
          \<or> \<not> active_checkout (wo_tenant x) (wo_id x) w))"

inductive order_change :: "workshop \<Rightarrow> workshop \<Rightarrow> bool" where
  chg_same: "same_orders w w' \<Longrightarrow> order_change w w'"
| chg_new: "work_orders (core w') = tadd x (work_orders (core w)) \<Longrightarrow> checkouts w' = checkouts w
    \<Longrightarrow> order_change w w'"
| chg_move: "work_orders (core w') = tput wo_id x (work_orders (core w)) \<Longrightarrow> moved_row x w
    \<Longrightarrow> checkouts w' = checkouts w \<Longrightarrow> order_change w w'"
| chg_out: "work_orders (core w') = work_orders (core w) \<Longrightarrow> checkouts w' = tadd c (checkouts w)
    \<Longrightarrow> owned wo_id wo_tenant (chk_tenant c) (chk_work_order c) (work_orders (core w)) = Some x
    \<Longrightarrow> wo_status x = ''in_progress'' \<Longrightarrow> checkouts_unique (checkouts w') \<Longrightarrow> order_change w w'"
| chg_back: "work_orders (core w') = work_orders (core w) \<Longrightarrow> checkouts w' = tput chk_id c (checkouts w)
    \<Longrightarrow> \<not> out c \<Longrightarrow> order_change w w'"

lemma same_orders_refl [simp]: "same_orders w w"
  by (simp add: same_orders_def)

lemma same_orders_trans: "same_orders u v \<Longrightarrow> same_orders v w \<Longrightarrow> same_orders u w"
  by (simp add: same_orders_def)

lemma same_orders_audit [simp]: "same_orders w (waudit t a x e i v) = same_orders w v"
  by (simp add: same_orders_def)

lemma fold_same_orders: "(\<And>x v. same_orders v (f x v)) \<Longrightarrow> same_orders w (fold f xs w)"
  by (induction xs arbitrary: w) (auto intro: same_orders_trans)

text \<open>An operation that is one change but for tables outside orders and checkouts.\<close>

lemma change_then_same: "order_change u v \<Longrightarrow> same_orders v w \<Longrightarrow> order_change u w"
  by (erule order_change.cases) (auto simp: same_orders_def intro: order_change.intros)

lemma same_then_change: "same_orders u v \<Longrightarrow> order_change v w \<Longrightarrow> order_change u w"
  by (erule order_change.cases)
    (auto simp: same_orders_def moved_row_def active_checkout_def intro: order_change.intros)

section \<open>What a change keeps\<close>

definition orders_follow :: "work_order list \<Rightarrow> work_order list \<Rightarrow> bool" where
  "orders_follow xs ys \<longleftrightarrow> (\<forall>i x. tget wo_id i xs = Some x \<longrightarrow> (\<exists>y. tget wo_id i ys = Some y
     \<and> wo_tenant y = wo_tenant x \<and> wo_vehicle y = wo_vehicle x \<and> path order_moves (wo_status x) (wo_status y)))"

text \<open>A tool is out for an order in progress, or one cancelled since.\<close>

definition tools_with_orders :: "workshop \<Rightarrow> bool" where
  "tools_with_orders w \<longleftrightarrow> (\<forall>c\<in>set (checkouts w). out c \<longrightarrow>
     (\<exists>x. owned wo_id wo_tenant (chk_tenant c) (chk_work_order c) (work_orders (core w)) = Some x
        \<and> wo_status x \<in> {''in_progress'', ''cancelled''}))"

lemma orders_follow_refl [simp]: "orders_follow xs xs"
  by (simp add: orders_follow_def path_refl)

lemma orders_follow_trans: "orders_follow xs ys \<Longrightarrow> orders_follow ys zs \<Longrightarrow> orders_follow xs zs"
  unfolding orders_follow_def by (force intro: order_table.path_trans)

lemma change_follow: "order_change w w' \<Longrightarrow> orders_follow (work_orders (core w)) (work_orders (core w'))"
proof (induction rule: order_change.induct)
  case (chg_new w' x w)
  then show ?case
    by (fastforce simp: orders_follow_def tget_tadd intro: path_refl)
next
  case (chg_move w' x w)
  from chg_move(2) obtain x0 where x0: "tget wo_id (wo_id x) (work_orders (core w)) = Some x0"
      "wo_tenant x = wo_tenant x0 \<and> wo_vehicle x = wo_vehicle x0"
      "wo_status x = wo_status x0 \<or> wo_status x \<in> set (order_moves (wo_status x0))"
    by (auto simp: moved_row_def)
  from x0(3) have "path order_moves (wo_status x0) (wo_status x)"
    by (metis path_refl path_step)
  with x0(1,2) chg_move show ?case
    by (auto simp: chg_move(1) orders_follow_def tget_tput intro: path_refl)
qed (simp_all add: same_orders_def)

lemma unique_filter_tput:
  assumes "\<not> out c" and "checkouts_unique cs"
  shows "checkouts_unique (tput chk_id c cs)"
  using distinct_filter_tput_out [of out c "\<lambda>c. (chk_tenant c, chk_tool c)" cs chk_id] assms
  by (simp add: checkouts_unique_def checked_out_def out_def [abs_def])

lemma change_unique: "order_change w w' \<Longrightarrow> checkouts_unique (checkouts w) \<Longrightarrow> checkouts_unique (checkouts w')"
  by (induction rule: order_change.induct) (simp_all add: same_orders_def unique_filter_tput)

lemma tools_same:
  assumes "same_orders w w'" and "tools_with_orders w"
  shows "tools_with_orders w'"
  using assms by (simp add: tools_with_orders_def same_orders_def)

lemma no_active: "\<not> active_checkout tn i w \<Longrightarrow> c \<in> set (checkouts w) \<Longrightarrow> out c
    \<Longrightarrow> chk_tenant c = tn \<Longrightarrow> chk_work_order c \<noteq> i"
  by (auto simp: active_checkout_def out_def list_ex_iff)

lemma owned_tput: "owned wo_id wo_tenant tn i (tput wo_id x xs) =
    (if i = wo_id x then (if tget wo_id i xs = None \<or> wo_tenant x \<noteq> tn then None else Some x)
     else owned wo_id wo_tenant tn i xs)"
  by (cases "tget wo_id i xs") (auto simp: owned_def tget_tput)

lemma tools_move:
  assumes orders: "work_orders (core w') = tput wo_id x (work_orders (core w))" and moved: "moved_row x w"
    and chk: "checkouts w' = checkouts w" and ok: "tools_with_orders w"
  shows "tools_with_orders w'"
  unfolding tools_with_orders_def
proof (intro ballI impI)
  fix c assume c: "c \<in> set (checkouts w')" "out c"
  with ok chk obtain y where y: "owned wo_id wo_tenant (chk_tenant c) (chk_work_order c) (work_orders (core w)) = Some y"
      "wo_status y \<in> {''in_progress'', ''cancelled''}"
    unfolding tools_with_orders_def by metis
  show "\<exists>z. owned wo_id wo_tenant (chk_tenant c) (chk_work_order c) (work_orders (core w')) = Some z
      \<and> wo_status z \<in> {''in_progress'', ''cancelled''}"
  proof (cases "chk_work_order c = wo_id x")
    case True
    from moved True y(1) have t: "wo_tenant x = chk_tenant c" "tget wo_id (wo_id x) (work_orders (core w)) = Some y"
      "wo_status x = wo_status y \<or> wo_status x \<in> set (order_moves (wo_status y))"
      and q: "wo_status x = ''quality_check'' \<longrightarrow> wo_status y = ''quality_check''
        \<or> \<not> active_checkout (wo_tenant x) (wo_id x) w"
      by (auto simp: moved_row_def owned_Some)
    have act: "active_checkout (wo_tenant x) (wo_id x) w"
      using c chk True t(1) no_active by metis
    have "wo_status x \<in> {''in_progress'', ''cancelled''}"
      using y(2) t(3) q act by (auto simp: order_moves_def)
    then show ?thesis using True t by (simp add: orders owned_tput)
  next
    case False
    then show ?thesis using y by (simp add: orders owned_tput)
  qed
qed

lemma owned_tadd: "owned wo_id wo_tenant tn i xs = Some y \<Longrightarrow> owned wo_id wo_tenant tn i (tadd x xs) = Some y"
  by (simp add: owned_Some tget_tadd)

lemma change_tools: "order_change w w' \<Longrightarrow> tools_with_orders w \<Longrightarrow> tools_with_orders w'"
proof (induction rule: order_change.induct)
  case (chg_new w' x w)
  show ?case
    unfolding tools_with_orders_def
  proof (intro ballI impI)
    fix c assume "c \<in> set (checkouts w')" "out c"
    with chg_new(2,3) obtain y
      where "owned wo_id wo_tenant (chk_tenant c) (chk_work_order c) (work_orders (core w)) = Some y"
        "wo_status y \<in> {''in_progress'', ''cancelled''}"
      unfolding tools_with_orders_def by auto
    then show "\<exists>z. owned wo_id wo_tenant (chk_tenant c) (chk_work_order c) (work_orders (core w')) = Some z
        \<and> wo_status z \<in> {''in_progress'', ''cancelled''}"
      using owned_tadd chg_new(1) by (intro exI [of _ y]) simp
  qed
next
  case (chg_out w' w c x)
  then show ?case by (auto simp: tools_with_orders_def)
next
  case (chg_back w' w c)
  then show ?case
    using set_tput_sub [of chk_id c "checkouts w"] unfolding tools_with_orders_def chg_back(1,2) by blast
qed (auto intro: tools_same tools_move)

section \<open>The operations are changes\<close>

lemmas order_op_defs = require_wo_def of_opt_def Let_def wfresh_def

lemma require_wo_Inr: "require_wo tn i w = Inr x \<longleftrightarrow> owned wo_id wo_tenant tn i (work_orders (core w)) = Some x"
  by (auto simp: require_wo_def of_opt_def split: option.splits)

lemma flush_orders_Inr: "flush_orders w = Inr w' \<Longrightarrow> w' = w"
  by (simp add: flush_orders_def split: if_splits)

text \<open>A write of a row read before, of the same tenant.\<close>

lemma put_change:
  assumes "owned wo_id wo_tenant tn i (work_orders (core w)) = Some x0" and "wo_id x = wo_id x0"
    and "wo_tenant x = wo_tenant x0" and "wo_vehicle x = wo_vehicle x0"
    and "wo_status x = wo_status x0 \<or> wo_status x \<in> set (order_moves (wo_status x0))"
    and "wo_status x = ''quality_check'' \<Longrightarrow> wo_status x0 = ''quality_check'' \<or> \<not> active_checkout tn i w"
    and "same_orders (put_wo x w) w'"
  shows "order_change w w'"
proof -
  from assms(1) have k: "wo_id x0 = i" "wo_tenant x0 = tn" by (auto simp: owned_Some tget_key)
  with assms have "moved_row x w" by (auto simp: moved_row_def owned_Some)
  then show ?thesis
    using assms(7) by (intro chg_move [of _ x]) (auto simp: same_orders_def put_wo_def)
qed

lemma create_order_change:
  "create_work_order tn p a now w = Inr (x, w') \<Longrightarrow> order_change w w'"
  by (rule chg_new [of _ x])
    (auto simp: create_work_order_def rbind_Inr Let_def wfresh_def convert_request_def add_order_def
      split: option.splits)

lemma approve_change: "approve_work_order tn i a now w = Inr (x, w') \<Longrightarrow> order_change w w'"
  unfolding approve_work_order_def rbind_Inr require_wo_Inr
  by (auto simp: order_moves_def Let_def split: if_splits
      intro: chg_same put_change [where x = "y\<lparr>wo_status := ''approved'', wo_approved_by := a, wo_approved_at := Some now\<rparr>"
        for y])

lemma transition_change:
  assumes "transition_work_order tn i expected n action a w = Inr (x, w')"
    and "n \<in> set (order_moves expected)" and "n = ''quality_check'' \<Longrightarrow> \<not> active_checkout tn i w"
  shows "order_change w w'"
proof -
  from assms(1) obtain x0 where x0: "owned wo_id wo_tenant tn i (work_orders (core w)) = Some x0"
    and r: "if wo_status x0 = n then w' = w
       else wo_status x0 = expected \<and> w' = waudit tn a action ''work_order'' (Some i) (put_wo (x0\<lparr>wo_status := n\<rparr>) w)"
    by (auto simp: transition_work_order_def rbind_Inr require_wo_Inr Let_def split: if_splits)
  show ?thesis
  proof (cases "wo_status x0 = n")
    case True
    with r show ?thesis by (simp add: chg_same)
  next
    case False
    with r assms(2,3) show ?thesis
      by (intro put_change [OF x0, where x = "x0\<lparr>wo_status := n\<rparr>"]) auto
  qed
qed

lemma start_change: "start_work_order tn i a w = Inr (x, w') \<Longrightarrow> order_change w w'"
  unfolding start_work_order_def by (erule transition_change) (auto simp: order_moves_def)

lemma check_change: "send_work_order_to_quality_check tn i a w = Inr (x, w') \<Longrightarrow> order_change w w'"
  unfolding send_work_order_to_quality_check_def
  by (auto split: if_splits elim!: transition_change simp: order_moves_def)

text \<open>The parts of closing an order that follow the write of the row.\<close>

lemma record_trip_cost_orders: "record_trip_cost tn p a now d = Inr (c, d') \<Longrightarrow> work_orders d' = work_orders d"
  by (auto simp: record_trip_cost_def Let_def fresh_id_def rbind_Inr flush_trips_Inr
      record_audit_log_def split: if_splits option.splits)

lemma charge_order_trip_same: "charge_order_trip tn x c a now w = Inr w' \<Longrightarrow> same_orders w w'"
  by (auto simp: charge_order_trip_def rbind_Inr on_core_Inr same_orders_def record_trip_cost_orders split: option.splits)

lemma create_invoice_same: "create_workshop_invoice tn i a now w = Inr (b, w') \<Longrightarrow> same_orders w w'"
  by (auto simp: create_workshop_invoice_def draft_order_invoice_def rbind_Inr Let_def flush_bills_def
      insert_order_bill_def same_orders_def split: option.splits if_splits)

lemma invoice_on_close_same: "invoice_on_close tn x a now w = Inr w' \<Longrightarrow> same_orders w w'"
  by (auto simp: invoice_on_close_def create_invoice_same split: if_splits sum.splits err.splits)

lemma schedule_same: "schedule_preventive_maintenance tn v p km b now w = Inr (s, w') \<Longrightarrow> same_orders w w'"
  by (auto simp: schedule_preventive_maintenance_def rbind_Inr add_schedule_def wfresh_def same_orders_def Let_def
      split: option.splits if_splits)

lemma complete_schedule_same: "complete_schedule tn v now s (n, w) = Inr (m, w') \<Longrightarrow> same_orders w w'"
  by (fastforce simp: complete_schedule_def Let_def put_schedule_def same_orders_def
      dest!: schedule_same split: sum.splits)

lemma complete_schedule_err: "complete_schedule tn v now s (n, w) = Inl (e, w') \<Longrightarrow> same_orders w w'"
  by (auto simp: complete_schedule_def Let_def put_schedule_def same_orders_def split: sum.splits)

lemma completion_same:
  "(case rfold (complete_schedule tn v now) ss (n, w) of Inl (e, w') \<Rightarrow> same_orders w w' | Inr (m, w') \<Rightarrow> same_orders w w')"
proof (induction ss arbitrary: n w)
  case (Cons s ss)
  show ?case
  proof (cases "complete_schedule tn v now s (n, w)")
    case (Inl r)
    then show ?thesis by (cases r) (simp add: complete_schedule_err)
  next
    case (Inr r)
    then obtain m u where r: "r = (m, u)" by (cases r)
    with Inr have "same_orders w u" by (simp add: complete_schedule_same)
    with Cons.IH [where n = m and w = u] Inr r show ?thesis
      by (auto split: sum.splits intro: same_orders_trans)
  qed
qed simp

lemma completion_outcome:
  "rfold (complete_schedule tn v now) ss (n, w) = Inl (e, w') \<Longrightarrow> same_orders w w'"
  "rfold (complete_schedule tn v now) ss (n, w) = Inr (m, w') \<Longrightarrow> same_orders w w'"
  using completion_same [where tn = tn and v = v and now = now and ss = ss and n = n and w = w] by simp_all

lemma restart_same: "same_orders w (restart_preventive tn i now w)"
  by (auto simp: restart_preventive_def handle_work_order_completion_def Let_def
      split: option.splits sum.splits dest: completion_outcome)

lemma close_change:
  assumes "close_work_order tn i c r a now w = Inr (x, w')"
  shows "order_change w w'"
proof -
  from assms obtain x0 where x0: "owned wo_id wo_tenant tn i (work_orders (core w)) = Some x0"
    by (auto simp: close_work_order_def rbind_Inr require_wo_Inr)
  let ?x = "x0\<lparr>wo_status := ''closed'', wo_actual := map_option (column 2) c, wo_close_notes := r,
    wo_closed_by := a, wo_closed_at := Some now\<rparr>"
  show ?thesis
  proof (cases "wo_status x0 = ''closed''")
    case True
    with assms x0 show ?thesis by (simp add: close_work_order_def require_wo_def of_opt_def chg_same)
  next
    case False
    with assms x0 obtain w1 w2 where w: "wo_status x0 = ''quality_check''"
        "charge_order_trip tn ?x c a now (put_wo ?x w) = Inr w1"
        "invoice_on_close tn ?x a now (waudit tn a ''work_order.closed'' ''work_order'' (Some i) w1) = Inr w2"
        "w' = restart_preventive tn i now w2"
      by (auto simp: close_work_order_def rbind_Inr require_wo_def of_opt_def Let_def split: if_splits)
    from charge_order_trip_same [OF w(2)] invoice_on_close_same [OF w(3)] restart_same [of w2 tn i now]
    have "same_orders (put_wo ?x w) w'"
      by (simp add: same_orders_def w(4))
    with x0 w(1) show ?thesis
      by (intro put_change [OF x0, of ?x]) (auto simp: order_moves_def)
  qed
qed

lemma cancel_change:
  assumes "cancel_work_order tn i r a w = Inr (x, w')"
  shows "order_change w w'"
proof -
  from assms obtain x0 where x0: "owned wo_id wo_tenant tn i (work_orders (core w)) = Some x0"
      "wo_status x0 \<notin> {''closed'', ''cancelled''}"
    and s: "same_orders (put_wo (x0\<lparr>wo_status := ''cancelled'', wo_close_notes := Some (''Cancelada: '' @ r)\<rparr>) w) w'"
    by (auto simp: cancel_work_order_def rbind_Inr require_wo_Inr Let_def release_reservations_def same_orders_def
        split: if_splits)
  show ?thesis
    using x0(2) by (intro put_change [OF x0(1) _ _ _ _ _ s]) (auto simp: order_moves_def)
qed

section \<open>Tasks, quotes, preventive maintenance, tools\<close>

lemma add_task_same [simp]: "same_orders w (snd (add_task tn wo t w))"
  by (simp add: add_task_def Let_def wfresh_def same_orders_def)

lemma create_task_same: "create_work_order_task tn wo t a w = Inr (k, w') \<Longrightarrow> same_orders w w'"
  by (auto simp: create_work_order_task_def rbind_Inr Let_def add_task_def wfresh_def same_orders_def
      split: if_splits)

lemma complete_task_change:
  assumes "complete_work_order_task tn wo i m a now w = Inr (t, w')"
  shows "order_change w w'"
proof -
  from assms obtain x0 where x0: "owned wo_id wo_tenant tn wo (work_orders (core w)) = Some x0"
    and r: "w' = w \<or> same_orders (put_wo (task_labor tn m a now x0 w) w) w'"
    by (auto simp: complete_work_order_task_def rbind_Inr require_wo_Inr Let_def put_task_def put_wo_def
        same_orders_def split: if_splits option.splits)
  have f: "wo_id (task_labor tn m a now x0 w) = wo_id x0" "wo_tenant (task_labor tn m a now x0 w) = wo_tenant x0"
    "wo_status (task_labor tn m a now x0 w) = wo_status x0" "wo_vehicle (task_labor tn m a now x0 w) = wo_vehicle x0"
    by (auto simp: task_labor_def split: option.splits)
  from r show ?thesis
  proof
    assume "same_orders (put_wo (task_labor tn m a now x0 w) w) w'"
    then show ?thesis by (intro put_change [OF x0, of "task_labor tn m a now x0 w"]) (simp_all add: f)
  qed (simp add: chg_same)
qed

lemma quote_tasks_same: "same_orders w (add_quote_tasks tn wo p xs w)"
  unfolding add_quote_tasks_def by (rule fold_same_orders) simp

lemma reserve_same: "same_orders w (reserve_item tn q wo it w)"
  by (auto simp: reserve_item_def Let_def wfresh_def same_orders_def split: option.splits)

lemma reservations_same: "same_orders w (create_part_reservations tn q wo w)"
  unfolding create_part_reservations_def by (rule fold_same_orders) (rule reserve_same)

lemma new_order_change: "order_change w (add_order x w)"
  by (rule chg_new [of _ x]) (simp_all add: add_order_def)

lemma wfresh_same [simp]: "same_orders w (w\<lparr>core := (core w)\<lparr>db_next := n\<rparr>\<rparr>)"
  by (simp add: same_orders_def)

lemma quote_order_change:
  assumes "quote_order tn q now w = Inr (i, w')"
  shows "order_change w w'"
proof (cases "quo_supplemental q \<and> quo_work_order q \<noteq> None")
  case True
  with assms show ?thesis
    by (auto simp: quote_order_def rbind_Inr Let_def chg_same [OF quote_tasks_same])
next
  case False
  then obtain n w1 where s: "get_next_tenant_sequence tn ''work_order'' now w = (n, w1)"
    by (cases "get_next_tenant_sequence tn ''work_order'' now w")
  then have w1: "same_orders w w1" by (auto simp: get_next_tenant_sequence_def Let_def same_orders_def)
  from False assms s obtain x p xs where x: "w' = add_quote_tasks tn i p xs (add_order x (snd (wfresh w1)))"
    by (auto simp: quote_order_def rbind_Inr Let_def wfresh_def split: bool.splits option.splits dest!: flush_orders_Inr)
  have "order_change (snd (wfresh w1)) (add_order x (snd (wfresh w1)))" by (rule new_order_change)
  then have "order_change (snd (wfresh w1)) w'"
    unfolding x by (rule change_then_same) (rule quote_tasks_same)
  then show ?thesis
    using same_orders_trans [OF w1 wfresh_same] by (elim same_then_change [rotated]) simp
qed

lemma accept_quote_change:
  assumes "accept_quote tn i c p a now w = Inr (q, wo, w')"
  shows "order_change w w'"
proof -
  from assms obtain q0 w1 where w1: "quote_order tn q0 now w = Inr (wo, w1)"
    and w': "w' = waudit tn a ''workshop_quote.accepted'' ''workshop_quote'' (Some i)
      (create_part_reservations tn i (Some wo) (put_quote q w1))"
    by (auto simp: accept_quote_def rbind_Inr Let_def of_opt_def split: option.splits if_splits)
  have "same_orders w1 w'"
    using reservations_same [of "put_quote q w1" tn i "Some wo"]
    by (simp add: w' put_quote_def same_orders_def)
  with quote_order_change [OF w1] show ?thesis by (rule change_then_same)
qed

lemma put_schedule_same [simp]: "same_orders w (put_schedule x v) = same_orders w v"
  by (simp add: same_orders_def put_schedule_def)

lemma create_quote_same: "create_quote tn p a now w = Inr (q, w') \<Longrightarrow> same_orders w w'"
proof -
  have "same_orders u (fold (add_quote_item tn i) xs u)" for i xs u
    by (rule fold_same_orders) (simp add: add_quote_item_def Let_def wfresh_def same_orders_def)
  then show "create_quote tn p a now w = Inr (q, w') \<Longrightarrow> same_orders w w'"
    by (auto simp: create_quote_def rbind_Inr Let_def get_next_tenant_sequence_def wfresh_def same_orders_def
        split: if_splits)
qed

lemma convert_schedule_change:
  assumes "convert_schedule_to_action tn i a now w = Inr (r, w')"
  shows "order_change w w'"
proof -
  have "order_change w v" if "convert_to_order tn s p x now w = Inr (k, v)" for s p x k v
  proof -
    from that obtain y t where "same_orders (add_order y (snd (wfresh w))) v"
      by (auto simp: convert_to_order_def rbind_Inr Let_def wfresh_def add_task_def same_orders_def put_schedule_def
          dest!: flush_orders_Inr)
    then show ?thesis
      using change_then_same [OF new_order_change] same_then_change [OF wfresh_same] by fastforce
  qed
  moreover have "order_change w v" if "convert_to_quote tn s p x a now w = Inr (k, v)" for s p x k v
    using that by (auto simp: convert_to_quote_def rbind_Inr Let_def split: option.splits
        intro!: chg_same dest: create_quote_same)
  ultimately show ?thesis
    using assms
    by (fastforce simp: convert_schedule_to_action_def rbind_Inr of_opt_def chg_same split: if_splits option.splits)
qed

lemma ensure_exception_same: "on_core (ensure_exception tn e i x s a st so) w = Inr (r, w') \<Longrightarrow> same_orders w w'"
  by (auto simp: on_core_Inr same_orders_def only_oversight_frame dest!: ensure_exception_only)

lemma new_audit_change: "order_change w (waudit t a k e i (add_order x (w\<lparr>core := (core w)\<lparr>db_next := n\<rparr>\<rparr>)))"
  by (rule chg_new [of _ x]) (simp_all add: add_order_def)

lemma trigger_change: "trigger_maintenance_work_order tn p v a now w = Inr w' \<Longrightarrow> order_change w w'"
  unfolding trigger_maintenance_work_order_def
  by (auto simp: rbind_Inr Let_def wfresh_def chg_same new_audit_change dest!: flush_orders_Inr split: if_splits)

lemma overdue_same: "overdue_schedule tn p v w = (k, w') \<Longrightarrow> same_orders w w'"
  by (auto simp: overdue_schedule_def Let_def add_schedule_def wfresh_def same_orders_def split: option.splits)

lemma next_cycle_same: "same_orders w (next_cycle tn p v now w)"
  by (auto simp: next_cycle_def Let_def add_schedule_def wfresh_def same_orders_def)

lemma evaluate_plan_change:
  assumes "evaluate_plan tn a now (p, v) (n, w) = Inr (m, w')"
  shows "order_change w w'"
proof (cases "plan_overdue p v now")
  case True
  obtain k s w1 where o: "overdue_schedule tn p (veh_id v) w = ((k, s), w1)"
    by (metis surj_pair)
  let ?w2 = "if k = 0 then w1 else waudit tn a ''maintenance_schedule.overdue'' ''maintenance_plan''
    (Some (plan_id p)) w1"
  from assms True o obtain x w3 w4 where w:
    "on_core (ensure_exception tn ''maintenance_plan'' (plan_id p) ''maintenance_overdue''
       ''high'' a (Some ''maintenance_schedule'') (Some s)) ?w2 = Inr (x, w3)"
    "trigger_maintenance_work_order tn p v a now w3 = Inr w4" "w' = next_cycle tn p v now w4"
    by (auto simp: evaluate_plan_def rbind_Inr Let_def)
  have "same_orders w1 ?w2" by simp
  with overdue_same [OF o] ensure_exception_same [OF w(1)] have "same_orders w w3"
    by (blast intro: same_orders_trans)
  with trigger_change [OF w(2)] next_cycle_same [of w4 tn p v now] show ?thesis
    unfolding w(3) by (blast intro: same_then_change change_then_same)
next
  case False
  with assms show ?thesis by (simp add: evaluate_plan_def chg_same)
qed

lemma evaluate_tenant_changes:
  assumes "evaluate_maintenance_schedule tn a now w = Inr (n, w')"
  shows "order_change\<^sup>*\<^sup>* w w'"
proof -
  have "(\<lambda>(k, u). order_change\<^sup>*\<^sup>* w u) (n, w')"
    using assms unfolding evaluate_maintenance_schedule_def
    by (rule rfold_invariant) (auto dest: evaluate_plan_change intro: rtranclp.rtrancl_into_rtrancl)
  then show ?thesis by simp
qed

section \<open>Tools\<close>

lemma checkout_change:
  assumes "checkout_tool tn wo p a now w = Inr (c, w')"
  shows "order_change w w'"
proof (cases "List.find (\<lambda>c. chk_tenant c = tn \<and> chk_reference c = cki_reference p) (checkouts w)")
  case None
  with assms obtain x where x: "owned wo_id wo_tenant tn wo (work_orders (core w)) = Some x"
      "wo_status x = ''in_progress''" "work_orders (core w') = work_orders (core w)"
      "checkouts w' = tadd (new_checkout (wnext w) tn wo p a) (checkouts w)" "checkouts_unique (checkouts w')"
    by (auto simp: checkout_tool_def rbind_Inr require_wo_Inr Let_def wfresh_def flush_checkouts_def put_tool_def
        split: if_splits option.splits)
  then show ?thesis
    by (intro chg_out [of w' w "new_checkout (wnext w) tn wo p a" x]) (simp_all add: new_checkout_def)
next
  case (Some c0)
  with assms show ?thesis by (auto simp: checkout_tool_def chg_same split: if_splits)
qed

lemma return_change:
  assumes "return_tool tn i p a w = Inr (c, w')"
  shows "order_change w w'"
proof -
  from assms have "w' = w \<or> (\<exists>c0. work_orders (core w') = work_orders (core w)
      \<and> checkouts w' = tput chk_id (returned_checkout c0 p a) (checkouts w))"
    by (auto simp: return_tool_def Let_def put_tool_def split: if_splits option.splits)
  then show ?thesis
    by (auto simp: chg_same out_def returned_checkout_def intro: chg_back [where c = "returned_checkout y p a" for y])
qed

section \<open>Runs of the workshop\<close>

text \<open>
  Every operation that writes an order or a checkout; the others of the workshop, which leave both
  tables alone, are one rule.
\<close>

inductive shop_step :: "workshop \<Rightarrow> workshop \<Rightarrow> bool" where
  shop_create: "create_work_order tn p a now w = Inr (x, w') \<Longrightarrow> shop_step w w'"
| shop_approve: "approve_work_order tn i a now w = Inr (x, w') \<Longrightarrow> shop_step w w'"
| shop_start: "start_work_order tn i a w = Inr (x, w') \<Longrightarrow> shop_step w w'"
| shop_check: "send_work_order_to_quality_check tn i a w = Inr (x, w') \<Longrightarrow> shop_step w w'"
| shop_close: "close_work_order tn i c r a now w = Inr (x, w') \<Longrightarrow> shop_step w w'"
| shop_cancel: "cancel_work_order tn i r a w = Inr (x, w') \<Longrightarrow> shop_step w w'"
| shop_task: "create_work_order_task tn i d a w = Inr (t, w') \<Longrightarrow> shop_step w w'"
| shop_done: "complete_work_order_task tn i t m a now w = Inr (k, w') \<Longrightarrow> shop_step w w'"
| shop_accept: "accept_quote tn i c p a now w = Inr (q, wo, w') \<Longrightarrow> shop_step w w'"
| shop_convert: "convert_schedule_to_action tn i a now w = Inr (r, w') \<Longrightarrow> shop_step w w'"
| shop_daily: "evaluate_maintenance_schedule tn a now w = Inr (n, w') \<Longrightarrow> shop_step w w'"
| shop_checkout: "checkout_tool tn i k a now w = Inr (c, w') \<Longrightarrow> shop_step w w'"
| shop_return: "return_tool tn i b a w = Inr (c, w') \<Longrightarrow> shop_step w w'"
| shop_other: "same_orders w w' \<Longrightarrow> shop_step w w'"

inductive_cases shop_stepE: "shop_step w w'"

lemma shop_step_changes: "shop_step w w' \<Longrightarrow> order_change\<^sup>*\<^sup>* w w'"
  by (induction rule: shop_step.induct)
    (blast intro: r_into_rtranclp chg_same create_order_change approve_change start_change check_change close_change
      cancel_change create_task_same complete_task_change accept_quote_change convert_schedule_change
      evaluate_tenant_changes checkout_change return_change)+

lemma shop_run_changes: "shop_step\<^sup>*\<^sup>* w w' \<Longrightarrow> order_change\<^sup>*\<^sup>* w w'"
  by (induction rule: rtranclp_induct) (auto dest: shop_step_changes)

lemma shop_run_follow: "shop_step\<^sup>*\<^sup>* w w' \<Longrightarrow> orders_follow (work_orders (core w)) (work_orders (core w'))"
proof -
  have "order_change\<^sup>*\<^sup>* w w' \<Longrightarrow> orders_follow (work_orders (core w)) (work_orders (core w'))"
    by (induction rule: rtranclp_induct) (auto intro: orders_follow_trans dest: change_follow)
  then show "shop_step\<^sup>*\<^sup>* w w' \<Longrightarrow> orders_follow (work_orders (core w)) (work_orders (core w'))"
    by (simp add: shop_run_changes)
qed

lemma shop_run_keeps:
  assumes "shop_step\<^sup>*\<^sup>* w w'" and "\<And>u v. order_change u v \<Longrightarrow> P u \<Longrightarrow> P v" and "P w"
  shows "P w'"
  using shop_run_changes [OF assms(1)] assms(3)
  by (induction rule: rtranclp_induct) (simp_all add: assms(2))

lemma order_lifecycle_row:
  assumes "shop_step\<^sup>*\<^sup>* w w'" and "tget wo_id i (work_orders (core w)) = Some x"
  shows "\<exists>y. tget wo_id i (work_orders (core w')) = Some y \<and> wo_tenant y = wo_tenant x
    \<and> wo_vehicle y = wo_vehicle x \<and> path order_moves (wo_status x) (wo_status y)"
  using shop_run_follow [OF assms(1)] assms(2) by (simp add: orders_follow_def)

lemma empty_tools: "tools_with_orders empty_workshop" "checkouts_unique (checkouts empty_workshop)"
  by (simp_all add: tools_with_orders_def empty_workshop_def checkouts_unique_def checked_out_def)

text \<open>C5: the status of a work order follows the table draft, approved, in progress, quality
  check, closed, with cancellation from every status but the last: whatever operations run, on this
  order or others, an order stays in the table with its tenant and vehicle, its status is one the
  table reaches, and a closed or cancelled order is never moved again.\<close>

theorem order_lifecycle:
  assumes "shop_step\<^sup>*\<^sup>* w w'" and "tget wo_id i (work_orders (core w)) = Some x"
  shows "\<exists>y. tget wo_id i (work_orders (core w')) = Some y \<and> wo_tenant y = wo_tenant x
    \<and> wo_vehicle y = wo_vehicle x \<and> path order_moves (wo_status x) (wo_status y)
    \<and> (wo_status x \<in> {''closed'', ''cancelled''} \<longrightarrow> wo_status y = wo_status x)"
proof -
  from order_lifecycle_row [OF assms] obtain y
    where "tget wo_id i (work_orders (core w')) = Some y" "wo_tenant y = wo_tenant x"
      "wo_vehicle y = wo_vehicle x" "path order_moves (wo_status x) (wo_status y)"
    by blast
  with order_table.terminal_path show ?thesis by blast
qed

text \<open>C6: in every state the workshop reaches, a tool that is out is out once, and for an order of
  its tenant that is in progress or was cancelled while the tool was out: no order in the quality
  check, or closed, still holds one.\<close>

theorem tools_back_before_check:
  assumes "shop_step\<^sup>*\<^sup>* empty_workshop w"
  shows "checkouts_unique (checkouts w) \<and> tools_with_orders w"
proof
  show "checkouts_unique (checkouts w)"
    using assms change_unique empty_tools(2) by (rule shop_run_keeps)
  show "tools_with_orders w"
    using assms change_tools empty_tools(1) by (rule shop_run_keeps)
qed

section \<open>From draft to closed\<close>

text \<open>The four requests of the office, one after the other, without a final cost.\<close>

definition finish_order ::
  "id \<Rightarrow> id \<Rightarrow> id option \<Rightarrow> timestamp \<Rightarrow> workshop \<Rightarrow> (work_order \<times> workshop) res" where
  "finish_order tenant i actor now w =
     rbind (approve_work_order tenant i actor now w) (\<lambda>(_, w1).
     rbind (start_work_order tenant i actor w1) (\<lambda>(_, w2).
     rbind (send_work_order_to_quality_check tenant i actor w2) (\<lambda>(_, w3).
     close_work_order tenant i None None actor now w3)))"

lemma owned_put_wo:
  assumes "owned wo_id wo_tenant tn i (work_orders (core w)) = Some x" and "wo_id y = i" and "wo_tenant y = tn"
  shows "owned wo_id wo_tenant tn i (work_orders (core (put_wo y w))) = Some y"
  using assms by (auto simp: put_wo_def owned_Some tget_tput)

lemma owned_waudit [simp]: "work_orders (core (waudit t a k e j w)) = work_orders (core w)"
  by simp

lemma pending_put [simp]: "pending_task tn i (put_wo x w) = pending_task tn i w"
  "pending_task tn i (waudit t a k e j w) = pending_task tn i w"
  "active_checkout tn i (put_wo x w) = active_checkout tn i w"
  "active_checkout tn i (waudit t a k e j w) = active_checkout tn i w"
  by (simp_all add: pending_task_def active_checkout_def put_wo_def)

text \<open>C8: an order that is neither of the front desk nor of a warranty, in draft, with no task pending
  and no tool out, is brought to closed by approving, starting, checking and closing it: none of the
  four requests is refused, and the stored row is closed.\<close>

theorem order_reaches_closed:
  assumes "owned wo_id wo_tenant tn i (work_orders (core w)) = Some x" and "wo_status x = ''draft''"
    and "\<not> pending_task tn i w" and "\<not> active_checkout tn i w"
    and "wo_origin x \<notin> {''reception'', ''quote'', ''warranty''}"
  shows "\<exists>y w'. finish_order tn i actor now w = Inr (y, w') \<and> wo_status y = ''closed''
    \<and> owned wo_id wo_tenant tn i (work_orders (core w')) = Some y"
proof -
  have k: "wo_id x = i" "wo_tenant x = tn" using assms(1) by (auto simp: owned_Some tget_key)
  define x1 where "x1 = x\<lparr>wo_status := ''approved'', wo_approved_by := actor, wo_approved_at := Some now\<rparr>"
  define w1 where "w1 = waudit tn actor ''work_order.approved'' ''work_order'' (Some i) (put_wo x1 w)"
  define x2 where "x2 = x1\<lparr>wo_status := ''in_progress''\<rparr>"
  define w2 where "w2 = waudit tn actor ''work_order.started'' ''work_order'' (Some i) (put_wo x2 w1)"
  define x3 where "x3 = x2\<lparr>wo_status := ''quality_check''\<rparr>"
  define w3 where "w3 = waudit tn actor ''work_order.quality_check_requested'' ''work_order'' (Some i) (put_wo x3 w2)"
  define x4 where "x4 = x3\<lparr>wo_status := ''closed'', wo_actual := None, wo_close_notes := None,
    wo_closed_by := actor, wo_closed_at := Some now\<rparr>"
  define w4 where "w4 = waudit tn actor ''work_order.closed'' ''work_order'' (Some i) (put_wo x4 w3)"
  have o1: "owned wo_id wo_tenant tn i (work_orders (core w1)) = Some x1"
    using owned_put_wo [OF assms(1)] k by (simp add: w1_def x1_def)
  have o2: "owned wo_id wo_tenant tn i (work_orders (core w2)) = Some x2"
    using owned_put_wo [OF o1] k by (simp add: w2_def x1_def x2_def)
  have o3: "owned wo_id wo_tenant tn i (work_orders (core w3)) = Some x3"
    using owned_put_wo [OF o2] k by (simp add: w3_def x1_def x2_def x3_def)
  have o4: "owned wo_id wo_tenant tn i (work_orders (core w4)) = Some x4"
    using owned_put_wo [OF o3] k by (simp add: w4_def x1_def x2_def x3_def x4_def)
  have "approve_work_order tn i actor now w = Inr (x1, w1)"
    using assms(1,2) by (simp add: approve_work_order_def require_wo_def of_opt_def x1_def w1_def Let_def)
  moreover have "start_work_order tn i actor w1 = Inr (x2, w2)"
    using o1 by (simp add: start_work_order_def transition_work_order_def require_wo_def of_opt_def x1_def x2_def
        w2_def Let_def)
  moreover have "send_work_order_to_quality_check tn i actor w2 = Inr (x3, w3)"
    using o2 assms(3,4) by (simp add: send_work_order_to_quality_check_def transition_work_order_def require_wo_def
        of_opt_def x2_def x3_def w3_def w2_def w1_def Let_def)
  moreover have "close_work_order tn i None None actor now w3 = Inr (x4, restart_preventive tn i now w4)"
    using o3 assms(5) by (simp add: close_work_order_def require_wo_def of_opt_def x1_def x2_def x3_def x4_def
        w4_def Let_def charge_order_trip_def invoice_on_close_def split: option.split)
  ultimately have "finish_order tn i actor now w = Inr (x4, restart_preventive tn i now w4)"
    by (simp add: finish_order_def)
  moreover have "owned wo_id wo_tenant tn i (work_orders (core (restart_preventive tn i now w4))) = Some x4"
    using restart_same [of w4 tn i now] o4 by (simp add: same_orders_def)
  ultimately show ?thesis by (auto simp: x4_def)
qed

section \<open>The vehicle in the workshop\<close>

lemma path_from_approved: "path order_moves s t \<Longrightarrow> s = ''approved'' \<Longrightarrow>
    t \<in> set active_work_order_statuses \<or> t \<in> {''closed'', ''cancelled''}"
  by (induction rule: path.induct) (auto simp: order_moves_def active_work_order_statuses_def split: if_splits)

lemma active_order_blocks:
  assumes "owned wo_id wo_tenant tn i (work_orders d) = Some y" and "wo_status y \<in> set active_work_order_statuses"
    and "wo_vehicle y = Some v"
  shows "active_work_order tn v d \<noteq> None"
  using assms owned_mem [OF assms(1)] by (auto simp: active_work_order_def find_None_iff owned_Some)

text \<open>C7: from the approval of a work order until it is closed or cancelled, whatever the workshop does
  in between, no trip of its vehicle can be dispatched.\<close>

theorem workshop_holds_vehicle:
  assumes "approve_work_order tn i a now w = Inr (x, w1)" and "wo_vehicle x = Some v"
    and "shop_step\<^sup>*\<^sup>* w1 w'" and "owned wo_id wo_tenant tn i (work_orders (core w')) = Some y"
    and "wo_status y \<notin> {''closed'', ''cancelled''}"
    and "tget trip_id tid (trips (core w')) = Some t" and "trip_vehicle t = v"
  shows "isl (dispatch_trip tn tid time remarks actor later (core w'))"
proof -
  from assms(1) obtain x0 where x0: "owned wo_id wo_tenant tn i (work_orders (core w)) = Some x0"
    and r: "if wo_status x0 = ''approved'' then x = x0 \<and> w1 = w else
      x = x0\<lparr>wo_status := ''approved'', wo_approved_by := a, wo_approved_at := Some now\<rparr>
      \<and> w1 = waudit tn a ''work_order.approved'' ''work_order'' (Some i) (put_wo x w)"
    by (auto simp: approve_work_order_def rbind_Inr require_wo_Inr Let_def split: if_splits)
  then have s: "wo_status x = ''approved''" "wo_id x = i" "wo_tenant x = tn"
    by (auto simp: owned_Some tget_key split: if_splits)
  have "owned wo_id wo_tenant tn i (work_orders (core w1)) = Some x"
    using r x0 s owned_put_wo [OF x0] by (auto split: if_splits)
  then have "tget wo_id i (work_orders (core w1)) = Some x" by (simp add: owned_Some)
  from order_lifecycle_row [OF assms(3) this] obtain z where z: "tget wo_id i (work_orders (core w')) = Some z"
      "wo_vehicle z = wo_vehicle x" "path order_moves (wo_status x) (wo_status z)"
    by blast
  moreover from z(1) assms(4) have "z = y" by (simp add: owned_Some)
  ultimately have "path order_moves (wo_status x) (wo_status y)" "wo_vehicle y = wo_vehicle x" by simp_all
  with path_from_approved s(1) assms(2,5) have "active_work_order tn v (core w') \<noteq> None"
    using active_order_blocks [OF assms(4)] by auto
  then have "dispatch_trip tn tid time remarks actor later (core w') \<noteq> Inr r" for r
    using assms(6,7) by (auto simp: dispatch_trip_def rbind_Inr require_trip_Inr require_vehicle_and_driver_available_def
        require_vehicle_available_def split: if_splits option.splits)
  then show ?thesis by (metis isl_def sum.exhaust)
qed

section \<open>A run\<close>

text \<open>An order for a vehicle with a planned trip: approved, started, and a drill taken for it.\<close>

definition drill :: tool where
  "drill = \<lparr>tool_id = 4, tool_tenant = 1, tool_code = ''D1'', tool_critical = False,
     tool_calibration_due = None, tool_interval = None, tool_status = ''available''\<rparr>"

definition yard :: workshop where
  "yard = empty_workshop\<lparr>core := sample_fleet, tools := [drill]\<rparr>"

definition yard_order :: order_input where
  "yard_order = \<lparr>woc_request = None, woc_vehicle = Some 2, woc_estimated = None\<rparr>"

definition yard_ordered :: workshop where
  "yard_ordered = outcome_state (create_work_order 1 yard_order None 0 yard)"

definition yard_approved :: workshop where
  "yard_approved = outcome_state (approve_work_order 1 10 None 1 yard_ordered)"

definition yard_started :: workshop where
  "yard_started = outcome_state (start_work_order 1 10 None yard_approved)"

definition drill_out :: checkout_input where
  "drill_out = \<lparr>cki_tool = 4, cki_reference = ''T1'', cki_at = 2, cki_due = None\<rparr>"

definition yard_out :: workshop where
  "yard_out = outcome_state (checkout_tool 1 10 drill_out None 2 yard_started)"

lemma yard_steps:
  "shop_step empty_workshop yard" "shop_step yard yard_ordered" "shop_step yard_ordered yard_approved"
  "shop_step yard_approved yard_started" "shop_step yard_started yard_out"
proof -
  show "shop_step empty_workshop yard"
    by (rule shop_other) (simp add: same_orders_def yard_def empty_workshop_def sample_fleet_def empty_db_def)
  have "\<not> isl (create_work_order 1 yard_order None 0 yard)" by code_simp
  from outcome_state_Inr [OF this] show "shop_step yard yard_ordered"
    unfolding yard_ordered_def by (blast intro: shop_create)
  have "\<not> isl (approve_work_order 1 10 None 1 yard_ordered)" by code_simp
  from outcome_state_Inr [OF this] show "shop_step yard_ordered yard_approved"
    unfolding yard_approved_def by (blast intro: shop_approve)
  have "\<not> isl (start_work_order 1 10 None yard_approved)" by code_simp
  from outcome_state_Inr [OF this] show "shop_step yard_approved yard_started"
    unfolding yard_started_def by (blast intro: shop_start)
  have "\<not> isl (checkout_tool 1 10 drill_out None 2 yard_started)" by code_simp
  from outcome_state_Inr [OF this] show "shop_step yard_started yard_out"
    unfolding yard_out_def by (blast intro: shop_checkout)
qed

lemma yard_run: "shop_step\<^sup>*\<^sup>* yard_ordered yard_out" "shop_step\<^sup>*\<^sup>* yard_approved yard_out"
    "shop_step\<^sup>*\<^sup>* empty_workshop yard_out"
  using yard_steps by (meson converse_rtranclp_into_rtranclp rtranclp.rtrancl_refl)+

definition first_order :: work_order where
  "first_order = (new_order 10 1 (Some 2) ''WO-10'' 0)"

definition approved_order :: work_order where
  "approved_order = first_order\<lparr>wo_status := ''approved'', wo_approved_at := Some 1\<rparr>"

definition started_order :: work_order where
  "started_order = approved_order\<lparr>wo_status := ''in_progress''\<rparr>"

lemma yard_orders:
  "work_orders (core yard_ordered) = [first_order]" "work_orders (core yard_out) = [started_order]"
  "trips (core yard_out) = [new_trip 5 1 2 3]" "checkouts yard_out \<noteq> []" "list_ex out (checkouts yard_out)"
  "work_tasks yard_ordered = []" "checkouts yard_ordered = []"
  by code_simp+

theorem order_lifecycle_witness:
  "\<exists>y. tget wo_id 10 (work_orders (core yard_out)) = Some y \<and> wo_tenant y = 1 \<and> wo_vehicle y = Some 2
    \<and> path order_moves ''draft'' (wo_status y)"
  using order_lifecycle [OF yard_run(1), of 10 first_order]
  by (auto simp: yard_orders first_order_def new_order_def)

theorem tools_back_before_check_witness:
  "checkouts_unique (checkouts yard_out) \<and> tools_with_orders yard_out \<and> list_ex out (checkouts yard_out)"
  using tools_back_before_check [OF yard_run(3)] yard_orders(5) by simp

theorem order_reaches_closed_witness:
  "\<exists>y w'. finish_order 1 10 None 9 yard_ordered = Inr (y, w') \<and> wo_status y = ''closed''
    \<and> owned wo_id wo_tenant 1 10 (work_orders (core w')) = Some y"
  by (rule order_reaches_closed [of 1 10 yard_ordered first_order])
    (simp_all add: yard_orders owned_def first_order_def new_order_def pending_task_def active_checkout_def)

theorem workshop_holds_vehicle_witness:
  "isl (dispatch_trip 1 5 None None None 9 (core yard_out))"
proof (rule workshop_holds_vehicle [OF _ _ yard_run(2), of 1 10 None 1 yard_ordered approved_order 2 started_order 5 "new_trip 5 1 2 3"])
  show "approve_work_order 1 10 None 1 yard_ordered = Inr (approved_order, yard_approved)"
    by code_simp
  show "wo_vehicle approved_order = Some 2" by (simp add: approved_order_def first_order_def new_order_def)
  show "owned wo_id wo_tenant 1 10 (work_orders (core yard_out)) = Some started_order"
    "wo_status started_order \<notin> {''closed'', ''cancelled''}"
    by (simp_all add: yard_orders owned_def started_order_def approved_order_def first_order_def new_order_def)
  show "tget trip_id 5 (trips (core yard_out)) = Some (new_trip 5 1 2 3)" "trip_vehicle (new_trip 5 1 2 3) = 2"
    by (simp_all add: yard_orders new_trip_def)
qed

end
