(* ===== verification/Preventive_Facts.thy ===== *)
theory Preventive_Facts
  imports Workshop_Life
begin

text \<open>
  What the periodic evaluation of preventive maintenance does, in its two versions: the newer one
  (\<^verbatim>\<open>preventive_service.py\<close>) settles a schedule in one pass; the older one, which the daily job
  runs (\<^verbatim>\<open>workshop/service.py\<close>), has nothing to look at.
\<close>

section \<open>One pass is enough\<close>

lemma due_row [simp]: "km_due p (s\<lparr>sch_notified_due := x, sch_status := y\<rparr>) = km_due p s"
  "date_due (s\<lparr>sch_notified_due := x, sch_status := y\<rparr>) = date_due s"
  "is_overdue p v now (s\<lparr>sch_notified_due := x, sch_status := y\<rparr>) = is_overdue p v now s"
  "is_due p v now (s\<lparr>sch_notified_due := x, sch_status := y\<rparr>) = is_due p v now s"
  by (auto simp: km_due_def date_due_def is_overdue_def is_due_def fun_eq_iff)

text \<open>A row that is still to evaluate after one evaluation is settled: nothing to count or write.\<close>

lemma evaluate_again:
  assumes "evaluate_schedule p v now s = (a, b, c, s')" and "sch_status s' \<in> {''pending'', ''due''}"
  shows "evaluate_schedule p v now s' = (0, 0, 0, s')"
  using assms by (auto simp: evaluate_schedule_def split: if_splits)

definition to_settle :: "schedule \<Rightarrow> bool" where
  "to_settle s \<longleftrightarrow> sch_status s \<in> {''pending'', ''due''}"

definition settled :: "timestamp \<Rightarrow> workshop \<Rightarrow> schedule \<Rightarrow> bool" where
  "settled now w s \<longleftrightarrow> (case (tget plan_id (sch_plan s) (plans w), tget veh_id (sch_vehicle s) (vehicles (core w))) of
     (Some p, Some v) \<Rightarrow> to_settle s \<longrightarrow> evaluate_schedule p v now s = (0, 0, 0, s) | _ \<Rightarrow> True)"

definition same_fleet :: "workshop \<Rightarrow> workshop \<Rightarrow> bool" where
  "same_fleet w w' \<longleftrightarrow> plans w' = plans w \<and> core w' = core w"

lemma settled_same: "same_fleet w w' \<Longrightarrow> settled now w' = settled now w"
  by (simp add: settled_def same_fleet_def fun_eq_iff)

lemma evaluate_schedule_row:
  assumes "evaluate_schedule p v now s = (a, b, c, s')"
  shows "sch_id s' = sch_id s" "sch_plan s' = sch_plan s" "sch_vehicle s' = sch_vehicle s"
  using assms by (auto simp: evaluate_schedule_def split: if_splits)

text \<open>One row: it is settled, and the others stay.\<close>

lemma evaluate_one_settles:
  assumes "evaluate_one now s (e, w) = (e', w')" and "keys_unique sch_id (schedules w)" and "s \<in> set (schedules w)"
  shows "same_fleet w w'" "map sch_id (schedules w') = map sch_id (schedules w)"
    "r \<in> set (schedules w') \<Longrightarrow> sch_id r = sch_id s \<Longrightarrow> settled now w r"
    "r \<in> set (schedules w) \<Longrightarrow> sch_id r \<noteq> sch_id s \<Longrightarrow> r \<in> set (schedules w')"
    "r \<in> set (schedules w') \<Longrightarrow> sch_id r \<noteq> sch_id s \<Longrightarrow> r \<in> set (schedules w)"
proof -
  let ?look = "(tget plan_id (sch_plan s) (plans w), tget veh_id (sch_vehicle s) (vehicles (core w)))"
  consider (found) p v a b c s' where "?look = (Some p, Some v)" "evaluate_schedule p v now s = (a, b, c, s')"
      "w' = put_schedule s' w"
    | (missing) "fst ?look = None \<or> snd ?look = None" "w' = w"
    using assms(1) by (auto simp: evaluate_one_def split: option.splits prod.splits)
  note look = this
  from look show "same_fleet w w'"
    by cases (simp_all add: same_fleet_def put_schedule_def)
  from look show "map sch_id (schedules w') = map sch_id (schedules w)"
    by cases (simp_all add: put_schedule_def)
  show "settled now w r" if "r \<in> set (schedules w')" "sch_id r = sch_id s"
    using look
  proof cases
    case found
    with that have "r = s'"
      using evaluate_schedule_row(1) [OF found(2)] by (auto simp: put_schedule_def tput_def split: if_splits)
    with found evaluate_schedule_row [OF found(2)] evaluate_again [OF found(2)] show ?thesis
      by (auto simp: settled_def to_settle_def)
  next
    case missing
    with that assms(2,3) have "r = s" by (simp add: keys_unique_row)
    with missing(1) show ?thesis by (auto simp: settled_def split: option.split)
  qed
  show "r \<in> set (schedules w')" if "r \<in> set (schedules w)" "sch_id r \<noteq> sch_id s"
    using look that by cases (auto simp: put_schedule_def set_tput evaluate_schedule_row(1))
  show "r \<in> set (schedules w)" if "r \<in> set (schedules w')" "sch_id r \<noteq> sch_id s"
    using look that by cases (auto simp: put_schedule_def set_tput evaluate_schedule_row(1) split: if_splits)
qed

lemma keys_same: "map sch_id xs = map sch_id ys \<Longrightarrow> keys_unique sch_id xs = keys_unique sch_id ys"
  by (simp add: keys_unique_def)

lemma same_fleet_trans: "same_fleet u v \<Longrightarrow> same_fleet v w \<Longrightarrow> same_fleet u w"
  by (simp add: same_fleet_def)

lemma fold_settles:
  assumes "fold (evaluate_one now) ss (e, w) = (e', w')" and "keys_unique sch_id (schedules w)"
    and "set ss \<subseteq> set (schedules w)" and "distinct (map sch_id ss)"
  shows "same_fleet w w' \<and> map sch_id (schedules w') = map sch_id (schedules w)
    \<and> (\<forall>r\<in>set (schedules w'). if sch_id r \<in> sch_id ` set ss then settled now w r else r \<in> set (schedules w))"
  using assms
proof (induction ss arbitrary: e w)
  case (Cons s ss)
  obtain e1 w1 where one: "evaluate_one now s (e, w) = (e1, w1)" by (metis surj_pair)
  from Cons.prems have s: "s \<in> set (schedules w)" "sch_id s \<notin> sch_id ` set ss" by auto
  note o = evaluate_one_settles [OF one Cons.prems(2) s(1)]
  have "set ss \<subseteq> set (schedules w1)"
  proof
    fix r assume r: "r \<in> set ss"
    with s(2) have "sch_id r \<noteq> sch_id s" by (metis image_eqI)
    with r Cons.prems(3) show "r \<in> set (schedules w1)" by (intro o(4)) auto
  qed
  with Cons.IH [of e1 w1] Cons.prems one o(2) have ih: "same_fleet w1 w'"
      "map sch_id (schedules w') = map sch_id (schedules w1)"
      "\<forall>r\<in>set (schedules w'). if sch_id r \<in> sch_id ` set ss then settled now w1 r else r \<in> set (schedules w1)"
    by (auto simp: keys_same [OF o(2)])
  have "if sch_id r \<in> sch_id ` set (s # ss) then settled now w r else r \<in> set (schedules w)"
    if r: "r \<in> set (schedules w')" for r
    using bspec [OF ih(3) r] o(3) [of r] o(5) [of r] settled_same [OF o(1), of now] by (auto split: if_splits)
  with ih o(1,2) show ?case by (auto intro: same_fleet_trans)
qed (simp add: same_fleet_def)

lemma fold_fixpoint: "\<forall>s\<in>set ss. f s x = x \<Longrightarrow> fold f ss x = x"
  by (induction ss) simp_all

text \<open>C25: evaluating the schedules of a tenant settles them: evaluated again with the same clock, no
  schedule becomes due or overdue, no notification is sent and nothing is written.\<close>

theorem evaluation_settles:
  assumes "evaluate_preventive_schedules tn now w = (e, w1)" and "keys_unique sch_id (schedules w)"
  shows "evaluate_preventive_schedules tn now w1
    = (\<lparr>ev_evaluated = length (to_evaluate tn w1), ev_due = 0, ev_overdue = 0, ev_notified = 0\<rparr>, w1)"
proof -
  from assms(1) have f: "fold (evaluate_one now) (to_evaluate tn w)
      (\<lparr>ev_evaluated = length (to_evaluate tn w), ev_due = 0, ev_overdue = 0, ev_notified = 0\<rparr>, w) = (e, w1)"
    by (simp add: evaluate_preventive_schedules_def Let_def)
  have "set (to_evaluate tn w) \<subseteq> set (schedules w)" by (auto simp: to_evaluate_def)
  moreover have "distinct (map sch_id (to_evaluate tn w))"
    using assms(2) by (simp add: to_evaluate_def keys_unique_def distinct_map_filter)
  ultimately have r: "same_fleet w w1" "map sch_id (schedules w1) = map sch_id (schedules w)"
      "\<forall>r\<in>set (schedules w1). if sch_id r \<in> sch_id ` set (to_evaluate tn w) then settled now w r
         else r \<in> set (schedules w)"
    using fold_settles [OF f assms(2)] by blast+
  have u: "keys_unique sch_id (schedules w1)" using assms(2) keys_same [OF r(2)] by simp
  have "evaluate_one now s (k, w1) = (k, w1)" if s: "s \<in> set (to_evaluate tn w1)" for s k
  proof -
    from s have s': "s \<in> set (schedules w1)" "sch_tenant s = tn" "to_settle s"
      by (auto simp: to_evaluate_def to_settle_def)
    have "sch_id s \<in> sch_id ` set (to_evaluate tn w)"
    proof (rule ccontr)
      assume "sch_id s \<notin> sch_id ` set (to_evaluate tn w)"
      with r(3) s'(1) have "s \<in> set (schedules w)" by auto
      with s' have "s \<in> set (to_evaluate tn w)" by (auto simp: to_evaluate_def to_settle_def)
      with \<open>sch_id s \<notin> sch_id ` set (to_evaluate tn w)\<close> show False by blast
    qed
    with r(3) s'(1) have "settled now w1 s" using settled_same [OF r(1), of now] by auto
    moreover have "put_schedule s w1 = w1"
      using tput_self [OF u s'(1)] by (simp add: put_schedule_def)
    ultimately show ?thesis
      using s'(3) by (auto simp: evaluate_one_def settled_def split: option.splits)
  qed
  then show ?thesis
    by (simp add: evaluate_preventive_schedules_def Let_def fold_fixpoint)
qed

section \<open>The daily job finds nothing\<close>

text \<open>
  The due columns of a plan: the operations that create plans leave them empty, no other writes them.
\<close>

definition no_due_columns :: "workshop \<Rightarrow> bool" where
  "no_due_columns w \<longleftrightarrow> list_all (\<lambda>p. plan_next_km p = None \<and> plan_next_at p = None) (plans w)"

inductive plan_step :: "workshop \<Rightarrow> workshop \<Rightarrow> bool" where
  plan_new: "create_maintenance_plan tn p w = Inr (x, w') \<Longrightarrow> plan_step w w'"
| plan_service: "service_create_maintenance_plan tn p w = Inr (x, w') \<Longrightarrow> plan_step w w'"
| plan_other: "plans w' = plans w \<Longrightarrow> plan_step w w'"

lemma service_plan_fails: "service_create_maintenance_plan tn p w \<noteq> Inr r"
  by (auto simp: service_create_maintenance_plan_def rbind_Inr split: if_splits option.splits)

lemma plan_step_no_due: "plan_step w w' \<Longrightarrow> no_due_columns w \<Longrightarrow> no_due_columns w'"
  by (induction rule: plan_step.induct)
    (auto simp: create_maintenance_plan_def no_due_columns_def Let_def wfresh_def service_plan_fails tadd_def
      split: if_splits)

lemma evaluate_plans_nothing:
  assumes "\<forall>(p, v)\<in>set ps. plan_next_km p = None \<and> plan_next_at p = None"
  shows "rfold (evaluate_plan tn a now) ps (n, w) = Inr (n, w)"
  using assms by (induction ps) (auto simp: evaluate_plan_def plan_overdue_def)

text \<open>in every state reached from an empty workshop the daily evaluation of the plans does nothing,
  whatever the day and the kilometres: it reads due columns that no operation fills. Overdue
  maintenance is never reported by it.\<close>

theorem daily_evaluation_never_fires:
  assumes "plan_step\<^sup>*\<^sup>* empty_workshop w"
  shows "evaluate_maintenance_schedule tn a now w = Inr (0, w)"
proof -
  have "no_due_columns empty_workshop" by (simp add: no_due_columns_def empty_workshop_def)
  with assms have "no_due_columns w"
    by (induction rule: rtranclp_induct) (simp_all add: plan_step_no_due)
  then have "\<forall>(p, v)\<in>set (plans_with_vehicles tn w). plan_next_km p = None \<and> plan_next_at p = None"
    by (auto simp: plans_with_vehicles_def List.map_filter_def no_due_columns_def list_all_iff)
  then show ?thesis
    unfolding evaluate_maintenance_schedule_def by (rule evaluate_plans_nothing)
qed

section \<open>A fleet vehicle and its oil\<close>

definition oil_plan :: plan where
  "oil_plan = \<lparr>plan_id = 30, plan_tenant = 1, plan_vehicle = Some 2, plan_catalog = None, plan_name = ''oil'',
     plan_interval_km = Some 500, plan_interval_days = None, plan_next_km = None, plan_next_at = None,
     plan_scope = ''fleet'', plan_status = ''active''\<rparr>"

definition oil_yard :: workshop where
  "oil_yard = yard\<lparr>plans := [oil_plan],
     schedules := [new_schedule 31 1 30 2 (Some 1040) None ''pending'', new_schedule 32 1 30 2 (Some 900) None ''due'']\<rparr>"

definition oil_evaluated :: "evaluation \<times> workshop" where
  "oil_evaluated = evaluate_preventive_schedules 1 5 oil_yard"

theorem evaluation_settles_witness:
  "evaluate_preventive_schedules 1 5 (snd oil_evaluated)
      = (\<lparr>ev_evaluated = 1, ev_due = 0, ev_overdue = 0, ev_notified = 0\<rparr>, snd oil_evaluated)
    \<and> map sch_status (schedules (snd oil_evaluated)) = [''due'', ''overdue'']"
proof -
  have "keys_unique sch_id (schedules oil_yard)" by code_simp
  from evaluation_settles [OF prod.collapse [symmetric] this, of 1 5]
  have "evaluate_preventive_schedules 1 5 (snd oil_evaluated)
      = (\<lparr>ev_evaluated = length (to_evaluate 1 (snd oil_evaluated)), ev_due = 0, ev_overdue = 0, ev_notified = 0\<rparr>,
         snd oil_evaluated)"
    by (simp add: oil_evaluated_def)
  moreover have "length (to_evaluate 1 (snd oil_evaluated)) = 1" by code_simp
  moreover have "map sch_status (schedules (snd oil_evaluated)) = [''due'', ''overdue'']" by code_simp
  ultimately show ?thesis by simp
qed

definition oil_planned :: workshop where
  "oil_planned = outcome_state (create_maintenance_plan 1 \<lparr>pli_name = ''oil'', pli_catalog = None,
     pli_vehicle = Some 2, pli_interval_km = Some 500, pli_interval_days = None, pli_scope = ''fleet''\<rparr> yard)"

theorem daily_evaluation_never_fires_witness:
  "evaluate_maintenance_schedule 1 None 99 oil_planned = Inr (0, oil_planned) \<and> plans oil_planned \<noteq> []"
proof -
  have "\<not> isl (create_maintenance_plan 1 \<lparr>pli_name = ''oil'', pli_catalog = None,
     pli_vehicle = Some 2, pli_interval_km = Some 500, pli_interval_days = None, pli_scope = ''fleet''\<rparr> yard)"
    by code_simp
  from outcome_state_Inr [OF this] have "plan_step yard oil_planned"
    unfolding oil_planned_def by (blast intro: plan_new)
  moreover have "plan_step empty_workshop yard"
    by (rule plan_other) (simp add: yard_def empty_workshop_def)
  ultimately have "plan_step\<^sup>*\<^sup>* empty_workshop oil_planned"
    by (meson converse_rtranclp_into_rtranclp rtranclp.rtrancl_refl)
  moreover have "plans oil_planned \<noteq> []" by code_simp
  ultimately show ?thesis by (simp add: daily_evaluation_never_fires)
qed

end
