(* ===== verification/Workshop_Invoices.thy ===== *)
theory Workshop_Invoices
  imports Workshop_Billing
begin

text \<open>
  What \<^verbatim>\<open>create_workshop_invoice\<close> promises: the stored lines add up to the document, an order that
  has lines is invoiced once, and an order that has none is not recognised as invoiced.
\<close>

section \<open>The lines\<close>

definition prices_stored :: "workshop \<Rightarrow> bool" where
  "prices_stored w \<longleftrightarrow> list_all (\<lambda>i. cents (qit_price i)) (quote_items w)"

definition documents_known :: "db \<Rightarrow> bool" where
  "documents_known d \<longleftrightarrow> list_all (\<lambda>x. item_doc x < db_next d) (items d) \<and> list_all (\<lambda>b. bill_id b < db_next d) (bills d)"

lemma price_map_range:
  "foldl (\<lambda>m i. m(f i \<mapsto> g i)) m xs k = Some v \<Longrightarrow> m k = Some v \<or> (\<exists>i\<in>set xs. v = g i)"
proof (induction xs arbitrary: m)
  case (Cons x xs)
  from Cons.prems have "foldl (\<lambda>m i. m(f i \<mapsto> g i)) (m(f x \<mapsto> g x)) xs k = Some v" by (simp only: foldl.simps)
  from Cons.IH [OF this] show ?case by (auto split: if_splits)
qed simp

lemma quoted_cents: "prices_stored w \<Longrightarrow> quoted (approved_prices tn x w) s = Some p \<Longrightarrow> cents p"
  by (auto simp: quoted_def approved_prices_def approved_items_def prices_stored_def list_all_iff
      split: option.splits if_splits dest!: price_map_range)

lemma labor_line_cents:
  "prices_stored w \<Longrightarrow> labor_line tn (approved_prices tn x w) now v t = Some l \<Longrightarrow> cents (wl_amount l)"
  by (auto simp: labor_line_def Let_def quoted_cents split: if_splits option.splits)

lemma invoice_line_cents:
  "prices_stored w \<Longrightarrow> l \<in> set (invoice_lines tn x now w) \<Longrightarrow> cents (wl_amount l)"
  by (auto simp: invoice_lines_def Let_def List.map_filter_def part_line_def labor_line_cents)

lemma number_items_fields:
  "map item_amount (number_items i tn doc wo ls) = map (\<lambda>l. column 2 (wl_amount l)) ls"
  "length (number_items i tn doc wo ls) = length ls"
  "x \<in> set (number_items i tn doc wo ls) \<Longrightarrow> item_doc x = doc \<and> item_tenant x = tn \<and> item_work_order x = Some wo"
  by (induction ls arbitrary: i) (auto simp: order_item_def)

lemma number_items_find:
  "ls \<noteq> [] \<Longrightarrow> List.find (\<lambda>x. item_tenant x = tn \<and> item_work_order x = Some wo) (number_items i tn doc wo ls)
     = Some (order_item i tn doc wo (hd ls))"
  by (cases ls) (simp_all add: order_item_def)

lemma snapshot_fields [simp]:
  "bill_id (snapshot_profile b tn d) = bill_id b" "bill_tenant (snapshot_profile b tn d) = bill_tenant b"
  "bill_subtotal (snapshot_profile b tn d) = bill_subtotal b" "bill_tax (snapshot_profile b tn d) = bill_tax b"
  "bill_total (snapshot_profile b tn d) = bill_total b" "bill_status (snapshot_profile b tn d) = bill_status b"
  "bill_source (snapshot_profile b tn d) = bill_source b" "bill_iva_rate (snapshot_profile b tn d) = bill_iva_rate b"
  by (auto simp: snapshot_profile_def Let_def split: option.split)

lemma order_draft_fields [simp]:
  "bill_id (order_draft i tn x now w) = i" "bill_tenant (order_draft i tn x now w) = tn"
  "bill_status (order_draft i tn x now w) = D_draft" "bill_source (order_draft i tn x now w) = ''workshop''"
  "bill_iva_rate (order_draft i tn x now w) = Some iva_standard"
  by (simp_all add: order_draft_def Let_def new_bill_def)

lemma order_totals_fields [simp]:
  "bill_id (order_totals ls b) = bill_id b" "bill_tenant (order_totals ls b) = bill_tenant b"
  "bill_status (order_totals ls b) = bill_status b" "bill_source (order_totals ls b) = bill_source b"
  "bill_iva_rate (order_totals ls b) = bill_iva_rate b"
  "bill_subtotal (order_totals ls b) = (\<Sum>l\<leftarrow>ls. wl_amount l)"
  "bill_tax (order_totals ls b) = q2 ((\<Sum>l\<leftarrow>ls. wl_amount l) * iva_standard)"
  "bill_total (order_totals ls b) = (\<Sum>l\<leftarrow>ls. wl_amount l) + q2 ((\<Sum>l\<leftarrow>ls. wl_amount l) * iva_standard)"
  by (simp_all add: order_totals_def Let_def)

section \<open>A new draft\<close>

definition items_of :: "id \<Rightarrow> db \<Rightarrow> billing_item list" where
  "items_of doc d = filter (\<lambda>x. item_doc x = doc) (items d)"

lemma draft_order_invoice_Inr:
  assumes "draft_order_invoice tn x a now w = Inr (b, w')"
  shows "bill_id b = wnext w" "bill_tenant b = tn" "bill_status b = D_draft" "bill_source b = ''workshop''"
    "bill_subtotal b = (\<Sum>l\<leftarrow>invoice_lines tn x now w. wl_amount l)"
    "bill_tax b = q2 (bill_subtotal b * iva_standard)" "bill_total b = bill_subtotal b + bill_tax b"
    "bills (core w') = tadd b (bills (core w))"
    "items (core w') = items (core w) @ number_items (Suc (wnext w)) tn (wnext w) (wo_id x) (invoice_lines tn x now w)"
    "work_orders (core w') = work_orders (core w)"
  using assms by (auto simp: draft_order_invoice_def rbind_Inr Let_def flush_bills_def insert_order_bill_def
      split: if_splits)

lemma new_items:
  assumes "documents_known (core w)" and "items (core w') = items (core w) @ number_items i tn (wnext w) wo ls"
  shows "items_of (wnext w) (core w') = number_items i tn (wnext w) wo ls"
proof -
  have "filter (\<lambda>x. item_doc x = wnext w) (items (core w)) = []"
    using assms(1) by (auto simp: documents_known_def wnext_def filter_empty_conv list_all_iff)
  moreover have "filter (\<lambda>x. item_doc x = wnext w) (number_items i tn (wnext w) wo ls) = number_items i tn (wnext w) wo ls"
    using number_items_fields(3) by (fastforce simp: filter_id_conv)
  ultimately show ?thesis by (simp add: items_of_def assms(2))
qed

lemma sum_items:
  assumes "prices_stored w"
  shows "(\<Sum>y\<leftarrow>number_items i tn doc wo (invoice_lines tn x now w). item_amount y)
    = (\<Sum>l\<leftarrow>invoice_lines tn x now w. wl_amount l)"
proof -
  have "map (\<lambda>l. column 2 (wl_amount l)) (invoice_lines tn x now w) = map wl_amount (invoice_lines tn x now w)"
    using invoice_line_cents [OF assms] by (intro map_cong) simp_all
  then show ?thesis by (simp only: number_items_fields(1))
qed

lemma create_invoice_new:
  assumes "create_workshop_invoice tn wo a now w = Inr (b, w')" and "billed_order tn wo (core w) = None"
  obtains x where "owned wo_id wo_tenant tn wo (work_orders (core w)) = Some x" "wo_id x = wo"
    "wo_status x \<in> {''quality_check'', ''closed''}" "draft_order_invoice tn x a now w = Inr (b, w')"
  using assms
  by (auto simp: create_workshop_invoice_def rbind_Inr require_wo_def of_opt_def owned_key
      split: option.splits if_splits)

text \<open>C9: the draft invoice of a work order in the quality check or closed is a document of the workshop
  whose stored lines all belong to the order, whose subtotal is the sum of their amounts, whose tax is
  sixteen per cent of it rounded, and whose total is the two.\<close>

theorem order_invoice_sums:
  assumes "create_workshop_invoice tn wo a now w = Inr (b, w')" and "billed_order tn wo (core w) = None"
    and "documents_known (core w)" and "prices_stored w"
  shows "bill_status b = D_draft \<and> bill_source b = ''workshop'' \<and> b \<in> set (bills (core w'))
    \<and> (\<forall>y\<in>set (items_of (bill_id b) (core w')). item_work_order y = Some wo)
    \<and> bill_subtotal b = (\<Sum>y\<leftarrow>items_of (bill_id b) (core w'). item_amount y)
    \<and> bill_tax b = q2 (bill_subtotal b * (16 / 100)) \<and> bill_total b = bill_subtotal b + bill_tax b"
proof -
  from create_invoice_new [OF assms(1,2)] obtain x where x: "wo_id x = wo"
      "draft_order_invoice tn x a now w = Inr (b, w')" by blast
  note f = draft_order_invoice_Inr [OF x(2)]
  have its: "items_of (bill_id b) (core w')
      = number_items (Suc (wnext w)) tn (wnext w) wo (invoice_lines tn x now w)"
    using new_items [OF assms(3) f(9)] x(1) by (simp add: f(1))
  have "\<forall>y\<in>set (items_of (bill_id b) (core w')). item_work_order y = Some wo"
    unfolding its using number_items_fields(3) by blast
  with f its sum_items [OF assms(4)] show ?thesis by (simp add: iva_standard_def)
qed

text \<open>C10: an order with something to charge is invoiced once: after a draft is made, asking again, at
  any time and by anyone, returns that document and changes nothing.\<close>

theorem order_invoiced_once:
  assumes "create_workshop_invoice tn wo a now w = Inr (b, w')" and "billed_order tn wo (core w) = None"
    and "documents_known (core w)" and "items_of (bill_id b) (core w') \<noteq> []"
    and "\<forall>y\<in>set (items (core w)). item_work_order y \<noteq> Some wo"
  shows "create_workshop_invoice tn wo a' later w' = Inr (b, w')"
proof -
  from create_invoice_new [OF assms(1,2)] obtain x where x: "wo_id x = wo"
      "draft_order_invoice tn x a now w = Inr (b, w')" by blast
  note f = draft_order_invoice_Inr [OF x(2)]
  let ?ls = "invoice_lines tn x now w"
  have "?ls \<noteq> []"
    using assms(4) new_items [OF assms(3) f(9)] f(1) by auto
  then have "List.find (\<lambda>y. item_tenant y = tn \<and> item_work_order y = Some wo)
      (number_items (Suc (wnext w)) tn (wnext w) wo ?ls) = Some (order_item (Suc (wnext w)) tn (wnext w) wo (hd ?ls))"
    by (rule number_items_find)
  moreover have "List.find (\<lambda>y. item_tenant y = tn \<and> item_work_order y = Some wo) (items (core w)) = None"
    using assms(5) by (auto simp: find_None_iff)
  moreover have "tget bill_id (wnext w) (bills (core w)) = None"
    using assms(3) by (auto simp: tget_None documents_known_def wnext_def list_all_iff)
  ultimately have "billed_order tn wo (core w') = Some b"
    using f(1,8,9) x(1) by (simp add: billed_order_def find_app order_item_def tget_tadd)
  then show ?thesis by (simp add: create_workshop_invoice_def)
qed

lemma not_billed: "\<forall>y\<in>set (items d). item_work_order y \<noteq> Some wo \<Longrightarrow> billed_order tn wo d = None"
proof -
  assume "\<forall>y\<in>set (items d). item_work_order y \<noteq> Some wo"
  then have "List.find (\<lambda>y. item_tenant y = tn \<and> item_work_order y = Some wo) (items d) = None"
    by (auto simp: find_None_iff)
  then show ?thesis by (simp add: billed_order_def)
qed

text \<open>an order with nothing to charge is invoiced again at every request: the draft it gets has no
  line, and the lines are where the service looks for an earlier invoice. Two requests leave two
  drafts of the same order.\<close>

theorem empty_order_invoiced_twice:
  assumes "owned wo_id wo_tenant tn wo (work_orders (core w)) = Some x"
    and "wo_status x \<in> {''quality_check'', ''closed''}" and "\<forall>y\<in>set (items (core w)). item_work_order y \<noteq> Some wo"
    and "completed_tasks tn wo w = []" and "used_parts tn wo w = []"
    and "list_all bill_checks (bills (core w))" and "list_all bill_item_checks (items (core w))"
  shows "\<exists>b w1 b' w2. create_workshop_invoice tn wo a now w = Inr (b, w1)
    \<and> create_workshop_invoice tn wo a' later w1 = Inr (b', w2) \<and> bill_id b \<noteq> bill_id b'
    \<and> {b, b'} \<subseteq> set (bills (core w2)) \<and> bill_status b = D_draft \<and> bill_status b' = D_draft"
proof -
  have k: "wo_id x = wo" using owned_key [OF assms(1)] .
  have one: "\<exists>b w1. create_workshop_invoice tn wo u t v = Inr (b, w1) \<and> bill_id b = wnext v \<and> bill_status b = D_draft
      \<and> bills (core w1) = tadd b (bills (core v)) \<and> items (core w1) = items (core v)
      \<and> work_orders (core w1) = work_orders (core v) \<and> work_tasks w1 = work_tasks v \<and> parts_used w1 = parts_used v
      \<and> wnext w1 = Suc (wnext v) \<and> bill_checks b"
    if "owned wo_id wo_tenant tn wo (work_orders (core v)) = Some x"
      "\<forall>y\<in>set (items (core v)). item_work_order y \<noteq> Some wo"
      "completed_tasks tn wo v = []" "used_parts tn wo v = []"
      "list_all bill_checks (bills (core v))" "list_all bill_item_checks (items (core v))" for v u t
  proof -
    have ls: "invoice_lines tn x t v = []" using that k by (simp add: invoice_lines_def)
    have none: "billed_order tn wo (core v) = None" using not_billed [OF that(2)] .
    let ?b = "snapshot_profile (order_totals [] (order_draft (wnext v) tn x t v)) tn (core v)"
    let ?w = "waudit tn u ''workshop_invoice.draft_created'' ''billing_document'' (Some (wnext v))
        (insert_order_bill ?b [] v)"
    have chk: "bill_checks ?b" by (simp add: bill_checks_def iva_standard_def)
    have "create_workshop_invoice tn wo u t v = draft_order_invoice tn x u t v"
      using that(1) none assms(2) by (auto simp: create_workshop_invoice_def require_wo_def of_opt_def)
    also have "\<dots> = Inr (?b, ?w)"
      using chk that(5,6) by (simp add: draft_order_invoice_def Let_def ls flush_bills_def insert_order_bill_def tadd_def)
    finally show ?thesis
      using chk by (intro exI [of _ ?b] exI [of _ ?w]) (simp add: insert_order_bill_def wnext_def)
  qed
  from one [OF assms(1,3-7), of a now] obtain b w1 where b: "create_workshop_invoice tn wo a now w = Inr (b, w1)"
    "bill_id b = wnext w" "bill_status b = D_draft" "bills (core w1) = tadd b (bills (core w))"
    "items (core w1) = items (core w)" "work_orders (core w1) = work_orders (core w)"
    "work_tasks w1 = work_tasks w" "parts_used w1 = parts_used w" "wnext w1 = Suc (wnext w)" "bill_checks b"
    by blast
  have "completed_tasks tn wo w1 = []" "used_parts tn wo w1 = []" "list_all bill_checks (bills (core w1))"
    using assms(4-6) b(4,7,8,10) by (simp_all add: completed_tasks_def used_parts_def tadd_def)
  with one [of w1 a' later] assms b(5,6) obtain b' w2 where
    "create_workshop_invoice tn wo a' later w1 = Inr (b', w2)" "bill_id b' = wnext w1" "bill_status b' = D_draft"
    "bills (core w2) = tadd b' (bills (core w1))"
    by (auto simp: b(5,6))
  with b show ?thesis by (intro exI [of _ b] exI [of _ w1] exI [of _ b'] exI [of _ w2]) simp
qed

section \<open>Two orders\<close>

text \<open>An order in the quality check, without tasks; and the same with ninety minutes of a mechanic.\<close>

definition checked_order :: work_order where
  "checked_order = (new_order 10 1 None ''WO-10'' 0)\<lparr>wo_status := ''quality_check''\<rparr>"

definition bare_shop :: workshop where
  "bare_shop = empty_workshop\<lparr>core := empty_db\<lparr>db_next := 20, work_orders := [checked_order]\<rparr>\<rparr>"

definition worked_shop :: workshop where
  "worked_shop = bare_shop\<lparr>
     work_tasks := [(new_task 11 1 10 ''brakes'')\<lparr>task_status := ''completed'', task_completed_by := Some 7,
       task_completed_at := Some 5, task_actual := Some 90\<rparr>],
     staff_rates := [\<lparr>rate_id = 12, rate_tenant = 1, rate_user = 7, rate_hourly = 800, rate_from = 0\<rparr>]\<rparr>"

definition worked_invoice :: "(billing_doc \<times> workshop) res" where
  "worked_invoice = create_workshop_invoice 1 10 None 9 worked_shop"

definition worked_bill :: billing_doc where
  "worked_bill = fst (projr worked_invoice)"

definition worked_after :: workshop where
  "worked_after = snd (projr worked_invoice)"

lemma worked_facts:
  "create_workshop_invoice 1 10 None 9 worked_shop = Inr (worked_bill, worked_after)"
  "billed_order 1 10 (core worked_shop) = None" "documents_known (core worked_shop)" "prices_stored worked_shop"
  "items_of (bill_id worked_bill) (core worked_after) \<noteq> []" "items (core worked_shop) = []"
  "bill_total worked_bill = 1392" "bill_subtotal worked_bill = 1200"
proof -
  have "\<not> isl worked_invoice" by code_simp
  then show "create_workshop_invoice 1 10 None 9 worked_shop = Inr (worked_bill, worked_after)"
    by (simp add: worked_bill_def worked_after_def worked_invoice_def isl_def split: sum.splits)
qed code_simp+

theorem order_invoice_sums_witness:
  "1200 = (\<Sum>y\<leftarrow>items_of (bill_id worked_bill) (core worked_after). item_amount y)
    \<and> bill_total worked_bill = 1200 + q2 (1200 * (16 / 100))"
  using order_invoice_sums [OF worked_facts(1-4)] worked_facts(8) by simp

theorem order_invoiced_once_witness:
  "create_workshop_invoice 1 10 (Some 3) 50 worked_after = Inr (worked_bill, worked_after)"
  using worked_facts(6) by (intro order_invoiced_once [OF worked_facts(1,2,3,5)]) simp

theorem empty_order_invoiced_twice_witness:
  "\<exists>b w1 b' w2. create_workshop_invoice 1 10 None 9 bare_shop = Inr (b, w1)
    \<and> create_workshop_invoice 1 10 None 10 w1 = Inr (b', w2) \<and> bill_id b \<noteq> bill_id b'
    \<and> {b, b'} \<subseteq> set (bills (core w2)) \<and> bill_status b = D_draft \<and> bill_status b' = D_draft"
  by (rule empty_order_invoiced_twice [of 1 10 bare_shop checked_order])
    (simp_all add: bare_shop_def checked_order_def new_order_def empty_workshop_def empty_db_def owned_def
      completed_tasks_def used_parts_def)

end
