(* ===== verification/Retry_Queue.thy ===== *)
theory Retry_Queue
  imports Tables
begin

text \<open>
  The contract of the two queues that retry what they send (\<^verbatim>\<open>outbox/service.py\<close>,
  \<^verbatim>\<open>jobs/tasks/notifications.py\<close>): a row waits until it is served or given up, every attempt
  counts, and a row that waits after an attempt is ready again before long. What follows from the
  contract is proved here once.
\<close>

section \<open>Times apart\<close>

fun spaced :: "int \<Rightarrow> timestamp \<Rightarrow> timestamp list \<Rightarrow> bool" where
  "spaced g t [] \<longleftrightarrow> True"
| "spaced g t (u # us) \<longleftrightarrow> t + g \<le> u \<and> spaced g u us"

section \<open>The contract\<close>

locale retry_queue =
  fixes attempt :: "timestamp \<Rightarrow> 'a \<Rightarrow> 'e \<Rightarrow> 'e"
    and waiting :: "'e \<Rightarrow> bool"
    and ready :: "timestamp \<Rightarrow> 'e \<Rightarrow> bool"
    and tries :: "'e \<Rightarrow> nat"
    and most :: nat
    and longest :: int
  assumes ready_waits: "ready t e \<Longrightarrow> waiting e"
    and attempt_tries: "tries (attempt t r e) = Suc (tries e)"
    and attempt_stops: "waiting (attempt t r e) \<Longrightarrow> tries (attempt t r e) < most"
    and attempt_soon: "waiting (attempt t r e) \<Longrightarrow> t + longest \<le> u \<Longrightarrow> ready u (attempt t r e)"
    and longest_pos: "0 \<le> longest"
begin

definition serve :: "timestamp \<Rightarrow> 'a \<Rightarrow> 'e \<Rightarrow> 'e" where
  "serve t r e = (if ready t e then attempt t r e else e)"

text \<open>One row over a list of runs, each with its time and the answer it gets.\<close>

fun served :: "(timestamp \<times> 'a) list \<Rightarrow> 'e \<Rightarrow> 'e" where
  "served [] e = e"
| "served ((t, r) # rs) e = served rs (serve t r e)"

lemma served_done: "\<not> waiting e \<Longrightarrow> served rs e = e"
  by (induction rs e rule: served.induct) (auto simp: serve_def dest: ready_waits)

lemma served_app: "served (rs @ qs) e = served qs (served rs e)"
  by (induction rs e rule: served.induct) auto

lemma serve_tries: "tries e \<le> tries (serve t r e)"
  by (simp add: serve_def attempt_tries)

text \<open>A row that is ready, or has just been tried, is through after as many runs as it has tries left.\<close>

lemma served_settles:
  assumes "spaced longest t (map fst rs)" and "\<forall>u. t + longest \<le> u \<longrightarrow> waiting e \<longrightarrow> ready u e"
    and "most \<le> tries e + length rs" and "0 < length rs"
  shows "\<not> waiting (served rs e)"
  using assms
proof (induction rs arbitrary: t e)
  case (Cons p rs)
  obtain u r where p: "p = (u, r)" by (cases p)
  show ?case
  proof (cases "waiting e")
    case True
    with Cons.prems(1,2) p have s: "serve u r e = attempt u r e" by (simp add: serve_def)
    have sp: "spaced longest u (map fst rs)" using Cons.prems(1) p by simp
    show ?thesis
    proof (cases "rs = []")
      case True
      have "\<not> waiting (attempt u r e)"
        using attempt_stops [of u r e] Cons.prems(3) True by (auto simp: attempt_tries)
      with True p s show ?thesis by simp
    next
      case False
      have "\<not> waiting (served rs (attempt u r e))"
        using Cons.prems(3) False attempt_soon by (intro Cons.IH [OF sp]) (auto simp: attempt_tries)
      with p s show ?thesis by simp
    qed
  next
    case False
    then show ?thesis by (metis served_done)
  qed
qed simp

text \<open>A run over a whole table: the first \<open>limit\<close> rows that are ready are tried.\<close>

fun pass :: "timestamp \<Rightarrow> 'a \<Rightarrow> nat \<Rightarrow> 'e list \<Rightarrow> 'e list" where
  "pass t r limit [] = []"
| "pass t r limit (e # es) =
     (if ready t e \<and> 0 < limit then attempt t r e # pass t r (limit - 1) es else e # pass t r limit es)"

fun passes :: "nat \<Rightarrow> (timestamp \<times> 'a) list \<Rightarrow> 'e list \<Rightarrow> 'e list" where
  "passes limit [] es = es"
| "passes limit ((t, r) # rs) es = passes limit rs (pass t r limit es)"

lemma pass_none: "pass t r 0 es = es"
  by (induction es) auto

lemma pass_map:
  assumes "distinct (map key es)"
  shows "map (\<lambda>x. if key x \<in> key ` set (take limit (filter (ready t) es)) then attempt t r x else x) es = pass t r limit es"
  using assms
proof (induction es arbitrary: limit)
  case (Cons e es)
  let ?m = "\<lambda>ids. map (\<lambda>x. if key x \<in> ids then attempt t r x else x) es"
  have out: "key e \<notin> key ` set (take n (filter (ready t) es))" for n
    using Cons.prems by (auto dest: in_set_takeD)
  have other: "?m (insert (key e) ids) = ?m ids" for ids
    using Cons.prems by (auto simp: image_iff)
  show ?case
  proof (cases "ready t e \<and> 0 < limit")
    case True
    then obtain n where "limit = Suc n" by (cases limit) auto
    with True Cons.IH [of n] Cons.prems other show ?thesis by (simp del: map_eq_conv)
  next
    case False
    then have "take limit (filter (ready t) (e # es)) = take limit (filter (ready t) es)" by auto
    with False out Cons show ?thesis by auto
  qed
qed simp

lemma length_pass [simp]: "length (pass t r limit es) = length es"
  by (induction t r limit es rule: pass.induct) auto

lemma length_passes [simp]: "length (passes limit rs es) = length es"
  by (induction limit rs es rule: passes.induct) auto

lemma pass_all:
  assumes "\<And>e. ready t e \<Longrightarrow> P e \<Longrightarrow> P (attempt t r e)" and "\<forall>e\<in>set es. P e"
  shows "\<forall>e\<in>set (pass t r limit es). P e"
  using assms(2) by (induction es arbitrary: limit) (auto intro: assms(1))

lemma passes_all:
  assumes "\<And>t r e. ready t e \<Longrightarrow> P e \<Longrightarrow> P (attempt t r e)" and "\<forall>e\<in>set es. P e"
  shows "\<forall>e\<in>set (passes limit rs es). P e"
  using assms(2)
proof (induction limit rs es rule: passes.induct)
  case (2 limit t r rs es)
  from 2(1) [OF pass_all [OF assms(1) 2(2)]] show ?case by simp
qed simp

lemma passes_app: "passes limit (rs @ qs) es = passes limit qs (passes limit rs es)"
  by (induction limit rs es rule: passes.induct) auto

text \<open>Rows with no more than \<open>limit\<close> waiting among them, ahead of the rest, are served each by itself.\<close>

lemma pass_front:
  assumes "length (filter waiting xs) \<le> limit"
  shows "\<exists>n. pass t r limit (xs @ ys) = map (serve t r) xs @ pass t r n ys"
  using assms
proof (induction xs arbitrary: limit)
  case (Cons x xs)
  show ?case
  proof (cases "ready t x")
    case True
    with Cons.prems have "0 < limit" "length (filter waiting xs) \<le> limit - 1" by (auto dest: ready_waits)
    with True Cons.IH [of "limit - 1"] show ?thesis by (simp add: serve_def)
  next
    case False
    with Cons.prems Cons.IH [of limit] show ?thesis by (auto simp: serve_def split: if_splits)
  qed
qed auto

lemma serve_waiting: "waiting (serve t r x) \<Longrightarrow> waiting x"
  by (auto simp: serve_def dest: ready_waits split: if_splits)

lemma length_filter_served: "length (filter waiting (map (serve t r) xs)) \<le> length (filter waiting xs)"
  using serve_waiting by (induction xs) auto

text \<open>A row that waits is ready again one pause from \<open>t\<close> on.\<close>

definition soon :: "timestamp \<Rightarrow> 'e \<Rightarrow> bool" where
  "soon t e \<longleftrightarrow> (waiting e \<longrightarrow> (\<forall>u. t + longest \<le> u \<longrightarrow> ready u e))"

fun clock :: "timestamp \<Rightarrow> (timestamp \<times> 'a) list \<Rightarrow> timestamp" where
  "clock t [] = t"
| "clock t ((u, r) # rs) = clock u rs"

lemma spaced_app: "spaced longest t (map fst (rs @ qs)) \<longleftrightarrow> spaced longest t (map fst rs) \<and> spaced longest (clock t rs) (map fst qs)"
  by (induction t rs rule: clock.induct) auto

lemma pass_soon: "\<forall>e\<in>set es. soon t e \<Longrightarrow> t + longest \<le> u \<Longrightarrow> \<forall>e\<in>set (pass u r limit es). soon u e"
  using longest_pos by (intro pass_all) (auto simp: soon_def intro: attempt_soon)

lemma passes_soon:
  "\<forall>e\<in>set es. soon t e \<Longrightarrow> spaced longest t (map fst rs) \<Longrightarrow> \<forall>e\<in>set (passes limit rs es). soon (clock t rs) e"
proof (induction t rs arbitrary: es rule: clock.induct)
  case (2 t u r rs)
  have "\<forall>e\<in>set (pass u r limit es). soon u e" using 2(2,3) by (intro pass_soon) auto
  with 2(1,3) show ?case by simp
qed simp

lemma passes_front:
  assumes "length (filter waiting xs) \<le> limit"
  shows "\<exists>zs. passes limit rs (xs @ ys) = map (served rs) xs @ zs \<and> length zs = length ys"
  using assms
proof (induction rs arbitrary: xs ys)
  case Nil
  have "map (served []) xs = xs" by (intro map_idI) simp
  then show ?case by simp
next
  case (Cons p rs)
  obtain t r where p: "p = (t, r)" by (cases p)
  from pass_front [OF Cons.prems] obtain n where n: "pass t r limit (xs @ ys) = map (serve t r) xs @ pass t r n ys" by blast
  have "length (filter waiting (map (serve t r) xs)) \<le> limit" using length_filter_served [of t r xs] Cons.prems by simp
  from Cons.IH [OF this, of "pass t r n ys"] show ?case by (simp add: p n comp_def)
qed

text \<open>
  However long the table: \<open>most\<close> spaced runs for every \<open>limit\<close> rows of it, and nothing in it waits.
\<close>

lemma passes_settle:
  assumes "0 < most" and "\<forall>e\<in>set es. soon t e" and "spaced longest t (map fst rs)"
    and "length es \<le> limit * k" and "most * k \<le> length rs"
  shows "\<forall>e\<in>set (passes limit rs es). \<not> waiting e"
proof -
  have "\<forall>e\<in>set (passes limit rs (xs @ ys)). \<not> waiting e"
    if "\<forall>e\<in>set xs. \<not> waiting e" "\<forall>e\<in>set (xs @ ys). soon t e" "spaced longest t (map fst rs)"
      "length ys \<le> limit * k" "most * k \<le> length rs" for xs ys t rs
    using that
  proof (induction k arbitrary: xs ys t rs)
    case 0
    then have "length (filter waiting xs) \<le> limit" by simp
    from passes_front [OF this, of rs ys] 0 show ?case by (auto simp: served_done)
  next
    case (Suc k)
    let ?a = "take limit ys" and ?b = "drop limit ys" and ?q = "take most rs" and ?s = "drop most rs"
    have w: "length (filter waiting (xs @ ?a)) \<le> limit"
      using Suc.prems(1) le_trans [OF length_filter_le, of ?a] by simp
    from passes_front [OF w, of ?q ?b] obtain zs where
      zs: "passes limit ?q (xs @ ys) = map (served ?q) (xs @ ?a) @ zs" "length zs = length ys - limit" by auto
    have sp: "spaced longest t (map fst ?q)" "spaced longest (clock t ?q) (map fst ?s)"
      using Suc.prems(3) spaced_app [of t ?q ?s] by simp_all
    have "\<not> waiting (served ?q e)" if "e \<in> set (xs @ ?a)" for e
    proof (rule served_settles [OF sp(1)])
      have "e \<in> set (xs @ ys)" using that by (auto dest: in_set_takeD)
      then show "\<forall>u. t + longest \<le> u \<longrightarrow> waiting e \<longrightarrow> ready u e" using Suc.prems(2) by (auto simp: soon_def)
    qed (use Suc.prems(5) assms(1) in auto)
    moreover have "\<forall>e\<in>set (map (served ?q) (xs @ ?a) @ zs). soon (clock t ?q) e"
      using passes_soon [OF Suc.prems(2) sp(1), of limit] by (simp only: zs)
    moreover have "length zs \<le> limit * k" "most * k \<le> length ?s" using Suc.prems(4,5) zs(2) by simp_all
    ultimately have "\<forall>e\<in>set (passes limit ?s (map (served ?q) (xs @ ?a) @ zs)). \<not> waiting e"
      using sp(2) by (intro Suc.IH) auto
    then have "\<forall>e\<in>set (passes limit ?s (passes limit ?q (xs @ ys))). \<not> waiting e" by (simp only: zs)
    then show ?case using passes_app [of limit ?q ?s "xs @ ys"] by simp
  qed
  from this [of "[]" es t rs] assms show ?thesis by simp
qed

text \<open>The attempts on a row, and that they are never more than the most.\<close>

fun attempts_on :: "(timestamp \<times> 'a) list \<Rightarrow> 'e \<Rightarrow> nat" where
  "attempts_on [] e = 0"
| "attempts_on ((t, r) # rs) e = (if ready t e then 1 else 0) + attempts_on rs (serve t r e)"

lemma attempts_are_tries: "tries (served rs e) = tries e + attempts_on rs e"
  by (induction rs e rule: attempts_on.induct) (auto simp: serve_def attempt_tries)

text \<open>A row in order: waiting only with tries left.\<close>

definition in_order :: "'e \<Rightarrow> bool" where
  "in_order e \<longleftrightarrow> tries e \<le> most \<and> (waiting e \<longrightarrow> tries e < most)"

lemma serve_in_order: "in_order e \<Longrightarrow> in_order (serve t r e)"
  using attempt_stops [of t r e] ready_waits [of t e]
  by (auto simp: in_order_def serve_def attempt_tries)

lemma served_in_order: "in_order e \<Longrightarrow> in_order (served rs e)"
  by (induction rs e rule: served.induct) (simp_all add: serve_in_order)

lemma attempts_bounded: "in_order e \<Longrightarrow> tries e + attempts_on rs e \<le> most"
  using served_in_order [of e rs] by (simp add: in_order_def flip: attempts_are_tries)

end

end
