(* ===== verification/Outbox.thy ===== *)
theory Outbox
  imports Rows Retry_Queue
begin

text \<open>
  The transactional outbox (\<^verbatim>\<open>outbox/service.py\<close>): events wait in a table for the governance
  engine, a job posts them and retries with growing pauses. The engine is another
  service (its own program, \<^verbatim>\<open>src/governance-engine\<close>), reached over HTTP: its answer to an event is an argument. An event's aggregate and correlation are left
  out.
\<close>

section \<open>Events and answers\<close>

datatype outbox_status = Ob_pending | Ob_sent | Ob_dead_letter

record outbox_event =
  obx_id :: id
  obx_tenant :: id
  obx_type :: string
  obx_payload :: json
  obx_status :: outbox_status
  obx_case :: "string option"
  obx_attempts :: nat
  obx_error :: "string option"
  obx_next :: "timestamp option"
  obx_sent_at :: "timestamp option"

definition backoffs :: "int list" where
  "backoffs = [60, 300, 1800, 7200, 43200, 86400]"

definition seconds :: "int \<Rightarrow> int" where
  "seconds n = n * 1000000"

definition retry_at :: "nat \<Rightarrow> timestamp \<Rightarrow> timestamp" where
  "retry_at n now = now + seconds (if length backoffs \<le> n then last backoffs else backoffs ! n)"

definition is_dead_letter :: "nat \<Rightarrow> bool" where
  "is_dead_letter n \<longleftrightarrow> length backoffs \<le> n"

definition enqueue ::
  "id \<Rightarrow> id \<Rightarrow> string \<Rightarrow> json \<Rightarrow> timestamp \<Rightarrow> outbox_event list \<Rightarrow> outbox_event \<times> outbox_event list" where
  "enqueue i tenant ty payload now es =
     (let e = \<lparr>obx_id = i, obx_tenant = tenant, obx_type = ty, obx_payload = payload,
        obx_status = Ob_pending, obx_case = None, obx_attempts = 0, obx_error = None,
        obx_next = Some now, obx_sent_at = None\<rparr>
      in (e, tadd e es))"

text \<open>What comes of a request: no connection, or a status and a body that may not be JSON.\<close>

datatype reply = No_connection string | Answer nat "json option"

text \<open>The outcome of the request: accepted, the body, the error.\<close>

definition post_to_governance :: "string option \<Rightarrow> reply \<Rightarrow> (bool \<times> json \<times> string option) res" where
  "post_to_governance url r =
     (if \<not> truthy url then Inr (False, JNull, Some ''governance_engine_url not configured'')
      else case r of
        No_connection c \<Rightarrow> Inr (False, JNull, Some (''http_error: '' @ c))
      | Answer n b \<Rightarrow>
          if 500 \<le> n then Inr (False, JNull, Some (''upstream_'' @ show_nat n))
          else if 400 \<le> n then Inr (False, JNull, Some (''client_error_'' @ show_nat n))
          else (case b of
            None \<Rightarrow> Inr (True, JObj [], None)
          | Some (JObj kv) \<Rightarrow> Inr (True, JObj kv, None)
          | Some _ \<Rightarrow> Inl (PyError ''AttributeError'')))"

section \<open>The case of the engine\<close>

text \<open>\<^verbatim>\<open>uuid.UUID(s)\<close>: prefixes, braces and dashes go, 32 characters that \<^verbatim>\<open>int(s, 16)\<close> reads remain.\<close>

function remove_all :: "string \<Rightarrow> string \<Rightarrow> string" where
  "remove_all p [] = []"
| "remove_all p (c # cs) =
     (if p \<noteq> [] \<and> take (length p) (c # cs) = p then remove_all p (drop (length p) (c # cs))
      else c # remove_all p cs)"
  by pat_completeness auto
termination by (relation "measure (\<lambda>(p, s). length s)") (auto simp: Suc_le_eq)

definition is_hex :: "char \<Rightarrow> bool" where
  "is_hex c \<longleftrightarrow> c \<in> set ''0123456789abcdefABCDEF''"

fun hex_digits :: "bool \<Rightarrow> string \<Rightarrow> bool" where
  "hex_digits d [] = d"
| "hex_digits d (c # cs) =
     (if is_hex c then hex_digits True cs else d \<and> c = CHR ''_'' \<and> hex_digits False cs)"

definition reads_hex :: "string \<Rightarrow> bool" where
  "reads_hex s =
     (let t = strip s; u = (if take 1 t \<in> {''+'', ''-''} then drop 1 t else t)
      in if take 2 u \<in> {''0x'', ''0X''} then drop 2 u \<noteq> [] \<and> hex_digits True (drop 2 u)
         else hex_digits False u)"

definition is_uuid :: "string \<Rightarrow> bool" where
  "is_uuid s =
     (let brace = (\<lambda>c. c \<in> set ''{}''); a = remove_all ''uuid:'' (remove_all ''urn:'' s);
          b = rev (dropWhile brace (rev (dropWhile brace a))); h = filter (\<lambda>c. c \<noteq> CHR ''-'') b
      in length h = 32 \<and> reads_hex h)"

fun falsy :: "json \<Rightarrow> bool" where
  "falsy JNull = True"
| "falsy (JBool b) = (\<not> b)"
| "falsy (JInt n) = (n = 0)"
| "falsy (JFloat x) = (x = 0)"
| "falsy (JStr s) = (s = [])"
| "falsy (JList xs) = (xs = [])"
| "falsy (JObj kv) = (kv = [])"

fun json_field :: "string \<Rightarrow> json \<Rightarrow> json" where
  "json_field k (JObj kv) = (case map_of (rev kv) k of None \<Rightarrow> JNull | Some j \<Rightarrow> j)"
| "json_field k _ = JNull"

text \<open>A text that is no UUID is passed over; anything else that is not falsy has no \<^verbatim>\<open>replace\<close>.\<close>

fun governance_case :: "json \<Rightarrow> string option \<Rightarrow> string option res" where
  "governance_case (JStr s) old = Inr (if s \<noteq> [] \<and> is_uuid s then Some s else old)"
| "governance_case j old = (if falsy j then Inr old else Inl (PyError ''AttributeError''))"

section \<open>The drain\<close>

definition sent_event :: "timestamp \<Rightarrow> outbox_event \<Rightarrow> outbox_event" where
  "sent_event now e = e\<lparr>obx_attempts := Suc (obx_attempts e), obx_status := Ob_sent, obx_sent_at := Some now\<rparr>"

definition failed_event :: "timestamp \<Rightarrow> string option \<Rightarrow> outbox_event \<Rightarrow> outbox_event" where
  "failed_event now error e =
     (let n = Suc (obx_attempts e);
          e1 = e\<lparr>obx_attempts := n, obx_error := Some (or_else error ''unknown'')\<rparr>
      in if is_dead_letter n then e1\<lparr>obx_status := Ob_dead_letter\<rparr>
         else e1\<lparr>obx_status := Ob_pending, obx_next := Some (retry_at n now)\<rparr>)"

definition drain_row :: "string option \<Rightarrow> timestamp \<Rightarrow> reply \<Rightarrow> outbox_event \<Rightarrow> outbox_event res" where
  "drain_row url now r e =
     (case post_to_governance url r of
        Inl _ \<Rightarrow> Inr (failed_event now (Some ''unexpected'') e)
      | Inr (True, body, _) \<Rightarrow>
          rbind (governance_case (json_field ''case_id'' body) (obx_case e)) (\<lambda>c.
            Inr ((sent_event now e)\<lparr>obx_case := c\<rparr>))
      | Inr (False, _, error) \<Rightarrow> Inr (failed_event now error e))"

definition outbox_due :: "timestamp \<Rightarrow> outbox_event \<Rightarrow> bool" where
  "outbox_due now e \<longleftrightarrow> obx_status e = Ob_pending
     \<and> (case obx_next e of None \<Rightarrow> True | Some t \<Rightarrow> t \<le> now)"

record drain_counts =
  dc_scanned :: nat
  dc_sent :: nat
  dc_retried :: nat
  dc_dead :: nat

definition tally :: "outbox_event \<Rightarrow> drain_counts \<Rightarrow> drain_counts" where
  "tally e c = (case obx_status e of
     Ob_sent \<Rightarrow> c\<lparr>dc_sent := Suc (dc_sent c)\<rparr>
   | Ob_dead_letter \<Rightarrow> c\<lparr>dc_dead := Suc (dc_dead c)\<rparr>
   | Ob_pending \<Rightarrow> c\<lparr>dc_retried := Suc (dc_retried c)\<rparr>)"

text \<open>
  The loop, with the requests it makes to the engine: they stay made when an error ends the loop,
  while what was written to the rows is rolled back with the transaction.
\<close>

fun drain_rows ::
  "string option \<Rightarrow> (outbox_event \<Rightarrow> reply) \<Rightarrow> timestamp \<Rightarrow> outbox_event list
    \<Rightarrow> id list \<times> drain_counts \<times> outbox_event list \<Rightarrow> id list \<times> (drain_counts \<times> outbox_event list) res" where
  "drain_rows url answer now [] (ps, c, es) = (ps, Inr (c, es))"
| "drain_rows url answer now (e # rest) (ps, c, es) =
     (let ps' = (if truthy url then ps @ [obx_id e] else ps)
      in case drain_row url now (answer e) e of
        Inl x \<Rightarrow> (ps', Inl x)
      | Inr e' \<Rightarrow> drain_rows url answer now rest (ps', tally e' c, tput obx_id e' es))"

definition drain_outbox ::
  "bool \<Rightarrow> string option \<Rightarrow> (outbox_event \<Rightarrow> reply) \<Rightarrow> timestamp \<Rightarrow> nat \<Rightarrow> outbox_event list
    \<Rightarrow> id list \<times> (drain_counts \<times> outbox_event list) res" where
  "drain_outbox flag url answer now limit es =
     (if \<not> flag then ([], Inr (\<lparr>dc_scanned = 0, dc_sent = 0, dc_retried = 0, dc_dead = 0\<rparr>, es))
      else
        (let rows = take limit (filter (outbox_due now) es)
         in drain_rows url answer now rows
              ([], \<lparr>dc_scanned = length rows, dc_sent = 0, dc_retried = 0, dc_dead = 0\<rparr>, es)))"

section \<open>The outbox as a retry queue\<close>

text \<open>
  An engine that answers an event with a case that is a text, or none, never breaks the loop; the
  drain of a row is then a function.
\<close>

fun textual :: "json \<Rightarrow> bool" where
  "textual (JStr s) = True"
| "textual j = falsy j"

definition well_answered :: "reply \<Rightarrow> bool" where
  "well_answered r \<longleftrightarrow> (case r of Answer n (Some b) \<Rightarrow> textual (json_field ''case_id'' b) | _ \<Rightarrow> True)"

definition drained :: "string option \<Rightarrow> timestamp \<Rightarrow> reply \<Rightarrow> outbox_event \<Rightarrow> outbox_event" where
  "drained url now r e = (case drain_row url now r e of Inr e' \<Rightarrow> e' | Inl _ \<Rightarrow> sent_event now e)"

lemma governance_case_text:
  "textual j \<Longrightarrow> \<exists>c. governance_case j old = Inr c"
  by (cases j) simp_all

lemma drain_row_total: "well_answered r \<Longrightarrow> drain_row url now r e = Inr (drained url now r e)"
proof -
  assume w: "well_answered r"
  have "\<exists>e'. drain_row url now r e = Inr e'"
  proof (cases "post_to_governance url r")
    case (Inr p)
    obtain ok body err where p: "p = (ok, body, err)" by (metis prod_cases3)
    show ?thesis
    proof (cases ok)
      case True
      with Inr p have "body = JObj [] \<or> (\<exists>n kv. r = Answer n (Some (JObj kv)) \<and> body = JObj kv)"
        by (auto simp: post_to_governance_def split: if_splits reply.splits option.splits json.splits)
      with w have "\<exists>c. governance_case (json_field ''case_id'' body) (obx_case e) = Inr c"
        by (elim disjE exE) (auto simp: well_answered_def intro!: governance_case_text)
      with Inr p True show ?thesis by (auto simp: drain_row_def)
    qed (simp add: drain_row_def Inr p)
  qed (simp add: drain_row_def)
  then show ?thesis by (auto simp: drained_def)
qed

lemma drained_form:
  "(\<exists>c. drained url now r e = (sent_event now e)\<lparr>obx_case := c\<rparr>) \<or> drained url now r e = sent_event now e
    \<or> (\<exists>x. drained url now r e = failed_event now x e)"
proof (cases "post_to_governance url r")
  case (Inr p)
  obtain ok body err where p: "p = (ok, body, err)" by (metis prod_cases3)
  show ?thesis
    by (cases ok; cases "governance_case (json_field ''case_id'' body) (obx_case e)")
      (auto simp: drained_def drain_row_def Inr p)
qed (auto simp: drained_def drain_row_def)

lemma drained_cases:
  obtains (sent) "obx_status (drained url now r e) = Ob_sent"
  | (dead) "obx_status (drained url now r e) = Ob_dead_letter"
  | (again) "obx_status (drained url now r e) = Ob_pending" "Suc (obx_attempts e) < 6"
      "obx_next (drained url now r e) = Some (retry_at (Suc (obx_attempts e)) now)"
  using drained_form [of url now r e]
  by (cases "is_dead_letter (Suc (obx_attempts e))")
    (auto simp: failed_event_def sent_event_def Let_def is_dead_letter_def backoffs_def)

lemma drained_tries: "obx_attempts (drained url now r e) = Suc (obx_attempts e)"
  using drained_form [of url now r e] by (auto simp: failed_event_def sent_event_def Let_def)

lemma drained_id: "obx_id (drained url now r e) = obx_id e"
  using drained_form [of url now r e] by (auto simp: failed_event_def sent_event_def Let_def)

lemma retry_at_soon: "retry_at n now \<le> now + 86400000000"
  by (auto simp: retry_at_def backoffs_def seconds_def nth_Cons' less_Suc_eq_0_disj)

definition drain_attempt :: "string option \<Rightarrow> timestamp \<Rightarrow> (outbox_event \<Rightarrow> reply) \<Rightarrow> outbox_event \<Rightarrow> outbox_event" where
  "drain_attempt url t answer e = drained url t (answer e) e"

interpretation outbox: retry_queue "drain_attempt url" "\<lambda>e. obx_status e = Ob_pending" outbox_due obx_attempts 6
    day_us
  for url
proof
  show "outbox_due t e \<Longrightarrow> obx_status e = Ob_pending" for t e by (simp add: outbox_due_def)
  show "obx_attempts (drain_attempt url t r e) = Suc (obx_attempts e)" for t r e
    by (simp add: drain_attempt_def drained_tries)
  show "obx_attempts (drain_attempt url t r e) < 6" if "obx_status (drain_attempt url t r e) = Ob_pending" for t r e
    using that unfolding drain_attempt_def by (cases rule: drained_cases [of url t "r e" e]) (simp_all add: drained_tries)
  show "outbox_due u (drain_attempt url t r e)"
    if "obx_status (drain_attempt url t r e) = Ob_pending" "t + day_us \<le> u" for t r e u
    using that retry_at_soon [of "Suc (obx_attempts e)" t] unfolding drain_attempt_def
    by (cases rule: drained_cases [of url t "r e" e]) (simp_all add: outbox_due_def day_us_def)
qed (simp add: day_us_def)

section \<open>Runs of the job\<close>

text \<open>Runs of the job, each with its time and its answers: a run that fails stores nothing.\<close>

fun drain_runs ::
  "string option \<Rightarrow> nat \<Rightarrow> (timestamp \<times> (outbox_event \<Rightarrow> reply)) list \<Rightarrow> id list \<times> outbox_event list
    \<Rightarrow> id list \<times> outbox_event list" where
  "drain_runs url limit [] (ps, es) = (ps, es)"
| "drain_runs url limit ((now, answer) # rs) (ps, es) =
     (case drain_outbox True url answer now limit es of
        (qs, Inl _) \<Rightarrow> drain_runs url limit rs (ps @ qs, es)
      | (qs, Inr (_, es')) \<Rightarrow> drain_runs url limit rs (ps @ qs, es'))"

definition row_after :: "string option \<Rightarrow> timestamp \<Rightarrow> (outbox_event \<Rightarrow> reply) \<Rightarrow> id set \<Rightarrow> outbox_event \<Rightarrow> outbox_event" where
  "row_after url now answer ids x = (if obx_id x \<in> ids then drained url now (answer x) x else x)"

lemma row_after_id [simp]: "obx_id (row_after url now answer ids x) = obx_id x"
  by (simp add: row_after_def drained_id)

lemma drain_rows_map:
  assumes "\<forall>e. well_answered (answer e)" and "keys_unique obx_id es" and "set rows \<subseteq> set es"
    and "distinct (map obx_id rows)"
  shows "\<exists>c'. drain_rows url answer now rows (ps, c, es)
    = (ps @ (if truthy url then map obx_id rows else []), Inr (c', map (row_after url now answer (obx_id ` set rows)) es))"
  using assms(2-4)
proof (induction rows arbitrary: ps c es)
  case Nil
  have "map (row_after url now answer {}) es = es" by (intro map_idI) (simp add: row_after_def)
  then show ?case by simp
next
  case (Cons e rows)
  let ?e = "drained url now (answer e) e" and ?es = "tput obx_id (drained url now (answer e) e) es"
  have es: "?es = map (row_after url now answer {obx_id e}) es"
    using Cons.prems(1,2) keys_unique_row [OF Cons.prems(1)]
    by (auto simp: tput_def row_after_def drained_id)
  have sub: "set rows \<subseteq> set ?es"
  proof
    fix r assume r: "r \<in> set rows"
    with Cons.prems(3) have "obx_id r \<noteq> obx_id e" by (auto simp: image_iff)
    with r Cons.prems(2) show "r \<in> set ?es" by (auto simp: set_tput drained_id)
  qed
  from Cons.IH [OF _ sub, of "if truthy url then ps @ [obx_id e] else ps" "tally ?e c"] Cons.prems
  obtain c' where c': "drain_rows url answer now rows (if truthy url then ps @ [obx_id e] else ps, tally ?e c, ?es)
      = ((if truthy url then ps @ [obx_id e] else ps) @ (if truthy url then map obx_id rows else []),
         Inr (c', map (row_after url now answer (obx_id ` set rows)) ?es))"
    by auto
  have "map (row_after url now answer (obx_id ` set rows)) ?es
      = map (row_after url now answer (obx_id ` set (e # rows))) es"
    using Cons.prems(3) unfolding es by (auto simp: row_after_def drained_id)
  with c' assms(1) show ?case by (auto simp: drain_row_total)
qed

definition due_rows :: "timestamp \<Rightarrow> nat \<Rightarrow> outbox_event list \<Rightarrow> outbox_event list" where
  "due_rows now limit es = take limit (filter (outbox_due now) es)"

lemma due_rows_sub: "set (due_rows now limit es) \<subseteq> {e \<in> set es. outbox_due now e}"
  using set_take_subset [of limit "filter (outbox_due now) es"] by (auto simp: due_rows_def)

lemma due_rows_distinct: "keys_unique obx_id es \<Longrightarrow> distinct (map obx_id (due_rows now limit es))"
  by (auto simp: due_rows_def keys_unique_def distinct_map_filter simp flip: take_map intro: distinct_take)

lemma drain_outbox_map:
  assumes "\<forall>e. well_answered (answer e)" and "keys_unique obx_id es"
  shows "\<exists>c'. drain_outbox True url answer now limit es
    = ((if truthy url then map obx_id (due_rows now limit es) else []),
       Inr (c', map (row_after url now answer (obx_id ` set (due_rows now limit es))) es))"
proof -
  have "set (due_rows now limit es) \<subseteq> set es" using due_rows_sub by blast
  from drain_rows_map [OF assms this due_rows_distinct [OF assms(2)], of url now "[]"]
  show ?thesis by (simp add: drain_outbox_def due_rows_def Let_def)
qed

lemma row_due_iff:
  assumes "keys_unique obx_id es" and "x \<in> set es"
  shows "obx_id x \<in> obx_id ` set (due_rows now limit es) \<longleftrightarrow> x \<in> set (due_rows now limit es)"
  using keys_unique_row [OF assms(1) assms(2)] due_rows_sub [of now limit es] by blast

text \<open>A run is a pass of the queue over the table.\<close>

lemma drain_passes:
  assumes "\<forall>e. well_answered (answer e)" and "keys_unique obx_id es"
  shows "\<exists>ps c'. drain_outbox True url answer now limit es = (ps, Inr (c', outbox.pass url now answer limit es))"
proof -
  have "map (row_after url now answer (obx_id ` set (due_rows now limit es))) es = outbox.pass url now answer limit es"
    using assms(2) outbox.pass_map [of obx_id es limit now url answer]
    by (simp add: keys_unique_def row_after_def [abs_def] drain_attempt_def due_rows_def cong: if_cong)
  then show ?thesis using drain_outbox_map [OF assms, of url now limit] by auto
qed

lemma keys_pass: "keys_unique obx_id (outbox.pass url now answer limit es) = keys_unique obx_id es"
proof -
  have "map obx_id (outbox.pass url now answer limit es) = map obx_id es"
    by (induction es arbitrary: limit) (simp_all add: drain_attempt_def drained_id)
  then show ?thesis by (simp add: keys_unique_def)
qed

lemma drain_runs_passes:
  assumes "\<forall>(now, answer)\<in>set rs. \<forall>e. well_answered (answer e)" and "keys_unique obx_id es"
  shows "snd (drain_runs url limit rs (ps, es)) = outbox.passes url limit rs es"
  using assms
proof (induction rs arbitrary: ps es)
  case (Cons p rs)
  obtain now answer where p: "p = (now, answer)" by (cases p)
  from Cons.prems p drain_passes [of answer es url now limit] obtain qs c where
    "drain_outbox True url answer now limit es = (qs, Inr (c, outbox.pass url now answer limit es))"
    by auto
  with p Cons.IH [of "outbox.pass url now answer limit es" "ps @ qs"] Cons.prems show ?case
    by (simp add: keys_pass)
qed simp

text \<open>C26: an event does not wait for ever, however long the table is: when the runs of the job are a day or more
  apart, are six for every \<open>limit\<close> events of the table, and no answer of the engine to an event refers to a case by
  anything but a text, every event of the table is sent or given up.\<close>

theorem outbox_settles:
  assumes "\<forall>(now, answer)\<in>set rs. \<forall>e. well_answered (answer e)" and "keys_unique obx_id es"
    and "length es \<le> limit * k" and "spaced day_us t (map fst rs)" and "6 * k \<le> length rs"
    and "\<forall>e\<in>set es. obx_status e = Ob_pending \<longrightarrow> (case obx_next e of None \<Rightarrow> True | Some u \<Rightarrow> u \<le> t + day_us)"
  shows "list_all (\<lambda>e. obx_status e \<noteq> Ob_pending) (snd (drain_runs url limit rs ([], es)))"
proof -
  have "\<forall>e\<in>set es. outbox.soon t e"
    using assms(6) by (auto simp: outbox.soon_def outbox_due_def split: option.splits)
  then have "\<forall>e\<in>set (outbox.passes url limit rs es). obx_status e \<noteq> Ob_pending"
    by (intro outbox.passes_settle [OF _ _ assms(4,3,5)]) simp_all
  then show ?thesis
    by (simp add: drain_runs_passes [OF assms(1,2)] list_all_iff)
qed

section \<open>How often an event is posted\<close>

lemma count_list_distinct: "distinct xs \<Longrightarrow> count_list xs x \<le> 1"
  by (induction xs) (auto simp: count_list_0_iff)

definition posted_right :: "id list \<Rightarrow> outbox_event list \<Rightarrow> bool" where
  "posted_right ps es \<longleftrightarrow> (\<forall>e\<in>set es. outbox.in_order e \<and> count_list ps (obx_id e) \<le> obx_attempts e)
     \<and> set ps \<subseteq> obx_id ` set es"

lemma drain_keeps_posted:
  assumes "\<forall>e. well_answered (answer e)" and "keys_unique obx_id es" and "posted_right ps es"
    and "drain_outbox True url answer now limit es = (qs, Inr (c, es'))"
  shows "keys_unique obx_id es' \<and> posted_right (ps @ qs) es'"
proof -
  let ?due = "due_rows now limit es"
  from drain_outbox_map [OF assms(1,2), of url now limit] assms(4)
  have qs: "qs = (if truthy url then map obx_id ?due else [])"
    and es': "es' = map (row_after url now answer (obx_id ` set ?due)) es" by auto
  have k: "keys_unique obx_id es'" using assms(2) by (simp add: es' keys_unique_def comp_def)
  have "outbox.in_order (row_after url now answer (obx_id ` set ?due) x)
      \<and> count_list (ps @ qs) (obx_id x) \<le> obx_attempts (row_after url now answer (obx_id ` set ?due) x)"
    if x: "x \<in> set es" for x
  proof (cases "x \<in> set ?due")
    case True
    then have r: "row_after url now answer (obx_id ` set ?due) x = outbox.serve url now answer x"
      using due_rows_sub [of now limit es] by (auto simp: row_after_def outbox.serve_def drain_attempt_def)
    have "count_list (map obx_id ?due) (obx_id x) \<le> 1"
      using due_rows_distinct [OF assms(2)] by (rule count_list_distinct)
    with assms(3) x True r show ?thesis
      using outbox.serve_in_order [of x url now answer] due_rows_sub [of now limit es]
      by (auto simp: posted_right_def qs outbox.serve_def drain_attempt_def drained_tries)
  next
    case False
    then have n: "obx_id x \<notin> obx_id ` set ?due" using row_due_iff [OF assms(2) x] by simp
    then have "count_list (map obx_id ?due) (obx_id x) = 0" by (simp add: count_list_0_iff)
    with n assms(3) x show ?thesis by (auto simp: posted_right_def row_after_def qs)
  qed
  moreover have "set qs \<subseteq> obx_id ` set es" using due_rows_sub [of now limit es] by (auto simp: qs)
  moreover have "obx_id ` set es' = obx_id ` set es" by (simp add: es' image_image)
  ultimately show ?thesis using k assms(3) unfolding posted_right_def es' by auto
qed

text \<open>C27: over any runs of the job, whenever they are and however many rows each takes, an event is
  posted to the engine at most six times, as long as the case it gives is a text.\<close>

theorem outbox_posts_bounded:
  assumes "\<forall>(now, answer)\<in>set rs. \<forall>e. well_answered (answer e)" and "keys_unique obx_id es"
    and "\<forall>e\<in>set es. obx_attempts e = 0"
  shows "count_list (fst (drain_runs url limit rs ([], es))) i \<le> 6"
proof -
  have "keys_unique obx_id (snd (drain_runs url limit rs (ps, vs)))
      \<and> posted_right (fst (drain_runs url limit rs (ps, vs))) (snd (drain_runs url limit rs (ps, vs)))"
    if "keys_unique obx_id vs" "posted_right ps vs" for ps vs
    using assms(1) that
  proof (induction rs arbitrary: ps vs)
    case (Cons p rs)
    obtain now answer where p: "p = (now, answer)" by (cases p)
    from Cons.prems(1) p have w: "\<forall>e. well_answered (answer e)" by simp
    from drain_outbox_map [OF w Cons.prems(2), of url now limit] obtain qs c ws
      where d: "drain_outbox True url answer now limit vs = (qs, Inr (c, ws))" by blast
    from drain_keeps_posted [OF w Cons.prems(2,3) d] Cons.IH [of ws "ps @ qs"] Cons.prems(1) d p
    show ?case by simp
  qed simp
  moreover have "posted_right [] es" using assms(3) by (simp add: posted_right_def outbox.in_order_def)
  ultimately have r: "posted_right (fst (drain_runs url limit rs ([], es))) (snd (drain_runs url limit rs ([], es)))"
    using assms(2) by blast
  show ?thesis
  proof (cases "i \<in> set (fst (drain_runs url limit rs ([], es)))")
    case True
    with r obtain e where "e \<in> set (snd (drain_runs url limit rs ([], es)))" "obx_id e = i"
      by (auto simp: posted_right_def)
    with r show ?thesis by (force simp: posted_right_def outbox.in_order_def)
  qed (simp add: count_list_0_iff)
qed

section \<open>An engine that numbers its cases\<close>

text \<open>when the engine gives the case of an event as a number, the run of the job fails after it has
  posted the event and nothing is stored: at every run the event is posted once more, its attempts are
  not counted, and the events behind it are never posted.\<close>

theorem numbered_case_blocks_outbox:
  assumes "\<forall>(now, answer)\<in>set rs. outbox_due now e \<and> answer e = Answer 200 (Some (JObj [(''case_id'', JInt k)]))"
    and "k \<noteq> 0" and "0 < limit" and "truthy url"
  shows "drain_runs url limit rs ([], e # es) = (replicate (length rs) (obx_id e), e # es)"
proof -
  have one: "drain_outbox True url answer now limit (e # es) = ([obx_id e], Inl (PyError ''AttributeError''))"
    if "outbox_due now e" "answer e = Answer 200 (Some (JObj [(''case_id'', JInt k)]))" for now answer
    using that assms(2-4)
    by (cases limit) (simp_all add: drain_outbox_def drain_row_def post_to_governance_def Let_def)
  have "drain_runs url limit rs (ps, e # es) = (ps @ replicate (length rs) (obx_id e), e # es)" for ps
    using assms(1)
  proof (induction rs arbitrary: ps)
    case (Cons p rs)
    obtain now answer where p: "p = (now, answer)" by (cases p)
    from Cons p show ?case by (simp add: one)
  qed simp
  from this [of "[]"] show ?thesis by simp
qed

section \<open>Three runs\<close>

definition sample_event :: "id \<Rightarrow> outbox_event" where
  "sample_event i = fst (enqueue i 1 ''trip.closed'' JNull 0 [])"

text \<open>Twelve days of an engine that is down for the first event and accepts the second.\<close>

definition engine_down :: "outbox_event \<Rightarrow> reply" where
  "engine_down e = (if obx_id e = 1 then No_connection ''ConnectError'' else Answer 200 None)"

definition down_runs :: "(timestamp \<times> (outbox_event \<Rightarrow> reply)) list" where
  "down_runs = map (\<lambda>n. (int n * day_us, engine_down)) [1..<13]"

lemma down_runs_facts:
  "\<forall>(now, answer)\<in>set down_runs. \<forall>e. well_answered (answer e)"
  "spaced day_us 0 (map fst down_runs)" "length down_runs = 12"
  by (auto simp: down_runs_def engine_down_def well_answered_def upt_rec)

lemma sample_events: "keys_unique obx_id [sample_event 1, sample_event 2]"
    "obx_attempts (sample_event i) = 0" "obx_next (sample_event i) = Some 0"
    "obx_status (sample_event i) = Ob_pending" "obx_id (sample_event i) = i" "truthy (Some ''http://engine'')"
  by (simp_all add: sample_event_def enqueue_def keys_unique_def Let_def)

theorem outbox_settles_witness:
  "list_all (\<lambda>e. obx_status e \<noteq> Ob_pending)
    (snd (drain_runs (Some ''http://engine'') 1 down_runs ([], [sample_event 1, sample_event 2])))"
  by (rule outbox_settles [where k = 2, OF down_runs_facts(1) sample_events(1) _ down_runs_facts(2)])
    (simp_all add: down_runs_facts(3) sample_events day_us_def)

theorem outbox_posts_bounded_witness:
  "count_list (fst (drain_runs (Some ''http://engine'') 1 down_runs ([], [sample_event 1, sample_event 2]))) 1 \<le> 6
    \<and> count_list (fst (drain_runs (Some ''http://engine'') 1 [(0, engine_down)] ([], [sample_event 1, sample_event 2]))) 1 = 1"
proof -
  have "count_list (fst (drain_runs (Some ''http://engine'') 1 [(0, engine_down)] ([], [sample_event 1, sample_event 2]))) 1 = 1"
    by code_simp
  with outbox_posts_bounded [OF down_runs_facts(1) sample_events(1), of "Some ''http://engine''" 1 1]
  show ?thesis by (simp add: sample_events)
qed

theorem numbered_case_blocks_outbox_witness:
  "drain_runs (Some ''http://engine'') 100 (replicate 3 (5, \<lambda>_. Answer 200 (Some (JObj [(''case_id'', JInt 7)]))))
     ([], [sample_event 1, sample_event 2]) = ([1, 1, 1], [sample_event 1, sample_event 2])"
proof -
  have "drain_runs (Some ''http://engine'') 100 (replicate 3 (5, \<lambda>_. Answer 200 (Some (JObj [(''case_id'', JInt 7)]))))
      ([], [sample_event 1, sample_event 2])
    = (replicate (length (replicate 3 (5 :: timestamp, \<lambda>_ :: outbox_event. Answer 200 (Some (JObj [(''case_id'', JInt 7)])))))
         (obx_id (sample_event 1)), [sample_event 1, sample_event 2])"
    by (rule numbered_case_blocks_outbox [where k = 7]) (simp_all add: outbox_due_def sample_events)
  then show ?thesis by (simp add: sample_events numeral_3_eq_3)
qed

end
