(* ===== verification/Notifications.thy ===== *)
theory Notifications
  imports Oversight Retry_Queue
begin

text \<open>
  E-mails waiting to be sent: queued by \<^verbatim>\<open>notifications/service.py\<close>, delivered by
  \<^verbatim>\<open>jobs/tasks/notifications.py\<close>. The mail server is not code of the repository: whether it takes a
  message, or the error it raises, is an argument.
\<close>

section \<open>The queue\<close>

record notification =
  ntf_id :: id
  ntf_tenant :: id
  ntf_reference :: string
  ntf_recipient :: string
  ntf_subject :: string
  ntf_text :: string
  ntf_html :: "string option"
  ntf_template :: "string option"
  ntf_payload :: "json option"
  ntf_channel :: string
  ntf_status :: string
  ntf_attempts :: nat
  ntf_error :: "string option"
  ntf_scheduled :: "timestamp option"
  ntf_sent_at :: "timestamp option"

record email =
  eml_reference :: string
  eml_recipient :: string
  eml_subject :: string
  eml_text :: string
  eml_html :: "string option"
  eml_template :: "string option"
  eml_payload :: "json option"

definition same_email :: "email \<Rightarrow> notification \<Rightarrow> bool" where
  "same_email p x \<longleftrightarrow> ntf_reference x = eml_reference p \<and> ntf_recipient x = eml_recipient p
     \<and> ntf_subject x = eml_subject p \<and> ntf_text x = eml_text p \<and> ntf_html x = eml_html p
     \<and> ntf_template x = eml_template p \<and> ntf_payload x = eml_payload p \<and> ntf_channel x = ''email''"

definition queued_email :: "id \<Rightarrow> id \<Rightarrow> email \<Rightarrow> timestamp \<Rightarrow> notification" where
  "queued_email i tenant p now =
     \<lparr>ntf_id = i, ntf_tenant = tenant, ntf_reference = eml_reference p, ntf_recipient = eml_recipient p,
      ntf_subject = eml_subject p, ntf_text = eml_text p, ntf_html = eml_html p, ntf_template = eml_template p,
      ntf_payload = eml_payload p, ntf_channel = ''email'', ntf_status = ''queued'', ntf_attempts = 0,
      ntf_error = None, ntf_scheduled = Some now, ntf_sent_at = None\<rparr>"

definition enqueue_email ::
  "id \<Rightarrow> email \<Rightarrow> id option \<Rightarrow> timestamp \<Rightarrow> db \<times> notification list
    \<Rightarrow> (notification \<times> db \<times> notification list) res" where
  "enqueue_email tenant p actor now = (\<lambda>(d, ns).
     (case List.find (\<lambda>x. ntf_tenant x = tenant \<and> ntf_reference x = eml_reference p) ns of
        Some x \<Rightarrow>
          if same_email p x then Inr (x, d, ns)
          else Inl (ApiError ''notification_request_reference_reused'' 409)
      | None \<Rightarrow>
          (let (i, d1) = fresh_id d; x = queued_email i tenant p now
           in Inr (x, record_audit_log tenant actor ''notification.email_queued'' ''notification_outbox'' (Some i) d1,
                tadd x ns))))"

definition list_notifications ::
  "id \<Rightarrow> string option \<Rightarrow> string option \<Rightarrow> nat \<Rightarrow> nat \<Rightarrow> notification list \<Rightarrow> notification list" where
  "list_notifications tenant st channel limit offset ns =
     take limit (drop offset (rev (filter (\<lambda>x. ntf_tenant x = tenant
       \<and> (\<not> truthy st \<or> Some (ntf_status x) = st) \<and> (\<not> truthy channel \<or> Some (ntf_channel x) = channel)) ns)))"

definition get_notification :: "id \<Rightarrow> id \<Rightarrow> notification list \<Rightarrow> notification res" where
  "get_notification tenant i ns =
     of_opt (ApiError ''notification_not_found'' 404) (owned ntf_id ntf_tenant tenant i ns)"

section \<open>Delivery\<close>

definition retry_delays :: "int list" where
  "retry_delays = [60, 300, 900, 3600, 7200]"

definition max_attempts :: nat where
  "max_attempts = 5"

definition next_retry_at :: "nat \<Rightarrow> timestamp \<Rightarrow> timestamp" where
  "next_retry_at n now = now + retry_delays ! min n (length retry_delays - 1) * 1000000"

definition deliverable :: "timestamp \<Rightarrow> notification \<Rightarrow> bool" where
  "deliverable now x \<longleftrightarrow> ntf_channel x = ''email'' \<and> ntf_status x \<in> {''queued'', ''failed''}
     \<and> ntf_attempts x < max_attempts \<and> (case ntf_scheduled x of None \<Rightarrow> True | Some t \<Rightarrow> t \<le> now)"

definition deliver_row ::
  "string \<Rightarrow> timestamp \<Rightarrow> (notification \<Rightarrow> string option) \<Rightarrow> notification \<Rightarrow> notification" where
  "deliver_row provider now send x =
     (let n = Suc (ntf_attempts x); y = x\<lparr>ntf_attempts := n\<rparr> in
      if casefold provider \<noteq> ''smtp''
      then y\<lparr>ntf_status := ''failed'', ntf_error := Some (''Unsupported EMAIL_PROVIDER: '' @ provider),
             ntf_scheduled := Some (next_retry_at n now)\<rparr>
      else case send x of
        None \<Rightarrow> y\<lparr>ntf_status := ''sent'', ntf_sent_at := Some now, ntf_error := None, ntf_scheduled := None\<rparr>
      | Some e \<Rightarrow>
          if max_attempts \<le> n
          then y\<lparr>ntf_error := Some (take 1000 e), ntf_status := ''dead_letter'', ntf_scheduled := None\<rparr>
          else y\<lparr>ntf_error := Some (take 1000 e), ntf_status := ''failed'',
                 ntf_scheduled := Some (next_retry_at n now)\<rparr>)"

definition to_deliver :: "timestamp \<Rightarrow> nat \<Rightarrow> notification list \<Rightarrow> notification list" where
  "to_deliver now limit ns = take limit (filter (deliverable now) ns)"

text \<open>The provider is compared in lower case. The result is the new table; its counts are left out.\<close>

definition deliver_queued_notifications ::
  "string \<Rightarrow> (notification \<Rightarrow> string option) \<Rightarrow> timestamp \<Rightarrow> nat \<Rightarrow> notification list \<Rightarrow> notification list" where
  "deliver_queued_notifications provider send now limit ns =
     (if casefold provider \<in> {''none'', ''outbox''} then ns
      else map (\<lambda>x. if ntf_id x \<in> ntf_id ` set (to_deliver now limit ns)
                    then deliver_row provider now send x else x) ns)"

section \<open>The queue as a retry queue\<close>

definition still_queued :: "notification \<Rightarrow> bool" where
  "still_queued x \<longleftrightarrow> ntf_channel x = ''email'' \<and> ntf_status x \<in> {''queued'', ''failed''}
     \<and> ntf_attempts x < max_attempts"

lemma next_retry_soon: "next_retry_at n now \<le> now + 7200000000"
  by (auto simp: next_retry_at_def retry_delays_def nth_Cons' min_def)

lemma deliver_row_fields:
  "ntf_attempts (deliver_row provider now send x) = Suc (ntf_attempts x)"
  "ntf_id (deliver_row provider now send x) = ntf_id x"
  by (auto simp: deliver_row_def Let_def split: option.split)

interpretation mail: retry_queue "deliver_row provider" still_queued deliverable ntf_attempts max_attempts 7200000000
  for provider
proof
  show "deliverable t x \<Longrightarrow> still_queued x" for t x by (simp add: deliverable_def still_queued_def)
  show "ntf_attempts (deliver_row provider t r x) = Suc (ntf_attempts x)" for t r x by (rule deliver_row_fields)
  show "ntf_attempts (deliver_row provider t r x) < max_attempts" if "still_queued (deliver_row provider t r x)" for t r x
    using that by (simp add: still_queued_def)
  show "deliverable u (deliver_row provider t r x)"
    if "still_queued (deliver_row provider t r x)" "t + 7200000000 \<le> u" for t r x u
  proof -
    have "ntf_scheduled (deliver_row provider t r x) = Some (next_retry_at (Suc (ntf_attempts x)) t)"
      using that(1) by (auto simp: still_queued_def deliver_row_def Let_def split: option.splits if_splits)
    with that next_retry_soon [of "Suc (ntf_attempts x)" t] show ?thesis
      by (simp add: still_queued_def deliverable_def)
  qed
qed simp

text \<open>Runs of the job, with the answers of the mail server.\<close>

fun mail_runs ::
  "string \<Rightarrow> nat \<Rightarrow> (timestamp \<times> (notification \<Rightarrow> string option)) list \<Rightarrow> notification list \<Rightarrow> notification list" where
  "mail_runs provider limit [] ns = ns"
| "mail_runs provider limit ((now, send) # rs) ns =
     mail_runs provider limit rs (deliver_queued_notifications provider send now limit ns)"

lemma deliver_passes:
  assumes "keys_unique ntf_id ns" and "casefold provider \<notin> {''none'', ''outbox''}"
  shows "deliver_queued_notifications provider send now limit ns = mail.pass provider now send limit ns"
  using assms mail.pass_map [of ntf_id ns limit now provider send]
  by (simp add: keys_unique_def deliver_queued_notifications_def to_deliver_def)

lemma mail_keys_pass: "keys_unique ntf_id (mail.pass provider now send limit ns) = keys_unique ntf_id ns"
proof -
  have "map ntf_id (mail.pass provider now send limit ns) = map ntf_id ns"
    by (induction ns arbitrary: limit) (simp_all add: deliver_row_fields)
  then show ?thesis by (simp add: keys_unique_def)
qed

lemma mail_runs_passes:
  assumes "keys_unique ntf_id ns" and "casefold provider \<notin> {''none'', ''outbox''}"
  shows "mail_runs provider limit rs ns = mail.passes provider limit rs ns"
  using assms(1)
proof (induction rs arbitrary: ns)
  case (Cons p rs)
  obtain now send where p: "p = (now, send)" by (cases p)
  with Cons mail_keys_pass [of provider now send limit ns] deliver_passes [OF Cons.prems assms(2), of send now limit]
  show ?case by simp
qed simp

text \<open>With the mail server as provider, what is no longer tried was sent or is marked as dead.\<close>

definition settled_mail :: "notification \<Rightarrow> bool" where
  "settled_mail x \<longleftrightarrow> still_queued x \<or> ntf_status x \<in> {''sent'', ''dead_letter''}"

lemma attempt_settled: "casefold provider = ''smtp'' \<Longrightarrow> settled_mail (deliver_row provider now send x)
    \<or> \<not> deliverable now x"
  by (auto simp: settled_mail_def deliver_row_def Let_def still_queued_def deliverable_def split: option.splits)

text \<open>C28: with \<open>smtp\<close> as the provider no e-mail waits for ever, however long the queue is: when the runs of the
  delivery job are two hours or more apart and are five for every \<open>limit\<close> e-mails of the queue, then, whatever
  the mail server answers, every queued e-mail is sent or ends as a dead letter.\<close>

theorem mail_settles:
  assumes "keys_unique ntf_id ns" and "length ns \<le> limit * k" and "casefold provider = ''smtp''"
    and "spaced 7200000000 t (map fst rs)" and "5 * k \<le> length rs"
    and "\<forall>x\<in>set ns. still_queued x \<and> (case ntf_scheduled x of None \<Rightarrow> True | Some u \<Rightarrow> u \<le> t + 7200000000)"
  shows "list_all (\<lambda>x. ntf_status x \<in> {''sent'', ''dead_letter''}) (mail_runs provider limit rs ns)"
proof -
  have "\<forall>x\<in>set ns. mail.soon t x"
    using assms(6) by (auto simp: mail.soon_def deliverable_def still_queued_def split: option.splits)
  then have "\<forall>x\<in>set (mail.passes provider limit rs ns). \<not> still_queued x"
    using assms(5) by (intro mail.passes_settle [OF _ _ assms(4,2)]) (simp_all add: max_attempts_def)
  moreover have "\<forall>x\<in>set (mail.passes provider limit rs ns). settled_mail x"
    using assms(6) attempt_settled [OF assms(3)]
    by (intro mail.passes_all) (blast, simp add: settled_mail_def)
  ultimately show ?thesis
    using mail_runs_passes [OF assms(1), of provider limit rs] assms(3) by (simp add: list_all_iff settled_mail_def)
qed

definition sample_mail :: "id \<Rightarrow> notification" where
  "sample_mail i = queued_email i 1 \<lparr>eml_reference = ''R'', eml_recipient = ''a@b'', eml_subject = ''S'',
     eml_text = ''T'', eml_html = None, eml_template = None, eml_payload = None\<rparr> 0"

definition ten_runs :: "(timestamp \<times> (notification \<Rightarrow> string option)) list" where
  "ten_runs = map (\<lambda>n. (int n * 7200000000, \<lambda>x. if ntf_id x = 1 then Some ''timeout'' else None)) [1..<11]"

theorem mail_settles_witness:
  "list_all (\<lambda>x. ntf_status x \<in> {''sent'', ''dead_letter''}) (mail_runs ''smtp'' 1 ten_runs [sample_mail 1, sample_mail 2])
    \<and> map ntf_status (mail_runs ''smtp'' 1 ten_runs [sample_mail 1, sample_mail 2]) = [''dead_letter'', ''sent'']"
proof
  have "casefold ''smtp'' = ''smtp''" by code_simp
  then show "list_all (\<lambda>x. ntf_status x \<in> {''sent'', ''dead_letter''})
      (mail_runs ''smtp'' 1 ten_runs [sample_mail 1, sample_mail 2])"
    by (rule mail_settles [rotated 2, where t = 0 and k = 2])
      (simp_all add: ten_runs_def upt_rec keys_unique_def sample_mail_def queued_email_def still_queued_def max_attempts_def)
  show "map ntf_status (mail_runs ''smtp'' 1 ten_runs [sample_mail 1, sample_mail 2]) = [''dead_letter'', ''sent'']"
    by code_simp
qed

end
