(* ===== verification/Iso_Dates.thy ===== *)
theory Iso_Dates
  imports Policies
begin

text \<open>
  Dates as the services write them into JSON documents, \<^verbatim>\<open>date.isoformat()\<close>, and that
  \<^verbatim>\<open>_parse_date\<close> of \<^verbatim>\<open>availability/service.py\<close> reads back the day that was written.
\<close>

section \<open>Year, month and day of a date\<close>

fun civil_in :: "int list \<Rightarrow> int \<Rightarrow> nat \<times> nat" where
  "civil_in [] k = (1, nat k + 1)"
| "civil_in (n # ns) k =
     (if k < n then (1, nat k + 1) else (let (m, d) = civil_in ns (k - n) in (Suc m, d)))"

definition civil :: "day \<Rightarrow> nat \<times> nat \<times> nat" where
  "civil d = (let y = year_of_day d; (m, k) = civil_in (month_lengths y) (d - year_start y) in (nat y, m, k))"

definition isoformat :: "day \<Rightarrow> string" where
  "isoformat d = (case civil d of (y, m, k) \<Rightarrow>
     zfill 4 (show_nat y) @ ''-'' @ zfill 2 (show_nat m) @ ''-'' @ zfill 2 (show_nat k))"

text \<open>The dates Python has: years 1 to 9999.\<close>

definition python_day :: "day \<Rightarrow> bool" where
  "python_day d \<longleftrightarrow> year_start 1 \<le> d \<and> d < year_start 10000"

section \<open>The calendar\<close>

lemma year_start_mono: "y \<le> z \<Longrightarrow> year_start y \<le> year_start z"
proof (induction z rule: int_ge_induct)
  case (step z)
  then show ?case using year_start_step(1) [of z] by simp
qed simp

lemma century_years: "(400::int) dvd y \<longrightarrow> 100 dvd y" "(100::int) dvd y \<longrightarrow> 4 dvd y"
  by (rule impI, rule dvd_trans [of "100::int" 400], simp_all) (rule impI, rule dvd_trans [of "4::int" 100], simp_all)

lemma leap_days:
  "(c \<longrightarrow> b) \<Longrightarrow> (b \<longrightarrow> a) \<Longrightarrow> (if a \<and> (\<not> b \<or> c) then 29 else 28 :: int)
     = 28 + ((if a then 1 else 0) - (if b then 1 else 0) + (if c then 1 else 0))"
  by (cases a; cases b; cases c) simp_all

lemma year_length: "sum_list (month_lengths y) = year_start (y + 1) - year_start y"
proof -
  have "(if is_leap y then 29 else 28 :: int)
      = 28 + ((if 4 dvd y then 1 else 0) - (if 100 dvd y then 1 else 0) + (if 400 dvd y then 1 else 0))"
    unfolding is_leap_def by (rule leap_days [OF century_years])
  moreover have "leap_count (y + 1) - leap_count y
      = (if 4 dvd y then 1 else 0) - (if 100 dvd y then 1 else 0) + (if 400 dvd y then 1 else 0)"
    unfolding leap_count_next by (simp only: algebra_simps)
  ultimately have "(if is_leap y then 29 else 28 :: int) = 28 + (leap_count (y + 1) - leap_count y)" by (simp only:)
  moreover have "sum_list (month_lengths y) = 337 + (if is_leap y then 29 else 28)" by (simp add: month_lengths_def del: if_split)
  moreover have "year_start (y + 1) - year_start y = 365 + (leap_count (y + 1) - leap_count y)" by (simp add: year_start_def)
  ultimately show ?thesis by linarith
qed

lemma month_lengths_facts: "length (month_lengths y) = 12" "list_all (\<lambda>n. 0 < n) (month_lengths y)"
    "list_all (\<lambda>n. n \<le> 31) (month_lengths y)"
  by (simp_all add: month_lengths_def)

lemma civil_in_spec:
  assumes "0 \<le> k" and "k < sum_list ns" and "list_all (\<lambda>n. 0 < n) ns" and "civil_in ns k = (m, d)"
  shows "1 \<le> m \<and> m \<le> length ns \<and> 1 \<le> d \<and> int d \<le> ns ! (m - 1) \<and> sum_list (take (m - 1) ns) + int d - 1 = k"
  using assms
proof (induction ns arbitrary: k m)
  case (Cons n ns)
  show ?case
  proof (cases "k < n")
    case False
    then obtain m' where m': "civil_in ns (k - n) = (m', d)" "m = Suc m'"
      using Cons.prems(4) by (auto split: prod.splits)
    have "1 \<le> m' \<and> m' \<le> length ns \<and> 1 \<le> d \<and> int d \<le> ns ! (m' - 1) \<and> sum_list (take (m' - 1) ns) + int d - 1 = k - n"
      using Cons.prems False m'(1) by (intro Cons.IH) auto
    with m'(2) show ?thesis by (cases m') auto
  qed (use Cons.prems in auto)
qed simp

lemma civil_spec:
  assumes "python_day d" and "civil d = (y, m, k)"
  shows "make_date y m k = Some d \<and> y < 10000 \<and> m \<le> 12 \<and> k \<le> 31"
proof -
  let ?y = "year_of_day d"
  have yd: "year_start ?y \<le> d" "d < year_start (?y + 1)" using year_of_day_spec by blast+
  have lo: "1 \<le> ?y"
  proof (rule ccontr)
    assume "\<not> 1 \<le> ?y"
    then have "year_start (?y + 1) \<le> year_start 1" by (intro year_start_mono) simp
    with yd assms(1) show False by (simp add: python_day_def)
  qed
  have hi: "?y < 10000"
  proof (rule ccontr)
    assume "\<not> ?y < 10000"
    then have "year_start 10000 \<le> year_start ?y" by (intro year_start_mono) simp
    with yd assms(1) show False by (simp add: python_day_def)
  qed
  from assms(2) have y: "y = nat ?y" and c: "civil_in (month_lengths ?y) (d - year_start ?y) = (m, k)"
    by (auto simp: civil_def Let_def split: prod.splits)
  have s: "1 \<le> m \<and> m \<le> 12 \<and> 1 \<le> k \<and> int k \<le> month_lengths ?y ! (m - 1)
      \<and> sum_list (take (m - 1) (month_lengths ?y)) + int k - 1 = d - year_start ?y"
    using civil_in_spec [OF _ _ month_lengths_facts(2) c] yd by (simp add: year_length month_lengths_facts)
  have "m - 1 < length (month_lengths ?y)" using s unfolding month_lengths_facts by linarith
  then have "month_lengths ?y ! (m - 1) \<le> 31"
    using month_lengths_facts(3) [of ?y] by (simp only: list_all_length)
  moreover have "int y = ?y" using lo y by simp
  ultimately show ?thesis using s lo hi y by (auto simp: make_date_def)
qed

section \<open>Numerals\<close>

lemma digits_append: "digits (s @ t) \<longleftrightarrow> (s = [] \<and> digits t) \<or> (t = [] \<and> digits s) \<or> (digits s \<and> digits t)"
  by (auto simp: digits_def)

lemma digits_show_nat: "digits (show_nat n)"
proof (induction n rule: show_nat.induct)
  case (1 n)
  have d: "digits [char_of (48 + k)]" if "k < 10" for k :: nat
    using that by (simp add: digits_def)
  show ?case
  proof (cases "n < 10")
    case True
    then show ?thesis by (subst show_nat.simps) (simp add: d)
  next
    case False
    with 1 d [of "n mod 10"] show ?thesis by (subst show_nat.simps) (simp add: digits_append)
  qed
qed

lemma length_show_nat: "n < 10 ^ w \<Longrightarrow> 0 < w \<Longrightarrow> length (show_nat n) \<le> w"
proof (induction n arbitrary: w rule: show_nat.induct)
  case (1 n)
  show ?case
  proof (cases "n < 10")
    case False
    then obtain v where v: "w = Suc v" "0 < v" using 1(2,3) by (cases w; cases "w - 1") auto
    then have "n div 10 < 10 ^ v" using 1(2) by (simp add: less_mult_imp_div_less mult.commute)
    then have "length (show_nat (n div 10)) \<le> v" using 1(1) False v(2) by simp
    with False v(1) show ?thesis by (subst show_nat.simps) simp
  qed (use 1 in \<open>subst show_nat.simps, simp\<close>)
qed

lemma zfill_facts:
  assumes "n < 10 ^ w" and "0 < w"
  shows "length (zfill w (show_nat n)) = w" and "digits (zfill w (show_nat n))" and "read_nat (zfill w (show_nat n)) = n"
proof -
  show "length (zfill w (show_nat n)) = w" using length_show_nat [OF assms] by (simp add: length_zfill)
  show "digits (zfill w (show_nat n))"
    using digits_show_nat [of n] by (auto simp: zfill_def digits_def list_all_iff)
  show "read_nat (zfill w (show_nat n)) = n" by (simp add: read_zfill read_show_nat)
qed

lemma replace_z_id: "CHR ''Z'' \<notin> set s \<Longrightarrow> replace_z s = s"
  by (induction s) auto

lemma digits_no_z: "digits s \<Longrightarrow> CHR ''Z'' \<notin> set s"
  by (auto simp: digits_def list_all_iff)

section \<open>The round trip\<close>

lemma parse_isoformat:
  assumes "python_day d"
  shows "parse_date (JStr (isoformat d)) = Some d"
proof -
  obtain y m k where c: "civil d = (y, m, k)" by (metis prod_cases3)
  define a b e where "a = zfill 4 (show_nat y)" and "b = zfill 2 (show_nat m)" and "e = zfill 2 (show_nat k)"
  from civil_spec [OF assms c] have md: "make_date y m k = Some d" "y < 10 ^ 4" "m < 10 ^ 2" "k < 10 ^ 2" by simp_all
  then have l: "length a = 4" "length b = 2" "length e = 2" and ds: "digits a" "digits b" "digits e"
    and r: "read_nat a = y" "read_nat b = m" "read_nat e = k"
    using zfill_facts [of y 4] zfill_facts [of m 2] zfill_facts [of k 2] by (simp_all add: a_def b_def e_def)
  have iso: "isoformat d = a @ ''-'' @ b @ ''-'' @ e" by (simp add: isoformat_def c a_def b_def e_def)
  have "CHR ''Z'' \<notin> set (isoformat d)" using ds by (simp add: iso digits_no_z)
  then have z: "replace_z (isoformat d) = a @ ''-'' @ b @ ''-'' @ e" by (simp add: replace_z_id iso)
  show ?thesis by (simp add: z iso_date_def l ds r md(1) rest_ok_def)
qed

lemma isoformat_nonempty [simp]: "isoformat d \<noteq> []"
  by (simp add: isoformat_def split: prod.split)

end
