(* ===== verification/Fleet.thy ===== *)
theory Fleet
  imports Iso_Dates Availability "HOL-Library.Char_ord" "HOL-Library.List_Lexorder"
begin

text \<open>
  The register of vehicles (\<^verbatim>\<open>vehicles/service.py\<close>): the limit of the tenant's plan with its cached
  count, plates, patches, QR codes and the renewal of documents. The files a renewal attaches are
  a table of their own; the cache is the one hash of Redis the limits use, absent when no Redis is
  configured.
\<close>

section \<open>Searching\<close>

text \<open>SQL's \<^verbatim>\<open>LIKE\<close>: \<^verbatim>\<open>%\<close> for any text, \<^verbatim>\<open>_\<close> for any character, a backslash before a character to mean it.\<close>

fun like :: "string \<Rightarrow> string \<Rightarrow> bool" where
  "like [] s = (s = [])"
| "like (c # p) s =
     (if c = CHR ''%'' then list_ex (\<lambda>k. like p (drop k s)) [0..<Suc (length s)]
      else case s of
        [] \<Rightarrow> False
      | x # xs \<Rightarrow>
          if c = CHR 0x5C then (case p of [] \<Rightarrow> False | e # q \<Rightarrow> x = e \<and> like q xs)
          else (c = CHR ''_'' \<or> x = c) \<and> like p xs)"

definition ilike :: "string \<Rightarrow> string \<Rightarrow> bool" where
  "ilike search s = like (casefold (''%'' @ search @ ''%'')) (casefold s)"

definition ilike_opt :: "string \<Rightarrow> string option \<Rightarrow> bool" where
  "ilike_opt search s = (case s of None \<Rightarrow> False | Some t \<Rightarrow> ilike search t)"

section \<open>The limits of the plan\<close>

record limits =
  lim_vehicles :: "id \<Rightarrow> nat option"
  lim_drivers :: "id \<Rightarrow> nat option"

definition vehicle_count :: "id \<Rightarrow> db \<Rightarrow> nat" where
  "vehicle_count tenant d = length (filter (\<lambda>v. veh_tenant v = tenant \<and> veh_status v \<noteq> ''retired'') (vehicles d))"

definition get_cached_vehicle_count :: "id \<Rightarrow> limits option \<Rightarrow> db \<Rightarrow> nat \<times> limits option" where
  "get_cached_vehicle_count tenant redis d =
     (case redis of
        None \<Rightarrow> (vehicle_count tenant d, None)
      | Some c \<Rightarrow>
          (case lim_vehicles c tenant of
             Some n \<Rightarrow> (n, Some c)
           | None \<Rightarrow>
               (let n = vehicle_count tenant d
                in (n, Some (c\<lparr>lim_vehicles := (lim_vehicles c)(tenant \<mapsto> n)\<rparr>)))))"

definition check_vehicle_limit :: "tenant \<Rightarrow> limits option \<Rightarrow> db \<Rightarrow> unit res \<times> limits option" where
  "check_vehicle_limit t redis d =
     (case ten_max_vehicles t of
        None \<Rightarrow> (Inr (), redis)
      | Some m \<Rightarrow>
          (let (n, redis') = get_cached_vehicle_count (ten_id t) redis d
           in (if m \<le> int n then Inl (ApiError ''plan_limit_reached'' 403) else Inr (), redis')))"

text \<open>\<^verbatim>\<open>invalidate_tenant_caches\<close>: the handlers call it after every change.\<close>

definition invalidate_limits :: "id \<Rightarrow> limits option \<Rightarrow> limits option" where
  "invalidate_limits tenant redis =
     map_option (\<lambda>c. c\<lparr>lim_vehicles := (lim_vehicles c)(tenant := None),
       lim_drivers := (lim_drivers c)(tenant := None)\<rparr>) redis"

section \<open>Registration\<close>

record vehicle_input =
  vic_plate :: string
  vic_chassis :: "string option"
  vic_brand :: "string option"
  vic_model :: "string option"
  vic_year :: "int option"
  vic_color :: "string option"
  vic_category :: string
  vic_fuel_type :: string
  vic_km :: int
  vic_documents :: "(string \<times> json) list option"
  vic_target :: "dec option"
  vic_fuel_limit :: "dec option"
  vic_ownership :: string
  vic_customer :: "id option"

definition validate_ownership_type :: "string \<Rightarrow> string res" where
  "validate_ownership_type v =
     (let s = casefold (strip v)
      in if s \<in> {''fleet'', ''customer''} then Inr s else Inl (PyError ''ValueError''))"

definition upper_plate :: "string \<Rightarrow> string" where
  "upper_plate s = map upper_char (strip s)"

definition plate_exists :: "id \<Rightarrow> string \<Rightarrow> id option \<Rightarrow> db \<Rightarrow> bool" where
  "plate_exists tenant plate except d =
     list_ex (\<lambda>v. veh_tenant v = tenant \<and> veh_plate v = plate \<and> Some (veh_id v) \<noteq> except) (vehicles d)"

text \<open>The unique constraint and the checks of the table.\<close>

definition vehicle_checks :: "vehicle list \<Rightarrow> bool" where
  "vehicle_checks vs \<longleftrightarrow> distinct (map (\<lambda>v. (veh_tenant v, veh_plate v)) vs)
     \<and> list_all (\<lambda>v. 0 \<le> veh_km v \<and> (case veh_max_payload v of None \<Rightarrow> True | Some m \<Rightarrow> 0 \<le> m)) vs"

definition flush_vehicles :: "db \<Rightarrow> db res" where
  "flush_vehicles d = (if vehicle_checks (vehicles d) then Inr d else Inl (PyError ''IntegrityError''))"

definition new_vehicle :: "id \<Rightarrow> id \<Rightarrow> vehicle_input \<Rightarrow> vehicle" where
  "new_vehicle i tenant p =
     \<lparr>veh_id = i, veh_tenant = tenant, veh_plate = upper_plate (vic_plate p), veh_status = ''active'',
      veh_km = vic_km p, veh_documents = vic_documents p, veh_max_payload = None,
      veh_ownership = vic_ownership p, veh_customer = vic_customer p, veh_chassis = vic_chassis p,
      veh_brand = vic_brand p, veh_model = vic_model p, veh_year = vic_year p, veh_color = vic_color p,
      veh_category = vic_category p, veh_fuel_type = vic_fuel_type p, veh_qr = None,
      veh_target = vic_target p, veh_fuel_limit = vic_fuel_limit p\<rparr>"

text \<open>What the check leaves in the cache stays there when the request is refused.\<close>

definition create_vehicle ::
  "id \<Rightarrow> vehicle_input \<Rightarrow> id option \<Rightarrow> limits option \<Rightarrow> db \<Rightarrow> (vehicle \<times> db) res \<times> limits option" where
  "create_vehicle tenant p actor redis d =
     (case require_active_tenant tenant d of
        Inl e \<Rightarrow> (Inl e, redis)
      | Inr t \<Rightarrow>
          (case check_vehicle_limit t redis d of
             (Inl e, redis') \<Rightarrow> (Inl e, redis')
           | (Inr _, redis') \<Rightarrow>
               (if plate_exists tenant (upper_plate (vic_plate p)) None d
                then Inl (ApiError ''vehicle_plate_conflict'' 409)
                else
                  (let (i, d1) = fresh_id d; v = new_vehicle i tenant p
                   in rbind (flush_vehicles (d1\<lparr>vehicles := tadd v (vehicles d1)\<rparr>)) (\<lambda>d2.
                        Inr (v, record_audit_log tenant actor ''vehicle.created'' ''vehicle'' (Some i) d2))),
                redis')))"

definition list_vehicles ::
  "id \<Rightarrow> string option \<Rightarrow> string option \<Rightarrow> id option \<Rightarrow> string option \<Rightarrow> nat \<Rightarrow> nat \<Rightarrow> db \<Rightarrow> vehicle list" where
  "list_vehicles tenant st ownership client search limit offset d =
     take limit (drop offset (sort_key veh_plate (filter (\<lambda>v. veh_tenant v = tenant
       \<and> (truthy st \<longrightarrow> Some (veh_status v) = st)
       \<and> (truthy ownership \<longrightarrow> Some (veh_ownership v) = ownership)
       \<and> (client \<noteq> None \<longrightarrow> veh_customer v = client)
       \<and> (truthy search \<longrightarrow> (let s = or_else search [] in ilike s (veh_plate v)
            \<or> ilike_opt s (veh_brand v) \<or> ilike_opt s (veh_model v) \<or> ilike_opt s (veh_chassis v)))) (vehicles d))))"

definition require_vehicle :: "id \<Rightarrow> id \<Rightarrow> db \<Rightarrow> vehicle res" where
  "require_vehicle tenant i d = of_opt (ApiError ''vehicle_not_found'' 404) (owned veh_id veh_tenant tenant i (vehicles d))"

definition put_vehicle :: "vehicle \<Rightarrow> db \<Rightarrow> db" where
  "put_vehicle v d = d\<lparr>vehicles := tput veh_id v (vehicles d)\<rparr>"

section \<open>Patches\<close>

text \<open>
  A field of a patch is absent, or set, to null where its type allows: a column that is not
  nullable refuses null when the row is written.
\<close>

record vehicle_patch =
  vpt_plate :: "string option option"
  vpt_chassis :: "string option option"
  vpt_brand :: "string option option"
  vpt_model :: "string option option"
  vpt_year :: "int option option"
  vpt_color :: "string option option"
  vpt_category :: "string option option"
  vpt_status :: "string option option"
  vpt_km :: "int option option"
  vpt_fuel_type :: "string option option"
  vpt_documents :: "(string \<times> json) list option option"
  vpt_target :: "dec option option"
  vpt_fuel_limit :: "dec option option"
  vpt_ownership :: "string option option"
  vpt_customer :: "id option option"

definition patched_plate :: "vehicle_patch \<Rightarrow> string option option" where
  "patched_plate p = map_option (map_option upper_plate) (vpt_plate p)"

definition keep :: "'a option option \<Rightarrow> 'a \<Rightarrow> 'a" where
  "keep m old = (case m of Some (Some x) \<Rightarrow> x | _ \<Rightarrow> old)"

definition patched_vehicle :: "vehicle_patch \<Rightarrow> vehicle \<Rightarrow> vehicle" where
  "patched_vehicle p v = v\<lparr>veh_plate := keep (patched_plate p) (veh_plate v),
     veh_status := keep (vpt_status p) (veh_status v), veh_km := keep (vpt_km p) (veh_km v),
     veh_documents := or_else (vpt_documents p) (veh_documents v),
     veh_ownership := keep (vpt_ownership p) (veh_ownership v),
     veh_customer := or_else (vpt_customer p) (veh_customer v),
     veh_chassis := or_else (vpt_chassis p) (veh_chassis v), veh_brand := or_else (vpt_brand p) (veh_brand v),
     veh_model := or_else (vpt_model p) (veh_model v), veh_year := or_else (vpt_year p) (veh_year v),
     veh_color := or_else (vpt_color p) (veh_color v), veh_category := keep (vpt_category p) (veh_category v),
     veh_fuel_type := keep (vpt_fuel_type p) (veh_fuel_type v),
     veh_target := or_else (vpt_target p) (veh_target v),
     veh_fuel_limit := or_else (vpt_fuel_limit p) (veh_fuel_limit v)\<rparr>"

definition null_patch :: "vehicle_patch \<Rightarrow> bool" where
  "null_patch p \<longleftrightarrow> vpt_plate p = Some None \<or> vpt_category p = Some None \<or> vpt_status p = Some None
     \<or> vpt_km p = Some None \<or> vpt_fuel_type p = Some None \<or> vpt_ownership p = Some None"

definition patch_vehicle :: "id \<Rightarrow> id \<Rightarrow> vehicle_patch \<Rightarrow> id option \<Rightarrow> db \<Rightarrow> (vehicle \<times> db) res" where
  "patch_vehicle tenant i p actor d =
     rbind (require_vehicle tenant i d) (\<lambda>v.
       if (case patched_plate p of
             Some (Some s) \<Rightarrow> s \<noteq> veh_plate v \<and> plate_exists tenant s (Some i) d
           | _ \<Rightarrow> False)
       then Inl (ApiError ''vehicle_plate_conflict'' 409)
       else if null_patch p then Inl (PyError ''IntegrityError'')
       else
         (let v' = patched_vehicle p v
          in rbind (flush_vehicles (put_vehicle v' d)) (\<lambda>d1.
               Inr (v', record_audit_log tenant actor ''vehicle.updated'' ''vehicle'' (Some i) d1))))"

definition get_vehicle_qr_code :: "id \<Rightarrow> id \<Rightarrow> db \<Rightarrow> (string \<times> string \<times> db) res" where
  "get_vehicle_qr_code tenant i d =
     rbind (require_vehicle tenant i d) (\<lambda>v.
       let link = ''rotas://vehicles/'' @ show_nat i @ ''/checklist''
       in if truthy (veh_qr v) then Inr (or_else (veh_qr v) [], link, d)
          else
            (let h = ''rotas:vehicle:'' @ show_nat i
             in Inr (h, link, record_audit_log tenant None ''vehicle.qr_code_issued'' ''vehicle'' (Some i)
                  (put_vehicle (v\<lparr>veh_qr := Some h\<rparr>) d))))"

section \<open>Renewing a document\<close>

record file_row =
  fil_id :: id
  fil_tenant :: id
  fil_entity_type :: "string option"
  fil_entity :: "id option"

record renewal =
  rnw_until :: day
  rnw_file :: "id option"
  rnw_reference :: "string option"
  rnw_notes :: "string option"

definition clock_iso :: "timestamp \<Rightarrow> string" where
  "clock_iso t =
     (let u = t mod day_us; s = u div 1000000; f = u mod 1000000; two = (\<lambda>n. zfill 2 (show_nat (nat n)))
      in isoformat (date_of t) @ ''T'' @ two (s div 3600) @ '':'' @ two (s mod 3600 div 60) @ '':'' @ two (s mod 60)
         @ (if f = 0 then [] else ''.'' @ zfill 6 (show_nat (nat f))) @ ''+00:00'')"

fun json_opt :: "string option \<Rightarrow> json" where
  "json_opt None = JNull"
| "json_opt (Some s) = JStr s"

text \<open>The attached file is handed to the new entity, whatever it was attached to.\<close>

definition attach_file :: "id \<Rightarrow> id option \<Rightarrow> string \<Rightarrow> id \<Rightarrow> file_row list \<Rightarrow> file_row list res" where
  "attach_file tenant f etype entity fs =
     (case f of
        None \<Rightarrow> Inr fs
      | Some i \<Rightarrow>
          rbind (of_opt (ApiError ''file_not_found'' 404) (owned fil_id fil_tenant tenant i fs)) (\<lambda>x.
            Inr (tput fil_id (x\<lparr>fil_entity_type := Some etype, fil_entity := Some entity\<rparr>) fs)))"

definition renewed_entry :: "renewal \<Rightarrow> timestamp \<Rightarrow> json \<Rightarrow> (string \<times> json) list" where
  "renewed_entry p now current =
     (let o' = (case current of JObj kv \<Rightarrow> kv | _ \<Rightarrow> []);
          file = (case rnw_file p of Some i \<Rightarrow> JStr (show_nat i) | None \<Rightarrow> jget ''file_id'' o')
      in jset ''renewed_at'' (JStr (clock_iso now)) (jset ''notes'' (json_opt (rnw_notes p))
           (jset ''reference'' (json_opt (rnw_reference p)) (jset ''file_id'' file
             (jset ''valid_until'' (JStr (isoformat (rnw_until p))) o')))))"

text \<open>
  The entry of the document is updated in place, inside the value the row was loaded with; the row is
  written only if the new value differs from that one, now already updated.
\<close>

definition in_place :: "string \<Rightarrow> (string \<times> json) list \<Rightarrow> bool" where
  "in_place ty docs = (case jget ty docs of JObj _ \<Rightarrow> True | _ \<Rightarrow> False)"

definition renewed_documents :: "string \<Rightarrow> renewal \<Rightarrow> timestamp \<Rightarrow> (string \<times> json) list \<Rightarrow> (string \<times> json) list" where
  "renewed_documents ty p now docs =
     (let iso = JStr (isoformat (rnw_until p));
          docs1 = jset ty (JObj (renewed_entry p now (jget ty docs))) docs
      in if in_place ty docs \<and> jget (ty @ ''_valid_until'') docs = iso then docs
         else jset (ty @ ''_valid_until'') iso docs1)"

definition renew_vehicle_document ::
  "id \<Rightarrow> id \<Rightarrow> string \<Rightarrow> renewal \<Rightarrow> id option \<Rightarrow> timestamp \<Rightarrow> db \<times> file_row list
    \<Rightarrow> (vehicle \<times> db \<times> file_row list) res" where
  "renew_vehicle_document tenant i ty p actor now = (\<lambda>(d, fs).
     rbind (require_vehicle tenant i d) (\<lambda>v.
     rbind (attach_file tenant (rnw_file p) ''vehicle_document'' i fs) (\<lambda>fs1.
       let docs = or_else (veh_documents v) [];
           new = renewed_documents ty p now docs;
           v' = (if new = docs then v else v\<lparr>veh_documents := Some new\<rparr>)
       in Inr (v', record_audit_log tenant actor ''vehicle.document_renewed'' ''vehicle'' (Some i) (put_vehicle v' d), fs1))))"

end
