(* ===== verification/Inputs.thy ===== *)
theory Inputs
  imports Policies
begin

text \<open>
  The validators that clean what people type: phone numbers, e-mail addresses and tax numbers
  (\<^verbatim>\<open>drivers/schemas.py\<close>, \<^verbatim>\<open>third_party/schemas.py\<close>, \<^verbatim>\<open>clients/schemas.py\<close>). A \<^verbatim>\<open>ValueError\<close> becomes a
  rejected request.
\<close>

section \<open>The validators\<close>

definition is_digit :: "char \<Rightarrow> bool" where
  "is_digit c \<longleftrightarrow> 48 \<le> (of_char c :: nat) \<and> (of_char c :: nat) \<le> 57"

lemma digits_iff: "digits s \<longleftrightarrow> s \<noteq> [] \<and> list_all is_digit s"
  by (simp add: digits_def is_digit_def [abs_def])

definition clean_phone :: "string \<Rightarrow> string" where
  "clean_phone = filter (\<lambda>c. \<not> is_space c \<and> c \<notin> set ''-()'')"

definition operators :: "string list" where
  "operators = [''82'', ''83'', ''84'', ''85'', ''86'', ''87'']"

text \<open>\<^verbatim>\<open>^\+?[0-9]{7,15}$\<close>\<close>

definition phone_number :: "string \<Rightarrow> bool" where
  "phone_number s = (let t = (if take 1 s = ''+'' then drop 1 s else s)
                     in list_all is_digit t \<and> 7 \<le> length t \<and> length t \<le> 15)"

definition normalize_phone :: "string option \<Rightarrow> string option res" where
  "normalize_phone v =
     (case v of
        None \<Rightarrow> Inr None
      | Some [] \<Rightarrow> Inr (Some [])
      | Some s \<Rightarrow>
          (let c = clean_phone s
           in if c = [] then Inr None
              else if length c = 9 \<and> take 2 c \<in> set operators then Inr (Some (''+258'' @ c))
              else if take 3 c = ''258'' \<and> length c = 12 then Inr (Some (''+'' @ c))
              else if phone_number c then Inr (Some c)
              else Inl (PyError ''ValueError'')))"

text \<open>\<^verbatim>\<open>^[^@]+@[^@]+\.[^@]+$\<close>: one \<^verbatim>\<open>@\<close> with text before it, and a dot inside what follows.\<close>

definition email_address :: "string \<Rightarrow> bool" where
  "email_address s =
     (let a = takeWhile (\<lambda>c. c \<noteq> CHR ''@'') s; r = drop (Suc (length a)) s
      in a \<noteq> [] \<and> length a < length s \<and> CHR ''@'' \<notin> set r \<and> CHR ''.'' \<in> set (butlast (tl r)))"

definition normalize_email :: "string option \<Rightarrow> string option res" where
  "normalize_email v =
     (case v of
        None \<Rightarrow> Inr None
      | Some [] \<Rightarrow> Inr (Some [])
      | Some s \<Rightarrow>
          (let c = casefold (strip s)
           in if email_address c then Inr (Some c) else Inl (PyError ''ValueError'')))"

definition normalize_nuit :: "string option \<Rightarrow> string option res" where
  "normalize_nuit v =
     (case v of
        None \<Rightarrow> Inr None
      | Some s \<Rightarrow>
          if strip s = [] then Inr None
          else let c = filter is_digit s
               in if length c = 9 then Inr (Some c) else Inl (PyError ''ValueError''))"

definition validate_future_date :: "day option \<Rightarrow> day \<Rightarrow> day option res" where
  "validate_future_date v today =
     (case v of Some d \<Rightarrow> if d < today then Inl (PyError ''ValueError'') else Inr v | None \<Rightarrow> Inr None)"

section \<open>Clean numbers\<close>

lemma digit_not_junk: "is_digit c \<Longrightarrow> \<not> is_space c \<and> c \<notin> set ''-()''"
  by (auto simp: is_digit_def is_space_def)

lemma plus_not_junk: "\<not> is_space CHR ''+'' \<and> CHR ''+'' \<notin> set ''-()''"
  by (simp add: is_space_def)

lemma plus_not_digit: "\<not> is_digit CHR ''+''"
  by (simp add: is_digit_def)

lemma clean_digits: "list_all is_digit s \<Longrightarrow> clean_phone s = s"
  using digit_not_junk by (auto simp: clean_phone_def list_all_iff filter_id_conv)

lemma clean_plus: "list_all is_digit s \<Longrightarrow> clean_phone (CHR ''+'' # s) = CHR ''+'' # s"
  using clean_digits [of s] plus_not_junk by (simp add: clean_phone_def)

text \<open>A number with its plus sign is kept as it is.\<close>

lemma normalize_plus:
  assumes "list_all is_digit s" and "7 \<le> length s" and "length s \<le> 15"
  shows "normalize_phone (Some (CHR ''+'' # s)) = Inr (Some (CHR ''+'' # s))"
  using assms clean_plus [OF assms(1)]
  by (auto simp: normalize_phone_def phone_number_def operators_def Let_def take_Cons')

lemma digits_258: "list_all is_digit ''258''"
  by (simp add: is_digit_def)

text \<open>a phone number that consists of digits, with or without plus sign, spaces, dashes and brackets,
  is stored in a form the validator leaves alone; what it stores for the nine digits of a Mozambican
  number is the same however the number was written: with 258, with +258 or without.\<close>

theorem phone_normal_form:
  assumes "clean_phone v = p @ s" and "list_all is_digit s" and "length s = 9" and "take 2 s \<in> set operators"
    and "p \<in> {[], ''258'', ''+258''}"
  shows "normalize_phone (Some v) = Inr (Some (''+258'' @ s))
    \<and> normalize_phone (Some (''+258'' @ s)) = Inr (Some (''+258'' @ s))"
proof -
  have v: "v \<noteq> []" using assms(1,3) by (auto simp: clean_phone_def)
  have n: "normalize_phone (Some (''+258'' @ s)) = Inr (Some (''+258'' @ s))"
    using normalize_plus [of "''258'' @ s"] assms(2,3) digits_258 by simp
  have "normalize_phone (Some v) = Inr (Some (''+258'' @ s))"
  proof (cases "p = []")
    case True
    with v assms show ?thesis by (cases v) (auto simp: normalize_phone_def Let_def)
  next
    case False
    with assms(5) consider "p = ''258''" | "p = ''+258''" by blast
    then show ?thesis
    proof cases
      case 1
      with v assms show ?thesis by (cases v) (auto simp: normalize_phone_def Let_def)
    next
      case 2
      have "phone_number (''+258'' @ s)" using assms(2,3) digits_258 by (simp add: phone_number_def)
      with 2 v assms show ?thesis by (cases v) (auto simp: normalize_phone_def Let_def)
    qed
  qed
  with n show ?thesis by blast
qed

theorem phone_normal_form_witness:
  "normalize_phone (Some ''84 123-4567'') = Inr (Some ''+258841234567'')
    \<and> normalize_phone (Some ''(+258) 84 123 4567'') = Inr (Some ''+258841234567'')"
proof -
  have "normalize_phone (Some ''84 123-4567'') = Inr (Some (''+258'' @ ''841234567''))
      \<and> normalize_phone (Some (''+258'' @ ''841234567'')) = Inr (Some (''+258'' @ ''841234567''))"
    by (rule phone_normal_form [where p = "[]"]) code_simp+
  moreover have "normalize_phone (Some ''(+258) 84 123 4567'') = Inr (Some (''+258'' @ ''841234567''))
      \<and> normalize_phone (Some (''+258'' @ ''841234567'')) = Inr (Some (''+258'' @ ''841234567''))"
    by (rule phone_normal_form [where p = "''+258''"]) code_simp+
  ultimately show ?thesis by simp
qed

text \<open>Nine characters that begin like a number are taken without a look at the rest.\<close>

lemma letters_pass: "normalize_phone (Some ''82abcdefg'') = Inr (Some ''+25882abcdefg'')
    \<and> normalize_phone (Some ''+25882abcdefg'') = Inl (PyError ''ValueError'')"
  by code_simp

text \<open>Tax numbers and addresses are stored in their own normal form.\<close>

lemma nuit_normal_form:
  assumes "normalize_nuit (Some v) = Inr (Some w)"
  shows "length w = 9 \<and> list_all is_digit w \<and> normalize_nuit (Some w) = Inr (Some w)"
proof -
  from assms have w: "w = filter is_digit v" "length w = 9"
    by (auto simp: normalize_nuit_def Let_def split: if_splits)
  then have d: "list_all is_digit w" by (simp add: list_all_iff)
  then have "hd w \<in> set w" "is_digit (hd w)" using w(2) by (cases w; simp)+
  then have "\<not> is_space (hd w)" using digit_not_junk by blast
  then have "strip w \<noteq> []"
    using w(2) by (cases w) (auto simp: strip_def dropWhile_eq_Nil_conv)
  with w d show ?thesis by (simp add: normalize_nuit_def list_all_iff filter_id_conv)
qed

end
