(* ===== verification/Driver_Money.thy ===== *)
theory Driver_Money
  imports Billing_Docs
begin

text \<open>
  Cash advances and trip settlements (\<^verbatim>\<open>drivers/advance_service.py\<close>,
  \<^verbatim>\<open>drivers/settlement_service.py\<close>). The two tables stand beside the database.
\<close>

section \<open>Rows\<close>

record advance =
  adv_id :: id
  adv_tenant :: id
  adv_trip :: id
  adv_driver :: id
  adv_amount :: dec
  adv_allowance :: dec
  adv_expenses :: dec
  adv_status :: string
  adv_issued_by :: "id option"
  adv_issued_at :: timestamp
  adv_notes :: "string option"
  adv_reference :: "string option"

record settlement =
  stl_id :: id
  stl_tenant :: id
  stl_trip :: id
  stl_advance :: "id option"
  stl_costs :: dec
  stl_amount :: dec
  stl_balance :: dec
  stl_status :: string
  stl_approved_by :: "id option"
  stl_approved_at :: "timestamp option"
  stl_reason :: "string option"
  stl_settled_at :: timestamp

record cashbox =
  cb_db :: db
  advances :: "advance list"
  settlements :: "settlement list"

definition caudit :: "id \<Rightarrow> id \<Rightarrow> string \<Rightarrow> string \<Rightarrow> id \<Rightarrow> cashbox \<Rightarrow> cashbox" where
  "caudit tenant user action etype i s = s\<lparr>cb_db := record_audit_log tenant (Some user) action etype (Some i) (cb_db s)\<rparr>"

section \<open>Advances\<close>

definition dispatchable :: "trip_status list" where
  "dispatchable = [T_planned, T_in_progress]"

record advance_input =
  ain_trip :: id
  ain_driver :: id
  ain_amount :: dec
  ain_allowance :: dec
  ain_expenses :: dec
  ain_notes :: "string option"
  ain_reference :: "string option"

definition require_advance :: "id \<Rightarrow> id \<Rightarrow> cashbox \<Rightarrow> advance res" where
  "require_advance tenant i s = of_opt (ApiError ''advance_not_found'' 404) (owned adv_id adv_tenant tenant i (advances s))"

definition open_advance :: "id \<Rightarrow> id \<Rightarrow> cashbox \<Rightarrow> advance option" where
  "open_advance tenant trip s =
     List.find (\<lambda>a. adv_trip a = trip \<and> adv_tenant a = tenant \<and> adv_status a \<noteq> ''voided'') (advances s)"

text \<open>The unique constraint and the check of the table.\<close>

definition advance_checks :: "advance list \<Rightarrow> bool" where
  "advance_checks xs \<longleftrightarrow> list_all (\<lambda>a. 0 < adv_amount a \<and> adv_status a \<in> {''issued'', ''settled'', ''voided''}) xs
     \<and> distinct (map (\<lambda>a. (adv_tenant a, adv_reference a)) (filter (\<lambda>a. adv_reference a \<noteq> None) xs))"

text \<open>The journal entry of an advance: account 42 is debited, account 12 credited, when both exist.\<close>

definition post_advance :: "id \<Rightarrow> id \<Rightarrow> dec \<Rightarrow> timestamp \<Rightarrow> db \<Rightarrow> db res" where
  "post_advance tenant i amount now d =
     (if amount \<le> 0 then Inr d
      else case (account_like tenant ''42'' d, account_like tenant ''12'' d) of
        (Some adv, Some bank) \<Rightarrow>
          rbind (journal_payload
            [\<lparr>jl_account = Some (acc_id adv), jl_code = None, jl_debit = amount, jl_credit = 0,
              jl_third_party = None, jl_vehicle = None, jl_trip = None\<rparr>,
             \<lparr>jl_account = Some (acc_id bank), jl_code = None, jl_debit = 0, jl_credit = amount,
              jl_third_party = None, jl_vehicle = None, jl_trip = None\<rparr>]) (\<lambda>ls.
          rbind (create_journal_entry tenant ''TES'' now (Some (''ADV-'' @ show_nat i)) ls None None d) (\<lambda>(_, d1). Inr d1))
      | _ \<Rightarrow> Inr d)"

text \<open>
  What follows the guard on the trip. The function imports \<^verbatim>\<open>select\<close> in its own body, after its first
  use, so that use raises \<^verbatim>\<open>UnboundLocalError\<close>: \<open>advance_rest\<close> is never reached.
\<close>

definition advance_rest :: "id \<Rightarrow> id \<Rightarrow> advance_input \<Rightarrow> timestamp \<Rightarrow> cashbox \<Rightarrow> (advance \<times> cashbox) res" where
  "advance_rest tenant user p now s =
     (if open_advance tenant (ain_trip p) s \<noteq> None then Inl (ApiError ''advance_already_exists'' 409)
      else
        (let (i, d1) = fresh_id (cb_db s);
             a = \<lparr>adv_id = i, adv_tenant = tenant, adv_trip = ain_trip p, adv_driver = ain_driver p,
               adv_amount = column 2 (ain_amount p), adv_allowance = column 2 (ain_allowance p),
               adv_expenses = column 2 (ain_expenses p), adv_status = ''issued'', adv_issued_by = Some user,
               adv_issued_at = now, adv_notes = ain_notes p, adv_reference = ain_reference p\<rparr>;
             xs = tadd a (advances s)
         in if \<not> advance_checks xs then Inl (PyError ''IntegrityError'')
            else
              (let s1 = caudit tenant user ''driver_advance.issued'' ''driver_advance'' i (s\<lparr>cb_db := d1, advances := xs\<rparr>)
               in rbind (post_advance tenant i (ain_amount p) now (cb_db s1)) (\<lambda>d2.
                  rbind (flush_journal d2) (\<lambda>d3. Inr (a, s1\<lparr>cb_db := d3\<rparr>))))))"

definition issue_advance :: "id \<Rightarrow> id \<Rightarrow> advance_input \<Rightarrow> timestamp \<Rightarrow> cashbox \<Rightarrow> (advance \<times> cashbox) res" where
  "issue_advance tenant user p now s =
     (case owned trip_id trip_tenant tenant (ain_trip p) (trips (cb_db s)) of
        None \<Rightarrow> Inl (ApiError ''trip_not_found'' 404)
      | Some t \<Rightarrow>
          if trip_status t \<notin> set dispatchable then Inl (ApiError ''trip_not_dispatchable'' 409)
          else Inl (PyError ''UnboundLocalError''))"

definition void_advance :: "id \<Rightarrow> id \<Rightarrow> id \<Rightarrow> cashbox \<Rightarrow> (advance \<times> cashbox) res" where
  "void_advance tenant user i s =
     rbind (require_advance tenant i s) (\<lambda>a.
       if adv_status a = ''settled'' then Inl (ApiError ''advance_already_settled'' 409)
       else if adv_status a = ''voided'' then Inl (ApiError ''advance_already_voided'' 409)
       else
         (let a' = a\<lparr>adv_status := ''voided''\<rparr>
          in Inr (a', caudit tenant user ''driver_advance.voided'' ''driver_advance'' i
               (s\<lparr>advances := tput adv_id a' (advances s)\<rparr>))))"

definition list_advances ::
  "id \<Rightarrow> id option \<Rightarrow> id option \<Rightarrow> string option \<Rightarrow> nat \<Rightarrow> nat \<Rightarrow> cashbox \<Rightarrow> advance list" where
  "list_advances tenant trip driver st limit offset s =
     take limit (drop offset (sort_key (\<lambda>a. - adv_issued_at a) (filter (\<lambda>a. adv_tenant a = tenant
       \<and> (trip = None \<or> Some (adv_trip a) = trip) \<and> (driver = None \<or> Some (adv_driver a) = driver)
       \<and> (\<not> truthy st \<or> Some (adv_status a) = st)) (advances s))))"

section \<open>Settlements\<close>

definition require_settlement :: "id \<Rightarrow> id \<Rightarrow> cashbox \<Rightarrow> settlement res" where
  "require_settlement tenant i s =
     of_opt (ApiError ''settlement_not_found'' 404) (owned stl_id stl_tenant tenant i (settlements s))"

definition sum_trip_costs :: "id \<Rightarrow> id \<Rightarrow> db \<Rightarrow> dec" where
  "sum_trip_costs tenant trip d =
     (\<Sum>c\<leftarrow>filter (\<lambda>c. cost_trip c = trip \<and> cost_tenant c = tenant) (costs d). cost_amount c)"

definition latest_active_advance :: "id \<Rightarrow> id \<Rightarrow> cashbox \<Rightarrow> advance option" where
  "latest_active_advance tenant trip s =
     (case sort_key (\<lambda>a. - adv_issued_at a) (filter (\<lambda>a. adv_trip a = trip \<and> adv_tenant a = tenant
         \<and> adv_status a \<noteq> ''voided'') (advances s)) of
        [] \<Rightarrow> None | a # _ \<Rightarrow> Some a)"

definition find_settlement :: "id \<Rightarrow> id \<Rightarrow> cashbox \<Rightarrow> settlement option" where
  "find_settlement tenant trip s = List.find (\<lambda>x. stl_trip x = trip \<and> stl_tenant x = tenant) (settlements s)"

definition settle_advance :: "advance option \<Rightarrow> cashbox \<Rightarrow> cashbox" where
  "settle_advance a s = (case a of None \<Rightarrow> s
     | Some x \<Rightarrow> s\<lparr>advances := tput adv_id (x\<lparr>adv_status := ''settled''\<rparr>) (advances s)\<rparr>)"

definition compute_settlement :: "id \<Rightarrow> id \<Rightarrow> timestamp \<Rightarrow> cashbox \<Rightarrow> (settlement \<times> cashbox) res" where
  "compute_settlement tenant trip now s =
     (case owned trip_id trip_tenant tenant trip (trips (cb_db s)) of
        None \<Rightarrow> Inl (ApiError ''trip_not_found'' 404)
      | Some t \<Rightarrow>
          if trip_status t \<noteq> T_completed then Inl (ApiError ''trip_not_completed'' 409)
          else case find_settlement tenant trip s of
            Some x \<Rightarrow> Inr (x, s)
          | None \<Rightarrow>
              (let total = sum_trip_costs tenant trip (cb_db s);
                   a = latest_active_advance tenant trip s;
                   amount = (case a of None \<Rightarrow> 0 | Some x \<Rightarrow> adv_amount x);
                   (i, d1) = fresh_id (cb_db s);
                   x = \<lparr>stl_id = i, stl_tenant = tenant, stl_trip = trip, stl_advance = map_option adv_id a,
                     stl_costs = column 2 total, stl_amount = column 2 amount, stl_balance = column 2 (amount - total),
                     stl_status = ''pending'', stl_approved_by = None, stl_approved_at = None, stl_reason = None,
                     stl_settled_at = now\<rparr>
               in if list_ex (\<lambda>y. stl_trip y = trip) (settlements s) then Inl (PyError ''IntegrityError'')
                  else Inr (x, settle_advance a (s\<lparr>cb_db := d1, settlements := tadd x (settlements s)\<rparr>))))"

definition approve_settlement :: "id \<Rightarrow> id \<Rightarrow> id \<Rightarrow> timestamp \<Rightarrow> cashbox \<Rightarrow> (settlement \<times> cashbox) res" where
  "approve_settlement tenant user i now s =
     rbind (require_settlement tenant i s) (\<lambda>x.
       if stl_status x \<noteq> ''pending''
       then Inl (ApiError (if stl_status x = ''approved'' then ''settlement_already_approved''
                           else ''settlement_not_pending'') 409)
       else
         (let x' = x\<lparr>stl_status := ''approved'', stl_approved_by := Some user, stl_approved_at := Some now\<rparr>
          in Inr (x', caudit tenant user ''trip_settlement.approved'' ''trip_settlement'' i
               (s\<lparr>settlements := tput stl_id x' (settlements s)\<rparr>))))"

definition reject_settlement :: "id \<Rightarrow> id \<Rightarrow> id \<Rightarrow> string \<Rightarrow> cashbox \<Rightarrow> (settlement \<times> cashbox) res" where
  "reject_settlement tenant user i reason s =
     rbind (require_settlement tenant i s) (\<lambda>x.
       if stl_status x \<noteq> ''pending'' then Inl (ApiError ''settlement_not_pending'' 409)
       else
         (let x' = x\<lparr>stl_status := ''rejected'', stl_reason := Some reason\<rparr>
          in Inr (x', caudit tenant user ''trip_settlement.rejected'' ''trip_settlement'' i
               (s\<lparr>settlements := tput stl_id x' (settlements s)\<rparr>))))"

section \<open>Facts\<close>

lemma latest_active_advance_mem:
  assumes "latest_active_advance tn t s = Some a"
  shows "a \<in> set (advances s)" and "adv_tenant a = tn" and "adv_trip a = t" and "adv_status a \<noteq> ''voided''"
proof -
  let ?q = "filter (\<lambda>a. adv_trip a = t \<and> adv_tenant a = tn \<and> adv_status a \<noteq> ''voided'') (advances s)"
  from assms obtain xs where e: "sort_key (\<lambda>a. - adv_issued_at a) ?q = a # xs"
    by (auto simp: latest_active_advance_def split: list.splits)
  have "a \<in> set (sort_key (\<lambda>a. - adv_issued_at a) ?q)" unfolding e by simp
  then have "a \<in> set ?q" by (simp only: set_sort)
  then show "a \<in> set (advances s)" "adv_tenant a = tn" "adv_trip a = t" "adv_status a \<noteq> ''voided''" by simp_all
qed

lemma sum_trip_costs_eq: "sum_trip_costs tn t d = trip_cost_sum tn t d"
  by (simp add: sum_trip_costs_def trip_cost_sum_def conj_commute)

text \<open>What a new settlement is.\<close>

lemma compute_settlement_new:
  assumes "compute_settlement tn t now s = Inr (x, s')" and "find_settlement tn t s = None"
  shows "stl_tenant x = tn \<and> stl_trip x = t \<and> stl_costs x = column 2 (trip_cost_sum tn t (cb_db s))
    \<and> stl_advance x = map_option adv_id (latest_active_advance tn t s)
    \<and> stl_amount x = column 2 (case latest_active_advance tn t s of None \<Rightarrow> 0 | Some a \<Rightarrow> adv_amount a)
    \<and> stl_balance x = column 2 ((case latest_active_advance tn t s of None \<Rightarrow> 0 | Some a \<Rightarrow> adv_amount a) - trip_cost_sum tn t (cb_db s))
    \<and> settlements s' = tadd x (settlements s)
    \<and> advances s' = advances (settle_advance (latest_active_advance tn t s) s)
    \<and> trips (cb_db s') = trips (cb_db s)"
  using assms
  by (auto simp: compute_settlement_def fresh_id_def Let_def settle_advance_def sum_trip_costs_eq
      split: option.splits if_splits)

lemma trip_cost_sum_cents: "(\<And>c. c \<in> set (costs d) \<Longrightarrow> cents (cost_amount c)) \<Longrightarrow> cents (trip_cost_sum tn t d)"
  unfolding trip_cost_sum_def by (rule has_digits_sum_list) auto

text \<open>The settlement of a trip is the latest advance that is not voided, or nothing, less the costs recorded so far, to the cent; it
  settles the advance it counts, which can then no longer be voided; and it is computed once: asked again, the same row
  comes back and nothing changes. As the code stands, no operation writes the status \<open>T_completed\<close> and none issues
  an advance: only rows that come from elsewhere get here.\<close>

theorem settlement_sound:
  assumes "compute_settlement tn t now s = Inr (x, s')" and "find_settlement tn t s = None"
    and "keys_unique adv_id (advances s)" and "list_all (\<lambda>a. cents (adv_amount a)) (advances s)"
    and "list_all (\<lambda>c. cents (cost_amount c)) (costs (cb_db s))"
  shows "stl_balance x = stl_amount x - stl_costs x \<and> stl_costs x = trip_cost_sum tn t (cb_db s)
    \<and> stl_amount x = (case latest_active_advance tn t s of None \<Rightarrow> 0 | Some a \<Rightarrow> adv_amount a)
    \<and> (case stl_advance x of
         None \<Rightarrow> latest_active_advance tn t s = None
       | Some i \<Rightarrow> void_advance tn u i s' = Inl (ApiError ''advance_already_settled'' 409))
    \<and> compute_settlement tn t later s' = Inr (x, s')"
proof -
  note n = compute_settlement_new [OF assms(1,2)]
  have c: "cents (trip_cost_sum tn t (cb_db s))" using assms(5) by (intro trip_cost_sum_cents) (simp add: list_all_iff)
  have a: "cents (case latest_active_advance tn t s of None \<Rightarrow> 0 | Some a \<Rightarrow> adv_amount a)"
    using latest_active_advance_mem [of tn t s] assms(4) by (auto simp: list_all_iff split: option.split)
  have bal: "stl_balance x = stl_amount x - stl_costs x \<and> stl_costs x = trip_cost_sum tn t (cb_db s)
      \<and> stl_amount x = (case latest_active_advance tn t s of None \<Rightarrow> 0 | Some a \<Rightarrow> adv_amount a)"
    using n c a by (simp add: has_digits_diff)
  have adv: "case stl_advance x of None \<Rightarrow> latest_active_advance tn t s = None
      | Some i \<Rightarrow> void_advance tn u i s' = Inl (ApiError ''advance_already_settled'' 409)"
  proof (cases "latest_active_advance tn t s")
    case (Some r)
    let ?r = "r\<lparr>adv_status := ''settled''\<rparr>"
    note m = latest_active_advance_mem [OF Some]
    have "tget adv_id (adv_id r) (advances s) = Some r" by (rule keys_unique_get [OF assms(3) m(1)])
    then have "tget adv_id (adv_id r) (advances s') = Some ?r"
      using n Some by (simp add: settle_advance_def tget_tput)
    then have "owned adv_id adv_tenant tn (adv_id r) (advances s') = Some ?r"
      using m(2) by (simp add: owned_Some)
    with n Some show ?thesis by (simp add: void_advance_def require_advance_def)
  qed (use n in simp)
  have "find_settlement tn t s' = Some x"
    using n assms(2) by (auto simp: find_settlement_def tadd_def find_app)
  moreover obtain r where "owned trip_id trip_tenant tn t (trips (cb_db s)) = Some r" "trip_status r = T_completed"
    using assms(1) by (auto simp: compute_settlement_def split: option.splits if_splits)
  ultimately have "compute_settlement tn t later s' = Inr (x, s')" using n by (simp add: compute_settlement_def)
  with bal adv show ?thesis by blast
qed

text \<open>a settlement is decided once: once it is approved or rejected, neither request is accepted again.\<close>

theorem settlement_decided_once:
  assumes "approve_settlement tn u i now s = Inr (x, s') \<or> reject_settlement tn u i reason s = Inr (x, s')"
  shows "\<not> isl (require_settlement tn i s) \<and> isl (approve_settlement tn' u' i now' s')
    \<and> isl (reject_settlement tn' u' i reason' s')"
proof -
  from assms obtain r where r: "owned stl_id stl_tenant tn i (settlements s) = Some r"
    and s': "settlements s' = tput stl_id x (settlements s)" and x: "stl_id x = stl_id r" "stl_status x \<noteq> ''pending''"
    by (auto simp: approve_settlement_def reject_settlement_def require_settlement_def rbind_Inr of_opt_Inr caudit_def
        Let_def if_Inl_Inr)
  then have "tget stl_id i (settlements s') = Some x"
    using owned_key [OF r] by (auto simp: tget_tput owned_Some)
  then have "require_settlement tn' i s' = Inr y \<Longrightarrow> y = x" for y
    by (auto simp: require_settlement_def of_opt_Inr owned_Some)
  with x r show ?thesis
    by (cases "require_settlement tn' i s'")
      (auto simp: approve_settlement_def reject_settlement_def require_settlement_def)
qed

text \<open>As the code stands no advance is ever issued.\<close>

lemma advance_never_issued: "isl (issue_advance tn u p now s)"
  by (simp add: issue_advance_def split: option.split)

section \<open>A trip settled\<close>

definition settled_trip :: cashbox where
  "settled_trip = \<lparr>cb_db = empty_db\<lparr>db_next := 20, trips := [(new_trip 5 1 2 3)\<lparr>trip_status := T_completed\<rparr>],
       costs := [\<lparr>cost_id = 6, cost_tenant = 1, cost_trip = 5, cost_type = ''fuel'', cost_description = None,
         cost_amount = 700, cost_currency = ''MZN'', cost_paid_by = ''driver'', cost_payment_method = None,
         cost_receipt_file = None, cost_reference = ''R'', cost_source_type = ''manual'', cost_source = None,
         cost_created_by = None, cost_incurred_at = 0\<rparr>]\<rparr>,
     advances = [\<lparr>adv_id = 7, adv_tenant = 1, adv_trip = 5, adv_driver = 3, adv_amount = 1000, adv_allowance = 400,
       adv_expenses = 600, adv_status = ''issued'', adv_issued_by = None, adv_issued_at = 0, adv_notes = None,
       adv_reference = None\<rparr>],
     settlements = []\<rparr>"

theorem settlement_sound_witness:
  "\<exists>x s'. compute_settlement 1 5 9 settled_trip = Inr (x, s') \<and> stl_balance x = 300
    \<and> void_advance 1 4 7 s' = Inl (ApiError ''advance_already_settled'' 409)
    \<and> compute_settlement 1 5 10 s' = Inr (x, s')"
proof -
  obtain x s' where c: "compute_settlement 1 5 9 settled_trip = Inr (x, s')" "stl_balance x = 300" "stl_advance x = Some 7"
    by (auto simp: settled_trip_def compute_settlement_def find_settlement_def owned_def new_trip_def empty_db_def
        sum_trip_costs_def latest_active_advance_def fresh_id_def Let_def)
  from settlement_sound [OF c(1), of 4 10] c show ?thesis
    by (auto simp: settled_trip_def find_settlement_def keys_unique_def empty_db_def)
qed

theorem settlement_decided_once_witness:
  "\<exists>x s'. approve_settlement 1 4 20 11 (snd (projr (compute_settlement 1 5 9 settled_trip))) = Inr (x, s')
    \<and> isl (reject_settlement 1 4 20 ''no'' s')"
proof -
  obtain x s' where a: "approve_settlement 1 4 20 11 (snd (projr (compute_settlement 1 5 9 settled_trip))) = Inr (x, s')"
    by (auto simp: settled_trip_def compute_settlement_def find_settlement_def owned_def new_trip_def empty_db_def
        sum_trip_costs_def latest_active_advance_def fresh_id_def settle_advance_def tadd_def approve_settlement_def
        require_settlement_def Let_def caudit_def)
  from settlement_decided_once [OF disjI1 [OF a], of 1] have "isl (reject_settlement 1 4 20 ''no'' s')" by blast
  with a show ?thesis by blast
qed

end
