(* ===== verification/Drivers.thy ===== *)
theory Drivers
  imports Fleet Inputs Driver_Money
begin

text \<open>
  The register of drivers (\<^verbatim>\<open>drivers/service.py\<close>): the limit of the plan, phones, patches, the codes
  that pair a device, the renewal of documents, the score card and the summary of a driver.
\<close>

section \<open>The limit of the plan\<close>

definition driver_count :: "id \<Rightarrow> db \<Rightarrow> nat" where
  "driver_count tenant d = length (filter (\<lambda>r. drv_tenant r = tenant \<and> drv_status r \<noteq> ''inactive'') (drivers d))"

definition get_cached_driver_count :: "id \<Rightarrow> limits option \<Rightarrow> db \<Rightarrow> nat \<times> limits option" where
  "get_cached_driver_count tenant redis d =
     (case redis of
        None \<Rightarrow> (driver_count tenant d, None)
      | Some c \<Rightarrow>
          (case lim_drivers c tenant of
             Some n \<Rightarrow> (n, Some c)
           | None \<Rightarrow>
               (let n = driver_count tenant d
                in (n, Some (c\<lparr>lim_drivers := (lim_drivers c)(tenant \<mapsto> n)\<rparr>)))))"

definition check_driver_limit :: "tenant \<Rightarrow> limits option \<Rightarrow> db \<Rightarrow> unit res \<times> limits option" where
  "check_driver_limit t redis d =
     (case ten_max_drivers t of
        None \<Rightarrow> (Inr (), redis)
      | Some m \<Rightarrow>
          (let (n, redis') = get_cached_driver_count (ten_id t) redis d
           in (if m \<le> int n then Inl (ApiError ''plan_limit_reached'' 403) else Inr (), redis')))"

section \<open>Registration\<close>

definition require_driver :: "id \<Rightarrow> id \<Rightarrow> db \<Rightarrow> driver res" where
  "require_driver tenant i d = of_opt (ApiError ''driver_not_found'' 404) (owned drv_id drv_tenant tenant i (drivers d))"

definition put_driver :: "driver \<Rightarrow> db \<Rightarrow> db" where
  "put_driver r d = d\<lparr>drivers := tput drv_id r (drivers d)\<rparr>"

definition phone_exists :: "id \<Rightarrow> string option \<Rightarrow> id option \<Rightarrow> db \<Rightarrow> bool" where
  "phone_exists tenant phone except d =
     list_ex (\<lambda>r. drv_tenant r = tenant \<and> drv_phone r = phone \<and> Some (drv_id r) \<noteq> except) (drivers d)"

record driver_input =
  din_name :: string
  din_phone :: "string option"
  din_email :: "string option"
  din_emergency_name :: "string option"
  din_emergency_phone :: "string option"
  din_license :: "string option"
  din_license_category :: "string option"
  din_license_until :: "day option"
  din_passport :: "string option"
  din_passport_until :: "day option"
  din_bi :: "string option"
  din_bi_until :: "day option"
  din_inss :: "string option"
  din_employment :: "string option"
  din_documents :: "(string \<times> json) list option"

definition new_driver :: "id \<Rightarrow> id \<Rightarrow> driver_input \<Rightarrow> driver" where
  "new_driver i tenant p =
     \<lparr>drv_id = i, drv_tenant = tenant, drv_status = ''active'', drv_license_until = din_license_until p,
      drv_passport_until = din_passport_until p, drv_bi_until = din_bi_until p, drv_name = din_name p,
      drv_phone = din_phone p, drv_email = din_email p, drv_emergency_name = din_emergency_name p,
      drv_emergency_phone = din_emergency_phone p, drv_license = din_license p,
      drv_license_category = din_license_category p, drv_passport = din_passport p, drv_bi = din_bi p,
      drv_inss = din_inss p, drv_employment = din_employment p, drv_documents = din_documents p,
      drv_score = 100, drv_pairing_hash = None, drv_pairing_expires = None\<rparr>"

definition create_driver ::
  "id \<Rightarrow> driver_input \<Rightarrow> id option \<Rightarrow> limits option \<Rightarrow> db \<Rightarrow> (driver \<times> db) res \<times> limits option" where
  "create_driver tenant p actor redis d =
     (case require_active_tenant tenant d of
        Inl e \<Rightarrow> (Inl e, redis)
      | Inr t \<Rightarrow>
          (case check_driver_limit t redis d of
             (Inl e, redis') \<Rightarrow> (Inl e, redis')
           | (Inr _, redis') \<Rightarrow>
               (if truthy (din_phone p) \<and> phone_exists tenant (din_phone p) None d
                then Inl (ApiError ''driver_phone_conflict'' 409)
                else
                  (let (i, d1) = fresh_id d; r = new_driver i tenant p
                   in Inr (r, record_audit_log tenant actor ''driver.created'' ''driver'' (Some i)
                        (d1\<lparr>drivers := tadd r (drivers d1)\<rparr>))),
                redis')))"

definition list_drivers :: "id \<Rightarrow> string option \<Rightarrow> string option \<Rightarrow> nat \<Rightarrow> nat \<Rightarrow> db \<Rightarrow> driver list" where
  "list_drivers tenant st search limit offset d =
     take limit (drop offset (sort_key drv_name (filter (\<lambda>r. drv_tenant r = tenant
       \<and> (truthy st \<longrightarrow> Some (drv_status r) = st)
       \<and> (truthy search \<longrightarrow> (let s = or_else search [] in ilike s (drv_name r)
            \<or> ilike_opt s (drv_phone r) \<or> ilike_opt s (drv_email r) \<or> ilike_opt s (drv_license r)))) (drivers d))))"

section \<open>Patches\<close>

record driver_patch =
  dpt_name :: "string option option"
  dpt_phone :: "string option option"
  dpt_email :: "string option option"
  dpt_emergency_name :: "string option option"
  dpt_emergency_phone :: "string option option"
  dpt_status :: "string option option"
  dpt_license :: "string option option"
  dpt_license_category :: "string option option"
  dpt_license_until :: "day option option"
  dpt_passport :: "string option option"
  dpt_passport_until :: "day option option"
  dpt_bi :: "string option option"
  dpt_bi_until :: "day option option"
  dpt_inss :: "string option option"
  dpt_employment :: "string option option"
  dpt_documents :: "(string \<times> json) list option option"

definition patched_driver :: "driver_patch \<Rightarrow> driver \<Rightarrow> driver" where
  "patched_driver p r = r\<lparr>drv_status := keep (dpt_status p) (drv_status r),
     drv_license_until := or_else (dpt_license_until p) (drv_license_until r),
     drv_passport_until := or_else (dpt_passport_until p) (drv_passport_until r),
     drv_bi_until := or_else (dpt_bi_until p) (drv_bi_until r), drv_name := keep (dpt_name p) (drv_name r),
     drv_phone := or_else (dpt_phone p) (drv_phone r), drv_email := or_else (dpt_email p) (drv_email r),
     drv_emergency_name := or_else (dpt_emergency_name p) (drv_emergency_name r),
     drv_emergency_phone := or_else (dpt_emergency_phone p) (drv_emergency_phone r),
     drv_license := or_else (dpt_license p) (drv_license r),
     drv_license_category := or_else (dpt_license_category p) (drv_license_category r),
     drv_passport := or_else (dpt_passport p) (drv_passport r), drv_bi := or_else (dpt_bi p) (drv_bi r),
     drv_inss := or_else (dpt_inss p) (drv_inss r), drv_employment := or_else (dpt_employment p) (drv_employment r),
     drv_documents := or_else (dpt_documents p) (drv_documents r)\<rparr>"

definition patch_driver :: "id \<Rightarrow> id \<Rightarrow> driver_patch \<Rightarrow> id option \<Rightarrow> db \<Rightarrow> (driver \<times> db) res" where
  "patch_driver tenant i p actor d =
     rbind (require_driver tenant i d) (\<lambda>r.
       if (case dpt_phone p of
             Some ph \<Rightarrow> truthy ph \<and> ph \<noteq> drv_phone r \<and> phone_exists tenant ph (Some i) d
           | None \<Rightarrow> False)
       then Inl (ApiError ''driver_phone_conflict'' 409)
       else if dpt_name p = Some None \<or> dpt_status p = Some None then Inl (PyError ''IntegrityError'')
       else
         (let r' = patched_driver p r
          in Inr (r', record_audit_log tenant actor ''driver.updated'' ''driver'' (Some i) (put_driver r' d))))"

section \<open>Pairing a device\<close>

text \<open>
  The code is drawn below a million; \<open>digest\<close> is the hash of \<^verbatim>\<open>core/tokens.py\<close>. The column of the hash is
  unique over all drivers of all tenants.
\<close>

definition pairing_code :: "nat \<Rightarrow> string" where
  "pairing_code n = zfill 6 (show_nat n)"

definition issue_pairing_code ::
  "(string \<Rightarrow> string) \<Rightarrow> nat \<Rightarrow> id \<Rightarrow> id \<Rightarrow> id option \<Rightarrow> timestamp \<Rightarrow> db \<Rightarrow> (string \<times> db) res" where
  "issue_pairing_code digest n tenant i actor now d =
     rbind (require_driver tenant i d) (\<lambda>r.
       if drv_status r \<noteq> ''active'' then Inl (ApiError ''driver_inactive'' 409)
       else
         (let h = digest (pairing_code n);
              r' = r\<lparr>drv_pairing_hash := Some h, drv_pairing_expires := Some (now + 15 * 60000000)\<rparr>
          in if list_ex (\<lambda>x. drv_id x \<noteq> i \<and> drv_pairing_hash x = Some h) (drivers d)
             then Inl (PyError ''IntegrityError'')
             else Inr (pairing_code n, record_audit_log tenant actor ''driver.pairing_code_issued'' ''driver'' (Some i)
                    (put_driver r' d))))"

section \<open>Renewing a document\<close>

text \<open>
  As for a vehicle, an entry that is already there is updated in place; here nothing else of the value
  changes, so the column is written only when the document had no entry. The dates and numbers have
  columns of their own, which are always written.
\<close>

definition renewed_driver_columns :: "string \<Rightarrow> renewal \<Rightarrow> driver \<Rightarrow> driver" where
  "renewed_driver_columns ty p r =
     (if ty = ''driving_license''
      then r\<lparr>drv_license_until := Some (rnw_until p), drv_license := or_str (rnw_reference p) (drv_license r)\<rparr>
      else if ty = ''passport''
      then r\<lparr>drv_passport_until := Some (rnw_until p), drv_passport := or_str (rnw_reference p) (drv_passport r)\<rparr>
      else if ty = ''bi''
      then r\<lparr>drv_bi_until := Some (rnw_until p), drv_bi := or_str (rnw_reference p) (drv_bi r)\<rparr>
      else r)"

definition renew_driver_document ::
  "id \<Rightarrow> id \<Rightarrow> string \<Rightarrow> renewal \<Rightarrow> id option \<Rightarrow> timestamp \<Rightarrow> db \<times> file_row list
    \<Rightarrow> (driver \<times> db \<times> file_row list) res" where
  "renew_driver_document tenant i ty p actor now = (\<lambda>(d, fs).
     if ty \<notin> {''driving_license'', ''passport'', ''bi''} then Inl (ApiError ''unsupported_driver_document'' 422)
     else rbind (require_driver tenant i d) (\<lambda>r.
     rbind (attach_file tenant (rnw_file p) ''driver_document'' i fs) (\<lambda>fs1.
       let docs = or_else (drv_documents r) [];
           r1 = (if in_place ty docs then r
                 else r\<lparr>drv_documents := Some (jset ty (JObj (renewed_entry p now (jget ty docs))) docs)\<rparr>);
           r' = renewed_driver_columns ty p r1
       in Inr (r', record_audit_log tenant actor ''driver.document_renewed'' ''driver'' (Some i) (put_driver r' d), fs1))))"

section \<open>The score card\<close>

record sync_event =
  syn_id :: id
  syn_tenant :: id
  syn_driver :: "id option"
  syn_device :: string
  syn_key :: string
  syn_operation :: string
  syn_entity_type :: string
  syn_local :: "string option"
  syn_server :: "id option"
  syn_status :: string
  syn_error :: "string option"
  syn_created :: timestamp

datatype tier = Verde | Amarelo | Vermelho | Insuficiente

definition scored_trips :: "id \<Rightarrow> id \<Rightarrow> timestamp \<Rightarrow> db \<Rightarrow> trip list" where
  "scored_trips tenant driver start d =
     filter (\<lambda>t. trip_tenant t = tenant \<and> trip_driver t = driver \<and> trip_status t = T_completed
       \<and> (case trip_actual_departure t of None \<Rightarrow> False | Some u \<Rightarrow> start \<le> u)) (trips d)"

definition delivery_rate :: "trip list \<Rightarrow> db \<Rightarrow> dec" where
  "delivery_rate ts d =
     of_nat (length (filter (\<lambda>t. list_ex (\<lambda>p. prf_trip p = trip_id t) (proofs d)) ts)) / of_nat (length ts) * 100"

definition sync_score :: "nat \<Rightarrow> nat \<Rightarrow> dec" where
  "sync_score syncs n = min (of_nat syncs / of_nat n / 5 * 100) 100"

definition total_km :: "trip list \<Rightarrow> int" where
  "total_km ts = (\<Sum>t\<leftarrow>ts. case (trip_km_end t, trip_km_start t) of (Some e, Some s) \<Rightarrow> e - s | _ \<Rightarrow> 0)"

definition distance_score :: "int \<Rightarrow> dec" where
  "distance_score km = min (of_int km / 500 * 100) 100"

definition stop_minutes :: "trip list \<Rightarrow> db \<Rightarrow> dec list" where
  "stop_minutes ts d = List.map_filter (\<lambda>x. case stop_resumed_at x of
       Some r \<Rightarrow> if stop_trip x \<in> set (map trip_id ts) then Some (of_int (r - stop_stopped_at x) / 60000000) else None
     | None \<Rightarrow> None) (stops d)"

definition average :: "dec list \<Rightarrow> dec" where
  "average xs = (if xs = [] then 0 else sum_list xs / of_nat (length xs))"

definition stop_score :: "dec \<Rightarrow> dec" where
  "stop_score m = max 0 ((1 - m / 60) * 100)"

definition score_tier :: "dec \<Rightarrow> tier" where
  "score_tier x = (if 80 \<le> x then Verde else if 60 \<le> x then Amarelo else Vermelho)"

text \<open>The floats of the formula are rationals here.\<close>

definition get_driver_scorecard ::
  "id \<Rightarrow> id \<Rightarrow> int \<Rightarrow> timestamp \<Rightarrow> sync_event list \<Rightarrow> db \<Rightarrow> dec option \<times> tier" where
  "get_driver_scorecard tenant driver days now syncs d =
     (let start = now - days * day_us;
          ts = scored_trips tenant driver start d;
          n = length ts
      in if n < 3 then (None, Insuficiente)
         else
           (let ss = length (filter (\<lambda>e. syn_tenant e = tenant \<and> syn_driver e = Some driver \<and> start \<le> syn_created e) syncs);
                composite = (4/10) * delivery_rate ts d + (25/100) * sync_score ss n
                  + (2/10) * distance_score (total_km ts) + (15/100) * stop_score (average (stop_minutes ts d));
                score = quantize 1 composite
            in (Some score, score_tier score)))"

section \<open>The summary of a driver\<close>

datatype document_alert = Caducado string | Expira string int

definition date_alert :: "string \<Rightarrow> day option \<Rightarrow> day \<Rightarrow> document_alert list" where
  "date_alert ty until today =
     (case until of
        None \<Rightarrow> []
      | Some u \<Rightarrow> if u - today < 0 then [Caducado ty] else if u - today \<le> 30 then [Expira ty (u - today)] else [])"

text \<open>A trip has no \<^verbatim>\<open>route_name\<close>: a driver with a trip has no summary.\<close>

definition get_driver_hub360 ::
  "id \<Rightarrow> id \<Rightarrow> day \<Rightarrow> cashbox \<Rightarrow> (driver \<times> nat \<times> dec \<times> document_alert list) res" where
  "get_driver_hub360 tenant i today s =
     rbind (require_driver tenant i (cb_db s)) (\<lambda>r.
       let open_advances = filter (\<lambda>a. adv_driver a = i \<and> adv_tenant a = tenant \<and> adv_status a = ''issued'') (advances s)
       in if list_ex (\<lambda>t. trip_driver t = i \<and> trip_tenant t = tenant) (trips (cb_db s))
          then Inl (PyError ''AttributeError'')
          else Inr (r, length open_advances, sum_list (map adv_amount open_advances),
                 date_alert ''license'' (drv_license_until r) today @ date_alert ''passport'' (drv_passport_until r) today))"

end
