(* ===== verification/Fleet_Facts.thy ===== *)
theory Fleet_Facts
  imports Drivers
begin

text \<open>
  What holds of the registers of vehicles and drivers: the plan's limit under the cache of its count,
  and what a renewal of a document does to the compliance of a vehicle.
\<close>

section \<open>A limit checked against a cached count\<close>

text \<open>
  The contract of a register with a limit: a change adds at most the rows it says it adds beyond the limit, or one row,
  below the limit as the cached count shows it, and empties the cache; what it leaves there otherwise was there or is
  the count before it.
\<close>

inductive counted :: "('s \<Rightarrow> nat \<Rightarrow> 's \<Rightarrow> bool) \<Rightarrow> 's \<Rightarrow> nat \<Rightarrow> 's \<Rightarrow> bool" for step where
  counted_none: "counted step s 0 s"
| counted_more: "counted step s n t \<Longrightarrow> step t k u \<Longrightarrow> counted step s (n + k) u"

locale plan_quota =
  fixes used :: "'s \<Rightarrow> nat" and hit :: "'s \<Rightarrow> nat option" and cap :: "'s \<Rightarrow> int option"
    and sound :: "'s \<Rightarrow> bool" and step :: "'s \<Rightarrow> nat \<Rightarrow> 's \<Rightarrow> bool"
  assumes step_sound: "sound s \<Longrightarrow> step s k t \<Longrightarrow> sound t"
    and step_cap: "sound s \<Longrightarrow> step s k t \<Longrightarrow> cap t = cap s"
    and step_used: "sound s \<Longrightarrow> step s k t \<Longrightarrow> used t \<le> used s + k
          \<or> used t = Suc (used s) \<and> hit t = None \<and> (\<forall>m. cap s = Some m \<longrightarrow> int (or_else (hit s) (used s)) < m)"
    and step_hit: "sound s \<Longrightarrow> step s k t \<Longrightarrow> hit t = None \<or> hit t = hit s \<or> hit t = Some (used s)"
begin

text \<open>At most \<open>n\<close> rows beyond the limit, and beyond the cached count.\<close>

definition near_cap :: "nat \<Rightarrow> 's \<Rightarrow> bool" where
  "near_cap n s \<longleftrightarrow> (\<forall>m. cap s = Some m \<longrightarrow> int (used s) \<le> m + int n) \<and> (\<forall>h. hit s = Some h \<longrightarrow> used s \<le> h + n)"

lemma step_within:
  assumes "sound s" "step s k t" and "near_cap n s"
  shows "near_cap (n + k) t"
  using step_cap [OF assms(1,2)] step_used [OF assms(1,2)] step_hit [OF assms(1,2)] assms(3)
  by (cases "hit s") (fastforce simp: near_cap_def)+

lemma runs_within: "counted step s k t \<Longrightarrow> sound s \<Longrightarrow> near_cap n s \<Longrightarrow> sound t \<and> cap t = cap s \<and> near_cap (n + k) t"
proof (induction rule: counted.induct)
  case (counted_more s i t k u)
  then have "sound t" "cap t = cap s" "near_cap (n + i) t" by simp_all
  with step_sound step_cap step_within counted_more.hyps(2) show ?case by (metis add.assoc)
qed simp

end

section \<open>The vehicles of a tenant\<close>

definition revives :: "vehicle_patch \<Rightarrow> vehicle \<Rightarrow> bool" where
  "revives p v \<longleftrightarrow> veh_status v = ''retired'' \<and> keep (vpt_status p) ''retired'' \<noteq> ''retired''"

text \<open>
  The handlers empty the cache after a change; when Redis fails them, the error is logged and the cache stays as
  it is. The changes of the handlers with what each may add beyond the limit (a registration that could not
  empty the cache, a patch that brings a retired vehicle back), the reading of the count, and the expiry of the cache.
\<close>

definition invalidated :: "bool \<Rightarrow> id \<Rightarrow> limits option \<Rightarrow> limits option" where
  "invalidated ok tn r = (if ok then invalidate_limits tn r else r)"

inductive vehicle_change :: "id \<Rightarrow> db \<times> limits option \<Rightarrow> nat \<Rightarrow> db \<times> limits option \<Rightarrow> bool" for tn where
  vehicle_created: "create_vehicle tn p a r d = (Inr (v, d'), r') \<Longrightarrow>
    vehicle_change tn (d, r) (if ok then 0 else 1) (d', invalidated ok tn r')"
| vehicle_refused: "create_vehicle tn p a r d = (Inl e, r') \<Longrightarrow> vehicle_change tn (d, r) 0 (d, r')"
| vehicle_patched: "require_vehicle tn i d = Inr v \<Longrightarrow> patch_vehicle tn i p a d = Inr (v', d') \<Longrightarrow>
    vehicle_change tn (d, r) (if revives p v then 1 else 0) (d', invalidated ok tn r)"
| vehicle_renewed: "renew_vehicle_document tn i ty q a now (d, fs) = Inr (v', d', fs') \<Longrightarrow>
    vehicle_change tn (d, r) 0 (d', invalidated ok tn r)"
| vehicle_coded: "get_vehicle_qr_code tn i d = Inr (h, l, d') \<Longrightarrow> vehicle_change tn (d, r) 0 (d', r)"
| limits_read: "get_cached_vehicle_count tn r d = (n, r') \<Longrightarrow> vehicle_change tn (d, r) 0 (d, r')"
| limits_expired: "vehicle_change tn (d, r) 0 (d, invalidate_limits tn r)"

definition vehicle_cap :: "id \<Rightarrow> db \<times> limits option \<Rightarrow> int option" where
  "vehicle_cap tn s = (case tget ten_id tn (tenants (fst s)) of None \<Rightarrow> None | Some t \<Rightarrow> ten_max_vehicles t)"

definition vehicle_hit :: "id \<Rightarrow> db \<times> limits option \<Rightarrow> nat option" where
  "vehicle_hit tn s = (case snd s of None \<Rightarrow> None | Some c \<Rightarrow> lim_vehicles c tn)"

definition vehicles_sound :: "db \<times> limits option \<Rightarrow> bool" where
  "vehicles_sound s \<longleftrightarrow> keys_unique veh_id (vehicles (fst s)) \<and> below veh_id (db_next (fst s)) (vehicles (fst s))"

lemma hit_invalidated [simp]: "vehicle_hit tn (d, invalidate_limits tn r) = None"
  by (simp add: vehicle_hit_def invalidate_limits_def split: option.split)

lemma hit_after: "vehicle_hit tn (d', invalidated ok tn r) = (if ok then None else vehicle_hit tn (d, r))"
  by (simp add: invalidated_def) (simp add: vehicle_hit_def)

text \<open>Writing a row changes a count by one at most, and not upwards when it counts only if the row it replaces did.\<close>

lemma length_filter_tput_Suc:
  "keys_unique key t \<Longrightarrow> length (filter P (tput key r t)) \<le> Suc (length (filter P t))"
  by (induction t) (auto simp: keys_unique_def tput_absent)

lemma length_filter_tput:
  assumes "\<And>x. x \<in> set t \<Longrightarrow> key x = key r \<Longrightarrow> P r \<Longrightarrow> P x"
  shows "length (filter P (tput key r t)) \<le> length (filter P t)"
  using assms by (induction t) auto

lemma required_row:
  assumes "keys_unique veh_id (vehicles d)" and "require_vehicle tn i d = Inr v"
    and "x \<in> set (vehicles d)" and "veh_id x = veh_id v"
  shows "x = v"
  using assms(2) keys_unique_row [OF assms(1,3) _ assms(4)] by (auto simp: require_vehicle_def of_opt_Inr dest: owned_mem)

lemma put_vehicle_count:
  assumes "keys_unique veh_id (vehicles d)" and "require_vehicle tn i d = Inr v"
    and "veh_id v' = veh_id v" and "veh_tenant v' = veh_tenant v"
    and "veh_status v = ''retired'' \<Longrightarrow> veh_status v' = ''retired''"
  shows "vehicle_count tn (put_vehicle v' d) \<le> vehicle_count tn d"
proof -
  have "length (filter (\<lambda>v. veh_tenant v = tn \<and> veh_status v \<noteq> ''retired'') (tput veh_id v' (vehicles d)))
      \<le> length (filter (\<lambda>v. veh_tenant v = tn \<and> veh_status v \<noteq> ''retired'') (vehicles d))"
  proof (rule length_filter_tput)
    fix x
    assume "x \<in> set (vehicles d)" "veh_id x = veh_id v'" "veh_tenant v' = tn \<and> veh_status v' \<noteq> ''retired''"
    with assms(3-5) required_row [OF assms(1,2)] show "veh_tenant x = tn \<and> veh_status x \<noteq> ''retired''" by auto
  qed
  then show ?thesis by (simp add: vehicle_count_def put_vehicle_def)
qed

lemma put_vehicle_count_Suc:
  "keys_unique veh_id (vehicles d) \<Longrightarrow> vehicle_count tn (put_vehicle v d) \<le> Suc (vehicle_count tn d)"
  using length_filter_tput_Suc [of veh_id "vehicles d"] by (simp add: vehicle_count_def put_vehicle_def)

lemma vehicles_sound_put: "vehicles_sound (d, r) \<Longrightarrow> vehicles_sound (put_vehicle v d, r')"
  by (simp add: vehicles_sound_def put_vehicle_def below_tput)

lemma vehicle_count_cong: "vehicles d' = vehicles d \<Longrightarrow> vehicle_count tn d' = vehicle_count tn d"
  by (simp add: vehicle_count_def)

lemma check_vehicle_limit_cases:
  assumes "check_vehicle_limit t redis d = (x, redis')" and "ten_id t = tn"
  shows "(vehicle_hit tn (d, redis') = vehicle_hit tn (d, redis) \<or> vehicle_hit tn (d, redis') = Some (vehicle_count tn d))
    \<and> (\<forall>m. x = Inr () \<longrightarrow> ten_max_vehicles t = Some m \<longrightarrow> int (or_else (vehicle_hit tn (d, redis)) (vehicle_count tn d)) < m)"
  using assms
  by (auto simp: check_vehicle_limit_def get_cached_vehicle_count_def vehicle_hit_def Let_def
      split: option.splits if_splits)

lemma create_vehicle_cases:
  assumes "create_vehicle tn p a r d = (x, r')"
  shows "(vehicle_hit tn (d, r') = vehicle_hit tn (d, r) \<or> vehicle_hit tn (d, r') = Some (vehicle_count tn d))
    \<and> (\<forall>v d'. x = Inr (v, d') \<longrightarrow> vehicles d' = tadd v (vehicles d) \<and> veh_id v = db_next d \<and> veh_tenant v = tn
        \<and> veh_status v = ''active'' \<and> db_next d' = Suc (db_next d) \<and> tenants d' = tenants d
        \<and> (\<forall>m. vehicle_cap tn (d, r) = Some m \<longrightarrow> int (or_else (vehicle_hit tn (d, r)) (vehicle_count tn d)) < m))"
proof (cases "require_active_tenant tn d")
  case (Inr t)
  then have t: "tget ten_id tn (tenants d) = Some t" "ten_id t = tn"
    by (auto simp: require_active_tenant_def split: option.splits if_splits dest: tget_key)
  obtain y r1 where y: "check_vehicle_limit t r d = (y, r1)" by fastforce
  have "r1 = r'" using assms Inr y by (cases y) (auto simp: create_vehicle_def)
  with check_vehicle_limit_cases [OF y t(2)] assms Inr y t(1) show ?thesis
    by (cases y) (auto simp: create_vehicle_def Let_def fresh_id_def flush_vehicles_def new_vehicle_def vehicle_cap_def
        split: if_splits)
qed (use assms in \<open>auto simp: create_vehicle_def\<close>)

lemma patch_vehicle_put:
  assumes "require_vehicle tn i d = Inr v" and "patch_vehicle tn i p a d = Inr (v', d')"
  shows "v' = patched_vehicle p v \<and> vehicles d' = vehicles (put_vehicle v' d) \<and> db_next d' = db_next d \<and> tenants d' = tenants d"
  using assms by (auto simp: patch_vehicle_def Let_def rbind_Inr if_Inl_Inr flush_vehicles_def put_vehicle_def split: if_splits)

text \<open>Every change adds an active vehicle, writes one row or leaves the register as it is.\<close>

lemma vehicle_change_cases:
  assumes "vehicle_change tn s k t"
  obtains (add) v where "vehicles (fst t) = tadd v (vehicles (fst s))" "veh_id v = db_next (fst s)" "veh_tenant v = tn"
      "veh_status v = ''active''" "db_next (fst t) = Suc (db_next (fst s))" "tenants (fst t) = tenants (fst s)"
      "vehicle_hit tn t = None \<or> k = 1 \<and> (vehicle_hit tn t = vehicle_hit tn s \<or> vehicle_hit tn t = Some (vehicle_count tn (fst s)))"
      "\<forall>m. vehicle_cap tn s = Some m \<longrightarrow> int (or_else (vehicle_hit tn s) (vehicle_count tn (fst s))) < m"
  | (put) v v' where "require_vehicle tn (veh_id v) (fst s) = Inr v" "veh_id v' = veh_id v" "veh_tenant v' = veh_tenant v"
      "veh_status v = ''retired'' \<and> veh_status v' \<noteq> ''retired'' \<longrightarrow> k = 1" "vehicles (fst t) = vehicles (put_vehicle v' (fst s))"
      "db_next (fst t) = db_next (fst s)" "tenants (fst t) = tenants (fst s)"
      "vehicle_hit tn t = None \<or> vehicle_hit tn t = vehicle_hit tn s"
  | (same) "fst t = fst s" "vehicle_hit tn t = None \<or> vehicle_hit tn t = vehicle_hit tn s
      \<or> vehicle_hit tn t = Some (vehicle_count tn (fst s))"
  using assms
proof cases
  case (vehicle_created p a r d v d' r' ok)
  with create_vehicle_cases [OF vehicle_created(4)] hit_after [of tn d' ok r' d] show ?thesis
    by (intro add [of v]) auto
next
  case (vehicle_refused p a r d e r')
  with create_vehicle_cases [OF vehicle_refused(4)] show ?thesis by (intro same) auto
next
  case (vehicle_patched i d v p a v' d' r ok)
  have "i = veh_id v" using vehicle_patched(4) by (auto simp: require_vehicle_def of_opt_Inr dest: owned_key)
  with vehicle_patched patch_vehicle_put [OF vehicle_patched(4,5)] hit_after [of tn d' ok r d] show ?thesis
    by (intro put [of v v']) (auto simp: patched_vehicle_def revives_def keep_def split: option.splits)
next
  case (vehicle_renewed i ty q a now d fs v' d' fs' r ok)
  then obtain v where v: "require_vehicle tn i d = Inr v" "veh_id v' = veh_id v" "veh_tenant v' = veh_tenant v"
      "veh_status v' = veh_status v" "vehicles d' = vehicles (put_vehicle v' d)" "db_next d' = db_next d" "tenants d' = tenants d"
    by (auto simp: renew_vehicle_document_def Let_def rbind_Inr put_vehicle_def split: if_splits)
  moreover from v(1) have "i = veh_id v" by (auto simp: require_vehicle_def of_opt_Inr dest: owned_key)
  ultimately show ?thesis using vehicle_renewed hit_after [of tn d' ok r d] by (intro put [of v v']) auto
next
  case (vehicle_coded i d h l d' r)
  then obtain v where v: "require_vehicle tn i d = Inr v" by (auto simp: get_vehicle_qr_code_def rbind_Inr)
  then have i: "i = veh_id v" by (auto simp: require_vehicle_def of_opt_Inr dest: owned_key)
  show ?thesis
  proof (cases "truthy (veh_qr v)")
    case True
    with vehicle_coded v show ?thesis by (intro same) (auto simp: get_vehicle_qr_code_def Let_def)
  next
    case False
    with vehicle_coded v i show ?thesis
      by (intro put [of v "v\<lparr>veh_qr := Some h\<rparr>"])
        (auto simp: get_vehicle_qr_code_def Let_def put_vehicle_def vehicle_hit_def)
  qed
next
  case (limits_read r d n r')
  then show ?thesis
    by (intro same) (auto simp: get_cached_vehicle_count_def vehicle_hit_def Let_def split: option.splits)
next
  case (limits_expired d r)
  then show ?thesis by (intro same) auto
qed

text \<open>A row that is not there before has no effect on the count but its own.\<close>

lemma vehicle_count_add:
  "vehicles d' = tadd v (vehicles d) \<Longrightarrow> veh_tenant v = tn \<Longrightarrow> veh_status v = ''active''
    \<Longrightarrow> vehicle_count tn d' = Suc (vehicle_count tn d)"
  by (simp add: vehicle_count_def)

interpretation vehicle_quota: plan_quota "\<lambda>s. vehicle_count tn (fst s)" "vehicle_hit tn" "vehicle_cap tn" vehicles_sound
    "vehicle_change tn" for tn
proof
  fix s k t
  assume s: "vehicles_sound s" and c: "vehicle_change tn s k t"
  from s have u: "keys_unique veh_id (vehicles (fst s))" "below veh_id (db_next (fst s)) (vehicles (fst s))"
    by (simp_all add: vehicles_sound_def)
  show "vehicles_sound t"
    using c by (cases rule: vehicle_change_cases)
      (use u in \<open>auto simp: vehicles_sound_def put_vehicle_def below_tput intro: keys_unique_insert below_mono\<close>)
  show "vehicle_cap tn t = vehicle_cap tn s"
    using c by (cases rule: vehicle_change_cases) (simp_all add: vehicle_cap_def)
  show "vehicle_count tn (fst t) \<le> vehicle_count tn (fst s) + k \<or> vehicle_count tn (fst t) = Suc (vehicle_count tn (fst s))
      \<and> vehicle_hit tn t = None \<and> (\<forall>m. vehicle_cap tn s = Some m \<longrightarrow> int (or_else (vehicle_hit tn s) (vehicle_count tn (fst s))) < m)"
    using c
  proof (cases rule: vehicle_change_cases)
    case (add v)
    with vehicle_count_add [of "fst t" v "fst s" tn] show ?thesis by auto
  next
    case (put v v')
    with put_vehicle_count [OF u(1) put(1-3)] put_vehicle_count_Suc [OF u(1), of tn v'] vehicle_count_cong [OF put(5), of tn]
    show ?thesis by (cases "veh_status v = ''retired'' \<and> veh_status v' \<noteq> ''retired''") auto
  qed simp
  show "vehicle_hit tn t = None \<or> vehicle_hit tn t = vehicle_hit tn s \<or> vehicle_hit tn t = Some (vehicle_count tn (fst s))"
    using c by (cases rule: vehicle_change_cases) auto
qed

text \<open>C30: the plan's limit holds through every change of the register, with the count cached, the cache expiring at any
  time and Redis failing at any time: from a register within its limit, whose cache is empty or not below the real count, a tenant
  never has more active vehicles than its plan allows, but for the retired vehicles brought back and the
  registrations after which Redis did not empty the cache. With neither, the limit is kept.\<close>

theorem fleet_within_plan:
  assumes "counted (vehicle_change tn) (d, r) n (d', r')" and "vehicles_sound (d, r)"
    and "\<forall>h. vehicle_hit tn (d, r) = Some h \<longrightarrow> vehicle_count tn d \<le> h"
    and "vehicle_cap tn (d, r) = Some m" and "int (vehicle_count tn d) \<le> m"
  shows "int (vehicle_count tn d') \<le> m + int n"
proof -
  have "vehicle_quota.near_cap tn 0 (d, r)" using assms(3-5) by (simp add: vehicle_quota.near_cap_def)
  from vehicle_quota.runs_within [OF assms(1,2) this] assms(4) show ?thesis by (simp add: vehicle_quota.near_cap_def)
qed

text \<open>a patch that brings a retired vehicle back is not checked against the plan: it always succeeds in
  adding one to the count, whatever the limit.\<close>

theorem revival_ignores_plan:
  assumes "vehicle_checks (vehicles d)" and "require_vehicle tn i d = Inr v" and "veh_status v = ''retired''"
    and "keys_unique veh_id (vehicles d)"
  shows "\<exists>p v' d'. patch_vehicle tn i p a d = Inr (v', d') \<and> vehicle_count tn d' = Suc (vehicle_count tn d)"
proof -
  define p where "p = \<lparr>vpt_plate = None, vpt_chassis = None, vpt_brand = None, vpt_model = None, vpt_year = None,
    vpt_color = None, vpt_category = None, vpt_status = Some (Some ''active''), vpt_km = None, vpt_fuel_type = None,
    vpt_documents = None, vpt_target = None, vpt_fuel_limit = None, vpt_ownership = None, vpt_customer = None\<rparr>"
  let ?v = "v\<lparr>veh_status := ''active''\<rparr>"
  have v: "patched_vehicle p v = ?v" by (simp add: p_def patched_vehicle_def keep_def patched_plate_def)
  have row: "v \<in> set (vehicles d)" "veh_tenant v = tn"
    using assms(2) by (auto simp: require_vehicle_def of_opt_Inr owned_Some dest: tget_mem)
  have "map (\<lambda>v. (veh_tenant v, veh_plate v)) (tput veh_id ?v (vehicles d)) = map (\<lambda>v. (veh_tenant v, veh_plate v)) (vehicles d)"
    using required_row [OF assms(4,2)] by (auto simp: tput_def)
  moreover have "list_all (\<lambda>v. 0 \<le> veh_km v \<and> (case veh_max_payload v of None \<Rightarrow> True | Some m \<Rightarrow> 0 \<le> m)) (tput veh_id ?v (vehicles d))"
    using assms(1) row by (intro list_all_tput) (auto simp: vehicle_checks_def list_all_iff)
  ultimately have "vehicle_checks (tput veh_id ?v (vehicles d))" using assms(1) by (simp add: vehicle_checks_def)
  then have patch: "patch_vehicle tn i p a d
      = Inr (?v, record_audit_log tn a ''vehicle.updated'' ''vehicle'' (Some i) (put_vehicle ?v d))"
    using assms(2) v by (simp add: patch_vehicle_def p_def patched_plate_def null_patch_def flush_vehicles_def put_vehicle_def Let_def)
  have "length (filter (\<lambda>v. veh_tenant v = tn \<and> veh_status v \<noteq> ''retired'') (tput veh_id ?v xs))
      = Suc (length (filter (\<lambda>v. veh_tenant v = tn \<and> veh_status v \<noteq> ''retired'') xs))"
    if "keys_unique veh_id xs" "v \<in> set xs" for xs
    using that assms(3) row(2)
    by (induction xs) (auto simp: keys_unique_def tput_absent)
  then have "vehicle_count tn (record_audit_log tn a ''vehicle.updated'' ''vehicle'' (Some i) (put_vehicle ?v d))
      = Suc (vehicle_count tn d)"
    using assms(4) row(1) by (simp add: vehicle_count_def put_vehicle_def)
  with patch show ?thesis by blast
qed

section \<open>Renewing a document\<close>

lemma jset_eq_jget: "jget ty (jset ty v docs) = v"
  by (simp add: jget_jset)

lemma longer_key: "ty \<noteq> ty @ x # xs"
  by simp

text \<open>The entry after a renewal, however it was written.\<close>

lemma renewed_entry_date: "jget ''valid_until'' (renewed_entry p now c) = JStr (isoformat (rnw_until p))"
  by (simp add: renewed_entry_def Let_def jget_jset)

lemma renewed_documents_date:
  assumes "python_day (rnw_until p)"
    and "in_place ty docs \<Longrightarrow> jget (ty @ ''_valid_until'') docs = JStr (isoformat (rnw_until p))
      \<Longrightarrow> document_valid_until docs ty = Some (rnw_until p)"
  shows "document_valid_until (renewed_documents ty p now docs) ty = Some (rnw_until p)"
proof (cases "in_place ty docs \<and> jget (ty @ ''_valid_until'') docs = JStr (isoformat (rnw_until p))")
  case True
  with assms(2) show ?thesis by (simp add: renewed_documents_def Let_def)
next
  case False
  then have "renewed_documents ty p now docs = jset (ty @ ''_valid_until'') (JStr (isoformat (rnw_until p)))
      (jset ty (JObj (renewed_entry p now (jget ty docs))) docs)"
    by (auto simp: renewed_documents_def Let_def)
  then show ?thesis using parse_isoformat [OF assms(1)]
    by (simp add: document_valid_until_def jget_jset renewed_entry_date jor_def Let_def)
qed

text \<open>The other documents keep their dates, unless their names are built from one another.\<close>

definition unrelated :: "string \<Rightarrow> string \<Rightarrow> bool" where
  "unrelated ty other \<longleftrightarrow> list_all (\<lambda>k. k \<noteq> ty \<and> k \<noteq> ty @ ''_valid_until'')
     [other, other @ ''_valid_until'', other @ ''_expires_at'', other @ ''_expiry'']"

lemma renewed_key: "k \<noteq> ty \<Longrightarrow> k \<noteq> ty @ ''_valid_until'' \<Longrightarrow> jget k (renewed_documents ty p now docs) = jget k docs"
  by (simp add: renewed_documents_def jget_jset Let_def)

lemma renewed_documents_other:
  assumes "unrelated ty other"
  shows "document_valid_until (renewed_documents ty p now docs) other = document_valid_until docs other"
proof -
  have j: "jget k (renewed_documents ty p now docs) = jget k docs"
    if "k \<in> set [other, other @ ''_valid_until'', other @ ''_expires_at'', other @ ''_expiry'']" for k
    using that assms by (intro renewed_key) (auto simp: unrelated_def)
  have "jget other (renewed_documents ty p now docs) = jget other docs"
    "jget (other @ ''_valid_until'') (renewed_documents ty p now docs) = jget (other @ ''_valid_until'') docs"
    "jget (other @ ''_expires_at'') (renewed_documents ty p now docs) = jget (other @ ''_expires_at'') docs"
    "jget (other @ ''_expiry'') (renewed_documents ty p now docs) = jget (other @ ''_expiry'') docs"
    by (rule j; simp)+
  then show ?thesis by (simp add: document_valid_until_def cong: option.case_cong)
qed

text \<open>The documents a vehicle must have do not depend on their dates.\<close>

lemma renewed_required:
  assumes "ty \<notin> {''required_documents'', ''compliance_required''}"
    and "ty @ ''_valid_until'' \<notin> {''required_documents'', ''compliance_required''}"
  shows "vehicle_required (v\<lparr>veh_documents := Some (renewed_documents ty p now (or_else (veh_documents v) []))\<rparr>) policy
    = vehicle_required v policy"
proof -
  have j: "jget k (renewed_documents ty p now docs) = jget k docs" if "k \<in> {''required_documents'', ''compliance_required''}"
    for k docs using that assms by (intro renewed_key) auto
  show ?thesis by (simp add: vehicle_required_def j Let_def)
qed

lemma valid_until_suffix: "ty @ ''_valid_until'' \<notin> {''required_documents'', ''compliance_required''}"
proof -
  have "last (ty @ ''_valid_until'') = CHR ''l''" by simp
  then show ?thesis by (auto dest!: arg_cong [where f = last])
qed

text \<open>The document a violation is about.\<close>

fun violation_document :: "violation \<Rightarrow> string" where
  "violation_document (Missing ty) = ty"
| "violation_document (Expired ty u) = ty"

lemma map_filter_but_one:
  assumes "\<And>x. x \<noteq> y \<Longrightarrow> x \<in> set xs \<Longrightarrow> g x = f x" and "g y = None"
    and "\<And>x z. f x = Some z \<Longrightarrow> P z \<longleftrightarrow> x \<noteq> y"
  shows "List.map_filter g xs = filter P (List.map_filter f xs)"
  using assms(1)
proof (induction xs)
  case (Cons x xs)
  then have "List.map_filter g xs = filter P (List.map_filter f xs)" by simp
  with Cons.prems [of x] assms(2,3) show ?case
    by (cases "x = y"; cases "f x") (auto simp: List.map_filter_simps)
qed (simp add: List.map_filter_simps)

text \<open>The entry of the document and its date are already noted as the renewal would write them.\<close>

definition noted :: "string \<Rightarrow> renewal \<Rightarrow> (string \<times> json) list \<Rightarrow> bool" where
  "noted ty p docs \<longleftrightarrow> in_place ty docs \<and> jget (ty @ ''_valid_until'') docs = JStr (isoformat (rnw_until p))"

lemma renewed_violations:
  assumes "python_day (rnw_until p)" and "ty \<notin> {''required_documents'', ''compliance_required''}" and "today \<le> rnw_until p"
    and "\<forall>other\<in>set (vehicle_required v policy). other \<noteq> ty \<longrightarrow> unrelated ty other"
    and "noted ty p (or_else (veh_documents v) []) \<Longrightarrow> document_valid_until (or_else (veh_documents v) []) ty = Some (rnw_until p)"
  shows "vehicle_compliance_violations (v\<lparr>veh_documents := Some (renewed_documents ty p now (or_else (veh_documents v) []))\<rparr>) policy today
    = filter (\<lambda>x. violation_document x \<noteq> ty) (vehicle_compliance_violations v policy today)"
proof -
  let ?docs = "or_else (veh_documents v) []"
  let ?f = "\<lambda>docs x. case document_valid_until docs x of None \<Rightarrow> Some (Missing x)
      | Some until \<Rightarrow> if until < today then Some (Expired x until) else None"
  have "List.map_filter (?f (renewed_documents ty p now ?docs)) (vehicle_required v policy)
    = filter (\<lambda>x. violation_document x \<noteq> ty) (List.map_filter (?f ?docs) (vehicle_required v policy))"
  proof (rule map_filter_but_one)
    show "?f (renewed_documents ty p now ?docs) x = ?f ?docs x" if "x \<noteq> ty" "x \<in> set (vehicle_required v policy)" for x
      using that assms(4) by (simp add: renewed_documents_other)
    show "?f (renewed_documents ty p now ?docs) ty = None"
      using renewed_documents_date [OF assms(1), of ty ?docs now] assms(3,5) by (simp add: noted_def)
    show "violation_document z \<noteq> ty \<longleftrightarrow> x \<noteq> ty" if "?f ?docs x = Some z" for x z
      using that by (auto split: option.splits if_splits)
  qed
  then show ?thesis
    using renewed_required [OF assms(2) valid_until_suffix, where v = v and policy = policy]
    by (simp add: vehicle_compliance_violations_def)
qed

lemma compliant_vehicle_passes:
  assumes "owned veh_id veh_tenant tn i (vehicles d) = Some v" and "veh_ownership v = ''fleet''" and "veh_status v = ''active''"
    and "vehicle_compliance_violations v (tenant_policy tn d) (date_of now) = []"
    and "active_work_order tn i d = None" and "vehicle_conflict tn i None d = None"
  shows "require_vehicle_available tn i None now d = Inr v"
  using assms by (simp add: require_vehicle_Inr vehicle_compliance_blocked_def)

text \<open>C31: renewing a document with a date not in the past clears exactly the violation of that document: its date is the
  new one, every document whose name is not built from its name keeps its date, and the violations of the vehicle are those before without
  its own, in the same order. So a fleet vehicle that was blocked for this document alone passes the guard of an
  assignment again. The exception is a document whose entry already carries this date: then nothing is written, and if
  the entry contradicts its own date the violation stays.\<close>

theorem renewal_frees_vehicle:
  assumes "renew_vehicle_document tn i ty p a now (d, fs) = Inr (v', d', fs')"
    and "require_vehicle tn i d = Inr v" and "keys_unique veh_id (vehicles d)"
    and "date_of now \<le> rnw_until p" and "python_day (rnw_until p)"
    and "ty \<notin> {''required_documents'', ''compliance_required''}"
    and "\<forall>other\<in>set (vehicle_required v (tenant_policy tn d)). other \<noteq> ty \<longrightarrow> unrelated ty other"
  shows "if noted ty p (or_else (veh_documents v) [])
        \<and> document_valid_until (or_else (veh_documents v) []) ty \<noteq> Some (rnw_until p)
      then v' = v \<and> vehicles d' = vehicles d
      else document_valid_until (or_else (veh_documents v') []) ty = Some (rnw_until p)
        \<and> (\<forall>other. unrelated ty other
             \<longrightarrow> document_valid_until (or_else (veh_documents v') []) other = document_valid_until (or_else (veh_documents v) []) other)
        \<and> vehicle_compliance_violations v' (tenant_policy tn d') (date_of now)
            = filter (\<lambda>x. violation_document x \<noteq> ty) (vehicle_compliance_violations v (tenant_policy tn d) (date_of now))
        \<and> (veh_ownership v = ''fleet'' \<and> veh_status v = ''active'' \<and> active_work_order tn i d = None \<and> vehicle_conflict tn i None d = None
             \<and> (\<forall>x\<in>set (vehicle_compliance_violations v (tenant_policy tn d) (date_of now)). violation_document x = ty)
           \<longrightarrow> require_vehicle_available tn i None now d' = Inr v')"
proof -
  let ?docs = "or_else (veh_documents v) []"
  let ?new = "renewed_documents ty p now ?docs"
  have v': "v' = (if ?new = ?docs then v else v\<lparr>veh_documents := Some ?new\<rparr>)"
    and d': "vehicles d' = tput veh_id v' (vehicles d)" "trips d' = trips d" "work_orders d' = work_orders d"
      "tenants d' = tenants d"
    using assms(1,2) by (auto simp: renew_vehicle_document_def rbind_Inr put_vehicle_def Let_def)
  have docs': "or_else (veh_documents v') [] = ?new" by (auto simp: v')
  have policy: "tenant_policy tn d' = tenant_policy tn d" by (simp add: tenant_policy_def d'(4))
  have own: "owned veh_id veh_tenant tn i (vehicles d) = Some v"
    using assms(2) by (simp add: require_vehicle_def of_opt_Inr)
  show ?thesis
  proof (cases "noted ty p ?docs \<and> document_valid_until ?docs ty \<noteq> Some (rnw_until p)")
    case True
    then have "?new = ?docs" by (simp add: noted_def renewed_documents_def)
    with True v' d'(1) tput_self [OF assms(3) owned_mem [OF own]] show ?thesis by simp
  next
    case False
    then have date: "document_valid_until ?new ty = Some (rnw_until p)"
      using renewed_documents_date [OF assms(5), of ty ?docs now] by (auto simp: noted_def)
    have "vehicle_compliance_violations v' policy today
        = vehicle_compliance_violations (v\<lparr>veh_documents := Some ?new\<rparr>) policy today" for policy today
      using docs' renewed_required [OF assms(6) valid_until_suffix, where v = v and policy = policy and p = p and now = now]
      by (auto simp: v' vehicle_compliance_violations_def)
    with renewed_violations [OF assms(5,6,4,7), of now] False
    have viol: "vehicle_compliance_violations v' (tenant_policy tn d') (date_of now)
        = filter (\<lambda>x. violation_document x \<noteq> ty) (vehicle_compliance_violations v (tenant_policy tn d) (date_of now))"
      by (auto simp: policy)
    have "require_vehicle_available tn i None now d' = Inr v'"
      if h: "veh_ownership v = ''fleet''" "veh_status v = ''active''" "active_work_order tn i d = None" "vehicle_conflict tn i None d = None"
        "\<forall>x\<in>set (vehicle_compliance_violations v (tenant_policy tn d) (date_of now)). violation_document x = ty"
    proof -
      have "owned veh_id veh_tenant tn i (vehicles d') = Some v'"
        using own by (auto simp: owned_Some d'(1) tget_tput v' dest: tget_key)
      moreover have "vehicle_compliance_violations v' (tenant_policy tn d') (date_of now) = []"
        using h(5) by (simp add: viol filter_empty_conv)
      moreover have "veh_ownership v' = ''fleet''" "veh_status v' = ''active''" using h(1,2) by (simp_all add: v')
      ultimately show ?thesis using h(3,4)
        by (intro compliant_vehicle_passes) (simp_all add: active_work_order_def vehicle_conflict_def d'(2,3))
    qed
    with False date viol show ?thesis
      by (auto simp: docs' renewed_documents_other)
  qed
qed

text \<open>a renewal to the date a document already has is reported and audited, but nothing of it is stored: the
  new reference, notes and file of the entry are lost.\<close>

theorem same_date_renewal_lost:
  assumes "renew_vehicle_document tn i ty p a now (d, fs) = Inr (v', d', fs')"
    and "require_vehicle tn i d = Inr v" and "keys_unique veh_id (vehicles d)"
    and "jget ty (or_else (veh_documents v) []) = JObj entry"
    and "jget (ty @ ''_valid_until'') (or_else (veh_documents v) []) = JStr (isoformat (rnw_until p))"
  shows "v' = v \<and> vehicles d' = vehicles d \<and> audits d' \<noteq> audits d"
proof -
  have "renewed_documents ty p now (or_else (veh_documents v) []) = or_else (veh_documents v) []"
    using assms(4,5) by (simp add: renewed_documents_def in_place_def)
  moreover have "v \<in> set (vehicles d)"
    using assms(2) by (auto simp: require_vehicle_def of_opt_Inr dest: owned_mem)
  ultimately show ?thesis using assms(1-3)
    by (auto simp: renew_vehicle_document_def rbind_Inr put_vehicle_def tput_self)
qed

text \<open>The entry of a driver's document is written by the first renewal only; its columns always.\<close>

lemma second_driver_renewal:
  assumes "renew_driver_document tn i ty p a now (d, fs) = Inr (r', d', fs')" and "require_driver tn i d = Inr r"
    and "jget ty (or_else (drv_documents r) []) = JObj entry"
  shows "drv_documents r' = drv_documents r
    \<and> (ty = ''driving_license'' \<longrightarrow> drv_license_until r' = Some (rnw_until p))
    \<and> (ty = ''passport'' \<longrightarrow> drv_passport_until r' = Some (rnw_until p))
    \<and> (ty = ''bi'' \<longrightarrow> drv_bi_until r' = Some (rnw_until p))"
  using assms by (auto simp: renew_driver_document_def rbind_Inr Let_def in_place_def renewed_driver_columns_def split: if_splits)

section \<open>A fleet of two\<close>

definition blocked_vehicle :: vehicle where
  "blocked_vehicle = sample_vehicle\<lparr>veh_documents := Some [(''required_documents'', JList [JStr ''insurance''])]\<rparr>"

definition retired_vehicle :: vehicle where
  "retired_vehicle = sample_vehicle\<lparr>veh_id := 4, veh_plate := ''BBB'', veh_status := ''retired''\<rparr>"

definition two_vehicles :: db where
  "two_vehicles = empty_db\<lparr>db_next := 10, tenants := [sample_tenant\<lparr>ten_max_vehicles := Some 1\<rparr>],
     vehicles := [blocked_vehicle, retired_vehicle]\<rparr>"

lemmas two_vehicles_defs = two_vehicles_def blocked_vehicle_def retired_vehicle_def sample_vehicle_def sample_tenant_def
  empty_db_def

definition until_100 :: renewal where
  "until_100 = \<lparr>rnw_until = 100, rnw_file = None, rnw_reference = Some ''P-1'', rnw_notes = None\<rparr>"

text \<open>
  One vehicle of a plan for one: a second registration is refused, the vehicle is retired, a registration passes but
  Redis fails to empty the cache, and so a further one passes too.
\<close>

definition plated :: "string \<Rightarrow> vehicle_input" where
  "plated s = \<lparr>vic_plate = s, vic_chassis = None, vic_brand = None, vic_model = None, vic_year = None, vic_color = None,
     vic_category = ''pesado'', vic_fuel_type = ''gasoleo'', vic_km = 0, vic_documents = None, vic_target = None,
     vic_fuel_limit = None, vic_ownership = ''fleet'', vic_customer = None\<rparr>"

definition retire :: vehicle_patch where
  "retire = \<lparr>vpt_plate = None, vpt_chassis = None, vpt_brand = None, vpt_model = None, vpt_year = None,
     vpt_color = None, vpt_category = None, vpt_status = Some (Some ''retired''), vpt_km = None, vpt_fuel_type = None,
     vpt_documents = None, vpt_target = None, vpt_fuel_limit = None, vpt_ownership = None, vpt_customer = None\<rparr>"

definition no_limits :: "limits option" where
  "no_limits = Some \<lparr>lim_vehicles = \<lambda>_. None, lim_drivers = \<lambda>_. None\<rparr>"

definition refused_third :: "(vehicle \<times> db) res \<times> limits option" where
  "refused_third = create_vehicle 1 (plated ''CCC'') None no_limits two_vehicles"

definition after_retiring :: db where
  "after_retiring = snd (projr (patch_vehicle 1 2 retire None two_vehicles))"

definition third :: "(vehicle \<times> db) res \<times> limits option" where
  "third = create_vehicle 1 (plated ''CCC'') None (invalidated True 1 (snd refused_third)) after_retiring"

definition fourth :: "(vehicle \<times> db) res \<times> limits option" where
  "fourth = create_vehicle 1 (plated ''DDD'') None (invalidated False 1 (snd third)) (snd (projr (fst third)))"

lemma plan_run_outcomes:
  "isl (fst refused_third)" "\<not> isl (patch_vehicle 1 2 retire None two_vehicles)" "\<not> isl (fst third)"
  "\<not> isl (fst fourth)" "vehicle_count 1 (snd (projr (fst fourth))) = 2"
  by code_simp+

lemma plan_run:
  "counted (vehicle_change 1) (two_vehicles, no_limits) 1 (snd (projr (fst fourth)), invalidate_limits 1 (snd fourth))"
proof -
  note more = counted.counted_more [where step = "vehicle_change 1"]
  obtain e where e: "create_vehicle 1 (plated ''CCC'') None no_limits two_vehicles = (Inl e, snd refused_third)"
    using plan_run_outcomes(1) by (metis isl_def prod.collapse refused_third_def)
  obtain v where v: "create_vehicle 1 (plated ''CCC'') None (invalidated True 1 (snd refused_third)) after_retiring
      = (Inr (v, snd (projr (fst third))), snd third)"
    using plan_run_outcomes(3) by (metis prod.collapse sum.collapse(2) third_def)
  obtain w where w: "create_vehicle 1 (plated ''DDD'') None (invalidated False 1 (snd third)) (snd (projr (fst third)))
      = (Inr (w, snd (projr (fst fourth))), snd fourth)"
    using plan_run_outcomes(4) by (metis prod.collapse sum.collapse(2) fourth_def)
  obtain u where u: "patch_vehicle 1 2 retire None two_vehicles = Inr (u, after_retiring)"
    using plan_run_outcomes(2) by (metis prod.collapse sum.collapse(2) after_retiring_def)
  have row: "require_vehicle 1 2 two_vehicles = Inr blocked_vehicle"
    by (simp add: two_vehicles_defs require_vehicle_def owned_def)
  have live: "\<not> revives retire blocked_vehicle" by (simp add: revives_def two_vehicles_defs)
  from more [OF more [OF more [OF more [OF counted.counted_none
      vehicle_refused [OF e]] vehicle_patched [where ok = True, OF row u]]
      vehicle_created [where ok = False, OF v]] vehicle_created [where ok = True, OF w]]
  show ?thesis by (simp add: invalidated_def live)
qed

lemma fleet_within_plan_witness:
  "counted (vehicle_change 1) (two_vehicles, no_limits) 1 (snd (projr (fst fourth)), invalidate_limits 1 (snd fourth))
    \<and> int (vehicle_count 1 (snd (projr (fst fourth)))) \<le> 1 + int 1 \<and> vehicle_count 1 (snd (projr (fst fourth))) = 2"
proof -
  have "int (vehicle_count 1 (snd (projr (fst fourth)))) \<le> 1 + int 1"
    by (rule fleet_within_plan [OF plan_run])
      (simp_all add: two_vehicles_defs vehicles_sound_def keys_unique_def below_def vehicle_hit_def vehicle_count_def
        vehicle_cap_def no_limits_def)
  with plan_run plan_run_outcomes(5) show ?thesis by blast
qed

lemma revival_ignores_plan_witness:
  "\<exists>p v' d'. patch_vehicle 1 4 p None two_vehicles = Inr (v', d') \<and> vehicle_count 1 d' = Suc (vehicle_count 1 two_vehicles)"
  by (rule revival_ignores_plan [where v = retired_vehicle])
    (simp_all add: two_vehicles_defs vehicle_checks_def require_vehicle_def owned_def keys_unique_def)

lemma renewal_frees_vehicle_witness:
  "\<exists>v' d' fs'. renew_vehicle_document 1 2 ''insurance'' until_100 None 0 (two_vehicles, []) = Inr (v', d', fs')
    \<and> isl (require_vehicle_available 1 2 None 0 two_vehicles) \<and> require_vehicle_available 1 2 None 0 d' = Inr v'"
proof -
  obtain v' d' fs' where r: "renew_vehicle_document 1 2 ''insurance'' until_100 None 0 (two_vehicles, []) = Inr (v', d', fs')"
    by (auto simp: renew_vehicle_document_def two_vehicles_defs require_vehicle_def owned_def attach_file_def until_100_def Let_def)
  have row: "require_vehicle 1 2 two_vehicles = Inr blocked_vehicle"
    by (simp add: two_vehicles_defs require_vehicle_def owned_def)
  have keys: "keys_unique veh_id (vehicles two_vehicles)" by (simp add: two_vehicles_defs keys_unique_def)
  have until: "date_of 0 \<le> rnw_until until_100" "python_day (rnw_until until_100)"
    by (simp_all add: until_100_def date_of_def python_day_def year_start_def leap_count_def)
  have ty: "''insurance'' \<notin> {''required_documents'', ''compliance_required''}" by simp
  have others: "\<forall>other\<in>set (vehicle_required blocked_vehicle (tenant_policy 1 two_vehicles)). other \<noteq> ''insurance'' \<longrightarrow> unrelated ''insurance'' other"
    by code_simp
  have v: "vehicle_compliance_violations blocked_vehicle (tenant_policy 1 two_vehicles) (date_of 0) = [Missing ''insurance'']"
    by code_simp
  have new: "\<not> noted ''insurance'' until_100 (or_else (veh_documents blocked_vehicle) [])"
    by (simp add: noted_def in_place_def two_vehicles_defs jget_def)
  have rest: "veh_ownership blocked_vehicle = ''fleet''" "veh_status blocked_vehicle = ''active''"
    "active_work_order 1 2 two_vehicles = None" "vehicle_conflict 1 2 None two_vehicles = None"
    by (simp_all add: two_vehicles_defs active_work_order_def vehicle_conflict_def)
  have "require_vehicle_available 1 2 None 0 d' = Inr v'"
    using renewal_frees_vehicle [OF r row keys until ty others] by (simp add: new rest v del: One_nat_def)
  moreover have "isl (require_vehicle_available 1 2 None 0 two_vehicles)" by code_simp
  ultimately show ?thesis using r by blast
qed

lemma same_date_renewal_lost_witness:
  "\<exists>v' d' fs'. renew_vehicle_document 1 2 ''iav'' until_100 None 0
      (two_vehicles\<lparr>vehicles := [blocked_vehicle\<lparr>veh_documents := Some [(''iav'', JObj []), (''iav_valid_until'', JStr (isoformat 100))]\<rparr>]\<rparr>, [])
    = Inr (v', d', fs') \<and> veh_documents v' = Some [(''iav'', JObj []), (''iav_valid_until'', JStr (isoformat 100))]"
proof -
  let ?v = "blocked_vehicle\<lparr>veh_documents := Some [(''iav'', JObj []), (''iav_valid_until'', JStr (isoformat 100))]\<rparr>"
  let ?d = "two_vehicles\<lparr>vehicles := [?v]\<rparr>"
  have row: "require_vehicle 1 2 ?d = Inr ?v" by (simp add: two_vehicles_defs require_vehicle_def owned_def)
  then obtain v' d' fs' where r: "renew_vehicle_document 1 2 ''iav'' until_100 None 0 (?d, []) = Inr (v', d', fs')"
    by (auto simp: renew_vehicle_document_def attach_file_def until_100_def Let_def)
  have "v' = ?v"
    by (rule conjunct1 [OF same_date_renewal_lost [OF r row, of "[]"]])
      (simp_all add: keys_unique_def jget_def until_100_def)
  with r show ?thesis by auto
qed

end
