(* ===== verification/Vehicle_History.thy ===== *)
theory Vehicle_History
  imports Rows "HOL-Library.Product_Lexorder"
begin

text \<open>
  The history of a vehicle, page by page (\<^verbatim>\<open>get_vehicle_history\<close> of \<^verbatim>\<open>vehicles/service.py\<close>). The rows of the
  six tables, joined by \<^verbatim>\<open>UNION ALL\<close> in the shape the query gives them, are an argument. A cursor is what decodes from its text:
  a text that does not decode is none. References are compared as the identifiers they print.
\<close>

section \<open>The query\<close>

record history_row =
  hst_type :: string
  hst_tenant :: id
  hst_vehicle :: id
  hst_date :: timestamp
  hst_title :: "string option"
  hst_description :: "string option"
  hst_ref :: id
  hst_odometer :: "int option"

definition history_types :: "string list" where
  "history_types = [''maintenance_request'', ''work_order'', ''fuel'', ''checklist'', ''incident'', ''schedule'']"

definition active_types :: "string list option \<Rightarrow> string list" where
  "active_types types = (case types of
     None \<Rightarrow> history_types
   | Some ts \<Rightarrow> if ts = [] then history_types else filter (\<lambda>t. t \<in> set ts) history_types)"

record history_query =
  hq_tenant :: id
  hq_vehicle :: id
  hq_from :: "timestamp option"
  hq_to :: "timestamp option"
  hq_types :: "string list option"

definition in_query :: "history_query \<Rightarrow> history_row \<Rightarrow> bool" where
  "in_query q r \<longleftrightarrow> hst_type r \<in> set (active_types (hq_types q)) \<and> hst_tenant r = hq_tenant q \<and> hst_vehicle r = hq_vehicle q
     \<and> (case hq_from q of None \<Rightarrow> True | Some t \<Rightarrow> t \<le> hst_date r)
     \<and> (case hq_to q of None \<Rightarrow> True | Some t \<Rightarrow> hst_date r \<le> t)"

definition before_cursor :: "(timestamp \<times> id) option \<Rightarrow> history_row \<Rightarrow> bool" where
  "before_cursor c r \<longleftrightarrow> (case c of None \<Rightarrow> True
     | Some (t, i) \<Rightarrow> hst_date r < t \<or> hst_date r = t \<and> hst_ref r < i)"

definition newest_first :: "history_row \<Rightarrow> int \<times> int" where
  "newest_first r = (- hst_date r, - int (hst_ref r))"

text \<open>A page is its events, the cursor of the next page and the number of rows counted.\<close>

definition get_vehicle_history ::
  "history_query \<Rightarrow> (timestamp \<times> id) option \<Rightarrow> nat \<Rightarrow> history_row list
    \<Rightarrow> history_row list \<times> (timestamp \<times> id) option \<times> nat" where
  "get_vehicle_history q cursor limit rs =
     (if active_types (hq_types q) = [] then ([], None, 0)
      else
        (let found = filter (\<lambda>r. in_query q r \<and> before_cursor cursor r) rs;
             rows = take (limit + 1) (sort_key newest_first found);
             events = take limit rows
         in (events,
             if limit < length rows \<and> events \<noteq> [] then Some (hst_date (last events), hst_ref (last events)) else None,
             length found)))"

section \<open>Turning the pages\<close>

lemma before_cursor_key: "before_cursor (Some (hst_date x, hst_ref x)) r \<longleftrightarrow> newest_first x < newest_first r"
  by (auto simp: before_cursor_def newest_first_def)

text \<open>The rows of the query from a cursor on, newest first, and the page that begins there.\<close>

definition rows_from :: "history_query \<Rightarrow> history_row list \<Rightarrow> (timestamp \<times> id) option \<Rightarrow> history_row list" where
  "rows_from q rs c = filter (before_cursor c) (sort_key newest_first (filter (in_query q) rs))"

lemma rows_from_sort: "sort_key newest_first (filter (\<lambda>r. in_query q r \<and> before_cursor c r) rs) = rows_from q rs c"
  by (simp add: rows_from_def filter_sort filter_filter conj_commute)

lemma no_rows: "active_types (hq_types q) = [] \<Longrightarrow> rows_from q rs c = []"
  by (simp add: rows_from_def in_query_def)

lemma page_is:
  "get_vehicle_history q c limit rs =
     (let rest = rows_from q rs c
      in (take limit rest,
          if limit < length rest \<and> 0 < limit
          then Some (hst_date (rest ! (limit - 1)), hst_ref (rest ! (limit - 1))) else None,
          length rest))"
proof (cases "active_types (hq_types q) = []")
  case True
  then show ?thesis by (simp add: get_vehicle_history_def no_rows Let_def)
next
  case False
  have "length (filter (\<lambda>r. in_query q r \<and> before_cursor c r) rs) = length (rows_from q rs c)"
    by (metis length_sort rows_from_sort)
  moreover have "last (take limit xs) = xs ! (limit - 1)" if "limit < length xs" "0 < limit" for xs :: "history_row list"
    using that by (cases limit) (simp_all add: take_Suc_conv_app_nth)
  ultimately show ?thesis using False
    by (auto simp: get_vehicle_history_def rows_from_sort Let_def min_def)
qed

lemma rows_from_trans:
  assumes "x \<in> set (rows_from q rs c)"
  shows "rows_from q rs (Some (hst_date x, hst_ref x)) = filter (\<lambda>r. newest_first x < newest_first r) (rows_from q rs c)"
proof -
  have "before_cursor c x" using assms by (simp add: rows_from_def)
  then have "newest_first x < newest_first r \<Longrightarrow> before_cursor c r" for r
    by (auto simp: before_cursor_def newest_first_def split: option.splits)
  then show ?thesis by (auto simp: rows_from_def before_cursor_key intro!: filter_cong)
qed

text \<open>A client that follows the cursors.\<close>

function history_pages :: "history_query \<Rightarrow> nat \<Rightarrow> history_row list \<Rightarrow> (timestamp \<times> id) option \<Rightarrow> history_row list list" where
  "history_pages q limit rs c =
     (case fst (snd (get_vehicle_history q c limit rs)) of
        None \<Rightarrow> [fst (get_vehicle_history q c limit rs)]
      | Some c' \<Rightarrow> fst (get_vehicle_history q c limit rs) # history_pages q limit rs (Some c'))"
  by pat_completeness auto
termination
proof (relation "measure (\<lambda>(q, limit, rs, c). length (rows_from q rs c))")
  fix q :: history_query and limit rs c c'
  assume a: "fst (snd (get_vehicle_history q c limit rs)) = Some c'"
  let ?x = "rows_from q rs c ! (limit - 1)"
  from a have c': "c' = (hst_date ?x, hst_ref ?x)" "limit < length (rows_from q rs c)" "0 < limit"
    by (auto simp: page_is Let_def split: if_splits)
  then have x: "?x \<in> set (rows_from q rs c)" by simp
  have "length (filter (\<lambda>r. newest_first ?x < newest_first r) (rows_from q rs c)) < length (rows_from q rs c)"
    using x by (intro length_filter_less) auto
  then have "length (rows_from q rs (Some c')) < length (rows_from q rs c)" by (simp only: c'(1) rows_from_trans [OF x])
  then show "((q, limit, rs, Some c'), q, limit, rs, c) \<in> measure (\<lambda>(q, limit, rs, c). length (rows_from q rs c))" by simp
qed simp

declare history_pages.simps [simp del]

lemma strictly_sorted:
  assumes "distinct (map newest_first xs)"
  shows "sorted_wrt (\<lambda>x y. newest_first x < newest_first y) (sort_key newest_first xs)"
proof -
  have "sorted (map newest_first (sort_key newest_first xs))" by (rule sorted_sort_key)
  moreover have "distinct (map newest_first (sort_key newest_first xs))" using assms by (simp add: distinct_map)
  ultimately have "sorted_wrt (<) (map newest_first (sort_key newest_first xs))" by (simp only: strict_sorted_iff simp_thms)
  then show ?thesis by (simp add: sorted_wrt_map)
qed

lemma filter_after:
  assumes "sorted_wrt (\<lambda>x y. newest_first x < newest_first y) xs" and "n < length xs"
  shows "filter (\<lambda>r. newest_first (xs ! n) < newest_first r) xs = drop (Suc n) xs"
proof -
  have s: "sorted_wrt (\<lambda>x y. newest_first x < newest_first y) (take (Suc n) xs @ drop (Suc n) xs)" using assms(1) by simp
  then have "newest_first x < newest_first y" if "x \<in> set (take (Suc n) xs)" "y \<in> set (drop (Suc n) xs)" for x y
    using that s unfolding sorted_wrt_append by blast
  moreover have n: "xs ! n \<in> set (take (Suc n) xs)" using assms(2) by (simp add: take_Suc_conv_app_nth)
  moreover have "\<not> newest_first (xs ! n) < newest_first x" if x: "x \<in> set (take (Suc n) xs)" for x
  proof -
    from x obtain i where "i < Suc n" "x = xs ! i" using assms(2) by (auto simp: in_set_conv_nth)
    with sorted_wrt_nth_less [OF assms(1), of i n] assms(2) show ?thesis by (cases "i = n") auto
  qed
  ultimately have "filter (\<lambda>r. newest_first (xs ! n) < newest_first r) (take (Suc n) xs @ drop (Suc n) xs) = drop (Suc n) xs"
    unfolding filter_append by (subst filter_False, blast, subst filter_True, blast, simp)
  then show ?thesis by simp
qed

lemma rows_from_strict:
  "distinct (map newest_first (filter (in_query q) rs))
    \<Longrightarrow> sorted_wrt (\<lambda>x y. newest_first x < newest_first y) (rows_from q rs c)"
  unfolding rows_from_def by (intro sorted_wrt_filter strictly_sorted)

lemma history_pages_nonempty: "history_pages q limit rs c \<noteq> []"
  by (subst history_pages.simps) (simp split: option.split)

text \<open>C32: paging through the history of a vehicle loses nothing and repeats nothing: the pages a client gets by
  following the cursors end, and put together they are the rows of the query, newest first; every page but
  the last is full.\<close>

theorem history_pages_complete:
  assumes "distinct (map newest_first (filter (in_query q) rs))" and "0 < limit"
  shows "concat (history_pages q limit rs None) = sort_key newest_first (filter (in_query q) rs)
    \<and> list_all (\<lambda>p. length p = limit) (butlast (history_pages q limit rs None))"
proof -
  have "concat (history_pages q limit rs c) = rows_from q rs c
      \<and> list_all (\<lambda>p. length p = limit) (butlast (history_pages q limit rs c))" for c
  proof (induction "length (rows_from q rs c)" arbitrary: c rule: less_induct)
    case less
    let ?R = "rows_from q rs c"
    show ?case
    proof (cases "limit < length ?R")
      case False
      then have "history_pages q limit rs c = [?R]" by (subst history_pages.simps) (simp add: page_is Let_def)
      then show ?thesis by simp
    next
      case True
      let ?x = "?R ! (limit - 1)" and ?c = "(hst_date (?R ! (limit - 1)), hst_ref (?R ! (limit - 1)))"
      have x: "?x \<in> set ?R" using True by (intro nth_mem) simp
      have "rows_from q rs (Some ?c) = drop limit ?R"
        using filter_after [OF rows_from_strict [OF assms(1)], of "limit - 1" c] True assms(2)
        unfolding rows_from_trans [OF x] by simp
      moreover have "history_pages q limit rs c = take limit ?R # history_pages q limit rs (Some ?c)"
        using True assms(2) by (subst history_pages.simps) (simp add: page_is Let_def)
      moreover have "length (drop limit ?R) < length ?R" using True assms(2) by simp
      ultimately show ?thesis using less [of "Some ?c"] True history_pages_nonempty [of q limit rs "Some ?c"] by simp
    qed
  qed
  from this [of None] show ?thesis by (simp add: rows_from_def before_cursor_def)
qed

text \<open>the number of rows reported with a page counts only the rows of the page and of those after it: it
  shrinks from page to page, although the response calls it the total.\<close>

theorem history_total_shrinks:
  assumes "get_vehicle_history q c limit rs = (evs, Some c', n)" and "get_vehicle_history q (Some c') limit rs = (evs', c'', n')"
    and "distinct (map newest_first (filter (in_query q) rs))"
  shows "n' = n - limit \<and> n' < n"
proof -
  let ?R = "rows_from q rs c"
  let ?x = "?R ! (limit - 1)"
  from assms(1) have c': "c' = (hst_date ?x, hst_ref ?x)" "limit < length ?R" "0 < limit" "n = length ?R"
    by (auto simp: page_is Let_def split: if_splits)
  then have x: "?x \<in> set ?R" by simp
  have "rows_from q rs (Some c') = drop limit ?R"
    using filter_after [OF rows_from_strict [OF assms(3)], of "limit - 1" c] c'(2,3)
    unfolding c'(1) rows_from_trans [OF x] by simp
  with assms(2) c' show ?thesis by (auto simp: page_is Let_def)
qed

section \<open>Three rows, two a page\<close>

definition three_rows :: "history_row list" where
  "three_rows = map (\<lambda>(i, t). \<lparr>hst_type = ''fuel'', hst_tenant = 1, hst_vehicle = 2, hst_date = t, hst_title = None,
     hst_description = None, hst_ref = i, hst_odometer = None\<rparr>) [(7, 10), (8, 30), (9, 10)]"

definition all_history :: history_query where
  "all_history = \<lparr>hq_tenant = 1, hq_vehicle = 2, hq_from = None, hq_to = None, hq_types = None\<rparr>"

theorem history_pages_complete_witness:
  "map hst_ref (concat (history_pages all_history 2 three_rows None)) = [8, 9, 7]
    \<and> list_all (\<lambda>p. length p = 2) (butlast (history_pages all_history 2 three_rows None))"
proof -
  have "distinct (map newest_first (filter (in_query all_history) three_rows))" by code_simp
  from history_pages_complete [OF this, of 2]
  have "concat (history_pages all_history 2 three_rows None) = sort_key newest_first (filter (in_query all_history) three_rows)"
    and "list_all (\<lambda>p. length p = 2) (butlast (history_pages all_history 2 three_rows None))" by simp_all
  moreover have "map hst_ref (sort_key newest_first (filter (in_query all_history) three_rows)) = [8, 9, 7]" by code_simp
  ultimately show ?thesis by simp
qed

theorem history_total_shrinks_witness:
  "snd (snd (get_vehicle_history all_history None 2 three_rows)) = 3
    \<and> snd (snd (get_vehicle_history all_history (Some (10, 9)) 2 three_rows)) = 1"
proof -
  have a: "get_vehicle_history all_history None 2 three_rows
      = (fst (get_vehicle_history all_history None 2 three_rows), Some (10, 9), 3)" by code_simp
  have b: "get_vehicle_history all_history (Some (10, 9)) 2 three_rows
      = (fst (get_vehicle_history all_history (Some (10, 9)) 2 three_rows),
         fst (snd (get_vehicle_history all_history (Some (10, 9)) 2 three_rows)),
         snd (snd (get_vehicle_history all_history (Some (10, 9)) 2 three_rows)))" by simp
  have "distinct (map newest_first (filter (in_query all_history) three_rows))" by code_simp
  from history_total_shrinks [OF a b this] show ?thesis by (subst a) simp
qed

end
