(* ===== verification/Parties.thy ===== *)
theory Parties
  imports Drivers
begin

text \<open>
  Suppliers, subcontractors and other third parties (\<^verbatim>\<open>third_party/service.py\<close>): their register, roles and
  profiles, the assignment of drivers to vehicles, documents to verify, contacts, the ledger of payments
  and the evaluations. The tables stand beside the database.
\<close>

section \<open>Rows\<close>

record third_party =
  tp_id :: id
  tp_tenant :: id
  tp_name :: string
  tp_trade_name :: "string option"
  tp_legal_type :: "string option"
  tp_nuit :: "string option"
  tp_email :: "string option"
  tp_phone :: "string option"
  tp_province :: "string option"
  tp_address :: "string option"
  tp_status :: string
  tp_verified :: bool
  tp_notes :: "string option"

record party_role =
  rol_id :: id
  rol_tenant :: id
  rol_party :: id
  rol_type :: string
  rol_active :: bool
  rol_certified_at :: "day option"
  rol_certification :: "string option"

record supplier_profile =
  spr_id :: id
  spr_tenant :: id
  spr_party :: id
  spr_terms :: "string option"
  spr_currency :: "string option"
  spr_credit_limit :: "dec option"
  spr_account :: "string option"
  spr_bank :: "string option"

record provider_profile =
  ppr_id :: id
  ppr_tenant :: id
  ppr_party :: id
  ppr_categories :: "string list option"
  ppr_provinces :: "string list option"
  ppr_response_hours :: "int option"
  ppr_rate :: "dec option"

record assignment =
  asg_id :: id
  asg_tenant :: id
  asg_driver :: id
  asg_vehicle :: id
  asg_type :: "string option"
  asg_at :: timestamp
  asg_until :: "timestamp option"
  asg_by :: "id option"
  asg_notes :: "string option"

record op_document =
  odc_id :: id
  odc_tenant :: id
  odc_subject_type :: string
  odc_subject :: id
  odc_type :: string
  odc_file :: "id option"
  odc_number :: "string option"
  odc_issued :: "day option"
  odc_expiry :: "day option"
  odc_authority :: "string option"
  odc_status :: string
  odc_verified_by :: "id option"
  odc_verified_at :: "timestamp option"
  odc_notes :: "string option"

record contact =
  cnc_id :: id
  cnc_tenant :: id
  cnc_party :: id
  cnc_name :: string
  cnc_role :: "string option"
  cnc_phone :: "string option"
  cnc_email :: "string option"
  cnc_primary :: bool

record ledger_entry =
  led_id :: id
  led_tenant :: id
  led_party :: id
  led_credit :: bool
  led_amount :: dec
  led_currency :: string
  led_source_type :: string
  led_source :: "id option"
  led_description :: "string option"
  led_date :: day

record criterion =
  cri_name :: "string option"
  cri_weight :: "dec option"
  cri_score :: "dec option"

record evaluation =
  evl_id :: id
  evl_tenant :: id
  evl_party :: id
  evl_by :: "id option"
  evl_date :: day
  evl_criteria :: "criterion list"
  evl_score :: dec
  evl_notes :: "string option"

record client_profile =
  cpr_id :: id
  cpr_tenant :: id
  cpr_party :: id
  cpr_terms_days :: int
  cpr_credit_limit :: "dec option"

record parties =
  pt_db :: db
  third_parties :: "third_party list"
  party_roles :: "party_role list"
  supplier_profiles :: "supplier_profile list"
  provider_profiles :: "provider_profile list"
  assignments :: "assignment list"
  op_documents :: "op_document list"
  contacts :: "contact list"
  ledger :: "ledger_entry list"
  evaluations :: "evaluation list"
  client_profiles :: "client_profile list"

definition paudit :: "id \<Rightarrow> id option \<Rightarrow> string \<Rightarrow> string \<Rightarrow> id \<Rightarrow> parties \<Rightarrow> parties" where
  "paudit tenant user action etype i s = s\<lparr>pt_db := record_audit_log tenant user action etype (Some i) (pt_db s)\<rparr>"

definition pfresh :: "parties \<Rightarrow> id \<times> parties" where
  "pfresh s = (let (i, d) = fresh_id (pt_db s) in (i, s\<lparr>pt_db := d\<rparr>))"

lemma pfresh_eq: "pfresh s = (db_next (pt_db s), s\<lparr>pt_db := (pt_db s)\<lparr>db_next := Suc (db_next (pt_db s))\<rparr>\<rparr>)"
  by (simp add: pfresh_def fresh_id_def)

section \<open>The register\<close>

definition require_third_party :: "id \<Rightarrow> id \<Rightarrow> parties \<Rightarrow> third_party res" where
  "require_third_party tenant i s =
     of_opt (ApiError ''third_party_not_found'' 404) (owned tp_id tp_tenant tenant i (third_parties s))"

definition nuit_exists :: "id \<Rightarrow> string \<Rightarrow> id option \<Rightarrow> parties \<Rightarrow> bool" where
  "nuit_exists tenant nuit except s =
     list_ex (\<lambda>t. tp_tenant t = tenant \<and> tp_nuit t = Some nuit \<and> Some (tp_id t) \<noteq> except) (third_parties s)"

text \<open>The unique constraint of the table; rows without a number are exempt.\<close>

definition nuits_unique :: "third_party list \<Rightarrow> bool" where
  "nuits_unique ts \<longleftrightarrow> distinct (map (\<lambda>t. (tp_tenant t, tp_nuit t)) (filter (\<lambda>t. tp_nuit t \<noteq> None) ts))"

record party_input =
  pin_name :: string
  pin_trade_name :: "string option"
  pin_legal_type :: "string option"
  pin_nuit :: "string option"
  pin_email :: "string option"
  pin_phone :: "string option"
  pin_province :: "string option"
  pin_address :: "string option"
  pin_status :: string
  pin_notes :: "string option"

definition create_third_party :: "id \<Rightarrow> party_input \<Rightarrow> id option \<Rightarrow> parties \<Rightarrow> (third_party \<times> parties) res" where
  "create_third_party tenant p actor s =
     (if (case pin_nuit p of Some n \<Rightarrow> n \<noteq> [] \<and> nuit_exists tenant n None s | None \<Rightarrow> False)
      then Inl (ApiError ''third_party_nuit_duplicate'' 409)
      else
        (let (i, s1) = pfresh s;
             t = \<lparr>tp_id = i, tp_tenant = tenant, tp_name = pin_name p, tp_trade_name = pin_trade_name p,
               tp_legal_type = pin_legal_type p, tp_nuit = pin_nuit p, tp_email = pin_email p, tp_phone = pin_phone p,
               tp_province = pin_province p, tp_address = pin_address p, tp_status = pin_status p,
               tp_verified = False, tp_notes = pin_notes p\<rparr>;
             ts = tadd t (third_parties s1)
         in if \<not> nuits_unique ts then Inl (PyError ''IntegrityError'')
            else Inr (t, paudit tenant actor ''third_party.created'' ''third_party'' i (s1\<lparr>third_parties := ts\<rparr>))))"

definition list_third_parties ::
  "id \<Rightarrow> string option \<Rightarrow> string option \<Rightarrow> string option \<Rightarrow> nat \<Rightarrow> nat \<Rightarrow> parties \<Rightarrow> third_party list" where
  "list_third_parties tenant st role name limit offset s =
     take limit (drop offset (sort_key tp_name (filter (\<lambda>t. tp_tenant t = tenant
       \<and> (st \<noteq> None \<longrightarrow> Some (tp_status t) = st)
       \<and> (case name of None \<Rightarrow> True | Some n \<Rightarrow> ilike n (tp_name t))
       \<and> (case role of None \<Rightarrow> True | Some ty \<Rightarrow> list_ex (\<lambda>r. rol_party r = tp_id t \<and> rol_tenant r = tenant
            \<and> rol_type r = ty \<and> rol_active r) (party_roles s))) (third_parties s))))"

record party_patch =
  ppt_name :: "string option option"
  ppt_trade_name :: "string option option"
  ppt_legal_type :: "string option option"
  ppt_nuit :: "string option option"
  ppt_email :: "string option option"
  ppt_phone :: "string option option"
  ppt_province :: "string option option"
  ppt_address :: "string option option"
  ppt_status :: "string option option"
  ppt_verified :: "bool option option"
  ppt_notes :: "string option option"

definition patched_party :: "party_patch \<Rightarrow> third_party \<Rightarrow> third_party" where
  "patched_party p t = t\<lparr>tp_name := keep (ppt_name p) (tp_name t),
     tp_trade_name := or_else (ppt_trade_name p) (tp_trade_name t),
     tp_legal_type := or_else (ppt_legal_type p) (tp_legal_type t), tp_nuit := or_else (ppt_nuit p) (tp_nuit t),
     tp_email := or_else (ppt_email p) (tp_email t), tp_phone := or_else (ppt_phone p) (tp_phone t),
     tp_province := or_else (ppt_province p) (tp_province t), tp_address := or_else (ppt_address p) (tp_address t),
     tp_status := keep (ppt_status p) (tp_status t), tp_verified := keep (ppt_verified p) (tp_verified t),
     tp_notes := or_else (ppt_notes p) (tp_notes t)\<rparr>"

definition update_third_party :: "id \<Rightarrow> id \<Rightarrow> party_patch \<Rightarrow> id option \<Rightarrow> parties \<Rightarrow> (third_party \<times> parties) res" where
  "update_third_party tenant i p actor s =
     rbind (require_third_party tenant i s) (\<lambda>t.
       if (case ppt_nuit p of
             Some (Some n) \<Rightarrow> n \<noteq> [] \<and> Some n \<noteq> tp_nuit t \<and> nuit_exists tenant n (Some i) s
           | _ \<Rightarrow> False)
       then Inl (ApiError ''third_party_nuit_duplicate'' 409)
       else if ppt_name p = Some None \<or> ppt_status p = Some None \<or> ppt_verified p = Some None
       then Inl (PyError ''IntegrityError'')
       else
         (let t' = patched_party p t; ts = tput tp_id t' (third_parties s)
          in if \<not> nuits_unique ts then Inl (PyError ''IntegrityError'')
             else Inr (t', paudit tenant actor ''third_party.updated'' ''third_party'' i (s\<lparr>third_parties := ts\<rparr>))))"

section \<open>Roles and profiles\<close>

definition role_types :: "string list" where
  "role_types = [''fuel_supplier'', ''spare_parts_supplier'', ''service_provider'', ''transport_subcontractor'']"

record role_input =
  rin_type :: string
  rin_active :: bool
  rin_certified_at :: "day option"
  rin_certification :: "string option"

definition create_role :: "id \<Rightarrow> id \<Rightarrow> role_input \<Rightarrow> id option \<Rightarrow> parties \<Rightarrow> (party_role \<times> parties) res" where
  "create_role tenant i p actor s =
     (if rin_type p \<notin> set role_types then Inl (ApiError ''invalid_role_type'' 422)
      else rbind (require_third_party tenant i s) (\<lambda>_.
        if list_ex (\<lambda>r. rol_party r = i \<and> rol_type r = rin_type p) (party_roles s)
        then Inl (ApiError ''role_already_assigned'' 409)
        else
          (let (j, s1) = pfresh s;
               r = \<lparr>rol_id = j, rol_tenant = tenant, rol_party = i, rol_type = rin_type p, rol_active = rin_active p,
                 rol_certified_at = rin_certified_at p, rol_certification = rin_certification p\<rparr>
           in Inr (r, paudit tenant actor ''third_party.role_assigned'' ''third_party_role'' j
                (s1\<lparr>party_roles := tadd r (party_roles s1)\<rparr>)))))"

definition list_roles :: "id \<Rightarrow> id \<Rightarrow> parties \<Rightarrow> party_role list res" where
  "list_roles tenant i s =
     rbind (require_third_party tenant i s) (\<lambda>_.
       Inr (sort_key rol_type (filter (\<lambda>r. rol_party r = i) (party_roles s))))"

text \<open>A profile is created with the defaults of the request, and patched with the fields it sets.\<close>

record supplier_profile_input =
  spi_terms :: "string option option"
  spi_currency :: "string option option"
  spi_credit_limit :: "dec option option"
  spi_account :: "string option option"
  spi_bank :: "string option option"

definition upsert_supplier_profile ::
  "id \<Rightarrow> id \<Rightarrow> supplier_profile_input \<Rightarrow> id option \<Rightarrow> parties \<Rightarrow> (supplier_profile \<times> parties) res" where
  "upsert_supplier_profile tenant i p actor s =
     rbind (require_third_party tenant i s) (\<lambda>_.
       let (x, s1) =
         (case List.find (\<lambda>x. spr_party x = i) (supplier_profiles s) of
            Some x \<Rightarrow>
              (let x' = x\<lparr>spr_terms := or_else (spi_terms p) (spr_terms x),
                     spr_currency := or_else (spi_currency p) (spr_currency x),
                     spr_credit_limit := map_option (column 2) (or_else (spi_credit_limit p) (spr_credit_limit x)),
                     spr_account := or_else (spi_account p) (spr_account x), spr_bank := or_else (spi_bank p) (spr_bank x)\<rparr>
               in (x', s\<lparr>supplier_profiles := tput spr_id x' (supplier_profiles s)\<rparr>))
          | None \<Rightarrow>
              (let (j, s1) = pfresh s;
                   x = \<lparr>spr_id = j, spr_tenant = tenant, spr_party = i, spr_terms = or_else (spi_terms p) None,
                     spr_currency = or_else (spi_currency p) (Some ''MZN''),
                     spr_credit_limit = map_option (column 2) (or_else (spi_credit_limit p) None),
                     spr_account = or_else (spi_account p) None, spr_bank = or_else (spi_bank p) None\<rparr>
               in (x, s1\<lparr>supplier_profiles := tadd x (supplier_profiles s1)\<rparr>)))
       in Inr (x, paudit tenant actor ''third_party.supplier_profile_updated'' ''supplier_profile'' (spr_id x) s1))"

record provider_profile_input =
  ppi_categories :: "string list option option"
  ppi_provinces :: "string list option option"
  ppi_response_hours :: "int option option"
  ppi_rate :: "dec option option"

definition upsert_service_provider_profile ::
  "id \<Rightarrow> id \<Rightarrow> provider_profile_input \<Rightarrow> id option \<Rightarrow> parties \<Rightarrow> (provider_profile \<times> parties) res" where
  "upsert_service_provider_profile tenant i p actor s =
     rbind (require_third_party tenant i s) (\<lambda>_.
       let (x, s1) =
         (case List.find (\<lambda>x. ppr_party x = i) (provider_profiles s) of
            Some x \<Rightarrow>
              (let x' = x\<lparr>ppr_categories := or_else (ppi_categories p) (ppr_categories x),
                     ppr_provinces := or_else (ppi_provinces p) (ppr_provinces x),
                     ppr_response_hours := or_else (ppi_response_hours p) (ppr_response_hours x),
                     ppr_rate := map_option (column 2) (or_else (ppi_rate p) (ppr_rate x))\<rparr>
               in (x', s\<lparr>provider_profiles := tput ppr_id x' (provider_profiles s)\<rparr>))
          | None \<Rightarrow>
              (let (j, s1) = pfresh s;
                   x = \<lparr>ppr_id = j, ppr_tenant = tenant, ppr_party = i, ppr_categories = or_else (ppi_categories p) None,
                     ppr_provinces = or_else (ppi_provinces p) None,
                     ppr_response_hours = or_else (ppi_response_hours p) None,
                     ppr_rate = map_option (column 2) (or_else (ppi_rate p) None)\<rparr>
               in (x, s1\<lparr>provider_profiles := tadd x (provider_profiles s1)\<rparr>)))
       in Inr (x, paudit tenant actor ''third_party.service_provider_profile_updated'' ''service_provider_profile''
            (ppr_id x) s1))"

end
