(* ===== verification/Suppliers.thy ===== *)
theory Suppliers
  imports Parties
begin

text \<open>
  The rest of \<^verbatim>\<open>third_party/service.py\<close>: the assignment of drivers to vehicles, documents to verify, the
  directory, contacts, and of a supplier the ledger of its payments and its evaluations. The lemmas show
  that a statement of account carries over to the next one, and that scores stay on their scale.
\<close>

section \<open>Drivers on vehicles\<close>

record assignment_input =
  ain_driver :: id
  ain_vehicle :: id
  ain_type :: "string option"
  ain_notes :: "string option"

definition assign_driver_to_vehicle ::
  "id \<Rightarrow> assignment_input \<Rightarrow> id option \<Rightarrow> timestamp \<Rightarrow> parties \<Rightarrow> (assignment \<times> parties) res" where
  "assign_driver_to_vehicle tenant p actor now s =
     rbind (require_driver tenant (ain_driver p) (pt_db s)) (\<lambda>_.
     rbind (require_vehicle tenant (ain_vehicle p) (pt_db s)) (\<lambda>_.
       let (i, s1) = pfresh s;
           a = \<lparr>asg_id = i, asg_tenant = tenant, asg_driver = ain_driver p, asg_vehicle = ain_vehicle p,
             asg_type = ain_type p, asg_at = now, asg_until = None, asg_by = actor, asg_notes = ain_notes p\<rparr>
       in Inr (a, paudit tenant actor ''driver_vehicle_assignment.created'' ''driver_vehicle_assignment'' i
            (s1\<lparr>assignments := tadd a (assignments s1)\<rparr>))))"

definition unassign_driver_from_vehicle ::
  "id \<Rightarrow> id \<Rightarrow> id option \<Rightarrow> timestamp \<Rightarrow> parties \<Rightarrow> (assignment \<times> parties) res" where
  "unassign_driver_from_vehicle tenant i actor now s =
     rbind (of_opt (ApiError ''assignment_not_found'' 404) (owned asg_id asg_tenant tenant i (assignments s))) (\<lambda>a.
       if asg_until a \<noteq> None then Inr (a, s)
       else
         (let a' = a\<lparr>asg_until := Some now\<rparr>
          in Inr (a', paudit tenant actor ''driver_vehicle_assignment.unassigned'' ''driver_vehicle_assignment'' i
               (s\<lparr>assignments := tput asg_id a' (assignments s)\<rparr>))))"

definition list_assignments ::
  "id \<Rightarrow> id option \<Rightarrow> id option \<Rightarrow> bool \<Rightarrow> nat \<Rightarrow> nat \<Rightarrow> parties \<Rightarrow> (assignment \<times> string option \<times> string option) list" where
  "list_assignments tenant driver vehicle current limit offset s =
     map (\<lambda>a. (a, map_option drv_name (tget drv_id (asg_driver a) (drivers (pt_db s))),
                map_option veh_plate (tget veh_id (asg_vehicle a) (vehicles (pt_db s)))))
       (take limit (drop offset (sort_key (\<lambda>a. - asg_at a) (filter (\<lambda>a. asg_tenant a = tenant
          \<and> (driver \<noteq> None \<longrightarrow> Some (asg_driver a) = driver)
          \<and> (vehicle \<noteq> None \<longrightarrow> Some (asg_vehicle a) = vehicle)
          \<and> (current \<longrightarrow> asg_until a = None)) (assignments s)))))"

section \<open>Documents to verify\<close>

definition subject_types :: "string list" where
  "subject_types = [''driver'', ''vehicle'', ''third_party'', ''client'', ''contract'']"

record document_input =
  odi_subject_type :: string
  odi_subject :: id
  odi_type :: string
  odi_file :: "id option"
  odi_number :: "string option"
  odi_issued :: "day option"
  odi_expiry :: "day option"
  odi_authority :: "string option"
  odi_notes :: "string option"

definition create_operational_document ::
  "id \<Rightarrow> document_input \<Rightarrow> id option \<Rightarrow> file_row list \<Rightarrow> parties \<Rightarrow> (op_document \<times> parties) res" where
  "create_operational_document tenant p actor fs s =
     (if odi_subject_type p \<notin> set subject_types then Inl (ApiError ''invalid_subject_type'' 422)
      else if (case odi_file p of None \<Rightarrow> False | Some f \<Rightarrow> owned fil_id fil_tenant tenant f fs = None)
      then Inl (ApiError ''file_not_found'' 404)
      else
        (let (i, s1) = pfresh s;
             x = \<lparr>odc_id = i, odc_tenant = tenant, odc_subject_type = odi_subject_type p, odc_subject = odi_subject p,
               odc_type = odi_type p, odc_file = odi_file p, odc_number = odi_number p, odc_issued = odi_issued p,
               odc_expiry = odi_expiry p, odc_authority = odi_authority p, odc_status = ''pending'',
               odc_verified_by = None, odc_verified_at = None, odc_notes = odi_notes p\<rparr>
         in Inr (x, paudit tenant actor ''operational_document.created'' ''operational_document'' i
              (s1\<lparr>op_documents := tadd x (op_documents s1)\<rparr>))))"

text \<open>Newest first: the rows stand in the order of their creation.\<close>

definition list_documents ::
  "id \<Rightarrow> string option \<Rightarrow> id option \<Rightarrow> string option \<Rightarrow> nat \<Rightarrow> nat \<Rightarrow> parties \<Rightarrow> op_document list" where
  "list_documents tenant stype subject st limit offset s =
     take limit (drop offset (rev (filter (\<lambda>x. odc_tenant x = tenant
       \<and> (truthy stype \<longrightarrow> Some (odc_subject_type x) = stype)
       \<and> (subject \<noteq> None \<longrightarrow> Some (odc_subject x) = subject)
       \<and> (truthy st \<longrightarrow> Some (odc_status x) = st)) (op_documents s))))"

text \<open>The schema lets only \<^verbatim>\<open>verified\<close> and \<^verbatim>\<open>rejected\<close> through; the service asks nothing of the document.\<close>

definition verify_document ::
  "id \<Rightarrow> id \<Rightarrow> bool \<Rightarrow> string option \<Rightarrow> id option \<Rightarrow> timestamp \<Rightarrow> parties \<Rightarrow> (op_document \<times> parties) res" where
  "verify_document tenant i accepted notes actor now s =
     rbind (of_opt (ApiError ''document_not_found'' 404) (owned odc_id odc_tenant tenant i (op_documents s))) (\<lambda>x.
       let x' = x\<lparr>odc_status := (if accepted then ''verified'' else ''rejected''), odc_verified_by := actor,
             odc_verified_at := Some now, odc_notes := (if truthy notes then notes else odc_notes x)\<rparr>
       in Inr (x', paudit tenant actor ''operational_document.verified'' ''operational_document'' i
            (s\<lparr>op_documents := tput odc_id x' (op_documents s)\<rparr>)))"

definition get_expiring_documents :: "id \<Rightarrow> int \<Rightarrow> day \<Rightarrow> parties \<Rightarrow> op_document list" where
  "get_expiring_documents tenant days today s =
     sort_key (\<lambda>x. or_else (odc_expiry x) 0) (filter (\<lambda>x. odc_tenant x = tenant
       \<and> (case odc_expiry x of None \<Rightarrow> False | Some e \<Rightarrow> today \<le> e \<and> e \<le> today + days)) (op_documents s))"

section \<open>The directory\<close>

record directory_entry =
  dir_subject :: id
  dir_type :: string
  dir_name :: string
  dir_status :: string

definition search_party_directory ::
  "id \<Rightarrow> string option \<Rightarrow> string list option \<Rightarrow> nat \<Rightarrow> nat \<Rightarrow> parties \<Rightarrow> directory_entry list" where
  "search_party_directory tenant q types limit offset s =
     (let all_types = (case types of None \<Rightarrow> [''driver'', ''client'', ''third_party'']
                         | Some [] \<Rightarrow> [''driver'', ''client'', ''third_party''] | Some ts \<Rightarrow> ts);
          named = (\<lambda>n. truthy q \<longrightarrow> ilike (or_else q []) n);
          ds = (if ''driver'' \<in> set all_types
                then map (\<lambda>r. \<lparr>dir_subject = drv_id r, dir_type = ''driver'', dir_name = drv_name r, dir_status = drv_status r\<rparr>)
                  (filter (\<lambda>r. drv_tenant r = tenant \<and> named (drv_name r)) (drivers (pt_db s))) else []);
          cs = (if ''client'' \<in> set all_types
                then map (\<lambda>c. \<lparr>dir_subject = cli_id c, dir_type = ''client'', dir_name = cli_trading_name c,
                    dir_status = (if cli_active c then ''true'' else ''false'')\<rparr>)
                  (filter (\<lambda>c. cli_tenant c = tenant \<and> named (cli_trading_name c)) (clients (pt_db s))) else []);
          ts = (if ''third_party'' \<in> set all_types
                then map (\<lambda>t. \<lparr>dir_subject = tp_id t, dir_type = ''third_party'', dir_name = tp_name t, dir_status = tp_status t\<rparr>)
                  (filter (\<lambda>t. tp_tenant t = tenant \<and> named (tp_name t)) (third_parties s)) else [])
      in take limit (drop offset (sort_key dir_name (ds @ cs @ ts))))"

section \<open>Contacts\<close>

record contact_input =
  cni_name :: string
  cni_role :: "string option"
  cni_phone :: "string option"
  cni_email :: "string option"
  cni_primary :: bool

definition create_contact :: "id \<Rightarrow> id \<Rightarrow> contact_input \<Rightarrow> id \<Rightarrow> parties \<Rightarrow> (contact \<times> parties) res" where
  "create_contact tenant i p actor s =
     rbind (require_third_party tenant i s) (\<lambda>t.
       let (j, s1) = pfresh s;
           c = \<lparr>cnc_id = j, cnc_tenant = tenant, cnc_party = tp_id t, cnc_name = cni_name p, cnc_role = cni_role p,
             cnc_phone = cni_phone p, cnc_email = cni_email p, cnc_primary = cni_primary p\<rparr>
       in Inr (c, paudit tenant (Some actor) ''third_party_contact.created'' ''third_party_contact'' j
            (s1\<lparr>contacts := tadd c (contacts s1)\<rparr>)))"

definition list_contacts :: "id \<Rightarrow> id \<Rightarrow> parties \<Rightarrow> contact list res" where
  "list_contacts tenant i s =
     rbind (require_third_party tenant i s) (\<lambda>_.
       Inr (sort_key (\<lambda>c. if cnc_primary c then 0 else (1::nat))
         (filter (\<lambda>c. cnc_tenant c = tenant \<and> cnc_party c = i) (contacts s))))"

definition delete_contact :: "id \<Rightarrow> id \<Rightarrow> id \<Rightarrow> id \<Rightarrow> parties \<Rightarrow> parties res" where
  "delete_contact tenant i j actor s =
     rbind (require_third_party tenant i s) (\<lambda>_.
       case List.find (\<lambda>c. cnc_id c = j \<and> cnc_tenant c = tenant \<and> cnc_party c = i) (contacts s) of
         None \<Rightarrow> Inl (ApiError ''contact_not_found'' 404)
       | Some _ \<Rightarrow> Inr (paudit tenant (Some actor) ''third_party_contact.deleted'' ''third_party_contact'' j
           (s\<lparr>contacts := filter (\<lambda>c. cnc_id c \<noteq> j) (contacts s)\<rparr>)))"

section \<open>The account of a supplier\<close>

definition ledger_of :: "id \<Rightarrow> id \<Rightarrow> parties \<Rightarrow> ledger_entry list" where
  "ledger_of tenant i s = filter (\<lambda>e. led_tenant e = tenant \<and> led_party e = i) (ledger s)"

definition credits :: "ledger_entry list \<Rightarrow> dec" where
  "credits es = sum_list (map led_amount (filter led_credit es))"

definition debits :: "ledger_entry list \<Rightarrow> dec" where
  "debits es = sum_list (map led_amount (filter (\<lambda>e. \<not> led_credit e) es))"

definition in_period :: "day option \<Rightarrow> day option \<Rightarrow> ledger_entry \<Rightarrow> bool" where
  "in_period from to e \<longleftrightarrow> (case from of None \<Rightarrow> True | Some f \<Rightarrow> f \<le> led_date e)
     \<and> (case to of None \<Rightarrow> True | Some t \<Rightarrow> led_date e \<le> t)"

text \<open>Totals per currency; the scalar fields of the answer are those of the metical.\<close>

record currency_total =
  cut_credits :: dec
  cut_debits :: dec
  cut_balance :: dec

record supplier_account =
  sac_opening :: "dec option"
  sac_total :: currency_total
  sac_balances :: "string \<Rightarrow> currency_total option"
  sac_entries :: "ledger_entry list"

definition total_of :: "ledger_entry list \<Rightarrow> currency_total" where
  "total_of es = \<lparr>cut_credits = credits es, cut_debits = debits es, cut_balance = credits es - debits es\<rparr>"

definition currency_rows :: "string \<Rightarrow> ledger_entry list \<Rightarrow> ledger_entry list" where
  "currency_rows c = filter (\<lambda>e. led_currency e = c)"

definition get_supplier_account ::
  "id \<Rightarrow> id \<Rightarrow> day option \<Rightarrow> day option \<Rightarrow> parties \<Rightarrow> supplier_account res" where
  "get_supplier_account tenant i from to s =
     rbind (require_third_party tenant i s) (\<lambda>_.
       let rows = ledger_of tenant i s;
           opening = map_option (\<lambda>f. cut_balance (total_of (filter (\<lambda>e. led_date e < f) (currency_rows ''MZN'' rows)))) from;
           period = filter (in_period from to) rows;
           balances = (\<lambda>c. if currency_rows c period = [] then None else Some (total_of (currency_rows c period)))
       in Inr \<lparr>sac_opening = opening,
            sac_total = or_else (balances ''MZN'') \<lparr>cut_credits = 0, cut_debits = 0, cut_balance = 0\<rparr>,
            sac_balances = balances, sac_entries = take 500 (sort_key led_date period)\<rparr>)"

record payment_input =
  pyi_amount :: dec
  pyi_currency :: string
  pyi_date :: "day option"
  pyi_description :: "string option"
  pyi_purchase :: "id option"
  pyi_work_order :: "id option"

definition currencies :: "string list" where
  "currencies = [''MZN'', ''USD'', ''ZAR'', ''EUR'']"

definition payment_source :: "payment_input \<Rightarrow> string \<times> id option" where
  "payment_source p =
     (case pyi_purchase p of
        Some i \<Rightarrow> (''fuel_purchase'', Some i)
      | None \<Rightarrow> (case pyi_work_order p of Some i \<Rightarrow> (''work_order'', Some i) | None \<Rightarrow> (''manual_payment'', None)))"

definition create_supplier_payment ::
  "id \<Rightarrow> id \<Rightarrow> payment_input \<Rightarrow> id \<Rightarrow> day \<Rightarrow> parties \<Rightarrow> (ledger_entry \<times> parties) res" where
  "create_supplier_payment tenant i p actor today s =
     (if pyi_currency p \<notin> set currencies then Inl (PyError ''ValueError'')
      else rbind (require_third_party tenant i s) (\<lambda>_.
        let (j, s1) = pfresh s;
            e = \<lparr>led_id = j, led_tenant = tenant, led_party = i, led_credit = True, led_amount = column 2 (pyi_amount p),
              led_currency = pyi_currency p, led_source_type = fst (payment_source p), led_source = snd (payment_source p),
              led_description = pyi_description p, led_date = or_else (pyi_date p) today\<rparr>
        in if led_amount e \<le> 0 then Inl (PyError ''IntegrityError'')
           else Inr (e, paudit tenant (Some actor) ''supplier_payment.created'' ''supplier_ledger_entry'' j
             (s1\<lparr>ledger := tadd e (ledger s1)\<rparr>))))"

section \<open>Evaluations\<close>

text \<open>The criteria are plain dictionaries: a weight or a score that is missing is a \<^verbatim>\<open>KeyError\<close>, and so is a
  missing name when the message of an error needs it.\<close>

definition criterion_error :: "criterion \<Rightarrow> string \<Rightarrow> err" where
  "criterion_error c code = (if cri_name c = None then PyError ''KeyError'' else ApiError code 422)"

fun check_criteria :: "criterion list \<Rightarrow> (dec \<times> dec) list res" where
  "check_criteria [] = Inr []"
| "check_criteria (c # cs) =
     (case cri_weight c of
        None \<Rightarrow> Inl (PyError ''KeyError'')
      | Some w \<Rightarrow>
          if \<not> (0 < w \<and> w \<le> 1) then Inl (criterion_error c ''invalid_criterion_weight'')
          else (case cri_score c of
            None \<Rightarrow> Inl (PyError ''KeyError'')
          | Some x \<Rightarrow>
              if \<not> (0 \<le> x \<and> x \<le> 10) then Inl (criterion_error c ''invalid_criterion_score'')
              else rbind (check_criteria cs) (\<lambda>ws. Inr ((w, x) # ws))))"

definition weighted :: "(dec \<times> dec) list \<Rightarrow> dec" where
  "weighted ws = sum_list (map (\<lambda>(w, x). w * x) ws)"

definition create_evaluation ::
  "id \<Rightarrow> id \<Rightarrow> criterion list \<Rightarrow> day option \<Rightarrow> string option \<Rightarrow> id \<Rightarrow> day \<Rightarrow> parties \<Rightarrow> (evaluation \<times> parties) res" where
  "create_evaluation tenant i cs date notes actor today s =
     rbind (require_third_party tenant i s) (\<lambda>_.
       if cs = [] then Inl (ApiError ''empty_criteria'' 422)
       else rbind (check_criteria cs) (\<lambda>ws.
         if \<bar>sum_list (map fst ws) - 1\<bar> > 1 / 100 then Inl (ApiError ''invalid_weights'' 422)
         else
           (let (j, s1) = pfresh s;
                x = \<lparr>evl_id = j, evl_tenant = tenant, evl_party = i, evl_by = Some actor, evl_date = or_else date today,
                  evl_criteria = cs, evl_score = q2 (weighted ws), evl_notes = notes\<rparr>
            in if \<not> (0 \<le> evl_score x \<and> evl_score x \<le> 10) then Inl (PyError ''IntegrityError'')
               else Inr (x, paudit tenant (Some actor) ''supplier_evaluation.created'' ''supplier_evaluation'' j
                 (s1\<lparr>evaluations := tadd x (evaluations s1)\<rparr>)))))"

definition list_evaluations :: "id \<Rightarrow> id \<Rightarrow> parties \<Rightarrow> (dec option \<times> evaluation list) res" where
  "list_evaluations tenant i s =
     rbind (require_third_party tenant i s) (\<lambda>_.
       let es = sort_key (\<lambda>e. - evl_date e) (filter (\<lambda>e. evl_tenant e = tenant \<and> evl_party e = i) (evaluations s))
       in Inr (if es = [] then None else Some (q2 (sum_list (map evl_score es) / of_nat (length es))), es))"

section \<open>Statements carry over\<close>

lemma split_sum:
  fixes f :: "'a \<Rightarrow> dec"
  assumes "\<And>e. e \<in> set es \<Longrightarrow> R e \<longleftrightarrow> (P e \<noteq> Q e)" and "\<And>e. e \<in> set es \<Longrightarrow> \<not> (P e \<and> Q e)"
  shows "sum_list (map f (filter R es)) = sum_list (map f (filter P es)) + sum_list (map f (filter Q es))"
  using assms by (induction es) (auto simp: algebra_simps)

lemma split_total:
  assumes "\<And>e. e \<in> set es \<Longrightarrow> R e \<longleftrightarrow> (P e \<noteq> Q e)" and "\<And>e. e \<in> set es \<Longrightarrow> \<not> (P e \<and> Q e)"
  shows "cut_balance (total_of (filter R es)) = cut_balance (total_of (filter P es)) + cut_balance (total_of (filter Q es))"
proof -
  have c: "sum_list (map led_amount (filter (\<lambda>e. led_credit e \<and> R e) es))
      = sum_list (map led_amount (filter (\<lambda>e. led_credit e \<and> P e) es)) + sum_list (map led_amount (filter (\<lambda>e. led_credit e \<and> Q e) es))"
    by (rule split_sum) (use assms in auto)
  have d: "sum_list (map led_amount (filter (\<lambda>e. \<not> led_credit e \<and> R e) es))
      = sum_list (map led_amount (filter (\<lambda>e. \<not> led_credit e \<and> P e) es)) + sum_list (map led_amount (filter (\<lambda>e. \<not> led_credit e \<and> Q e) es))"
    by (rule split_sum) (use assms in auto)
  show ?thesis using c d by (simp add: total_of_def credits_def debits_def conj_commute)
qed

lemma account_exists:
  "(\<exists>x. get_supplier_account tn i from to s = Inr x) \<longleftrightarrow> (\<exists>t. require_third_party tn i s = Inr t)"
  by (cases "require_third_party tn i s") (simp_all add: get_supplier_account_def Let_def)

lemma account_total:
  assumes "get_supplier_account tn i from to s = Inr x"
  shows "cut_balance (sac_total x) = cut_balance (total_of (filter (in_period from to) (currency_rows ''MZN'' (ledger_of tn i s))))"
proof -
  let ?m = "currency_rows ''MZN'' (filter (in_period from to) (ledger_of tn i s))"
  have "filter (in_period from to) (currency_rows ''MZN'' (ledger_of tn i s)) = ?m"
    by (simp add: currency_rows_def conj_commute)
  moreover have "cut_balance (sac_total x) = cut_balance (total_of ?m)"
    using assms by (cases "?m = []") (auto simp: get_supplier_account_def rbind_Inr Let_def total_of_def credits_def debits_def)
  ultimately show ?thesis by simp
qed

lemma account_opening:
  "get_supplier_account tn i (Some f) to s = Inr x \<Longrightarrow>
     sac_opening x = Some (cut_balance (total_of (filter (\<lambda>e. led_date e < f) (currency_rows ''MZN'' (ledger_of tn i s)))))"
  by (auto simp: get_supplier_account_def rbind_Inr Let_def)

text \<open>C33: statements of a supplier's account carry over: the opening balance of a statement is the opening balance
  of an earlier one plus the balance of the period up to the day before, whatever was entered and in
  whatever order.\<close>

theorem account_carries_over:
  assumes "get_supplier_account tn i (Some f) (Some (g - 1)) s = Inr x"
    and "get_supplier_account tn i (Some g) to s = Inr y" and "f \<le> g"
  shows "\<exists>opening. sac_opening x = Some opening \<and> sac_opening y = Some (opening + cut_balance (sac_total x))"
proof -
  let ?rows = "currency_rows ''MZN'' (ledger_of tn i s)"
  have "cut_balance (total_of (filter (\<lambda>e. led_date e < g) ?rows))
      = cut_balance (total_of (filter (\<lambda>e. led_date e < f) ?rows))
        + cut_balance (total_of (filter (in_period (Some f) (Some (g - 1))) ?rows))"
    by (rule split_total) (use assms(3) in \<open>auto simp: in_period_def\<close>)
  with account_opening [OF assms(1)] account_opening [OF assms(2)] account_total [OF assms(1)]
  show ?thesis by simp
qed

text \<open>a payment shows in the account of its supplier: in every period that contains its date the credits and the
  balance of its currency grow by the amount stored, and in no other period or currency anything changes.\<close>

theorem payment_reaches_account:
  assumes "create_supplier_payment tn i p u today s = Inr (e, s')"
    and "get_supplier_account tn i from to s = Inr x"
  shows "\<exists>y. get_supplier_account tn i from to s' = Inr y
    \<and> (if in_period from to e
       then sac_balances y = (sac_balances x)(led_currency e \<mapsto>
         (case sac_balances x (led_currency e) of
            None \<Rightarrow> \<lparr>cut_credits = led_amount e, cut_debits = 0, cut_balance = led_amount e\<rparr>
          | Some c \<Rightarrow> \<lparr>cut_credits = cut_credits c + led_amount e, cut_debits = cut_debits c,
                       cut_balance = cut_balance c + led_amount e\<rparr>))
       else sac_balances y = sac_balances x)"
proof -
  have s': "ledger s' = ledger s @ [e]" "third_parties s' = third_parties s"
    and e: "led_tenant e = tn" "led_party e = i" "led_credit e"
    using assms(1)
    by (auto simp: create_supplier_payment_def rbind_Inr pfresh_eq paudit_def Let_def tadd_def split: if_splits)
  have req: "require_third_party tn i s' = require_third_party tn i s" by (simp add: require_third_party_def s')
  then obtain y where y: "get_supplier_account tn i from to s' = Inr y"
    using assms(2) account_exists by metis
  let ?p = "\<lambda>t. filter (in_period from to) (ledger_of tn i t)"
  let ?b = "\<lambda>t c. if currency_rows c (?p t) = [] then None else Some (total_of (currency_rows c (?p t)))"
  have b: "sac_balances x = ?b s" "sac_balances y = ?b s'"
    using assms(2) y by (auto simp: get_supplier_account_def rbind_Inr Let_def)
  have p: "?p s' = ?p s @ (if in_period from to e then [e] else [])" by (simp add: ledger_of_def s' e)
  have "?b s' = (if in_period from to e then (?b s)(led_currency e \<mapsto> (case ?b s (led_currency e) of
        None \<Rightarrow> \<lparr>cut_credits = led_amount e, cut_debits = 0, cut_balance = led_amount e\<rparr>
      | Some c \<Rightarrow> \<lparr>cut_credits = cut_credits c + led_amount e, cut_debits = cut_debits c,
                   cut_balance = cut_balance c + led_amount e\<rparr>)) else ?b s)"
    unfolding p by (auto simp: fun_eq_iff currency_rows_def total_of_def credits_def debits_def e)
  with b y show ?thesis by auto
qed

section \<open>Scores\<close>

lemma mean_bounds:
  assumes "xs \<noteq> []" and "list_all (\<lambda>x. a \<le> x \<and> x \<le> b) xs"
  shows "a \<le> sum_list xs / of_nat (length xs) \<and> sum_list xs / of_nat (length xs) \<le> (b :: dec)"
proof -
  have "a * of_nat (length xs) \<le> sum_list xs \<and> sum_list xs \<le> b * of_nat (length xs)"
    using assms(2) by (induction xs) (auto simp: algebra_simps)
  with assms(1) show ?thesis by (simp add: field_simps)
qed

definition on_scale :: "parties \<Rightarrow> bool" where
  "on_scale s = list_all (\<lambda>e. 0 \<le> evl_score e \<and> evl_score e \<le> 10) (evaluations s)"

text \<open>scores stay on the scale from zero to ten: an evaluation that is stored keeps every score of the table on it,
  its weights are positive and sum to one within a hundredth, and so the average shown is on the scale.\<close>

theorem scores_on_scale:
  assumes "create_evaluation tn i cs date notes u today s = Inr (x, s')" and "on_scale s"
  shows "on_scale s' \<and> (\<exists>ws. check_criteria cs = Inr ws \<and> list_all (\<lambda>(w, p). 0 < w \<and> w \<le> 1 \<and> 0 \<le> p \<and> p \<le> 10) ws
      \<and> \<bar>sum_list (map fst ws) - 1\<bar> \<le> 1 / 100 \<and> \<bar>evl_score x - weighted ws\<bar> \<le> 1 / 200)
    \<and> (\<exists>m es. list_evaluations tn i s' = Inr (Some m, es) \<and> x \<in> set es \<and> 0 \<le> m \<and> m \<le> 10)"
proof -
  have ws: "check_criteria cs = Inr ws \<Longrightarrow> list_all (\<lambda>(w, p). 0 < w \<and> w \<le> 1 \<and> 0 \<le> p \<and> p \<le> 10) ws" for cs ws
    by (induction cs arbitrary: ws) (auto simp: rbind_Inr split: option.splits if_splits)
  obtain w where w: "check_criteria cs = Inr w" "\<bar>sum_list (map fst w) - 1\<bar> \<le> 1 / 100"
    and x: "evl_score x = q2 (weighted w)" "0 \<le> evl_score x" "evl_score x \<le> 10" "evl_tenant x = tn" "evl_party x = i"
    and s': "evaluations s' = evaluations s @ [x]" "third_parties s' = third_parties s"
    and r: "\<not> isl (require_third_party tn i s)"
    using assms(1)
    by (auto simp: create_evaluation_def rbind_Inr pfresh_eq paudit_def Let_def tadd_def split: if_splits)
  have scale: "on_scale s'" using assms(2) x by (simp add: on_scale_def s')
  define es where "es = sort_key (\<lambda>e. - evl_date e) (filter (\<lambda>e. evl_tenant e = tn \<and> evl_party e = i) (evaluations s'))"
  have mem: "x \<in> set es" by (simp add: es_def s' x)
  have "set es \<subseteq> set (evaluations s')" by (auto simp: es_def)
  with scale have "list_all (\<lambda>x. 0 \<le> x \<and> x \<le> 10) (map evl_score es)" by (auto simp: on_scale_def list_all_iff)
  moreover have "es \<noteq> []" using mem by auto
  ultimately have m: "0 \<le> sum_list (map evl_score es) / of_nat (length es)" "sum_list (map evl_score es) / of_nat (length es) \<le> 10"
    using mean_bounds [of "map evl_score es" 0 10] by simp_all
  have "require_third_party tn i s' = require_third_party tn i s" by (simp add: require_third_party_def s')
  with r have "list_evaluations tn i s' = Inr (Some (q2 (sum_list (map evl_score es) / of_nat (length es))), es)"
    using \<open>es \<noteq> []\<close>
    by (cases "require_third_party tn i s") (simp_all add: list_evaluations_def Let_def es_def [symmetric])
  moreover have "0 \<le> q2 (sum_list (map evl_score es) / of_nat (length es))" by (rule quantize_nonneg) (rule m(1))
  moreover have "q2 (sum_list (map evl_score es) / of_nat (length es)) \<le> 10"
    using quantize_mono [OF m(2), of 2] by simp
  moreover have "\<bar>evl_score x - weighted w\<bar> \<le> 1 / 200" using quantize_error [of 2 "weighted w"] x(1) by simp
  ultimately show ?thesis using scale w ws [OF w(1)] mem by blast
qed

section \<open>A supplier\<close>

definition supplier :: third_party where
  "supplier = \<lparr>tp_id = 5, tp_tenant = 1, tp_name = ''Oficina'', tp_trade_name = None, tp_legal_type = None,
     tp_nuit = Some ''400123456'', tp_email = None, tp_phone = None, tp_province = None, tp_address = None,
     tp_status = ''active'', tp_verified = True, tp_notes = None\<rparr>"

definition entry_at :: "id \<Rightarrow> bool \<Rightarrow> dec \<Rightarrow> day \<Rightarrow> ledger_entry" where
  "entry_at i cr a t = \<lparr>led_id = i, led_tenant = 1, led_party = 5, led_credit = cr, led_amount = a, led_currency = ''MZN'',
     led_source_type = ''manual_payment'', led_source = None, led_description = None, led_date = t\<rparr>"

definition supplier_state :: parties where
  "supplier_state = \<lparr>pt_db = empty_db, third_parties = [supplier], party_roles = [], supplier_profiles = [],
     provider_profiles = [], assignments = [], op_documents = [], contacts = [],
     ledger = [entry_at 6 True 100 10, entry_at 7 False 30 12, entry_at 8 True 5 20], evaluations = [], client_profiles = []\<rparr>"

lemmas supplier_defs = supplier_state_def supplier_def entry_at_def require_third_party_def of_opt_def owned_def
  tget_def rbind_def

lemma account_carries_over_witness:
  "\<exists>x y. get_supplier_account 1 5 (Some 11) (Some 19) supplier_state = Inr x
     \<and> get_supplier_account 1 5 (Some 20) None supplier_state = Inr y
     \<and> sac_opening x = Some 100 \<and> sac_opening y = Some 70"
proof -
  have "\<exists>t. require_third_party 1 5 supplier_state = Inr t" by (simp add: supplier_defs)
  then obtain x y where x: "get_supplier_account 1 5 (Some 11) (Some 19) supplier_state = Inr x"
    and y: "get_supplier_account 1 5 (Some 20) None supplier_state = Inr y"
    using account_exists by metis
  have "sac_opening x = Some 100" "cut_balance (sac_total x) = - 30"
    unfolding account_opening [OF x] account_total [OF x]
    by (simp_all add: currency_rows_def ledger_of_def supplier_defs total_of_def credits_def debits_def in_period_def)
  moreover have "\<exists>opening. sac_opening x = Some opening \<and> sac_opening y = Some (opening + cut_balance (sac_total x))"
    using account_carries_over [where f = 11 and g = 20 and x = x, OF _ y] x by simp
  ultimately show ?thesis using x y by auto
qed

definition small_payment :: payment_input where
  "small_payment = \<lparr>pyi_amount = 7, pyi_currency = ''USD'', pyi_date = Some 15, pyi_description = None,
     pyi_purchase = None, pyi_work_order = None\<rparr>"

lemma payment_reaches_account_witness:
  "\<exists>e s' y. create_supplier_payment 1 5 small_payment 9 40 supplier_state = Inr (e, s')
     \<and> get_supplier_account 1 5 (Some 11) (Some 19) s' = Inr y
     \<and> sac_balances y ''USD'' = Some \<lparr>cut_credits = 7, cut_debits = 0, cut_balance = 7\<rparr>"
proof -
  obtain e s' where c: "create_supplier_payment 1 5 small_payment 9 40 supplier_state = Inr (e, s')"
    and e: "led_currency e = ''USD''" "led_amount e = 7" "led_date e = 15"
    by (simp add: create_supplier_payment_def supplier_defs small_payment_def currencies_def pfresh_eq Let_def)
  have "\<exists>t. require_third_party 1 5 supplier_state = Inr t" by (simp add: supplier_defs)
  then obtain x where x: "get_supplier_account 1 5 (Some 11) (Some 19) supplier_state = Inr x"
    using account_exists by metis
  then have b: "sac_balances x ''USD'' = None"
    by (auto simp: get_supplier_account_def supplier_defs Let_def ledger_of_def currency_rows_def)
  have p: "in_period (Some 11) (Some 19) e" by (simp add: in_period_def e)
  from payment_reaches_account [OF c x] obtain y where "get_supplier_account 1 5 (Some 11) (Some 19) s' = Inr y"
    "sac_balances y ''USD'' = Some \<lparr>cut_credits = 7, cut_debits = 0, cut_balance = 7\<rparr>"
    using p b e by auto
  with c show ?thesis by blast
qed

definition two_criteria :: "criterion list" where
  "two_criteria = [\<lparr>cri_name = Some ''prazo'', cri_weight = Some (1 / 4), cri_score = Some 8\<rparr>,
     \<lparr>cri_name = Some ''preco'', cri_weight = Some (3 / 4), cri_score = Some 10\<rparr>]"

lemma scores_on_scale_witness:
  "\<exists>x s'. create_evaluation 1 5 two_criteria None None 9 40 supplier_state = Inr (x, s') \<and> on_scale s'
     \<and> \<bar>evl_score x - 19 / 2\<bar> \<le> 1 / 200"
proof -
  have w: "check_criteria two_criteria = Inr [(1 / 4, 8), (3 / 4, 10)]" by (simp add: two_criteria_def)
  have q: "q2 (19 / 2) \<le> q2 10" "0 \<le> q2 (19 / 2)" by (simp_all add: quantize_mono quantize_nonneg del: quantize_id)
  obtain x s' where c: "create_evaluation 1 5 two_criteria None None 9 40 supplier_state = Inr (x, s')"
    using q by (simp add: create_evaluation_def supplier_defs w [simplified two_criteria_def] two_criteria_def weighted_def pfresh_eq Let_def)
  have "on_scale supplier_state" by (simp add: on_scale_def supplier_state_def)
  from scores_on_scale [OF c this] c w show ?thesis by (auto simp: weighted_def)
qed

end
