(* ===== verification/Clients.thy ===== *)
theory Clients
  imports Suppliers Receivables
begin

text \<open>
  The register of clients (\<^verbatim>\<open>clients/service.py\<close>): a client is also a third party, found by its tax number or
  created with its role and profile; the balance of a client and its statement. The lemmas relate the two
  figures the service gives for what a client owes.
\<close>

section \<open>Registration\<close>

record client_input =
  cin_trading_name :: string
  cin_legal_name :: "string option"
  cin_nuit :: string
  cin_address :: "string option"
  cin_city :: "string option"
  cin_phone :: "string option"
  cin_email :: "string option"
  cin_type :: string
  cin_terms_days :: int
  cin_credit_limit :: "dec option"

definition require_client :: "id \<Rightarrow> id \<Rightarrow> db \<Rightarrow> client res" where
  "require_client tenant i d = of_opt (ApiError ''client_not_found'' 404) (owned cli_id cli_tenant tenant i (clients d))"

definition party_of_nuit :: "id \<Rightarrow> string \<Rightarrow> parties \<Rightarrow> third_party option" where
  "party_of_nuit tenant nuit s = List.find (\<lambda>t. tp_tenant t = tenant \<and> tp_nuit t = Some nuit) (third_parties s)"

text \<open>The third party of a client: the one with its tax number, or a new one.\<close>

definition find_or_create_party :: "id \<Rightarrow> client_input \<Rightarrow> parties \<Rightarrow> id \<times> parties" where
  "find_or_create_party tenant p s =
     (case party_of_nuit tenant (cin_nuit p) s of
        Some t \<Rightarrow> (tp_id t, s)
      | None \<Rightarrow>
          (let (i, s1) = pfresh s;
               t = \<lparr>tp_id = i, tp_tenant = tenant, tp_name = cin_trading_name p, tp_trade_name = None, tp_legal_type = None,
                 tp_nuit = Some (cin_nuit p), tp_email = None, tp_phone = None, tp_province = None, tp_address = None,
                 tp_status = ''active'', tp_verified = False, tp_notes = None\<rparr>
           in (i, s1\<lparr>third_parties := tadd t (third_parties s1)\<rparr>)))"

definition is_client_role :: "id \<Rightarrow> party_role \<Rightarrow> bool" where
  "is_client_role i r \<longleftrightarrow> rol_party r = i \<and> rol_type r = ''client''"

definition ensure_client_role :: "id \<Rightarrow> id \<Rightarrow> parties \<Rightarrow> parties" where
  "ensure_client_role tenant i s =
     (if list_ex (is_client_role i) (party_roles s) then s
      else (let (j, s1) = pfresh s
            in s1\<lparr>party_roles := tadd \<lparr>rol_id = j, rol_tenant = tenant, rol_party = i, rol_type = ''client'', rol_active = True,
                 rol_certified_at = None, rol_certification = None\<rparr> (party_roles s1)\<rparr>))"

definition ensure_client_profile :: "id \<Rightarrow> id \<Rightarrow> client_input \<Rightarrow> parties \<Rightarrow> parties" where
  "ensure_client_profile tenant i p s =
     (if list_ex (\<lambda>x. cpr_party x = i) (client_profiles s) then s
      else (let (j, s1) = pfresh s
            in s1\<lparr>client_profiles := tadd \<lparr>cpr_id = j, cpr_tenant = tenant, cpr_party = i, cpr_terms_days = cin_terms_days p,
                 cpr_credit_limit = map_option (column 2) (cin_credit_limit p)\<rparr> (client_profiles s1)\<rparr>))"

definition client_nuits_unique :: "client list \<Rightarrow> bool" where
  "client_nuits_unique cs \<longleftrightarrow> distinct (map (\<lambda>c. (cli_tenant c, cli_nuit c)) cs)"

definition new_client :: "id \<Rightarrow> id \<Rightarrow> id \<Rightarrow> client_input \<Rightarrow> client" where
  "new_client j tenant party p =
     \<lparr>cli_id = j, cli_tenant = tenant, cli_trading_name = cin_trading_name p, cli_nuit = cin_nuit p,
      cli_legal_name = cin_legal_name p, cli_address = cin_address p, cli_city = cin_city p, cli_phone = cin_phone p,
      cli_email = cin_email p, cli_terms_days = cin_terms_days p,
      cli_credit_limit = map_option (column 2) (cin_credit_limit p), cli_active = True,
      cli_third_party = Some party, cli_type = cin_type p\<rparr>"

definition create_client :: "id \<Rightarrow> client_input \<Rightarrow> parties \<Rightarrow> (client \<times> parties) res" where
  "create_client tenant p s =
     (let (i, s1) = find_or_create_party tenant p s;
          s2 = ensure_client_profile tenant i p (ensure_client_role tenant i s1);
          (j, s3) = pfresh s2;
          c = new_client j tenant i p;
          cs = tadd c (clients (pt_db s3))
      in if client_nuits_unique cs then Inr (c, s3\<lparr>pt_db := (pt_db s3)\<lparr>clients := cs\<rparr>\<rparr>)
         else Inl (ApiError ''nuit_already_exists'' 409))"

definition list_clients :: "id \<Rightarrow> nat \<Rightarrow> nat \<Rightarrow> db \<Rightarrow> client list" where
  "list_clients tenant limit offset d =
     take limit (drop offset (sort_key cli_trading_name (filter (\<lambda>c. cli_tenant c = tenant) (clients d))))"

record client_patch =
  cpt_trading_name :: "string option option"
  cpt_legal_name :: "string option option"
  cpt_address :: "string option option"
  cpt_city :: "string option option"
  cpt_phone :: "string option option"
  cpt_email :: "string option option"
  cpt_terms_days :: "int option option"
  cpt_credit_limit :: "dec option option"
  cpt_active :: "bool option option"

definition patched_client :: "client_patch \<Rightarrow> client \<Rightarrow> client" where
  "patched_client p c = c\<lparr>cli_trading_name := keep (cpt_trading_name p) (cli_trading_name c),
     cli_legal_name := or_else (cpt_legal_name p) (cli_legal_name c), cli_address := or_else (cpt_address p) (cli_address c),
     cli_city := or_else (cpt_city p) (cli_city c), cli_phone := or_else (cpt_phone p) (cli_phone c),
     cli_email := or_else (cpt_email p) (cli_email c), cli_terms_days := keep (cpt_terms_days p) (cli_terms_days c),
     cli_credit_limit := map_option (column 2) (or_else (cpt_credit_limit p) (cli_credit_limit c)),
     cli_active := keep (cpt_active p) (cli_active c)\<rparr>"

definition patch_client :: "id \<Rightarrow> id \<Rightarrow> client_patch \<Rightarrow> db \<Rightarrow> (client \<times> db) res" where
  "patch_client i tenant p d =
     rbind (require_client tenant i d) (\<lambda>c.
       if cpt_trading_name p = Some None \<or> cpt_terms_days p = Some None \<or> cpt_active p = Some None
       then Inl (PyError ''IntegrityError'')
       else (let c' = patched_client p c in Inr (c', d\<lparr>clients := tput cli_id c' (clients d)\<rparr>)))"

section \<open>What a client owes\<close>

definition unsettled :: "billing_doc \<Rightarrow> bool" where
  "unsettled b \<longleftrightarrow> bill_status b \<in> {D_issued, D_overdue}"

definition owed_gross :: "id \<Rightarrow> id \<Rightarrow> db \<Rightarrow> dec" where
  "owed_gross client tenant d =
     (\<Sum>b\<leftarrow>filter (\<lambda>b. bill_client b = Some client \<and> bill_tenant b = tenant \<and> unsettled b) (bills d). bill_total b)"

text \<open>The join of the allocations with their payments and documents.\<close>

definition owed_paid :: "id \<Rightarrow> id \<Rightarrow> db \<Rightarrow> dec" where
  "owed_paid client tenant d =
     (\<Sum>a\<leftarrow>filter (\<lambda>a.
          (case tget pay_id (alloc_payment a) (payments d) of
             None \<Rightarrow> False | Some p \<Rightarrow> pay_client p = client \<and> pay_tenant p = tenant \<and> pay_status p = K_confirmed)
          \<and> (case tget bill_id (alloc_doc a) (bills d) of None \<Rightarrow> False | Some b \<Rightarrow> unsettled b)) (allocations d).
        alloc_amount a)"

definition get_outstanding_balance :: "id \<Rightarrow> id \<Rightarrow> db \<Rightarrow> dec" where
  "get_outstanding_balance client tenant d = q2 (owed_gross client tenant d - owed_paid client tenant d)"

definition get_client_with_balance :: "id \<Rightarrow> id \<Rightarrow> db \<Rightarrow> (client \<times> dec) res" where
  "get_client_with_balance client tenant d =
     rbind (require_client tenant client d) (\<lambda>c. Inr (c, get_outstanding_balance client tenant d))"

record payment_row =
  pyr_payment :: payment
  pyr_allocated :: dec
  pyr_unallocated :: dec

record period_statement =
  pst_client :: client
  pst_documents :: "statement_row list"
  pst_payments :: "payment_row list"
  pst_invoiced :: dec
  pst_paid :: dec
  pst_outstanding :: dec
  pst_advance :: dec

definition payment_row_of :: "db \<Rightarrow> payment \<Rightarrow> payment_row" where
  "payment_row_of d p =
     (let allocated = q2 (applied (pay_id p) (allocations d))
      in \<lparr>pyr_payment = p, pyr_allocated = allocated, pyr_unallocated = q2 (pay_amount p - allocated)\<rparr>)"

definition period_documents :: "id \<Rightarrow> id \<Rightarrow> timestamp option \<Rightarrow> timestamp option \<Rightarrow> db \<Rightarrow> billing_doc list" where
  "period_documents client tenant from to d =
     rev (filter (\<lambda>b. bill_client b = Some client \<and> bill_tenant b = tenant
       \<and> (case from of None \<Rightarrow> True | Some t \<Rightarrow> t \<le> bill_period_start b)
       \<and> (case to of None \<Rightarrow> True | Some t \<Rightarrow> bill_period_end b \<le> t)) (bills d))"

definition client_period_statement ::
  "id \<Rightarrow> id \<Rightarrow> timestamp option \<Rightarrow> timestamp option \<Rightarrow> db \<Rightarrow> period_statement res" where
  "client_period_statement client tenant from to d =
     rbind (require_client tenant client d) (\<lambda>c.
       let rows = map (statement_row_of d) (period_documents client tenant from to d);
           ps = sort_key (\<lambda>p. - pay_value_date p)
             (filter (\<lambda>p. pay_client p = client \<and> pay_tenant p = tenant) (payments d));
           prs = map (payment_row_of d) ps;
           invoiced = (\<Sum>r\<leftarrow>rows. bill_total (str_bill r)); paid = (\<Sum>r\<leftarrow>rows. str_paid r)
       in Inr \<lparr>pst_client = c, pst_documents = rows, pst_payments = prs, pst_invoiced = invoiced, pst_paid = paid,
            pst_outstanding = q2 (invoiced - paid),
            pst_advance = (\<Sum>r\<leftarrow>filter (\<lambda>r. pay_status (pyr_payment r) = K_confirmed \<and> pay_doc (pyr_payment r) = None) prs.
              pyr_unallocated r)\<rparr>)"

section \<open>One third party per client\<close>

lemma party_found:
  assumes "party_of_nuit tn n s = Some t"
  shows "t \<in> set (third_parties s)" and "tp_tenant t = tn" and "tp_nuit t = Some n"
  using assms by (auto simp: party_of_nuit_def find_Some_iff)

lemma new_party_unique:
  assumes "party_of_nuit tn n s = None" and "nuits_unique (third_parties s)" and "tp_tenant t = tn" and "tp_nuit t = Some n"
  shows "nuits_unique (third_parties s @ [t])"
  using assms by (auto simp: nuits_unique_def party_of_nuit_def find_None_iff)

lemma find_or_create_spec:
  assumes "find_or_create_party tn p s = (i, s')" and "nuits_unique (third_parties s)"
  shows "(\<exists>t\<in>set (third_parties s'). tp_id t = i \<and> tp_tenant t = tn \<and> tp_nuit t = Some (cin_nuit p))
    \<and> nuits_unique (third_parties s') \<and> set (third_parties s) \<subseteq> set (third_parties s')
    \<and> (party_of_nuit tn (cin_nuit p) s \<noteq> None \<longrightarrow> third_parties s' = third_parties s)
    \<and> party_roles s' = party_roles s \<and> client_profiles s' = client_profiles s \<and> clients (pt_db s') = clients (pt_db s)"
proof (cases "party_of_nuit tn (cin_nuit p) s")
  case None
  with assms show ?thesis
    by (auto simp: find_or_create_party_def pfresh_eq Let_def tadd_def intro!: new_party_unique)
next
  case (Some t)
  with assms party_found [OF Some] show ?thesis by (auto simp: find_or_create_party_def)
qed

lemma one_role:
  assumes "length (filter (is_client_role i) (party_roles s)) \<le> 1"
  shows "length (filter (is_client_role i) (party_roles (ensure_client_role tn i s))) = 1"
proof (cases "list_ex (is_client_role i) (party_roles s)")
  case True
  then have "filter (is_client_role i) (party_roles s) \<noteq> []" by (auto simp: list_ex_iff filter_empty_conv)
  with True assms show ?thesis by (cases "filter (is_client_role i) (party_roles s)") (simp_all add: ensure_client_role_def)
next
  case False
  then have "filter (is_client_role i) (party_roles s) = []" by (auto simp: list_ex_iff filter_empty_conv)
  with False show ?thesis by (simp add: ensure_client_role_def pfresh_eq Let_def tadd_def is_client_role_def)
qed

lemma ensure_frames [simp]:
  "third_parties (ensure_client_role tn i s) = third_parties s"
  "clients (pt_db (ensure_client_role tn i s)) = clients (pt_db s)"
  "third_parties (ensure_client_profile tn i p s) = third_parties s"
  "party_roles (ensure_client_profile tn i p s) = party_roles s"
  "clients (pt_db (ensure_client_profile tn i p s)) = clients (pt_db s)"
  "list_ex (\<lambda>x. cpr_party x = i) (client_profiles (ensure_client_profile tn i p s))"
  by (simp_all add: ensure_client_role_def ensure_client_profile_def pfresh_eq Let_def tadd_def)

text \<open>C34: a client and its third party are one: registering a client finds the third party with its tax number, or
  creates it, keeps the numbers unique, gives it the client role exactly once and a profile, and loses nothing
  of a party that was there before; a second client with the same number is refused.\<close>

theorem client_shares_party:
  assumes "create_client tn p s = Inr (c, s')" and "nuits_unique (third_parties s)"
    and "\<forall>i. length (filter (is_client_role i) (party_roles s)) \<le> 1"
  shows "nuits_unique (third_parties s') \<and> set (third_parties s) \<subseteq> set (third_parties s')
    \<and> (\<exists>t\<in>set (third_parties s'). cli_third_party c = Some (tp_id t) \<and> tp_tenant t = tn \<and> tp_nuit t = Some (cli_nuit c)
         \<and> length (filter (is_client_role (tp_id t)) (party_roles s')) = 1
         \<and> list_ex (\<lambda>x. cpr_party x = tp_id t) (client_profiles s'))
    \<and> (cin_nuit p' = cin_nuit p \<longrightarrow> create_client tn p' s' = Inl (ApiError ''nuit_already_exists'' 409))"
proof -
  obtain i s1 where f: "find_or_create_party tn p s = (i, s1)" by (cases "find_or_create_party tn p s")
  note spec = find_or_create_spec [OF f assms(2)]
  let ?s2 = "ensure_client_profile tn i p (ensure_client_role tn i s1)"
  have s': "third_parties s' = third_parties s1" "party_roles s' = party_roles (ensure_client_role tn i s1)"
      "client_profiles s' = client_profiles ?s2" "clients (pt_db s') = clients (pt_db s1) @ [c]"
    and c: "cli_third_party c = Some i" "cli_nuit c = cin_nuit p" "cli_tenant c = tn"
    using assms(1) f by (auto simp: create_client_def pfresh_eq Let_def tadd_def new_client_def split: if_splits)
  have "nuits_unique (third_parties s')" using spec s' by simp
  then have "create_client tn p' s' = Inl (ApiError ''nuit_already_exists'' 409)" if "cin_nuit p' = cin_nuit p"
    using find_or_create_spec [of tn p' s'] s'(4) c that
    by (cases "find_or_create_party tn p' s'")
      (simp add: create_client_def pfresh_eq Let_def tadd_def new_client_def client_nuits_unique_def)
  moreover have "length (filter (is_client_role i) (party_roles s')) = 1"
    using one_role [of i s1 tn] assms(3) spec s' by simp
  moreover have "list_ex (\<lambda>x. cpr_party x = i) (client_profiles s')" by (simp add: s')
  ultimately show ?thesis using spec s' c by auto
qed

section \<open>The balance and the statement\<close>

text \<open>Payments settle documents of their own client, as the guards of the registration and of the advances require.\<close>

definition own_clients :: "db \<Rightarrow> bool" where
  "own_clients d \<longleftrightarrow> (\<forall>a\<in>set (allocations d). \<forall>p\<in>set (payments d). \<forall>b\<in>set (bills d).
     pay_id p = alloc_payment a \<and> bill_id b = alloc_doc a \<longrightarrow> bill_client b = Some (pay_client p))"

lemma allocation_parts:
  assumes "payments_ok d" and "own_clients d" and "a \<in> set (allocations d)"
  obtains q b where "tget pay_id (alloc_payment a) (payments d) = Some q" "tget bill_id (alloc_doc a) (bills d) = Some b"
    "b \<in> set (bills d)" "bill_id b = alloc_doc a" "bill_tenant b = pay_tenant q" "bill_client b = Some (pay_client q)"
proof -
  from assms(1,3) obtain q b where q: "q \<in> set (payments d)" "pay_id q = alloc_payment a" "pay_tenant q = alloc_tenant a"
    and b: "b \<in> set (bills d)" "bill_id b = alloc_doc a" "bill_tenant b = alloc_tenant a"
    unfolding payments_ok_def by blast
  have "keys_unique pay_id (payments d)" "keys_unique bill_id (bills d)" using assms(1) by (simp_all add: payments_ok_def)
  then have "tget pay_id (alloc_payment a) (payments d) = Some q" "tget bill_id (alloc_doc a) (bills d) = Some b"
    using keys_unique_get [of pay_id "payments d" q] keys_unique_get [of bill_id "bills d" b] q(1,2) b(1,2) by simp_all
  moreover have "bill_client b = Some (pay_client q)" using assms(2,3) q b by (simp add: own_clients_def)
  ultimately show thesis using that q b by simp
qed

lemma owed_paid_by_doc:
  assumes "payments_ok d" and "own_clients d"
    and "docs = filter (\<lambda>b. bill_client b = Some cl \<and> bill_tenant b = tn \<and> unsettled b) (bills d)"
  shows "owed_paid cl tn d = (\<Sum>b\<leftarrow>docs. paid_by_doc (payments d) (allocations d) (bill_id b))"
proof -
  have u: "keys_unique bill_id (bills d)" using assms(1) by (simp add: payments_ok_def)
  have dd: "distinct (map bill_id docs)" using u by (simp add: assms(3) keys_unique_def distinct_map_filter)
  show ?thesis unfolding owed_paid_def sum_paid_by_doc [OF dd]
  proof (rule arg_cong [where f = "\<lambda>xs. sum_list (map alloc_amount xs)"], rule filter_cong [OF refl])
    fix a assume "a \<in> set (allocations d)"
    then obtain q b where p: "tget pay_id (alloc_payment a) (payments d) = Some q" "tget bill_id (alloc_doc a) (bills d) = Some b"
      "b \<in> set (bills d)" "bill_id b = alloc_doc a" "bill_tenant b = pay_tenant q" "bill_client b = Some (pay_client q)"
      using allocation_parts assms(1,2) by metis
    have "y = b" if "y \<in> set docs" "bill_id y = alloc_doc a" for y
      using keys_unique_row [OF u _ p(3)] that p(4) by (simp add: assms(3))
    then have "alloc_doc a \<in> bill_id ` set docs \<longleftrightarrow> b \<in> set docs" using p(4) by (metis image_iff)
    with p show "((case tget pay_id (alloc_payment a) (payments d) of None \<Rightarrow> False
          | Some p \<Rightarrow> pay_client p = cl \<and> pay_tenant p = tn \<and> pay_status p = K_confirmed)
        \<and> (case tget bill_id (alloc_doc a) (bills d) of None \<Rightarrow> False | Some b \<Rightarrow> unsettled b))
      = (confirmed_row (payments d) a \<and> alloc_doc a \<in> bill_id ` set docs)"
      by (auto simp: confirmed_row_def assms(3))
  qed
qed

lemma statement_row_open:
  assumes "payments_ok d" and "b \<in> set (bills d)"
  shows "str_outstanding (statement_row_of d b) = bill_total b - paid_by_doc (payments d) (allocations d) (bill_id b)"
    and "str_paid (statement_row_of d b) = paid_by_doc (payments d) (allocations d) (bill_id b)"
    and "str_bill (statement_row_of d b) = b"
  using assms paid_by_doc_cents [of "allocations d" "payments d"]
  by (auto simp: statement_row_of_def Let_def has_digits_diff payments_ok_def bill_paid_ok_def)

lemma sum_list_map_cong: "(\<And>x. x \<in> set xs \<Longrightarrow> f x = g x) \<Longrightarrow> (\<Sum>x\<leftarrow>xs. f x) = (\<Sum>x\<leftarrow>xs. g x :: dec)"
  by (induction xs) auto

lemma sum_rows: "(\<Sum>r\<leftarrow>map g (rev xs). f r :: dec) = (\<Sum>x\<leftarrow>xs. f (g x))"
  by (induction xs) (simp_all add: add.commute)

lemma sum_list_split:
  fixes f :: "'a \<Rightarrow> dec"
  shows "(\<Sum>x\<leftarrow>xs. f x) = (\<Sum>x\<leftarrow>filter P xs. f x) + (\<Sum>x\<leftarrow>filter (\<lambda>x. \<not> P x) xs. f x)"
  by (induction xs) (auto simp: algebra_simps)

text \<open>C35: what a client owes, told twice: its balance is what is outstanding on the rows of its statement that are
  issued or overdue; the statement's own total adds what is outstanding on all the other documents, drafts
  and cancelled ones among them.\<close>

theorem balance_and_statement:
  assumes "payments_ok d" and "own_clients d" and "client_period_statement cl tn None None d = Inr x"
  shows "get_outstanding_balance cl tn d
      = (\<Sum>r\<leftarrow>filter (\<lambda>r. unsettled (str_bill r)) (pst_documents x). str_outstanding r)
    \<and> pst_outstanding x = get_outstanding_balance cl tn d
        + (\<Sum>r\<leftarrow>filter (\<lambda>r. \<not> unsettled (str_bill r)) (pst_documents x). str_outstanding r)"
proof -
  let ?mine = "filter (\<lambda>b. bill_client b = Some cl \<and> bill_tenant b = tn) (bills d)"
  let ?paid = "\<lambda>b. paid_by_doc (payments d) (allocations d) (bill_id b)"
  let ?open = "\<lambda>b. bill_total b - ?paid b"
  have x: "pst_documents x = map (statement_row_of d) (rev ?mine)"
    and tot: "pst_outstanding x = q2 ((\<Sum>r\<leftarrow>pst_documents x. bill_total (str_bill r)) - (\<Sum>r\<leftarrow>pst_documents x. str_paid r))"
    using assms(3) by (auto simp: client_period_statement_def rbind_Inr period_documents_def Let_def)
  note row = statement_row_open [OF assms(1)]
  have cents: "cents (?open b)" if "b \<in> set (bills d)" for b
    using assms(1) that paid_by_doc_cents [of "allocations d" "payments d"]
    by (auto simp: payments_ok_def bill_paid_ok_def has_digits_diff)
  have part: "(\<Sum>r\<leftarrow>filter (\<lambda>r. P (str_bill r)) (pst_documents x). str_outstanding r) = (\<Sum>b\<leftarrow>filter P ?mine. ?open b)" for P
  proof -
    have "filter (\<lambda>r. P (str_bill r)) (pst_documents x) = map (statement_row_of d) (rev (filter P ?mine))"
      unfolding x by (simp add: filter_map comp_def row(3) rev_filter statement_row_of_def Let_def)
    then show ?thesis by (simp only: sum_rows) (rule sum_list_map_cong, use row(1) in auto)
  qed
  have mine: "filter unsettled ?mine = filter (\<lambda>b. bill_client b = Some cl \<and> bill_tenant b = tn \<and> unsettled b) (bills d)"
    by (simp add: conj_ac)
  have bal: "get_outstanding_balance cl tn d = (\<Sum>b\<leftarrow>filter unsettled ?mine. ?open b)"
    unfolding get_outstanding_balance_def owed_gross_def owed_paid_by_doc [OF assms(1,2) refl] mine sum_list_diff [symmetric]
    by (intro quantize_id has_digits_sum_list) (use cents in auto)
  have "(\<Sum>r\<leftarrow>pst_documents x. bill_total (str_bill r) - str_paid r) = (\<Sum>b\<leftarrow>?mine. ?open b)"
    unfolding x sum_rows by (rule sum_list_map_cong) (use row(2,3) in auto)
  then have "(\<Sum>r\<leftarrow>pst_documents x. bill_total (str_bill r)) - (\<Sum>r\<leftarrow>pst_documents x. str_paid r) = (\<Sum>b\<leftarrow>?mine. ?open b)"
    by (simp only: sum_list_diff)
  moreover have "cents (\<Sum>b\<leftarrow>?mine. ?open b)" by (intro has_digits_sum_list) (use cents in auto)
  ultimately have "pst_outstanding x = (\<Sum>b\<leftarrow>?mine. ?open b)" by (simp add: tot)
  with bal part [of unsettled] part [of "\<lambda>b. \<not> unsettled b"] sum_list_split [of ?open ?mine unsettled]
  show ?thesis by simp
qed

lemma own_clients_allocate:
  assumes "allocate tn u pay b paid amount now d = Inr d'" and "own_clients d" and "b \<in> set (bills d)"
    and "keys_unique bill_id (bills d)" and "keys_unique pay_id (payments d)" and "pay \<in> set (payments d)"
    and "bill_client b = Some (pay_client pay)"
  shows "own_clients d'"
proof -
  from allocate_Inr [OF assms(1,3,4)] obtain a b' where a: "alloc_payment a = pay_id pay" "alloc_doc a = bill_id b"
    and d': "allocations d' = allocations d @ [a]" "payments d' = payments d" "bills d' = tput bill_id b' (bills d)"
    and b': "bill_id b' = bill_id b" "bill_client b' = bill_client b" by metis
  have row: "\<exists>y\<in>set (bills d). bill_id x = bill_id y \<and> bill_client x = bill_client y" if "x \<in> set (bills d')" for x
    using that b' assms(3) by (auto simp: d' tput_def split: if_splits)
  have "bill_client x = Some (pay_client p)"
    if r: "c \<in> set (allocations d')" "p \<in> set (payments d')" "x \<in> set (bills d')" "pay_id p = alloc_payment c" "bill_id x = alloc_doc c"
    for c p x
  proof -
    obtain y where y: "y \<in> set (bills d)" "bill_id x = bill_id y" "bill_client x = bill_client y" using row [OF r(3)] by blast
    show ?thesis
    proof (cases "c \<in> set (allocations d)")
      case True
      with assms(2) r y show ?thesis by (simp add: own_clients_def d')
    next
      case False
      with r(1) have c: "c = a" by (simp add: d')
      have "p = pay" using keys_unique_row [OF assms(5) _ assms(6)] r(2,4) a c by (simp add: d')
      moreover have "y = b" using keys_unique_row [OF assms(4) y(1) assms(3)] r(5) y(2) a c by simp
      ultimately show ?thesis using y(3) assms(7) by simp
    qed
  qed
  then show ?thesis by (simp add: own_clients_def)
qed

text \<open>The guard on the client of the document keeps it so.\<close>

lemma own_clients_register:
  assumes "register_payment tn u p now d = Inr (x, d')" and "payments_ok d" and "own_clients d"
  shows "own_clients d'"
proof -
  obtain target where t: "payment_target tn p d = Inr target"
    using assms(1) by (auto simp: register_payment_def rbind_Inr)
  let ?pay = "new_payment (db_next d) tn u p"
  let ?d = "d\<lparr>db_next := Suc (db_next d), payments := payments d @ [?pay]\<rparr>"
  have below: "below pay_id (db_next d) (payments d)" and u: "keys_unique pay_id (payments d)" "keys_unique bill_id (bills d)"
    and ex: "\<forall>a\<in>set (allocations d). \<exists>q\<in>set (payments d). pay_id q = alloc_payment a"
    using assms(2) unfolding payments_ok_def by blast+
  have own: "own_clients ?d"
    unfolding own_clients_def
  proof (intro ballI impI)
    fix a q b assume r: "a \<in> set (allocations ?d)" "q \<in> set (payments ?d)" "b \<in> set (bills ?d)"
      "pay_id q = alloc_payment a \<and> bill_id b = alloc_doc a"
    obtain q' where "q' \<in> set (payments d)" "pay_id q' = alloc_payment a" using ex r(1) by auto
    with below r(4) have "pay_id q < db_next d" by (auto simp: below_def list_all_iff)
    with r(2) have "q \<in> set (payments d)" by (auto simp: new_payment_def)
    with assms(3) r show "bill_client b = Some (pay_client q)" by (simp add: own_clients_def)
  qed
  show ?thesis
  proof (cases target)
    case None
    with assms(1) t own show ?thesis
      by (auto simp: register_payment_def rbind_Inr fresh_id_def Let_def tadd_def own_clients_def)
  next
    case (Some bp)
    obtain b paid where bp: "bp = (b, paid)" by (cases bp)
    have b: "b \<in> set (bills d)" "bill_client b = Some (pay_client ?pay)"
      using t Some bp by (auto simp: payment_target_def payable_doc_def rbind_Inr of_opt_Inr Let_def new_payment_def
          dest: owned_mem split: option.splits if_splits)
    obtain d3 where a: "allocate tn u ?pay b paid (kc_amount p) now ?d = Inr d3"
      and d': "payments d' = payments d3" "bills d' = bills d3" "allocations d' = allocations d3"
      using assms(1) t Some bp by (auto simp: register_payment_def rbind_Inr fresh_id_def Let_def tadd_def)
    have "own_clients d3"
      by (rule own_clients_allocate [OF a own])
        (use b u below in \<open>auto simp: keys_unique_def below_def list_all_iff new_payment_def\<close>)
    then show ?thesis by (simp add: own_clients_def d')
  qed
qed

section \<open>A client\<close>

definition client_form :: client_input where
  "client_form = \<lparr>cin_trading_name = ''Oficina'', cin_legal_name = None, cin_nuit = ''400123456'', cin_address = None,
     cin_city = None, cin_phone = None, cin_email = None, cin_type = ''organization'', cin_terms_days = 30,
     cin_credit_limit = None\<rparr>"

lemma client_shares_party_witness:
  "\<exists>c s'. create_client 1 client_form supplier_state = Inr (c, s') \<and> cli_third_party c = Some 5
     \<and> create_client 1 client_form s' = Inl (ApiError ''nuit_already_exists'' 409)"
proof -
  have "\<not> isl (create_client 1 client_form supplier_state)"
    "map_option cli_third_party (case create_client 1 client_form supplier_state of Inl _ \<Rightarrow> None | Inr (c, s) \<Rightarrow> Some c) = Some (Some 5)"
    by code_simp+
  then obtain c s' where c: "create_client 1 client_form supplier_state = Inr (c, s')" "cli_third_party c = Some 5"
    by (cases "create_client 1 client_form supplier_state") auto
  have "nuits_unique (third_parties supplier_state)" by code_simp
  moreover have "\<forall>i. length (filter (is_client_role i) (party_roles supplier_state)) \<le> 1" by (simp add: supplier_state_def)
  ultimately show ?thesis using client_shares_party [OF c(1), of client_form] c by blast
qed

lemma balance_and_statement_witness:
  "\<exists>x. client_period_statement 20 2 None None late_db = Inr x
     \<and> get_outstanding_balance 20 2 late_db = (\<Sum>r\<leftarrow>filter (\<lambda>r. unsettled (str_bill r)) (pst_documents x). str_outstanding r)
     \<and> length (pst_documents x) = 3"
proof -
  have "\<not> isl (client_period_statement 20 2 None None late_db)"
    "length (pst_documents (projr (client_period_statement 20 2 None None late_db))) = 3" by code_simp+
  then obtain x where x: "client_period_statement 20 2 None None late_db = Inr x" "length (pst_documents x) = 3"
    by (cases "client_period_statement 20 2 None None late_db") auto
  have "own_clients late_db" by (simp add: own_clients_def late_db_def empty_db_def)
  from balance_and_statement [OF late_db_ok this x(1)] x show ?thesis by blast
qed

end
