(* ===== verification/Field_Rows.thy ===== *)
theory Field_Rows
  imports Drivers
begin

text \<open>
  What the drivers report from the field: checklists (\<^verbatim>\<open>checklists/models.py\<close>) and fuel bought at
  stations (\<^verbatim>\<open>fuel/models.py\<close>). The tables stand beside the database; the queue of background jobs is
  the list of the vehicles whose maintenance is to be checked.
\<close>

record template =
  tpl_id :: id
  tpl_tenant :: id
  tpl_name :: string
  tpl_type :: string
  tpl_category :: "string option"
  tpl_active :: bool
  tpl_items :: "(string \<times> json) list list"

record checklist =
  chk_id :: id
  chk_tenant :: id
  chk_vehicle :: id
  chk_driver :: id
  chk_template :: id
  chk_type :: string
  chk_status :: string
  chk_responses :: "(string \<times> json) list"
  chk_location :: "(string \<times> json) list option"
  chk_accuracy :: "dec option"
  chk_gps_source :: "string option"
  chk_captured :: "timestamp option"
  chk_received :: timestamp
  chk_signature :: "id option"
  chk_started :: "timestamp option"
  chk_completed :: "timestamp option"
  chk_duration :: "int option"

record fuel_log =
  flg_id :: id
  flg_tenant :: id
  flg_vehicle :: id
  flg_driver :: id
  flg_date :: timestamp
  flg_station :: "string option"
  flg_location :: "(string \<times> json) list option"
  flg_fuel_type :: string
  flg_liters :: dec
  flg_price :: "dec option"
  flg_cost :: dec
  flg_km :: int
  flg_since :: "int option"
  flg_consumption :: "dec option"
  flg_receipt :: "id option"
  flg_odometer :: "id option"
  flg_method :: "string option"
  flg_reference :: "string option"
  flg_verified :: bool
  flg_verified_by :: "id option"
  flg_verified_at :: "timestamp option"
  flg_flagged :: bool
  flg_captured :: "timestamp option"
  flg_received :: timestamp

record field =
  fld_db :: db
  templates :: "template list"
  checklists :: "checklist list"
  fuel_logs :: "fuel_log list"
  maintenance_jobs :: "(id \<times> id \<times> int) list"

definition faudit :: "id \<Rightarrow> id option \<Rightarrow> string \<Rightarrow> string \<Rightarrow> id \<Rightarrow> field \<Rightarrow> field" where
  "faudit tenant user action etype i s = s\<lparr>fld_db := record_audit_log tenant user action etype (Some i) (fld_db s)\<rparr>"

definition ffresh :: "field \<Rightarrow> id \<times> field" where
  "ffresh s = (let (i, d) = fresh_id (fld_db s) in (i, s\<lparr>fld_db := d\<rparr>))"

lemma ffresh_eq: "ffresh s = (db_next (fld_db s), s\<lparr>fld_db := (fld_db s)\<lparr>db_next := Suc (db_next (fld_db s))\<rparr>\<rparr>)"
  by (simp add: ffresh_def fresh_id_def)

lemma faudit_frames [simp]:
  "templates (faudit tn u a e i s) = templates s" "checklists (faudit tn u a e i s) = checklists s"
  "fuel_logs (faudit tn u a e i s) = fuel_logs s" "maintenance_jobs (faudit tn u a e i s) = maintenance_jobs s"
  "vehicles (fld_db (faudit tn u a e i s)) = vehicles (fld_db s)"
  "drivers (fld_db (faudit tn u a e i s)) = drivers (fld_db s)"
  "exceptions (fld_db (faudit tn u a e i s)) = exceptions (fld_db s)"
  "db_next (fld_db (faudit tn u a e i s)) = db_next (fld_db s)"
  by (simp_all add: faudit_def)

text \<open>A vehicle and a driver a report may name.\<close>

definition reporting_vehicle :: "id \<Rightarrow> id \<Rightarrow> db \<Rightarrow> vehicle res" where
  "reporting_vehicle tenant i d =
     (case owned veh_id veh_tenant tenant i (vehicles d) of
        None \<Rightarrow> Inl (ApiError ''vehicle_not_found'' 404)
      | Some v \<Rightarrow> if veh_status v \<in> {''active'', ''maintenance''} then Inr v
                  else Inl (ApiError ''vehicle_not_found'' 404))"

definition reporting_driver :: "id \<Rightarrow> id \<Rightarrow> db \<Rightarrow> driver res" where
  "reporting_driver tenant i d =
     (case owned drv_id drv_tenant tenant i (drivers d) of
        None \<Rightarrow> Inl (ApiError ''driver_not_found'' 404)
      | Some r \<Rightarrow> if drv_status r = ''active'' then Inr r else Inl (ApiError ''driver_not_found'' 404))"

end
