(* ===== verification/Checklists.thy ===== *)
theory Checklists
  imports Field_Rows
begin

text \<open>
  Checklists (\<^verbatim>\<open>checklists/service.py\<close>): templates, the evaluation of the answers, completion with the
  exception a failed checklist raises, and its resolution. The lemmas show what a completed checklist
  guarantees, and that a patch goes around it.
\<close>

section \<open>Answers\<close>

fun response_value :: "json \<Rightarrow> json" where
  "response_value (JObj kv) =
     (if ''value'' \<in> set (map fst kv) then jget ''value'' kv
      else if ''status'' \<in> set (map fst kv) then jget ''status'' kv else JObj kv)"
| "response_value j = j"

definition failing_words :: "string list" where
  "failing_words = [''false'', ''fail'', ''failed'', ''nok'', ''missing'', ''em_falta'']"

definition is_failure :: "json \<Rightarrow> bool" where
  "is_failure r =
     (case response_value r of
        JNull \<Rightarrow> True
      | JBool b \<Rightarrow> \<not> b
      | JStr s \<Rightarrow> casefold s \<in> set failing_words
      | _ \<Rightarrow> False)"

fun has_photo :: "json \<Rightarrow> bool" where
  "has_photo (JObj kv) = list_ex (\<lambda>k. jtruthy (jget k kv)) [''photo_file_id'', ''photoFileId'', ''photo_url'', ''photoUrl'']"
| "has_photo _ = False"

record failure =
  fal_item :: json
  fal_label :: json
  fal_reason :: string

text \<open>A lookup by an item id that is a list or an object is a \<^verbatim>\<open>TypeError\<close>; a number never is a key.\<close>

fun response_of :: "json \<Rightarrow> (string \<times> json) list \<Rightarrow> json res" where
  "response_of (JStr s) rs = Inr (jget s rs)"
| "response_of (JList _) rs = Inl (PyError ''TypeError'')"
| "response_of (JObj _) rs = Inl (PyError ''TypeError'')"
| "response_of _ rs = Inr JNull"

definition item_failure :: "(string \<times> json) list \<Rightarrow> json \<Rightarrow> failure option" where
  "item_failure item r =
     (let f = (\<lambda>why. Some \<lparr>fal_item = jget ''id'' item, fal_label = jget ''label'' item, fal_reason = why\<rparr>)
      in if jtruthy (jget ''is_blocking'' item) \<and> is_failure r then f ''blocking_item_failed''
         else if jtruthy (jget ''requires_photo'' item) \<and> \<not> has_photo r then f ''required_photo_missing''
         else None)"

fun evaluate_blocking_failures :: "(string \<times> json) list list \<Rightarrow> (string \<times> json) list \<Rightarrow> failure list res" where
  "evaluate_blocking_failures [] rs = Inr []"
| "evaluate_blocking_failures (item # its) rs =
     (if \<not> jtruthy (jget ''id'' item) then evaluate_blocking_failures its rs
      else rbind (response_of (jget ''id'' item) rs) (\<lambda>r.
           rbind (evaluate_blocking_failures its rs) (\<lambda>fs.
             Inr (case item_failure item r of None \<Rightarrow> fs | Some f \<Rightarrow> f # fs))))"

section \<open>Templates\<close>

definition require_template :: "id \<Rightarrow> id \<Rightarrow> field \<Rightarrow> template res" where
  "require_template tenant i s =
     of_opt (ApiError ''checklist_template_not_found'' 404) (owned tpl_id tpl_tenant tenant i (templates s))"

definition require_checklist :: "id \<Rightarrow> id \<Rightarrow> field \<Rightarrow> checklist res" where
  "require_checklist tenant i s =
     of_opt (ApiError ''checklist_not_found'' 404) (owned chk_id chk_tenant tenant i (checklists s))"

definition list_templates :: "id \<Rightarrow> string option \<Rightarrow> bool option \<Rightarrow> field \<Rightarrow> template list" where
  "list_templates tenant ty active s =
     sort_key tpl_type (sort_key tpl_name (filter (\<lambda>t. tpl_tenant t = tenant
       \<and> (truthy ty \<longrightarrow> Some (tpl_type t) = ty) \<and> (active \<noteq> None \<longrightarrow> Some (tpl_active t) = active)) (templates s)))"

definition create_template ::
  "id \<Rightarrow> string \<Rightarrow> string \<Rightarrow> string option \<Rightarrow> (string \<times> json) list list \<Rightarrow> id option \<Rightarrow> field \<Rightarrow> template \<times> field" where
  "create_template tenant name ty category its actor s =
     (let (i, s1) = ffresh s;
          t = \<lparr>tpl_id = i, tpl_tenant = tenant, tpl_name = name, tpl_type = ty, tpl_category = category,
            tpl_active = True, tpl_items = its\<rparr>
      in (t, faudit tenant actor ''checklist_template.created'' ''checklist_template'' i
            (s1\<lparr>templates := tadd t (templates s1)\<rparr>)))"

section \<open>Checklists\<close>

record checklist_input =
  cki_vehicle :: id
  cki_driver :: id
  cki_template :: id
  cki_type :: string
  cki_responses :: "(string \<times> json) list"
  cki_location :: "(string \<times> json) list option"
  cki_accuracy :: "dec option"
  cki_gps_source :: "string option"
  cki_captured :: "timestamp option"
  cki_started :: "timestamp option"

definition list_checklists ::
  "id \<Rightarrow> string option \<Rightarrow> id option \<Rightarrow> id option \<Rightarrow> nat \<Rightarrow> nat \<Rightarrow> field \<Rightarrow> checklist list" where
  "list_checklists tenant st vehicle driver limit offset s =
     take limit (drop offset (rev (filter (\<lambda>c. chk_tenant c = tenant
       \<and> (truthy st \<longrightarrow> Some (chk_status c) = st) \<and> (vehicle \<noteq> None \<longrightarrow> Some (chk_vehicle c) = vehicle)
       \<and> (driver \<noteq> None \<longrightarrow> Some (chk_driver c) = driver)) (checklists s))))"

definition new_checklist :: "id \<Rightarrow> id \<Rightarrow> checklist_input \<Rightarrow> timestamp \<Rightarrow> checklist" where
  "new_checklist i tenant p now =
     \<lparr>chk_id = i, chk_tenant = tenant, chk_vehicle = cki_vehicle p, chk_driver = cki_driver p,
      chk_template = cki_template p, chk_type = cki_type p, chk_status = ''in_progress'',
      chk_responses = cki_responses p, chk_location = cki_location p,
      chk_accuracy = map_option (column 2) (cki_accuracy p), chk_gps_source = cki_gps_source p,
      chk_captured = cki_captured p, chk_received = now, chk_signature = None,
      chk_started = Some (or_else (cki_started p) (or_else (cki_captured p) now)),
      chk_completed = None, chk_duration = None\<rparr>"

definition create_checklist :: "id \<Rightarrow> checklist_input \<Rightarrow> id option \<Rightarrow> timestamp \<Rightarrow> field \<Rightarrow> (checklist \<times> field) res" where
  "create_checklist tenant p actor now s =
     rbind (require_template tenant (cki_template p) s) (\<lambda>t.
       if \<not> tpl_active t then Inl (ApiError ''checklist_template_inactive'' 409)
       else if tpl_type t \<noteq> cki_type p then Inl (ApiError ''checklist_type_mismatch'' 409)
       else rbind (reporting_vehicle tenant (cki_vehicle p) (fld_db s)) (\<lambda>_.
            rbind (reporting_driver tenant (cki_driver p) (fld_db s)) (\<lambda>_.
         let (i, s1) = ffresh s; c = new_checklist i tenant p now
         in Inr (c, faudit tenant actor ''checklist.created'' ''checklist'' i
              (s1\<lparr>checklists := tadd c (checklists s1)\<rparr>)))))"

definition closed_checklist :: "checklist \<Rightarrow> bool" where
  "closed_checklist c \<longleftrightarrow> chk_status c \<in> {''completed'', ''failed''}"

record checklist_patch =
  ckp_status :: "string option option"
  ckp_responses :: "(string \<times> json) list option option"
  ckp_location :: "(string \<times> json) list option option"
  ckp_accuracy :: "dec option option"
  ckp_gps_source :: "string option option"

definition patched_checklist :: "checklist_patch \<Rightarrow> checklist \<Rightarrow> checklist" where
  "patched_checklist p c = c\<lparr>chk_status := keep (ckp_status p) (chk_status c),
     chk_responses := keep (ckp_responses p) (chk_responses c), chk_location := or_else (ckp_location p) (chk_location c),
     chk_accuracy := map_option (column 2) (or_else (ckp_accuracy p) (chk_accuracy c)),
     chk_gps_source := or_else (ckp_gps_source p) (chk_gps_source c)\<rparr>"

definition put_checklist :: "checklist \<Rightarrow> field \<Rightarrow> field" where
  "put_checklist c s = s\<lparr>checklists := tput chk_id c (checklists s)\<rparr>"

text \<open>Null answers are stored as the JSON null, which reads back as no answers at all.\<close>

definition patch_checklist :: "id \<Rightarrow> id \<Rightarrow> checklist_patch \<Rightarrow> id option \<Rightarrow> field \<Rightarrow> (checklist \<times> field) res" where
  "patch_checklist tenant i p actor s =
     rbind (require_checklist tenant i s) (\<lambda>c.
       if closed_checklist c then Inl (ApiError ''checklist_closed'' 409)
       else if ckp_status p = Some None then Inl (PyError ''IntegrityError'')
       else
         (let c' = patched_checklist (if ckp_responses p = Some None then p\<lparr>ckp_responses := Some (Some [])\<rparr> else p) c
          in Inr (c', faudit tenant actor ''checklist.updated'' ''checklist'' i (put_checklist c' s))))"

definition completed_checklist :: "checklist \<Rightarrow> failure list \<Rightarrow> timestamp \<Rightarrow> id option \<Rightarrow> checklist" where
  "completed_checklist c fs at' signature =
     c\<lparr>chk_completed := Some at', chk_signature := signature,
       chk_status := (if fs \<noteq> [] then ''failed'' else ''completed''),
       chk_duration := (case chk_started c of None \<Rightarrow> chk_duration c | Some t \<Rightarrow> Some (max 0 ((at' - t) div 1000000)))\<rparr>"

definition complete_checklist ::
  "id \<Rightarrow> id \<Rightarrow> timestamp option \<Rightarrow> id option \<Rightarrow> id option \<Rightarrow> timestamp \<Rightarrow> field
    \<Rightarrow> (checklist \<times> failure list \<times> field) res" where
  "complete_checklist tenant i at' signature actor now s =
     rbind (require_checklist tenant i s) (\<lambda>c.
       if closed_checklist c then Inr (c, [], s)
       else rbind (require_template tenant (chk_template c) s) (\<lambda>t.
            rbind (evaluate_blocking_failures (tpl_items t) (chk_responses c)) (\<lambda>fs.
         let c' = completed_checklist c fs (or_else at' now) signature;
             s1 = faudit tenant actor ''checklist.completed'' ''checklist'' i (put_checklist c' s)
         in if fs = [] then Inr (c', fs, s1)
            else rbind (ensure_exception tenant ''checklist'' i ''checklist_failed'' ''high'' actor
                   (Some ''checklist'') (Some i) (fld_db s1)) (\<lambda>(_, d).
                 Inr (c', fs, s1\<lparr>fld_db := d\<rparr>)))))"

definition resolve_checklist_failure ::
  "id \<Rightarrow> id \<Rightarrow> string \<Rightarrow> id option \<Rightarrow> timestamp \<Rightarrow> field \<Rightarrow> (checklist \<times> field) res" where
  "resolve_checklist_failure tenant i notes actor now s =
     rbind (require_checklist tenant i s) (\<lambda>c.
       if chk_status c = ''resolved'' then Inr (c, s)
       else if chk_status c \<noteq> ''failed'' then Inl (ApiError ''checklist_not_failed'' 409)
       else
         (let c' = c\<lparr>chk_status := ''resolved''\<rparr>;
              s1 = faudit tenant actor ''checklist.failure_resolved'' ''checklist'' i (put_checklist c' s)
          in Inr (c', s1\<lparr>fld_db := resolve_active_exceptions tenant ''checklist'' i ''checklist_failed'' notes actor now (fld_db s1)\<rparr>)))"

section \<open>What a completed checklist guarantees\<close>

text \<open>
  An item without an id is not asked; only a text names an answer. A blocking item needs an answer that is not a failure,
  an item that asks for a photo an answer with one.
\<close>

definition item_answer :: "(string \<times> json) list \<Rightarrow> (string \<times> json) list \<Rightarrow> json" where
  "item_answer rs item = (case jget ''id'' item of JStr k \<Rightarrow> jget k rs | _ \<Rightarrow> JNull)"

definition item_passed :: "(string \<times> json) list \<Rightarrow> (string \<times> json) list \<Rightarrow> bool" where
  "item_passed rs item \<longleftrightarrow> \<not> jtruthy (jget ''id'' item)
     \<or> (jtruthy (jget ''is_blocking'' item) \<longrightarrow> \<not> is_failure (item_answer rs item))
       \<and> (jtruthy (jget ''requires_photo'' item) \<longrightarrow> has_photo (item_answer rs item))"

lemma response_of_answer: "response_of (jget ''id'' item) rs = Inr r \<Longrightarrow> r = item_answer rs item"
  by (cases "jget ''id'' item") (simp_all add: item_answer_def)

lemma item_failure_iff:
  "jtruthy (jget ''id'' item) \<Longrightarrow> item_failure item (item_answer rs item) = None \<longleftrightarrow> item_passed rs item"
  by (auto simp: item_passed_def item_failure_def Let_def)

lemma item_failure_item: "item_failure item r = Some f \<Longrightarrow> fal_item f = jget ''id'' item"
  by (auto simp: item_failure_def Let_def split: if_splits)

text \<open>The failures are those of the items that did not pass, in the order of the template.\<close>

lemma evaluate_failures:
  "evaluate_blocking_failures its rs = Inr fs
    \<Longrightarrow> map fal_item fs = map (jget ''id'') (filter (\<lambda>item. \<not> item_passed rs item) its)"
proof (induction its arbitrary: fs)
  case (Cons item its)
  show ?case
  proof (cases "jtruthy (jget ''id'' item)")
    case False
    with Cons show ?thesis by (auto simp: item_passed_def)
  next
    case True
    with Cons.prems obtain gs where g: "evaluate_blocking_failures its rs = Inr gs"
      "fs = (case item_failure item (item_answer rs item) of None \<Rightarrow> gs | Some f \<Rightarrow> f # gs)"
      by (auto simp: rbind_Inr dest: response_of_answer)
    with Cons.IH [OF g(1)] item_failure_iff [OF True, of rs] show ?thesis
      by (auto split: option.splits dest: item_failure_item)
  qed
qed simp

lemma no_failures_iff:
  assumes "evaluate_blocking_failures its rs = Inr fs"
  shows "fs = [] \<longleftrightarrow> list_all (item_passed rs) its"
  using evaluate_failures [OF assms] by (auto simp: list_all_iff filter_empty_conv simp flip: map_is_Nil_conv [of fal_item fs])

lemma require_checklist_put:
  assumes "require_checklist tn i s = Inr c" and "chk_id c' = chk_id c" and "chk_tenant c' = chk_tenant c"
  shows "require_checklist tn i (put_checklist c' s) = Inr c'"
  using assms by (auto simp: require_checklist_def of_opt_Inr owned_Some put_checklist_def tget_tput dest: tget_key)

lemma require_checklist_cong: "checklists s' = checklists s \<Longrightarrow> require_checklist tn i s' = require_checklist tn i s"
  by (simp add: require_checklist_def)

lemma complete_checklist_cases:
  assumes "complete_checklist tn i at' sig a now s = Inr (c', fs, s')" and "require_checklist tn i s = Inr c"
    and "\<not> closed_checklist c"
  obtains t where "require_template tn (chk_template c) s = Inr t"
    "evaluate_blocking_failures (tpl_items t) (chk_responses c) = Inr fs"
    "c' = completed_checklist c fs (or_else at' now) sig" "checklists s' = checklists (put_checklist c' s)"
    "fs \<noteq> [] \<Longrightarrow> \<exists>x d. ensure_exception tn ''checklist'' i ''checklist_failed'' ''high'' a (Some ''checklist'') (Some i) d
       = Inr (x, fld_db s')"
    "fs = [] \<Longrightarrow> exceptions (fld_db s') = exceptions (fld_db s)"
proof -
  from assms obtain t where t: "require_template tn (chk_template c) s = Inr t"
    "evaluate_blocking_failures (tpl_items t) (chk_responses c) = Inr fs"
    by (auto simp: complete_checklist_def rbind_Inr Let_def split: if_splits)
  let ?c = "completed_checklist c fs (or_else at' now) sig"
  let ?d = "fld_db (faudit tn a ''checklist.completed'' ''checklist'' i (put_checklist ?c s))"
  have "c' = ?c" "checklists s' = checklists (put_checklist ?c s)"
    using assms t by (auto simp: complete_checklist_def rbind_Inr Let_def put_checklist_def split: if_splits)
  moreover have "\<exists>x d. ensure_exception tn ''checklist'' i ''checklist_failed'' ''high'' a (Some ''checklist'') (Some i) d
      = Inr (x, fld_db s')" if "fs \<noteq> []"
  proof -
    obtain x where "ensure_exception tn ''checklist'' i ''checklist_failed'' ''high'' a (Some ''checklist'') (Some i) ?d
        = Inr (x, fld_db s')"
      using assms t \<open>fs \<noteq> []\<close> by (auto simp: complete_checklist_def rbind_Inr Let_def split: if_splits)
    then show ?thesis by blast
  qed
  moreover have "exceptions (fld_db s') = exceptions (fld_db s)" if "fs = []"
    using assms t that by (auto simp: complete_checklist_def rbind_Inr Let_def put_checklist_def split: if_splits)
  ultimately show thesis using that t by blast
qed

text \<open>C36: completing a checklist decides it: it is completed exactly when every item of its template passed (a blocking
  item has an answer that is not a failure, an item that asks for a photo has one), and then no exception is
  raised; otherwise it is failed and an exception about it is open. The failures reported are those of the items that did
  not pass, in the template's order. Completing it again changes nothing.\<close>

theorem completed_checklist_sound:
  assumes "complete_checklist tn i at' sig a now s = Inr (c', fs, s')" and "require_checklist tn i s = Inr c"
    and "\<not> closed_checklist c"
  shows "(\<exists>t. require_template tn (chk_template c) s = Inr t
      \<and> map fal_item fs = map (jget ''id'') (filter (\<lambda>item. \<not> item_passed (chk_responses c) item) (tpl_items t))
      \<and> (if list_all (item_passed (chk_responses c)) (tpl_items t)
         then chk_status c' = ''completed'' \<and> exceptions (fld_db s') = exceptions (fld_db s)
         else chk_status c' = ''failed''
           \<and> (\<exists>x\<in>set (exceptions (fld_db s')). exc_matches tn ''checklist'' i ''checklist_failed'' None None x)))
    \<and> complete_checklist tn i at2 sig2 a2 later s' = Inr (c', [], s')"
proof -
  obtain t where t: "require_template tn (chk_template c) s = Inr t"
      "evaluate_blocking_failures (tpl_items t) (chk_responses c) = Inr fs"
    and c': "c' = completed_checklist c fs (or_else at' now) sig" "checklists s' = checklists (put_checklist c' s)"
    and x: "fs \<noteq> [] \<Longrightarrow> \<exists>x d. ensure_exception tn ''checklist'' i ''checklist_failed'' ''high'' a (Some ''checklist'') (Some i) d
       = Inr (x, fld_db s')" and quiet: "fs = [] \<Longrightarrow> exceptions (fld_db s') = exceptions (fld_db s)"
    using complete_checklist_cases [OF assms] by metis
  have "require_checklist tn i s' = Inr c'"
    using require_checklist_put [OF assms(2), of c'] require_checklist_cong [OF c'(2)]
    by (simp add: c'(1) completed_checklist_def)
  then have again: "complete_checklist tn i at2 sig2 a2 later s' = Inr (c', [], s')"
    by (simp add: complete_checklist_def c'(1) completed_checklist_def closed_checklist_def)
  have "\<exists>x\<in>set (exceptions (fld_db s')). exc_matches tn ''checklist'' i ''checklist_failed'' None None x" if "fs \<noteq> []"
  proof -
    from x [OF that] obtain y d where
      "ensure_exception tn ''checklist'' i ''checklist_failed'' ''high'' a (Some ''checklist'') (Some i) d = Inr (y, fld_db s')"
      by blast
    then show ?thesis
      by (cases rule: ensure_exception_cases) (auto simp: exc_matches_def exc_key_def intro!: bexI [of _ y])
  qed
  with quiet no_failures_iff [OF t(2)]
  have "if list_all (item_passed (chk_responses c)) (tpl_items t)
      then chk_status c' = ''completed'' \<and> exceptions (fld_db s') = exceptions (fld_db s)
      else chk_status c' = ''failed''
        \<and> (\<exists>x\<in>set (exceptions (fld_db s')). exc_matches tn ''checklist'' i ''checklist_failed'' None None x)"
    by (simp add: c'(1) completed_checklist_def)
  with again t(1) evaluate_failures [OF t(2)] show ?thesis by blast
qed

text \<open>resolving a failed checklist closes what its failure opened: no exception about it stays active.\<close>

theorem resolved_checklist_clears:
  assumes "resolve_checklist_failure tn i notes a now s = Inr (c', s')" and "require_checklist tn i s = Inr c"
    and "chk_status c = ''failed''" and "exceptions_ok (fld_db s)"
  shows "chk_status c' = ''resolved''
    \<and> \<not> (\<exists>x\<in>set (exceptions (fld_db s')). exc_matches tn ''checklist'' i ''checklist_failed'' None None x)
    \<and> exceptions_ok (fld_db s') \<and> resolve_checklist_failure tn i notes' a' later s' = Inr (c', s')"
proof -
  let ?c = "c\<lparr>chk_status := ''resolved''\<rparr>"
  let ?d = "fld_db (faudit tn a ''checklist.failure_resolved'' ''checklist'' i (put_checklist ?c s))"
  have r: "c' = ?c" "fld_db s' = resolve_active_exceptions tn ''checklist'' i ''checklist_failed'' notes a now ?d"
    "checklists s' = checklists (put_checklist ?c s)"
    using assms(1-3) by (auto simp: resolve_checklist_failure_def Let_def put_checklist_def)
  have d: "exceptions_ok ?d" using assms(4) by (simp add: exceptions_ok_def put_checklist_def)
  have "require_checklist tn i s' = Inr ?c"
    using require_checklist_put [OF assms(2), of ?c] require_checklist_cong [OF r(3)] by simp
  then show ?thesis
    using resolve_active_clears [OF d] resolve_active_ok [OF d] r(1) unfolding r(2)
    by (auto simp: resolve_checklist_failure_def)
qed

text \<open>a patch goes around the evaluation: whatever the answers, an open checklist patched to completed is completed,
  no exception is raised, and completing it then reports no failure.\<close>

theorem patch_completes_unchecked:
  assumes "require_checklist tn i s = Inr c" and "\<not> closed_checklist c"
    and "ckp_status p = Some (Some ''completed'')"
  shows "\<exists>c' s'. patch_checklist tn i p a s = Inr (c', s') \<and> chk_status c' = ''completed''
    \<and> exceptions (fld_db s') = exceptions (fld_db s) \<and> complete_checklist tn i at' sig a2 now s' = Inr (c', [], s')"
proof -
  obtain c' s' where p: "patch_checklist tn i p a s = Inr (c', s')"
    and c': "chk_status c' = ''completed''" "chk_id c' = chk_id c" "chk_tenant c' = chk_tenant c"
    and s': "checklists s' = checklists (put_checklist c' s)" "exceptions (fld_db s') = exceptions (fld_db s)"
    using assms by (auto simp: patch_checklist_def Let_def patched_checklist_def keep_def put_checklist_def)
  then have "require_checklist tn i s' = Inr c'"
    using require_checklist_put [OF assms(1), of c'] require_checklist_cong [OF s'(1)] by simp
  with p c' s' show ?thesis by (simp add: complete_checklist_def closed_checklist_def)
qed

section \<open>A checklist\<close>

definition brakes_template :: template where
  "brakes_template = \<lparr>tpl_id = 6, tpl_tenant = 1, tpl_name = ''Partida'', tpl_type = ''pre_trip'', tpl_category = None, tpl_active = True,
     tpl_items = [[(''id'', JStr ''brakes''), (''label'', JStr ''Travoes''), (''is_blocking'', JBool True)],
       [(''id'', JStr ''cargo''), (''label'', JStr ''Carga''), (''requires_photo'', JBool True)]]\<rparr>"

definition bad_brakes :: checklist where
  "bad_brakes = (new_checklist 7 1 \<lparr>cki_vehicle = 3, cki_driver = 4, cki_template = 6, cki_type = ''pre_trip'',
     cki_responses = [(''brakes'', JStr ''NOK''), (''cargo'', JObj [(''photo_url'', JStr ''x'')])], cki_location = None,
     cki_accuracy = None, cki_gps_source = None, cki_captured = None, cki_started = None\<rparr> 0)"

definition field_state :: field where
  "field_state = \<lparr>fld_db = empty_db\<lparr>db_next := 20\<rparr>, templates = [brakes_template], checklists = [bad_brakes], fuel_logs = [],
     maintenance_jobs = []\<rparr>"

lemmas field_sample = field_state_def brakes_template_def bad_brakes_def new_checklist_def

lemma open_bad_brakes: "require_checklist 1 7 field_state = Inr bad_brakes" "\<not> closed_checklist bad_brakes"
  by (simp_all add: require_checklist_def of_opt_def owned_def tget_def field_sample closed_checklist_def)

lemma completed_checklist_sound_witness:
  "\<exists>c fs s. complete_checklist 1 7 None None None 90000000 field_state = Inr (c, fs, s) \<and> chk_status c = ''failed''
     \<and> chk_duration c = Some 90 \<and> map fal_item fs = [JStr ''brakes'']
     \<and> (\<exists>x\<in>set (exceptions (fld_db s)). exc_matches 1 ''checklist'' 7 ''checklist_failed'' None None x)"
proof -
  have "case complete_checklist 1 7 None None None 90000000 field_state of Inl _ \<Rightarrow> False
    | Inr (c, fs, s) \<Rightarrow> chk_duration c = Some 90" by code_simp
  then obtain c fs s where r: "complete_checklist 1 7 None None None 90000000 field_state = Inr (c, fs, s)"
    "chk_duration c = Some 90" by (auto split: sum.splits)
  have t: "require_template 1 (chk_template bad_brakes) field_state = Inr brakes_template"
    by (simp add: require_template_def of_opt_def owned_def tget_def field_sample)
  have p: "filter (\<lambda>item. \<not> item_passed (chk_responses bad_brakes) item) (tpl_items brakes_template) = [hd (tpl_items brakes_template)]"
    "jget ''id'' (hd (tpl_items brakes_template)) = JStr ''brakes''" by code_simp+
  have "\<not> list_all (item_passed (chk_responses bad_brakes)) (tpl_items brakes_template)" by code_simp
  with completed_checklist_sound [OF r(1) open_bad_brakes, of None None None 0] r t p show ?thesis by (simp del: One_nat_def)
qed

definition failed_state :: field where
  "failed_state = (case complete_checklist 1 7 None None None 90000000 field_state of
     Inl _ \<Rightarrow> field_state | Inr (_, _, s) \<Rightarrow> s)"

lemma resolved_checklist_clears_witness:
  "\<exists>c s. resolve_checklist_failure 1 7 ''fixed'' None 99000000 failed_state = Inr (c, s) \<and> chk_status c = ''resolved''
     \<and> \<not> (\<exists>x\<in>set (exceptions (fld_db s)). exc_matches 1 ''checklist'' 7 ''checklist_failed'' None None x)"
proof -
  have "case require_checklist 1 7 failed_state of Inl _ \<Rightarrow> False | Inr c \<Rightarrow> chk_status c = ''failed''"
    "\<not> isl (resolve_checklist_failure 1 7 ''fixed'' None 99000000 failed_state)" by code_simp+
  then obtain c c' s' where c: "require_checklist 1 7 failed_state = Inr c" "chk_status c = ''failed''"
    and r: "resolve_checklist_failure 1 7 ''fixed'' None 99000000 failed_state = Inr (c', s')"
    by (cases "resolve_checklist_failure 1 7 ''fixed'' None 99000000 failed_state") (auto split: sum.splits)
  have "exceptions_ok (fld_db failed_state)"
    by code_simp
  from resolved_checklist_clears [OF r c this] r show ?thesis by blast
qed

definition mark_done :: checklist_patch where
  "mark_done = \<lparr>ckp_status = Some (Some ''completed''), ckp_responses = None, ckp_location = None, ckp_accuracy = None,
     ckp_gps_source = None\<rparr>"

lemma patch_completes_unchecked_witness:
  "\<exists>c s. patch_checklist 1 7 mark_done None field_state = Inr (c, s) \<and> chk_status c = ''completed''
     \<and> complete_checklist 1 7 None None None 9 s = Inr (c, [], s)"
proof -
  have "ckp_status mark_done = Some (Some ''completed'')" by (simp add: mark_done_def)
  from patch_completes_unchecked [OF open_bad_brakes this, of None None None None 9] show ?thesis by blast
qed

end
