(* ===== verification/Fuel_Logs.thy ===== *)
theory Fuel_Logs
  imports Field_Rows
begin

text \<open>
  Fuel bought at stations (\<^verbatim>\<open>fuel/service.py\<close>): each purchase is measured against the one before it, flagged
  when the consumption is too high, and moves the odometer of its vehicle. The lemmas show when the
  kilometres of the statistics are those driven.
\<close>

section \<open>Consumption\<close>

definition require_fuel_log :: "id \<Rightarrow> id \<Rightarrow> field \<Rightarrow> fuel_log res" where
  "require_fuel_log tenant i s = of_opt (ApiError ''fuel_log_not_found'' 404) (owned flg_id flg_tenant tenant i (fuel_logs s))"

definition vehicle_logs :: "id \<Rightarrow> id \<Rightarrow> fuel_log list \<Rightarrow> fuel_log list" where
  "vehicle_logs tenant vehicle ls = filter (\<lambda>l. flg_tenant l = tenant \<and> flg_vehicle l = vehicle) ls"

text \<open>The latest purchase before this one with a smaller reading; of one instant, the one entered last.\<close>

definition previous_fuel_log :: "id \<Rightarrow> id \<Rightarrow> timestamp \<Rightarrow> int \<Rightarrow> fuel_log list \<Rightarrow> fuel_log option" where
  "previous_fuel_log tenant vehicle date km ls =
     (case rev (sort_key flg_date (filter (\<lambda>l. flg_date l < date \<and> flg_km l < km) (vehicle_logs tenant vehicle ls))) of
        [] \<Rightarrow> None | l # _ \<Rightarrow> Some l)"

definition historical_average :: "id \<Rightarrow> id \<Rightarrow> fuel_log list \<Rightarrow> dec option" where
  "historical_average tenant vehicle ls =
     (let cs = List.map_filter flg_consumption (vehicle_logs tenant vehicle ls)
      in if cs = [] then None else Some (sum_list cs / of_nat (length cs)))"

definition calculate_consumption :: "dec \<Rightarrow> int option \<Rightarrow> dec option" where
  "calculate_consumption liters since =
     (case since of None \<Rightarrow> None | Some k \<Rightarrow> if k \<le> 0 then None else Some (q2 (liters / of_int k * 100)))"

definition is_anomaly :: "dec option \<Rightarrow> dec option \<Rightarrow> dec option \<Rightarrow> bool" where
  "is_anomaly consumption average' target =
     (case consumption of
        None \<Rightarrow> False
      | Some c \<Rightarrow>
          (let above = (\<lambda>x. case x of None \<Rightarrow> False | Some a \<Rightarrow> a \<noteq> 0 \<and> a * (6 / 5) < c)
           in above average' \<or> above target))"

section \<open>Purchases\<close>

record fuel_input =
  fin_vehicle :: id
  fin_driver :: id
  fin_date :: timestamp
  fin_station :: "string option"
  fin_location :: "(string \<times> json) list option"
  fin_fuel_type :: string
  fin_liters :: dec
  fin_price :: "dec option"
  fin_cost :: dec
  fin_km :: int
  fin_receipt :: "id option"
  fin_odometer :: "id option"
  fin_method :: "string option"
  fin_reference :: "string option"
  fin_captured :: "timestamp option"

definition fuel_checks :: "fuel_log \<Rightarrow> bool" where
  "fuel_checks l \<longleftrightarrow> 0 < flg_liters l \<and> 0 \<le> flg_cost l \<and> 0 \<le> flg_km l
     \<and> (case flg_since l of None \<Rightarrow> True | Some k \<Rightarrow> 0 \<le> k)
     \<and> (case flg_consumption l of None \<Rightarrow> True | Some c \<Rightarrow> 0 \<le> c)"

definition km_since :: "id \<Rightarrow> fuel_input \<Rightarrow> fuel_log list \<Rightarrow> int option" where
  "km_since tenant p ls =
     (case previous_fuel_log tenant (fin_vehicle p) (fin_date p) (fin_km p) ls of
        None \<Rightarrow> None
      | Some l \<Rightarrow> if flg_km l < fin_km p then Some (fin_km p - flg_km l) else None)"

definition new_fuel_log :: "id \<Rightarrow> id \<Rightarrow> fuel_input \<Rightarrow> dec option \<Rightarrow> timestamp \<Rightarrow> fuel_log list \<Rightarrow> fuel_log" where
  "new_fuel_log i tenant p target now ls =
     (let since = km_since tenant p ls;
          consumption = calculate_consumption (fin_liters p) since
      in \<lparr>flg_id = i, flg_tenant = tenant, flg_vehicle = fin_vehicle p, flg_driver = fin_driver p, flg_date = fin_date p,
          flg_station = fin_station p, flg_location = fin_location p, flg_fuel_type = fin_fuel_type p,
          flg_liters = column 2 (fin_liters p), flg_price = map_option (column 2) (fin_price p),
          flg_cost = column 2 (fin_cost p), flg_km = fin_km p, flg_since = since, flg_consumption = consumption,
          flg_receipt = fin_receipt p, flg_odometer = fin_odometer p, flg_method = fin_method p,
          flg_reference = fin_reference p, flg_verified = False, flg_verified_by = None, flg_verified_at = None,
          flg_flagged = is_anomaly consumption (historical_average tenant (fin_vehicle p) ls)
            (case target of Some t \<Rightarrow> if t = 0 then None else Some t | None \<Rightarrow> None),
          flg_captured = fin_captured p, flg_received = now\<rparr>)"

text \<open>The odometer moves; the check of the maintenance is queued when the queue answers, and skipped if not.\<close>

definition advance_odometer :: "id \<Rightarrow> vehicle \<Rightarrow> int \<Rightarrow> bool \<Rightarrow> id option \<Rightarrow> field \<Rightarrow> field" where
  "advance_odometer tenant v km queue_up actor s =
     (if km \<le> veh_km v then s
      else
        (let s1 = faudit tenant actor ''vehicle.odometer_updated_from_fuel'' ''vehicle'' (veh_id v)
               (s\<lparr>fld_db := put_vehicle (v\<lparr>veh_km := km\<rparr>) (fld_db s)\<rparr>)
         in if queue_up then s1\<lparr>maintenance_jobs := maintenance_jobs s1 @ [(veh_id v, tenant, km)]\<rparr> else s1))"

definition create_fuel_log ::
  "id \<Rightarrow> fuel_input \<Rightarrow> bool \<Rightarrow> id option \<Rightarrow> timestamp \<Rightarrow> field \<Rightarrow> (fuel_log \<times> field) res" where
  "create_fuel_log tenant p queue_up actor now s =
     rbind (reporting_vehicle tenant (fin_vehicle p) (fld_db s)) (\<lambda>v.
       if veh_ownership v \<noteq> ''fleet'' then Inl (ApiError ''invalid_vehicle_ownership'' 409)
       else rbind (reporting_driver tenant (fin_driver p) (fld_db s)) (\<lambda>_.
         if fin_liters p \<le> 0 then Inl (ApiError ''invalid_fuel_liters'' 422)
         else if fin_cost p < 0 then Inl (ApiError ''invalid_fuel_cost'' 422)
         else if fin_km p < veh_km v then Inl (ApiError ''odometer_regression'' 409)
         else
           (let (i, s1) = ffresh s; l = new_fuel_log i tenant p (veh_target v) now (fuel_logs s)
            in if \<not> fuel_checks l then Inl (PyError ''IntegrityError'')
               else Inr (l, advance_odometer tenant v (fin_km p) queue_up actor
                 (faudit tenant actor ''fuel_log.created'' ''fuel_log'' i (s1\<lparr>fuel_logs := tadd l (fuel_logs s1)\<rparr>))))))"

section \<open>Queries\<close>

definition in_dates :: "timestamp option \<Rightarrow> timestamp option \<Rightarrow> fuel_log \<Rightarrow> bool" where
  "in_dates from to l \<longleftrightarrow> (case from of None \<Rightarrow> True | Some t \<Rightarrow> t \<le> flg_date l)
     \<and> (case to of None \<Rightarrow> True | Some t \<Rightarrow> flg_date l < t)"

definition list_fuel_logs ::
  "id \<Rightarrow> id option \<Rightarrow> id option \<Rightarrow> timestamp option \<Rightarrow> timestamp option \<Rightarrow> nat \<Rightarrow> nat \<Rightarrow> field \<Rightarrow> fuel_log list" where
  "list_fuel_logs tenant vehicle driver from to limit offset s =
     take limit (drop offset (sort_key (\<lambda>l. - flg_date l) (filter (\<lambda>l. flg_tenant l = tenant
       \<and> (vehicle \<noteq> None \<longrightarrow> Some (flg_vehicle l) = vehicle) \<and> (driver \<noteq> None \<longrightarrow> Some (flg_driver l) = driver)
       \<and> in_dates from to l) (fuel_logs s))))"

definition list_anomalies :: "id \<Rightarrow> nat \<Rightarrow> nat \<Rightarrow> field \<Rightarrow> fuel_log list" where
  "list_anomalies tenant limit offset s =
     take limit (drop offset (sort_key (\<lambda>l. - flg_date l)
       (filter (\<lambda>l. flg_tenant l = tenant \<and> flg_flagged l) (fuel_logs s))))"

record fuel_stats =
  fst_count :: nat
  fst_liters :: dec
  fst_cost :: dec
  fst_consumption :: "dec option"
  fst_km :: int
  fst_cost_per_km :: "dec option"

definition distance :: "fuel_log list \<Rightarrow> int" where
  "distance ls = (\<Sum>l\<leftarrow>ls. or_else (flg_since l) 0)"

definition get_fuel_stats :: "id \<Rightarrow> id option \<Rightarrow> timestamp option \<Rightarrow> timestamp option \<Rightarrow> field \<Rightarrow> fuel_stats" where
  "get_fuel_stats tenant vehicle from to s =
     (let ls = filter (\<lambda>l. flg_tenant l = tenant \<and> (vehicle \<noteq> None \<longrightarrow> Some (flg_vehicle l) = vehicle)
            \<and> in_dates from to l) (fuel_logs s);
          cs = List.map_filter flg_consumption ls; cost = (\<Sum>l\<leftarrow>ls. flg_cost l); km = distance ls
      in \<lparr>fst_count = length ls, fst_liters = (\<Sum>l\<leftarrow>ls. flg_liters l), fst_cost = cost,
          fst_consumption = (if cs = [] then None else Some (sum_list cs / of_nat (length cs))), fst_km = km,
          fst_cost_per_km = (if km = 0 then None else Some (cost / of_int km))\<rparr>)"

section \<open>Verification and corrections\<close>

definition verify_fuel_log ::
  "id \<Rightarrow> id \<Rightarrow> bool \<Rightarrow> bool option \<Rightarrow> id option \<Rightarrow> timestamp \<Rightarrow> field \<Rightarrow> (fuel_log \<times> field) res" where
  "verify_fuel_log tenant i verified flagged user now s =
     rbind (require_fuel_log tenant i s) (\<lambda>l.
       if flg_verified l = verified \<and> (flagged = None \<or> flagged = Some (flg_flagged l)) then Inr (l, s)
       else
         (let l' = l\<lparr>flg_verified := verified, flg_verified_by := user, flg_verified_at := Some now,
                flg_flagged := or_else flagged (flg_flagged l)\<rparr>
          in Inr (l', faudit tenant user ''fuel_log.verified'' ''fuel_log'' i
               (s\<lparr>fuel_logs := tput flg_id l' (fuel_logs s)\<rparr>))))"

text \<open>A field that is null is left as it is. The notes of a patch have no column and are lost; what was
  computed when the purchase was entered stays.\<close>

record fuel_patch =
  fpt_liters :: "dec option"
  fpt_cost :: "dec option"
  fpt_station :: "string option"
  fpt_km :: "int option"
  fpt_method :: "string option"
  fpt_notes :: "string option"

definition patch_fuel_log :: "id \<Rightarrow> id \<Rightarrow> fuel_patch \<Rightarrow> field \<Rightarrow> (fuel_log \<times> field) res" where
  "patch_fuel_log tenant i p s =
     rbind (require_fuel_log tenant i s) (\<lambda>l.
       let l' = l\<lparr>flg_liters := column 2 (or_else (fpt_liters p) (flg_liters l)),
             flg_cost := column 2 (or_else (fpt_cost p) (flg_cost l)),
             flg_station := (case fpt_station p of None \<Rightarrow> flg_station l | Some x \<Rightarrow> Some x),
             flg_km := or_else (fpt_km p) (flg_km l),
             flg_method := (case fpt_method p of None \<Rightarrow> flg_method l | Some x \<Rightarrow> Some x)\<rparr>
       in if \<not> fuel_checks l' then Inl (PyError ''IntegrityError'')
          else Inr (l', s\<lparr>fuel_logs := tput flg_id l' (fuel_logs s)\<rparr>))"

section \<open>The kilometres of the statistics\<close>

fun enter_all :: "id \<Rightarrow> fuel_input list \<Rightarrow> timestamp \<Rightarrow> field \<Rightarrow> field res" where
  "enter_all tenant [] now s = Inr s"
| "enter_all tenant (p # ps) now s = rbind (create_fuel_log tenant p True None now s) (\<lambda>(_, s1). enter_all tenant ps now s1)"

lemma create_fuel_log_rows:
  assumes "create_fuel_log tn p q a now s = Inr (l, s')"
  shows "fuel_logs s' = fuel_logs s @ [l]" "flg_tenant l = tn" "flg_vehicle l = fin_vehicle p" "flg_date l = fin_date p"
    "flg_km l = fin_km p" "flg_since l = km_since tn p (fuel_logs s)"
  using assms
  by (auto simp: create_fuel_log_def rbind_Inr new_fuel_log_def Let_def ffresh_eq tadd_def advance_odometer_def split: if_splits)

lemma sorted_previous:
  assumes "sorted (map flg_date (vehicle_logs tn v ls))" and "vehicle_logs tn v ls \<noteq> []"
    and "\<forall>l\<in>set (vehicle_logs tn v ls). flg_date l < date \<and> flg_km l < km"
  shows "previous_fuel_log tn v date km ls = Some (last (vehicle_logs tn v ls))"
proof -
  let ?v = "vehicle_logs tn v ls"
  have "filter (\<lambda>l. flg_date l < date \<and> flg_km l < km) ?v = ?v" using assms(3) by simp
  moreover have "sort_key flg_date ?v = ?v" using assms(1) by (rule sort_key_id_if_sorted)
  moreover obtain ys y where "?v = ys @ [y]" using assms(2) by (cases ?v rule: rev_cases) auto
  ultimately show ?thesis by (simp add: previous_fuel_log_def)
qed

text \<open>A register kept in order: dates and readings grow, and the distances add up to what was driven.\<close>

definition in_order :: "id \<Rightarrow> id \<Rightarrow> fuel_log list \<Rightarrow> bool" where
  "in_order tn v ls \<longleftrightarrow> (let vs = vehicle_logs tn v ls in vs \<noteq> [] \<and> sorted (map flg_date vs)
     \<and> (\<forall>l\<in>set vs. flg_date l \<le> flg_date (last vs) \<and> flg_km l \<le> flg_km (last vs))
     \<and> distance vs = flg_km (last vs) - flg_km (hd vs))"

lemma in_order_step:
  assumes "in_order tn (fin_vehicle p) (fuel_logs s)" and "create_fuel_log tn p q a now s = Inr (l, s')"
    and "flg_date (last (vehicle_logs tn (fin_vehicle p) (fuel_logs s))) < fin_date p"
    and "flg_km (last (vehicle_logs tn (fin_vehicle p) (fuel_logs s))) < fin_km p"
  shows "in_order tn (fin_vehicle p) (fuel_logs s')"
    and "vehicle_logs tn (fin_vehicle p) (fuel_logs s') = vehicle_logs tn (fin_vehicle p) (fuel_logs s) @ [l]"
proof -
  let ?v = "vehicle_logs tn (fin_vehicle p) (fuel_logs s)"
  note r = create_fuel_log_rows [OF assms(2)]
  show v': "vehicle_logs tn (fin_vehicle p) (fuel_logs s') = ?v @ [l]" by (simp add: vehicle_logs_def r)
  have o: "?v \<noteq> []" "sorted (map flg_date ?v)" "distance ?v = flg_km (last ?v) - flg_km (hd ?v)"
      "\<forall>l\<in>set ?v. flg_date l \<le> flg_date (last ?v) \<and> flg_km l \<le> flg_km (last ?v)"
    using assms(1) by (simp_all add: in_order_def Let_def)
  then have lt: "\<forall>l\<in>set ?v. flg_date l < fin_date p \<and> flg_km l < fin_km p" using assms(3,4) by fastforce
  have "flg_since l = Some (fin_km p - flg_km (last ?v))"
    using sorted_previous [OF o(2,1) lt] assms(4) by (simp add: r(6) km_since_def)
  with o lt show "in_order tn (fin_vehicle p) (fuel_logs s')"
    unfolding in_order_def Let_def v' by (auto simp: sorted_append distance_def r less_imp_le)
qed

lemma enter_all_in_order:
  assumes "enter_all tn ps now s = Inr s'" and "in_order tn v (fuel_logs s)" and "\<forall>p\<in>set ps. fin_vehicle p = v"
    and "sorted_wrt (\<lambda>p q. fin_date p < fin_date q \<and> fin_km p < fin_km q) ps"
    and "\<forall>p\<in>set ps. flg_date (last (vehicle_logs tn v (fuel_logs s))) < fin_date p
      \<and> flg_km (last (vehicle_logs tn v (fuel_logs s))) < fin_km p"
  shows "in_order tn v (fuel_logs s') \<and> hd (vehicle_logs tn v (fuel_logs s')) = hd (vehicle_logs tn v (fuel_logs s))
    \<and> flg_km (last (vehicle_logs tn v (fuel_logs s')))
      = (if ps = [] then flg_km (last (vehicle_logs tn v (fuel_logs s))) else fin_km (last ps))"
  using assms
proof (induction ps arbitrary: s)
  case (Cons p ps)
  then obtain l s1 where c: "create_fuel_log tn p True None now s = Inr (l, s1)" and e: "enter_all tn ps now s1 = Inr s'"
    by (auto simp: rbind_Inr)
  have p: "fin_vehicle p = v" using Cons.prems(3) by simp
  have io: "in_order tn v (fuel_logs s1)"
    and v1: "vehicle_logs tn v (fuel_logs s1) = vehicle_logs tn v (fuel_logs s) @ [l]"
    using in_order_step [OF _ c, unfolded p] Cons.prems(2,5) by auto
  note r = create_fuel_log_rows(2-6) [OF c]
  have "vehicle_logs tn v (fuel_logs s) \<noteq> []" using Cons.prems(2) by (simp add: in_order_def Let_def)
  moreover have "\<forall>q\<in>set ps. flg_date (last (vehicle_logs tn v (fuel_logs s1))) < fin_date q
      \<and> flg_km (last (vehicle_logs tn v (fuel_logs s1))) < fin_km q"
    using Cons.prems(4) by (simp add: v1 r)
  ultimately show ?case using Cons.IH [OF e io] Cons.prems(3,4) by (auto simp: v1 r)
qed auto

text \<open>C37: the kilometres the statistics report are those driven: purchases entered in the order of their dates, each at a
  higher reading, add up to the last reading less the first, however many there are.\<close>

theorem distance_telescopes:
  assumes "enter_all tn (p # ps) now s = Inr s'" and "vehicle_logs tn v (fuel_logs s) = []"
    and "\<forall>x\<in>set (p # ps). fin_vehicle x = v"
    and "sorted_wrt (\<lambda>x y. fin_date x < fin_date y \<and> fin_km x < fin_km y) (p # ps)"
  shows "fst_km (get_fuel_stats tn (Some v) None None s') = fin_km (last (p # ps)) - fin_km p"
proof -
  obtain l s1 where c: "create_fuel_log tn p True None now s = Inr (l, s1)" and e: "enter_all tn ps now s1 = Inr s'"
    using assms(1) by (auto simp: rbind_Inr)
  note r = create_fuel_log_rows(2-6) [OF c]
  have p: "fin_vehicle p = v" using assms(3) by simp
  have v1: "vehicle_logs tn v (fuel_logs s1) = [l]"
    using assms(2) by (simp add: vehicle_logs_def create_fuel_log_rows [OF c] p)
  have "km_since tn p (fuel_logs s) = None" using assms(2) by (simp add: km_since_def previous_fuel_log_def p)
  then have io: "in_order tn v (fuel_logs s1)" by (simp add: in_order_def Let_def v1 distance_def r)
  have "in_order tn v (fuel_logs s') \<and> hd (vehicle_logs tn v (fuel_logs s')) = l
      \<and> flg_km (last (vehicle_logs tn v (fuel_logs s'))) = (if ps = [] then fin_km p else fin_km (last ps))"
    using enter_all_in_order [OF e io] assms(3,4) by (simp add: v1 r)
  moreover have "fst_km (get_fuel_stats tn (Some v) None None s') = distance (vehicle_logs tn v (fuel_logs s'))"
    by (simp add: get_fuel_stats_def Let_def vehicle_logs_def in_dates_def)
  ultimately show ?thesis by (simp add: in_order_def Let_def r)
qed

section \<open>A late report\<close>

definition fill_up :: "timestamp \<Rightarrow> int \<Rightarrow> fuel_input" where
  "fill_up t km = \<lparr>fin_vehicle = veh_id sample_vehicle, fin_driver = drv_id sample_driver, fin_date = t, fin_station = None,
     fin_location = None, fin_fuel_type = ''gasoleo'', fin_liters = 40, fin_price = None, fin_cost = 3000, fin_km = km,
     fin_receipt = None, fin_odometer = None, fin_method = None, fin_reference = None, fin_captured = None\<rparr>"

definition road_state :: field where
  "road_state = \<lparr>fld_db = empty_db\<lparr>db_next := 50, vehicles := [sample_vehicle], drivers := [sample_driver]\<rparr>,
     templates = [], checklists = [], fuel_logs = [], maintenance_jobs = []\<rparr>"

lemma distance_telescopes_witness:
  "\<exists>s. enter_all 1 [fill_up 10 5000, fill_up 20 5400, fill_up 30 6000] 40 road_state = Inr s
     \<and> fst_km (get_fuel_stats 1 (Some (veh_id sample_vehicle)) None None s) = 1000"
proof -
  let ?ps = "[fill_up 10 5000, fill_up 20 5400, fill_up 30 6000]"
  have "\<not> isl (enter_all 1 ?ps 40 road_state)" by code_simp
  then obtain s where s: "enter_all 1 ?ps 40 road_state = Inr s" by (cases "enter_all 1 ?ps 40 road_state") auto
  have "vehicle_logs 1 (veh_id sample_vehicle) (fuel_logs road_state) = []" by (simp add: vehicle_logs_def road_state_def)
  from distance_telescopes [OF s this] s show ?thesis by (simp add: fill_up_def)
qed

text \<open>A purchase entered after a later one counts the road since the one before both of them: part of it is counted twice.\<close>

lemma late_report_counts_twice:
  "case enter_all 1 [fill_up 10 5000, fill_up 30 6000, fill_up 20 6000] 40 road_state of
     Inl _ \<Rightarrow> False | Inr s \<Rightarrow> fst_km (get_fuel_stats 1 (Some (veh_id sample_vehicle)) None None s) = 2000"
  by code_simp

end
