(* ===== verification/Sync.thy ===== *)
theory Sync
  imports Checklists Fuel_Logs Cargo Idempotency
begin

text \<open>
  The synchronisation of the drivers' devices (\<^verbatim>\<open>sync/service.py\<close>): a batch of operations recorded off
  line, each under its own idempotency key, run one after the other by the services of the components. The
  schemas that read a payload, the parser of identifiers and the digest of an operation belong to
  libraries and are parameters. The lemmas show that a batch sent again changes nothing, and what
  stops a batch for ever. Operations do not interleave: the answer to one whose key another session stored meanwhile
  is left out.
\<close>

section \<open>Names\<close>

definition is_upper :: "char \<Rightarrow> bool" where
  "is_upper c \<longleftrightarrow> 65 \<le> (of_char c :: nat) \<and> (of_char c :: nat) \<le> 90"

definition is_lower :: "char \<Rightarrow> bool" where
  "is_lower c \<longleftrightarrow> 97 \<le> (of_char c :: nat) \<and> (of_char c :: nat) \<le> 122"

text \<open>\<^verbatim>\<open>(.)([A-Z][a-z]+)\<close>, then \<^verbatim>\<open>([a-z0-9])([A-Z])\<close>, an underscore put between the groups.\<close>

function split_words :: "string \<Rightarrow> string" where
  "split_words (c # u # l # r) =
     (if c \<noteq> CHR 0x0A \<and> is_upper u \<and> is_lower l
      then c # CHR ''_'' # u # takeWhile is_lower (l # r) @ split_words (dropWhile is_lower (l # r))
      else c # split_words (u # l # r))"
| "split_words [] = []"
| "split_words [c] = [c]"
| "split_words [c, u] = [c, u]"
  by pat_completeness auto

termination
proof (relation "measure length")
  fix c u l :: char and r :: string
  show "(dropWhile is_lower (l # r), c # u # l # r) \<in> measure length"
    using length_dropWhile_le [of is_lower "l # r"] by simp
qed simp_all

fun split_humps :: "string \<Rightarrow> string" where
  "split_humps (c # u # r) =
     (if (is_lower c \<or> is_digit c) \<and> is_upper u then c # CHR ''_'' # u # split_humps r else c # split_humps (u # r))"
| "split_humps s = s"

definition snake_case :: "string \<Rightarrow> string" where
  "snake_case s = casefold (split_humps (split_words s))"

fun normalize_value :: "json \<Rightarrow> json" and normalize_fields :: "(string \<times> json) list \<Rightarrow> (string \<times> json) list \<Rightarrow> (string \<times> json) list" where
  "normalize_value (JObj kvs) = JObj (normalize_fields kvs [])"
| "normalize_value v = v"
| "normalize_fields [] acc = acc"
| "normalize_fields ((k, v) # kvs) acc = normalize_fields kvs (jset (snake_case k) (normalize_value v) acc)"

definition normalize_payload :: "(string \<times> json) list \<Rightarrow> (string \<times> json) list" where
  "normalize_payload p = normalize_fields p []"

definition jpop :: "string \<Rightarrow> (string \<times> json) list \<Rightarrow> (string \<times> json) list" where
  "jpop k p = filter (\<lambda>(k', _). k' \<noteq> k) p"

section \<open>Operations\<close>

record sync_operation =
  sop_local :: string
  sop_key :: string
  sop_operation :: string
  sop_entity_type :: string
  sop_payload :: "(string \<times> json) list"

record sync_result =
  srs_local :: "string option"
  srs_server :: "id option"
  srs_status :: "string option"
  srs_entity_type :: "string option"
  srs_error :: "string option"
  srs_message :: "string option"

record stop_form =
  sfm_type :: string
  sfm_location :: "json option"
  sfm_address :: "string option"
  sfm_notes :: "string option"
  sfm_photo :: "id option"
  sfm_cost :: "dec option"
  sfm_category :: "string option"
  sfm_stopped :: "timestamp option"

record manifest_form =
  mfm_contract :: "id option"
  mfm_number :: "string option"
  mfm_description :: "string option"
  mfm_class :: "string option"
  mfm_weight :: "dec option"
  mfm_file :: "id option"

record document_form =
  dfm_contract :: "id option"
  dfm_type :: string
  dfm_number :: "string option"
  dfm_district :: "string option"
  dfm_file :: "id option"

datatype create_form =
    F_trip trip_create | F_checklist checklist_input | F_fuel fuel_input
  | F_stop stop_form | F_cost cost_input | F_permit permit_create | F_manifest manifest_form
  | F_document document_form | F_proof proof_create

datatype patch_form =
    P_checklist checklist_patch | P_trip trip_patch | P_fuel fuel_patch
  | P_stop "string option" "json option" "string option"
  | P_proof "string option" "string option" "string option"

text \<open>What reads the outside world: the schemas, identifiers, the digest, the text of an error, and the queue.\<close>

record reader =
  rd_create :: "string \<Rightarrow> (string \<times> json) list \<Rightarrow> create_form res"
  rd_patch :: "string \<Rightarrow> (string \<times> json) list \<Rightarrow> patch_form res"
  rd_uuid :: "json \<Rightarrow> id res"
  rd_digest :: "sync_operation \<Rightarrow> string"
  rd_message :: "err \<Rightarrow> string"
  rd_queue :: bool

text \<open>The device and driver of the request; the tables, and the events the session has not yet committed.\<close>

record device =
  dev_tenant :: id
  dev_driver :: "id option"
  dev_id :: string

record sync_state =
  sst_field :: field
  sst_keys :: "sync_result idem_key list"
  sst_events :: "sync_event list"
  sst_pending :: "sync_event list"

definition commit_field :: "field \<Rightarrow> sync_state \<Rightarrow> sync_state" where
  "commit_field f s = s\<lparr>sst_field := f, sst_events := sst_events s @ sst_pending s, sst_pending := []\<rparr>"

definition commit_db :: "db \<Rightarrow> sync_state \<Rightarrow> sync_state" where
  "commit_db d s = commit_field ((sst_field s)\<lparr>fld_db := d\<rparr>) s"

definition sync_done :: "sync_operation \<Rightarrow> id \<Rightarrow> sync_result" where
  "sync_done op i = \<lparr>srs_local = Some (sop_local op), srs_server = Some i, srs_status = Some ''processed'',
     srs_entity_type = Some (sop_entity_type op), srs_error = None, srs_message = None\<rparr>"

definition sync_failed :: "sync_operation \<Rightarrow> string \<Rightarrow> string \<Rightarrow> string \<Rightarrow> sync_result" where
  "sync_failed op st code message = \<lparr>srs_local = Some (sop_local op), srs_server = None, srs_status = Some st,
     srs_entity_type = Some (sop_entity_type op), srs_error = Some code, srs_message = Some message\<rparr>"

section \<open>Creation\<close>

text \<open>A service that succeeds has committed; one that refuses has not.\<close>

definition with_db :: "(db \<Rightarrow> ('a \<times> db) res) \<Rightarrow> ('a \<Rightarrow> id) \<Rightarrow> sync_state \<Rightarrow> id res \<times> sync_state" where
  "with_db f key s =
     (case f (fld_db (sst_field s)) of Inl e \<Rightarrow> (Inl e, s) | Inr (x, d) \<Rightarrow> (Inr (key x), commit_db d s))"

definition with_field :: "(field \<Rightarrow> ('a \<times> field) res) \<Rightarrow> ('a \<Rightarrow> id) \<Rightarrow> sync_state \<Rightarrow> id res \<times> sync_state" where
  "with_field f key s =
     (case f (sst_field s) of Inl e \<Rightarrow> (Inl e, s) | Inr (x, d) \<Rightarrow> (Inr (key x), commit_field d s))"

fun run_create :: "reader \<Rightarrow> id \<Rightarrow> id \<Rightarrow> create_form \<Rightarrow> timestamp \<Rightarrow> sync_state \<Rightarrow> id res \<times> sync_state" where
  "run_create rd tenant t (F_trip p) now s = with_db (create_trip tenant p None now) trip_id s"
| "run_create rd tenant t (F_checklist p) now s = with_field (create_checklist tenant p None now) chk_id s"
| "run_create rd tenant t (F_fuel p) now s = with_field (create_fuel_log tenant p (rd_queue rd) None now) flg_id s"
| "run_create rd tenant t (F_stop p) now s =
     with_db (create_stop tenant t (sfm_type p) (sfm_location p) (sfm_address p) (sfm_notes p) (sfm_photo p) (sfm_cost p)
       (sfm_category p) (sfm_stopped p) None now) stop_id s"
| "run_create rd tenant t (F_cost p) now s = with_db (create_cost tenant (p\<lparr>ci_trip := t\<rparr>) None now) cost_id s"
| "run_create rd tenant t (F_permit p) now s = with_db (create_load_permit tenant t p None) per_id s"
| "run_create rd tenant t (F_manifest p) now s =
     with_db (create_cargo_manifest tenant t (mfm_contract p) (mfm_number p) (mfm_description p) (mfm_class p) (mfm_weight p)
       (mfm_file p) None) man_id s"
| "run_create rd tenant t (F_document p) now s =
     with_db (create_transport_document tenant t (dfm_contract p) (dfm_type p) (dfm_number p) (dfm_district p) (dfm_file p) None)
       tdoc_id s"
| "run_create rd tenant t (F_proof p) now s =
     with_db (\<lambda>d. rbind (create_delivery_proof tenant t p None d) (\<lambda>(x, _, d1). Inr (x, d1))) prf_id s"

definition finish_create :: "sync_operation \<Rightarrow> id res \<times> sync_state \<Rightarrow> sync_result res \<times> sync_state" where
  "finish_create op = (\<lambda>(r, s). (case r of Inl e \<Rightarrow> Inl e | Inr i \<Rightarrow> Inr (sync_done op i), s))"

definition own_entities :: "string list" where
  "own_entities = [''trip'', ''checklist'', ''fuel_log'']"

definition trip_entities :: "string list" where
  "trip_entities = [''trip_stop'', ''trip_cost'', ''load_permit'', ''cargo_manifest'', ''transport_document'', ''delivery_proof'']"

text \<open>A checklist sent as complete is completed at once, in a second transaction.\<close>

definition complete_created :: "id \<Rightarrow> timestamp \<Rightarrow> id res \<times> sync_state \<Rightarrow> id res \<times> sync_state" where
  "complete_created tenant now = (\<lambda>(r, s).
     case r of
       Inl e \<Rightarrow> (Inl e, s)
     | Inr i \<Rightarrow> with_field (\<lambda>f. rbind (complete_checklist tenant i None None None now f) (\<lambda>(c, _, f1). Inr (c, f1))) chk_id s)"

definition dispatch_create ::
  "reader \<Rightarrow> id \<Rightarrow> sync_operation \<Rightarrow> timestamp \<Rightarrow> sync_state \<Rightarrow> sync_result res \<times> sync_state" where
  "dispatch_create rd tenant op now s =
     (let p = normalize_payload (sop_payload op); ty = sop_entity_type op
      in if ty \<in> set own_entities
         then (case rd_create rd ty p of
                 Inl e \<Rightarrow> (Inl e, s)
               | Inr form \<Rightarrow>
                   (let r = run_create rd tenant 0 form now s
                    in finish_create op (if ty = ''checklist'' \<and> jget ''complete'' p = JBool True
                         then complete_created tenant now r else r)))
         else if jget ''trip_id'' p = JNull
         then (Inr (sync_failed op ''failed'' ''trip_id_required'' ''Sync operation requires trip_id.''), s)
         else if ty \<in> set trip_entities
         then (case rd_uuid rd (jget ''trip_id'' p) of
                 Inl e \<Rightarrow> (Inl e, s)
               | Inr t \<Rightarrow>
                   (case rd_create rd ty (jpop ''trip_id'' p) of
                      Inl e \<Rightarrow> (Inl e, s)
                    | Inr form \<Rightarrow> finish_create op (run_create rd tenant t form now s)))
         else (Inr (sync_failed op ''failed'' ''unsupported_entity_type''
                 (''Sync create is not implemented for '' @ ty @ ''.'')), s))"

section \<open>Updates\<close>

fun run_patch :: "id \<Rightarrow> id \<Rightarrow> patch_form \<Rightarrow> sync_state \<Rightarrow> id res \<times> sync_state" where
  "run_patch tenant i (P_checklist p) s = with_field (patch_checklist tenant i p None) chk_id s"
| "run_patch tenant i (P_trip p) s = with_db (patch_trip tenant i p) trip_id s"
| "run_patch tenant i (P_fuel p) s = with_field (patch_fuel_log tenant i p) flg_id s"
| "run_patch tenant i (P_stop ty loc notes) s = with_db (patch_stop tenant i ty loc notes) stop_id s"
| "run_patch tenant i (P_proof notes name contact) s = with_db (patch_delivery_proof tenant i notes name contact) prf_id s"

definition update_entities :: "string list" where
  "update_entities = [''checklist'', ''trip'', ''fuel_log'', ''trip_stop'', ''delivery_proof'']"

text \<open>Every error of an update becomes a failed result. Its code is looked up under a name the errors do not
  have, so it is always the default. After a failed flush the session refuses all work until it is
  rolled back, which nobody does.\<close>

definition failed_update :: "reader \<Rightarrow> sync_operation \<Rightarrow> err \<Rightarrow> sync_state \<Rightarrow> sync_result res \<times> sync_state" where
  "failed_update rd op e s =
     (if e = PyError ''IntegrityError'' then (Inl (PyError ''PendingRollbackError''), s)
      else (Inr (sync_failed op ''failed'' ''update_failed'' (rd_message rd e)), s))"

definition dispatch_update :: "reader \<Rightarrow> id \<Rightarrow> sync_operation \<Rightarrow> sync_state \<Rightarrow> sync_result res \<times> sync_state" where
  "dispatch_update rd tenant op s =
     (let p = normalize_payload (sop_payload op); ty = sop_entity_type op;
          server = jget ''server_id'' p; key = jor server (jget ''id'' p);
          rest = (if jtruthy server then jpop ''server_id'' p else jpop ''id'' (jpop ''server_id'' p))
      in if \<not> jtruthy key
         then (Inr (sync_failed op ''failed'' ''server_id_required'' ''Update operation requires server_id in payload.''), s)
         else (case rd_uuid rd key of
             Inl e \<Rightarrow> (Inl e, s)
           | Inr i \<Rightarrow>
               if ty \<notin> set update_entities
               then (Inr (sync_failed op ''failed'' ''unsupported_entity_type_for_update''
                       (''Sync update is not implemented for '' @ ty @ ''.'')), s)
               else (case rd_patch rd ty rest of
                   Inl e \<Rightarrow> failed_update rd op e s
                 | Inr form \<Rightarrow>
                     (case run_patch tenant i form s of
                        (Inl e, s1) \<Rightarrow> failed_update rd op e s1
                      | (Inr j, s1) \<Rightarrow> (Inr (sync_done op j), s1)))))"

definition dispatch_operation ::
  "reader \<Rightarrow> id \<Rightarrow> sync_operation \<Rightarrow> timestamp \<Rightarrow> sync_state \<Rightarrow> sync_result res \<times> sync_state" where
  "dispatch_operation rd tenant op now s =
     (if sop_operation op = ''create'' then dispatch_create rd tenant op now s
      else if sop_operation op = ''update'' then dispatch_update rd tenant op s
      else (Inr (sync_failed op ''failed'' ''unsupported_operation''
              (''Sync operation '' @ sop_operation op @ '' is not implemented.'')), s))"

section \<open>Batches\<close>

definition record_event :: "device \<Rightarrow> sync_operation \<Rightarrow> sync_result \<Rightarrow> timestamp \<Rightarrow> sync_state \<Rightarrow> sync_state" where
  "record_event dev op r now s =
     (let (i, f) = ffresh (sst_field s);
          e = \<lparr>syn_id = i, syn_tenant = dev_tenant dev, syn_driver = dev_driver dev, syn_device = dev_id dev,
            syn_key = sop_key op, syn_operation = sop_operation op, syn_entity_type = sop_entity_type op,
            syn_local = Some (sop_local op), syn_server = srs_server r, syn_status = or_else (srs_status r) [],
            syn_error = srs_error r, syn_created = now\<rparr>
      in s\<lparr>sst_field := f, sst_pending := sst_pending s @ [e]\<rparr>)"

text \<open>A cached answer; a key that holds none answers with the message alone.\<close>

definition cached_result :: "sync_result idem_key \<Rightarrow> sync_result" where
  "cached_result x =
     (case idk_response x of
        None \<Rightarrow> \<lparr>srs_local = None, srs_server = None, srs_status = None, srs_entity_type = None, srs_error = None,
                 srs_message = Some ''idempotent_replay''\<rparr>
      | Some r \<Rightarrow> r\<lparr>srs_message := (if truthy (srs_message r) then srs_message r else Some ''idempotent_replay'')\<rparr>)"

definition sync_key :: "reader \<Rightarrow> device \<Rightarrow> sync_operation \<Rightarrow> sync_result \<Rightarrow> timestamp \<Rightarrow> sync_result idem_key" where
  "sync_key rd dev op r now =
     \<lparr>idk_tenant = dev_tenant dev, idk_key = sop_key op, idk_operation = sop_operation op,
      idk_entity_type = sop_entity_type op, idk_hash = rd_digest rd op, idk_response = Some r,
      idk_status = Some (if srs_status r = Some ''processed'' then 200 else 422),
      idk_expires = add_days now (ttl_for (sop_entity_type op))\<rparr>"

definition process_operation ::
  "reader \<Rightarrow> device \<Rightarrow> timestamp \<Rightarrow> sync_operation \<Rightarrow> sync_state \<Rightarrow> sync_result res \<times> sync_state" where
  "process_operation rd dev now op s =
     (case find_key (dev_tenant dev) (sop_key op) (sst_keys s) of
        Some x \<Rightarrow>
          if idk_hash x \<noteq> rd_digest rd op
          then (let r = sync_failed op ''conflict'' ''idempotency_key_reused'' ''Idempotency key was reused with a different payload.''
                in (Inr r, record_event dev op r now s))
          else (Inr (cached_result x), s)
      | None \<Rightarrow>
          (case dispatch_operation rd (dev_tenant dev) op now s of
             (Inl e, s1) \<Rightarrow> (Inl e, s1)
           | (Inr r, s1) \<Rightarrow>
               (let s2 = record_event dev op r now (s1\<lparr>sst_keys := tadd (sync_key rd dev op r now) (sst_keys s1)\<rparr>)
                in (Inr r, commit_field (sst_field s2) s2))))"

fun process_operations ::
  "reader \<Rightarrow> device \<Rightarrow> timestamp \<Rightarrow> sync_operation list \<Rightarrow> sync_state \<Rightarrow> sync_result list res \<times> sync_state" where
  "process_operations rd dev now [] s = (Inr [], s)"
| "process_operations rd dev now (op # ops) s =
     (case process_operation rd dev now op s of
        (Inl e, s1) \<Rightarrow> (Inl e, s1)
      | (Inr r, s1) \<Rightarrow>
          (case process_operations rd dev now ops s1 of
             (Inl e, s2) \<Rightarrow> (Inl e, s2)
           | (Inr rs, s2) \<Rightarrow> (Inr (r # rs), s2)))"

text \<open>The session closes with the request: what it has not committed is gone.\<close>

definition process_batch ::
  "reader \<Rightarrow> device \<Rightarrow> timestamp \<Rightarrow> sync_operation list \<Rightarrow> sync_state \<Rightarrow> sync_result list res \<times> sync_state" where
  "process_batch rd dev now ops s =
     (let (r, s1) = process_operations rd dev now ops s in (r, s1\<lparr>sst_pending := []\<rparr>))"

section \<open>Keys of a batch\<close>

lemma find_key_app:
  "find_key tn k (ks @ [x]) = (case find_key tn k ks of Some y \<Rightarrow> Some y
     | None \<Rightarrow> if idk_tenant x = tn \<and> idk_key x = k then Some x else None)"
  by (simp add: find_key_def find_app split: option.split)

lemma commit_keys [simp]: "sst_keys (commit_field f s) = sst_keys s" "sst_keys (commit_db d s) = sst_keys s"
  by (simp_all add: commit_field_def commit_db_def)

lemma with_keys: "sst_keys (snd (with_db f key s)) = sst_keys s" "sst_keys (snd (with_field g key' s)) = sst_keys s"
  by (simp_all add: with_db_def with_field_def split: sum.split)

lemma run_keys: "sst_keys (snd (run_create rd tn t form now s)) = sst_keys s" "sst_keys (snd (run_patch tn i pf s)) = sst_keys s"
  by (cases form; simp add: with_keys) (cases pf; simp add: with_keys)

lemma finish_keys [simp]: "snd (finish_create op r) = snd r"
  by (simp add: finish_create_def split: prod.split)

lemma complete_created_keys: "sst_keys (snd (complete_created tn now r)) = sst_keys (snd r)"
  by (auto simp: complete_created_def with_keys split: prod.split sum.split)

lemma failed_update_state [simp]: "snd (failed_update rd op e s) = s"
  by (simp add: failed_update_def)

lemma dispatch_keys: "sst_keys (snd (dispatch_operation rd tn op now s)) = sst_keys s"
proof -
  have p: "sst_keys (snd (case run_patch tn i form s of (Inl e, s1) \<Rightarrow> failed_update rd op e s1
      | (Inr j, s1) \<Rightarrow> (Inr (sync_done op j), s1))) = sst_keys s" for i form
    using run_keys(2) [of tn i form s] by (cases "run_patch tn i form s"; cases "fst (run_patch tn i form s)") auto
  have "sst_keys (snd (dispatch_create rd tn op now s)) = sst_keys s"
    by (simp add: dispatch_create_def Let_def complete_created_keys run_keys split: sum.split)
  moreover have "sst_keys (snd (dispatch_update rd tn op s)) = sst_keys s"
    by (simp add: dispatch_update_def Let_def p split: sum.split)
  ultimately show ?thesis by (simp add: dispatch_operation_def)
qed

text \<open>Two answers that differ in their message at most.\<close>

definition same_answer :: "sync_result \<Rightarrow> sync_result \<Rightarrow> bool" where
  "same_answer r r' \<longleftrightarrow> r\<lparr>srs_message := None\<rparr> = r'\<lparr>srs_message := None\<rparr>"

definition conflicting :: "sync_result \<Rightarrow> bool" where
  "conflicting r \<longleftrightarrow> srs_status r = Some ''conflict''"

definition answered :: "reader \<Rightarrow> device \<Rightarrow> sync_operation \<Rightarrow> sync_result \<Rightarrow> sync_state \<Rightarrow> bool" where
  "answered rd dev op r s \<longleftrightarrow> (\<exists>x. find_key (dev_tenant dev) (sop_key op) (sst_keys s) = Some x
     \<and> idk_hash x = rd_digest rd op \<and> same_answer r (cached_result x))"

lemma process_keeps_key:
  assumes "process_operation rd dev now op s = (r, s')" and "find_key tn k (sst_keys s) = Some x"
  shows "find_key tn k (sst_keys s') = Some x"
proof (cases "find_key (dev_tenant dev) (sop_key op) (sst_keys s)")
  case None
  obtain q s1 where d: "dispatch_operation rd (dev_tenant dev) op now s = (q, s1)" by fastforce
  then have "sst_keys s1 = sst_keys s" using dispatch_keys [of rd "dev_tenant dev" op now s] by simp
  with assms None d show ?thesis
    by (cases q) (auto simp: process_operation_def Let_def record_event_def ffresh_eq tadd_def find_key_app)
next
  case (Some y)
  with assms show ?thesis
    by (auto simp: process_operation_def Let_def record_event_def ffresh_eq split: if_splits)
qed

lemma process_answers:
  assumes "process_operation rd dev now op s = (Inr r, s')" and "\<not> conflicting r"
  shows "answered rd dev op r s'"
proof (cases "find_key (dev_tenant dev) (sop_key op) (sst_keys s)")
  case None
  obtain q s1 where d: "dispatch_operation rd (dev_tenant dev) op now s = (q, s1)" by fastforce
  then have "sst_keys s1 = sst_keys s" using dispatch_keys [of rd "dev_tenant dev" op now s] by simp
  with assms None d show ?thesis
    by (cases q) (auto simp: process_operation_def Let_def record_event_def ffresh_eq tadd_def find_key_app answered_def
        sync_key_def same_answer_def cached_result_def)
next
  case (Some y)
  with assms show ?thesis
    by (auto simp: process_operation_def Let_def answered_def same_answer_def conflicting_def sync_failed_def split: if_splits)
qed

lemma answered_kept:
  assumes "process_operation rd dev now op s = (q, s')" and "answered rd dev op' r s"
  shows "answered rd dev op' r s'"
  using process_keeps_key [OF assms(1)] assms(2) by (auto simp: answered_def)

lemma answered_kept_all:
  "process_operations rd dev now ops s = (q, s') \<Longrightarrow> answered rd dev op' r s \<Longrightarrow> answered rd dev op' r s'"
proof (induction ops arbitrary: s q s')
  case (Cons op ops)
  obtain q1 s1 where p: "process_operation rd dev now op s = (q1, s1)" by fastforce
  have a: "answered rd dev op' r s1" by (rule answered_kept [OF p Cons.prems(2)])
  obtain q2 s2 where o: "process_operations rd dev now ops s1 = (q2, s2)" by fastforce
  have "answered rd dev op' r s2" by (rule Cons.IH [OF o a])
  with Cons.prems(1) p a o show ?case by (cases q1; cases q2) auto
qed simp

lemma batch_answered:
  assumes "process_operations rd dev now ops s = (Inr rs, s')" and "\<forall>r\<in>set rs. \<not> conflicting r"
  shows "list_all2 (\<lambda>op r. answered rd dev op r s') ops rs"
  using assms
proof (induction ops arbitrary: s rs)
  case (Cons op ops)
  obtain r s1 where p: "process_operation rd dev now op s = (Inr r, s1)"
    using Cons.prems(1) by (cases "process_operation rd dev now op s"; cases "fst (process_operation rd dev now op s)") auto
  obtain rs1 where o: "process_operations rd dev now ops s1 = (Inr rs1, s')" "rs = r # rs1"
    using Cons.prems(1) p by (auto split: prod.splits sum.splits)
  have "answered rd dev op r s1" using process_answers [OF p] Cons.prems(2) o(2) by simp
  then have "answered rd dev op r s'" by (rule answered_kept_all [OF o(1)])
  with Cons.IH [OF o(1)] Cons.prems(2) o(2) show ?case by simp
qed simp

lemma replay_all:
  assumes "list_all2 (\<lambda>op r. answered rd dev op r s) ops rs"
  shows "\<exists>rs'. process_operations rd dev now ops s = (Inr rs', s) \<and> list_all2 same_answer rs rs'"
  using assms
proof (induction ops rs rule: list_all2_induct)
  case (Cons op ops r rs)
  then obtain rs' where o: "process_operations rd dev now ops s = (Inr rs', s)" "list_all2 same_answer rs rs'" by blast
  from Cons.hyps(1) obtain x where x: "find_key (dev_tenant dev) (sop_key op) (sst_keys s) = Some x"
    "idk_hash x = rd_digest rd op" "same_answer r (cached_result x)" by (auto simp: answered_def)
  then have "process_operation rd dev now op s = (Inr (cached_result x), s)" by (simp add: process_operation_def)
  with o x(3) show ?case by (intro exI [of _ "cached_result x # rs'"]) simp
qed simp

lemma answered_pending [simp]: "answered rd dev op r (s\<lparr>sst_pending := ps\<rparr>) = answered rd dev op r s"
  by (simp add: answered_def)

text \<open>C38: a batch sent again changes nothing: once a batch has been answered without conflict, sending it again, at any
  later time, gives the same answers, up to their messages, and leaves every table as it is.\<close>

theorem sync_replay_changes_nothing:
  assumes "process_batch rd dev now ops s = (Inr rs, s')" and "\<forall>r\<in>set rs. \<not> conflicting r"
  shows "\<exists>rs'. process_batch rd dev later ops s' = (Inr rs', s') \<and> list_all2 same_answer rs rs'"
proof -
  obtain s1 where o: "process_operations rd dev now ops s = (Inr rs, s1)" and s': "s' = s1\<lparr>sst_pending := []\<rparr>"
    using assms(1) by (auto simp: process_batch_def Let_def split: prod.splits)
  have "list_all2 (\<lambda>op r. answered rd dev op r s') ops rs" using batch_answered [OF o assms(2)] by (simp add: s')
  from replay_all [OF this] obtain rs' where "process_operations rd dev later ops s' = (Inr rs', s')" "list_all2 same_answer rs rs'"
    by blast
  then show ?thesis by (simp add: process_batch_def s')
qed

lemma process_operations_app:
  "process_operations rd dev now (xs @ ys) s =
     (case process_operations rd dev now xs s of
        (Inl e, s1) \<Rightarrow> (Inl e, s1)
      | (Inr rs, s1) \<Rightarrow> (case process_operations rd dev now ys s1 of (Inl e, s2) \<Rightarrow> (Inl e, s2) | (Inr qs, s2) \<Rightarrow> (Inr (rs @ qs), s2)))"
  by (induction xs arbitrary: s) (auto split: prod.splits sum.splits)

text \<open>C39: an operation a service refuses stops its batch for ever: the operations before it are stored but their answers
  are lost, those behind it are never run, nothing records the refusal, and sending the batch again ends
  the same way as long as the refusal stands.\<close>

theorem refused_operation_blocks_batch:
  assumes "process_batch rd dev now pre s = (Inr rs, s')" and "\<forall>r\<in>set rs. \<not> conflicting r"
    and "process_operations rd dev now pre s = (Inr rs, s')"
    and "find_key (dev_tenant dev) (sop_key op) (sst_keys s') = None"
    and "\<And>t. dispatch_operation rd (dev_tenant dev) op t s' = (Inl e, s')"
  shows "process_batch rd dev now (pre @ op # post) s = (Inl e, s')
    \<and> process_batch rd dev later (pre @ op # post) s' = (Inl e, s')"
proof -
  have pend: "s'\<lparr>sst_pending := []\<rparr> = s'" using assms(1,3) by (simp add: process_batch_def)
  have stop: "process_operations rd dev t (op # post) s' = (Inl e, s')" for t
    using assms(4,5) by (simp add: process_operation_def)
  obtain rs' where "process_operations rd dev later pre s' = (Inr rs', s')"
    using replay_all [OF batch_answered [OF assms(3,2)]] by blast
  with stop assms(3) pend show ?thesis by (simp add: process_batch_def process_operations_app)
qed

section \<open>Names of answers\<close>

lemma lower_not_upper: "\<not> is_upper (lower_char c)"
  by (auto simp: is_upper_def lower_char_def Let_def of_char_of)

lemma snake_case_lower: "c \<in> set (snake_case k) \<Longrightarrow> \<not> is_upper c"
  by (auto simp: snake_case_def casefold_def lower_not_upper)

lemma jset_keys: "fst ` set (jset k v obj) = insert k (fst ` set obj)"
  by (force simp: jset_def)

lemma normalize_fields_lower:
  "\<forall>k\<in>fst ` set acc. \<not> list_ex is_upper k \<Longrightarrow> \<forall>k\<in>fst ` set (normalize_fields kvs acc). \<not> list_ex is_upper k"
proof (induction kvs arbitrary: acc)
  case (Cons kv kvs)
  obtain k v where kv: "kv = (k, v)" by (cases kv)
  have "\<not> list_ex is_upper (snake_case k)" using snake_case_lower by (auto simp: list_ex_iff)
  with Cons.prems have "\<forall>x\<in>fst ` set (jset (snake_case k) (normalize_value v) acc). \<not> list_ex is_upper x"
    by (simp add: jset_keys)
  from Cons.IH [OF this] show ?case by (simp add: kv)
qed simp

lemma normalize_loses: "list_ex is_upper k \<Longrightarrow> jget k (normalize_payload p) = JNull"
proof -
  assume k: "list_ex is_upper k"
  have "k \<notin> fst ` set (normalize_payload p)" using normalize_fields_lower [of "[]" p] k by (auto simp: normalize_payload_def)
  then have "map_of (normalize_payload p) k = None" by (simp add: map_of_eq_None_iff)
  then show ?thesis by (simp add: jget_def)
qed

text \<open>C40: answers to items with a capital in their name never arrive: the names inside a payload are rewritten like its
  fields, so a checklist whose template has a blocking item with such a name fails, whatever was answered.\<close>

theorem capital_items_fail:
  assumes "item \<in> set its" and "jget ''id'' item = JStr k" and "list_ex is_upper k" and "jtruthy (jget ''is_blocking'' item)"
    and "evaluate_blocking_failures its (normalize_payload answers) = Inr fs"
  shows "\<exists>f\<in>set fs. fal_item f = JStr k \<and> fal_reason f = ''blocking_item_failed''"
  using assms(1,5)
proof (induction its arbitrary: fs)
  case (Cons x its)
  show ?case
  proof (cases "x = item")
    case True
    have "k \<noteq> []" using assms(3) by auto
    moreover have "item_failure item JNull = Some \<lparr>fal_item = JStr k, fal_label = jget ''label'' item, fal_reason = ''blocking_item_failed''\<rparr>"
      using assms(2,4) by (simp add: item_failure_def is_failure_def)
    ultimately show ?thesis using Cons.prems(2) normalize_loses [OF assms(3)] True assms(2) by (auto simp: rbind_Inr)
  next
    case False
    then obtain gs where "evaluate_blocking_failures its (normalize_payload answers) = Inr gs" "\<forall>g\<in>set gs. g \<in> set fs"
      using Cons.prems(2) by (auto simp: rbind_Inr split: if_splits option.splits)
    with Cons.IH [of gs] False Cons.prems(1) show ?thesis by auto
  qed
qed simp

section \<open>A device\<close>

definition sample_reader :: "create_form res \<Rightarrow> reader" where
  "sample_reader r = \<lparr>rd_create = (\<lambda>_ _. r), rd_patch = (\<lambda>_ _. Inl (PyError ''ValidationError'')), rd_uuid = (\<lambda>_. Inl (PyError ''ValueError'')),
     rd_digest = (\<lambda>op. sop_local op @ sop_operation op @ sop_entity_type op), rd_message = (\<lambda>_. []), rd_queue = True\<rparr>"

definition sample_device :: device where
  "sample_device = \<lparr>dev_tenant = 1, dev_driver = Some 3, dev_id = ''phone''\<rparr>"

definition sample_op :: "string \<Rightarrow> string \<Rightarrow> sync_operation" where
  "sample_op k operation = \<lparr>sop_local = k, sop_key = k, sop_operation = operation, sop_entity_type = ''fuel_log'', sop_payload = []\<rparr>"

definition device_state :: sync_state where
  "device_state = \<lparr>sst_field = road_state, sst_keys = [], sst_events = [], sst_pending = []\<rparr>"

lemma sync_replay_changes_nothing_witness:
  "\<exists>rs s rs'. process_batch (sample_reader (Inr (F_fuel (fill_up 10 5000)))) sample_device 40 [sample_op ''a'' ''create'', sample_op ''b'' ''erase'']
       device_state = (Inr rs, s) \<and> map srs_status rs = [Some ''processed'', Some ''failed'']
     \<and> process_batch (sample_reader (Inr (F_fuel (fill_up 10 5000)))) sample_device 90 [sample_op ''a'' ''create'', sample_op ''b'' ''erase'']
       s = (Inr rs', s) \<and> list_all2 same_answer rs rs'"
proof -
  let ?b = "process_batch (sample_reader (Inr (F_fuel (fill_up 10 5000)))) sample_device 40 [sample_op ''a'' ''create'', sample_op ''b'' ''erase''] device_state"
  have "case fst ?b of Inl _ \<Rightarrow> False | Inr rs \<Rightarrow> map srs_status rs = [Some ''processed'', Some ''failed'']" by code_simp
  then obtain rs s where b: "?b = (Inr rs, s)" "map srs_status rs = [Some ''processed'', Some ''failed'']"
    by (cases ?b) (auto split: sum.splits)
  then have "\<forall>r\<in>set rs. \<not> conflicting r" by (auto simp: conflicting_def)
  from sync_replay_changes_nothing [OF b(1) this, of 90] obtain rs' where
    "process_batch (sample_reader (Inr (F_fuel (fill_up 10 5000)))) sample_device 90
       [sample_op ''a'' ''create'', sample_op ''b'' ''erase''] s = (Inr rs', s)" "list_all2 same_answer rs rs'"
    by (elim exE conjE)
  with b show ?thesis by (intro exI conjI)
qed

lemma refused_operation_blocks_batch_witness:
  "\<exists>s. process_batch (sample_reader (Inl (PyError ''ValidationError''))) sample_device 40
       ([sample_op ''a'' ''erase''] @ sample_op ''b'' ''create'' # [sample_op ''c'' ''erase'']) device_state = (Inl (PyError ''ValidationError''), s)
     \<and> process_batch (sample_reader (Inl (PyError ''ValidationError''))) sample_device 90
       ([sample_op ''a'' ''erase''] @ sample_op ''b'' ''create'' # [sample_op ''c'' ''erase'']) s = (Inl (PyError ''ValidationError''), s)"
proof -
  let ?r = "sample_reader (Inl (PyError ''ValidationError''))"
  have "case process_operations ?r sample_device 40 [sample_op ''a'' ''erase''] device_state of
      (Inl _, _) \<Rightarrow> False
    | (Inr rs, s) \<Rightarrow> map srs_status rs = [Some ''failed''] \<and> sst_pending s = [] \<and> find_key 1 ''b'' (sst_keys s) = None" by code_simp
  then obtain rs s where b: "process_operations ?r sample_device 40 [sample_op ''a'' ''erase''] device_state = (Inr rs, s)"
    "map srs_status rs = [Some ''failed'']" "sst_pending s = []" "find_key 1 ''b'' (sst_keys s) = None"
    by (cases "process_operations ?r sample_device 40 [sample_op ''a'' ''erase''] device_state") (auto split: sum.splits)
  then have c: "process_batch ?r sample_device 40 [sample_op ''a'' ''erase''] device_state = (Inr rs, s)"
    by (simp add: process_batch_def)
  have d: "\<forall>r\<in>set rs. \<not> conflicting r" using b(2) by (auto simp: conflicting_def)
  have k: "find_key (dev_tenant sample_device) (sop_key (sample_op ''b'' ''create'')) (sst_keys s) = None"
    using b(4) by (simp add: sample_device_def sample_op_def)
  have "dispatch_operation ?r (dev_tenant sample_device) (sample_op ''b'' ''create'') t s = (Inl (PyError ''ValidationError''), s)" for t
    by (simp add: dispatch_operation_def dispatch_create_def sample_op_def own_entities_def sample_reader_def)
  from refused_operation_blocks_batch [OF c d b(1) k this] show ?thesis by blast
qed

lemma capital_items_fail_witness:
  "\<exists>fs. evaluate_blocking_failures [[(''id'', JStr ''brakeLights''), (''is_blocking'', JBool True)]]
       (normalize_payload [(''brakeLights'', JStr ''ok'')]) = Inr fs
     \<and> (\<exists>f\<in>set fs. fal_item f = JStr ''brakeLights'' \<and> fal_reason f = ''blocking_item_failed'')"
proof -
  let ?i = "[(''id'', JStr ''brakeLights''), (''is_blocking'', JBool True)]"
  have "\<not> isl (evaluate_blocking_failures [?i] (normalize_payload [(''brakeLights'', JStr ''ok'')]))" by code_simp
  then obtain fs where "evaluate_blocking_failures [?i] (normalize_payload [(''brakeLights'', JStr ''ok'')]) = Inr fs"
    by (cases "evaluate_blocking_failures [?i] (normalize_payload [(''brakeLights'', JStr ''ok'')])") auto
  moreover have "jget ''id'' ?i = JStr ''brakeLights''" "list_ex is_upper ''brakeLights''" "jtruthy (jget ''is_blocking'' ?i)" by code_simp+
  ultimately show ?thesis using capital_items_fail [of ?i "[?i]" "''brakeLights''"] by auto
qed

end
