(* ===== verification/Spec2Isabelle.thy ===== *)
theory Spec2Isabelle
  imports Trip_Execution Trip_Orders Receivables Fuel_Stock Contracts Request_Races Preventive_Facts Workshop_Invoices
    Outbox Notifications Fleet_Facts Vehicle_History Clients Sync
begin

text \<open>
  Rotas is the back end of a transport company: a FastAPI application whose modules
  (\<^verbatim>\<open>src/backend/app/modules\<close>) are each a set of tables (\<^verbatim>\<open>models.py\<close>), of request
  schemas (\<^verbatim>\<open>schemas.py\<close>) and of service functions over one database session. This library models
  the service functions and proves what they promise each other and their users.

  \<^bold>\<open>How the program works together.\<close> A tenant registers vehicles, drivers, clients, suppliers and
  contracts. An order becomes a trip; the trip gets a clearance, is dispatched, runs, is delivered with a
  proof and closed. Availability guards every assignment, looking at documents, hours, other trips and the
  workshop. Trips cost money, earn revenue from a contract, and are billed; documents are numbered, paid, aged.
  The workshop receives vehicles, quotes, opens work orders, takes parts from its stock and invoices. Fuel comes
  into tanks and leaves into vehicles. All services write the audit log, raise operational exceptions and
  queue events and e-mails that scheduled jobs deliver. A mobile client repeats requests under idempotency keys.

  \<^bold>\<open>Conventions.\<close> A table is the list of its rows in insertion order (\<open>Tables\<close>), a row is a
  record named after its model class, and \<open>db\<close> (\<open>Database\<close>) holds the tables and the counter new keys
  come from; components with tables of their own (workshop, third parties, cash, queues) put them in a
  record beside it. A service function is a HOL function from its arguments, the clock
  included, and the state to a \<open>res\<close>: \<open>Inl (ApiError code status)\<close> for the code's \<open>ApiError\<close>,
  \<open>Inl (PyError name)\<close> for any other exception a request can end in (the database's integrity error, a
  \<open>TypeError\<close> of the code), \<open>Inr\<close> the result and the new state. A refused request is rolled back, so it
  has no state; where the code commits before it fails the model returns the state as well (\<open>Idempotency\<close>,
  the cached count in \<open>Fleet\<close>). Unique constraints and check constraints the operations can hit are
  conditions tested at the flush. Names of functions are those of the code; a leading underscore is dropped.

  \<^bold>\<open>Foundations.\<close>
  \<^item> \<open>Prelude\<close>: results, strings, decimals with banker's rounding (\<open>q2\<close> and its digits), clocks and
    calendar years. \<open>Tables\<close>: lookup, replacement and insertion of rows, with the locale by which
    components use them. \<open>Rows\<close>, \<open>Documents\<close>, \<open>Database\<close>: the rows and the database.
  \<^item> \<open>Policies\<close>: the JSON policy of a tenant, its validation and dates (\<^verbatim>\<open>tenants/service.py\<close>).
    \<open>Iso_Dates\<close>: dates as written into JSON, with the round trip through their parser. \<open>Inputs\<close>:
    validators of telephone numbers, e-mail addresses and tax numbers.
  \<^item> \<open>Oversight\<close>: audit log, exceptions, alerts, waivers; an active exception is unique per key.

  \<^bold>\<open>Vehicles, drivers, third parties.\<close>
  \<^item> \<open>Fleet\<close>, \<open>Drivers\<close>, \<open>Fleet_Facts\<close> (\<^verbatim>\<open>vehicles/service.py\<close>, \<^verbatim>\<open>drivers/service.py\<close>): the registers, the plan's
    limit with its cached count (the locale \<open>plan_quota\<close>), renewals of documents and what they do to the
    guard of an assignment, scorecards. The limit holds but for the retired vehicles a patch brings back and for
    registrations after which Redis did not empty the cache. \<open>Vehicle_History\<close>: paging by cursor, complete and without repetition.
  \<^item> \<open>Driver_Money\<close> (\<^verbatim>\<open>drivers/advance_service.py\<close>, \<^verbatim>\<open>drivers/settlement_service.py\<close>): advances and settlements.
  \<^item> \<open>Parties\<close>, \<open>Suppliers\<close> (\<^verbatim>\<open>third_party/service.py\<close>): suppliers and subcontractors with their roles, profiles,
    accounts and evaluations. \<open>Clients\<close> (\<^verbatim>\<open>clients/service.py\<close>): each client is one third party, and its balance
    is set against its statement.

  \<^bold>\<open>Trips.\<close>
  \<^item> \<open>Availability\<close> (\<^verbatim>\<open>availability/service.py\<close>, \<^verbatim>\<open>drivers/hos_service.py\<close>): the guards of an
    assignment and the summaries shown beside them: what the guard answers is the first blocker of the summary, but for
    hours of service and for vehicles that are not of the fleet.
  \<^item> \<open>Trip_Costs\<close> (\<^verbatim>\<open>trips/costs.py\<close>, \<^verbatim>\<open>trips/revenue.py\<close>), \<open>Trip_Dispatch\<close>, \<open>Trip_Execution\<close>
    (\<^verbatim>\<open>trips/service.py\<close>), \<open>Trip_Orders\<close>, \<open>Cargo\<close>, \<open>Contracts\<close>: the life of orders, trips, proofs and
    contracts. The lemmas show what a dispatch has checked, that the statuses its guards look at cover those of the
    uniqueness indexes, under which conditions a trip closes, which trips the deadline check delays, and that an
    allowance table sent for a tenant (\<open>Policies\<close>) is what its drivers are then paid.

  \<^bold>\<open>Money.\<close>
  \<^item> \<open>Accounting\<close>: entries, the profit and loss, and the trial balance, which shows exactly the lines posted.
  \<^item> \<open>Billing_Docs\<close>, \<open>Payments\<close>, \<open>Receivables\<close> (\<^verbatim>\<open>billing/service.py\<close>, \<^verbatim>\<open>billing/domain.py\<close>): what can be billed,
    documents and fiscal numbers, payments and their reversal, ageing and statements.
  \<^item> \<open>Idempotency\<close> (\<^verbatim>\<open>core/idempotency.py\<close>): a request under a key, alone. \<open>Request_Races\<close>: requests as steps that
    interleave, fail or die, beside the nightly removal of expired keys (\<^verbatim>\<open>jobs/tasks/housekeeping.py\<close>). Two runs of one key are
    more than its lifetime apart, 30 days or 90 for billing; taken alone, the steps of a request come to the function of \<open>Idempotency\<close>.

  \<^bold>\<open>Workshop and fuel.\<close>
  \<^item> \<open>Workshop_Rows\<close>, \<open>Spare_Parts\<close>: the stock, whose balances are compared with the sum of their movements.
  \<^item> \<open>Workshop_Orders\<close>, \<open>Workshop_Quotes\<close>, \<open>Preventive\<close>, \<open>Workshop_Billing\<close>: requests, orders, tasks, tools,
    receptions, quotes, plans and invoices. \<open>Workshop_Life\<close>, \<open>Preventive_Facts\<close>, \<open>Workshop_Invoices\<close> prove
    over them: a work order follows one table through every operation that writes one, and holds its vehicle.
  \<^item> \<open>Fuel_Stock\<close> (\<^verbatim>\<open>fuel/operations.py\<close>): tanks as a ledger; every run of the operations refines it.

  \<^bold>\<open>The mobile field.\<close>
  \<^item> \<open>Field_Rows\<close> (the tables), \<open>Checklists\<close> (\<^verbatim>\<open>checklists/service.py\<close>): a checklist is completed exactly
    when every item of its template passed, and the exception of a failed one stays until it is resolved. \<open>Fuel_Logs\<close> (\<^verbatim>\<open>fuel/service.py\<close>): fills
    reported by drivers, and the distance between them.
  \<^item> \<open>Sync\<close> (\<^verbatim>\<open>sync/service.py\<close>): batches of operations recorded off line, each applied once through the services
    above; what reads the JSON of an operation is a record of functions given to it.

  \<^bold>\<open>Jobs.\<close>
  \<^item> \<open>Retry_Queue\<close> is the contract of a queue that retries what it sends; \<open>Outbox\<close> (\<^verbatim>\<open>outbox/service.py\<close>)
    and \<open>Notifications\<close> interpret it: spaced runs settle a table of any length. The sweeps of \<^verbatim>\<open>worker.py\<close> stand beside the tables they change.

  \<^bold>\<open>Bounds.\<close> No definition takes fuel: every loop of the modelled code runs over a finite list of
  rows. Two facts bound repeated runs: as long as the engine refers to cases by texts, an event of the outbox is
  posted at most six times, which six runs a day apart exhaust (one whose case is given as a number is posted at every
  run, without bound: \<open>numbered_case_blocks_outbox\<close>), and an e-mail is tried at most five times; paging through a history ends because each page
  leaves strictly fewer rows after its cursor (\<open>history_pages\<close>, with its termination proof).

  \<^bold>\<open>Idealisations.\<close> Primary keys are natural numbers from one counter in place of random UUIDs. Texts are
  ASCII. \<open>Decimal\<close> and \<open>float\<close> are rationals, rounded where the code or a column rounds them; a division of
  \<open>Decimal\<close>s is rounded at its 28 digits where a result depends on it. Foreign keys of given ids are assumed to hold.
  Every operation is atomic, as its transaction and row locks make it, except in \<open>Request_Races\<close>, where the
  interleaving is the subject; what the code does only when two sessions race (the answer to an operation of \<open>Sync\<close> whose key
  another session just stored, two registrations that both pass the limit of the plan) is left out elsewhere. The governance engine (\<^verbatim>\<open>src/governance-engine\<close>) is another program, spoken to over HTTP: its answers,
  those of the mail server, the digest of
  a request and of a pairing code, the readers of an operation's JSON in \<open>Sync\<close>, and the decoded cursor of a page are arguments of the functions.

  \<^bold>\<open>Not modelled.\<close> The routers, which check a permission and call a service; authentication and
  sessions; exporters, PDF files and object storage; the read-only queries of analytics and control
  tower; GPS and geographic queries the database runs; the governance engine and the front ends; migrations: the constraints
  modelled are those the model classes declare, and what migrations add or keep beside them is not (a unique constraint and a
  check on the maintenance schedules, for one); the listings that join many tables only to show them.
\<close>

end
